(* ===== verification/Prelude.thy ===== *)
theory Prelude
  imports Complex_Main "HOL-Library.Char_ord" "HOL-Library.List_Lexorder" "HOL-Library.Multiset"
begin

text \<open>
  The part of Python that the modelled components use, and the generic lemmas they share.

  \<^item> Exceptions are values: a fallible operation returns \<open>'a res = exn + 'a\<close>, with \<open>Inl\<close> for the
    raised exception; \<open>rbind\<close> is the propagation of an exception by the caller.
  \<^item> \<open>pyval\<close> is the type of the untyped (JSON-like) values that reach the program from outside: the
    arguments a language model chooses, tool results, evidence dictionaries. A \<open>dict\<close> is an
    association list in insertion order. Python's \<open>float\<close> is \<open>rat\<close>: every finite double is a
    rational, comparisons are exact, and rounding of arithmetic is not modelled.
  \<^item> A Python \<open>str\<close> is its UTF-8 encoding, a \<open>string\<close>. Equality, concatenation, \<open>in\<close>,
    \<open>startswith\<close> and the ordering of code points are those of the byte sequence; \<open>len\<close> and
    slicing count code points (\<open>u_len\<close>, \<open>u_take\<close>). \<open>lower\<close> and \<open>casefold\<close> fold the letters of
    ASCII, the alphabet of all the words the program looks for.
\<close>

section \<open>Exceptions as values\<close>

datatype exn = ValueError | TypeError | AttributeError | KeyError | IndexError | TimeoutError
  | OtherError string

type_synonym 'a res = "exn + 'a"

definition rbind :: "'a res \<Rightarrow> ('a \<Rightarrow> 'b res) \<Rightarrow> 'b res" where
  "rbind m f = (case m of Inl e \<Rightarrow> Inl e | Inr x \<Rightarrow> f x)"

section \<open>Untyped values\<close>

datatype pyval = PNone | PBool bool | PInt int | PFloat rat | PStr string
  | PList "pyval list" | PDict "(string \<times> pyval) list"

type_synonym pdict = "(string \<times> pyval) list"

text \<open>A log or reason text: the template and the values interpolated into it.\<close>

datatype message = NoMsg | Msg string "pyval list"

fun truthy :: "pyval \<Rightarrow> bool" where
  "truthy PNone = False"
| "truthy (PBool b) = b"
| "truthy (PInt i) = (i \<noteq> 0)"
| "truthy (PFloat r) = (r \<noteq> 0)"
| "truthy (PStr s) = (s \<noteq> [])"
| "truthy (PList xs) = (xs \<noteq> [])"
| "truthy (PDict d) = (d \<noteq> [])"

definition py_or :: "pyval \<Rightarrow> pyval \<Rightarrow> pyval" where
  "py_or a b = (if truthy a then a else b)"

text \<open>\<open>d.get(k, v)\<close>, \<open>d.get(k)\<close> and \<open>d[k] = v\<close>.\<close>

definition dget_or :: "('k \<times> 'v) list \<Rightarrow> 'k \<Rightarrow> 'v \<Rightarrow> 'v" where
  "dget_or d k v = (case map_of d k of None \<Rightarrow> v | Some w \<Rightarrow> w)"

abbreviation dget :: "pdict \<Rightarrow> string \<Rightarrow> pyval" where
  "dget d k \<equiv> dget_or d k PNone"

fun dset :: "('k \<times> 'v) list \<Rightarrow> 'k \<Rightarrow> 'v \<Rightarrow> ('k \<times> 'v) list" where
  "dset [] k v = [(k, v)]"
| "dset (p # d) k v = (if fst p = k then (k, v) # d else p # dset d k v)"

text \<open>\<open>arguments or {}\<close> where the value is already known to be a dictionary.\<close>

fun as_dict :: "pyval \<Rightarrow> pdict option" where
  "as_dict (PDict d) = Some d"
| "as_dict _ = None"

fun is_str :: "pyval \<Rightarrow> bool" where
  "is_str (PStr _) = True"
| "is_str _ = False"

text \<open>Python's \<open>==\<close>: numbers compare across \<open>bool\<close>, \<open>int\<close> and \<open>float\<close>; dictionaries compare
  without regard to the order of their keys.\<close>

fun num_of :: "pyval \<Rightarrow> rat option" where
  "num_of (PBool b) = Some (if b then 1 else 0)"
| "num_of (PInt i) = Some (of_int i)"
| "num_of (PFloat r) = Some r"
| "num_of _ = None"

fun py_eq :: "pyval \<Rightarrow> pyval \<Rightarrow> bool"
  and py_eq_list :: "pyval list \<Rightarrow> pyval list \<Rightarrow> bool"
  and py_eq_dict :: "pdict \<Rightarrow> pdict \<Rightarrow> bool" where
  "py_eq PNone w = (w = PNone)"
| "py_eq (PBool b) w = (num_of w = Some (if b then 1 else 0))"
| "py_eq (PInt i) w = (num_of w = Some (of_int i))"
| "py_eq (PFloat r) w = (num_of w = Some r)"
| "py_eq (PStr s) w = (w = PStr s)"
| "py_eq (PList xs) w = (case w of PList ys \<Rightarrow> py_eq_list xs ys | _ \<Rightarrow> False)"
| "py_eq (PDict d) w =
     (case w of PDict e \<Rightarrow> length d = length e \<and> py_eq_dict d e | _ \<Rightarrow> False)"
| "py_eq_list [] ys = (ys = [])"
| "py_eq_list (x # xs) ys =
     (case ys of [] \<Rightarrow> False | y # ys' \<Rightarrow> py_eq x y \<and> py_eq_list xs ys')"
| "py_eq_dict [] e = True"
| "py_eq_dict ((k, v) # d) e =
     (case map_of e k of None \<Rightarrow> False | Some w \<Rightarrow> py_eq v w \<and> py_eq_dict d e)"

definition py_in :: "pyval \<Rightarrow> pyval list \<Rightarrow> bool" where
  "py_in v xs = list_ex (\<lambda>w. py_eq v w) xs"

section \<open>Strings\<close>

definition is_cont :: "char \<Rightarrow> bool" where
  "is_cont c \<longleftrightarrow> digit7 c \<and> \<not> digit6 c"

definition u_len :: "string \<Rightarrow> nat" where
  "u_len s = length (filter (\<lambda>c. \<not> is_cont c) s)"

fun u_take :: "nat \<Rightarrow> string \<Rightarrow> string" where
  "u_take n [] = []"
| "u_take n (c # cs) =
     (if is_cont c then c # u_take n cs
      else if n = 0 then [] else c # u_take (n - 1) cs)"

text \<open>The single-code-point strings a Python \<open>str\<close> iterates over.\<close>

function u_chars :: "string \<Rightarrow> string list" where
  "u_chars [] = []"
| "u_chars (c # cs) = (c # takeWhile is_cont cs) # u_chars (dropWhile is_cont cs)"
  by pat_completeness auto
termination
  by (relation "measure length") (auto intro: le_imp_less_Suc length_dropWhile_le)

fun starts_with :: "string \<Rightarrow> string \<Rightarrow> bool" where
  "starts_with [] s = True"
| "starts_with (p # ps) [] = False"
| "starts_with (p # ps) (c # cs) = (p = c \<and> starts_with ps cs)"

text \<open>\<open>sub in s\<close>\<close>

fun contains :: "string \<Rightarrow> string \<Rightarrow> bool" where
  "contains sub [] = (sub = [])"
| "contains sub (c # cs) = (starts_with sub (c # cs) \<or> contains sub cs)"

definition upper_letters :: string where
  "upper_letters = ''ABCDEFGHIJKLMNOPQRSTUVWXYZ''"

definition lower_letters :: string where
  "lower_letters = ''abcdefghijklmnopqrstuvwxyz''"

definition lower_char :: "char \<Rightarrow> char" where
  "lower_char c = (case map_of (zip upper_letters lower_letters) c of None \<Rightarrow> c | Some d \<Rightarrow> d)"

definition lower :: "string \<Rightarrow> string" where
  "lower s = map lower_char s"

text \<open>The white space of \<open>str.strip\<close> and of the regular-expression class \<open>\\s\<close>: the code points
  09-0D, 1C-20, 85, A0, 1680, 2000-200A, 2028, 2029, 202F, 205F and 3000 in UTF-8.\<close>

definition ws_points :: "string list" where
  "ws_points =
     [[CHR 0x09], [CHR 0x0A], [CHR 0x0B], [CHR 0x0C], [CHR 0x0D],
      [CHR 0x1C], [CHR 0x1D], [CHR 0x1E], [CHR 0x1F], [CHR 0x20],
      [CHR 0xC2, CHR 0x85], [CHR 0xC2, CHR 0xA0], [CHR 0xE1, CHR 0x9A, CHR 0x80],
      [CHR 0xE2, CHR 0x80, CHR 0x80], [CHR 0xE2, CHR 0x80, CHR 0x81], [CHR 0xE2, CHR 0x80, CHR 0x82],
      [CHR 0xE2, CHR 0x80, CHR 0x83], [CHR 0xE2, CHR 0x80, CHR 0x84], [CHR 0xE2, CHR 0x80, CHR 0x85],
      [CHR 0xE2, CHR 0x80, CHR 0x86], [CHR 0xE2, CHR 0x80, CHR 0x87], [CHR 0xE2, CHR 0x80, CHR 0x88],
      [CHR 0xE2, CHR 0x80, CHR 0x89], [CHR 0xE2, CHR 0x80, CHR 0x8A], [CHR 0xE2, CHR 0x80, CHR 0xA8],
      [CHR 0xE2, CHR 0x80, CHR 0xA9], [CHR 0xE2, CHR 0x80, CHR 0xAF], [CHR 0xE2, CHR 0x81, CHR 0x9F],
      [CHR 0xE3, CHR 0x80, CHR 0x80]]"

text \<open>The length in bytes of the longest white-space point at the front, 0 if there is none; the
  points of the table are prefix-free, so there is at most one.\<close>

definition ws_front :: "string list \<Rightarrow> string \<Rightarrow> nat" where
  "ws_front ws s = (case filter (\<lambda>w. starts_with w s) ws of [] \<Rightarrow> 0 | w # _ \<Rightarrow> length w)"

function strip_front :: "string list \<Rightarrow> string \<Rightarrow> string" where
  "strip_front ws s =
     (let n = ws_front ws s in if n = 0 \<or> s = [] then s else strip_front ws (drop n s))"
  by pat_completeness auto
termination
  by (relation "measure (\<lambda>(ws, s). length s)") auto

declare strip_front.simps [simp del]

definition lstrip :: "string \<Rightarrow> string" where
  "lstrip s = strip_front ws_points s"

definition strip :: "string \<Rightarrow> string" where
  "strip s = rev (strip_front (map rev ws_points) (rev (lstrip s)))"

text \<open>\<open>re.search(r"\\bkw\\b", s)\<close> for an ASCII word \<open>kw\<close>: an occurrence with no word character on
  either side. A code point beyond ASCII counts as a word character.\<close>

definition is_word :: "char \<Rightarrow> bool" where
  "is_word c \<longleftrightarrow>
     digit7 c \<or> c \<in> set lower_letters \<or> c \<in> set upper_letters \<or> c \<in> set ''0123456789_''"

fun word_search :: "bool \<Rightarrow> string \<Rightarrow> string \<Rightarrow> bool" where
  "word_search before kw [] = False"
| "word_search before kw (c # cs) =
     ((\<not> before \<and> starts_with kw (c # cs) \<and>
        (case drop (length kw) (c # cs) of [] \<Rightarrow> True | d # _ \<Rightarrow> \<not> is_word d))
      \<or> word_search (is_word c) kw cs)"

definition contains_word :: "string \<Rightarrow> string \<Rightarrow> bool" where
  "contains_word kw s = word_search False kw s"

text \<open>Iteration over a value (\<open>for x in v\<close>, \<open>list(v)\<close>).\<close>

fun py_iter :: "pyval \<Rightarrow> pyval list res" where
  "py_iter (PList xs) = Inr xs"
| "py_iter (PStr s) = Inr (map PStr (u_chars s))"
| "py_iter (PDict d) = Inr (map (\<lambda>p. PStr (fst p)) d)"
| "py_iter _ = Inl TypeError"

text \<open>\<open>v.strip()\<close>: only a \<open>str\<close> has the method.\<close>

fun py_strip :: "pyval \<Rightarrow> string res" where
  "py_strip (PStr s) = Inr (strip s)"
| "py_strip _ = Inl AttributeError"

text \<open>\<open>str(v)\<close>: a \<open>str\<close> is itself; the rendering of every other value is the argument \<open>show_py\<close>.\<close>

fun py_str :: "(pyval \<Rightarrow> string) \<Rightarrow> pyval \<Rightarrow> string" where
  "py_str show_py (PStr s) = s"
| "py_str show_py v = show_py v"

text \<open>A number where the code compares or adds; Python raises for other types.\<close>

fun number_or_raise :: "pyval \<Rightarrow> rat res" where
  "number_or_raise v = (case num_of v of None \<Rightarrow> Inl TypeError | Some r \<Rightarrow> Inr r)"

fun numbers :: "pyval list \<Rightarrow> rat list res" where
  "numbers [] = Inr []"
| "numbers (v # vs) = rbind (number_or_raise v) (\<lambda>r. rbind (numbers vs) (\<lambda>rs. Inr (r # rs)))"

text \<open>Only a hashable value can be put into a set.\<close>

fun hashable :: "pyval \<Rightarrow> bool" where
  "hashable (PList _) = False"
| "hashable (PDict _) = False"
| "hashable _ = True"

text \<open>\<open>float(v)\<close>; the reading of a string is the argument \<open>float_of_str\<close>.\<close>

fun py_float :: "(string \<Rightarrow> rat res) \<Rightarrow> pyval \<Rightarrow> rat res" where
  "py_float float_of_str (PBool b) = Inr (if b then 1 else 0)"
| "py_float float_of_str (PInt i) = Inr (of_int i)"
| "py_float float_of_str (PFloat r) = Inr r"
| "py_float float_of_str (PStr s) = float_of_str s"
| "py_float float_of_str _ = Inl TypeError"

text \<open>A fallible operation on every element of a list, in order.\<close>

fun all_res :: "('a \<Rightarrow> 'b res) \<Rightarrow> 'a list \<Rightarrow> 'b list res" where
  "all_res f [] = Inr []"
| "all_res f (x # xs) = rbind (f x) (\<lambda>y. rbind (all_res f xs) (\<lambda>ys. Inr (y # ys)))"

text \<open>A list of dictionaries.\<close>

fun dict_of :: "pyval \<Rightarrow> pdict res" where
  "dict_of (PDict d) = Inr d"
| "dict_of _ = Inl TypeError"

fun dict_list :: "pyval \<Rightarrow> pdict list res" where
  "dict_list (PList xs) = all_res dict_of xs"
| "dict_list _ = Inl TypeError"

section \<open>Shared lemmas\<close>

lemma rbind_Inr [simp]: "rbind (Inr x) f = f x"
  by (simp add: rbind_def)

lemma rbind_Inl [simp]: "rbind (Inl e) f = Inl e"
  by (simp add: rbind_def)

lemma rbind_eq_Inr_iff: "rbind m f = Inr y \<longleftrightarrow> (\<exists>x. m = Inr x \<and> f x = Inr y)"
  by (cases m) auto

lemma py_or_truthy [simp]: "truthy a \<Longrightarrow> py_or a b = a" "\<not> truthy a \<Longrightarrow> py_or a b = b"
  by (simp_all add: py_or_def)

lemma all_res_map: "(\<And>x. f (g x) = Inr x) \<Longrightarrow> all_res f (map g xs) = Inr xs"
  by (induction xs) simp_all

lemma all_res_Inr_iff: "all_res f xs = Inr ys \<longleftrightarrow> list_all2 (\<lambda>x y. f x = Inr y) xs ys"
  by (induction xs arbitrary: ys) (auto simp: rbind_eq_Inr_iff list_all2_Cons1)

subsection \<open>Dictionaries\<close>

lemma map_of_dset [simp]: "map_of (dset d k v) = (map_of d)(k \<mapsto> v)"
  by (induction d) auto

lemma dom_dset: "fst ` set (dset d k v) = insert k (fst ` set d)"
  by (induction d) auto

lemma distinct_dset [simp]: "distinct (map fst d) \<Longrightarrow> distinct (map fst (dset d k v))"
  by (induction d) (simp_all add: dom_dset, metis)

lemma dget_or_dset [simp]: "dget_or (dset d k v) k' w = (if k' = k then v else dget_or d k' w)"
  by (simp add: dget_or_def)

lemma dget_or_Nil [simp]: "dget_or [] k v = v"
  by (simp add: dget_or_def)

lemma dget_or_Cons [simp]: "dget_or ((k', w) # d) k v = (if k = k' then w else dget_or d k v)"
  by (simp add: dget_or_def)

subsection \<open>Strings\<close>

lemma starts_with_iff: "starts_with p s \<longleftrightarrow> (\<exists>q. s = p @ q)"
  by (induction p s rule: starts_with.induct) auto

lemma contains_iff: "contains sub s \<longleftrightarrow> (\<exists>p q. s = p @ sub @ q)"
proof (induction s)
  case Nil
  then show ?case by auto
next
  case (Cons c cs)
  have "(\<exists>p q. c # cs = p @ sub @ q) \<longleftrightarrow> (\<exists>q. c # cs = sub @ q) \<or> (\<exists>p q. cs = p @ sub @ q)"
    by (metis append_Cons append_Nil list.exhaust list.inject)
  with Cons show ?case by (simp add: starts_with_iff)
qed

lemma word_search_contains: "word_search b kw s \<Longrightarrow> contains kw s"
  by (induction b kw s rule: word_search.induct) auto

lemma contains_word_contains: "contains_word kw s \<Longrightarrow> contains kw s"
  unfolding contains_word_def by (rule word_search_contains)

lemma u_len_Nil [simp]: "u_len [] = 0"
  by (simp add: u_len_def)

lemma u_len_Cons: "u_len (c # cs) = (if is_cont c then u_len cs else Suc (u_len cs))"
  by (simp add: u_len_def)

lemma u_len_append [simp]: "u_len (s @ t) = u_len s + u_len t"
  by (simp add: u_len_def)

lemma u_len_take: "u_len (u_take n s) = min n (u_len s)"
  by (induction n s rule: u_take.induct) (auto simp: u_len_Cons)

lemma u_take_all: "u_len s \<le> n \<Longrightarrow> u_take n s = s"
  by (induction n s rule: u_take.induct) (auto simp: u_len_Cons split: if_splits)

lemma u_take_prefix: "\<exists>t. s = u_take n s @ t"
  by (induction n s rule: u_take.induct) auto

end
