(* ===== verification/Interfaces.thy ===== *)
theory Interfaces
  imports Prelude
begin

text \<open>
  The contracts the components rely on, each stated once as a locale with the lemmas its clients
  use. Every locale is interpreted on the model's own operations in the theory that provides them.

  \<^item> \<open>guarded_counter\<close>: a step relation in which every step is guarded by \<open>cnt < lim\<close> and moves the
    counter by at most one; the counter never passes its limit. \<open>spending_counter\<close> adds that every
    step spends a unit, which bounds the length of every run.
  \<^item> \<open>step_machine\<close>: a transition function with an invariant; runs keep the invariant.
  \<^item> \<open>inductive_invariant\<close>: a step relation with start states and a predicate that every step keeps;
    it holds of everything reachable.
  \<^item> \<open>ordered_rules\<close>: rules tried in order, the first match decides.
\<close>

section \<open>Counters under a limit\<close>

locale guarded_counter =
  fixes step :: "'s \<Rightarrow> 's \<Rightarrow> bool"
    and cnt :: "'s \<Rightarrow> int"
    and lim :: "'s \<Rightarrow> int"
  assumes step_guard: "step s t \<Longrightarrow> cnt s < lim s"
    and step_cnt: "step s t \<Longrightarrow> cnt t \<le> cnt s + 1"
    and step_lim: "step s t \<Longrightarrow> lim t = lim s"
begin

lemma run_lim: "step\<^sup>*\<^sup>* s t \<Longrightarrow> lim t = lim s"
  by (induction rule: rtranclp_induct) (auto dest: step_lim)

lemma run_within:
  assumes "step\<^sup>*\<^sup>* s t" and "cnt s \<le> lim s"
  shows "cnt t \<le> lim t"
  using assms
proof (induction rule: rtranclp_induct)
  case base
  then show ?case .
next
  case (step t u)
  then show ?case
    using step_guard [of t u] step_cnt [of t u] step_lim [of t u] by linarith
qed

end

locale spending_counter = guarded_counter +
  assumes step_spends: "step s t \<Longrightarrow> cnt t = cnt s + 1"
begin

lemma run_length: "(step ^^ n) s t \<Longrightarrow> cnt t = cnt s + int n \<and> lim t = lim s"
proof (induction n arbitrary: t)
  case 0
  then show ?case by simp
next
  case (Suc n)
  then obtain u where u: "(step ^^ n) s u" "step u t" by auto
  from Suc.IH [OF u(1)] step_spends [OF u(2)] step_lim [OF u(2)] show ?case by simp
qed

lemma run_length_bound:
  assumes "(step ^^ n) s t" and "0 < n"
  shows "int n \<le> lim s - cnt s"
proof -
  from \<open>0 < n\<close> obtain m where m: "n = Suc m" by (cases n) auto
  with assms(1) obtain u where u: "(step ^^ m) s u" "step u t" by auto
  from run_length [OF u(1)] step_guard [OF u(2)] m show ?thesis by simp
qed

lemma step_measure: "step s t \<Longrightarrow> nat (lim t - cnt t) < nat (lim s - cnt s)"
  using step_guard [of s t] step_spends [of s t] step_lim [of s t] by simp

end

section \<open>Transition functions with an invariant\<close>

primrec run_ops :: "('s \<Rightarrow> 'o \<Rightarrow> 's) \<Rightarrow> 's \<Rightarrow> 'o list \<Rightarrow> 's" where
  "run_ops f s [] = s"
| "run_ops f s (x # xs) = run_ops f (f s x) xs"

lemma run_ops_append: "run_ops f s (xs @ ys) = run_ops f (run_ops f s xs) ys"
  by (induction xs arbitrary: s) auto

locale step_machine =
  fixes apply_op :: "'s \<Rightarrow> 'o \<Rightarrow> 's"
    and inv :: "'s \<Rightarrow> bool"
  assumes inv_step: "inv s \<Longrightarrow> inv (apply_op s x)"
begin

lemma inv_run: "inv s \<Longrightarrow> inv (run_ops apply_op s xs)"
  by (induction xs arbitrary: s) (auto intro: inv_step)

end

text \<open>A machine whose operations move a status along the edges of a fixed relation, or leave it.\<close>

locale status_machine =
  fixes apply_op :: "'s \<Rightarrow> 'o \<Rightarrow> 's"
    and status :: "'s \<Rightarrow> 'st"
    and edge :: "'st \<Rightarrow> 'st \<Rightarrow> bool"
  assumes status_step: "status (apply_op s x) = status s \<or> edge (status s) (status (apply_op s x))"
begin

lemma run_status: "edge\<^sup>*\<^sup>* (status s) (status (run_ops apply_op s xs))"
proof (induction xs arbitrary: s)
  case Nil
  then show ?case by simp
next
  case (Cons x xs)
  have "edge\<^sup>*\<^sup>* (status s) (status (apply_op s x))"
    using status_step [of s x] by auto
  with Cons.IH [of "apply_op s x"] show ?case by simp
qed

lemma closed_run:
  assumes closed: "\<And>a b. a \<in> A \<Longrightarrow> edge a b \<Longrightarrow> b \<in> A" and "status s \<in> A"
  shows "status (run_ops apply_op s xs) \<in> A"
proof -
  have "edge\<^sup>*\<^sup>* (status s) b \<Longrightarrow> b \<in> A" for b
    by (induction rule: rtranclp_induct) (use assms in auto)
  then show ?thesis using run_status by blast
qed

end

section \<open>Invariants of a step relation\<close>

locale inductive_invariant =
  fixes start :: "'s \<Rightarrow> bool"
    and step :: "'s \<Rightarrow> 's \<Rightarrow> bool"
    and inv :: "'s \<Rightarrow> bool"
  assumes start_inv: "start s \<Longrightarrow> inv s"
    and step_inv: "step s t \<Longrightarrow> inv s \<Longrightarrow> inv t"
begin

lemma run_inv: "step\<^sup>*\<^sup>* s t \<Longrightarrow> inv s \<Longrightarrow> inv t"
  by (induction rule: rtranclp_induct) (auto dest: step_inv)

lemma reachable_inv: "start s \<Longrightarrow> step\<^sup>*\<^sup>* s t \<Longrightarrow> inv t"
  by (blast intro: run_inv start_inv)

end

section \<open>Rules tried in order\<close>

primrec first_match :: "('r \<Rightarrow> bool) \<Rightarrow> 'r list \<Rightarrow> 'r option" where
  "first_match P [] = None"
| "first_match P (r # rs) = (if P r then Some r else first_match P rs)"

lemma first_match_Some_iff:
  "first_match P rs = Some r \<longleftrightarrow>
     (\<exists>xs ys. rs = xs @ r # ys \<and> P r \<and> (\<forall>x \<in> set xs. \<not> P x))"
proof (induction rs)
  case Nil
  then show ?case by simp
next
  case (Cons a rs)
  show ?case
  proof (cases "P a")
    case True
    then show ?thesis by (auto simp: Cons_eq_append_conv)
  next
    case False
    have "(\<exists>xs ys. a # rs = xs @ r # ys \<and> P r \<and> (\<forall>x \<in> set xs. \<not> P x)) \<longleftrightarrow>
        (\<exists>xs ys. rs = xs @ r # ys \<and> P r \<and> (\<forall>x \<in> set xs. \<not> P x))" (is "?L \<longleftrightarrow> ?R")
    proof
      assume ?L
      with False show ?R by (fastforce simp: Cons_eq_append_conv)
    next
      assume ?R
      then obtain xs ys where "rs = xs @ r # ys" "P r" "\<forall>x \<in> set xs. \<not> P x" by blast
      with False have "a # rs = (a # xs) @ r # ys \<and> P r \<and> (\<forall>x \<in> set (a # xs). \<not> P x)" by simp
      then show ?L by blast
    qed
    with Cons False show ?thesis by simp
  qed
qed

lemma first_match_None_iff: "first_match P rs = None \<longleftrightarrow> (\<forall>r \<in> set rs. \<not> P r)"
  by (induction rs) auto

locale ordered_rules =
  fixes matches :: "'x \<Rightarrow> 'r \<Rightarrow> bool"
    and catch_all :: "'r \<Rightarrow> bool"
  assumes catch_all_matches: "catch_all r \<Longrightarrow> matches x r"
begin

lemma decided:
  assumes "\<exists>r \<in> set rs. catch_all r"
  obtains r where "first_match (matches x) rs = Some r"
  using assms catch_all_matches first_match_None_iff [of "matches x" rs] by fastforce

lemma catch_all_last:
  assumes "first_match (matches x) (rs @ [d]) = Some r" and "\<forall>q \<in> set rs. \<not> matches x q"
    and "catch_all d"
  shows "r = d"
proof -
  from assms(2) have "first_match (matches x) (rs @ [d]) = first_match (matches x) [d]"
    by (induction rs) auto
  with assms(1,3) catch_all_matches show ?thesis by simp
qed

end

end
