(* ===== verification/Dag_Scheduler.thy ===== *)
theory Dag_Scheduler
  imports Interfaces
begin

text \<open>
  The plan executor's scheduler (\<open>agent/langgraph/executor/dag_scheduler.py\<close>) and dispatcher
  (\<open>executor/tool_dispatcher.py\<close>) over the plan steps of \<open>routers/models.py\<close>. A plan is cut into
  layers; the steps of a layer run concurrently, all with the results of the earlier layers. A
  \<open>ToolResult\<close> is a plain dictionary. The registered tool adapters are the argument \<open>registry\<close>:
  what the adapter of a tool answers for a step, the state and the earlier results (after
  \<open>to_state_fields\<close>); \<open>str()\<close> of an exception is \<open>show_exn\<close> and \<open>latency\<close> the measured time.
\<close>

section \<open>Plans\<close>

record plan_step =
  ps_step_id :: string
  ps_tool :: string
  ps_args :: pdict
  ps_depends_on :: "string list"
  ps_can_parallel :: bool
  ps_description :: string

record execution_plan =
  ep_plan_id :: pyval
  ep_steps :: "plan_step list"
  ep_estimated_tokens :: pyval
  ep_fallback_strategy :: pyval

abbreviation ids :: "plan_step list \<Rightarrow> string set" where
  "ids xs \<equiv> ps_step_id ` set xs"

section \<open>Topological layers\<close>

definition ready :: "string set \<Rightarrow> plan_step \<Rightarrow> bool" where
  "ready completed s = list_all (\<lambda>dep. dep \<in> completed) (ps_depends_on s)"

lemma fold_remove1_filter: "fold remove1 (filter P xs) xs = filter (\<lambda>x. \<not> P x) xs"
proof (induction xs)
  case Nil
  then show ?case by simp
next
  case (Cons x xs)
  have "x \<notin> set ys \<Longrightarrow> fold remove1 ys (x # zs) = x # fold remove1 ys zs" for ys zs
    by (induction ys arbitrary: zs) auto
  with Cons show ?case by simp
qed

text \<open>The \<open>while remaining\<close> loop; the error of the model is the \<open>ValueError\<close> for a layer that would be
  empty. Removing the steps of the layer one by one is \<open>fold remove1\<close>.\<close>

function layers_from :: "string set \<Rightarrow> plan_step list \<Rightarrow> plan_step list list res" where
  "layers_from completed remaining =
     (if remaining = [] then Inr []
      else
        (let current_layer = filter (ready completed) remaining in
         if current_layer = [] then Inl ValueError
         else rbind (layers_from (completed \<union> ids current_layer) (fold remove1 current_layer remaining))
                (\<lambda>ls. Inr (current_layer # ls))))"
  by pat_completeness auto
termination
proof (relation "measure (\<lambda>(completed, remaining). length remaining)")
  fix completed :: "string set" and remaining :: "plan_step list" and current
  assume "remaining \<noteq> []" and "current = filter (ready completed) remaining" and "current \<noteq> []"
  then have "length (filter (\<lambda>x. \<not> ready completed x) remaining) < length remaining"
    by (metis (mono_tags, lifting) filter_False length_filter_less filter_empty_conv)
  then show "((completed \<union> ids current, fold remove1 current remaining), completed, remaining)
      \<in> measure (\<lambda>(completed, remaining). length remaining)"
    using \<open>current = _\<close> by (simp add: fold_remove1_filter)
qed simp

declare layers_from.simps [simp del]

definition topological_layers :: "plan_step list \<Rightarrow> plan_step list list res" where
  "topological_layers steps = layers_from {} steps"

section \<open>Dispatch and execution\<close>

record tool_context =
  tx_tenant_id :: pyval
  tx_kb_ids :: pyval
  tx_llm_id :: pyval
  tx_query_lang :: pyval
  tx_agent_config :: pyval

record dispatch_env =
  de_registry :: "string \<Rightarrow> plan_step \<Rightarrow> pdict \<Rightarrow> (string \<times> pdict) list \<Rightarrow> tool_context \<Rightarrow> pdict res"
  de_show_exn :: "exn \<Rightarrow> string"
  de_latency :: "plan_step \<Rightarrow> int"

definition dispatch ::
    "dispatch_env \<Rightarrow> plan_step \<Rightarrow> pdict \<Rightarrow> (string \<times> pdict) list \<Rightarrow> pdict" where
  "dispatch env step state previous_results =
     (let ctx = \<lparr>tx_tenant_id = dget_or state ''tenant_id'' (PStr []),
                 tx_kb_ids = dget_or state ''kb_ids'' (PList []),
                 tx_llm_id = dget_or state ''llm_id'' (PStr []),
                 tx_query_lang = dget_or state ''query_lang'' (PStr ''zh_CN''),
                 tx_agent_config = py_or (dget_or state ''agent_config'' (PDict [])) (PDict [])\<rparr>
      in case de_registry env (ps_tool step) step state previous_results ctx of
           Inl e \<Rightarrow>
             [(''step_id'', PStr (ps_step_id step)), (''tool'', PStr (ps_tool step)),
              (''success'', PBool False), (''error'', PStr (de_show_exn env e)),
              (''error_code'', PStr ''TOOL_EXECUTION_FAILED''), (''latency_ms'', PInt (de_latency env step))]
         | Inr result \<Rightarrow>
             (let success = truthy (dget_or result ''success'' (PBool True));
                  r1 = dset result ''step_id'' (PStr (ps_step_id step));
                  r2 = dset r1 ''tool'' (PStr (ps_tool step));
                  r3 = dset r2 ''success'' (PBool success)
              in dset r3 ''latency_ms'' (py_or (dget r3 ''latency_ms'') (PInt (de_latency env step)))))"

text \<open>\<open>_execute_step\<close>; an exception would reach \<open>asyncio.gather\<close> as a value.\<close>

definition execute_step ::
    "dispatch_env \<Rightarrow> pdict \<Rightarrow> (string \<times> pdict) list \<Rightarrow> plan_step \<Rightarrow> pdict res" where
  "execute_step env state previous_results step = Inr (dispatch env step state previous_results)"

definition collect ::
    "dispatch_env \<Rightarrow> (string \<times> pdict) list \<Rightarrow> plan_step \<times> pdict res \<Rightarrow> (string \<times> pdict) list" where
  "collect env results p =
     (case p of (step, r) \<Rightarrow>
        dset results (ps_step_id step)
          (case r of
             Inl e \<Rightarrow> [(''step_id'', PStr (ps_step_id step)), (''tool'', PStr (ps_tool step)),
                       (''success'', PBool False), (''error'', PStr (de_show_exn env e))]
           | Inr result \<Rightarrow> result))"

definition run_layer ::
    "dispatch_env \<Rightarrow> pdict \<Rightarrow> (string \<times> pdict) list \<Rightarrow> plan_step list \<Rightarrow> (string \<times> pdict) list" where
  "run_layer env state results layer =
     foldl (collect env) results (zip layer (map (execute_step env state results) layer))"

definition execute_plan :: "dispatch_env \<Rightarrow> execution_plan \<Rightarrow> pdict \<Rightarrow> pdict list res" where
  "execute_plan env plan state =
     rbind (topological_layers (ep_steps plan)) (\<lambda>layers.
       Inr (map snd (foldl (run_layer env state) [] layers)))"

section \<open>What the layers are\<close>

lemma ready_iff: "ready C s \<longleftrightarrow> set (ps_depends_on s) \<subseteq> C"
  by (auto simp: ready_def list_all_iff)

lemma layers_from_Nil [simp]: "layers_from C [] = Inr []"
  by (simp add: layers_from.simps)

lemma layers_from_step:
  "xs \<noteq> [] \<Longrightarrow> layers_from C xs =
     (let cur = filter (ready C) xs in
      if cur = [] then Inl ValueError
      else rbind (layers_from (C \<union> ids cur) (filter (\<lambda>x. \<not> ready C x) xs)) (\<lambda>ls. Inr (cur # ls)))"
  by (subst layers_from.simps) (simp add: fold_remove1_filter Let_def)

text \<open>A list of steps is in order after \<open>C\<close> when every step's dependencies are in \<open>C\<close> or before it.\<close>

fun in_order :: "string set \<Rightarrow> plan_step list \<Rightarrow> bool" where
  "in_order C [] = True"
| "in_order C (s # ss) = (set (ps_depends_on s) \<subseteq> C \<and> in_order (insert (ps_step_id s) C) ss)"

lemma in_order_mono: "in_order C xs \<Longrightarrow> C \<subseteq> D \<Longrightarrow> in_order D xs"
proof (induction C xs arbitrary: D rule: in_order.induct)
  case (2 C s ss)
  then have "insert (ps_step_id s) C \<subseteq> insert (ps_step_id s) D" by blast
  with 2 show ?case by auto
qed simp

lemma in_order_append: "in_order C (xs @ ys) \<longleftrightarrow> in_order C xs \<and> in_order (C \<union> ids xs) ys"
  by (induction xs arbitrary: C) auto

lemma in_order_ready: "\<forall>s \<in> set xs. ready C s \<Longrightarrow> in_order C xs"
proof (induction xs arbitrary: C)
  case (Cons x xs)
  then have "\<forall>s \<in> set xs. ready (insert (ps_step_id x) C) s" by (auto simp: ready_iff)
  with Cons show ?case by (auto simp: ready_iff)
qed simp

lemma layers_from_sound:
  "layers_from C xs = Inr ls \<Longrightarrow>
     mset (concat ls) = mset xs \<and> in_order C (concat ls) \<and> (\<forall>l \<in> set ls. l \<noteq> [])"
proof (induction C xs arbitrary: ls rule: layers_from.induct)
  case (1 C xs)
  show ?case
  proof (cases "xs = []")
    case True
    with "1.prems" show ?thesis by simp
  next
    case False
    let ?cur = "filter (ready C) xs" and ?rest = "filter (\<lambda>x. \<not> ready C x) xs"
    obtain ls' where ls': "layers_from (C \<union> ids ?cur) ?rest = Inr ls'" "ls = ?cur # ls'" "?cur \<noteq> []"
      using "1.prems" False
      by (auto simp: layers_from_step rbind_eq_Inr_iff Let_def split: if_splits)
    then have IH: "mset (concat ls') = mset ?rest" "in_order (C \<union> ids ?cur) (concat ls')"
      "\<forall>l \<in> set ls'. l \<noteq> []"
      using "1.IH" [OF False refl ls'(3), of ls'] by (simp_all add: fold_remove1_filter)
    have "in_order C (concat ls)"
      using IH(2) ls'(2) by (simp add: in_order_append in_order_ready)
    moreover have "mset (concat ls) = mset xs"
      using IH(1) ls'(2) by (simp add: multiset_partition [symmetric])
    ultimately show ?thesis using IH(3) ls'(2,3) by simp
  qed
qed

lemma in_order_filter:
  assumes "in_order C xs" and "C \<union> ids (filter P xs) \<subseteq> D"
  shows "in_order D (filter (\<lambda>x. \<not> P x) xs)"
  using assms
proof (induction C xs arbitrary: D rule: in_order.induct)
  case (2 C s ss)
  show ?case
  proof (cases "P s")
    case True
    with 2 show ?thesis by (auto intro!: "2.IH")
  next
    case False
    have "in_order (insert (ps_step_id s) D) (filter (\<lambda>x. \<not> P x) ss)"
      using "2.prems" False by (intro "2.IH") auto
    with "2.prems" False show ?thesis by auto
  qed
qed simp

lemma layers_from_complete:
  assumes "mset ys = mset xs" and "in_order C ys"
  shows "\<exists>ls. layers_from C xs = Inr ls"
  using assms
proof (induction C xs arbitrary: ys rule: layers_from.induct)
  case (1 C xs)
  show ?case
  proof (cases "xs = []")
    case False
    let ?cur = "filter (ready C) xs" and ?rest = "filter (\<lambda>x. \<not> ready C x) xs"
    from False "1.prems" obtain y ys' where ys: "ys = y # ys'" by (cases ys) auto
    then have "y \<in> set ?cur" using "1.prems" mset_eq_setD by (fastforce simp: ready_iff)
    then have cur: "?cur \<noteq> []" by (cases ?cur) auto
    have "mset (filter (\<lambda>x. \<not> ready C x) ys) = mset ?rest"
      using "1.prems"(1) by (metis mset_filter)
    moreover have "in_order (C \<union> ids ?cur) (filter (\<lambda>x. \<not> ready C x) ys)"
      using "1.prems" by (intro in_order_filter) (auto dest: mset_eq_setD)
    ultimately obtain ls where "layers_from (C \<union> ids ?cur) ?rest = Inr ls"
      using "1.IH" [OF False refl cur, of "filter (\<lambda>x. \<not> ready C x) ys"]
      by (auto simp: fold_remove1_filter)
    with False cur show ?thesis by (simp add: layers_from_step Let_def)
  qed simp
qed

lemma layers_from_Cons:
  assumes "layers_from C xs = Inr (l # ls)"
  shows "l = filter (ready C) xs" and "layers_from (C \<union> ids l) (filter (\<lambda>x. \<not> ready C x) xs) = Inr ls"
proof -
  have ne: "xs \<noteq> []" using assms by auto
  show "l = filter (ready C) xs" "layers_from (C \<union> ids l) (filter (\<lambda>x. \<not> ready C x) xs) = Inr ls"
    using assms ne by (auto simp: layers_from_step rbind_eq_Inr_iff Let_def split: if_splits)
qed

lemma ids_take_iff:
  assumes "k \<le> length ls"
  shows "d \<in> ids (concat (take k ls)) \<longleftrightarrow> (\<exists>j < k. \<exists>t \<in> set (ls ! j). ps_step_id t = d)"
proof -
  have "set (take k ls) = (!) ls ` {0..<k}" using nth_image [OF assms] by simp
  then have "set (concat (take k ls)) = (\<Union>j \<in> {0..<k}. set (ls ! j))" by (simp add: set_concat)
  then show ?thesis by (force simp: image_iff)
qed

lemma layers_deps_before:
  "layers_from C xs = Inr ls \<Longrightarrow> k < length ls \<Longrightarrow> s \<in> set (ls ! k) \<Longrightarrow>
     set (ps_depends_on s) \<subseteq> C \<union> ids (concat (take k ls))"
proof (induction ls arbitrary: C xs k)
  case (Cons l ls)
  show ?case
  proof (cases k)
    case 0
    with Cons.prems layers_from_Cons(1) [OF Cons.prems(1)] show ?thesis by (auto simp: ready_iff)
  next
    case (Suc j)
    with Cons.IH [OF layers_from_Cons(2) [OF Cons.prems(1)], of j] Cons.prems
    show ?thesis by (auto simp: image_Un)
  qed
qed simp

lemma layers_rest_not_ready:
  assumes "layers_from C xs = Inr (l # ls)" and "s \<in> set (concat ls)"
  shows "\<not> set (ps_depends_on s) \<subseteq> C"
proof -
  have "mset (concat ls) = mset (filter (\<lambda>x. \<not> ready C x) xs)"
    using layers_from_sound [OF layers_from_Cons(2) [OF assms(1)]] by simp
  with assms(2) have "s \<in> set (filter (\<lambda>x. \<not> ready C x) xs)" by (metis mset_eq_setD)
  then show ?thesis by (simp add: ready_iff)
qed

lemma layers_earliest:
  "layers_from C xs = Inr ls \<Longrightarrow> Suc k < length ls \<Longrightarrow> s \<in> set (ls ! Suc k) \<Longrightarrow>
     \<not> set (ps_depends_on s) \<subseteq> C \<union> ids (concat (take k ls))"
proof (induction ls arbitrary: C xs k)
  case (Cons l ls)
  show ?case
  proof (cases k)
    case 0
    with Cons.prems have "s \<in> set (ls ! 0)" "ls \<noteq> []" by auto
    then have "s \<in> set (concat ls)" by (cases ls) auto
    with layers_rest_not_ready [OF Cons.prems(1)] 0 show ?thesis by auto
  next
    case (Suc j)
    with Cons.IH [OF layers_from_Cons(2) [OF Cons.prems(1)], of j] Cons.prems
    show ?thesis by (auto simp: image_Un Un_assoc)
  qed
qed simp

text \<open>C31: when the scheduler accepts a plan, its layers contain exactly the steps of the plan, each as
  often as the plan lists it, no layer is empty, and every dependency of a step is the identifier of a
  step in a strictly earlier layer.\<close>

theorem layers_respect_dependencies:
  assumes "topological_layers steps = Inr ls"
  shows "mset (concat ls) = mset steps \<and> (\<forall>l \<in> set ls. l \<noteq> [])
    \<and> (\<forall>k < length ls. \<forall>s \<in> set (ls ! k). \<forall>dep \<in> set (ps_depends_on s).
         \<exists>j < k. \<exists>t \<in> set (ls ! j). ps_step_id t = dep)"
proof -
  have a: "layers_from {} steps = Inr ls" using assms by (simp add: topological_layers_def)
  have "\<exists>j < k. \<exists>t \<in> set (ls ! j). ps_step_id t = dep"
    if "k < length ls" "s \<in> set (ls ! k)" "dep \<in> set (ps_depends_on s)" for k s dep
    using layers_deps_before [OF a that(1,2)] that(1,3) ids_take_iff [of k ls dep] by auto
  with layers_from_sound [OF a] show ?thesis by simp
qed

text \<open>The layers are as early, and so as parallel, as the dependencies allow: no step could have run
  one layer sooner, since one of its dependencies is produced by no layer before the previous one.\<close>

theorem layers_are_earliest:
  assumes "topological_layers steps = Inr ls" and "Suc k < length ls" and "s \<in> set (ls ! Suc k)"
  shows "\<exists>dep \<in> set (ps_depends_on s). \<forall>j < k. \<forall>t \<in> set (ls ! j). ps_step_id t \<noteq> dep"
proof -
  have "\<not> set (ps_depends_on s) \<subseteq> {} \<union> ids (concat (take k ls))"
    using assms by (intro layers_earliest) (simp_all add: topological_layers_def)
  then obtain dep where "dep \<in> set (ps_depends_on s)" "dep \<notin> ids (concat (take k ls))" by auto
  with ids_take_iff [of k ls dep] assms(2) show ?thesis by auto
qed

text \<open>The scheduler refuses a plan exactly when no order of its steps puts every dependency before
  the step that needs it. That is the case for a cycle, and also for a dependency on a step the plan
  does not have, which the message reports as a cycle too.\<close>

theorem layers_fail_iff_unorderable:
  "topological_layers steps = Inl ValueError \<longleftrightarrow>
     \<not> (\<exists>order. mset order = mset steps \<and> in_order {} order)"
proof -
  have err: "layers_from C xs = Inl e \<Longrightarrow> e = ValueError" for C xs e
  proof (induction C xs rule: layers_from.induct)
    case (1 C xs)
    show ?case
    proof (cases "xs = [] \<or> filter (ready C) xs = []")
      case True
      with "1.prems" show ?thesis by (cases "xs = []") (auto simp: layers_from_step)
    next
      case False
      with "1.prems" have "layers_from (C \<union> ids (filter (ready C) xs)) (filter (\<lambda>x. \<not> ready C x) xs) = Inl e"
        by (auto simp: layers_from_step rbind_def Let_def split: sum.splits)
      with "1.IH" [OF _ refl] False show ?thesis by (simp add: fold_remove1_filter)
    qed
  qed
  show ?thesis
    using layers_from_sound [of "{}" steps] layers_from_complete [of _ steps "{}"] err [of "{}" steps]
    unfolding topological_layers_def by (metis sum.exhaust sum.distinct(1))
qed

section \<open>What a step sees and returns\<close>

lemma collect_keys: "fst ` set (collect env rs (s, r)) = insert (ps_step_id s) (fst ` set rs)"
  by (simp add: collect_def dom_dset)

lemma foldl_collect_keys:
  "length rs = length layer \<Longrightarrow>
   fst ` set (foldl (collect env) acc (zip layer rs)) = fst ` set acc \<union> ids layer"
  by (induction layer rs arbitrary: acc rule: list_induct2') (auto simp: collect_keys)

lemma run_layer_keys: "fst ` set (run_layer env state acc layer) = fst ` set acc \<union> ids layer"
  by (simp add: run_layer_def foldl_collect_keys)

lemma run_layers_keys:
  "fst ` set (foldl (run_layer env state) acc ls) = fst ` set acc \<union> ids (concat ls)"
  by (induction ls arbitrary: acc) (auto simp: run_layer_keys)

text \<open>C32: when the steps of layer \<open>k\<close> are started, the results they are given hold an entry for every
  one of their dependencies, whatever the tools answered before: a failed step has a result too.\<close>

theorem steps_see_their_dependencies:
  assumes "topological_layers steps = Inr ls" and "k < length ls" and "s \<in> set (ls ! k)"
    and "dep \<in> set (ps_depends_on s)"
  shows "map_of (foldl (run_layer env state) [] (take k ls)) dep \<noteq> None"
proof -
  have "dep \<in> {} \<union> ids (concat (take k ls))"
    using layers_deps_before [of "{}" steps ls k s] assms by (auto simp: topological_layers_def)
  then have "dep \<in> fst ` set (foldl (run_layer env state) [] (take k ls))"
    by (simp add: run_layers_keys)
  then show ?thesis by (metis map_of_eq_None_iff)
qed

text \<open>The results keep the identifiers of the plan, in the order of the layers, when they are distinct.\<close>

lemma dset_new: "k \<notin> fst ` set d \<Longrightarrow> dset d k v = d @ [(k, v)]"
  by (induction d) auto

lemma foldl_collect_fresh:
  assumes "length rs = length layer" and "distinct (map ps_step_id layer)"
    and "ids layer \<inter> fst ` set acc = {}"
  shows "map fst (foldl (collect env) acc (zip layer rs)) = map fst acc @ map ps_step_id layer"
  using assms
proof (induction layer rs arbitrary: acc rule: list_induct2')
  case (4 s layer r rs)
  have c: "map fst (collect env acc (s, r)) = map fst acc @ [ps_step_id s]"
    using "4.prems" by (simp add: collect_def dset_new)
  have "ids layer \<inter> fst ` set (collect env acc (s, r)) = {}"
    using "4.prems" by (auto simp: collect_keys)
  with 4 c show ?case by simp
qed simp_all

lemma run_layers_fresh:
  assumes "distinct (map ps_step_id (concat ls))" and "ids (concat ls) \<inter> fst ` set acc = {}"
  shows "map fst (foldl (run_layer env state) acc ls) = map fst acc @ map ps_step_id (concat ls)"
  using assms
proof (induction ls arbitrary: acc)
  case (Cons l ls)
  have "map fst (run_layer env state acc l) = map fst acc @ map ps_step_id l"
    unfolding run_layer_def using Cons.prems by (intro foldl_collect_fresh) auto
  moreover have "ids l \<inter> ids (concat ls) = {}" using Cons.prems(1) by simp
  moreover have "ids (concat ls) \<inter> fst ` set acc = {}" using Cons.prems(2) by (simp add: image_Un) blast
  ultimately have "map fst (run_layer env state acc l) = map fst acc @ map ps_step_id l"
    "ids (concat ls) \<inter> fst ` set (run_layer env state acc l) = {}"
    unfolding run_layer_keys by blast+
  with Cons show ?case by simp
qed simp

lemma dispatch_fields:
  "dget (dispatch env s state prev) ''step_id'' = PStr (ps_step_id s)"
  "dget (dispatch env s state prev) ''tool'' = PStr (ps_tool s)"
  by (simp_all add: dispatch_def Let_def split: sum.split)

definition labelled :: "string \<times> pdict \<Rightarrow> bool" where
  "labelled p \<longleftrightarrow> dget (snd p) ''step_id'' = PStr (fst p)"

lemma dset_all: "(\<And>p. p \<in> set d \<Longrightarrow> P p) \<Longrightarrow> P (k, v) \<Longrightarrow> p \<in> set (dset d k v) \<Longrightarrow> P p"
  by (induction d arbitrary: p) (auto split: if_splits)

lemma collect_labelled:
  assumes "\<forall>p \<in> set acc. labelled p" and "r = execute_step env state prev s"
  shows "\<forall>p \<in> set (collect env acc (s, r)). labelled p"
proof -
  have "labelled (ps_step_id s, dispatch env s state prev)" by (simp add: labelled_def dispatch_fields)
  moreover have "collect env acc (s, r) = dset acc (ps_step_id s) (dispatch env s state prev)"
    using assms(2) by (simp add: collect_def execute_step_def)
  ultimately show ?thesis using assms(1) dset_all [of acc labelled] by metis
qed

lemma run_layer_labelled:
  assumes "\<forall>p \<in> set acc. labelled p"
  shows "\<forall>p \<in> set (run_layer env state acc layer). labelled p"
proof -
  have "\<forall>p \<in> set (foldl (collect env) a (zip l (map (execute_step env state acc) l))). labelled p"
    if "\<forall>p \<in> set a. labelled p" for a l
    using that
  proof (induction l arbitrary: a)
    case (Cons s l)
    with collect_labelled [OF Cons.prems refl, where env = env and state = state and prev = acc and s = s] show ?case by simp
  qed simp
  with assms show ?thesis by (simp add: run_layer_def)
qed

lemma run_layers_labelled:
  "\<forall>p \<in> set acc. labelled p \<Longrightarrow> \<forall>p \<in> set (foldl (run_layer env state) acc ls). labelled p"
proof (induction ls arbitrary: acc)
  case (Cons l ls)
  from Cons.IH [OF run_layer_labelled [OF Cons.prems]] show ?case by simp
qed simp

text \<open>Every step of an accepted plan with distinct identifiers yields exactly one result, labelled
  with the step's own identifier, even if its tool raises: the identifiers of the results are a
  permutation of those of the plan.\<close>

theorem one_result_per_step:
  assumes "execute_plan env plan state = Inr rs" and "distinct (map ps_step_id (ep_steps plan))"
  shows "mset (map (\<lambda>r. dget r ''step_id'') rs) = mset (map (\<lambda>s. PStr (ps_step_id s)) (ep_steps plan))"
proof -
  obtain ls where ls: "topological_layers (ep_steps plan) = Inr ls"
    "rs = map snd (foldl (run_layer env state) [] ls)"
    using assms(1) by (auto simp: execute_plan_def rbind_eq_Inr_iff)
  let ?res = "foldl (run_layer env state) [] ls"
  have perm: "mset (concat ls) = mset (ep_steps plan)"
    using layers_from_sound ls(1) by (simp add: topological_layers_def)
  then have "distinct (map ps_step_id (concat ls))"
    using assms(2) by (metis mset_eq_imp_distinct_iff mset_map)
  then have "map fst ?res = map ps_step_id (concat ls)"
    using run_layers_fresh [of ls "[]"] by simp
  moreover have "\<forall>p \<in> set ?res. labelled p" by (rule run_layers_labelled) simp
  then have "map (\<lambda>r. dget r ''step_id'') rs = map (\<lambda>p. PStr (fst p)) ?res"
    using ls(2) by (simp add: labelled_def)
  ultimately have "map (\<lambda>r. dget r ''step_id'') rs = map (\<lambda>s. PStr (ps_step_id s)) (concat ls)"
    by (metis (mono_tags, lifting) list.map_comp comp_def map_eq_conv)
  with perm show ?thesis by (metis mset_map)
qed

section \<open>A concrete plan\<close>

definition demo_step :: "string \<Rightarrow> string list \<Rightarrow> plan_step" where
  "demo_step i deps =
     \<lparr>ps_step_id = i, ps_tool = ''rag'', ps_args = [], ps_depends_on = deps, ps_can_parallel = False,
      ps_description = []\<rparr>"

definition demo_steps :: "plan_step list" where
  "demo_steps = [demo_step ''c'' [''a'', ''b''], demo_step ''a'' [], demo_step ''b'' [''a'']]"

definition demo_dispatch_env :: dispatch_env where
  "demo_dispatch_env =
     \<lparr>de_registry = (\<lambda>_ s _ _ _. if ps_step_id s = ''a'' then Inl KeyError else Inr [(''rag_docs'', PList [])]),
      de_show_exn = (\<lambda>_. ''err''), de_latency = (\<lambda>_. 3)\<rparr>"

definition demo_plan :: execution_plan where
  "demo_plan =
     \<lparr>ep_plan_id = PStr ''p'', ep_steps = demo_steps, ep_estimated_tokens = PInt 1000,
      ep_fallback_strategy = PStr ''sequential''\<rparr>"

lemma demo_layers:
  "topological_layers demo_steps =
     Inr [[demo_step ''a'' []], [demo_step ''b'' [''a'']], [demo_step ''c'' [''a'', ''b'']]]"
  by code_simp

theorem layers_respect_dependencies_witness:
  "mset (concat [[demo_step ''a'' []], [demo_step ''b'' [''a'']], [demo_step ''c'' [''a'', ''b'']]])
   = mset demo_steps"
  using layers_respect_dependencies [OF demo_layers] by simp

theorem layers_are_earliest_witness:
  "\<exists>dep \<in> {''a'', ''b''}. \<forall>j < 1. \<forall>t \<in> set ([[demo_step ''a'' []], [demo_step ''b'' [''a'']],
     [demo_step ''c'' [''a'', ''b'']]] ! j). ps_step_id t \<noteq> dep"
  using layers_are_earliest [OF demo_layers, of 1 "demo_step ''c'' [''a'', ''b'']"]
  by (simp add: demo_step_def)

theorem steps_see_their_dependencies_witness:
  "map_of (foldl (run_layer demo_dispatch_env []) [] [[demo_step ''a'' []]]) ''a'' \<noteq> None"
  using steps_see_their_dependencies [OF demo_layers, of 1 "demo_step ''b'' [''a'']" "''a''" demo_dispatch_env "[]"]
  by (simp add: demo_step_def)

lemma demo_execute: "\<exists>rs. execute_plan demo_dispatch_env demo_plan [] = Inr rs"
  by (simp add: execute_plan_def demo_plan_def demo_layers)

theorem one_result_per_step_witness:
  "\<exists>rs. execute_plan demo_dispatch_env demo_plan [] = Inr rs
     \<and> mset (map (\<lambda>r. dget r ''step_id'') rs) = {#PStr ''c'', PStr ''a'', PStr ''b''#}"
proof -
  obtain rs where rs: "execute_plan demo_dispatch_env demo_plan [] = Inr rs" using demo_execute by blast
  have "distinct (map ps_step_id (ep_steps demo_plan))" by code_simp
  from one_result_per_step [OF rs this] rs show ?thesis
    by (auto simp: demo_plan_def demo_steps_def demo_step_def)
qed

end
