(* ===== verification/Agent_State.thy ===== *)
theory Agent_State
  imports Dag_Scheduler
begin

text \<open>
  The state of the main graph (\<open>agent/langgraph/state.py\<close>), its initial value
  (\<open>runner.py\<close>, \<open>_build_initial_state\<close>) and the entry node (\<open>nodes/user_question.py\<close>).

  \<open>AgentState\<close> is a \<open>TypedDict\<close> with optional keys. The record keeps the keys that the modelled nodes
  read or write, with the declared types. A key that is absent has the default with which it is read;
  the two keys that are read with different defaults are optional. A node returns its update as the
  changed state; a key that it does not return is unchanged. \<open>node_timings\<close>, which only collects
  latencies, is left out.
\<close>

section \<open>Route decisions\<close>

record route_decision =
  rd_target :: string
  rd_confidence :: rat
  rd_source :: string
  rd_reason :: message
  rd_complexity :: string
  rd_kb_ids :: "string list"
  rd_metadata :: pdict

section \<open>The state\<close>

text \<open>The answer given to the user: a text of the model, a refusal in a language, the retrieved context
  with an introduction in a language, the parts of a fallback answer, or a report response.\<close>

datatype answer_text = Plain string | Rejection string | Conservative string string
  | FallbackAnswer "message list" | ReportAnswer pdict

text \<open>The request of a clarification: the question (\<open>None\<close> is the built-in text), its options and the
  question of the user.\<close>

record clarification_request =
  cq_question :: "pyval option"
  cq_options :: pyval
  cq_original_question :: string

text \<open>The keys of the report tool, which \<open>AgentState\<close> does not declare, are the dictionary
  \<open>g_report_fields\<close> beside the list of artifacts.\<close>

record graph_state =
  g_user_question :: string
  g_query_lang :: string
  g_query_simplified :: string
  g_tenant_id :: string
  g_user_id :: string
  g_llm_id :: string
  g_kb_ids :: "string list"
  g_db_id :: string
  g_mcp_server_name :: string
  g_agent_config :: pdict
  g_route_target :: "string option"
  g_route_decision :: "route_decision option"
  g_react_enabled :: bool
  g_db_tool_enabled :: bool
  g_retry_count :: int
  g_max_retries :: int
  g_retry_token_used :: int
  g_retry_token_budget :: "int option"
  g_regenerate_count :: int
  g_rag_docs :: "pdict list"
  g_rag_quality_score :: rat
  g_rag_has_relevant :: bool
  g_rag_relevant_count :: int
  g_rag_top_score :: rat
  g_rag_score_source :: string
  g_retrieval_error_code :: string
  g_db_result :: pdict
  g_db_quality_score :: rat
  g_web_docs :: "pdict list"
  g_rest_result :: pdict
  g_rest_quality_score :: rat
  g_graph_result :: pdict
  g_graph_quality_score :: rat
  g_graph_score_source :: string
  g_graph_has_result :: bool
  g_graph_row_count :: int
  g_skill_resolution :: "pdict option"
  g_skill_set :: pyval
  g_skill_evidence_requirements :: "pyval list"
  g_execution_plan :: "execution_plan option"
  g_tool_results :: "pdict list"
  g_plan_execution_status :: string
  g_evidence :: "pdict list"
  g_tool_token_counts :: "(string \<times> nat) list"
  g_total_token_budget :: int
  g_locked_system_tokens :: int
  g_locked_history_tokens :: int
  g_conversation_history :: "pdict list"
  g_conversation_summary :: string
  g_quality_decision :: string
  g_termination_reason :: string
  g_termination_source :: string
  g_fallback_message :: string
  g_merged_context :: string
  g_final_prompt :: string
  g_generated_answer :: string
  g_answer_ast :: pyval
  g_claims :: "pyval list"
  g_run_mode :: string
  g_enforcement_mode :: string
  g_hallucination_score :: rat
  g_hallucination_action :: string
  g_reject_reason :: message
  g_report_artifacts :: "pdict list"
  g_report_fields :: pdict
  g_reflection_result :: "pdict option"
  g_clarification_request :: "clarification_request option"
  g_clarification_context :: string
  g_final_answer :: answer_text

text \<open>A state in which every key is absent.\<close>

definition empty_state :: graph_state where
  "empty_state =
     \<lparr>g_user_question = [], g_query_lang = ''zh_CN'', g_query_simplified = [], g_tenant_id = [],
      g_user_id = [], g_llm_id = [], g_kb_ids = [], g_db_id = [], g_mcp_server_name = [],
      g_agent_config = [], g_route_target = None, g_route_decision = None, g_react_enabled = False,
      g_db_tool_enabled = True, g_retry_count = 0, g_max_retries = 3, g_retry_token_used = 0,
      g_retry_token_budget = None, g_regenerate_count = 0, g_rag_docs = [], g_rag_quality_score = 0,
      g_rag_has_relevant = False, g_rag_relevant_count = 0, g_rag_top_score = 0,
      g_rag_score_source = ''base'', g_retrieval_error_code = [], g_db_result = [],
      g_db_quality_score = 0, g_web_docs = [], g_rest_result = [], g_rest_quality_score = 0,
      g_graph_result = [], g_graph_quality_score = 0, g_graph_score_source = ''graph'',
      g_graph_has_result = False, g_graph_row_count = 0, g_skill_resolution = None,
      g_skill_set = PNone, g_skill_evidence_requirements = [], g_execution_plan = None,
      g_tool_results = [], g_plan_execution_status = [], g_evidence = [], g_tool_token_counts = [],
      g_total_token_budget = 110000, g_locked_system_tokens = 0, g_locked_history_tokens = 0,
      g_conversation_history = [], g_conversation_summary = [],
      g_quality_decision = ''pass'', g_termination_reason = [], g_termination_source = [],
      g_fallback_message = [], g_merged_context = [], g_final_prompt = [], g_generated_answer = [],
      g_answer_ast = PNone, g_claims = [], g_run_mode = [], g_enforcement_mode = [],
      g_hallucination_score = 0, g_hallucination_action = ''pass'', g_reject_reason = NoMsg,
      g_report_artifacts = [], g_report_fields = [], g_reflection_result = None,
      g_clarification_request = None, g_clarification_context = [], g_final_answer = Plain []\<rparr>"

text \<open>\<open>_build_initial_state\<close> without extra keyword arguments.\<close>

record run_request =
  rq_user_question :: string
  rq_query_lang :: string
  rq_tenant_id :: string
  rq_llm_id :: string
  rq_kb_ids :: "string list"
  rq_db_id :: string
  rq_mcp_server_name :: string
  rq_conversation_history :: "pdict list"
  rq_conversation_summary :: string
  rq_agent_config :: pdict

definition build_initial_state :: "run_request \<Rightarrow> graph_state" where
  "build_initial_state rq =
     empty_state
       \<lparr>g_user_question := rq_user_question rq, g_query_lang := rq_query_lang rq,
        g_tenant_id := rq_tenant_id rq, g_llm_id := rq_llm_id rq, g_kb_ids := rq_kb_ids rq,
        g_db_id := rq_db_id rq, g_mcp_server_name := rq_mcp_server_name rq,
        g_conversation_history := rq_conversation_history rq,
        g_conversation_summary := rq_conversation_summary rq,
        g_agent_config := rq_agent_config rq, g_retry_count := 0, g_max_retries := 3,
        g_regenerate_count := 0\<rparr>"

section \<open>The entry node\<close>

text \<open>\<open>v.get(k, default)\<close> for a value that may be no dictionary, and \<open>v or {}\<close>.\<close>

definition section_or_empty :: "pdict \<Rightarrow> string \<Rightarrow> pyval" where
  "section_or_empty d k = py_or (dget_or d k (PDict [])) (PDict [])"

definition react_switch :: "pdict \<Rightarrow> bool" where
  "react_switch agent_config =
     (case section_or_empty agent_config ''react'' of
        PDict cfg \<Rightarrow> truthy (dget_or cfg ''enabled'' (PBool False))
      | _ \<Rightarrow> False)"

text \<open>Language detection and conversion to simplified characters are the argument \<open>lang_of\<close>: the
  detected language and the simplified question.\<close>

definition user_question_node :: "(string \<Rightarrow> string \<times> string) \<Rightarrow> graph_state \<Rightarrow> graph_state" where
  "user_question_node lang_of s =
     (if g_user_question s = [] then
        s\<lparr>g_query_lang := ''zh_CN'', g_query_simplified := [], g_route_target := Some ''chitchat'',
          g_retry_count := 0, g_max_retries := 3, g_react_enabled := False\<rparr>
      else
        (case lang_of (g_user_question s) of (lang, simplified) \<Rightarrow>
           s\<lparr>g_query_lang := lang, g_query_simplified := simplified, g_retry_count := 0,
             g_max_retries := 3, g_react_enabled := react_switch (g_agent_config s)\<rparr>))"

end
