(* ===== verification/Intent_Router.thy ===== *)
theory Intent_Router
  imports Agent_State
begin

text \<open>
  Routing of a question (\<open>agent/langgraph/nodes/intent_router.py\<close>): the layers are tried in order (the
  pre-filter, the complexity gate, the rules, the language model, the planner), and every decision but
  a request for clarification passes \<open>_finalize_route\<close>, which resolves a skill and lets it plan. The
  layers themselves, the skill resolver and the planner are arguments of the node; \<open>route_decision\<close>
  and \<open>after_rag_tool\<close> are the routing functions of the graph.
\<close>

section \<open>The layers\<close>

record skill_result =
  sr_dump :: pdict
  sr_resolved :: bool
  sr_fallback_used :: bool
  sr_skill_set :: "pyval option"
  sr_requirements :: "pyval list res"

record gate_result =
  gr_is_complex :: bool
  gr_triggered_signals :: "pyval list"
  gr_confidence :: rat

text \<open>\<open>rt_resolve_skill\<close> is \<open>_resolve_skill\<close>, with \<open>None\<close> for its exceptions; \<open>rt_parse_plan\<close> is the
  validation of a plan.\<close>

record router_env =
  rt_pre_filter :: "string \<Rightarrow> route_decision option"
  rt_gate :: "string \<Rightarrow> gate_result"
  rt_rule :: "string \<Rightarrow> route_decision"
  rt_rule_to_llm :: rat
  rt_llm :: "string \<Rightarrow> string \<Rightarrow> route_decision \<Rightarrow> string list \<Rightarrow> route_decision res"
  rt_plan :: "string \<Rightarrow> string \<Rightarrow> route_decision \<Rightarrow> string list \<Rightarrow> route_decision res"
  rt_resolve_skill :: "route_decision \<Rightarrow> graph_state \<Rightarrow> skill_result option"
  rt_plan_with_skills :: "route_decision \<Rightarrow> pyval \<Rightarrow> graph_state \<Rightarrow> route_decision res"
  rt_parse_plan :: "pyval \<Rightarrow> execution_plan res"

section \<open>Finalising a route\<close>

definition routed :: "route_decision \<Rightarrow> graph_state \<Rightarrow> graph_state" where
  "routed d s = s\<lparr>g_route_target := Some (rd_target d), g_route_decision := Some d\<rparr>"

text \<open>A skill is hit if it is resolved, not by fallback, and has a skill set.\<close>

definition skill_hit :: "skill_result option \<Rightarrow> pyval option" where
  "skill_hit r =
     (case r of
        None \<Rightarrow> None
      | Some sr \<Rightarrow> if sr_resolved sr \<and> \<not> sr_fallback_used sr then sr_skill_set sr else None)"

definition apply_skill_plan :: "router_env \<Rightarrow> route_decision \<Rightarrow> pyval \<Rightarrow> graph_state \<Rightarrow> graph_state" where
  "apply_skill_plan env d skill_set s =
     (case rt_plan_with_skills env d skill_set s of
        Inl _ \<Rightarrow> s
      | Inr planned \<Rightarrow>
          (case dget (rd_metadata planned) ''plan'' of
             PDict p \<Rightarrow>
               (if p = [] then routed planned s
                else
                  (case rt_parse_plan env (PDict p) of
                     Inl _ \<Rightarrow> s
                   | Inr plan \<Rightarrow> routed planned (s\<lparr>g_execution_plan := Some plan\<rparr>)))
           | _ \<Rightarrow> routed planned s))"

definition finalize_route :: "router_env \<Rightarrow> route_decision \<Rightarrow> graph_state \<Rightarrow> graph_state" where
  "finalize_route env d s =
     (if rd_target d = ''chitchat'' \<or> truthy (dget (rd_metadata d) ''directive'') then routed d s
      else
        (case rt_resolve_skill env d s of
           None \<Rightarrow> routed d s
         | Some r \<Rightarrow>
             (let s1 = (routed d s)\<lparr>g_skill_resolution := Some (sr_dump r)\<rparr> in
              case skill_hit (Some r) of
                None \<Rightarrow> s1
              | Some skill_set \<Rightarrow>
                  apply_skill_plan env d skill_set
                    (s1\<lparr>g_skill_set := skill_set,
                        g_skill_evidence_requirements :=
                          (case sr_requirements r of Inr reqs \<Rightarrow> reqs | Inl _ \<Rightarrow> [])\<rparr>))))"

section \<open>The node\<close>

definition empty_question_decision :: route_decision where
  "empty_question_decision =
     \<lparr>rd_target = ''chitchat'', rd_confidence = 1/2, rd_source = ''rule'', rd_reason = Msg ''empty question'' [],
      rd_complexity = ''simple'', rd_kb_ids = [], rd_metadata = []\<rparr>"

definition gate_decision :: "gate_result \<Rightarrow> route_decision" where
  "gate_decision g =
     \<lparr>rd_target = ''chitchat'', rd_confidence = 0, rd_source = ''rule'',
      rd_reason = Msg ''rules skipped by the complexity gate'' [PList (gr_triggered_signals g)],
      rd_complexity = ''complex'', rd_kb_ids = [],
      rd_metadata = [(''complexity_gate_skipped'', PBool True),
                     (''complexity_signals'', PList (gr_triggered_signals g)),
                     (''complexity_confidence'', PFloat (gr_confidence g))]\<rparr>"

definition router_tenant :: "graph_state \<Rightarrow> pyval" where
  "router_tenant s =
     (if g_tenant_id s \<noteq> [] then PStr (g_tenant_id s) else dget_or (g_agent_config s) ''tenant_id'' (PStr []))"

definition needs_multi_tool :: "route_decision \<Rightarrow> bool" where
  "needs_multi_tool d \<longleftrightarrow>
     rd_target d = ''hybrid''
     \<or> rd_complexity d = ''complex'' \<and> (rd_target d = ''hybrid'' \<or> rd_target d = ''database'')"

text \<open>The signals of the gate and the need for several tools, added to the metadata of the decision of
  the language model.\<close>

definition annotate :: "gate_result \<Rightarrow> route_decision \<Rightarrow> route_decision" where
  "annotate g d =
     (let m = (if gr_is_complex g then dset (rd_metadata d) ''complexity_signals'' (PList (gr_triggered_signals g))
               else rd_metadata d)
      in d\<lparr>rd_metadata := (if map_of m ''needs_multi_tool'' = None
                           then dset m ''needs_multi_tool'' (PBool (needs_multi_tool d)) else m)\<rparr>)"

definition plan_route :: "router_env \<Rightarrow> string \<Rightarrow> route_decision \<Rightarrow> graph_state \<Rightarrow> graph_state res" where
  "plan_route env tenant d s =
     (let pre = rt_resolve_skill env d s in
      if skill_hit pre \<noteq> None then Inr (finalize_route env d s)
      else
        rbind (rt_plan env tenant (g_user_question s) d (g_kb_ids s)) (\<lambda>planned.
          let t = finalize_route env planned s in
          Inr (case pre of None \<Rightarrow> t | Some r \<Rightarrow> t\<lparr>g_skill_resolution := Some (sr_dump r)\<rparr>)))"

definition llm_route :: "router_env \<Rightarrow> string \<Rightarrow> gate_result \<Rightarrow> route_decision \<Rightarrow> graph_state \<Rightarrow> graph_state res" where
  "llm_route env tenant g rule_decision s =
     rbind (rt_llm env tenant (g_user_question s) rule_decision (g_kb_ids s)) (\<lambda>d0.
       let d = annotate g d0 in
       if truthy (dget (rd_metadata d) ''needs_clarification'') then Inr (routed d s)
       else if rd_complexity d \<noteq> ''complex'' then Inr (finalize_route env d s)
       else plan_route env tenant d s)"

text \<open>A tenant identifier of the configuration that is no string reaches only the routers; it is handed
  to them as the empty string.\<close>

definition intent_router_node :: "router_env \<Rightarrow> graph_state \<Rightarrow> graph_state res" where
  "intent_router_node env s =
     (if g_user_question s = [] then Inr (routed empty_question_decision s)
      else
        (let q = g_user_question s;
             tenant = (case router_tenant s of PStr t \<Rightarrow> t | _ \<Rightarrow> []) in
         case rt_pre_filter env q of
           Some d \<Rightarrow> Inr (finalize_route env d s)
         | None \<Rightarrow>
             (let g = rt_gate env q in
              if gr_is_complex g then llm_route env tenant g (gate_decision g) s
              else
                (let rule = rt_rule env q in
                 if rd_confidence rule \<ge> rt_rule_to_llm env then Inr (finalize_route env rule s)
                 else llm_route env tenant g rule s))))"

section \<open>Routing functions\<close>

text \<open>The decision as a condition: \<open>metadata\<close> must not be empty to be read.\<close>

definition flag_of :: "route_decision option \<Rightarrow> string \<Rightarrow> bool" where
  "flag_of r k = (case r of None \<Rightarrow> False | Some d \<Rightarrow> truthy (dget (rd_metadata d) k))"

definition complex_decision :: "route_decision option \<Rightarrow> bool" where
  "complex_decision r = (case r of None \<Rightarrow> False | Some d \<Rightarrow> rd_complexity d = ''complex'')"

definition from_planner :: "route_decision option \<Rightarrow> bool" where
  "from_planner r = (case r of None \<Rightarrow> False | Some d \<Rightarrow> rd_source d = ''planner'')"

definition route_next :: "graph_state \<Rightarrow> string" where
  "route_next s =
     (let t = (case g_route_target s of None \<Rightarrow> ''chitchat'' | Some t \<Rightarrow> t); r = g_route_decision s in
      if flag_of r ''needs_clarification'' then ''clarification''
      else if g_react_enabled s \<and> complex_decision r \<and> flag_of r ''needs_multi_tool''
              \<and> (t = ''hybrid'' \<or> t = ''database'') then ''react_subgraph''
      else if from_planner r \<and> complex_decision r then ''plan_executor''
      else if t = ''rag'' then ''rag_tool''
      else if t = ''database'' then ''db_tool''
      else if t = ''hybrid'' then ''rag_tool''
      else if t = ''web'' then ''web_tool''
      else if t = ''rest'' then ''rest_tool''
      else if t = ''graph'' then ''graph_tool''
      else ''prompt_assembly'')"

definition after_rag_tool :: "graph_state \<Rightarrow> string" where
  "after_rag_tool s = (if g_route_target s = Some ''hybrid'' then ''db_tool'' else ''evidence_fusion'')"

end
