(* ===== verification/Quality_Check.thy ===== *)
theory Quality_Check
  imports Agent_State
begin

text \<open>
  The quality gate of the main graph (\<open>agent/langgraph/nodes/quality_check.py\<close>): from the scores that
  the tools left in the state it decides whether the answer may be generated, a tool is tried again,
  or the question falls back to a web search; the routing function turns the decision into the next
  node.
\<close>

section \<open>Constants\<close>

definition QUALITY_PASS_THRESHOLD_BASE :: rat where
  "QUALITY_PASS_THRESHOLD_BASE = 7/10"

definition QUALITY_PASS_THRESHOLD_GRADER :: rat where
  "QUALITY_PASS_THRESHOLD_GRADER = 65/100"

definition GRAPH_PASS_THRESHOLD :: rat where
  "GRAPH_PASS_THRESHOLD = 7/10"

definition DEFAULT_RETRY_TOKEN_BUDGET :: int where
  "DEFAULT_RETRY_TOKEN_BUDGET = 2000"

definition MIN_RELEVANT_DOCS :: int where
  "MIN_RELEVANT_DOCS = 2"

definition RETRIEVAL_INFRA_ERROR_CODES :: "string list" where
  "RETRIEVAL_INFRA_ERROR_CODES = [''RETRIEVAL_SERVICE_ERROR'', ''RETRIEVAL_AUTH'']"

section \<open>Decisions\<close>

definition decide_by_verdict :: "pyval \<Rightarrow> int \<Rightarrow> int \<Rightarrow> string option" where
  "decide_by_verdict verdict retry_count max_retries =
     (if verdict = PStr ''data_found'' then Some ''pass''
      else if verdict = PStr ''no_data_confirmed'' then Some ''pass''
      else if verdict = PStr ''exploration_failed'' then
        Some (if retry_count < max_retries then ''retry_db'' else ''fallback_web'')
      else if verdict = PStr ''budget_exhausted'' then Some ''fallback_web''
      else None)"

definition make_decision ::
    "rat \<Rightarrow> bool \<Rightarrow> rat \<Rightarrow> int \<Rightarrow> int \<Rightarrow> string \<Rightarrow> rat \<Rightarrow> string" where
  "make_decision quality_score has_relevant relevant_count retry_count max_retries route_target threshold =
     (if route_target = ''chitchat'' then ''pass''
      else
        (let quality_ok =
           (if route_target = ''database'' \<or> route_target = ''graph''
            then quality_score \<ge> threshold \<and> relevant_count > 0
            else if route_target = ''rag'' \<or> route_target = ''hybrid''
            then quality_score \<ge> threshold \<and> has_relevant \<and> relevant_count \<ge> of_int MIN_RELEVANT_DOCS
            else quality_score \<ge> threshold \<and> has_relevant)
         in if quality_ok then ''pass''
            else if retry_count < max_retries \<and> (route_target = ''rag'' \<or> route_target = ''hybrid'') then ''retry_rag''
            else if retry_count < max_retries \<and> route_target = ''database'' then ''retry_db''
            else if retry_count < max_retries \<and> route_target = ''graph'' then ''retry_graph''
            else ''fallback_web''))"

text \<open>The route target with the default of this node.\<close>

definition target_of :: "graph_state \<Rightarrow> string" where
  "target_of s = (case g_route_target s of None \<Rightarrow> ''chitchat'' | Some t \<Rightarrow> t)"

text \<open>What the node reads for each route: score, relevance, count and the source of the score. The row
  count of a database result is compared with 0; another type than a number raises.\<close>

definition quality_inputs :: "graph_state \<Rightarrow> (rat \<times> bool \<times> rat \<times> string) res" where
  "quality_inputs s =
     (let t = target_of s in
      if t = ''rag'' then
        Inr (g_rag_quality_score s, g_rag_has_relevant s, of_int (g_rag_relevant_count s), g_rag_score_source s)
      else if t = ''database'' then
        rbind (number_or_raise (dget_or (g_db_result s) ''row_count'' (PInt 0))) (\<lambda>rows.
          Inr (g_db_quality_score s, rows > 0, rows, ''base''))
      else if t = ''hybrid'' then
        Inr (if g_db_quality_score s > 0 then (g_rag_quality_score s + g_db_quality_score s) / 2
             else g_rag_quality_score s,
             g_rag_has_relevant s, of_int (g_rag_relevant_count s), g_rag_score_source s)
      else if t = ''graph'' then
        Inr (g_graph_quality_score s, g_graph_has_result s, of_int (g_graph_row_count s), g_graph_score_source s)
      else Inr (0, False, 0, ''base''))"

definition threshold_of :: "string \<Rightarrow> rat" where
  "threshold_of score_source =
     (if score_source = ''grader_merged'' then QUALITY_PASS_THRESHOLD_GRADER
      else if score_source = ''graph'' then GRAPH_PASS_THRESHOLD
      else QUALITY_PASS_THRESHOLD_BASE)"

definition token_budget :: "graph_state \<Rightarrow> int" where
  "token_budget s =
     (case g_retry_token_budget s of None \<Rightarrow> DEFAULT_RETRY_TOKEN_BUDGET | Some b \<Rightarrow> b)"

definition decided :: "string \<Rightarrow> graph_state \<Rightarrow> graph_state" where
  "decided d s =
     (if d = ''retry_rag'' \<or> d = ''retry_db'' \<or> d = ''retry_graph''
      then s\<lparr>g_quality_decision := d, g_retry_count := g_retry_count s + 1\<rparr>
      else s\<lparr>g_quality_decision := d\<rparr>)"

definition verdict_decision :: "graph_state \<Rightarrow> string option" where
  "verdict_decision s =
     (let v = dget_or (g_db_result s) ''exploration_verdict'' (PStr []) in
      if target_of s = ''database'' \<and> truthy v
      then decide_by_verdict v (g_retry_count s) (g_max_retries s) else None)"

text \<open>The decision from these inputs, with the early returns in their order.\<close>

definition gate :: "graph_state \<Rightarrow> rat \<Rightarrow> bool \<Rightarrow> rat \<Rightarrow> string \<Rightarrow> string" where
  "gate s score relevant cnt source =
     (case verdict_decision s of
        Some d \<Rightarrow> d
      | None \<Rightarrow>
          if (target_of s = ''rag'' \<or> target_of s = ''hybrid'')
             \<and> g_retrieval_error_code s \<in> set RETRIEVAL_INFRA_ERROR_CODES then ''fallback_web''
          else if g_retry_token_used s \<ge> token_budget s then ''fallback_web''
          else make_decision score relevant cnt (g_retry_count s) (g_max_retries s)
                 (target_of s) (threshold_of source))"

definition quality_check_node :: "graph_state \<Rightarrow> graph_state res" where
  "quality_check_node s =
     rbind (quality_inputs s) (\<lambda>(score, relevant, cnt, source).
       Inr (decided (gate s score relevant cnt source) s))"

definition quality_check_decision :: "graph_state \<Rightarrow> string" where
  "quality_check_decision s =
     (if g_termination_reason s \<noteq> [] then ''fallback''
      else if g_quality_decision s = ''pass'' then ''prompt_assembly''
      else if g_quality_decision s = ''retry_rag'' then ''rag_tool''
      else if g_quality_decision s = ''retry_db'' then ''db_tool''
      else if g_quality_decision s = ''retry_graph'' then ''graph_tool''
      else if g_quality_decision s = ''fallback_web'' then ''web_tool''
      else ''prompt_assembly'')"

section \<open>Properties\<close>

lemma decided_simps [simp]:
  "g_quality_decision (decided d s) = d" "g_termination_reason (decided d s) = g_termination_reason s"
  "g_max_retries (decided d s) = g_max_retries s" "g_route_target (decided d s) = g_route_target s"
  "g_generated_answer (decided d s) = g_generated_answer s"
  "g_hallucination_action (decided d s) = g_hallucination_action s"
  "g_regenerate_count (decided d s) = g_regenerate_count s"
  by (simp_all add: decided_def)

lemma make_decision_retries:
  "make_decision q h c n mx r th \<in> {''retry_rag'', ''retry_db'', ''retry_graph''} \<Longrightarrow> n < mx"
  by (simp add: make_decision_def Let_def split: if_splits)

lemma verdict_retries:
  "verdict_decision s = Some d \<Longrightarrow> d \<in> {''retry_rag'', ''retry_db'', ''retry_graph''}
   \<Longrightarrow> g_retry_count s < g_max_retries s"
  by (auto simp: verdict_decision_def decide_by_verdict_def Let_def split: if_splits)

lemma gate_retries:
  "gate s score relevant cnt source \<in> {''retry_rag'', ''retry_db'', ''retry_graph''}
   \<Longrightarrow> g_retry_count s < g_max_retries s"
  unfolding gate_def
  by (cases "verdict_decision s") (simp_all add: verdict_retries make_decision_retries split: if_splits)

lemma quality_check_node_cases:
  assumes "quality_check_node s = Inr t"
  obtains d where "t = decided d s"
    and "d \<in> {''retry_rag'', ''retry_db'', ''retry_graph''} \<Longrightarrow> g_retry_count s < g_max_retries s"
proof -
  from assms obtain score relevant cnt source where t: "t = decided (gate s score relevant cnt source) s"
    by (auto simp: quality_check_node_def rbind_eq_Inr_iff)
  show thesis by (rule that [OF t gate_retries])
qed

text \<open>Routes for which the node has neither a score nor a tool to retry.\<close>

definition unscored :: "string \<Rightarrow> bool" where
  "unscored t \<longleftrightarrow> t \<notin> set [''chitchat'', ''rag'', ''database'', ''hybrid'', ''graph'']"

lemma unscored_falls_back:
  assumes "unscored (target_of s)"
  shows "quality_check_node s = Inr (decided ''fallback_web'' s)"
proof -
  from assms have t: "target_of s \<noteq> ''chitchat''" "target_of s \<noteq> ''rag''" "target_of s \<noteq> ''database''"
    "target_of s \<noteq> ''hybrid''" "target_of s \<noteq> ''graph''"
    unfolding unscored_def by simp_all
  have m: "make_decision 0 False 0 n mx (target_of s) (threshold_of ''base'') = ''fallback_web''" for n mx
    using t by (simp add: make_decision_def)
  have "quality_inputs s = Inr (0, False, 0, ''base'')" and "verdict_decision s = None"
    using t by (simp_all add: quality_inputs_def verdict_decision_def)
  then show ?thesis
    using t m by (simp add: quality_check_node_def gate_def)
qed

text \<open>C34: the gate lets an answer to a document or database question through only if the retrieval
  supports it. When the decision is to pass, a database question has rows or a verdict of the
  exploration that there is data or certainly none; a document question has at least two relevant
  documents, a relevance flag and a score that reaches the threshold of its source, no failed
  retrieval service and tokens left.\<close>

theorem quality_pass_is_earned:
  assumes "quality_check_node s = Inr t" and "g_quality_decision t = ''pass''"
  shows "(target_of s = ''rag'' \<longrightarrow>
           g_rag_quality_score s \<ge> threshold_of (g_rag_score_source s) \<and> g_rag_has_relevant s
           \<and> g_rag_relevant_count s \<ge> 2 \<and> g_retry_token_used s < token_budget s
           \<and> g_retrieval_error_code s \<notin> set RETRIEVAL_INFRA_ERROR_CODES)
    \<and> (target_of s = ''database'' \<longrightarrow>
         dget (g_db_result s) ''exploration_verdict'' \<in> {PStr ''data_found'', PStr ''no_data_confirmed''}
         \<or> (\<exists>rows > 0. number_or_raise (dget_or (g_db_result s) ''row_count'' (PInt 0)) = Inr rows
               \<and> g_db_quality_score s \<ge> 7/10))"
proof -
  have rag: "make_decision q h c n mx ''rag'' th = ''pass'' \<Longrightarrow> q \<ge> th \<and> h \<and> c \<ge> 2" for q h c n mx th
    by (simp add: make_decision_def Let_def MIN_RELEVANT_DOCS_def split: if_splits)
  have db: "make_decision q h c n mx ''database'' th = ''pass'' \<Longrightarrow> q \<ge> th \<and> c > 0" for q h c n mx th
    by (simp add: make_decision_def Let_def split: if_splits)
  have base: "threshold_of ''base'' = 7/10"
    by (simp add: threshold_of_def QUALITY_PASS_THRESHOLD_BASE_def)
  have verdict: "decide_by_verdict v n mx = Some ''pass'' \<Longrightarrow> v \<in> {PStr ''data_found'', PStr ''no_data_confirmed''}" for v n mx
    by (simp add: decide_by_verdict_def split: if_splits)
  have dflt: "truthy (dget_or d k (PStr [])) \<Longrightarrow> dget_or d k (PStr []) = dget d k" for d k
    by (simp add: dget_or_def split: option.splits)
  have two: "(2::rat) \<le> of_int n \<Longrightarrow> 2 \<le> n" for n :: int
    by (metis of_int_le_iff of_int_numeral)
  show ?thesis
  proof (intro conjI impI)
    assume t: "target_of s = ''rag''"
    with assms have
      "make_decision (g_rag_quality_score s) (g_rag_has_relevant s) (of_int (g_rag_relevant_count s))
         (g_retry_count s) (g_max_retries s) ''rag'' (threshold_of (g_rag_score_source s)) = ''pass''"
      "g_retry_token_used s < token_budget s" "g_retrieval_error_code s \<notin> set RETRIEVAL_INFRA_ERROR_CODES"
      by (auto simp: quality_check_node_def gate_def quality_inputs_def verdict_decision_def not_le split: if_splits)
    with rag two show "g_rag_quality_score s \<ge> threshold_of (g_rag_score_source s)" "g_rag_has_relevant s"
      "g_rag_relevant_count s \<ge> 2" "g_retry_token_used s < token_budget s"
      "g_retrieval_error_code s \<notin> set RETRIEVAL_INFRA_ERROR_CODES" by blast+
  next
    assume t: "target_of s = ''database''"
    from assms(1) t obtain rows where rows: "number_or_raise (dget_or (g_db_result s) ''row_count'' (PInt 0)) = Inr rows"
      by (auto simp: quality_check_node_def quality_inputs_def rbind_eq_Inr_iff simp del: number_or_raise.simps)
    show "dget (g_db_result s) ''exploration_verdict'' \<in> {PStr ''data_found'', PStr ''no_data_confirmed''}
       \<or> (\<exists>rows > 0. number_or_raise (dget_or (g_db_result s) ''row_count'' (PInt 0)) = Inr rows
             \<and> g_db_quality_score s \<ge> 7/10)"
    proof (cases "verdict_decision s")
      case None
      with assms t rows have "make_decision (g_db_quality_score s) (rows > 0) rows
          (g_retry_count s) (g_max_retries s) ''database'' (threshold_of ''base'') = ''pass''"
        by (auto simp: quality_check_node_def gate_def quality_inputs_def simp del: number_or_raise.simps split: if_splits)
      from db [OF this] rows base show ?thesis by auto
    next
      case (Some d)
      with assms t rows have "d = ''pass''"
        by (auto simp: quality_check_node_def gate_def quality_inputs_def simp del: number_or_raise.simps)
      with Some t dflt [of "g_db_result s" "''exploration_verdict''"] show ?thesis
        by (auto simp: verdict_decision_def Let_def split: if_splits dest!: verdict)
    qed
  qed
qed

definition demo_rag_state :: graph_state where
  "demo_rag_state =
     empty_state\<lparr>g_route_target := Some ''rag'', g_rag_quality_score := 8/10, g_rag_has_relevant := True,
       g_rag_relevant_count := 3\<rparr>"

lemma demo_rag_passes: "quality_check_node demo_rag_state = Inr (decided ''pass'' demo_rag_state)"
  by (simp add: quality_check_node_def gate_def demo_rag_state_def empty_state_def quality_inputs_def target_of_def
      verdict_decision_def RETRIEVAL_INFRA_ERROR_CODES_def token_budget_def DEFAULT_RETRY_TOKEN_BUDGET_def
      make_decision_def MIN_RELEVANT_DOCS_def threshold_of_def QUALITY_PASS_THRESHOLD_BASE_def)

theorem quality_pass_is_earned_witness:
  "quality_check_node demo_rag_state = Inr (decided ''pass'' demo_rag_state)
   \<and> threshold_of ''base'' \<le> 8/10"
  using quality_pass_is_earned [OF demo_rag_passes] demo_rag_passes
  by (simp add: demo_rag_state_def empty_state_def target_of_def)

end
