(* ===== verification/Result_Aggregator.thy ===== *)
theory Result_Aggregator
  imports Prelude
begin

text \<open>
  Aggregation of the results of a plan (\<open>agent/langgraph/executor/result_aggregator.py\<close>, with the
  score of a document from \<open>tools/rag_tool.py\<close>): failed steps are skipped, documents are ordered by
  score, kept once per identifier and cut to a maximum; database rows are labelled with their source.
  Tool results are untyped dictionaries; a value of an unexpected type raises.
\<close>

definition AGGREGATION_MAX_KEEP :: nat where
  "AGGREGATION_MAX_KEEP = 20"

section \<open>Scores\<close>

definition get_document_relevance_score :: "(string \<Rightarrow> rat res) \<Rightarrow> pdict \<Rightarrow> (rat \<times> string) res" where
  "get_document_relevance_score float_of_str doc =
     (if dget doc ''rerank_score'' \<noteq> PNone then
        rbind (py_float float_of_str (dget doc ''rerank_score'')) (\<lambda>r. Inr (r, ''rerank_score''))
      else if dget doc ''similarity'' \<noteq> PNone then
        rbind (py_float float_of_str (dget doc ''similarity'')) (\<lambda>r. Inr (r, ''similarity''))
      else if dget doc ''score'' \<noteq> PNone then
        rbind (py_float float_of_str (dget doc ''score'')) (\<lambda>r. Inr (r, ''score''))
      else Inr (0, ''none''))"

section \<open>Collecting\<close>

record agg_state =
  ax_rag_docs :: "pdict list"
  ax_db_rows :: "pdict list"
  ax_web_docs :: "pyval list"
  ax_rest_docs :: "pyval list"
  ax_report_artifacts :: "pyval list"
  ax_report_summary :: pyval
  ax_report_score :: rat
  ax_db_score :: rat
  ax_rest_score :: rat
  ax_db_sources :: "pyval list"
  ax_erp_domains :: "pyval list"
  ax_score_sources :: "pyval list"
  ax_success_count :: nat
  ax_fail_count :: nat

definition agg_init :: agg_state where
  "agg_init =
     \<lparr>ax_rag_docs = [], ax_db_rows = [], ax_web_docs = [], ax_rest_docs = [], ax_report_artifacts = [],
      ax_report_summary = PStr [], ax_report_score = 0, ax_db_score = 0, ax_rest_score = 0,
      ax_db_sources = [], ax_erp_domains = [], ax_score_sources = [], ax_success_count = 0,
      ax_fail_count = 0\<rparr>"

text \<open>\<open>s.add(v)\<close> for the set of score sources.\<close>

definition set_add :: "pyval \<Rightarrow> pyval list \<Rightarrow> pyval list res" where
  "set_add v xs = (if \<not> hashable v then Inl TypeError else if py_in v xs then Inr xs else Inr (xs @ [v]))"

definition agg_rag :: "pdict \<Rightarrow> agg_state \<Rightarrow> agg_state res" where
  "agg_rag result a =
     (let rag_docs = dget_or result ''rag_docs'' (PList []) in
      if \<not> truthy rag_docs then Inr a
      else
        rbind (dict_list rag_docs) (\<lambda>docs.
          let src = dget_or result ''rag_score_source'' (PStr []) in
          rbind (if truthy src then set_add src (ax_score_sources a) else Inr (ax_score_sources a)) (\<lambda>srcs.
            Inr (a\<lparr>ax_rag_docs := ax_rag_docs a @ docs, ax_score_sources := srcs\<rparr>))))"

definition agg_db :: "pdict \<Rightarrow> agg_state \<Rightarrow> agg_state res" where
  "agg_db result a =
     (let db = dget_or result ''db_result'' (PDict []) in
      if \<not> truthy db then Inr a
      else
        (case db of
           PDict d \<Rightarrow>
             (if \<not> truthy (dget d ''rows'') then Inr a
              else
                rbind (dict_list (dget d ''rows'')) (\<lambda>rows.
                rbind (number_or_raise (dget_or result ''db_quality_score'' (PFloat 0))) (\<lambda>score.
                  let db_id = dget_or result ''db_id'' (PStr ''unknown'') in
                  Inr (a\<lparr>ax_db_rows := ax_db_rows a @ map (\<lambda>r. dset r ''_source_db'' db_id) rows,
                         ax_db_score := max (ax_db_score a) score,
                         ax_db_sources := ax_db_sources a @ [db_id]\<rparr>))))
         | _ \<Rightarrow> Inl AttributeError))"

definition agg_web :: "pdict \<Rightarrow> agg_state \<Rightarrow> agg_state res" where
  "agg_web result a =
     (let web_docs = dget_or result ''web_docs'' (PList []) in
      if \<not> truthy web_docs then Inr a
      else rbind (py_iter web_docs) (\<lambda>docs. Inr (a\<lparr>ax_web_docs := ax_web_docs a @ docs\<rparr>)))"

definition agg_rest :: "pdict \<Rightarrow> agg_state \<Rightarrow> agg_state res" where
  "agg_rest result a =
     (case dget_or result ''rest_result'' (PDict []) of
        PDict d \<Rightarrow>
          (let rest_docs = dget_or d ''docs'' (PList []) in
           if \<not> truthy rest_docs then Inr a
           else
             rbind (py_iter rest_docs) (\<lambda>docs.
             rbind (number_or_raise (dget_or result ''rest_quality_score'' (PFloat 0))) (\<lambda>score.
               let dom = dget_or result ''erp_domain'' (PStr []) in
               Inr (a\<lparr>ax_rest_docs := ax_rest_docs a @ docs, ax_rest_score := max (ax_rest_score a) score,
                      ax_erp_domains := ax_erp_domains a @ (if truthy dom then [dom] else [])\<rparr>))))
      | _ \<Rightarrow> Inl AttributeError)"

definition agg_report :: "pdict \<Rightarrow> agg_state \<Rightarrow> agg_state res" where
  "agg_report result a =
     (let artifacts = py_or (dget_or result ''report_artifacts'' (PList [])) (PList []) in
      if \<not> truthy artifacts then Inr a
      else
        rbind (py_iter artifacts) (\<lambda>arts.
        rbind (number_or_raise (dget_or result ''report_quality_score'' (PFloat 0))) (\<lambda>score.
          Inr (a\<lparr>ax_report_artifacts := ax_report_artifacts a @ arts,
                 ax_report_summary := (if truthy (dget result ''report_summary'') then dget result ''report_summary''
                                       else ax_report_summary a),
                 ax_report_score := max (ax_report_score a) score\<rparr>))))"

definition agg_step :: "agg_state res \<Rightarrow> pdict \<Rightarrow> agg_state res" where
  "agg_step acc result =
     rbind acc (\<lambda>a.
       if \<not> truthy (dget_or result ''success'' (PBool False)) then
         Inr (a\<lparr>ax_fail_count := ax_fail_count a + 1\<rparr>)
       else
         rbind (agg_rag result (a\<lparr>ax_success_count := ax_success_count a + 1\<rparr>)) (\<lambda>a1.
         rbind (agg_db result a1) (\<lambda>a2.
         rbind (agg_web result a2) (\<lambda>a3.
         rbind (agg_rest result a3) (\<lambda>a4. agg_report result a4)))))"

section \<open>Ranking the documents\<close>

text \<open>Documents with their score; \<open>list.sort(reverse=True)\<close> is stable, so equal scores keep their
  order.\<close>

definition scored_docs :: "(string \<Rightarrow> rat res) \<Rightarrow> pdict list \<Rightarrow> (rat \<times> pdict) list res" where
  "scored_docs float_of_str docs =
     all_res (\<lambda>doc. rbind (get_document_relevance_score float_of_str doc) (\<lambda>p.
       Inr (fst p, dset doc ''_relevance_score'' (PFloat (fst p))))) docs"

definition doc_key :: "pdict \<Rightarrow> pyval" where
  "doc_key doc = py_or (dget_or doc ''doc_id'' (PStr [])) (dget_or doc ''chunk_id'' (PStr []))"

fun dedupe :: "pyval list \<Rightarrow> (rat \<times> pdict) list \<Rightarrow> (rat \<times> pdict) list res" where
  "dedupe seen [] = Inr []"
| "dedupe seen (p # ps) =
     (let k = doc_key (snd p) in
      if truthy k then
        (if \<not> hashable k then Inl TypeError
         else if py_in k seen then dedupe seen ps
         else rbind (dedupe (seen @ [k]) ps) (\<lambda>qs. Inr (p # qs)))
      else rbind (dedupe seen ps) (\<lambda>qs. Inr (p # qs)))"

definition rank_docs :: "(string \<Rightarrow> rat res) \<Rightarrow> nat \<Rightarrow> pdict list \<Rightarrow> (rat \<times> pdict) list res" where
  "rank_docs float_of_str max_keep docs =
     rbind (scored_docs float_of_str docs) (\<lambda>ps.
     rbind (dedupe [] (sort_key (\<lambda>p. - fst p) ps)) (\<lambda>qs. Inr (take max_keep qs)))"

record aggregated =
  ag_rag_docs :: "pdict list"
  ag_rag_quality_score :: rat
  ag_rag_has_relevant :: bool
  ag_rag_relevant_count :: int
  ag_rag_top_score :: rat
  ag_rag_score_source :: pyval
  ag_db_result :: pdict
  ag_db_quality_score :: rat
  ag_web_docs :: "pyval list"
  ag_rest_docs :: "pyval list"
  ag_rest_quality_score :: rat
  ag_report_artifacts :: "pyval list"
  ag_report_summary :: pyval
  ag_report_quality_score :: rat

definition score_source_of :: "pyval list \<Rightarrow> pyval" where
  "score_source_of srcs = (case srcs of [] \<Rightarrow> PStr ''base'' | [x] \<Rightarrow> x | _ \<Rightarrow> PStr ''mixed'')"

definition db_source_of :: "pyval list \<Rightarrow> pyval" where
  "db_source_of srcs = (case srcs of [] \<Rightarrow> PStr [] | [x] \<Rightarrow> x | _ \<Rightarrow> PStr ''multi_db'')"

definition mean :: "rat list \<Rightarrow> rat" where
  "mean xs = (if xs = [] then 0 else sum_list xs / of_nat (length xs))"

definition aggregate :: "(string \<Rightarrow> rat res) \<Rightarrow> nat \<Rightarrow> pdict list \<Rightarrow> aggregated res" where
  "aggregate float_of_str max_keep tool_results =
     rbind (foldl agg_step (Inr agg_init) tool_results) (\<lambda>a.
     rbind (rank_docs float_of_str max_keep (ax_rag_docs a)) (\<lambda>ranked.
       let scores = map fst ranked in
       Inr \<lparr>ag_rag_docs = map snd ranked, ag_rag_quality_score = mean scores,
            ag_rag_has_relevant = (length ranked > 0), ag_rag_relevant_count = int (length ranked),
            ag_rag_top_score = (if scores = [] then 0 else Max (set scores)),
            ag_rag_score_source = score_source_of (ax_score_sources a),
            ag_db_result = [(''rows'', PList (map PDict (ax_db_rows a))),
                            (''row_count'', PInt (int (length (ax_db_rows a)))),
                            (''source'', db_source_of (ax_db_sources a)),
                            (''is_aggregated'', PBool True), (''source_dbs'', PList (ax_db_sources a))],
            ag_db_quality_score = ax_db_score a, ag_web_docs = ax_web_docs a,
            ag_rest_docs = ax_rest_docs a, ag_rest_quality_score = ax_rest_score a,
            ag_report_artifacts = ax_report_artifacts a, ag_report_summary = ax_report_summary a,
            ag_report_quality_score = ax_report_score a\<rparr>))"

section \<open>Properties\<close>

lemma py_in_str [simp]: "py_in (PStr x) xs \<longleftrightarrow> PStr x \<in> set xs"
  by (auto simp: py_in_def list_ex_iff)

abbreviation key_of :: "rat \<times> pdict \<Rightarrow> pyval" where
  "key_of p \<equiv> doc_key (snd p)"

text \<open>Identifiers are strings, the empty one standing for a document without identifier.\<close>

definition str_keys :: "(rat \<times> pdict) list \<Rightarrow> bool" where
  "str_keys ps \<longleftrightarrow> (\<forall>p \<in> set ps. \<exists>k. key_of p = PStr k)"

lemma str_keys_Cons: "str_keys (p # ps) \<longleftrightarrow> (\<exists>k. key_of p = PStr k) \<and> str_keys ps"
  by (auto simp: str_keys_def)

lemma dedupe_Cons_str:
  assumes "key_of p = PStr k"
  shows "dedupe seen (p # ps) =
    (if k \<noteq> [] \<and> PStr k \<in> set seen then dedupe seen ps
     else rbind (dedupe (if k \<noteq> [] then seen @ [PStr k] else seen) ps) (\<lambda>qs. Inr (p # qs)))"
  using assms by (simp add: Let_def)

declare dedupe.simps(2) [simp del]

lemma dedupe_ConsE:
  assumes "dedupe seen (p # ps) = Inr qs" and "str_keys (p # ps)"
  obtains (skip) k where "key_of p = PStr k" "k \<noteq> []" "PStr k \<in> set seen" "dedupe seen ps = Inr qs" "str_keys ps"
    | (keep) k rs where "key_of p = PStr k" "k = [] \<or> PStr k \<notin> set seen" "qs = p # rs"
        "dedupe (if k \<noteq> [] then seen @ [PStr k] else seen) ps = Inr rs" "str_keys ps"
proof -
  from assms(2) obtain k where k: "key_of p = PStr k" and ps: "str_keys ps" by (auto simp: str_keys_Cons)
  show thesis
  proof (cases "k \<noteq> [] \<and> PStr k \<in> set seen")
    case True
    with assms(1) k ps skip show thesis by (simp add: dedupe_Cons_str [OF k])
  next
    case False
    with assms(1) obtain rs where "dedupe (if k \<noteq> [] then seen @ [PStr k] else seen) ps = Inr rs" "qs = p # rs"
      unfolding dedupe_Cons_str [OF k] by (auto simp: rbind_eq_Inr_iff simp del: if_split_asm)
    with False k ps keep show thesis by blast
  qed
qed

lemma dedupe_subset: "dedupe seen ps = Inr qs \<Longrightarrow> str_keys ps \<Longrightarrow> set qs \<subseteq> set ps"
proof (induction ps arbitrary: seen qs)
  case (Cons p ps)
  from Cons.prems show ?case by (cases rule: dedupe_ConsE) (use Cons.IH in fastforce)+
qed simp

lemma dedupe_sorted: "dedupe seen ps = Inr qs \<Longrightarrow> str_keys ps \<Longrightarrow> sorted_wrt R ps \<Longrightarrow> sorted_wrt R qs"
proof (induction ps arbitrary: seen qs)
  case (Cons p ps)
  from Cons.prems(1,2) show ?case
  proof (cases rule: dedupe_ConsE)
    case (skip k)
    with Cons show ?thesis by simp
  next
    case (keep k rs)
    with Cons.IH [OF keep(4,5)] Cons.prems(3) dedupe_subset [OF keep(4,5)] show ?thesis by auto
  qed
qed simp

text \<open>Kept identifiers are new and pairwise different, and every identifier is kept.\<close>

lemma dedupe_keys:
  assumes "dedupe seen ps = Inr qs" and "str_keys ps"
  shows "distinct (filter truthy (map key_of qs)) \<and> (\<forall>q \<in> set qs. truthy (key_of q) \<longrightarrow> key_of q \<notin> set seen)
    \<and> (\<forall>x \<in> set ps. truthy (key_of x) \<longrightarrow> key_of x \<notin> set seen \<longrightarrow> key_of x \<in> key_of ` set qs)"
  using assms
proof (induction ps arbitrary: seen qs)
  case (Cons p ps)
  from Cons.prems show ?case
  proof (cases rule: dedupe_ConsE)
    case (skip k)
    from Cons.IH [OF skip(4,5)] skip show ?thesis by auto
  next
    case (keep k rs)
    note IH = Cons.IH [OF keep(4,5)]
    have "key_of q \<noteq> PStr k" if "k \<noteq> []" "q \<in> set rs" for q
    proof
      assume "key_of q = PStr k"
      moreover from this that(1) have "truthy (key_of q)" by simp
      moreover from IH that(1) have "\<forall>q \<in> set rs. truthy (key_of q) \<longrightarrow> key_of q \<noteq> PStr k" by auto
      ultimately show False using that(2) by blast
    qed
    then have "PStr k \<notin> set (map key_of rs)" if "k \<noteq> []" using that by fastforce
    with IH keep(1-3) show ?thesis by (cases "k = []") auto
  qed
qed simp

lemma dedupe_best:
  assumes "dedupe seen ps = Inr qs" and "str_keys ps" and "sorted_wrt (\<lambda>p q. fst p \<ge> fst q) ps"
    and "q \<in> set qs" and "x \<in> set ps" and "truthy (key_of q)" and "key_of x = key_of q"
  shows "fst x \<le> fst q"
  using assms
proof (induction ps arbitrary: seen qs)
  case (Cons p ps)
  have new: "key_of q \<notin> set seen" using dedupe_keys [OF Cons.prems(1,2)] Cons.prems(4,6) by blast
  from Cons.prems(1,2) show ?case
  proof (cases rule: dedupe_ConsE)
    case (skip k)
    with new Cons.prems(7) have "x \<noteq> p" by auto
    with Cons.IH [OF skip(4,5)] Cons.prems(3-7) show ?thesis by auto
  next
    case (keep k rs)
    show ?thesis
    proof (cases "q = p")
      case True
      with Cons.prems(3,5) show ?thesis by auto
    next
      case False
      with Cons.prems(4) keep(3) have q: "q \<in> set rs" by simp
      have "key_of q \<notin> set (if k \<noteq> [] then seen @ [PStr k] else seen)"
        using dedupe_keys [OF keep(4,5)] q Cons.prems(6) by blast
      then have "key_of q \<noteq> key_of p" using keep(1) Cons.prems(6) by (cases "k = []") auto
      with Cons.prems(7) have "x \<noteq> p" by auto
      with Cons.IH [OF keep(4,5) _ q] Cons.prems(3,5-7) show ?thesis by auto
    qed
  qed
qed simp

definition doc_score :: "(string \<Rightarrow> rat res) \<Rightarrow> pdict \<Rightarrow> rat" where
  "doc_score f doc = (case get_document_relevance_score f doc of Inl _ \<Rightarrow> 0 | Inr p \<Rightarrow> fst p)"

definition with_score :: "(string \<Rightarrow> rat res) \<Rightarrow> pdict \<Rightarrow> pdict" where
  "with_score f doc = dset doc ''_relevance_score'' (PFloat (doc_score f doc))"

lemma doc_key_with_score [simp]: "doc_key (with_score f doc) = doc_key doc"
  by (simp add: doc_key_def with_score_def)

lemma scored_docs_Inr:
  "scored_docs f docs = Inr ps \<Longrightarrow> ps = map (\<lambda>d. (doc_score f d, with_score f d)) docs"
  unfolding scored_docs_def all_res_Inr_iff
  by (induction docs ps rule: list_all2_induct) (auto simp: rbind_eq_Inr_iff doc_score_def with_score_def)

lemma sorted_by_score: "sorted_wrt (\<lambda>p q. fst p \<ge> fst q) (sort_key (\<lambda>p. - fst p :: rat) ps)"
proof -
  have "sorted (map (\<lambda>p. - fst p) (sort_key (\<lambda>p. - fst p :: rat) ps))" by (rule sorted_sort_key)
  then show ?thesis by (simp add: sorted_wrt_map)
qed

text \<open>What the aggregation keeps of the documents of all steps. When it returns, for documents with
  string identifiers: there are at most \<open>max_keep\<close>; they are in order of falling score; each is one of
  the given documents, with its score noted; no identifier occurs twice; and a kept document with an
  identifier has the best score of all documents with that identifier.\<close>

theorem aggregation_keeps_the_best:
  assumes "rank_docs f max_keep docs = Inr ranked" and "\<forall>d \<in> set docs. \<exists>k. doc_key d = PStr k"
  shows "length ranked \<le> max_keep \<and> sorted_wrt (\<lambda>p q. fst p \<ge> fst q) ranked
    \<and> (\<forall>p \<in> set ranked. \<exists>d \<in> set docs. p = (doc_score f d, with_score f d))
    \<and> distinct (filter truthy (map key_of ranked))
    \<and> (\<forall>p \<in> set ranked. \<forall>d \<in> set docs. truthy (key_of p) \<longrightarrow> doc_key d = key_of p \<longrightarrow> doc_score f d \<le> fst p)"
proof -
  let ?ps = "map (\<lambda>d. (doc_score f d, with_score f d)) docs"
  let ?srt = "sort_key (\<lambda>p. - fst p) ?ps"
  from assms(1) obtain qs where qs: "dedupe [] ?srt = Inr qs" and r: "ranked = take max_keep qs"
    by (auto simp: rank_docs_def rbind_eq_Inr_iff dest: scored_docs_Inr)
  have str: "str_keys ?srt" using assms(2) by (auto simp: str_keys_def)
  have sub: "set ranked \<subseteq> set qs" unfolding r by (rule set_take_subset)
  have "sorted_wrt (\<lambda>p q. fst p \<ge> fst q) ranked"
    unfolding r by (rule sorted_wrt_take [OF dedupe_sorted [OF qs str sorted_by_score]])
  moreover have "\<forall>p \<in> set ranked. \<exists>d \<in> set docs. p = (doc_score f d, with_score f d)"
    using sub dedupe_subset [OF qs str] by fastforce
  moreover have "distinct (filter truthy (map key_of ranked))"
  proof -
    have "distinct (filter truthy (map key_of qs))" using dedupe_keys [OF qs str] by blast
    moreover have "filter truthy (map key_of qs) =
        filter truthy (map key_of ranked) @ filter truthy (map key_of (drop max_keep qs))"
      unfolding r by (metis append_take_drop_id filter_append map_append)
    ultimately show ?thesis by simp
  qed
  moreover have "doc_score f d \<le> fst p"
    if "p \<in> set ranked" "d \<in> set docs" "truthy (key_of p)" "doc_key d = key_of p" for p d
    using dedupe_best [OF qs str sorted_by_score, of p "(doc_score f d, with_score f d)"] that sub by auto
  ultimately show ?thesis by (simp add: r)
qed

definition demo_docs :: "pdict list" where
  "demo_docs =
     [[(''doc_id'', PStr ''a''), (''score'', PFloat (1/10))], [(''doc_id'', PStr ''b''), (''score'', PFloat (3/10))],
      [(''doc_id'', PStr ''a''), (''score'', PFloat (2/10))]]"

lemma demo_ranking:
  "rank_docs (\<lambda>_. Inl ValueError) 20 demo_docs =
     Inr [(3/10, [(''doc_id'', PStr ''b''), (''score'', PFloat (3/10)), (''_relevance_score'', PFloat (3/10))]),
          (2/10, [(''doc_id'', PStr ''a''), (''score'', PFloat (2/10)), (''_relevance_score'', PFloat (2/10))])]"
  by code_simp

theorem aggregation_keeps_the_best_witness:
  "\<exists>ranked. rank_docs (\<lambda>_. Inl ValueError) 20 demo_docs = Inr ranked
     \<and> sorted_wrt (\<lambda>p q. fst p \<ge> fst q) ranked"
  using aggregation_keeps_the_best [OF demo_ranking] demo_ranking
  by (auto simp: demo_docs_def doc_key_def)

section \<open>Failed steps\<close>

lemma agg_step_failed:
  "\<not> truthy (dget_or r ''success'' (PBool False)) \<Longrightarrow>
   agg_step acc r = rbind acc (\<lambda>a. Inr (a\<lparr>ax_fail_count := ax_fail_count a + 1\<rparr>))"
  by (simp add: agg_step_def)

text \<open>The count of failures, which is only logged, influences nothing else.\<close>

lemma agg_ops_fail_count:
  "agg_rag r (a\<lparr>ax_fail_count := n\<rparr>) = map_sum id (ax_fail_count_update (\<lambda>_. n)) (agg_rag r a)"
  "agg_db r (a\<lparr>ax_fail_count := n\<rparr>) = map_sum id (ax_fail_count_update (\<lambda>_. n)) (agg_db r a)"
  "agg_web r (a\<lparr>ax_fail_count := n\<rparr>) = map_sum id (ax_fail_count_update (\<lambda>_. n)) (agg_web r a)"
  "agg_rest r (a\<lparr>ax_fail_count := n\<rparr>) = map_sum id (ax_fail_count_update (\<lambda>_. n)) (agg_rest r a)"
  "agg_report r (a\<lparr>ax_fail_count := n\<rparr>) = map_sum id (ax_fail_count_update (\<lambda>_. n)) (agg_report r a)"
  by (simp_all add: agg_rag_def agg_db_def agg_web_def agg_rest_def agg_report_def Let_def rbind_def
      split: sum.split pyval.split)

lemma rbind_map_sum: "rbind (map_sum id g m) f = rbind m (\<lambda>x. f (g x))"
  by (cases m) simp_all

lemma map_sum_rbind: "map_sum id g (rbind m f) = rbind m (\<lambda>x. map_sum id g (f x))"
  by (cases m) simp_all

definition forget :: "agg_state res \<Rightarrow> agg_state res" where
  "forget m = map_sum id (ax_fail_count_update (\<lambda>_. 0)) m"

lemma forget_step: "forget (agg_step m r) = forget (agg_step (forget m) r)"
proof (cases m)
  case (Inr a)
  have "agg_step (Inr (a\<lparr>ax_fail_count := 0\<rparr>)) r = map_sum id (ax_fail_count_update (\<lambda>_. 0)) (agg_step (Inr a) r)"
    if "truthy (dget_or r ''success'' (PBool False))"
  proof -
    have swap: "a\<lparr>ax_fail_count := 0, ax_success_count := Suc (ax_success_count (a\<lparr>ax_fail_count := 0\<rparr>))\<rparr>
        = (a\<lparr>ax_success_count := Suc (ax_success_count a)\<rparr>)\<lparr>ax_fail_count := 0\<rparr>" by simp
    show ?thesis
      using that unfolding agg_step_def rbind_Inr
      by (simp only: simp_thms if_False agg_state.simps Suc_eq_plus1 [symmetric] swap agg_ops_fail_count
          rbind_map_sum map_sum_rbind)
  qed
  with Inr show ?thesis
    by (cases "truthy (dget_or r ''success'' (PBool False))")
      (simp_all add: forget_def agg_step_failed sum.map_comp o_def id_def)
qed (simp add: forget_def agg_step_def)

lemma forget_foldl: "forget (foldl agg_step m rs) = forget (foldl agg_step (forget m) rs)"
proof (induction rs arbitrary: m)
  case Nil
  then show ?case by (cases m) (simp_all add: forget_def)
next
  case (Cons r rs)
  show ?case
    using Cons.IH [of "agg_step m r"] Cons.IH [of "agg_step (forget m) r"] forget_step [of m r] by simp
qed

lemma aggregate_forget:
  "aggregate f n rs = rbind (forget (foldl agg_step (Inr agg_init) rs)) (\<lambda>a.
     rbind (rank_docs f n (ax_rag_docs a)) (\<lambda>ranked.
       let scores = map fst ranked in
       Inr \<lparr>ag_rag_docs = map snd ranked, ag_rag_quality_score = mean scores,
            ag_rag_has_relevant = (length ranked > 0), ag_rag_relevant_count = int (length ranked),
            ag_rag_top_score = (if scores = [] then 0 else Max (set scores)),
            ag_rag_score_source = score_source_of (ax_score_sources a),
            ag_db_result = [(''rows'', PList (map PDict (ax_db_rows a))),
                            (''row_count'', PInt (int (length (ax_db_rows a)))),
                            (''source'', db_source_of (ax_db_sources a)),
                            (''is_aggregated'', PBool True), (''source_dbs'', PList (ax_db_sources a))],
            ag_db_quality_score = ax_db_score a, ag_web_docs = ax_web_docs a,
            ag_rest_docs = ax_rest_docs a, ag_rest_quality_score = ax_rest_score a,
            ag_report_artifacts = ax_report_artifacts a, ag_report_summary = ax_report_summary a,
            ag_report_quality_score = ax_report_score a\<rparr>))"
  by (simp add: aggregate_def forget_def rbind_map_sum)

text \<open>A failed step leaves no trace in the aggregate: the results of a plan with a step that did not
  succeed aggregate to the same documents, rows, scores and sources as without it.\<close>

theorem failed_steps_are_skipped:
  assumes "\<not> truthy (dget_or r ''success'' (PBool False))"
  shows "aggregate f n (rs @ r # qs) = aggregate f n (rs @ qs)"
proof -
  have "forget (agg_step m r) = forget m" for m
    using assms by (cases m) (simp_all add: agg_step_failed forget_def)
  then have "forget (foldl agg_step (Inr agg_init) (rs @ r # qs)) = forget (foldl agg_step (Inr agg_init) (rs @ qs))"
    using forget_foldl [of "agg_step (foldl agg_step (Inr agg_init) rs) r" qs]
      forget_foldl [of "foldl agg_step (Inr agg_init) rs" qs] by simp
  then show ?thesis unfolding aggregate_forget by (rule arg_cong)
qed

theorem failed_steps_are_skipped_witness:
  "aggregate (\<lambda>_. Inl ValueError) 20 [[(''success'', PBool False), (''rag_docs'', PInt 7)]]
     = aggregate (\<lambda>_. Inl ValueError) 20 []"
  using failed_steps_are_skipped [of "[(''success'', PBool False), (''rag_docs'', PInt 7)]" _ _ "[]" "[]"] by simp

end
