(* ===== verification/Tool_Nodes.thy ===== *)
theory Tool_Nodes
  imports Agent_State Result_Aggregator
begin

text \<open>
  The nodes of the main graph that call a tool (\<open>agent/langgraph/nodes/rag_tool_node.py\<close>,
  \<open>db_tool_node.py\<close>, \<open>web_tool_node.py\<close>, \<open>rest_tool_node.py\<close>, \<open>graph_tool_node.py\<close>) and the node
  that runs a plan (\<open>plan_executor.py\<close>). Each node builds the input of its tool from the state, calls
  it and writes the result into the state; the tools are arguments that return or raise. A value
  \<open>Inl\<close> of a node is an exception that leaves the node and ends the run of the graph.
\<close>

section \<open>Documents\<close>

text \<open>\<open>len(v)\<close>\<close>

fun py_len :: "pyval \<Rightarrow> nat res" where
  "py_len (PStr s) = Inr (u_len s)"
| "py_len (PList xs) = Inr (length xs)"
| "py_len (PDict d) = Inr (length d)"
| "py_len _ = Inl TypeError"

definition doc_lengths :: "pdict list \<Rightarrow> nat list res" where
  "doc_lengths docs = all_res (\<lambda>d. py_len (dget_or d ''content'' (PStr []))) docs"

text \<open>A configuration section: \<open>agent_config.get(k, {}) or {}\<close>, then read with \<open>get\<close>.\<close>

definition config_section :: "graph_state \<Rightarrow> string \<Rightarrow> pdict res" where
  "config_section s k =
     (case section_or_empty (g_agent_config s) k of PDict d \<Rightarrow> Inr d | _ \<Rightarrow> Inl AttributeError)"

section \<open>Retrieval\<close>

record rag_output =
  rg_docs :: "pdict list"
  rg_quality_score :: rat
  rg_has_relevant :: bool
  rg_relevant_count :: int
  rg_top_score :: rat
  rg_score_source :: string
  rg_detected_lang :: "string option"
  rg_query_simplified :: "string option"
  rg_retrieval_error_code :: string

definition empty_rag_state :: "graph_state \<Rightarrow> graph_state" where
  "empty_rag_state s =
     s\<lparr>g_rag_docs := [], g_rag_quality_score := 0, g_rag_has_relevant := False,
       g_rag_relevant_count := 0, g_rag_top_score := 0, g_rag_score_source := ''base'',
       g_retrieval_error_code := []\<rparr>"

definition rag_kb_ids :: "graph_state \<Rightarrow> string list" where
  "rag_kb_ids s =
     (let recommended = (case g_route_decision s of None \<Rightarrow> [] | Some d \<Rightarrow> rd_kb_ids d)
      in if recommended \<noteq> [] then recommended else g_kb_ids s)"

definition rag_node_input :: "pdict \<Rightarrow> graph_state \<Rightarrow> pdict" where
  "rag_node_input cfg s =
     [(''query'', PStr (g_user_question s)),
      (''query_simplified'', py_or (PStr (g_query_simplified s)) (PStr (g_user_question s))),
      (''top_k'', dget_or cfg ''top_k'' (PInt 5)),
      (''enable_rewrite'', dget_or cfg ''enable_rewrite'' (PBool True)),
      (''enable_rerank'', dget_or cfg ''enable_rerank'' (PBool True)),
      (''kb_ids'', PList (map PStr (rag_kb_ids s))), (''tenant_id'', PStr (g_tenant_id s)),
      (''llm_id'', PStr (g_llm_id s)),
      (''cross_languages'', dget_or cfg ''cross_languages'' (PList [])),
      (''similarity_threshold'', dget_or cfg ''similarity_threshold'' (PFloat (2/10))),
      (''keywords_similarity_weight'', dget_or cfg ''keywords_similarity_weight'' (PFloat (5/10))),
      (''rerank_id'', dget_or cfg ''rerank_id'' (PStr [])), (''retry_count'', PInt (g_retry_count s))]"

text \<open>The estimate of the tokens used: a quarter of the characters of the documents.\<close>

definition rag_update :: "rag_output \<Rightarrow> nat list \<Rightarrow> graph_state \<Rightarrow> graph_state" where
  "rag_update r lens s =
     s\<lparr>g_rag_docs := rg_docs r, g_rag_quality_score := rg_quality_score r,
       g_rag_has_relevant := rg_has_relevant r, g_rag_relevant_count := rg_relevant_count r,
       g_rag_top_score := rg_top_score r, g_rag_score_source := rg_score_source r,
       g_query_lang := (case rg_detected_lang r of None \<Rightarrow> g_query_lang s | Some l \<Rightarrow> l),
       g_query_simplified := (case rg_query_simplified r of None \<Rightarrow> g_query_simplified s | Some q \<Rightarrow> q),
       g_retrieval_error_code := rg_retrieval_error_code r,
       g_retry_token_used := g_retry_token_used s + int (sum_list lens) div 4\<rparr>"

text \<open>A \<open>RetrievalDataError\<close> is raised again; every other exception gives the empty result.\<close>

definition RetrievalDataError :: exn where
  "RetrievalDataError = OtherError ''RetrievalDataError''"

definition rag_tool_node :: "(pdict \<Rightarrow> rag_output res) \<Rightarrow> graph_state \<Rightarrow> graph_state res" where
  "rag_tool_node invoke s =
     (if g_user_question s = [] then Inr (empty_rag_state s)
      else
        rbind (config_section s ''rag_config'') (\<lambda>cfg.
          case rbind (invoke (rag_node_input cfg s)) (\<lambda>r.
                 rbind (doc_lengths (rg_docs r)) (\<lambda>lens. Inr (rag_update r lens s))) of
            Inr t \<Rightarrow> Inr t
          | Inl e \<Rightarrow> if e = RetrievalDataError then Inl e else Inr (empty_rag_state s)))"

section \<open>Database\<close>

definition empty_db_state :: "graph_state \<Rightarrow> graph_state" where
  "empty_db_state s = s\<lparr>g_db_result := [], g_db_quality_score := 0\<rparr>"

definition db_node_input :: "pdict \<Rightarrow> graph_state \<Rightarrow> pdict" where
  "db_node_input cfg s =
     [(''query'', PStr (g_user_question s)),
      (''query_simplified'', py_or (PStr (g_query_simplified s)) (PStr (g_user_question s))),
      (''query_lang'', PStr (g_query_lang s)), (''db_id'', PStr (g_db_id s)),
      (''tenant_id'', PStr (g_tenant_id s)), (''llm_id'', PStr (g_llm_id s)),
      (''mcp_server_name'', PStr (g_mcp_server_name s)),
      (''enable_self_healing'', dget_or cfg ''enable_self_healing'' (PBool True)),
      (''enable_template'', dget_or cfg ''enable_template'' (PBool True))]
     @ filter (\<lambda>kv. truthy (snd kv))
         [(''exploration_mode'', dget cfg ''exploration_mode''), (''sql_agent_config'', dget cfg ''sql_agent_config'')]"

text \<open>The score is formatted as a number for the log inside the \<open>try\<close>: another type raises there.\<close>

definition db_tool_node :: "(pdict \<Rightarrow> pdict res) \<Rightarrow> graph_state \<Rightarrow> graph_state res" where
  "db_tool_node invoke s =
     (if \<not> g_db_tool_enabled s then Inr (empty_db_state s)
      else if g_user_question s = [] then Inr (empty_db_state s)
      else
        rbind (config_section s ''database_config'') (\<lambda>cfg.
          case rbind (invoke (db_node_input cfg s)) (\<lambda>r.
                 rbind (number_or_raise (dget_or r ''quality_score'' (PFloat 0))) (\<lambda>q.
                   Inr (s\<lparr>g_db_result := r, g_db_quality_score := q\<rparr>))) of
            Inr t \<Rightarrow> Inr t
          | Inl _ \<Rightarrow> Inr (empty_db_state s)))"

section \<open>Web\<close>

definition web_node_input :: "pdict \<Rightarrow> graph_state \<Rightarrow> pdict" where
  "web_node_input cfg s =
     [(''query'', PStr (g_user_question s)), (''query_lang'', PStr (g_query_lang s)),
      (''search_engine'', dget_or cfg ''search_engine'' (PStr ''tavily'')),
      (''max_results'', dget_or cfg ''max_results'' (PInt 6)),
      (''api_key'', dget_or cfg ''api_key'' (PStr []))]"

definition web_tool_node :: "(pdict \<Rightarrow> pdict list res) \<Rightarrow> graph_state \<Rightarrow> graph_state res" where
  "web_tool_node invoke s =
     (if g_user_question s = [] then Inr (s\<lparr>g_web_docs := []\<rparr>)
      else
        rbind (config_section s ''web_config'') (\<lambda>cfg.
          Inr (s\<lparr>g_web_docs := (case invoke (web_node_input cfg s) of Inr docs \<Rightarrow> docs | Inl _ \<Rightarrow> [])\<rparr>)))"

section \<open>REST and graph services\<close>

text \<open>The first step of the plan for the tool, if there is a plan with steps: \<open>None\<close> without a plan,
  \<open>Some None\<close> for a plan without such a step.\<close>

definition plan_args :: "string \<Rightarrow> graph_state \<Rightarrow> pdict option option" where
  "plan_args tool s =
     (case g_execution_plan s of
        None \<Rightarrow> None
      | Some plan \<Rightarrow>
          if ep_steps plan = [] then None
          else
            (case filter (\<lambda>st. ps_tool st = tool) (ep_steps plan) of
               [] \<Rightarrow> Some None
             | st # _ \<Rightarrow> Some (Some (ps_args st))))"

definition route_metadata :: "graph_state \<Rightarrow> pdict" where
  "route_metadata s = (case g_route_decision s of None \<Rightarrow> [] | Some d \<Rightarrow> rd_metadata d)"

definition query_of_args :: "pdict \<Rightarrow> graph_state \<Rightarrow> pyval" where
  "query_of_args args s = py_or (dget_or args ''query'' (PStr [])) (PStr (g_user_question s))"

definition rest_node_input :: "graph_state \<Rightarrow> pdict" where
  "rest_node_input s =
     (let question = PStr (g_user_question s);
          fields =
            (case plan_args ''rest'' s of
               Some (Some args) \<Rightarrow>
                 [(''query'', query_of_args args s),
                  (''function'', py_or (dget_or args ''function'' (PStr [])) (PStr [])),
                  (''function_params'', py_or (dget_or args ''function_params'' (PDict [])) (PDict [])),
                  (''rest_endpoint'', dget_or args ''rest_endpoint'' (PStr [])),
                  (''rest_method'', py_or (dget_or args ''rest_method'' (PStr [])) (PStr ''GET'')),
                  (''rest_payload'', dget_or args ''rest_payload'' (PDict [])),
                  (''erp_domain'', dget_or args ''erp_domain'' (PStr []))]
             | Some None \<Rightarrow>
                 [(''query'', question), (''function'', PStr []), (''function_params'', PDict []),
                  (''rest_endpoint'', PStr []), (''rest_method'', PStr ''GET''), (''rest_payload'', PNone),
                  (''erp_domain'', PStr [])]
             | None \<Rightarrow>
                 (let m = route_metadata s in
                 [(''query'', question), (''function'', dget_or m ''function'' (PStr [])),
                  (''function_params'', dget_or m ''function_params'' (PDict [])),
                  (''rest_endpoint'', dget_or m ''rest_endpoint'' (PStr [])),
                  (''rest_method'', dget_or m ''rest_method'' (PStr ''GET'')),
                  (''rest_payload'', dget m ''rest_payload''),
                  (''erp_domain'', dget_or m ''erp_domain'' (PStr []))]))
      in fields @
         [(''query_simplified'', PStr (g_query_simplified s)), (''query_lang'', PStr (g_query_lang s)),
          (''tenant_id'', PStr (g_tenant_id s)), (''llm_id'', PStr (g_llm_id s)),
          (''mcp_server_name'', PStr (g_mcp_server_name s))])"

text \<open>The result of a service: its fields, and the typed ones among them.\<close>

record service_output =
  sv_fields :: pdict
  sv_quality_score :: rat
  sv_row_count :: int

definition rest_tool_node :: "(pdict \<Rightarrow> service_output res) \<Rightarrow> graph_state \<Rightarrow> graph_state res" where
  "rest_tool_node invoke s =
     rbind (invoke (rest_node_input s)) (\<lambda>r.
       let d = sv_fields r in
       Inr (s\<lparr>g_rest_result :=
                [(''status_code'', dget_or d ''rest_status_code'' (PInt 0)),
                 (''response'', dget_or d ''rest_response'' (PDict [])),
                 (''response_text'', dget_or d ''rest_response_text'' (PStr [])),
                 (''docs'', dget_or d ''docs'' (PList [])),
                 (''endpoint'', dget_or d ''rest_endpoint'' (PStr [])),
                 (''method'', dget_or d ''rest_method'' (PStr ''GET'')),
                 (''erp_domain'', dget_or d ''erp_domain'' (PStr []))],
              g_rest_quality_score := sv_quality_score r\<rparr>))"

definition GRAPH_DEFAULTS :: pdict where
  "GRAPH_DEFAULTS =
     [(''source_type'', PStr ''Meeting''), (''enable_pg'', PBool False), (''max_rows'', PInt 20),
      (''max_result_chars'', PInt 12000), (''enable_hybrid_retrieval'', PBool False),
      (''timeout_ms'', PInt 30000)]"

definition with_defaults :: "pdict \<Rightarrow> pdict" where
  "with_defaults d = map (\<lambda>kv. (fst kv, dget_or d (fst kv) (snd kv))) GRAPH_DEFAULTS"

definition graph_node_input :: "graph_state \<Rightarrow> pdict" where
  "graph_node_input s =
     (case plan_args ''graph'' s of
        Some (Some args) \<Rightarrow>
          dset ((''query'', query_of_args args s) # with_defaults args) ''source_type''
            (py_or (dget_or args ''source_type'' (PStr ''Meeting'')) (PStr ''Meeting''))
      | Some None \<Rightarrow> (''query'', PStr (g_user_question s)) # GRAPH_DEFAULTS
      | None \<Rightarrow> (''query'', PStr (g_user_question s)) # with_defaults (route_metadata s))
     @ [(''query_simplified'', PStr (g_query_simplified s)), (''tenant_id'', PStr (g_tenant_id s)),
        (''llm_id'', PStr (g_llm_id s))]"

definition GRAPH_RESULT_DEFAULTS :: pdict where
  "GRAPH_RESULT_DEFAULTS =
     [(''answer'', PStr []), (''rows'', PList []), (''row_count'', PInt 0), (''error'', PStr []),
      (''quality_score'', PFloat 0), (''repair_trace'', PList []), (''query_stats'', PDict []),
      (''planner'', PDict []), (''cypher_query'', PStr []), (''cypher_params'', PDict []),
      (''pg_rows'', PList []), (''pg_row_count'', PInt 0), (''pg_query_log'', PList []),
      (''pg_query_stats'', PDict []), (''pg_repair_trace'', PList [])]"

text \<open>\<open>base_url\<close> is read from the section \<open>graph_config\<close> before the call.\<close>

definition graph_tool_node :: "(pyval \<Rightarrow> pdict \<Rightarrow> service_output res) \<Rightarrow> graph_state \<Rightarrow> graph_state res" where
  "graph_tool_node invoke s =
     rbind (config_section s ''graph_config'') (\<lambda>cfg.
     rbind (invoke (dget cfg ''base_url'') (graph_node_input s)) (\<lambda>r.
       let d = sv_fields r in
       Inr (s\<lparr>g_graph_result := map (\<lambda>kv. (fst kv, dget_or d (fst kv) (snd kv))) GRAPH_RESULT_DEFAULTS,
              g_graph_quality_score := sv_quality_score r, g_graph_score_source := ''graph'',
              g_graph_has_result := (sv_row_count r > 0), g_graph_row_count := sv_row_count r\<rparr>)))"

section \<open>Plans\<close>

definition fallback_empty_result :: "graph_state \<Rightarrow> graph_state" where
  "fallback_empty_result s =
     s\<lparr>g_tool_results := [], g_plan_execution_status := ''failed'', g_rag_docs := [],
       g_rag_quality_score := 0, g_rag_has_relevant := False, g_rag_relevant_count := 0,
       g_rag_top_score := 0, g_db_result := [], g_db_quality_score := 0, g_web_docs := []\<rparr>"

text \<open>The state as the dictionary that the tool adapters receive.\<close>

definition state_dict :: "graph_state \<Rightarrow> pdict" where
  "state_dict s =
     [(''user_question'', PStr (g_user_question s)), (''query_lang'', PStr (g_query_lang s)),
      (''query_simplified'', PStr (g_query_simplified s)), (''tenant_id'', PStr (g_tenant_id s)),
      (''llm_id'', PStr (g_llm_id s)), (''kb_ids'', PList (map PStr (g_kb_ids s))),
      (''db_id'', PStr (g_db_id s)), (''mcp_server_name'', PStr (g_mcp_server_name s)),
      (''agent_config'', PDict (g_agent_config s))]"

record plan_env =
  pn_parse :: "pyval \<Rightarrow> execution_plan res"
  pn_dispatch :: dispatch_env
  pn_float_of_str :: "string \<Rightarrow> rat res"

definition plan_outcome :: "plan_env \<Rightarrow> graph_state \<Rightarrow> (execution_plan \<times> pdict list) option" where
  "plan_outcome env s =
     (case g_route_decision s of
        None \<Rightarrow> None
      | Some d \<Rightarrow>
          if \<not> truthy (dget (rd_metadata d) ''plan'') then None
          else
            (case pn_parse env (dget (rd_metadata d) ''plan'') of
               Inl _ \<Rightarrow> None
             | Inr plan \<Rightarrow>
                 if ep_steps plan = [] then None
                 else
                   (case execute_plan (pn_dispatch env) plan (state_dict s) of
                      Inl _ \<Rightarrow> None
                    | Inr results \<Rightarrow> Some (plan, results))))"

text \<open>Of the aggregate the node copies the fields of documents, database and web. The web documents must
  be dictionaries for the state; the aggregation itself may raise.\<close>

definition plan_executor_node :: "plan_env \<Rightarrow> graph_state \<Rightarrow> graph_state res" where
  "plan_executor_node env s =
     (case plan_outcome env s of
        None \<Rightarrow> Inr (fallback_empty_result s)
      | Some (plan, results) \<Rightarrow>
          rbind (aggregate (pn_float_of_str env) AGGREGATION_MAX_KEEP results) (\<lambda>a.
          rbind (all_res dict_of (ag_web_docs a)) (\<lambda>web.
            let fails = length (filter (\<lambda>r. \<not> truthy (dget_or r ''success'' (PBool False))) results) in
            Inr (s\<lparr>g_tool_results := results, g_execution_plan := Some plan,
                   g_plan_execution_status := (if fails = 0 then ''completed'' else ''partial''),
                   g_rag_docs := ag_rag_docs a, g_rag_quality_score := ag_rag_quality_score a,
                   g_rag_has_relevant := ag_rag_has_relevant a,
                   g_rag_relevant_count := ag_rag_relevant_count a,
                   g_rag_top_score := ag_rag_top_score a, g_db_result := ag_db_result a,
                   g_db_quality_score := ag_db_quality_score a, g_web_docs := web\<rparr>))))"

end
