(* ===== verification/Json.thy ===== *)
theory Json
  imports Prelude
begin

text \<open>
  The JSON encoding of Python's \<open>json\<close> module, on the UTF-8 text of a value: \<open>json_loads\<close> is the
  scanner of \<open>json.loads\<close> in its strict mode (\<open>None\<close> stands for \<open>JSONDecodeError\<close>), \<open>json_dumps\<close>
  is \<open>json.dumps(v, sort_keys=True, ensure_ascii=False)\<close>. The non-finite literals
  \<open>NaN\<close> and \<open>Infinity\<close> are outside \<open>pyval\<close> and are refused; the shortest decimal form of a
  \<open>float\<close> is the argument \<open>float_repr\<close> of \<open>json_dumps\<close>.
\<close>

section \<open>Reading\<close>

definition json_ws :: "char \<Rightarrow> bool" where
  "json_ws c \<longleftrightarrow> c = CHR '' '' \<or> c = CHR 0x09 \<or> c = CHR 0x0A \<or> c = CHR 0x0D"

definition skip_ws :: "string \<Rightarrow> string" where
  "skip_ws s = dropWhile json_ws s"

text \<open>The first character of the rest of the input.\<close>

definition next_is :: "char \<Rightarrow> string \<Rightarrow> bool" where
  "next_is c s = (case s of [] \<Rightarrow> False | d # _ \<Rightarrow> d = c)"

definition digit_chars :: string where
  "digit_chars = ''0123456789''"

definition is_digit :: "char \<Rightarrow> bool" where
  "is_digit c \<longleftrightarrow> c \<in> set digit_chars"

definition hex_table :: "(char \<times> int) list" where
  "hex_table = zip ''0123456789abcdefABCDEF''
     [0, 1, 2, 3, 4, 5, 6, 7, 8, 9, 10, 11, 12, 13, 14, 15, 10, 11, 12, 13, 14, 15]"

definition digit_val :: "char \<Rightarrow> int" where
  "digit_val c = dget_or hex_table c 0"

definition digits_val :: "string \<Rightarrow> int" where
  "digits_val ds = foldl (\<lambda>n c. 10 * n + digit_val c) 0 ds"

definition hex_val :: "char \<Rightarrow> int option" where
  "hex_val c = map_of hex_table c"

definition is_control :: "char \<Rightarrow> bool" where
  "is_control c \<longleftrightarrow> \<not> digit7 c \<and> \<not> digit6 c \<and> \<not> digit5 c"

definition hex4 :: "char \<Rightarrow> char \<Rightarrow> char \<Rightarrow> char \<Rightarrow> int option" where
  "hex4 a b c d =
     (case (hex_val a, hex_val b, hex_val c, hex_val d) of
        (Some x, Some y, Some z, Some w) \<Rightarrow> Some (((x * 16 + y) * 16 + z) * 16 + w)
      | _ \<Rightarrow> None)"

definition utf8 :: "int \<Rightarrow> string" where
  "utf8 n =
     (if n < 0x80 then [char_of n]
      else if n < 0x800 then [char_of (0xC0 + n div 64), char_of (0x80 + n mod 64)]
      else if n < 0x10000 then
        [char_of (0xE0 + n div 4096), char_of (0x80 + n div 64 mod 64), char_of (0x80 + n mod 64)]
      else [char_of (0xF0 + n div 262144), char_of (0x80 + n div 4096 mod 64),
            char_of (0x80 + n div 64 mod 64), char_of (0x80 + n mod 64)])"

definition simple_escape :: "char \<Rightarrow> char option" where
  "simple_escape e = map_of
     [(CHR 0x22, CHR 0x22), (CHR 0x5C, CHR 0x5C), (CHR ''/'', CHR ''/''), (CHR ''b'', CHR 0x08),
      (CHR ''f'', CHR 0x0C), (CHR ''n'', CHR 0x0A), (CHR ''r'', CHR 0x0D), (CHR ''t'', CHR 0x09)] e"

text \<open>A high surrogate followed by an escaped low surrogate is one code point: the value and how
  many characters of the rest belong to it.\<close>

definition surrogate_pair :: "int \<Rightarrow> string \<Rightarrow> int \<times> nat" where
  "surrogate_pair n r =
     (if 0xD800 \<le> n \<and> n \<le> 0xDBFF then
        (case r of
           x # y # a # b # c # d # _ \<Rightarrow>
             if x \<noteq> CHR 0x5C \<or> y \<noteq> CHR ''u'' then (n, 0)
             else
               (case hex4 a b c d of
                  Some m \<Rightarrow>
                    if 0xDC00 \<le> m \<and> m \<le> 0xDFFF
                    then (0x10000 + (n - 0xD800) * 0x400 + (m - 0xDC00), 6) else (n, 0)
                | None \<Rightarrow> (n, 0))
         | _ \<Rightarrow> (n, 0))
      else (n, 0))"

text \<open>The characters after an opening quote: the decoded string and what follows the closing
  quote.\<close>

function json_string :: "string \<Rightarrow> (string \<times> string) option" where
  "json_string [] = None"
| "json_string (c # cs) =
     (if c = CHR 0x22 then Some ([], cs)
      else if c = CHR 0x5C then
        (case cs of
           [] \<Rightarrow> None
         | e # r \<Rightarrow>
             if e = CHR ''u'' then
               (case r of
                  x # y # z # w # r' \<Rightarrow>
                    (case hex4 x y z w of
                       None \<Rightarrow> None
                     | Some n \<Rightarrow>
                         map_option (\<lambda>(s, t). (utf8 (fst (surrogate_pair n r')) @ s, t))
                           (json_string (drop (snd (surrogate_pair n r')) r')))
                | _ \<Rightarrow> None)
             else
               (case simple_escape e of
                  None \<Rightarrow> None
                | Some d \<Rightarrow> map_option (\<lambda>(s, t). (d # s, t)) (json_string r)))
      else if is_control c then None
      else map_option (\<lambda>(s, t). (c # s, t)) (json_string cs))"
  by pat_completeness auto
termination
  by (relation "measure length") auto

text \<open>\<open>-?(0|[1-9]\\d*)(\\.\\d+)?([eE][-+]?\\d+)?\<close>, greedily matched at the front.\<close>

definition json_int_part :: "string \<Rightarrow> (string \<times> string) option" where
  "json_int_part s =
     (case s of
        [] \<Rightarrow> None
      | c # cs \<Rightarrow>
          if c = CHR ''0'' then Some ([c], cs)
          else if is_digit c then Some (takeWhile is_digit s, dropWhile is_digit s)
          else None)"

definition json_frac_part :: "string \<Rightarrow> string \<times> string" where
  "json_frac_part s =
     (case s of
        p # d # _ \<Rightarrow>
          if p = CHR ''.'' \<and> is_digit d
          then (takeWhile is_digit (tl s), dropWhile is_digit (tl s)) else ([], s)
      | _ \<Rightarrow> ([], s))"

definition json_exp_digits :: "bool \<Rightarrow> string \<Rightarrow> string \<Rightarrow> int option \<times> string" where
  "json_exp_digits neg ds s =
     (case ds of
        d # _ \<Rightarrow>
          if is_digit d
          then (Some ((if neg then - 1 else 1) * digits_val (takeWhile is_digit ds)),
                dropWhile is_digit ds)
          else (None, s)
      | [] \<Rightarrow> (None, s))"

definition json_exp_part :: "string \<Rightarrow> int option \<times> string" where
  "json_exp_part s =
     (case s of
        e # r \<Rightarrow>
          if e = CHR ''e'' \<or> e = CHR ''E'' then
            (if next_is CHR ''-'' r then json_exp_digits True (tl r) s
             else if next_is CHR ''+'' r then json_exp_digits False (tl r) s
             else json_exp_digits False r s)
          else (None, s)
      | [] \<Rightarrow> (None, s))"

definition pow10 :: "int \<Rightarrow> rat" where
  "pow10 e = (if 0 \<le> e then 10 ^ nat e else 1 / 10 ^ nat (- e))"

definition json_number :: "string \<Rightarrow> (pyval \<times> string) option" where
  "json_number s =
     (let neg = next_is CHR ''-'' s;
          s' = (if neg then tl s else s);
          sg = (if neg then - 1 else 1 :: int)
      in case json_int_part s' of
           None \<Rightarrow> None
         | Some (ip, r) \<Rightarrow>
             (case json_frac_part r of (fp, r2) \<Rightarrow>
              (case json_exp_part r2 of (ep, r3) \<Rightarrow>
               if fp = [] \<and> ep = None then Some (PInt (sg * digits_val ip), r3)
               else Some (PFloat (of_int (sg * digits_val (ip @ fp))
                            * pow10 ((case ep of None \<Rightarrow> 0 | Some e \<Rightarrow> e) - int (length fp))), r3))))"

definition json_literal :: "string \<Rightarrow> (pyval \<times> string) option" where
  "json_literal s =
     (if starts_with ''null'' s then Some (PNone, drop 4 s)
      else if starts_with ''true'' s then Some (PBool True, drop 4 s)
      else if starts_with ''false'' s then Some (PBool False, drop 5 s)
      else json_number s)"

text \<open>The recursive scanner. The tests \<open>length r < length s\<close> only let the definition terminate:
  the scanner consumes at least one character whenever it succeeds (\<open>json_consumes\<close>), so they
  never fail.\<close>

function json_value :: "string \<Rightarrow> (pyval \<times> string) option"
  and json_elems :: "string \<Rightarrow> (pyval list \<times> string) option"
  and json_members :: "pdict \<Rightarrow> string \<Rightarrow> (pdict \<times> string) option" where
  "json_value s =
     (case s of
        [] \<Rightarrow> None
      | c # cs \<Rightarrow>
          if c = CHR 0x22 then map_option (\<lambda>(x, r). (PStr x, r)) (json_string cs)
          else if c = CHR ''['' then
            (if next_is CHR '']'' (skip_ws cs) then Some (PList [], tl (skip_ws cs))
             else if length (skip_ws cs) < length s
             then map_option (\<lambda>(xs, t). (PList xs, t)) (json_elems (skip_ws cs)) else None)
          else if c = CHR ''{'' then
            (if next_is CHR ''}'' (skip_ws cs) then Some (PDict [], tl (skip_ws cs))
             else if length (skip_ws cs) < length s
             then map_option (\<lambda>(d, t). (PDict d, t)) (json_members [] (skip_ws cs)) else None)
          else json_literal s)"
| "json_elems s =
     (case json_value s of
        None \<Rightarrow> None
      | Some (v, r) \<Rightarrow>
          if next_is CHR '']'' (skip_ws r) then Some ([v], tl (skip_ws r))
          else if next_is CHR '','' (skip_ws r) \<and> length (skip_ws (tl (skip_ws r))) < length s
          then map_option (\<lambda>(vs, u). (v # vs, u)) (json_elems (skip_ws (tl (skip_ws r))))
          else None)"
| "json_members d s =
     (if \<not> next_is CHR 0x22 s then None
      else
        (case json_string (tl s) of
           None \<Rightarrow> None
         | Some (k, r) \<Rightarrow>
             if next_is CHR '':'' (skip_ws r) \<and> length (skip_ws (tl (skip_ws r))) < length s then
               (case json_value (skip_ws (tl (skip_ws r))) of
                  None \<Rightarrow> None
                | Some (v, r3) \<Rightarrow>
                    if next_is CHR ''}'' (skip_ws r3) then Some (dset d k v, tl (skip_ws r3))
                    else if next_is CHR '','' (skip_ws r3) \<and> length (skip_ws (tl (skip_ws r3))) < length s
                    then json_members (dset d k v) (skip_ws (tl (skip_ws r3)))
                    else None)
             else None))"
  by pat_completeness auto
termination
  by (relation "measure (\<lambda>x. case x of Inl s \<Rightarrow> 2 * length s
        | Inr (Inl s) \<Rightarrow> 2 * length s + 1 | Inr (Inr (d, s)) \<Rightarrow> 2 * length s + 1)")
     auto

declare json_value.simps [simp del] json_elems.simps [simp del] json_members.simps [simp del]

definition json_loads :: "string \<Rightarrow> pyval option" where
  "json_loads s =
     (case json_value (skip_ws s) of
        None \<Rightarrow> None
      | Some (v, r) \<Rightarrow> if skip_ws r = [] then Some v else None)"

section \<open>Writing\<close>

text \<open>The digit of a number below 16.\<close>

definition hex_digit :: "nat \<Rightarrow> char" where
  "hex_digit n = (if n < 16 then ''0123456789abcdef'' ! n else CHR ''0'')"

definition json_escape :: "char \<Rightarrow> string" where
  "json_escape c =
     (if c = CHR 0x22 then [CHR 0x5C, CHR 0x22]
      else if c = CHR 0x5C then [CHR 0x5C, CHR 0x5C]
      else if c = CHR 0x08 then [CHR 0x5C, CHR ''b'']
      else if c = CHR 0x0C then [CHR 0x5C, CHR ''f'']
      else if c = CHR 0x0A then [CHR 0x5C, CHR ''n'']
      else if c = CHR 0x0D then [CHR 0x5C, CHR ''r'']
      else if c = CHR 0x09 then [CHR 0x5C, CHR ''t'']
      else if is_control c
      then [CHR 0x5C, CHR ''u'', CHR ''0'', CHR ''0'', hex_digit (of_char c div 16), hex_digit (of_char c mod 16)]
      else [c])"

definition json_quote :: "string \<Rightarrow> string" where
  "json_quote s = [CHR 0x22] @ concat (map json_escape s) @ [CHR 0x22]"

fun nat_digits :: "nat \<Rightarrow> string" where
  "nat_digits n = (if n < 10 then [digit_chars ! n] else nat_digits (n div 10) @ [digit_chars ! (n mod 10)])"

declare nat_digits.simps [simp del]

definition int_str :: "int \<Rightarrow> string" where
  "int_str i = (if i < 0 then CHR ''-'' # nat_digits (nat (- i)) else nat_digits (nat i))"

definition join :: "string \<Rightarrow> string list \<Rightarrow> string" where
  "join sep xs = (case xs of [] \<Rightarrow> [] | y # ys \<Rightarrow> y @ concat (map (\<lambda>z. sep @ z) ys))"

text \<open>Fixed texts are written as their code points.\<close>

definition uni :: "int list \<Rightarrow> string" where
  "uni ps = concat (map utf8 ps)"

text \<open>Rounding to the nearest integer, halves to the even one, and \<open>f"{x:.2f}"\<close>.\<close>

definition round_even :: "rat \<Rightarrow> int" where
  "round_even x =
     (let f = \<lfloor>x\<rfloor>; d = x - of_int f
      in if d < 1/2 then f else if d > 1/2 then f + 1 else if even f then f else f + 1)"

definition fmt2 :: "rat \<Rightarrow> string" where
  "fmt2 x =
     (let n = nat (round_even (\<bar>x\<bar> * 100))
      in (if x < 0 then ''-'' else []) @ nat_digits (n div 100) @ ''.''
         @ [digit_chars ! (n div 10 mod 10), digit_chars ! (n mod 10)])"

fun json_dumps :: "(rat \<Rightarrow> string) \<Rightarrow> pyval \<Rightarrow> string" where
  "json_dumps float_repr PNone = ''null''"
| "json_dumps float_repr (PBool b) = (if b then ''true'' else ''false'')"
| "json_dumps float_repr (PInt i) = int_str i"
| "json_dumps float_repr (PFloat r) = float_repr r"
| "json_dumps float_repr (PStr s) = json_quote s"
| "json_dumps float_repr (PList xs) = ''['' @ join '', '' (map (json_dumps float_repr) xs) @ '']''"
| "json_dumps float_repr (PDict d) =
     ''{'' @ join '', '' (map (\<lambda>(k, t). json_quote k @ '': '' @ t)
        (sort_key fst (map (\<lambda>(k, v). (k, json_dumps float_repr v)) d))) @ ''}''"

text \<open>\<open>json.dumps(v, ensure_ascii=False)\<close>: the same with the keys in their order of insertion.\<close>

fun json_text :: "(rat \<Rightarrow> string) \<Rightarrow> pyval \<Rightarrow> string" where
  "json_text float_repr PNone = ''null''"
| "json_text float_repr (PBool b) = (if b then ''true'' else ''false'')"
| "json_text float_repr (PInt i) = int_str i"
| "json_text float_repr (PFloat r) = float_repr r"
| "json_text float_repr (PStr s) = json_quote s"
| "json_text float_repr (PList xs) = ''['' @ join '', '' (map (json_text float_repr) xs) @ '']''"
| "json_text float_repr (PDict d) =
     ''{'' @ join '', '' (map (\<lambda>(k, v). json_quote k @ '': '' @ json_text float_repr v) d) @ ''}''"

section \<open>The scanner consumes its input\<close>

lemma skip_ws_length: "length (skip_ws s) \<le> length s"
  by (simp add: skip_ws_def length_dropWhile_le)

lemma json_string_shorter: "json_string s = Some (x, r) \<Longrightarrow> length r < length s"
proof (induction s arbitrary: x r rule: json_string.induct)
  case 1
  then show ?case by simp
next
  case (2 c cs)
  then show ?case
    by (fastforce split: if_splits list.splits option.splits)
qed

lemma json_int_part_shorter: "json_int_part s = Some (x, r) \<Longrightarrow> length r < length s"
  by (auto simp: json_int_part_def split: list.splits if_splits intro: le_imp_less_Suc length_dropWhile_le)

lemma json_frac_part_length: "json_frac_part s = (x, r) \<Longrightarrow> length r \<le> length s"
  using length_dropWhile_le [of is_digit "tl s"]
  by (auto simp: json_frac_part_def split: list.splits if_splits)

lemma json_exp_digits_length:
  "json_exp_digits b ds s = (e, r) \<Longrightarrow> length ds \<le> length s \<Longrightarrow> length r \<le> length s"
  using length_dropWhile_le [of is_digit ds]
  by (auto simp: json_exp_digits_def split: list.splits if_splits)

lemma json_exp_part_length: "json_exp_part s = (e, r) \<Longrightarrow> length r \<le> length s"
  by (auto simp: json_exp_part_def split: list.splits if_splits dest!: json_exp_digits_length)

lemma json_number_shorter: "json_number s = Some (v, r) \<Longrightarrow> length r < length s"
  by (cases s) (fastforce simp: json_number_def Let_def split: if_splits option.splits prod.splits
      dest!: json_int_part_shorter json_frac_part_length json_exp_part_length)+

lemma json_literal_shorter: "json_literal s = Some (v, r) \<Longrightarrow> length r < length s"
  by (cases s) (auto simp: json_literal_def split: if_splits dest: json_number_shorter)

lemma json_consumes:
  "json_value s = Some (v, r) \<Longrightarrow> length r < length s"
  "json_elems s = Some (vs, r) \<Longrightarrow> length r < length s"
  "json_members d s = Some (e, r) \<Longrightarrow> length r < length s"
proof (induction s and s and d s arbitrary: v r and vs r and e r
    rule: json_value_json_elems_json_members.induct)
  case (1 s)
  show ?case
  proof (cases s)
    case Nil
    with "1.prems" show ?thesis by (simp add: json_value.simps)
  next
    case (Cons c cs)
    note len = skip_ws_length [of cs] length_tl [of "skip_ws cs"]
    show ?thesis
      using "1.IH"(1) [OF Cons] "1.IH"(2) [OF Cons] "1.prems" Cons len
      by (auto simp: json_value.simps [of "c # cs"] split: if_splits
          dest!: json_string_shorter json_literal_shorter) 
  qed
next
  case (2 s)
  then obtain w q where w: "json_value s = Some (w, q)"
    by (auto simp: json_elems.simps [of s] split: option.splits)
  note len = "2.IH"(1) [OF w] skip_ws_length [of q] length_tl [of "skip_ws q"]
  show ?case
    using "2.IH"(2) [OF w refl] "2.prems" w len
    by (auto simp: json_elems.simps [of s] split: if_splits)
next
  case (3 d s)
  from "3.prems" obtain k q where q: "next_is CHR 0x22 s" "json_string (tl s) = Some (k, q)"
    by (auto simp: json_members.simps [of d s] split: if_splits option.splits)
  from "3.prems" q obtain w p where p: "json_value (skip_ws (tl (skip_ws q))) = Some (w, p)"
    and c: "next_is CHR '':'' (skip_ws q)" "length (skip_ws (tl (skip_ws q))) < length s"
    by (auto simp: json_members.simps [of d s] split: if_splits option.splits)
  note len = skip_ws_length [of p] length_tl [of "skip_ws p"]
  have "length p < length (skip_ws (tl (skip_ws q)))"
    using "3.IH"(1) q c p by auto
  then show ?case
    using "3.IH"(2) [OF _ q(2) refl _ p refl] "3.prems" q c p len
    by (auto simp: json_members.simps [of d s] split: if_splits)
qed

text \<open>Without the length tests the scanner is the same function.\<close>

lemma json_elems_unguarded:
  "json_elems s =
     (case json_value s of
        None \<Rightarrow> None
      | Some (v, r) \<Rightarrow>
          if next_is CHR '']'' (skip_ws r) then Some ([v], tl (skip_ws r))
          else if next_is CHR '','' (skip_ws r)
          then map_option (\<lambda>(vs, u). (v # vs, u)) (json_elems (skip_ws (tl (skip_ws r))))
          else None)"
proof (cases "json_value s")
  case None
  then show ?thesis by (simp add: json_elems.simps [of s])
next
  case (Some p)
  obtain v r where p: "p = (v, r)" by force
  have "length (skip_ws (tl (skip_ws r))) < length s"
    using json_consumes(1) [of s v r] Some p skip_ws_length [of r] skip_ws_length [of "tl (skip_ws r)"]
    by (auto simp: next_is_def)
  with Some p show ?thesis by (simp add: json_elems.simps [of s])
qed
end
