(* ===== verification/Enforcement.thy ===== *)
theory Enforcement
  imports Json
begin

text \<open>
  Configuration of the agent (\<open>agent/langgraph/config.py\<close>): the business mode of a run, the level at
  which the verification of answers is enforced, the budget of a verification, and the configuration
  tree itself (defaults, file and environment variables merged in this order, and the feature
  switches read from it). The YAML parser is not modelled: the file contents are an argument. The
  environment is the list of its variables, in the order in which \<open>os.environ\<close> yields them.
\<close>

section \<open>Modes\<close>

datatype enforcement_mode = Disabled | Shadow | Enforced

fun enforcement_value :: "enforcement_mode \<Rightarrow> string" where
  "enforcement_value Disabled = ''disabled''"
| "enforcement_value Shadow = ''shadow''"
| "enforcement_value Enforced = ''enforced''"

datatype run_mode = Chitchat | Factual | Report

text \<open>\<open>EnforcementMode(s)\<close> and \<open>RunMode(s)\<close>: \<open>None\<close> is the \<open>ValueError\<close> of an unknown value.\<close>

definition enforcement_of :: "string \<Rightarrow> enforcement_mode option" where
  "enforcement_of s =
     (if s = ''disabled'' then Some Disabled else if s = ''shadow'' then Some Shadow
      else if s = ''enforced'' then Some Enforced else None)"

definition run_mode_of :: "string \<Rightarrow> run_mode option" where
  "run_mode_of s =
     (if s = ''chitchat'' then Some Chitchat else if s = ''factual'' then Some Factual
      else if s = ''report'' then Some Report else None)"

text \<open>A value that is no string is never a member of the enumeration.\<close>

fun run_mode_of_val :: "pyval \<Rightarrow> run_mode option" where
  "run_mode_of_val (PStr s) = run_mode_of s"
| "run_mode_of_val _ = None"

definition resolve_run_mode :: "string \<Rightarrow> pdict \<Rightarrow> run_mode" where
  "resolve_run_mode route_target agent_config =
     (let v = dget agent_config ''run_mode'' in
      case (if agent_config \<noteq> [] \<and> truthy v then run_mode_of_val v else None) of
        Some m \<Rightarrow> m
      | None \<Rightarrow> if route_target = ''chitchat'' then Chitchat else Factual)"

text \<open>\<open>citation_enhancement\<close> must be a dictionary; another value has no \<open>get\<close>.\<close>

definition resolve_enforcement :: "run_mode \<Rightarrow> pdict \<Rightarrow> enforcement_mode res" where
  "resolve_enforcement m config =
     (if m = Chitchat then Inr Disabled
      else
        (case dget_or config ''citation_enhancement'' (PDict []) of
           PDict citation_cfg \<Rightarrow>
             (if \<not> truthy (dget_or citation_cfg ''enabled'' (PBool False)) then Inr Disabled
              else if dget_or citation_cfg ''rollout_phase'' (PStr ''shadow'') = PStr ''shadow'' then Inr Shadow
              else Inr Enforced)
         | _ \<Rightarrow> Inl AttributeError))"

section \<open>Verification budget\<close>

record verification_budget =
  vb_max_claims :: pyval
  vb_max_claims_per_section :: pyval
  vb_max_citations_per_claim :: pyval
  vb_max_total_pairs :: pyval
  vb_max_llm_calls :: pyval
  vb_max_nli_calls :: pyval
  vb_per_pair_timeout_ms :: pyval
  vb_total_verification_timeout_ms :: pyval
  vb_batch_size :: pyval
  vb_batch_concurrency :: pyval
  vb_cache_enabled :: pyval
  vb_cache_ttl_seconds :: pyval

definition default_verification_budget :: verification_budget where
  "default_verification_budget =
     \<lparr>vb_max_claims = PInt 30, vb_max_claims_per_section = PInt 10,
      vb_max_citations_per_claim = PInt 5, vb_max_total_pairs = PInt 150,
      vb_max_llm_calls = PInt 50, vb_max_nli_calls = PInt 100,
      vb_per_pair_timeout_ms = PInt 3000, vb_total_verification_timeout_ms = PInt 30000,
      vb_batch_size = PInt 10, vb_batch_concurrency = PInt 3,
      vb_cache_enabled = PBool True, vb_cache_ttl_seconds = PInt 3600\<rparr>"

text \<open>\<open>from_config\<close>: a section that is no dictionary has no \<open>get\<close>.\<close>

definition budget_from_config :: "pyval \<Rightarrow> verification_budget res" where
  "budget_from_config config =
     (case (case config of PDict d \<Rightarrow> dget_or d ''verification_budget'' (PDict []) | _ \<Rightarrow> PDict []) of
        PDict cfg \<Rightarrow>
          Inr (default_verification_budget
                 \<lparr>vb_max_claims := dget_or cfg ''max_claims'' (PInt 30),
                  vb_max_citations_per_claim := dget_or cfg ''max_citations_per_claim'' (PInt 5),
                  vb_max_total_pairs := dget_or cfg ''max_total_pairs'' (PInt 150),
                  vb_max_llm_calls := dget_or cfg ''max_llm_calls'' (PInt 50),
                  vb_max_nli_calls := dget_or cfg ''max_nli_calls'' (PInt 100),
                  vb_per_pair_timeout_ms := dget_or cfg ''per_pair_timeout_ms'' (PInt 3000),
                  vb_total_verification_timeout_ms :=
                    dget_or cfg ''total_verification_timeout_ms'' (PInt 30000)\<rparr>)
      | _ \<Rightarrow> Inl AttributeError)"

definition get_verification_budget :: "pdict \<Rightarrow> verification_budget res" where
  "get_verification_budget agent_config = budget_from_config (PDict agent_config)"

section \<open>The configuration tree\<close>

text \<open>\<open>_deep_merge\<close> over the keys of the overriding dictionary, in order. The recursion descends into
  the values of \<open>override\<close>.\<close>

fun deep_merge :: "pdict \<Rightarrow> pdict \<Rightarrow> pdict" where
  "deep_merge base [] = base"
| "deep_merge base ((k, PDict v) # override) =
     (case map_of base k of
        Some (PDict b) \<Rightarrow> deep_merge (dset base k (PDict (deep_merge b v))) override
      | _ \<Rightarrow> deep_merge (dset base k (PDict v)) override)"
| "deep_merge base ((k, v) # override) = deep_merge (dset base k v) override"

text \<open>\<open>_convert_env_value\<close>: \<open>int\<close> and \<open>float\<close> parsing of a string are arguments, with \<open>None\<close> for
  their \<open>ValueError\<close>.\<close>

definition convert_env_value ::
    "(string \<Rightarrow> int option) \<Rightarrow> (string \<Rightarrow> rat option) \<Rightarrow> string \<Rightarrow> pyval" where
  "convert_env_value int_of float_of value =
     (let low = lower value in
      if low = ''true'' then PBool True
      else if low = ''false'' then PBool False
      else
        (case int_of value of
           Some i \<Rightarrow> PInt i
         | None \<Rightarrow>
             (case float_of value of
                Some r \<Rightarrow> PFloat r
              | None \<Rightarrow>
                  if starts_with ''['' value \<or> starts_with ''{'' value
                  then (case json_loads value of Some v \<Rightarrow> v | None \<Rightarrow> PStr value)
                  else PStr value)))"

text \<open>Writing at a path: a missing level or one that is no dictionary is replaced by an empty one.\<close>

fun set_path :: "pdict \<Rightarrow> string list \<Rightarrow> pyval \<Rightarrow> pdict" where
  "set_path d [] v = d"
| "set_path d [k] v = dset d k v"
| "set_path d (k # k' # ks) v =
     dset d k (PDict (set_path (case dget d k of PDict e \<Rightarrow> e | _ \<Rightarrow> []) (k' # ks) v))"

text \<open>\<open>s.split("__")\<close> and \<open>s.split(".")\<close>.\<close>

function split_str :: "string \<Rightarrow> string \<Rightarrow> string \<Rightarrow> string list" where
  "split_str sep acc s =
     (if sep \<noteq> [] \<and> starts_with sep s then rev acc # split_str sep [] (drop (length sep) s)
      else (case s of [] \<Rightarrow> [rev acc] | c # cs \<Rightarrow> split_str sep (c # acc) cs))"
  by pat_completeness auto
termination
proof (relation "measure (\<lambda>(sep, acc, s). length s)")
  fix sep acc s :: string
  assume "sep \<noteq> [] \<and> starts_with sep s"
  then have "length s - length sep < length s" by (cases sep) (auto simp: starts_with_iff)
  then show "((sep, [], drop (length sep) s), (sep, acc, s)) \<in> measure (\<lambda>(sep, acc, s). length s)"
    by simp
qed auto

declare split_str.simps [simp del]

definition ENV_PREFIX :: string where
  "ENV_PREFIX = ''RAG_ENHANCEMENT__''"

definition env_override ::
    "(string \<Rightarrow> int option) \<Rightarrow> (string \<Rightarrow> rat option) \<Rightarrow> pdict \<Rightarrow> string \<times> string \<Rightarrow> pdict" where
  "env_override int_of float_of config kv =
     (if \<not> starts_with ENV_PREFIX (fst kv) then config
      else
        (let parts = split_str ''__'' [] (lower (drop (length ENV_PREFIX) (fst kv))) in
         if last parts = [] then config
         else set_path config parts (convert_env_value int_of float_of (snd kv))))"

definition apply_env_overrides ::
    "(string \<Rightarrow> int option) \<Rightarrow> (string \<Rightarrow> rat option) \<Rightarrow> (string \<times> string) list \<Rightarrow> pdict \<Rightarrow> pdict" where
  "apply_env_overrides int_of float_of environ config =
     foldl (env_override int_of float_of) config environ"

text \<open>\<open>load_rag_enhancement_config\<close>: \<open>file\<close> is the parsed file, \<open>None\<close> if it is missing or unreadable;
  an empty file parses to \<open>PNone\<close>, which \<open>or {}\<close> turns into an empty dictionary.\<close>

definition load_config ::
    "(string \<Rightarrow> int option) \<Rightarrow> (string \<Rightarrow> rat option) \<Rightarrow> pdict \<Rightarrow> pyval option \<Rightarrow> (string \<times> string) list \<Rightarrow> pdict" where
  "load_config int_of float_of defaults file environ =
     (let config =
        (case file of
           None \<Rightarrow> defaults
         | Some v \<Rightarrow>
             (case py_or v (PDict []) of PDict d \<Rightarrow> deep_merge defaults d | _ \<Rightarrow> defaults))
      in apply_env_overrides int_of float_of environ config)"

definition get_config_section :: "pdict \<Rightarrow> string \<Rightarrow> pdict" where
  "get_config_section config section_name =
     (case dget config section_name of PDict d \<Rightarrow> d | _ \<Rightarrow> [])"

fun feature_value :: "pyval \<Rightarrow> string list \<Rightarrow> pyval option" where
  "feature_value v [] = Some v"
| "feature_value (PDict d) (k # ks) =
     (if dget d k = PNone then None else feature_value (dget d k) ks)"
| "feature_value _ (k # ks) = None"

definition is_feature_enabled :: "pdict \<Rightarrow> string \<Rightarrow> bool" where
  "is_feature_enabled config feature =
     (case feature_value (PDict config) (split_str ''.'' [] feature) of
        None \<Rightarrow> False
      | Some (PDict d) \<Rightarrow>
          (case map_of d ''enabled'' of Some v \<Rightarrow> truthy v | None \<Rightarrow> True)
      | Some v \<Rightarrow> truthy v)"

section \<open>Properties\<close>

lemma deep_merge_outside: "k \<notin> fst ` set override \<Longrightarrow> map_of (deep_merge base override) k = map_of base k"
  by (induction base override rule: deep_merge.induct) (auto split: option.splits pyval.splits)

lemma deep_merge_Cons_dict:
  "deep_merge base ((k, PDict v) # override) =
     deep_merge (dset base k (PDict (case dget base k of PDict b \<Rightarrow> deep_merge b v | _ \<Rightarrow> v))) override"
  by (auto simp: dget_or_def split: option.splits pyval.splits)

lemma deep_merge_Cons_leaf:
  "(\<And>d. v \<noteq> PDict d) \<Longrightarrow> deep_merge base ((k, v) # override) = deep_merge (dset base k v) override"
  by (cases v) auto

lemma deep_merge_Cons_ex: "\<exists>x. deep_merge base ((k, v) # override) = deep_merge (dset base k x) override"
proof (cases "\<exists>d. v = PDict d")
  case True
  then show ?thesis using deep_merge_Cons_dict by blast
next
  case False
  then show ?thesis using deep_merge_Cons_leaf by blast
qed

lemma deep_merge_at:
  assumes "distinct (map fst override)" and "map_of override k = Some v"
  shows "map_of (deep_merge base override) k =
     Some (case v of PDict o' \<Rightarrow> PDict (case dget base k of PDict b \<Rightarrow> deep_merge b o' | _ \<Rightarrow> o') | _ \<Rightarrow> v)"
  using assms
proof (induction override arbitrary: base)
  case (Cons kw override)
  obtain k' w where kw: "kw = (k', w)" by fastforce
  show ?case
  proof (cases "k' = k")
    case True
    with Cons.prems kw have w: "w = v" and out: "k \<notin> fst ` set override" by auto
    show ?thesis
    proof (cases "\<exists>d. v = PDict d")
      case True
      then obtain d where d: "v = PDict d" ..
      show ?thesis unfolding kw w d \<open>k' = k\<close> deep_merge_Cons_dict by (simp add: deep_merge_outside out)
    next
      case False
      then have leaf: "\<And>d. v \<noteq> PDict d" by blast
      show ?thesis unfolding kw w \<open>k' = k\<close> deep_merge_Cons_leaf [OF leaf]
        by (simp add: deep_merge_outside out leaf split: pyval.splits)
    qed
  next
    case False
    with Cons.prems kw have at: "distinct (map fst override)" "map_of override k = Some v" by auto
    obtain x where x: "deep_merge base (kw # override) = deep_merge (dset base k' x) override"
      unfolding kw using deep_merge_Cons_ex by blast
    have same: "dget (dset base k' x) k = dget base k" using False by simp
    show ?thesis unfolding x Cons.IH [OF at] same ..
  qed
qed simp

text \<open>Merging the file over the defaults takes every key from where it should. For a file without
  repeated keys, a key that is absent from it keeps its default; a scalar or a list of the file
  replaces the default whatever it was; a section of the file is merged key by key into the section
  of the defaults, recursively, and replaces a default that is no section.\<close>

theorem config_merge_spec:
  assumes "distinct (map fst override)"
  shows "map_of (deep_merge base override) k =
     (case map_of override k of
        None \<Rightarrow> map_of base k
      | Some (PDict o') \<Rightarrow> Some (PDict (case dget base k of PDict b \<Rightarrow> deep_merge b o' | _ \<Rightarrow> o'))
      | Some v \<Rightarrow> Some v)"
proof (cases "map_of override k")
  case None
  then have "k \<notin> fst ` set override" by (simp add: map_of_eq_None_iff)
  with None show ?thesis by (simp add: deep_merge_outside)
next
  case (Some v)
  with deep_merge_at [OF assms Some, of base] show ?thesis by (cases v) simp_all
qed

theorem config_merge_spec_witness:
  "distinct (map fst [(''a'', PDict [(''x'', PInt 1)])])
   \<and> map_of (deep_merge [(''a'', PDict [(''x'', PInt 0), (''y'', PInt 5)])] [(''a'', PDict [(''x'', PInt 1)])]) ''a''
     = Some (PDict [(''x'', PInt 1), (''y'', PInt 5)])"
  by (subst config_merge_spec) simp_all

lemma feature_value_set_path:
  "ks \<noteq> [] \<Longrightarrow> v \<noteq> PNone \<Longrightarrow> feature_value (PDict (set_path d ks v)) ks = Some v"
  by (induction d ks v rule: set_path.induct) auto

lemma env_override_other:
  "\<not> starts_with ENV_PREFIX (fst kv) \<Longrightarrow> env_override int_of float_of config kv = config"
  by (simp add: env_override_def)

lemma foldl_ignored: "(\<And>x y. x \<in> set xs \<Longrightarrow> f y x = y) \<Longrightarrow> foldl f z xs = z"
  by (induction xs) simp_all

lemma split_str_nonempty: "split_str sep acc s \<noteq> []"
  by (induction sep acc s rule: split_str.induct) (subst split_str.simps, auto split: list.splits)

text \<open>An environment variable has the last word. Whatever the defaults and the file say, the value
  of a variable with the prefix of the program is found at the path its name spells, as long as no
  later variable of the program is set; variables without the prefix change nothing.\<close>

theorem environment_wins:
  assumes "environ = pre @ (key, val) # post"
    and "starts_with ENV_PREFIX key"
    and "parts = split_str ''__'' [] (lower (drop (length ENV_PREFIX) key))" and "last parts \<noteq> []"
    and "\<forall>kv \<in> set post. \<not> starts_with ENV_PREFIX (fst kv)"
    and "convert_env_value int_of float_of val \<noteq> PNone"
  shows "feature_value (PDict (load_config int_of float_of defaults file environ)) parts
           = Some (convert_env_value int_of float_of val)"
proof -
  have later: "foldl (env_override int_of float_of) c post = c" for c
    using assms(5) by (intro foldl_ignored env_override_other) blast
  have "parts \<noteq> []" unfolding assms(3) by (rule split_str_nonempty)
  with assms(2,3,4,6) show ?thesis
    unfolding load_config_def apply_env_overrides_def Let_def assms(1)
    by (simp add: later env_override_def Let_def feature_value_set_path)
qed

theorem environment_wins_witness:
  "feature_value (PDict (load_config (\<lambda>_. None) (\<lambda>_. None) [(''hallucination'', PDict [(''enabled'', PBool True)])]
     None [(''RAG_ENHANCEMENT__HALLUCINATION__ENABLED'', ''False'')])) [''hallucination'', ''enabled'']
   = Some (PBool False)"
proof -
  have parts: "split_str ''__'' [] (lower (drop (length ENV_PREFIX) ''RAG_ENHANCEMENT__HALLUCINATION__ENABLED''))
      = [''hallucination'', ''enabled'']" and pre: "starts_with ENV_PREFIX ''RAG_ENHANCEMENT__HALLUCINATION__ENABLED''"
    and val: "convert_env_value (\<lambda>_. None) (\<lambda>_. None) ''False'' = PBool False"
    by code_simp+
  show ?thesis
    using environment_wins [OF append_Nil [symmetric] pre parts [symmetric], of "[]" "\<lambda>_. None" "\<lambda>_. None" "''False''"]
    by (simp add: val)
qed

end
