(* ===== verification/Evidence_Fusion.thy ===== *)
theory Evidence_Fusion
  imports Json
begin

text \<open>
  Fusion of evidence and the snapshot of its result: \<open>agent/langgraph/evidence/fusion.py\<close>,
  \<open>evidence/snapshot.py\<close> and the merging and quota functions of \<open>nodes/evidence_fusion.py\<close>. Evidence is
  a dictionary whose fields come from tools, so every read may meet a value of another type; where
  Python raises, the model returns \<open>Inl\<close>. The hexadecimal SHA-256 digest is the argument \<open>sha256\<close>, the
  reading of a float from a string the argument \<open>float_of_str\<close>; the time stamp of a snapshot is left
  out.
\<close>

section \<open>Weights\<close>

definition evidence_weight :: "(string \<Rightarrow> rat res) \<Rightarrow> pdict \<Rightarrow> rat res" where
  "evidence_weight float_of_str ev =
     (let field = (\<lambda>k. py_float float_of_str (py_or (dget_or ev k (PFloat (1/2))) (PFloat (1/2)))) in
      rbind (field ''authority_score'') (\<lambda>authority.
      rbind (field ''relevance_score'') (\<lambda>relevance.
      rbind (field ''freshness_score'') (\<lambda>freshness.
        Inr (authority * (4/10) + relevance * (4/10) + freshness * (2/10))))))"

text \<open>\<open>list.sort(key=..., reverse=True)\<close>: the keys are computed first; the sort is stable, so equal
  weights keep their order.\<close>

definition sort_by_weight :: "(string \<Rightarrow> rat res) \<Rightarrow> pdict list \<Rightarrow> pdict list res" where
  "sort_by_weight float_of_str evs =
     rbind (all_res (\<lambda>ev. rbind (evidence_weight float_of_str ev) (\<lambda>w. Inr (w, ev))) evs) (\<lambda>ps.
       Inr (map snd (sort_key (\<lambda>p. - fst p) ps)))"

section \<open>Conflicts\<close>

text \<open>\<open>v[:50]\<close> and \<open>c in v\<close>.\<close>

fun head_50 :: "pyval \<Rightarrow> pyval res" where
  "head_50 (PStr s) = Inr (PStr (u_take 50 s))"
| "head_50 (PList xs) = Inr (PList (take 50 xs))"
| "head_50 _ = Inl TypeError"

fun py_member :: "pyval \<Rightarrow> pyval \<Rightarrow> bool res" where
  "py_member c (PStr s) = (case c of PStr t \<Rightarrow> Inr (contains t s) | _ \<Rightarrow> Inl TypeError)"
| "py_member c (PList xs) = Inr (py_in c xs)"
| "py_member c _ = Inl TypeError"

definition overlap_ratio :: "pyval \<Rightarrow> pyval \<Rightarrow> rat res" where
  "overlap_ratio high low =
     rbind (head_50 high) (\<lambda>high_head.
     rbind (head_50 low) (\<lambda>low_head.
     rbind (py_iter high_head) (\<lambda>cs.
     rbind (all_res (\<lambda>c. py_member c low_head) cs) (\<lambda>hits.
       Inr (of_nat (length (filter id hits)) / of_nat (max (length cs) 1))))))"

record conflict =
  cf_type :: string
  cf_evidence_ids :: "pyval list"
  cf_description :: message

definition conflict_of ::
    "string \<Rightarrow> message \<Rightarrow> pdict \<Rightarrow> pdict \<Rightarrow> conflict list res" where
  "conflict_of conflict_type description high low =
     (if truthy (dget high ''content'') \<and> truthy (dget low ''content'') then
        rbind (overlap_ratio (dget high ''content'') (dget low ''content'')) (\<lambda>overlap.
          Inr (if overlap < 3/10 then
                 [\<lparr>cf_type = conflict_type,
                   cf_evidence_ids = [dget_or high ''evidence_id'' (PStr []), dget_or low ''evidence_id'' (PStr [])],
                   cf_description = description\<rparr>]
               else []))
      else Inr [])"

definition of_source :: "string \<Rightarrow> pdict list \<Rightarrow> pdict list" where
  "of_source t evs = filter (\<lambda>e. dget e ''source_type'' = PStr t) evs"

definition conflict_pairs :: "pdict list \<Rightarrow> (pdict list \<times> pdict list \<times> string \<times> message) list" where
  "conflict_pairs evs =
     [(of_source ''db'' evs, of_source ''rest'' evs, ''db_rest_low_overlap'', Msg ''db and rest differ'' []),
      (of_source ''db'' evs, of_source ''web'' evs, ''db_web_low_overlap'', Msg ''db and web differ'' []),
      (of_source ''rest'' evs, of_source ''web'' evs, ''rest_web_low_overlap'', Msg ''rest and web differ'' [])]"

definition detect_conflicts :: "pdict list \<Rightarrow> conflict list res" where
  "detect_conflicts evs =
     rbind (all_res (\<lambda>(highs, lows, t, d).
              rbind (all_res (\<lambda>(h, l). conflict_of t d h l) (List.product highs lows)) (\<lambda>cs. Inr (concat cs)))
            (conflict_pairs evs)) (\<lambda>cs. Inr (concat cs))"

section \<open>Fusion\<close>

definition ev_id :: "pdict \<Rightarrow> pyval" where
  "ev_id ev = dget_or ev ''evidence_id'' (PStr [])"

text \<open>Entries without identifier are dropped, of entries with the same identifier the first is kept.\<close>

fun dedupe_by_id :: "pyval list \<Rightarrow> pdict list \<Rightarrow> pdict list res" where
  "dedupe_by_id seen [] = Inr []"
| "dedupe_by_id seen (ev # evs) =
     (if \<not> truthy (ev_id ev) then dedupe_by_id seen evs
      else if \<not> hashable (ev_id ev) then Inl TypeError
      else if py_in (ev_id ev) seen then dedupe_by_id seen evs
      else rbind (dedupe_by_id (ev_id ev # seen) evs) (\<lambda>r. Inr (ev # r)))"

record fusion_result =
  fr_fused :: "pdict list"
  fr_fused_count :: nat
  fr_conflicts :: "conflict list"
  fr_token_budget :: int
  fr_dropped_count :: nat

definition fuse_evidences ::
    "(string \<Rightarrow> rat res) \<Rightarrow> pdict list \<Rightarrow> nat \<Rightarrow> int \<Rightarrow> fusion_result res" where
  "fuse_evidences float_of_str evidences max_count token_budget =
     (if evidences = [] then
        Inr \<lparr>fr_fused = [], fr_fused_count = 0, fr_conflicts = [], fr_token_budget = token_budget,
             fr_dropped_count = 0\<rparr>
      else
        rbind (dedupe_by_id [] evidences) (\<lambda>deduped.
        rbind (sort_by_weight float_of_str deduped) (\<lambda>ranked.
        rbind (detect_conflicts ranked) (\<lambda>conflicts.
          let fused = take max_count ranked in
          Inr \<lparr>fr_fused = fused, fr_fused_count = length fused, fr_conflicts = conflicts,
               fr_token_budget = token_budget, fr_dropped_count = length ranked - length fused\<rparr>))))"

section \<open>Replacement of the evidence of an earlier attempt\<close>

text \<open>\<open>_extract_tool_run_id\<close>: \<open>metadata\<close> must be a dictionary or falsy.\<close>

definition extract_tool_run_id :: "pdict \<Rightarrow> pyval res" where
  "extract_tool_run_id ev =
     (case py_or (dget ev ''metadata'') (PDict []) of
        PDict m \<Rightarrow> Inr (py_or (py_or (dget m ''tool_run_id'') (dget m ''run_id'')) (PStr []))
      | _ \<Rightarrow> Inl AttributeError)"

definition source_key :: "pdict \<Rightarrow> (pyval \<times> pyval) res" where
  "source_key ev =
     rbind (extract_tool_run_id ev) (\<lambda>rid. Inr (dget_or ev ''source_type'' (PStr []), rid))"

text \<open>A key is put into a set (or looked up there) only if it is hashable.\<close>

definition hashable_key :: "pyval \<times> pyval \<Rightarrow> bool" where
  "hashable_key k \<longleftrightarrow> hashable (fst k) \<and> hashable (snd k)"

definition key_in :: "pyval \<times> pyval \<Rightarrow> (pyval \<times> pyval) list \<Rightarrow> bool" where
  "key_in k ks = list_ex (\<lambda>l. py_eq (fst k) (fst l) \<and> py_eq (snd k) (snd l)) ks"

definition new_key :: "pdict \<Rightarrow> (pyval \<times> pyval) list res" where
  "new_key ev =
     rbind (source_key ev) (\<lambda>k.
       if \<not> truthy (fst k) then Inr []
       else if hashable_key k then Inr [k] else Inl TypeError)"

definition kept_old :: "(pyval \<times> pyval) list \<Rightarrow> pdict \<Rightarrow> pdict list res" where
  "kept_old new_keys ev =
     rbind (source_key ev) (\<lambda>k.
       if \<not> hashable_key k then Inl TypeError else Inr (if key_in k new_keys then [] else [ev]))"

definition merge_with_replacement :: "pdict list \<Rightarrow> pdict list \<Rightarrow> pdict list res" where
  "merge_with_replacement old new =
     (if new = [] then Inr old
      else if old = [] then Inr new
      else
        rbind (all_res new_key new) (\<lambda>new_keys.
        rbind (all_res (kept_old (concat new_keys)) old) (\<lambda>kept.
          Inr (concat kept @ new))))"

section \<open>Source quota\<close>

definition DEFAULT_MAX_EVIDENCE_COUNT :: nat where
  "DEFAULT_MAX_EVIDENCE_COUNT = 20"

definition DEFAULT_SOURCE_QUOTA :: "(pyval \<times> nat) list" where
  "DEFAULT_SOURCE_QUOTA =
     [(PStr ''rag'', 10), (PStr ''db'', 10), (PStr ''web'', 5), (PStr ''report'', 5), (PStr ''graph'', 8)]"

definition source_of :: "pdict \<Rightarrow> pyval" where
  "source_of ev = dget_or ev ''source_type'' (PStr ''unknown'')"

text \<open>\<open>by_source\<close>: the groups in the order in which their source first appears.\<close>

fun group_add :: "pdict \<Rightarrow> (pyval \<times> pdict list) list \<Rightarrow> (pyval \<times> pdict list) list" where
  "group_add ev [] = [(source_of ev, [ev])]"
| "group_add ev (g # gs) =
     (if py_eq (source_of ev) (fst g) then (fst g, snd g @ [ev]) # gs else g # group_add ev gs)"

fun group_by_source :: "(pyval \<times> pdict list) list \<Rightarrow> pdict list \<Rightarrow> (pyval \<times> pdict list) list res" where
  "group_by_source groups [] = Inr groups"
| "group_by_source groups (ev # evs) =
     (if \<not> hashable (source_of ev) then Inl TypeError else group_by_source (group_add ev groups) evs)"

definition apply_source_quota ::
    "(string \<Rightarrow> rat res) \<Rightarrow> pdict list \<Rightarrow> (pyval \<times> nat) list \<Rightarrow> pdict list res" where
  "apply_source_quota float_of_str evidences quota =
     rbind (group_by_source [] evidences) (\<lambda>groups.
     rbind (all_res (\<lambda>(st, grp).
              rbind (sort_by_weight float_of_str grp) (\<lambda>ranked. Inr (take (dget_or quota st 5) ranked)))
            groups) (\<lambda>kept. Inr (concat kept)))"

section \<open>Snapshots\<close>

fun str_of_val :: "pyval \<Rightarrow> string res" where
  "str_of_val (PStr s) = Inr s"
| "str_of_val _ = Inl TypeError"

text \<open>Sorting identifiers of different types or joining one that is no string raises a
  \<open>TypeError\<close>.\<close>

definition make_snapshot_id :: "(string \<Rightarrow> string) \<Rightarrow> pdict list \<Rightarrow> string res" where
  "make_snapshot_id sha256 evidences =
     (if evidences = [] then Inr ''es_empty''
      else
        rbind (all_res (\<lambda>ev. str_of_val (ev_id ev)) evidences) (\<lambda>ids.
          Inr (''es_'' @ take 16 (sha256 (join ''|'' (sort ids))))))"

record evidence_snapshot =
  es_snapshot_id :: string
  es_evidences :: "pdict list"
  es_tool_run_id :: string
  es_attempt_id :: int
  es_schema_version :: string

definition snapshot_build ::
    "(string \<Rightarrow> string) \<Rightarrow> pdict list \<Rightarrow> string \<Rightarrow> int \<Rightarrow> evidence_snapshot res" where
  "snapshot_build sha256 evidences tool_run_id attempt_id =
     rbind (make_snapshot_id sha256 evidences) (\<lambda>sid.
       Inr \<lparr>es_snapshot_id = sid, es_evidences = evidences, es_tool_run_id = tool_run_id,
            es_attempt_id = attempt_id, es_schema_version = ''1.0''\<rparr>)"

definition get_evidence_by_id :: "evidence_snapshot \<Rightarrow> string \<Rightarrow> pdict option" where
  "get_evidence_by_id sn eid = find (\<lambda>ev. dget ev ''evidence_id'' = PStr eid) (es_evidences sn)"

text \<open>The index is 1-based; an index outside of the list gives \<open>None\<close>.\<close>

definition get_evidence_by_index :: "evidence_snapshot \<Rightarrow> int \<Rightarrow> pdict option" where
  "get_evidence_by_index sn i =
     (if i < 1 \<or> i > int (length (es_evidences sn)) then None
      else Some (es_evidences sn ! nat (i - 1)))"

definition count_by_source_type :: "evidence_snapshot \<Rightarrow> string \<Rightarrow> nat" where
  "count_by_source_type sn st = length (of_source st (es_evidences sn))"

definition snapshot_to_dict :: "evidence_snapshot \<Rightarrow> pdict" where
  "snapshot_to_dict sn =
     [(''schema_version'', PStr (es_schema_version sn)), (''snapshot_id'', PStr (es_snapshot_id sn)),
      (''evidence_count'', PInt (int (length (es_evidences sn)))),
      (''tool_run_id'', PStr (es_tool_run_id sn)), (''attempt_id'', PInt (es_attempt_id sn)),
      (''source_type_counts'',
         PDict (map (\<lambda>st. (st, PInt (int (count_by_source_type sn st)))) [''rag'', ''db'', ''web'', ''report'']))]"

section \<open>Properties\<close>

definition weight :: "(string \<Rightarrow> rat res) \<Rightarrow> pdict \<Rightarrow> rat" where
  "weight f ev = (case evidence_weight f ev of Inl _ \<Rightarrow> 0 | Inr w \<Rightarrow> w)"

lemma insort_map: "insort_key g (h x) (map h xs) = map h (insort_key (\<lambda>x. g (h x)) x xs)"
  by (induction xs) simp_all

lemma sort_map: "sort_key g (map h xs) = map h (sort_key (\<lambda>x. g (h x)) xs)"
  by (induction xs) (simp_all add: insort_map)

lemma sort_by_weight_Inr:
  assumes "sort_by_weight f evs = Inr r"
  shows "r = sort_key (\<lambda>ev. - weight f ev) evs"
proof -
  from assms obtain ps where ps: "all_res (\<lambda>ev. rbind (evidence_weight f ev) (\<lambda>w. Inr (w, ev))) evs = Inr ps"
    and r: "r = map snd (sort_key (\<lambda>p. - fst p) ps)"
    by (auto simp: sort_by_weight_def rbind_eq_Inr_iff)
  from ps have "list_all2 (\<lambda>ev p. p = (weight f ev, ev)) evs ps"
    unfolding all_res_Inr_iff by (rule list_all2_mono) (auto simp: rbind_eq_Inr_iff weight_def)
  then have "ps = map (\<lambda>ev. (weight f ev, ev)) evs"
    by (simp add: list_all2_conv_all_nth nth_equalityI)
  with r show ?thesis by (simp add: sort_map comp_def)
qed

lemma sort_weight_desc: "sorted_wrt (\<lambda>a b. weight f a \<ge> weight f b) (sort_key (\<lambda>ev. - weight f ev) evs)"
  using sorted_sort_key [of "\<lambda>ev. - weight f ev" evs] by (simp add: sorted_map)

text \<open>A prefix of a descending list dominates what it leaves out.\<close>

lemma take_dominates:
  assumes "sorted_wrt R xs" and "x \<in> set xs" and "x \<notin> set (take n xs)"
  shows "length (take n xs) = n \<and> (\<forall>y \<in> set (take n xs). R y x)"
proof -
  have "set xs = set (take n xs) \<union> set (drop n xs)" by (metis append_take_drop_id set_append)
  with assms(2,3) have x: "x \<in> set (drop n xs)" by blast
  then have "drop n xs \<noteq> []" by auto
  then have "length (take n xs) = n" by simp
  moreover have "sorted_wrt R (take n xs @ drop n xs)" using assms(1) by simp
  with x have "\<forall>y \<in> set (take n xs). R y x" unfolding sorted_wrt_append by blast
  ultimately show ?thesis ..
qed

lemma dedupe_by_id_subset: "dedupe_by_id seen evs = Inr r \<Longrightarrow> set r \<subseteq> set evs"
  by (induction seen evs arbitrary: r rule: dedupe_by_id.induct)
    (fastforce simp: rbind_eq_Inr_iff split: if_splits)+

text \<open>Evidence identifiers are strings in all that follows.\<close>

definition str_ids :: "pdict list \<Rightarrow> bool" where
  "str_ids evs \<longleftrightarrow> (\<forall>ev \<in> set evs. is_str (ev_id ev))"

lemma is_strE: assumes "is_str v" obtains s where "v = PStr s"
  using assms by (cases v) auto

lemma py_in_PStr: "py_in (PStr x) xs \<longleftrightarrow> PStr x \<in> set xs"
  by (auto simp: py_in_def list_ex_iff)

lemma dedupe_by_id_ok: "str_ids evs \<Longrightarrow> \<exists>r. dedupe_by_id seen evs = Inr r"
proof (induction evs arbitrary: seen)
  case (Cons ev evs)
  then obtain s where s: "ev_id ev = PStr s" and evs: "str_ids evs" by (auto simp: str_ids_def elim: is_strE)
  from Cons.IH [OF evs] obtain r where "dedupe_by_id (ev_id ev # seen) evs = Inr r" by blast
  with Cons.IH [OF evs, of seen] s show ?case by auto
qed simp

lemma dedupe_by_id_spec:
  assumes "dedupe_by_id seen evs = Inr r" and "str_ids evs"
  shows "distinct (map ev_id r) \<and> (\<forall>ev \<in> set r. truthy (ev_id ev) \<and> ev_id ev \<notin> set seen)
    \<and> (\<forall>ev \<in> set evs. truthy (ev_id ev) \<longrightarrow> ev_id ev \<notin> set seen \<longrightarrow> ev_id ev \<in> ev_id ` set r)
    \<and> (\<forall>ev \<in> set r. find (\<lambda>e. ev_id e = ev_id ev) evs = Some ev)"
  using assms
proof (induction evs arbitrary: seen r)
  case (Cons ev evs)
  then obtain s where s: "ev_id ev = PStr s" and evs: "str_ids evs" by (auto simp: str_ids_def elim: is_strE)
  consider "s = []" "dedupe_by_id seen evs = Inr r" | "s \<noteq> []" "PStr s \<in> set seen" "dedupe_by_id seen evs = Inr r"
    | r' where "s \<noteq> []" "PStr s \<notin> set seen" "dedupe_by_id (PStr s # seen) evs = Inr r'" "r = ev # r'"
    using Cons.prems(1) s by (auto simp: py_in_PStr rbind_eq_Inr_iff split: if_splits)
  then show ?case
  proof cases
    case 1
    note IH = Cons.IH [OF 1(2) evs]
    from IH 1 s have "\<forall>x \<in> set r. ev_id ev \<noteq> ev_id x" by fastforce
    with IH 1 s show ?thesis by auto
  next
    case 2
    note IH = Cons.IH [OF 2(3) evs]
    from IH 2 s have "\<forall>x \<in> set r. ev_id ev \<noteq> ev_id x" by fastforce
    with IH 2 s show ?thesis by auto
  next
    case 3
    note IH = Cons.IH [OF 3(3) evs]
    from IH 3 s have "\<forall>x \<in> set r'. ev_id ev \<noteq> ev_id x" by fastforce
    with IH 3 s show ?thesis by auto
  qed
qed simp

lemma find_some_in: "find P xs = Some x \<Longrightarrow> x \<in> set xs \<and> P x"
  by (induction xs) (auto split: if_splits)

lemma fuse_evidences_Inr:
  assumes "fuse_evidences f evs n b = Inr r"
  obtains d where "dedupe_by_id [] evs = Inr d"
    and "fr_fused r = take n (sort_key (\<lambda>ev. - weight f ev) d)"
    and "fr_fused_count r = length (fr_fused r)" and "fr_dropped_count r = length d - length (fr_fused r)"
    and "fr_token_budget r = b"
proof (cases "evs = []")
  case True
  with assms that [of "[]"] show thesis by (auto simp: fuse_evidences_def)
next
  case False
  with assms obtain d ranked where d: "dedupe_by_id [] evs = Inr d" "sort_by_weight f d = Inr ranked"
    "fr_fused r = take n ranked" "fr_fused_count r = length (fr_fused r)"
    "fr_dropped_count r = length ranked - length (fr_fused r)" "fr_token_budget r = b"
    by (auto simp: fuse_evidences_def rbind_eq_Inr_iff Let_def)
  from sort_by_weight_Inr [OF d(2)] d that [of d] show thesis by simp
qed

text \<open>C25: fusion keeps the strongest evidence. The fused list has at most \<open>max_count\<close> entries with
  pairwise different, non-empty identifiers, in descending order of weight; for every identifier the
  entry that came first represents it, and a representative that is left out is no stronger than any
  entry that is kept, and is left out only because the list is full. The counts of kept and dropped
  entries add up to the number of different identifiers.\<close>

theorem fusion_keeps_the_strongest:
  assumes "fuse_evidences f evs n b = Inr r" and "str_ids evs"
  shows "length (fr_fused r) \<le> n \<and> distinct (map ev_id (fr_fused r))
    \<and> sorted_wrt (\<lambda>x y. weight f x \<ge> weight f y) (fr_fused r)
    \<and> (\<forall>ev \<in> set (fr_fused r). truthy (ev_id ev) \<and> find (\<lambda>e. ev_id e = ev_id ev) evs = Some ev)
    \<and> (\<forall>ev. truthy (ev_id ev) \<longrightarrow> find (\<lambda>e. ev_id e = ev_id ev) evs = Some ev \<longrightarrow> ev \<notin> set (fr_fused r) \<longrightarrow>
         length (fr_fused r) = n \<and> (\<forall>k \<in> set (fr_fused r). weight f k \<ge> weight f ev))
    \<and> fr_fused_count r + fr_dropped_count r = card (ev_id ` {ev \<in> set evs. truthy (ev_id ev)})"
proof -
  from assms(1) obtain d where d: "dedupe_by_id [] evs = Inr d"
    and fused: "fr_fused r = take n (sort_key (\<lambda>ev. - weight f ev) d)" (is "_ = take n ?s")
    and counts: "fr_fused_count r = length (fr_fused r)" "fr_dropped_count r = length d - length (fr_fused r)"
    by (rule fuse_evidences_Inr)
  note spec = dedupe_by_id_spec [OF d assms(2), simplified]
  have dist: "distinct (map ev_id ?s)"
    using spec by (metis distinct_map set_sort distinct_sort)
  have sub: "set (fr_fused r) \<subseteq> set d"
    unfolding fused using set_take_subset [of n ?s] by simp
  have desc: "sorted_wrt (\<lambda>x y. weight f x \<ge> weight f y) ?s" by (rule sort_weight_desc)
  have "ev_id ` set d = ev_id ` {ev \<in> set evs. truthy (ev_id ev)}"
    using spec dedupe_by_id_subset [OF d] by blast
  then have card: "length d = card (ev_id ` {ev \<in> set evs. truthy (ev_id ev)})"
    using spec by (metis distinct_card length_map set_map)
  have "length (fr_fused r) = n \<and> (\<forall>k \<in> set (fr_fused r). weight f k \<ge> weight f ev)"
    if "truthy (ev_id ev)" "find (\<lambda>e. ev_id e = ev_id ev) evs = Some ev" "ev \<notin> set (fr_fused r)" for ev
  proof -
    from that(2) have "ev \<in> set evs" using find_some_in by fast
    with that(1) spec obtain e where e: "e \<in> set d" "ev_id e = ev_id ev" by fastforce
    from e(1) spec have "find (\<lambda>x. ev_id x = ev_id e) evs = Some e" by blast
    with that(2) have "e = ev" unfolding e(2) by (metis option.inject)
    with e(1) have "ev \<in> set d" by (rule back_subst [of "\<lambda>x. x \<in> set d"])
    with that(3) take_dominates [OF desc, of ev n] show ?thesis unfolding fused by simp
  qed
  moreover have "length (fr_fused r) \<le> length d" unfolding fused by simp
  moreover have "distinct (map ev_id (fr_fused r))" unfolding fused using dist by (simp add: take_map [symmetric])
  moreover have "sorted_wrt (\<lambda>x y. weight f x \<ge> weight f y) (fr_fused r)"
    unfolding fused using desc by (rule sorted_wrt_take)
  moreover have "\<forall>ev \<in> set (fr_fused r). truthy (ev_id ev) \<and> find (\<lambda>e. ev_id e = ev_id ev) evs = Some ev"
    using spec sub by blast
  moreover have "length (fr_fused r) \<le> n" unfolding fused by simp
  ultimately show ?thesis
    unfolding counts card [symmetric] by (intro conjI allI impI) auto
qed

definition demo_evidence :: "pdict list" where
  "demo_evidence =
     [[(''evidence_id'', PStr ''e1''), (''source_type'', PStr ''db''), (''authority_score'', PFloat (9/10))],
      [(''evidence_id'', PStr ''e2''), (''source_type'', PStr ''web'')],
      [(''evidence_id'', PStr ''e1''), (''source_type'', PStr ''db'')]]"

lemma demo_fusion:
  "\<exists>r. fuse_evidences (\<lambda>_. Inl ValueError) demo_evidence 1 100 = Inr r
     \<and> fr_fused r = [hd demo_evidence] \<and> fr_dropped_count r = 1 \<and> fr_fused_count r = 1"
  by (simp add: fuse_evidences_def demo_evidence_def ev_id_def py_in_def sort_by_weight_def evidence_weight_def
      py_or_def Let_def detect_conflicts_def conflict_pairs_def of_source_def conflict_of_def)

theorem fusion_keeps_the_strongest_witness:
  "card (ev_id ` {ev \<in> set demo_evidence. truthy (ev_id ev)}) = 2"
proof -
  have ids: "str_ids demo_evidence" by (simp add: str_ids_def demo_evidence_def ev_id_def)
  obtain r where r: "fuse_evidences (\<lambda>_. Inl ValueError) demo_evidence 1 100 = Inr r"
    "fr_dropped_count r = 1" "fr_fused_count r = 1"
    using demo_fusion by blast
  from fusion_keeps_the_strongest [OF r(1) ids] r(2,3) show ?thesis by simp
qed

subsection \<open>Replacement\<close>

definition typed_source :: "pdict \<Rightarrow> bool" where
  "typed_source ev \<longleftrightarrow> (\<exists>st rid. source_key ev = Inr (PStr st, PStr rid))"

definition run_key :: "pdict \<Rightarrow> pyval \<times> pyval" where
  "run_key ev = (case source_key ev of Inl _ \<Rightarrow> (PNone, PNone) | Inr k \<Rightarrow> k)"

lemma all_res_pure: "\<forall>x \<in> set xs. f x = Inr (g x) \<Longrightarrow> all_res f xs = Inr (map g xs)"
  by (induction xs) simp_all

lemma key_in_typed: "key_in (PStr a, PStr b) ks \<longleftrightarrow> (PStr a, PStr b) \<in> set ks"
  by (force simp: key_in_def list_ex_iff)

lemma typed_run_key:
  assumes "typed_source ev"
  obtains st rid where "run_key ev = (PStr st, PStr rid)" and "source_key ev = Inr (PStr st, PStr rid)"
  using assms by (auto simp: typed_source_def run_key_def)

lemma concat_singletons: "concat (map (\<lambda>x. if P x then [] else [x]) xs) = filter (\<lambda>x. \<not> P x) xs"
  by (induction xs) auto

text \<open>A new attempt replaces exactly the evidence of the same tool run. When source types and run
  identifiers are strings, merging succeeds: all the new evidence is in the result, at its end and in
  order, and an old entry survives, in order, if and only if no new entry has both its source type and
  its run identifier (entries without source type replace nothing).\<close>

theorem replacement_is_exact:
  assumes "\<forall>ev \<in> set old \<union> set new. typed_source ev"
  shows "merge_with_replacement old new =
     Inr (filter (\<lambda>ev. \<not> (\<exists>e \<in> set new. truthy (fst (run_key e)) \<and> run_key e = run_key ev)) old @ new)"
proof (cases "new = [] \<or> old = []")
  case True
  then show ?thesis by (auto simp: merge_with_replacement_def)
next
  case False
  have "new_key ev = Inr (if truthy (fst (run_key ev)) then [run_key ev] else [])" if "ev \<in> set new" for ev
    using assms that by (auto simp: new_key_def hashable_key_def elim!: typed_run_key dest!: bspec [of _ _ ev])
  then have new: "all_res new_key new = Inr (map (\<lambda>ev. if truthy (fst (run_key ev)) then [run_key ev] else []) new)"
    by (simp add: all_res_pure)
  let ?ks = "concat (map (\<lambda>ev. if truthy (fst (run_key ev)) then [run_key ev] else []) new)"
  have ks: "k \<in> set ?ks \<longleftrightarrow> (\<exists>e \<in> set new. truthy (fst (run_key e)) \<and> run_key e = k)" for k
    by (auto split: if_splits)
  have "kept_old ?ks ev = Inr (if run_key ev \<in> set ?ks then [] else [ev])" if "ev \<in> set old" for ev
  proof -
    from assms that have "typed_source ev" by blast
    then show ?thesis by (rule typed_run_key) (simp add: kept_old_def hashable_key_def key_in_typed del: set_concat)
  qed
  then have "all_res (kept_old ?ks) old = Inr (map (\<lambda>ev. if run_key ev \<in> set ?ks then [] else [ev]) old)"
    by (simp add: all_res_pure)
  with False new show ?thesis
    unfolding merge_with_replacement_def by (simp only: if_False rbind_Inr concat_singletons ks de_Morgan_disj)
qed

theorem replacement_is_exact_witness:
  "merge_with_replacement
     [[(''source_type'', PStr ''rag''), (''n'', PInt 1)], [(''source_type'', PStr ''db''), (''n'', PInt 2)]]
     [[(''source_type'', PStr ''rag''), (''n'', PInt 3)]]
   = Inr [[(''source_type'', PStr ''db''), (''n'', PInt 2)], [(''source_type'', PStr ''rag''), (''n'', PInt 3)]]"
  by (subst replacement_is_exact)
    (simp_all add: typed_source_def run_key_def source_key_def extract_tool_run_id_def py_or_def)

subsection \<open>Quota\<close>

text \<open>Groups by source: pairwise different string keys, each entry in the group of its source.\<close>

definition groups_ok :: "(pyval \<times> pdict list) list \<Rightarrow> bool" where
  "groups_ok gs \<longleftrightarrow> distinct (map fst gs) \<and> (\<forall>(k, grp) \<in> set gs. is_str k \<and> (\<forall>ev \<in> set grp. source_of ev = k))"

lemma py_eq_str: "is_str v \<Longrightarrow> py_eq v w \<longleftrightarrow> v = w"
  by (auto elim: is_strE)

lemma fst_group_add:
  "is_str (source_of ev) \<Longrightarrow> fst ` set (group_add ev gs) = insert (source_of ev) (fst ` set gs)"
  by (induction ev gs rule: group_add.induct) (auto simp: py_eq_str)

lemma group_add_lookup:
  "is_str (source_of ev) \<Longrightarrow>
   dget_or (group_add ev gs) k [] = dget_or gs k [] @ (if source_of ev = k then [ev] else [])"
  by (induction ev gs rule: group_add.induct) (auto simp: py_eq_str dget_or_def)

lemma group_add_ok: "is_str (source_of ev) \<Longrightarrow> groups_ok gs \<Longrightarrow> groups_ok (group_add ev gs)"
  by (induction ev gs rule: group_add.induct)
    (auto simp: py_eq_str groups_ok_def fst_group_add split: if_splits)

lemma group_by_source_spec:
  assumes "group_by_source gs evs = Inr gs'" and "\<forall>ev \<in> set evs. is_str (source_of ev)" and "groups_ok gs"
  shows "groups_ok gs' \<and> dget_or gs' k [] = dget_or gs k [] @ filter (\<lambda>ev. source_of ev = k) evs"
  using assms
  by (induction gs evs rule: group_by_source.induct)
    (auto simp: group_add_ok group_add_lookup split: if_splits)

lemma filter_groups:
  assumes "groups_ok gs" and "\<And>k grp. (k, grp) \<in> set gs \<Longrightarrow> set (h k grp) \<subseteq> set grp" and "h k [] = []"
  shows "filter (\<lambda>ev. source_of ev = k) (concat (map (\<lambda>(k, grp). h k grp) gs)) = h k (dget_or gs k [])"
  using assms
proof (induction gs)
  case (Cons g gs)
  obtain k' grp where g: "g = (k', grp)" by fastforce
  from Cons.prems(1) g have ok: "groups_ok gs" and grp: "\<forall>ev \<in> set grp. source_of ev = k'"
    and new: "k' \<notin> fst ` set gs" by (auto simp: groups_ok_def)
  have "set (h k' grp) \<subseteq> set grp" using g by (intro Cons.prems(2)) simp
  with grp have src: "\<forall>ev \<in> set (h k' grp). source_of ev = k'" by blast
  from Cons.prems(2,3) have IH: "filter (\<lambda>ev. source_of ev = k) (concat (map (\<lambda>(k, grp). h k grp) gs)) = h k (dget_or gs k [])"
    by (intro Cons.IH [OF ok]) auto
  show ?case
  proof (cases "k = k'")
    case True
    with new have "dget_or gs k [] = []" by (auto simp: dget_or_def split: option.splits dest: map_of_SomeD intro: rev_image_eqI)
    with True src IH g Cons.prems(3) show ?thesis by simp
  next
    case False
    with src have "filter (\<lambda>ev. source_of ev = k) (h k' grp) = []" by (auto simp: filter_empty_conv)
    with False IH g show ?thesis by simp
  qed
qed simp

text \<open>No source crowds out another. When the source types are strings, the quota keeps of every
  source exactly its strongest entries, as many as the quota of the source allows (5 for a source
  without one), and entries of equal weight in their order.\<close>

theorem quota_per_source:
  assumes "apply_source_quota f evs quota = Inr r" and "\<forall>ev \<in> set evs. is_str (source_of ev)"
  shows "filter (\<lambda>ev. source_of ev = st) r =
     take (dget_or quota st 5) (sort_key (\<lambda>ev. - weight f ev) (filter (\<lambda>ev. source_of ev = st) evs))"
proof -
  let ?h = "\<lambda>k grp. take (dget_or quota k 5) (sort_key (\<lambda>ev. - weight f ev) grp)"
  from assms(1) obtain gs kept where gs: "group_by_source [] evs = Inr gs" and r: "r = concat kept"
    and kept: "all_res (\<lambda>(st, grp). rbind (sort_by_weight f grp) (\<lambda>ranked. Inr (take (dget_or quota st 5) ranked))) gs = Inr kept"
    by (auto simp: apply_source_quota_def rbind_eq_Inr_iff)
  from kept have "list_all2 (\<lambda>g ks. ks = (case g of (k, grp) \<Rightarrow> ?h k grp)) gs kept"
    unfolding all_res_Inr_iff by (rule list_all2_mono) (auto simp: rbind_eq_Inr_iff dest!: sort_by_weight_Inr)
  then have "kept = map (\<lambda>(k, grp). ?h k grp) gs"
    by (simp add: list_all2_conv_all_nth nth_equalityI)
  moreover from group_by_source_spec [OF gs assms(2), of st] have "groups_ok gs"
    "dget_or gs st [] = filter (\<lambda>ev. source_of ev = st) evs"
    by (simp_all add: groups_ok_def)
  moreover have "set (?h k grp) \<subseteq> set grp" for k grp
    using set_take_subset [of "dget_or quota k 5" "sort_key (\<lambda>ev. - weight f ev) grp"] by simp
  ultimately show ?thesis
    unfolding r using filter_groups [of gs ?h st] by simp
qed

theorem quota_per_source_witness:
  "\<exists>r. apply_source_quota (\<lambda>_. Inl ValueError) demo_evidence [(PStr ''db'', 1)] = Inr r
     \<and> filter (\<lambda>ev. source_of ev = PStr ''db'') r = [hd demo_evidence]"
proof -
  have "\<exists>r. apply_source_quota (\<lambda>_. Inl ValueError) demo_evidence [(PStr ''db'', 1)] = Inr r"
    by (simp add: apply_source_quota_def demo_evidence_def source_of_def sort_by_weight_def evidence_weight_def
        py_or_def Let_def)
  then obtain r where r: "apply_source_quota (\<lambda>_. Inl ValueError) demo_evidence [(PStr ''db'', 1)] = Inr r" ..
  moreover have "\<forall>ev \<in> set demo_evidence. is_str (source_of ev)"
    by (simp add: demo_evidence_def source_of_def)
  ultimately show ?thesis
    using quota_per_source [of "\<lambda>_. Inl ValueError" demo_evidence "[(PStr ''db'', 1)]" r "PStr ''db''"]
    by (simp add: demo_evidence_def source_of_def weight_def evidence_weight_def py_or_def Let_def)
qed

subsection \<open>Snapshots\<close>

text \<open>The identifier of a snapshot depends on which evidence it holds and on nothing else: the
  same entries in another order, from another attempt or run, give a snapshot with the same
  identifier.\<close>

theorem snapshot_identity:
  assumes "snapshot_build sha256 evs run attempt = Inr sn" and "mset (map ev_id evs') = mset (map ev_id evs)"
  shows "\<exists>sn'. snapshot_build sha256 evs' run' attempt' = Inr sn' \<and> es_snapshot_id sn' = es_snapshot_id sn"
proof -
  have len: "length evs' = length evs" using arg_cong [OF assms(2), of size] by simp
  have ids: "all_res (\<lambda>ev. str_of_val (ev_id ev)) es = all_res str_of_val (map ev_id es)" for es
    by (induction es) simp_all
  have vals: "all_res str_of_val vs = Inr ss \<longleftrightarrow> vs = map PStr ss" for vs ss
  proof (induction vs arbitrary: ss)
    case (Cons v vs)
    then show ?case by (cases v) (auto simp: rbind_eq_Inr_iff)
  qed auto
  show ?thesis
  proof (cases "evs = []")
    case True
    with assms len show ?thesis by (auto simp: snapshot_build_def make_snapshot_id_def)
  next
    case False
    with assms(1) obtain ss where ss: "map ev_id evs = map PStr ss"
      "es_snapshot_id sn = ''es_'' @ take 16 (sha256 (join ''|'' (sort ss)))"
      by (auto simp: snapshot_build_def make_snapshot_id_def ids vals rbind_eq_Inr_iff)
    let ?str = "\<lambda>v. case v of PStr s \<Rightarrow> s | _ \<Rightarrow> []"
    from ss(1) have m: "mset (map ev_id evs') = mset (map PStr ss)" unfolding assms(2) by simp
    from mset_eq_setD [OF m] have "\<forall>v \<in> set (map ev_id evs'). PStr (?str v) = v" by auto
    then have eq: "map ev_id evs' = map PStr (map ?str (map ev_id evs'))" by (simp add: map_idI)
    define ss' where "ss' = map ?str (map ev_id evs')"
    note ss' = eq [folded ss'_def] ss'_def
    have "mset ss' = image_mset ?str (mset (map ev_id evs'))" unfolding ss'(2) by (rule mset_map)
    also have "\<dots> = mset ss" unfolding m by (simp add: image_mset.compositionality comp_def)
    finally have "sort ss' = sort ss" by (metis mset_sort properties_for_sort sorted_sort)
    moreover from ss'(1) have "all_res (\<lambda>ev. str_of_val (ev_id ev)) evs' = Inr ss'" unfolding ids vals .
    ultimately show ?thesis
      using ss False len by (auto simp: snapshot_build_def make_snapshot_id_def)
  qed
qed

theorem snapshot_identity_witness:
  "\<exists>sn'. snapshot_build (\<lambda>x. x) [[(''evidence_id'', PStr ''b'')], [(''evidence_id'', PStr ''a'')]] ''r2'' 2 = Inr sn'
     \<and> es_snapshot_id sn' = ''es_a|b''"
proof -
  have "\<exists>sn. snapshot_build (\<lambda>x. x) [[(''evidence_id'', PStr ''a'')], [(''evidence_id'', PStr ''b'')]] ''r1'' 1 = Inr sn
      \<and> es_snapshot_id sn = ''es_a|b''"
    by (simp add: snapshot_build_def make_snapshot_id_def ev_id_def join_def)
  then obtain sn where sn: "snapshot_build (\<lambda>x. x) [[(''evidence_id'', PStr ''a'')], [(''evidence_id'', PStr ''b'')]] ''r1'' 1 = Inr sn"
    "es_snapshot_id sn = ''es_a|b''" by blast
  from snapshot_identity [OF sn(1), of "[[(''evidence_id'', PStr ''b'')], [(''evidence_id'', PStr ''a'')]]" "''r2''" 2] sn(2)
  show ?thesis by (simp add: ev_id_def add_mset_commute)
qed

end
