(* ===== verification/Hallucination.thy ===== *)
theory Hallucination
  imports Agent_State Tool_Nodes Enforcement Evidence_Fusion
begin

text \<open>
  The check of a generated answer (\<open>agent/langgraph/nodes/hallucination.py\<close>): the level of enforcement,
  the branches that refuse or skip the check, the faithfulness score of the verifier gateway or of its
  character-overlap substitute, and the disposition of the answer. The verifier gateway is the
  argument \<open>verify\<close>, which returns a dictionary or raises; the configuration of the feature switch is
  the argument \<open>config\<close>.
\<close>

section \<open>Disposition\<close>

definition PASS_THRESHOLD :: rat where "PASS_THRESHOLD = 85/100"
definition FILTER_THRESHOLD :: rat where "FILTER_THRESHOLD = 6/10"
definition REGENERATE_THRESHOLD :: rat where "REGENERATE_THRESHOLD = 3/10"
definition MAX_REGENERATES :: int where "MAX_REGENERATES = 2"

definition dispose :: "rat \<Rightarrow> int \<Rightarrow> string" where
  "dispose faithfulness_score regenerate_count =
     (if faithfulness_score \<ge> PASS_THRESHOLD then ''pass''
      else if faithfulness_score \<ge> FILTER_THRESHOLD then ''filter''
      else if faithfulness_score \<ge> REGENERATE_THRESHOLD then
        (if regenerate_count \<ge> MAX_REGENERATES then ''exhausted'' else ''regenerate'')
      else ''reject'')"

text \<open>\<open>_verify_faithfulness\<close>: the share of the characters of the answer that occur in the context.\<close>

definition verify_faithfulness :: "string \<Rightarrow> string \<Rightarrow> rat" where
  "verify_faithfulness answer context =
     (if answer = [] \<or> context = [] then 0
      else
        (let answer_chars = remdups (u_chars answer);
             overlap = filter (\<lambda>c. c \<in> set (u_chars context)) answer_chars;
             overlap_ratio = of_nat (length overlap) / of_nat (length answer_chars);
             length_penalty = (if u_len context > 0 \<and> u_len answer > u_len context * 2 then 8/10 else 1)
         in min 1 (overlap_ratio * length_penalty)))"

section \<open>The node\<close>

record hallucination_env =
  he_config :: pdict
  he_verify :: "string \<Rightarrow> string \<Rightarrow> string \<Rightarrow> string \<Rightarrow> pdict res"
  he_float_of_str :: "string \<Rightarrow> rat res"
  he_sha256 :: "string \<Rightarrow> string"

text \<open>The mode found in the state, or the one resolved from the configuration when it is absent or
  unknown. The route target has the empty string as its default here.\<close>

definition node_run_mode :: "graph_state \<Rightarrow> run_mode" where
  "node_run_mode s =
     (case (if g_run_mode s \<noteq> [] then run_mode_of (g_run_mode s) else None) of
        Some m \<Rightarrow> m
      | None \<Rightarrow> resolve_run_mode (case g_route_target s of None \<Rightarrow> [] | Some t \<Rightarrow> t) (g_agent_config s))"

definition node_enforcement :: "graph_state \<Rightarrow> enforcement_mode res" where
  "node_enforcement s =
     (case (if g_enforcement_mode s \<noteq> [] then enforcement_of (g_enforcement_mode s) else None) of
        Some e \<Rightarrow> Inr e
      | None \<Rightarrow> resolve_enforcement (node_run_mode s) (g_agent_config s))"

text \<open>The texts of the evidence, joined; a content that is no string raises.\<close>

definition evidence_context :: "pdict list \<Rightarrow> string res" where
  "evidence_context evidence =
     rbind (all_res str_of_val (filter truthy (map (\<lambda>ev. dget ev ''content'') evidence))) (\<lambda>cs.
       Inr (join [CHR 10, CHR 10] cs))"

text \<open>\<open>_base_return\<close> with the optional fields of the update.\<close>

definition base_return :: "enforcement_mode \<Rightarrow> rat \<Rightarrow> string \<Rightarrow> graph_state \<Rightarrow> graph_state" where
  "base_return e score action s =
     s\<lparr>g_hallucination_score := score, g_hallucination_action := action,
       g_enforcement_mode := enforcement_value e\<rparr>"

definition rejected :: "enforcement_mode \<Rightarrow> message \<Rightarrow> graph_state \<Rightarrow> graph_state" where
  "rejected e reason s = (base_return e 0 ''reject'' s)\<lparr>g_reject_reason := reason\<rparr>"

definition disposed :: "enforcement_mode \<Rightarrow> rat \<Rightarrow> graph_state \<Rightarrow> graph_state" where
  "disposed e score s =
     (let action = dispose score (g_regenerate_count s);
          t = base_return e score action s
      in if action = ''regenerate'' then t\<lparr>g_regenerate_count := g_regenerate_count s + 1\<rparr> else t)"

text \<open>Verification by the gateway. Its \<open>action\<close> is only logged; the number of its claims is taken for
  the log, inside the \<open>try\<close>. When it fails, enforcement decides between a refusal and the
  substitute.\<close>

definition gateway_score :: "hallucination_env \<Rightarrow> string \<Rightarrow> graph_state \<Rightarrow> rat res" where
  "gateway_score env context s =
     rbind (he_verify env (g_generated_answer s) context (g_user_question s) (g_tenant_id s)) (\<lambda>result.
     rbind (py_float (he_float_of_str env) (dget_or result ''faithfulness_score'' (PFloat 0))) (\<lambda>score.
     rbind (py_len (py_or (dget_or result ''claims'' (PList [])) (PList []))) (\<lambda>_. Inr score)))"

definition verify_answer :: "hallucination_env \<Rightarrow> enforcement_mode \<Rightarrow> string \<Rightarrow> graph_state \<Rightarrow> graph_state" where
  "verify_answer env e context s =
     (case gateway_score env context s of
        Inr score \<Rightarrow> disposed e score s
      | Inl _ \<Rightarrow>
          if e = Enforced then rejected e (Msg ''verification service failed'' []) s
          else disposed e (verify_faithfulness (g_generated_answer s) context) s)"

text \<open>
  The branch for enforced verification of an answer with a syntax tree. With claims in the state it
  always ends in its exception handler: after binding the citations it calls \<open>VerdictMatrix.evaluate\<close>,
  a method the class does not have, and any exception before that call is handled in the same way.
  Without claims it goes on to the gateway, unless building the snapshot raises. \<open>True\<close> is the
  exception handler.
\<close>

definition ast_branch_fails :: "hallucination_env \<Rightarrow> graph_state \<Rightarrow> bool" where
  "ast_branch_fails env s \<longleftrightarrow>
     g_claims s \<noteq> [] \<or> (case snapshot_build (he_sha256 env) (g_evidence s) [] 1 of Inl _ \<Rightarrow> True | Inr _ \<Rightarrow> False)"

definition hallucination_node :: "hallucination_env \<Rightarrow> graph_state \<Rightarrow> graph_state res" where
  "hallucination_node env s =
     rbind (node_enforcement s) (\<lambda>e.
       if g_generated_answer s = [] then
         Inr (if e = Enforced then rejected e (Msg ''no answer was generated'' []) s
              else base_return e 1 ''pass'' s)
       else if g_evidence s = [] then
         Inr (if e = Enforced then rejected e (Msg ''the material is insufficient'' []) s
              else base_return e 1 ''pass'' s)
       else
         rbind (evidence_context (g_evidence s)) (\<lambda>context.
           Inr (if e = Enforced \<and> \<not> truthy (g_answer_ast s) then
                  (if g_regenerate_count s \<ge> MAX_REGENERATES
                   then rejected e (Msg ''the answer structure cannot be parsed'' []) s
                   else (base_return e 0 ''regenerate'' s)\<lparr>g_regenerate_count := g_regenerate_count s + 1\<rparr>)
                else if e = Enforced \<and> ast_branch_fails env s then
                  rejected e (Msg ''verification service failed'' []) s
                else if \<not> is_feature_enabled (he_config env) ''hallucination'' then base_return e 1 ''pass'' s
                else verify_answer env e context s)))"

definition hallucination_decision :: "graph_state \<Rightarrow> string" where
  "hallucination_decision s =
     (if g_hallucination_action s \<in> {''pass'', ''filter''} then ''answer_renderer''
      else if g_hallucination_action s = ''regenerate'' then ''prompt_assembly''
      else ''observability'')"

section \<open>Properties\<close>

lemma dispose_cases:
  "dispose q n = ''pass'' \<or> dispose q n = ''filter'' \<longleftrightarrow> q \<ge> 6/10"
  "dispose q n = ''regenerate'' \<longleftrightarrow> 3/10 \<le> q \<and> q < 6/10 \<and> n < 2"
  by (auto simp: dispose_def PASS_THRESHOLD_def FILTER_THRESHOLD_def REGENERATE_THRESHOLD_def MAX_REGENERATES_def)

text \<open>What the node writes: the enforcement level, an action, and one more regeneration exactly when it
  asks for one, which it does at most twice.\<close>

definition checked :: "graph_state \<Rightarrow> enforcement_mode \<Rightarrow> graph_state \<Rightarrow> bool" where
  "checked s e t \<longleftrightarrow>
     g_enforcement_mode t = enforcement_value e
     \<and> (g_hallucination_action t = ''regenerate'' \<longrightarrow> g_regenerate_count s < 2)
     \<and> g_regenerate_count t = g_regenerate_count s + (if g_hallucination_action t = ''regenerate'' then 1 else 0)
     \<and> (g_retry_count t, g_max_retries t) = (g_retry_count s, g_max_retries s)
     \<and> (g_generated_answer t, g_run_mode t) = (g_generated_answer s, g_run_mode s)
     \<and> (g_answer_ast t, g_claims t) = (g_answer_ast s, g_claims s)
     \<and> g_route_target t = g_route_target s \<and> g_merged_context t = g_merged_context s
     \<and> g_agent_config t = g_agent_config s \<and> g_termination_reason t = g_termination_reason s"

lemma disposed_action [simp]: "g_hallucination_action (disposed e q s) = dispose q (g_regenerate_count s)"
  by (simp add: disposed_def base_return_def Let_def)

lemma checked_base: "action \<noteq> ''regenerate'' \<Longrightarrow> checked s e (base_return e q action s)"
  by (simp add: checked_def base_return_def)

lemma checked_rejected: "checked s e (rejected e m s)"
  by (simp add: checked_def rejected_def base_return_def)

lemma checked_disposed: "checked s e (disposed e q s)"
  by (simp add: checked_def disposed_def base_return_def Let_def dispose_cases(2) del: One_nat_def)

lemma checked_verify: "checked s e (verify_answer env e c s)"
  by (simp add: verify_answer_def checked_disposed checked_rejected split: sum.split)

lemmas checked_intros = checked_base checked_rejected checked_disposed checked_verify

lemma hallucination_node_checked:
  assumes "hallucination_node env s = Inr t"
  obtains e where "node_enforcement s = Inr e" and "checked s e t"
proof -
  from assms obtain e where e: "node_enforcement s = Inr e"
    unfolding hallucination_node_def by (auto simp: rbind_eq_Inr_iff)
  have again: "checked s e ((base_return e 0 ''regenerate'' s)\<lparr>g_regenerate_count := g_regenerate_count s + 1\<rparr>)"
    if "\<not> 2 \<le> g_regenerate_count s" for e using that by (simp add: checked_def base_return_def)
  from assms e have "checked s e t"
    unfolding hallucination_node_def
    by (auto simp: rbind_eq_Inr_iff MAX_REGENERATES_def checked_intros again split: if_splits)
  with e show thesis by (rule that)
qed

lemma enforced_without_ast:
  assumes "hallucination_node env s = Inr t" and "node_enforcement s = Inr Enforced" and "\<not> truthy (g_answer_ast s)"
  shows "g_hallucination_action t \<in> {''reject'', ''regenerate''}"
  using assms unfolding hallucination_node_def
  by (auto simp: rbind_eq_Inr_iff rejected_def base_return_def split: if_splits)

text \<open>C35: enforced verification fails closed. When the mode is enforced and the node lets the answer
  through (passed or filtered), then there was an answer, evidence and a parsed answer structure, and
  either the verifier gateway returned a score of at least 0.6 or the check is switched off in the
  configuration; a failure of the gateway is never a pass.\<close>

theorem enforced_fails_closed:
  assumes "hallucination_node env s = Inr t" and "node_enforcement s = Inr Enforced"
    and "g_hallucination_action t \<in> {''pass'', ''filter''}"
  shows "g_generated_answer s \<noteq> [] \<and> g_evidence s \<noteq> [] \<and> truthy (g_answer_ast s) \<and> g_claims s = []
    \<and> (\<not> is_feature_enabled (he_config env) ''hallucination''
       \<or> (\<exists>c q. evidence_context (g_evidence s) = Inr c \<and> gateway_score env c s = Inr q \<and> q \<ge> 6/10))"
proof -
  have rej: "g_hallucination_action (rejected Enforced m s) = ''reject''" for m
    by (simp add: rejected_def base_return_def)
  have verify: "\<exists>q. gateway_score env c s = Inr q \<and> q \<ge> 6/10"
    if "g_hallucination_action (verify_answer env Enforced c s) \<in> {''pass'', ''filter''}" for c
    using that by (simp add: verify_answer_def rej dispose_cases(1) split: sum.splits)
  from assms show ?thesis
    unfolding hallucination_node_def
    by (auto simp: rbind_eq_Inr_iff rej base_return_def ast_branch_fails_def split: if_splits intro!: verify [simplified])
qed

definition demo_check_env :: hallucination_env where
  "demo_check_env =
     \<lparr>he_config = [(''hallucination'', PDict [(''enabled'', PBool True)])],
      he_verify = (\<lambda>_ _ _ _. Inr [(''faithfulness_score'', PFloat (9/10))]),
      he_float_of_str = (\<lambda>_. Inl ValueError), he_sha256 = id\<rparr>"

definition demo_check_state :: graph_state where
  "demo_check_state =
     empty_state\<lparr>g_enforcement_mode := ''enforced'', g_generated_answer := ''a'',
       g_evidence := [[(''evidence_id'', PStr ''e1''), (''content'', PStr ''c'')]],
       g_answer_ast := PDict [(''root'', PDict [])]\<rparr>"

theorem enforced_fails_closed_witness:
  "\<exists>t c q. hallucination_node demo_check_env demo_check_state = Inr t
     \<and> gateway_score demo_check_env c demo_check_state = Inr q \<and> q \<ge> 6/10"
proof -
  have on: "is_feature_enabled (he_config demo_check_env) ''hallucination''" by code_simp
  have mode: "node_enforcement demo_check_state = Inr Enforced" by code_simp
  have run: "case hallucination_node demo_check_env demo_check_state of
      Inl _ \<Rightarrow> False | Inr t \<Rightarrow> g_hallucination_action t = ''pass''"
    by code_simp
  then obtain t where t: "hallucination_node demo_check_env demo_check_state = Inr t"
    "g_hallucination_action t \<in> {''pass'', ''filter''}"
    by (auto split: sum.splits)
  from enforced_fails_closed [OF t(1) mode t(2)] on t(1) show ?thesis by blast
qed

lemma u_chars_Nil_iff: "u_chars s = [] \<longleftrightarrow> s = []"
  by (cases s) simp_all

text \<open>The substitute score is a proportion that rewards nothing but overlap: it lies between 0 and
  1, is 0 if the answer shares no character with the context, and reaches 1 exactly when every
  character of the answer occurs in the context and the answer is at most twice as long.\<close>

theorem substitute_score_spec:
  assumes "answer \<noteq> []" and "context \<noteq> []"
  shows "0 \<le> verify_faithfulness answer context \<and> verify_faithfulness answer context \<le> 1
    \<and> (verify_faithfulness answer context = 0 \<longleftrightarrow> set (u_chars answer) \<inter> set (u_chars context) = {})
    \<and> (verify_faithfulness answer context = 1 \<longleftrightarrow>
         set (u_chars answer) \<subseteq> set (u_chars context) \<and> (u_len context = 0 \<or> u_len answer \<le> u_len context * 2))"
proof -
  let ?a = "remdups (u_chars answer)"
  let ?o = "filter (\<lambda>c. c \<in> set (u_chars context)) ?a"
  have a: "0 < length ?a" using assms(1) by (simp add: u_chars_Nil_iff)
  have le: "length ?o \<le> length ?a" by (rule length_filter_le)
  have full: "length ?o = length ?a \<longleftrightarrow> set (u_chars answer) \<subseteq> set (u_chars context)"
    by (auto simp: subset_iff) (metis filter_id_conv length_filter_less nat_less_le set_remdups)+
  have none: "length ?o = 0 \<longleftrightarrow> set (u_chars answer) \<inter> set (u_chars context) = {}"
    by (auto simp: filter_empty_conv)
  define r :: rat where "r = of_nat (length ?o) / of_nat (length ?a)"
  have r: "0 \<le> r" "r \<le> 1" "r = 0 \<longleftrightarrow> length ?o = 0" "r = 1 \<longleftrightarrow> length ?o = length ?a"
    using a le unfolding r_def by (simp_all add: divide_simps)
  define p :: rat where "p = (if u_len context > 0 \<and> u_len answer > u_len context * 2 then 8/10 else 1)"
  have p: "p = 8/10 \<or> p = 1" "p = 1 \<longleftrightarrow> (u_len context = 0 \<or> u_len answer \<le> u_len context * 2)"
    by (auto simp: p_def)
  have v: "verify_faithfulness answer context = min 1 (r * p)"
    using assms by (simp add: verify_faithfulness_def Let_def r_def p_def)
  from p(1) show ?thesis
  proof
    assume p8: "p = 8/10"
    with p(2) have "\<not> (u_len context = 0 \<or> u_len answer \<le> u_len context * 2)" by simp
    moreover have "verify_faithfulness answer context = r * (8/10)" using r(2) unfolding v p8 by simp
    ultimately show ?thesis
      unfolding full [symmetric] none [symmetric] using r by auto
  next
    assume p1: "p = 1"
    with p(2) have "u_len context = 0 \<or> u_len answer \<le> u_len context * 2" by simp
    moreover have "verify_faithfulness answer context = r" using r(2) unfolding v p1 by simp
    ultimately show ?thesis
      unfolding full [symmetric] none [symmetric] using r by simp
  qed
qed

theorem substitute_score_spec_witness:
  "verify_faithfulness ''aab'' ''cab'' = 1"
proof -
  have "u_chars ''aab'' = [''a'', ''a'', ''b'']" "u_chars ''cab'' = [''c'', ''a'', ''b'']" "u_len ''aab'' = 3" "u_len ''cab'' = 3"
    by code_simp+
  with substitute_score_spec [of "''aab''" "''cab''"] show ?thesis by simp
qed

end
