(* ===== verification/Claims.thy ===== *)
theory Claims
  imports Prelude
begin

text \<open>
  Claims of an answer and the verdicts on their citations (\<open>agent/langgraph/evidence/claim.py\<close>): a
  claim collects one verdict per evidence, keeps the supporting and contradicting identifiers apart,
  aggregates the state of the verifier and is written to and read from dictionaries. The string
  enumerations are kept as strings, as the code does. \<open>from_dict\<close> is modelled for dictionaries whose
  values have the declared types; the code would store a value of another type unchecked.
\<close>

section \<open>Data\<close>

record pair_verdict =
  pv_evidence_id :: string
  pv_schema_version :: string
  pv_pair_status :: string
  pv_verifier_status :: string
  pv_rule_result :: string
  pv_nli_result :: string
  pv_llm_result :: string
  pv_attempt_id :: string
  pv_is_counter_evidence :: bool

record evidence_claim =
  cl_claim_id :: string
  cl_text :: string
  cl_schema_version :: string
  cl_span :: "int \<times> int"
  cl_raw_declared_indices :: "int list"
  cl_resolved_declared_ids :: "string list"
  cl_invalid_indices :: "int list"
  cl_unauthorized_ids :: "string list"
  cl_truncated_citations :: "int list"
  cl_verified_support_ids :: "string list"
  cl_contradicting_ids :: "string list"
  cl_pair_verdicts :: "pair_verdict list"
  cl_verifier_status :: string
  cl_final_status :: string
  cl_model_claim_type :: string
  cl_model_is_required :: bool
  cl_server_claim_type :: string
  cl_server_is_required :: bool
  cl_risk_level :: string

definition new_claim :: "string \<Rightarrow> string \<Rightarrow> evidence_claim" where
  "new_claim i t =
     \<lparr>cl_claim_id = i, cl_text = t, cl_schema_version = ''1.0'', cl_span = (0, 0),
      cl_raw_declared_indices = [], cl_resolved_declared_ids = [], cl_invalid_indices = [],
      cl_unauthorized_ids = [], cl_truncated_citations = [], cl_verified_support_ids = [],
      cl_contradicting_ids = [], cl_pair_verdicts = [], cl_verifier_status = ''unknown'',
      cl_final_status = ''pending'', cl_model_claim_type = ''statement'',
      cl_model_is_required = False, cl_server_claim_type = ''statement'',
      cl_server_is_required = False, cl_risk_level = ''low''\<rparr>"

section \<open>Operations\<close>

definition append_new :: "'a \<Rightarrow> 'a list \<Rightarrow> 'a list" where
  "append_new x xs = (if x \<in> set xs then xs else xs @ [x])"

definition add_pair_verdict :: "pair_verdict \<Rightarrow> evidence_claim \<Rightarrow> evidence_claim" where
  "add_pair_verdict v c =
     (let c1 = c\<lparr>cl_pair_verdicts := cl_pair_verdicts c @ [v]\<rparr>
      in if pv_pair_status v = ''supported'' then
           c1\<lparr>cl_verified_support_ids := append_new (pv_evidence_id v) (cl_verified_support_ids c1)\<rparr>
         else if pv_pair_status v = ''contradicted'' then
           c1\<lparr>cl_contradicting_ids := append_new (pv_evidence_id v) (cl_contradicting_ids c1)\<rparr>
         else c1)"

definition pooled_status :: "pair_verdict list \<Rightarrow> string" where
  "pooled_status vs =
     (if vs = [] then ''unknown''
      else
        (let statuses = pv_verifier_status ` set vs
         in if statuses = {''ok''} then ''ok''
            else if ''error'' \<in> statuses then ''error''
            else if ''timeout'' \<in> statuses then ''timeout''
            else if ''budget_exhausted'' \<in> statuses then ''budget_exhausted''
            else ''mixed''))"

text \<open>The method stores the status and returns it.\<close>

definition aggregate_verifier_status :: "evidence_claim \<Rightarrow> string \<times> evidence_claim" where
  "aggregate_verifier_status c =
     (let s = pooled_status (cl_pair_verdicts c) in (s, c\<lparr>cl_verifier_status := s\<rparr>))"

definition is_required :: "evidence_claim \<Rightarrow> bool" where
  "is_required c \<longleftrightarrow> cl_server_is_required c \<or> cl_model_is_required c"

definition has_verified_support :: "evidence_claim \<Rightarrow> bool" where
  "has_verified_support c \<longleftrightarrow> length (cl_verified_support_ids c) > 0"

definition has_contradiction :: "evidence_claim \<Rightarrow> bool" where
  "has_contradiction c \<longleftrightarrow> length (cl_contradicting_ids c) > 0"

definition has_invalid_citations :: "evidence_claim \<Rightarrow> bool" where
  "has_invalid_citations c \<longleftrightarrow> length (cl_invalid_indices c) > 0"

definition has_unauthorized_citations :: "evidence_claim \<Rightarrow> bool" where
  "has_unauthorized_citations c \<longleftrightarrow> length (cl_unauthorized_ids c) > 0"

section \<open>Dictionaries\<close>

definition pv_to_dict :: "pair_verdict \<Rightarrow> pdict" where
  "pv_to_dict v =
     [(''schema_version'', PStr (pv_schema_version v)), (''evidence_id'', PStr (pv_evidence_id v)),
      (''pair_status'', PStr (pv_pair_status v)), (''verifier_status'', PStr (pv_verifier_status v)),
      (''rule_result'', PStr (pv_rule_result v)), (''nli_result'', PStr (pv_nli_result v)),
      (''llm_result'', PStr (pv_llm_result v)), (''attempt_id'', PStr (pv_attempt_id v)),
      (''is_counter_evidence'', PBool (pv_is_counter_evidence v))]"

abbreviation strs :: "string list \<Rightarrow> pyval" where
  "strs xs \<equiv> PList (map PStr xs)"

abbreviation ints :: "int list \<Rightarrow> pyval" where
  "ints xs \<equiv> PList (map PInt xs)"

definition claim_to_dict :: "evidence_claim \<Rightarrow> pdict" where
  "claim_to_dict c =
     [(''schema_version'', PStr (cl_schema_version c)), (''claim_id'', PStr (cl_claim_id c)),
      (''text'', PStr (cl_text c)), (''span'', ints [fst (cl_span c), snd (cl_span c)]),
      (''raw_declared_indices'', ints (cl_raw_declared_indices c)),
      (''resolved_declared_ids'', strs (cl_resolved_declared_ids c)),
      (''invalid_indices'', ints (cl_invalid_indices c)),
      (''unauthorized_ids'', strs (cl_unauthorized_ids c)),
      (''truncated_citations'', ints (cl_truncated_citations c)),
      (''verified_support_ids'', strs (cl_verified_support_ids c)),
      (''contradicting_ids'', strs (cl_contradicting_ids c)),
      (''pair_verdicts'', PList (map (\<lambda>v. PDict (pv_to_dict v)) (cl_pair_verdicts c))),
      (''verifier_status'', PStr (cl_verifier_status c)), (''final_status'', PStr (cl_final_status c)),
      (''model_claim_type'', PStr (cl_model_claim_type c)),
      (''model_is_required'', PBool (cl_model_is_required c)),
      (''server_claim_type'', PStr (cl_server_claim_type c)),
      (''server_is_required'', PBool (cl_server_is_required c)),
      (''risk_level'', PStr (cl_risk_level c))]"

text \<open>Readers of the declared types.\<close>

fun as_str :: "pyval \<Rightarrow> string res" where
  "as_str (PStr s) = Inr s"
| "as_str _ = Inl TypeError"

fun as_int :: "pyval \<Rightarrow> int res" where
  "as_int (PInt i) = Inr i"
| "as_int _ = Inl TypeError"

fun as_bool :: "pyval \<Rightarrow> bool res" where
  "as_bool (PBool b) = Inr b"
| "as_bool _ = Inl TypeError"

fun as_list :: "(pyval \<Rightarrow> 'b res) \<Rightarrow> pyval \<Rightarrow> 'b list res" where
  "as_list f (PList xs) = all_res f xs"
| "as_list f _ = Inl TypeError"

fun as_pair :: "pyval \<Rightarrow> (int \<times> int) res" where
  "as_pair (PList [x, y]) = rbind (as_int x) (\<lambda>i. rbind (as_int y) (\<lambda>j. Inr (i, j)))"
| "as_pair _ = Inl TypeError"

definition PV_FIELDS :: "string list" where
  "PV_FIELDS =
     [''schema_version'', ''evidence_id'', ''pair_status'', ''verifier_status'', ''rule_result'',
      ''nli_result'', ''llm_result'', ''attempt_id'', ''is_counter_evidence'']"

text \<open>\<open>PairVerdict(**pv)\<close>: an unknown key or a missing \<open>evidence_id\<close> is a \<open>TypeError\<close>.\<close>

fun pv_from_dict :: "pyval \<Rightarrow> pair_verdict res" where
  "pv_from_dict (PDict d) =
     (if \<not> list_all (\<lambda>p. fst p \<in> set PV_FIELDS) d \<or> map_of d ''evidence_id'' = None then Inl TypeError
      else
        rbind (as_str (dget d ''evidence_id'')) (\<lambda>evidence_id.
        rbind (as_str (dget_or d ''schema_version'' (PStr ''1.0''))) (\<lambda>schema_version.
        rbind (as_str (dget_or d ''pair_status'' (PStr ''insufficient''))) (\<lambda>pair_status.
        rbind (as_str (dget_or d ''verifier_status'' (PStr ''unknown''))) (\<lambda>verifier_status.
        rbind (as_str (dget_or d ''rule_result'' (PStr ''unknown''))) (\<lambda>rule_result.
        rbind (as_str (dget_or d ''nli_result'' (PStr ''unknown''))) (\<lambda>nli_result.
        rbind (as_str (dget_or d ''llm_result'' (PStr ''unknown''))) (\<lambda>llm_result.
        rbind (as_str (dget_or d ''attempt_id'' (PStr []))) (\<lambda>attempt_id.
        rbind (as_bool (dget_or d ''is_counter_evidence'' (PBool False))) (\<lambda>counter.
          Inr \<lparr>pv_evidence_id = evidence_id, pv_schema_version = schema_version,
               pv_pair_status = pair_status, pv_verifier_status = verifier_status,
               pv_rule_result = rule_result, pv_nli_result = nli_result, pv_llm_result = llm_result,
               pv_attempt_id = attempt_id, pv_is_counter_evidence = counter\<rparr>))))))))))"
| "pv_from_dict _ = Inl TypeError"

definition required_key :: "pdict \<Rightarrow> string \<Rightarrow> pyval res" where
  "required_key d k = (case map_of d k of None \<Rightarrow> Inl KeyError | Some v \<Rightarrow> Inr v)"

definition claim_from_dict :: "pdict \<Rightarrow> evidence_claim res" where
  "claim_from_dict d =
     rbind (as_list pv_from_dict (dget_or d ''pair_verdicts'' (PList []))) (\<lambda>pair_verdicts.
     rbind (as_str (dget_or d ''schema_version'' (PStr ''1.0''))) (\<lambda>schema_version.
     rbind (rbind (required_key d ''claim_id'') as_str) (\<lambda>claim_id.
     rbind (rbind (required_key d ''text'') as_str) (\<lambda>txt.
     rbind (as_pair (dget_or d ''span'' (ints [0, 0]))) (\<lambda>span.
     rbind (as_list as_int (dget_or d ''raw_declared_indices'' (PList []))) (\<lambda>raw_declared.
     rbind (as_list as_str (dget_or d ''resolved_declared_ids'' (PList []))) (\<lambda>resolved.
     rbind (as_list as_int (dget_or d ''invalid_indices'' (PList []))) (\<lambda>invalid.
     rbind (as_list as_str (dget_or d ''unauthorized_ids'' (PList []))) (\<lambda>unauthorized.
     rbind (as_list as_int (dget_or d ''truncated_citations'' (PList []))) (\<lambda>truncated.
     rbind (as_list as_str (dget_or d ''verified_support_ids'' (PList []))) (\<lambda>verified.
     rbind (as_list as_str (dget_or d ''contradicting_ids'' (PList []))) (\<lambda>contradicting.
     rbind (as_str (dget_or d ''verifier_status'' (PStr ''unknown''))) (\<lambda>verifier_status.
     rbind (as_str (dget_or d ''final_status'' (PStr ''pending''))) (\<lambda>final_status.
     rbind (as_str (dget_or d ''model_claim_type'' (PStr ''statement''))) (\<lambda>model_type.
     rbind (as_bool (dget_or d ''model_is_required'' (PBool False))) (\<lambda>model_required.
     rbind (as_str (dget_or d ''server_claim_type'' (PStr ''statement''))) (\<lambda>server_type.
     rbind (as_bool (dget_or d ''server_is_required'' (PBool False))) (\<lambda>server_required.
     rbind (as_str (dget_or d ''risk_level'' (PStr ''low''))) (\<lambda>risk_level.
       Inr \<lparr>cl_claim_id = claim_id, cl_text = txt, cl_schema_version = schema_version, cl_span = span,
            cl_raw_declared_indices = raw_declared, cl_resolved_declared_ids = resolved,
            cl_invalid_indices = invalid, cl_unauthorized_ids = unauthorized,
            cl_truncated_citations = truncated, cl_verified_support_ids = verified,
            cl_contradicting_ids = contradicting, cl_pair_verdicts = pair_verdicts,
            cl_verifier_status = verifier_status, cl_final_status = final_status,
            cl_model_claim_type = model_type, cl_model_is_required = model_required,
            cl_server_claim_type = server_type, cl_server_is_required = server_required,
            cl_risk_level = risk_level\<rparr>)))))))))))))))))))"

section \<open>Properties\<close>

lemma pv_round_trip: "pv_from_dict (PDict (pv_to_dict v)) = Inr v"
  by (simp add: pv_to_dict_def PV_FIELDS_def)

lemma claim_from_to_dict: "claim_from_dict (claim_to_dict c) = Inr c"
  by (simp add: claim_from_dict_def claim_to_dict_def required_key_def all_res_map pv_round_trip
      del: pv_from_dict.simps)

text \<open>A claim survives the way through its dictionary form: \<open>from_dict\<close> applied to \<open>to_dict\<close> gives
  back the very claim, with all its verdicts, citation lists and statuses.\<close>

theorem claim_round_trip: "claim_from_dict (claim_to_dict c) = Inr c"
  by (rule claim_from_to_dict)

section \<open>Verdicts and identifiers\<close>

text \<open>The identifiers kept by a claim are exactly those of its verdicts, without repetition.\<close>

definition ids_with :: "string \<Rightarrow> evidence_claim \<Rightarrow> string set" where
  "ids_with st c = pv_evidence_id ` {v \<in> set (cl_pair_verdicts c). pv_pair_status v = st}"

definition claim_inv :: "evidence_claim \<Rightarrow> bool" where
  "claim_inv c \<longleftrightarrow>
     set (cl_verified_support_ids c) = ids_with ''supported'' c \<and> distinct (cl_verified_support_ids c)
     \<and> set (cl_contradicting_ids c) = ids_with ''contradicted'' c \<and> distinct (cl_contradicting_ids c)"

lemma ids_withI: "v \<in> set (cl_pair_verdicts c) \<Longrightarrow> pv_pair_status v = st \<Longrightarrow> pv_evidence_id v \<in> ids_with st c"
  by (simp add: ids_with_def)

lemma set_append_new [simp]: "set (append_new x xs) = insert x (set xs)"
  by (auto simp: append_new_def)

lemma distinct_append_new [simp]: "distinct (append_new x xs) = distinct xs"
  by (simp add: append_new_def)

lemma claim_inv_new: "claim_inv (new_claim i t)"
  by (simp add: claim_inv_def new_claim_def ids_with_def)

lemma claim_inv_add: "claim_inv c \<Longrightarrow> claim_inv (add_pair_verdict v c)"
  by (auto simp: claim_inv_def add_pair_verdict_def ids_with_def Let_def)

lemma claim_inv_fold: "claim_inv c \<Longrightarrow> claim_inv (fold add_pair_verdict vs c)"
  by (induction vs arbitrary: c) (auto intro: claim_inv_add)

lemma fold_add_verdicts: "cl_pair_verdicts (fold add_pair_verdict vs c) = cl_pair_verdicts c @ vs"
proof (induction vs arbitrary: c)
  case (Cons v vs)
  have "cl_pair_verdicts (add_pair_verdict v c) = cl_pair_verdicts c @ [v]"
    by (simp add: add_pair_verdict_def Let_def)
  with Cons show ?case by simp
qed simp

text \<open>After any sequence of verdicts, the supporting and the contradicting identifiers of a new
  claim are exactly the evidence identifiers of the verdicts with that status, each once: no verdict
  is lost, none is counted twice, and the two lists are never mixed.\<close>

theorem verdict_ids_exact:
  "set (cl_verified_support_ids (fold add_pair_verdict vs (new_claim i t)))
     = pv_evidence_id ` {v \<in> set vs. pv_pair_status v = ''supported''}
   \<and> set (cl_contradicting_ids (fold add_pair_verdict vs (new_claim i t)))
     = pv_evidence_id ` {v \<in> set vs. pv_pair_status v = ''contradicted''}
   \<and> distinct (cl_verified_support_ids (fold add_pair_verdict vs (new_claim i t)))
   \<and> distinct (cl_contradicting_ids (fold add_pair_verdict vs (new_claim i t)))
   \<and> cl_pair_verdicts (fold add_pair_verdict vs (new_claim i t)) = vs"
proof -
  have "cl_pair_verdicts (fold add_pair_verdict vs (new_claim i t)) = vs"
    by (simp add: fold_add_verdicts new_claim_def)
  then show ?thesis
    using claim_inv_fold [OF claim_inv_new, of vs i t] by (simp add: claim_inv_def ids_with_def)
qed

lemma image_set_singleton: "f ` set xs = {a} \<longleftrightarrow> xs \<noteq> [] \<and> (\<forall>x \<in> set xs. f x = a)"
  by (cases xs) auto

text \<open>The pooled verifier state is \<open>ok\<close> exactly if there is a verdict and every verdict is \<open>ok\<close>,
  and is \<open>error\<close> as soon as one is; \<open>mixed\<close> is left for verdicts
  without error, timeout or exhausted budget that are not all \<open>ok\<close>. So a mixture of \<open>ok\<close> and
  \<open>error\<close>, which the documentation calls \<open>mixed\<close>, is an \<open>error\<close>.\<close>

theorem pooled_status_spec:
  "(pooled_status vs = ''ok'' \<longleftrightarrow> vs \<noteq> [] \<and> (\<forall>v \<in> set vs. pv_verifier_status v = ''ok''))
   \<and> (pooled_status vs = ''error'' \<longleftrightarrow> (\<exists>v \<in> set vs. pv_verifier_status v = ''error''))
   \<and> (pooled_status vs = ''mixed'' \<longleftrightarrow>
        (\<exists>v \<in> set vs. pv_verifier_status v \<noteq> ''ok'')
        \<and> (\<forall>v \<in> set vs. pv_verifier_status v \<notin> {''error'', ''timeout'', ''budget_exhausted''}))"
proof -
  let ?S = "pv_verifier_status ` set vs"
  have mem: "(\<exists>v \<in> set vs. pv_verifier_status v = x) \<longleftrightarrow> x \<in> ?S" for x by (simp add: image_iff eq_commute)
  have sub: "(\<exists>v \<in> set vs. pv_verifier_status v \<noteq> ''ok'') \<longleftrightarrow> vs \<noteq> [] \<and> ?S \<noteq> {''ok''}"
    unfolding image_set_singleton by (cases vs) auto
  have none: "(\<forall>v \<in> set vs. pv_verifier_status v \<notin> {''error'', ''timeout'', ''budget_exhausted''}) \<longleftrightarrow>
      ''error'' \<notin> ?S \<and> ''timeout'' \<notin> ?S \<and> ''budget_exhausted'' \<notin> ?S"
    by (simp add: image_iff) metis
  have single: "a \<in> S \<Longrightarrow> a \<noteq> b \<Longrightarrow> S \<noteq> {b}" for a b :: string and S by blast
  have empty: "''error'' \<in> ?S \<Longrightarrow> vs \<noteq> []" by (cases vs) simp_all
  have mixture: "''error'' \<in> ?S \<Longrightarrow> ?S \<noteq> {''ok''}" by (erule single) simp
  show ?thesis
    unfolding mem sub none image_set_singleton [symmetric]
    using empty mixture by (simp add: pooled_status_def Let_def)
qed

definition demo_verdict :: "string \<Rightarrow> pair_verdict" where
  "demo_verdict st =
     \<lparr>pv_evidence_id = ''e1'', pv_schema_version = ''1.0'', pv_pair_status = ''supported'',
      pv_verifier_status = st, pv_rule_result = ''supported'', pv_nli_result = ''entailment'',
      pv_llm_result = ''supported'', pv_attempt_id = [], pv_is_counter_evidence = False\<rparr>"

theorem pooled_status_spec_witness:
  "pooled_status [demo_verdict ''ok'', demo_verdict ''error''] = ''error''"
  using pooled_status_spec [of "[demo_verdict ''ok'', demo_verdict ''error'']"]
  by (simp add: demo_verdict_def)

end
