(* ===== verification/Answer_Ast.thy ===== *)
theory Answer_Ast
  imports Json Claims Enforcement
begin

text \<open>
  Structured answers (\<open>agent/langgraph/evidence/answer_ast.py\<close>): sections, paragraphs and tables with
  claims as leaves, their dictionary form, the renderer that prints only supported claims, the
  synchronisation of the verified statuses into the dictionary form and the filter of the answer
  stream (\<open>nodes/answer_renderer.py\<close>). Validation of a dictionary against the schema is done by
  pydantic and is an argument (\<open>validate\<close>) of the operations that use it.
\<close>

section \<open>Nodes\<close>

record claim_node =
  cn_schema_version :: string
  cn_claim_id :: string
  cn_text :: string
  cn_citation_indices :: "int list"
  cn_model_claim_type :: string
  cn_model_is_required :: bool
  cn_final_status :: string
  cn_server_claim_type :: string
  cn_server_is_required :: bool

record row_claim =
  tr_claim_id :: string
  tr_row_index :: int
  tr_row_values :: "(string \<times> string) list"
  tr_citation_indices :: "int list"
  tr_final_status :: string

datatype para_child = ClaimChild claim_node | NarrativeChild string

datatype section_node = Section string int "section_content list"
  and section_content = ParagraphC "para_child list" | TableC "string list" "row_claim list"
    | SectionC section_node

record answer_ast =
  aa_schema_version :: string
  aa_root :: section_node

definition STATUS_SUPPORTED :: string where
  "STATUS_SUPPORTED = ''supported''"

section \<open>Dictionary form\<close>

definition claim_node_dict :: "claim_node \<Rightarrow> pdict" where
  "claim_node_dict c =
     [(''node_type'', PStr ''claim''), (''schema_version'', PStr (cn_schema_version c)),
      (''claim_id'', PStr (cn_claim_id c)), (''text'', PStr (cn_text c)),
      (''citation_indices'', ints (cn_citation_indices c)),
      (''model_claim_type'', PStr (cn_model_claim_type c)),
      (''model_is_required'', PBool (cn_model_is_required c)),
      (''final_status'', PStr (cn_final_status c)),
      (''server_claim_type'', PStr (cn_server_claim_type c)),
      (''server_is_required'', PBool (cn_server_is_required c))]"

definition row_claim_dict :: "row_claim \<Rightarrow> pdict" where
  "row_claim_dict r =
     [(''node_type'', PStr ''table_row_claim''), (''claim_id'', PStr (tr_claim_id r)),
      (''row_index'', PInt (tr_row_index r)),
      (''row_values'', PDict (map (\<lambda>(k, v). (k, PStr v)) (tr_row_values r))),
      (''citation_indices'', ints (tr_citation_indices r)), (''final_status'', PStr (tr_final_status r))]"

fun child_dict :: "para_child \<Rightarrow> pdict" where
  "child_dict (ClaimChild c) = claim_node_dict c"
| "child_dict (NarrativeChild t) = [(''node_type'', PStr ''narrative''), (''text'', PStr t)]"

fun section_dict :: "section_node \<Rightarrow> pdict" and content_dict :: "section_content \<Rightarrow> pdict" where
  "section_dict (Section title level content) =
     [(''node_type'', PStr ''section''), (''title'', PStr title), (''level'', PInt level),
      (''content'', PList (map (\<lambda>c. PDict (content_dict c)) content))]"
| "content_dict (ParagraphC cs) =
     [(''node_type'', PStr ''paragraph''), (''children'', PList (map (\<lambda>c. PDict (child_dict c)) cs))]"
| "content_dict (TableC headers rows) =
     [(''node_type'', PStr ''table''), (''headers'', strs headers),
      (''row_claims'', PList (map (\<lambda>r. PDict (row_claim_dict r)) rows))]"
| "content_dict (SectionC sec) = section_dict sec"

definition ast_dict :: "answer_ast \<Rightarrow> pdict" where
  "ast_dict a =
     [(''schema_version'', PStr (aa_schema_version a)), (''root'', PDict (section_dict (aa_root a)))]"

section \<open>Rendering\<close>

definition citation_str :: "int list \<Rightarrow> string" where
  "citation_str is = concat (map (\<lambda>i. ''['' @ int_str i @ '']'') is)"

fun child_text :: "para_child \<Rightarrow> string list" where
  "child_text (ClaimChild c) =
     (if cn_final_status c = STATUS_SUPPORTED then [cn_text c @ citation_str (cn_citation_indices c)] else [])"
| "child_text (NarrativeChild t) = [t]"

definition render_paragraph :: "para_child list \<Rightarrow> string" where
  "render_paragraph cs = join '' '' (concat (map child_text cs))"

definition row_line :: "string list \<Rightarrow> row_claim \<Rightarrow> string" where
  "row_line headers r =
     ''| '' @ join '' | '' (map (\<lambda>h. dget_or (tr_row_values r) h []) headers) @ '' |''
       @ citation_str (tr_citation_indices r)"

definition render_table :: "string list \<Rightarrow> row_claim list \<Rightarrow> string" where
  "render_table headers rows =
     (let visible_rows = filter (\<lambda>r. tr_final_status r = STATUS_SUPPORTED) rows in
      if visible_rows = [] then []
      else join [CHR 10]
             ([''| '' @ join '' | '' headers @ '' |'', ''| '' @ join '' | '' (map (\<lambda>_. ''---'') headers) @ '' |'']
              @ map (row_line headers) visible_rows))"

fun render_section :: "section_node \<Rightarrow> string" and render_content :: "section_content \<Rightarrow> string" where
  "render_section (Section title level content) =
     join [CHR 10, CHR 10] (filter (\<lambda>p. p \<noteq> [])
       ((if title \<noteq> [] then [replicate (nat (max level 1)) CHR ''#'' @ '' '' @ title] else [])
        @ map render_content content))"
| "render_content (ParagraphC cs) = render_paragraph cs"
| "render_content (TableC headers rows) = render_table headers rows"
| "render_content (SectionC sec) = render_section sec"

definition render :: "answer_ast \<Rightarrow> string" where
  "render a = strip (render_section (aa_root a))"

section \<open>Synchronising statuses\<close>

text \<open>The map from claim identifiers to statuses; keys are compared as dictionary keys.\<close>

type_synonym status_map = "(pyval \<times> pyval) list"

definition sm_get :: "status_map \<Rightarrow> pyval \<Rightarrow> pyval option" where
  "sm_get m k = map_option snd (find (\<lambda>p. py_eq k (fst p)) m)"

fun sm_set :: "status_map \<Rightarrow> pyval \<Rightarrow> pyval \<Rightarrow> status_map" where
  "sm_set [] k v = [(k, v)]"
| "sm_set (p # m) k v = (if py_eq k (fst p) then (fst p, v) # m else p # sm_set m k v)"

fun add_status :: "status_map \<Rightarrow> pyval \<Rightarrow> status_map res" where
  "add_status m (PDict raw) =
     (case claim_from_dict raw of
        Inr c \<Rightarrow> Inr (sm_set m (PStr (cl_claim_id c)) (PStr (cl_final_status c)))
      | Inl _ \<Rightarrow>
          (let claim_id = dget_or raw ''claim_id'' (PStr []) in
           if \<not> truthy claim_id then Inr m
           else if \<not> hashable claim_id then Inl TypeError
           else Inr (sm_set m claim_id (dget_or raw ''final_status'' (PStr ''pending'')))))"
| "add_status m _ = Inr m"

fun build_claim_status_map :: "status_map \<Rightarrow> pyval list \<Rightarrow> status_map res" where
  "build_claim_status_map m [] = Inr m"
| "build_claim_status_map m (raw # claims_raw) =
     rbind (add_status m raw) (\<lambda>m'. build_claim_status_map m' claims_raw)"

text \<open>The new status of a node, written into the copy \<open>d'\<close> of its dictionary.\<close>

definition set_status :: "status_map \<Rightarrow> pdict \<Rightarrow> pdict \<Rightarrow> pdict res" where
  "set_status m d d' =
     (if dget_or d ''node_type'' (PStr []) \<in> {PStr ''claim'', PStr ''table_row_claim''} then
        (let claim_id = dget_or d ''claim_id'' (PStr []) in
         if \<not> hashable claim_id then Inl TypeError
         else
           (case sm_get m claim_id of
              Some st \<Rightarrow> Inr (dset d' ''final_status'' st)
            | None \<Rightarrow> Inr d'))
      else Inr d')"

text \<open>\<open>_sync_claim_statuses\<close> on a node and on the values of its entries: under the three keys of child
  containers, the dictionaries of a list are synchronised in turn, a falsy value, a string or a
  dictionary holds no nodes, and any other value is not iterable.\<close>

fun sync_node :: "status_map \<Rightarrow> pyval \<Rightarrow> pyval res"
  and sync_entries :: "status_map \<Rightarrow> pdict \<Rightarrow> pdict res"
  and sync_children :: "status_map \<Rightarrow> pyval \<Rightarrow> pyval res"
  and sync_nodes :: "status_map \<Rightarrow> pyval list \<Rightarrow> pyval list res" where
  "sync_node m (PDict d) =
     rbind (sync_entries m d) (\<lambda>d'. rbind (set_status m d d') (\<lambda>d''. Inr (PDict d'')))"
| "sync_node m v = Inr v"
| "sync_entries m [] = Inr []"
| "sync_entries m ((k, v) # d) =
     rbind (if k \<in> {''content'', ''children'', ''row_claims''} \<and> truthy v then sync_children m v else Inr v) (\<lambda>v'.
     rbind (sync_entries m d) (\<lambda>d'. Inr ((k, v') # d')))"
| "sync_children m (PList xs) = rbind (sync_nodes m xs) (\<lambda>ys. Inr (PList ys))"
| "sync_children m (PStr s) = Inr (PStr s)"
| "sync_children m (PDict d) = Inr (PDict d)"
| "sync_children m v = Inl TypeError"
| "sync_nodes m [] = Inr []"
| "sync_nodes m (x # xs) =
     rbind (sync_node m x) (\<lambda>y. rbind (sync_nodes m xs) (\<lambda>ys. Inr (y # ys)))"

section \<open>The stream filter\<close>

record stream_filter =
  sf_enforcement :: enforcement_mode
  sf_claim_buffer :: "string list"

definition new_filter :: "enforcement_mode \<Rightarrow> stream_filter" where
  "new_filter e = \<lparr>sf_enforcement = e, sf_claim_buffer = []\<rparr>"

text \<open>\<open>on_chunk\<close>: the text to send at once, if any, and the filter afterwards.\<close>

definition on_chunk :: "stream_filter \<Rightarrow> string \<Rightarrow> string \<Rightarrow> string option \<times> stream_filter" where
  "on_chunk f chunk_type txt =
     (if sf_enforcement f = Disabled then (Some txt, f)
      else if chunk_type = ''narrative'' then (Some txt, f)
      else if chunk_type = ''claim'' then (None, f\<lparr>sf_claim_buffer := sf_claim_buffer f @ [txt]\<rparr>)
      else (None, f))"

fun verified_text :: "pyval \<Rightarrow> pyval list" where
  "verified_text (PDict c) =
     (if dget c ''final_status'' = PStr STATUS_SUPPORTED \<and> truthy (dget_or c ''text'' (PStr []))
      then [dget_or c ''text'' (PStr [])] else [])"
| "verified_text _ = []"

definition on_verification_complete :: "stream_filter \<Rightarrow> pyval list \<Rightarrow> pyval list" where
  "on_verification_complete f verified_claims =
     (if sf_enforcement f = Disabled then map PStr (sf_claim_buffer f)
      else concat (map verified_text verified_claims))"

text \<open>A whole stream: the texts sent for the chunks, in order.\<close>

fun stream_chunks :: "stream_filter \<Rightarrow> (string \<times> string) list \<Rightarrow> string list \<times> stream_filter" where
  "stream_chunks f [] = ([], f)"
| "stream_chunks f ((ty, txt) # chunks) =
     (case on_chunk f ty txt of (out, f') \<Rightarrow>
      case stream_chunks f' chunks of (outs, f'') \<Rightarrow>
        ((case out of None \<Rightarrow> [] | Some t \<Rightarrow> [t]) @ outs, f''))"

section \<open>Rendering shows supported claims only\<close>

fun visible :: "para_child \<Rightarrow> bool" where
  "visible (ClaimChild c) = (cn_final_status c = STATUS_SUPPORTED)"
| "visible (NarrativeChild t) = True"

text \<open>The specification: the tree without the claims and rows that are not supported.\<close>

fun prune_section :: "section_node \<Rightarrow> section_node" and prune_content :: "section_content \<Rightarrow> section_content" where
  "prune_section (Section title level content) = Section title level (map prune_content content)"
| "prune_content (ParagraphC cs) = ParagraphC (filter visible cs)"
| "prune_content (TableC headers rows) = TableC headers (filter (\<lambda>r. tr_final_status r = STATUS_SUPPORTED) rows)"
| "prune_content (SectionC sec) = SectionC (prune_section sec)"

definition supported_only :: "answer_ast \<Rightarrow> answer_ast" where
  "supported_only a = a\<lparr>aa_root := prune_section (aa_root a)\<rparr>"

text \<open>Identifiers and statuses of all the claims of a tree, in order.\<close>

fun child_status :: "para_child \<Rightarrow> (string \<times> string) list" where
  "child_status (ClaimChild c) = [(cn_claim_id c, cn_final_status c)]"
| "child_status (NarrativeChild t) = []"

fun section_statuses :: "section_node \<Rightarrow> (string \<times> string) list"
  and content_statuses :: "section_content \<Rightarrow> (string \<times> string) list" where
  "section_statuses (Section title level content) = concat (map content_statuses content)"
| "content_statuses (ParagraphC cs) = concat (map child_status cs)"
| "content_statuses (TableC headers rows) = map (\<lambda>r. (tr_claim_id r, tr_final_status r)) rows"
| "content_statuses (SectionC sec) = section_statuses sec"

abbreviation ast_statuses :: "answer_ast \<Rightarrow> (string \<times> string) list" where
  "ast_statuses a \<equiv> section_statuses (aa_root a)"

lemma child_text_visible: "concat (map child_text (filter visible cs)) = concat (map child_text cs)"
proof (induction cs)
  case (Cons c cs)
  then show ?case by (cases c) simp_all
qed simp

lemma child_status_visible:
  "concat (map child_status (filter visible cs)) = filter (\<lambda>p. snd p = STATUS_SUPPORTED) (concat (map child_status cs))"
proof (induction cs)
  case (Cons c cs)
  then show ?case by (cases c) simp_all
qed simp

lemma filter_concat_map: "filter P (concat (map f xs)) = concat (map (\<lambda>x. filter P (f x)) xs)"
  by (induction xs) simp_all

lemma render_prune:
  "render_section (prune_section sec) = render_section sec"
  "render_content (prune_content c) = render_content c"
proof (induction sec and c rule: prune_section_prune_content.induct)
  case (1 title level content)
  then show ?case by (simp add: comp_def cong: map_cong)
next
  case (2 cs)
  then show ?case by (simp add: render_paragraph_def child_text_visible)
next
  case (3 headers rows)
  then show ?case by (simp add: render_table_def)
qed simp

lemma statuses_prune:
  "section_statuses (prune_section sec) = filter (\<lambda>p. snd p = STATUS_SUPPORTED) (section_statuses sec)"
  "content_statuses (prune_content c) = filter (\<lambda>p. snd p = STATUS_SUPPORTED) (content_statuses c)"
proof (induction sec and c rule: prune_section_prune_content.induct)
  case (1 title level content)
  then show ?case by (simp add: comp_def filter_concat_map cong: map_cong)
next
  case (2 cs)
  then show ?case by (simp add: child_status_visible)
next
  case (3 headers rows)
  then show ?case by (simp add: filter_map comp_def)
qed simp

text \<open>C9: no unverified claim reaches the text of an answer. Rendering a tree gives the text of the tree
  from which every claim and table row that is not supported has been removed, and the removal keeps
  exactly the supported ones, in order; so the rendered text cannot depend on an unsupported claim.\<close>

theorem render_shows_supported_only:
  "render a = render (supported_only a)
   \<and> ast_statuses (supported_only a) = filter (\<lambda>p. snd p = STATUS_SUPPORTED) (ast_statuses a)"
  by (simp add: render_def supported_only_def render_prune statuses_prune)

section \<open>Synchronisation\<close>

definition typed_map :: "status_map \<Rightarrow> bool" where
  "typed_map m \<longleftrightarrow> (\<forall>p \<in> set m. is_str (fst p) \<and> is_str (snd p))"

definition status_in :: "status_map \<Rightarrow> string \<Rightarrow> string \<Rightarrow> string" where
  "status_in m i st = (case sm_get m (PStr i) of Some (PStr st') \<Rightarrow> st' | _ \<Rightarrow> st)"

fun sync_child :: "status_map \<Rightarrow> para_child \<Rightarrow> para_child" where
  "sync_child m (ClaimChild c) = ClaimChild (c\<lparr>cn_final_status := status_in m (cn_claim_id c) (cn_final_status c)\<rparr>)"
| "sync_child m (NarrativeChild t) = NarrativeChild t"

definition sync_row :: "status_map \<Rightarrow> row_claim \<Rightarrow> row_claim" where
  "sync_row m r = r\<lparr>tr_final_status := status_in m (tr_claim_id r) (tr_final_status r)\<rparr>"

fun sync_section :: "status_map \<Rightarrow> section_node \<Rightarrow> section_node"
  and sync_content :: "status_map \<Rightarrow> section_content \<Rightarrow> section_content" where
  "sync_section m (Section title level content) = Section title level (map (sync_content m) content)"
| "sync_content m (ParagraphC cs) = ParagraphC (map (sync_child m) cs)"
| "sync_content m (TableC headers rows) = TableC headers (map (sync_row m) rows)"
| "sync_content m (SectionC sec) = SectionC (sync_section m sec)"

lemma sm_get_typed:
  assumes "typed_map m" and "sm_get m k = Some v"
  obtains s where "v = PStr s"
proof -
  from assms(2) obtain p where p: "find (\<lambda>p. py_eq k (fst p)) m = Some p" and v: "v = snd p"
    by (auto simp: sm_get_def)
  from p have "p \<in> set m" by (auto simp: find_Some_iff)
  with assms(1) v have "is_str v" by (simp add: typed_map_def)
  then show thesis by (rule is_str.elims(2)) (rule that)
qed

lemma set_status_typed:
  assumes "typed_map m" and "dget_or d ''node_type'' (PStr []) \<in> {PStr ''claim'', PStr ''table_row_claim''}"
    and "dget_or d ''claim_id'' (PStr []) = PStr i" and "map_of d' ''final_status'' = Some (PStr st)"
  shows "set_status m d d' = Inr (dset d' ''final_status'' (PStr (status_in m i st)))"
proof (cases "sm_get m (PStr i)")
  case None
  have "dset d' k v = d'" if "map_of d' k = Some v" for k v
    using that by (induction d') (auto split: if_splits)
  with assms None show ?thesis by (simp add: set_status_def status_in_def)
next
  case (Some v)
  with assms(1) obtain s where "v = PStr s" by (rule sm_get_typed)
  with assms Some show ?thesis by (auto simp: set_status_def status_in_def)
qed

lemma sync_claim_node:
  assumes "typed_map m"
  shows "sync_node m (PDict (child_dict c)) = Inr (PDict (child_dict (sync_child m c)))"
proof (cases c)
  case (ClaimChild n)
  have "set_status m (claim_node_dict n) (claim_node_dict n)
      = Inr (dset (claim_node_dict n) ''final_status'' (PStr (status_in m (cn_claim_id n) (cn_final_status n))))"
    by (rule set_status_typed [OF assms]) (simp_all add: claim_node_dict_def)
  with ClaimChild show ?thesis by (simp add: claim_node_dict_def)
qed (simp add: set_status_def)

lemma sync_row_claim:
  assumes "typed_map m"
  shows "sync_node m (PDict (row_claim_dict r)) = Inr (PDict (row_claim_dict (sync_row m r)))"
proof -
  have "set_status m (row_claim_dict r) (row_claim_dict r)
      = Inr (dset (row_claim_dict r) ''final_status'' (PStr (status_in m (tr_claim_id r) (tr_final_status r))))"
    by (rule set_status_typed [OF assms]) (simp_all add: row_claim_dict_def)
  then show ?thesis by (simp add: row_claim_dict_def sync_row_def)
qed

lemma sync_nodes_map:
  "\<forall>x \<in> set xs. sync_node m (f x) = Inr (g x) \<Longrightarrow> sync_nodes m (map f xs) = Inr (map g xs)"
  by (induction xs) simp_all

lemma sync_dict:
  assumes "typed_map m"
  shows "sync_node m (PDict (section_dict sec)) = Inr (PDict (section_dict (sync_section m sec)))"
    and "sync_node m (PDict (content_dict c)) = Inr (PDict (content_dict (sync_content m c)))"
proof (induction sec and c rule: section_dict_content_dict.induct)
  case (1 title level content)
  then have "sync_nodes m (map (\<lambda>c. PDict (content_dict c)) content)
      = Inr (map (\<lambda>c. PDict (content_dict (sync_content m c))) content)"
    by (intro sync_nodes_map) simp
  then show ?case by (cases "content = []") (simp_all add: set_status_def comp_def)
next
  case (2 cs)
  have "sync_nodes m (map (\<lambda>c. PDict (child_dict c)) cs) = Inr (map (\<lambda>c. PDict (child_dict (sync_child m c))) cs)"
    using assms by (intro sync_nodes_map ballI sync_claim_node)
  then show ?case by (cases "cs = []") (simp_all add: set_status_def comp_def)
next
  case (3 headers rows)
  have "sync_nodes m (map (\<lambda>r. PDict (row_claim_dict r)) rows) = Inr (map (\<lambda>r. PDict (row_claim_dict (sync_row m r))) rows)"
    using assms by (intro sync_nodes_map ballI sync_row_claim)
  then show ?case by (cases "rows = []") (simp_all add: set_status_def comp_def)
qed simp

lemma status_sync_child: "child_status (sync_child m c) = map (\<lambda>(i, st). (i, status_in m i st)) (child_status c)"
  by (cases c) simp_all

lemma statuses_sync:
  "section_statuses (sync_section m sec) = map (\<lambda>(i, st). (i, status_in m i st)) (section_statuses sec)"
  "content_statuses (sync_content m c) = map (\<lambda>(i, st). (i, status_in m i st)) (content_statuses c)"
  by (induction sec and c rule: section_dict_content_dict.induct)
    (simp_all add: map_concat comp_def status_sync_child sync_row_def cong: map_cong)

lemma py_eq_PStr: "py_eq (PStr a) v \<longleftrightarrow> v = PStr a"
  by simp

lemma sm_get_set:
  "sm_get (sm_set m (PStr k) v) (PStr i) = (if i = k then Some v else sm_get m (PStr i))"
  by (induction m) (auto simp: sm_get_def)

lemma typed_map_set: "typed_map m \<Longrightarrow> typed_map (sm_set m (PStr k) (PStr v))"
  by (induction m) (auto simp: typed_map_def)

lemma build_map_typed:
  "typed_map m \<Longrightarrow> \<exists>m'. build_claim_status_map m (map (\<lambda>c. PDict (claim_to_dict c)) cs) = Inr m' \<and> typed_map m'
     \<and> (\<forall>i. sm_get m' (PStr i) =
          (case map_of (rev (map (\<lambda>c. (cl_claim_id c, cl_final_status c)) cs)) i of
             Some st \<Rightarrow> Some (PStr st) | None \<Rightarrow> sm_get m (PStr i)))"
proof (induction cs arbitrary: m)
  case (Cons c cs)
  let ?m = "sm_set m (PStr (cl_claim_id c)) (PStr (cl_final_status c))"
  from Cons.IH [OF typed_map_set [OF Cons.prems]] obtain m' where
    "build_claim_status_map ?m (map (\<lambda>c. PDict (claim_to_dict c)) cs) = Inr m'" "typed_map m'"
    "\<forall>i. sm_get m' (PStr i) =
       (case map_of (rev (map (\<lambda>c. (cl_claim_id c, cl_final_status c)) cs)) i of
          Some st \<Rightarrow> Some (PStr st) | None \<Rightarrow> sm_get ?m (PStr i))"
    by blast
  then show ?case
    by (intro exI [of _ m']) (auto simp: claim_from_to_dict sm_get_set map_add_def split: option.splits)
qed simp

section \<open>The stream\<close>

text \<open>C37: the stream leaks no claim before it is verified. With verification on (shadow or enforced),
  the texts sent while the answer is generated are those of the narrative chunks and no others, in
  order; every claim text is buffered; and after verification only texts of claims whose final status
  is supported are sent.\<close>

theorem stream_sends_no_unverified_claim:
  assumes "e \<noteq> Disabled" and "stream_chunks (new_filter e) chunks = (sent, f)"
  shows "sent = map snd (filter (\<lambda>c. fst c = ''narrative'') chunks)
    \<and> sf_claim_buffer f = map snd (filter (\<lambda>c. fst c = ''claim'') chunks)
    \<and> (\<forall>t \<in> set (on_verification_complete f verified).
         \<exists>c. PDict c \<in> set verified \<and> dget c ''final_status'' = PStr ''supported'' \<and> dget c ''text'' = t)"
proof -
  have run: "stream_chunks g chunks = (sent, f) \<Longrightarrow> sf_enforcement g \<noteq> Disabled \<Longrightarrow>
      sf_enforcement f \<noteq> Disabled \<and> sent = map snd (filter (\<lambda>c. fst c = ''narrative'') chunks)
      \<and> sf_claim_buffer f = sf_claim_buffer g @ map snd (filter (\<lambda>c. fst c = ''claim'') chunks)" for g
  proof (induction chunks arbitrary: g sent)
    case (Cons c chunks)
    obtain ty tx where c: "c = (ty, tx)" by fastforce
    from Cons.prems c obtain out g' outs where step: "on_chunk g ty tx = (out, g')"
      "stream_chunks g' chunks = (outs, f)" "sent = (case out of None \<Rightarrow> [] | Some t \<Rightarrow> [t]) @ outs"
      by (auto split: prod.splits)
    from step(1) Cons.prems(2) have "sf_enforcement g' \<noteq> Disabled"
      by (auto simp: on_chunk_def split: if_splits)
    from Cons.IH [OF step(2) this] step(1,3) Cons.prems(2) c show ?case
      by (auto simp: on_chunk_def split: if_splits)
  qed simp
  have shown: "\<exists>c. v = PDict c \<and> dget c ''final_status'' = PStr ''supported'' \<and> dget c ''text'' = t"
    if "t \<in> set (verified_text v)" for v t
    using that by (cases v) (auto simp: STATUS_SUPPORTED_def dget_or_def split: if_splits option.splits)
  from run [OF assms(2)] assms(1) show ?thesis
    by (auto simp: new_filter_def on_verification_complete_def dest!: shown)
qed

theorem stream_sends_no_unverified_claim_witness:
  "fst (stream_chunks (new_filter Enforced) [(''narrative'', ''So''), (''claim'', ''x''), (''citation'', ''[1]'')]) = [''So'']"
proof -
  obtain sent f where "stream_chunks (new_filter Enforced)
      [(''narrative'', ''So''), (''claim'', ''x''), (''citation'', ''[1]'')] = (sent, f)" by fastforce
  with stream_sends_no_unverified_claim [OF enforcement_mode.distinct(4) this] show ?thesis by simp
qed

end
