(* ===== verification/Answer_Nodes.thy ===== *)
theory Answer_Nodes
  imports Hallucination Answer_Ast
begin

text \<open>
  The nodes of the main graph that ask the user, reflect on the tool results, generate the answer and
  give it out (\<open>agent/langgraph/nodes/clarification.py\<close>, \<open>reflection.py\<close> with \<open>api/utils/reflection.py\<close>,
  \<open>llm_generate.py\<close>, \<open>answer_renderer.py\<close>, \<open>fallback.py\<close>, \<open>final_answer.py\<close>). The language model, the
  answer of the user, the repair of malformed JSON and the validation of the answer schema are
  arguments. Fixed texts in Chinese that enter data are given by their UTF-8 bytes; the texts of
  answers are the constructors of \<open>answer_text\<close>.
\<close>

section \<open>Clarification\<close>

definition SUPPLEMENT_OPEN :: string where
  "SUPPLEMENT_OPEN =
     [CHR 0xEF, CHR 0xBC, CHR 0x88, CHR 0xE8, CHR 0xA1, CHR 0xA5, CHR 0xE5, CHR 0x85, CHR 0x85,
      CHR 0xE8, CHR 0xAF, CHR 0xB4, CHR 0xE6, CHR 0x98, CHR 0x8E, CHR 0xEF, CHR 0xBC, CHR 0x9A]"

definition SUPPLEMENT_CLOSE :: string where
  "SUPPLEMENT_CLOSE =
     [CHR 0xEF, CHR 0xBC, CHR 0x89]"

text \<open>\<open>ask\<close> is the interrupt of LangGraph, resumed with the answer of the user; \<open>None\<close> if it is not
  available.\<close>

definition merged_question :: "string \<Rightarrow> pyval \<Rightarrow> string" where
  "merged_question original answer =
     (case answer of
        PStr a \<Rightarrow>
          (if a = [] then original
           else if u_len a < 50 then original @ SUPPLEMENT_OPEN @ a @ SUPPLEMENT_CLOSE
           else a)
      | _ \<Rightarrow> original)"

definition clarification_node ::
    "(clarification_request \<Rightarrow> pyval option) \<Rightarrow> graph_state \<Rightarrow> graph_state" where
  "clarification_node ask s =
     (case g_route_decision s of
        None \<Rightarrow> s\<lparr>g_route_target := Some ''chitchat''\<rparr>
      | Some d \<Rightarrow>
          (let request = \<lparr>cq_question = map_of (rd_metadata d) ''clarification_question'',
                          cq_options = dget_or (rd_metadata d) ''clarification_options'' (PList []),
                          cq_original_question = g_user_question s\<rparr>
           in case ask request of
                None \<Rightarrow> s\<lparr>g_route_target := Some (rd_target d), g_clarification_request := Some request\<rparr>
              | Some answer \<Rightarrow>
                  s\<lparr>g_user_question := merged_question (g_user_question s) answer,
                    g_clarification_context := (case answer of PStr a \<Rightarrow> a | _ \<Rightarrow> []),
                    g_clarification_request := Some request,
                    g_route_target := Some [], g_route_decision := None\<rparr>))"

section \<open>Reflection\<close>

text \<open>The first 500 characters of the content of the first documents; a content that is no string
  raises.\<close>

definition doc_texts :: "nat \<Rightarrow> pdict list \<Rightarrow> string res" where
  "doc_texts n docs =
     rbind (all_res (\<lambda>d. rbind (str_of_val (dget_or d ''content'' (PStr []))) (\<lambda>c. Inr (u_take 500 c))) (take n docs))
       (\<lambda>ts. Inr (join [CHR 10] ts))"

fun first_docs :: "nat \<Rightarrow> pyval \<Rightarrow> pdict list res" where
  "first_docs n (PList xs) = all_res dict_of (take n xs)"
| "first_docs n _ = Inl TypeError"

definition plan_result_content :: "(pyval \<Rightarrow> string) \<Rightarrow> pdict \<Rightarrow> string res" where
  "plan_result_content show_py tr =
     (let tool = dget_or tr ''tool'' (PStr ''unknown'') in
      if tool = PStr ''rag'' \<and> truthy (dget tr ''rag_docs'') then
        rbind (first_docs 3 (dget tr ''rag_docs'')) (\<lambda>docs. doc_texts 3 docs)
      else if tool = PStr ''database'' then
        Inr (u_take 2000 (py_str show_py (dget_or tr ''db_result'' (PStr []))))
      else if tool = PStr ''web'' \<and> truthy (dget tr ''web_docs'') then
        rbind (first_docs 3 (dget tr ''web_docs'')) (\<lambda>docs. doc_texts 3 docs)
      else Inr [])"

type_synonym tool_note = "pyval \<times> string"

definition collect_tool_results :: "(pyval \<Rightarrow> string) \<Rightarrow> graph_state \<Rightarrow> tool_note list res" where
  "collect_tool_results show_py s =
     rbind (if g_rag_docs s \<noteq> [] then rbind (doc_texts 5 (g_rag_docs s)) (\<lambda>t. Inr [(PStr ''rag'', t)]) else Inr []) (\<lambda>rag.
     rbind (if g_web_docs s \<noteq> [] then rbind (doc_texts 5 (g_web_docs s)) (\<lambda>t. Inr [(PStr ''web'', t)]) else Inr []) (\<lambda>web.
     rbind (all_res (\<lambda>tr. rbind (plan_result_content show_py tr) (\<lambda>c.
              Inr (if c \<noteq> [] then [(dget_or tr ''tool'' (PStr ''unknown''), c)] else []))) (g_tool_results s)) (\<lambda>plan.
       let db = (if g_db_result s \<noteq> []
                 then [(PStr ''database'',
                        u_take 2000 (py_str show_py (dget_or (g_db_result s) ''rows'' (PDict (g_db_result s)))))]
                 else [])
       in Inr (rag @ db @ web @ concat plan))))"

definition reflection_dict :: "pyval list \<Rightarrow> bool \<Rightarrow> pyval list \<Rightarrow> pyval \<Rightarrow> string \<Rightarrow> pdict" where
  "reflection_dict findings sufficient gaps next_action t =
     [(''key_findings'', PList findings), (''info_sufficient'', PBool sufficient), (''gaps'', PList gaps),
      (''next_action'', next_action), (''reflection_text'', PStr t)]"

definition PROCEED :: pyval where
  "PROCEED = PStr ''proceed_to_generate''"

definition SAFE_FALLBACK_TEXT :: string where
  "SAFE_FALLBACK_TEXT =
     [CHR 0xE5, CHR 0x8F, CHR 0x8D, CHR 0xE6, CHR 0x80, CHR 0x9D, CHR 0xE9, CHR 0x99, CHR 0x8D,
      CHR 0xE7, CHR 0xBA, CHR 0xA7, CHR 0xEF, CHR 0xBC, CHR 0x9A, CHR 0x4C, CHR 0x4C, CHR 0x4D,
      CHR 0x20, CHR 0xE4, CHR 0xB8, CHR 0x8D, CHR 0xE5, CHR 0x8F, CHR 0xAF, CHR 0xE7, CHR 0x94,
      CHR 0xA8, CHR 0xEF, CHR 0xBC, CHR 0x8C, CHR 0xE9, CHR 0xBB, CHR 0x98, CHR 0xE8, CHR 0xAE,
      CHR 0xA4, CHR 0xE4, CHR 0xBF, CHR 0xA1, CHR 0xE6, CHR 0x81, CHR 0xAF, CHR 0xE5, CHR 0x85,
      CHR 0x85, CHR 0xE5, CHR 0x88, CHR 0x86]"

definition FALLBACK_TEXT :: string where
  "FALLBACK_TEXT =
     [CHR 0xEF, CHR 0xBC, CHR 0x88, CHR 0xE9, CHR 0x99, CHR 0x8D, CHR 0xE7, CHR 0xBA, CHR 0xA7,
      CHR 0xE5, CHR 0x8F, CHR 0x8D, CHR 0xE6, CHR 0x80, CHR 0x9D, CHR 0xEF, CHR 0xBC, CHR 0x9A,
      CHR 0xE6, CHR 0x9C, CHR 0xAA, CHR 0xE8, CHR 0xB0, CHR 0x83, CHR 0xE7, CHR 0x94, CHR 0xA8,
      CHR 0x20, CHR 0x4C, CHR 0x4C, CHR 0x4D, CHR 0xEF, CHR 0xBC, CHR 0x8C, CHR 0xE9, CHR 0xBB,
      CHR 0x98, CHR 0xE8, CHR 0xAE, CHR 0xA4, CHR 0xE4, CHR 0xBF, CHR 0xA1, CHR 0xE6, CHR 0x81,
      CHR 0xAF, CHR 0xE5, CHR 0x85, CHR 0x85, CHR 0xE5, CHR 0x88, CHR 0x86, CHR 0xEF, CHR 0xBC,
      CHR 0x89]"

definition safe_fallback :: pdict where
  "safe_fallback = reflection_dict [] True [] PROCEED SAFE_FALLBACK_TEXT"

definition fallback_reflection :: "(pyval \<Rightarrow> string) \<Rightarrow> tool_note list \<Rightarrow> pdict" where
  "fallback_reflection show_py notes =
     reflection_dict
       (map (\<lambda>(tool, c). PStr (''['' @ py_str show_py tool @ ''] '' @ u_take 80 c @ (if u_len c > 80 then ''...'' else [])))
          (filter (\<lambda>(tool, c). c \<noteq> []) notes))
       True [] PROCEED FALLBACK_TEXT"

text \<open>\<open>parse_reflection_result\<close>: \<open>repair\<close> is the removal of code fences followed by the JSON repair
  library, which may raise.\<close>

definition text_list :: "(pyval \<Rightarrow> string) \<Rightarrow> pyval \<Rightarrow> pyval list" where
  "text_list show_py v =
     (case v of
        PList xs \<Rightarrow> map (\<lambda>x. PStr (py_str show_py x)) xs
      | _ \<Rightarrow> if truthy v then [PStr (py_str show_py v)] else [])"

definition VALID_NEXT_ACTIONS :: "pyval list" where
  "VALID_NEXT_ACTIONS = [PROCEED, PStr ''need_more_retrieval'', PStr ''need_web_search'']"

definition parse_reflection_result ::
    "(pyval \<Rightarrow> string) \<Rightarrow> (string \<Rightarrow> pyval res) \<Rightarrow> string \<Rightarrow> pdict res" where
  "parse_reflection_result show_py repair raw_text =
     (case repair raw_text of
        Inr (PDict obj) \<Rightarrow>
          (let action = dget_or obj ''next_action'' PROCEED in
           if \<not> hashable action then Inl TypeError
           else
             Inr (reflection_dict (text_list show_py (dget_or obj ''key_findings'' (PList [])))
                    (truthy (dget_or obj ''info_sufficient'' (PBool True)))
                    (text_list show_py (dget_or obj ''gaps'' (PList [])))
                    (if action \<in> set VALID_NEXT_ACTIONS then action else PROCEED) raw_text))
      | _ \<Rightarrow> Inr (reflection_dict [] True [] PROCEED raw_text))"

record reflection_env =
  re_show_py :: "pyval \<Rightarrow> string"
  re_call :: "string \<Rightarrow> tool_note list \<Rightarrow> string res"
  re_repair :: "string \<Rightarrow> pyval res"

definition reflection_node :: "reflection_env \<Rightarrow> graph_state \<Rightarrow> graph_state res" where
  "reflection_node env s =
     rbind (collect_tool_results (re_show_py env) s) (\<lambda>notes.
       Inr (s\<lparr>g_reflection_result :=
         (if notes = [] then None
          else if g_tenant_id s = [] \<or> g_llm_id s = [] then Some safe_fallback
          else
            (case rbind (re_call env (g_user_question s) notes) (parse_reflection_result (re_show_py env) (re_repair env)) of
               Inr r \<Rightarrow> Some r
             | Inl _ \<Rightarrow> Some (fallback_reflection (re_show_py env) notes)))\<rparr>))"

section \<open>Generation\<close>

text \<open>\<open>_get_chat_model\<close>: no model without tenant and model identifier; \<open>models\<close> finds the configured
  one.\<close>

definition get_chat_model ::
    "(string \<Rightarrow> string \<Rightarrow> (string \<Rightarrow> string res) option) \<Rightarrow> string \<Rightarrow> string \<Rightarrow> (string \<Rightarrow> string res) option" where
  "get_chat_model models tenant_id llm_id =
     (if tenant_id = [] \<or> llm_id = [] then None else models tenant_id llm_id)"

definition llm_generate_node ::
    "(string \<Rightarrow> string \<Rightarrow> (string \<Rightarrow> string res) option) \<Rightarrow> graph_state \<Rightarrow> graph_state" where
  "llm_generate_node models s =
     s\<lparr>g_generated_answer :=
       (if g_final_prompt s = [] then []
        else
          (case get_chat_model models (g_tenant_id s) (g_llm_id s) of
             None \<Rightarrow> []
           | Some chat \<Rightarrow>
               (case chat (g_final_prompt s) of
                  Inl _ \<Rightarrow> []
                | Inr answer \<Rightarrow> if contains ''**ERROR**'' answer then [] else answer)))\<rparr>"

section \<open>Rendering\<close>

definition answer_renderer_node ::
    "(pdict \<Rightarrow> answer_ast res) \<Rightarrow> graph_state \<Rightarrow> graph_state res" where
  "answer_renderer_node validate s =
     (let plain = Inr (s\<lparr>g_final_answer := Plain (g_generated_answer s)\<rparr>) in
      case py_or (g_answer_ast s) (PDict []) of
        PDict ast \<Rightarrow>
          (if \<not> truthy (dget ast ''root'') then plain
           else
             rbind (build_claim_status_map [] (g_claims s)) (\<lambda>m.
             rbind (sync_node m (dget ast ''root'')) (\<lambda>root.
               case validate (dset ast ''root'' root) of
                 Inl _ \<Rightarrow> plain
               | Inr a \<Rightarrow> Inr (s\<lparr>g_final_answer := Plain (render a)\<rparr>))))
      | _ \<Rightarrow> plain)"

section \<open>Fallback\<close>

definition TERMINATION_REASONS :: "string list" where
  "TERMINATION_REASONS =
     [''same_action_loop'', ''rerank_declining'', ''budget_exhausted'', ''policy_denied'', ''retrieval_infra_error'']"

definition reason_prefix :: "string \<Rightarrow> message" where
  "reason_prefix r = (if r \<in> set TERMINATION_REASONS then Msg ''prefix'' [PStr r] else Msg ''interrupted'' [])"

fun head_200 :: "pyval \<Rightarrow> pyval res" where
  "head_200 (PStr c) = Inr (PStr (u_take 200 c))"
| "head_200 (PList xs) = Inr (PList (take 200 xs))"
| "head_200 _ = Inl TypeError"

definition finding_lines :: "pdict list \<Rightarrow> message list res" where
  "finding_lines evs =
     rbind (all_res (\<lambda>ev.
        let content = py_or (py_or (dget_or ev ''content'' (PStr [])) (dget_or ev ''text'' (PStr []))) (PStr []) in
        if truthy content then rbind (head_200 content) (\<lambda>h. Inr [Msg ''finding'' [h]]) else Inr [])
      (take 3 evs)) (\<lambda>ls. Inr (concat ls))"

definition fallback_node :: "graph_state \<Rightarrow> graph_state res" where
  "fallback_node s =
     rbind (if g_evidence s \<noteq> [] then finding_lines (g_evidence s)
            else if g_rag_docs s \<noteq> [] then finding_lines (g_rag_docs s) else Inr []) (\<lambda>findings.
     rbind (if g_db_result s = [] then Inr 0
            else number_or_raise (dget_or (g_db_result s) ''row_count'' (PInt 0))) (\<lambda>rows.
       let parts =
         [reason_prefix (g_termination_reason s)]
         @ (if g_termination_source s \<noteq> [] then [Msg ''source'' [PStr (g_termination_source s)]] else [])
         @ [if g_fallback_message s \<noteq> [] then Msg ''message'' [PStr (g_fallback_message s)] else Msg ''insufficient'' []]
         @ (if g_evidence s \<noteq> [] \<or> g_rag_docs s \<noteq> [] \<or> g_web_docs s \<noteq> [] then Msg ''partial information'' [] # findings else [])
         @ (if g_db_result s \<noteq> [] \<and> rows > 0
            then [Msg ''rows'' [dget_or (g_db_result s) ''row_count'' (PInt 0)]] else [])
       in Inr (s\<lparr>g_final_answer := FallbackAnswer parts, g_quality_decision := ''fallback''\<rparr>)))"

section \<open>Final answer\<close>

definition known_lang :: "string \<Rightarrow> string" where
  "known_lang l = (if l = ''zh_TW'' \<or> l = ''en'' then l else ''zh_CN'')"

definition get_rejection_message :: "string \<Rightarrow> answer_text" where
  "get_rejection_message query_lang = Rejection (known_lang query_lang)"

definition get_conservative_answer :: "string \<Rightarrow> string \<Rightarrow> answer_text" where
  "get_conservative_answer merged_context query_lang =
     (if merged_context = [] then get_rejection_message query_lang
      else Conservative (known_lang query_lang) (u_take 2000 merged_context))"

definition REPORT_TITLE :: string where
  "REPORT_TITLE =
     [CHR 0xE5, CHR 0x88, CHR 0x86, CHR 0xE6, CHR 0x9E, CHR 0x90, CHR 0xE6, CHR 0x8A, CHR 0xA5,
      CHR 0xE5, CHR 0x91, CHR 0x8A]"

definition REPORT_FAILED_SUMMARY :: string where
  "REPORT_FAILED_SUMMARY =
     [CHR 0xE6, CHR 0x8A, CHR 0xA5, CHR 0xE5, CHR 0x91, CHR 0x8A, CHR 0xE7, CHR 0x94, CHR 0x9F,
      CHR 0xE6, CHR 0x88, CHR 0x90, CHR 0xE8, CHR 0xBF, CHR 0x87, CHR 0xE7, CHR 0xA8, CHR 0x8B,
      CHR 0xE4, CHR 0xB8, CHR 0xAD, CHR 0xE5, CHR 0x8F, CHR 0x91, CHR 0xE7, CHR 0x8E, CHR 0xB0,
      CHR 0xE9, CHR 0x83, CHR 0xA8, CHR 0xE5, CHR 0x88, CHR 0x86, CHR 0xE6, CHR 0x95, CHR 0xB0,
      CHR 0xE5, CHR 0xAD, CHR 0x97, CHR 0xE6, CHR 0x97, CHR 0xA0, CHR 0xE6, CHR 0xB3, CHR 0x95,
      CHR 0xE4, CHR 0xB8, CHR 0x8E, CHR 0xE6, CHR 0x95, CHR 0xB0, CHR 0xE6, CHR 0x8D, CHR 0xAE,
      CHR 0xE6, CHR 0x9D, CHR 0xA5, CHR 0xE6, CHR 0xBA, CHR 0x90, CHR 0xE5, CHR 0x8C, CHR 0xB9,
      CHR 0xE9, CHR 0x85, CHR 0x8D, CHR 0xEF, CHR 0xBC, CHR 0x8C, CHR 0xE5, CHR 0xBD, CHR 0x93,
      CHR 0xE5, CHR 0x89, CHR 0x8D, CHR 0xE6, CHR 0x9C, CHR 0xAA, CHR 0xE5, CHR 0xAF, CHR 0xBC,
      CHR 0xE5, CHR 0x87, CHR 0xBA, CHR 0xE6, CHR 0xAD, CHR 0xA3, CHR 0xE5, CHR 0xBC, CHR 0x8F,
      CHR 0xE6, CHR 0x8A, CHR 0xA5, CHR 0xE5, CHR 0x91, CHR 0x8A, CHR 0xE3, CHR 0x80, CHR 0x82]"

text \<open>The messages of the issues that are dictionaries; \<open>len(v or [])\<close> of a value.\<close>

definition issue_messages :: "pyval \<Rightarrow> pyval list res" where
  "issue_messages issues =
     rbind (py_iter issues) (\<lambda>is.
       Inr (concat (map (\<lambda>i. case i of PDict d \<Rightarrow> [dget_or d ''message'' (PStr [])] | _ \<Rightarrow> []) is)))"

definition len_or_empty :: "pyval \<Rightarrow> pyval res" where
  "len_or_empty v = rbind (py_len (py_or v (PList []))) (\<lambda>n. Inr (PInt (int n)))"

definition report_failed :: "pdict \<Rightarrow> pdict \<Rightarrow> pdict \<Rightarrow> pdict res" where
  "report_failed artifact flds verification =
     rbind (issue_messages (py_or (dget_or verification ''issues'' (PList [])) (PList []))) (\<lambda>messages.
       Inr [(''type'', PStr ''report_failed''), (''title'', dget_or artifact ''title'' (PStr REPORT_TITLE)),
            (''summary'', PStr REPORT_FAILED_SUMMARY), (''issues'', PList messages),
            (''action'', PStr ''regenerate''), (''report_id'', dget_or artifact ''report_id'' (PStr [])),
            (''publish_status'', dget_or flds ''report_publish_status'' (PStr ''draft'')),
            (''needs_human_review'', dget_or flds ''report_needs_human_review'' (PBool False))])"

definition report_generated :: "pdict \<Rightarrow> pdict \<Rightarrow> pdict \<Rightarrow> pdict res" where
  "report_generated artifact flds verification =
     rbind (len_or_empty (dget_or artifact ''sections'' (PList []))) (\<lambda>sections.
     rbind (len_or_empty (dget_or artifact ''charts'' (PList []))) (\<lambda>charts.
     rbind (len_or_empty (dget_or artifact ''tables'' (PList []))) (\<lambda>tables.
     rbind (len_or_empty (dget flds ''report_claims'')) (\<lambda>claim_count.
     rbind (len_or_empty (dget flds ''report_data_sources'')) (\<lambda>source_count.
       let status = dget_or artifact ''publish_status'' (PStr ''approved'') in
       Inr [(''type'', PStr ''report_generated''), (''title'', dget_or artifact ''title'' (PStr REPORT_TITLE)),
            (''summary'', dget_or artifact ''summary'' (dget_or flds ''report_summary'' (PStr []))),
            (''download_url'', dget_or flds ''report_download_url'' (PStr [])),
            (''file_uri'', dget_or flds ''report_file_uri'' (PStr [])),
            (''format'', dget_or artifact ''format'' (PStr ''markdown'')), (''sections'', sections),
            (''charts'', charts), (''tables'', tables),
            (''report_id'', dget_or artifact ''report_id'' (PStr [])),
            (''partial'', PBool (truthy (dget artifact ''partial'') \<or> truthy (dget_or flds ''report_partial'' (PBool False)))),
            (''verification'', PDict [(''passed'', dget_or verification ''passed'' (PBool False)),
                                      (''score'', dget_or verification ''score'' (PFloat 0))]),
            (''quality_score'', dget_or flds ''report_quality_score'' (PFloat 0)),
            (''publish_status'', dget_or flds ''report_publish_status'' status),
            (''needs_human_review'',
               dget_or flds ''report_needs_human_review'' (PBool (status = PStr ''pending_review''))),
            (''claim_count'', claim_count), (''data_source_count'', source_count),
            (''human_review'', py_or (dget_or flds ''report_human_review'' (PDict [])) (PDict []))])))))"

definition build_report_response :: "pdict \<Rightarrow> pdict \<Rightarrow> pdict res" where
  "build_report_response artifact flds =
     (case py_or (dget_or artifact ''verification_result'' (PDict [])) (PDict []) of
        PDict verification \<Rightarrow>
          (if dget_or flds ''report_error_code'' (PStr []) = PStr ''REPORT_VERIFICATION_FAILED''
              \<or> verification \<noteq> [] \<and> \<not> truthy (dget_or verification ''passed'' (PBool True))
           then report_failed artifact flds verification
           else report_generated artifact flds verification)
      | _ \<Rightarrow> Inl AttributeError)"

definition plain_final_answer :: "graph_state \<Rightarrow> answer_text" where
  "plain_final_answer s =
     (if g_hallucination_action s = ''reject'' then get_rejection_message (g_query_lang s)
      else if g_hallucination_action s = ''exhausted'' then
        get_conservative_answer (g_merged_context s) (g_query_lang s)
      else Plain (g_generated_answer s))"

definition final_answer_node :: "graph_state \<Rightarrow> graph_state res" where
  "final_answer_node s =
     (case g_report_artifacts s of
        artifact # _ \<Rightarrow>
          rbind (build_report_response artifact (g_report_fields s)) (\<lambda>r.
            Inr (s\<lparr>g_final_answer := ReportAnswer r\<rparr>))
      | [] \<Rightarrow> Inr (s\<lparr>g_final_answer := plain_final_answer s\<rparr>))"

section \<open>Properties\<close>

text \<open>The status of a claim of the tree after verification: that of the last claim of the state with its
  identifier, or the one written in the tree when the state has no such claim.\<close>

definition verified_status :: "evidence_claim list \<Rightarrow> string \<times> string \<Rightarrow> string \<times> string" where
  "verified_status cs p =
     (fst p, case map_of (rev (map (\<lambda>c. (cl_claim_id c, cl_final_status c)) cs)) (fst p) of
               Some st \<Rightarrow> st | None \<Rightarrow> snd p)"

lemma dset_root: "dset (ast_dict a) ''root'' (PDict (section_dict r)) = ast_dict (a\<lparr>aa_root := r\<rparr>)"
  by (simp add: ast_dict_def)

lemma section_dict_nonempty: "section_dict r \<noteq> []"
  by (cases r) simp

text \<open>A tree with its statuses replaced by a function of identifier and old status; everything else stays.\<close>

fun child_with :: "(string \<Rightarrow> string \<Rightarrow> string) \<Rightarrow> para_child \<Rightarrow> para_child" where
  "child_with f (ClaimChild c) = ClaimChild (c\<lparr>cn_final_status := f (cn_claim_id c) (cn_final_status c)\<rparr>)"
| "child_with f (NarrativeChild t) = NarrativeChild t"

fun section_with :: "(string \<Rightarrow> string \<Rightarrow> string) \<Rightarrow> section_node \<Rightarrow> section_node"
  and content_with :: "(string \<Rightarrow> string \<Rightarrow> string) \<Rightarrow> section_content \<Rightarrow> section_content" where
  "section_with f (Section title level content) = Section title level (map (content_with f) content)"
| "content_with f (ParagraphC cs) = ParagraphC (map (child_with f) cs)"
| "content_with f (TableC hs rs) =
     TableC hs (map (\<lambda>r. r\<lparr>tr_final_status := f (tr_claim_id r) (tr_final_status r)\<rparr>) rs)"
| "content_with f (SectionC sec) = SectionC (section_with f sec)"

lemma sync_child_with: "sync_child m = child_with (status_in m)"
proof
  fix c
  show "sync_child m c = child_with (status_in m) c" by (cases c) simp_all
qed

lemma sync_section_with:
  "sync_section m sec = section_with (status_in m) sec" "sync_content m c = content_with (status_in m) c"
  by (induction m sec and m c rule: sync_section_sync_content.induct)
    (simp_all add: sync_child_with sync_row_def [abs_def])

definition verified_ast :: "evidence_claim list \<Rightarrow> answer_ast \<Rightarrow> answer_ast" where
  "verified_ast cs a = a\<lparr>aa_root := section_with (\<lambda>i st. snd (verified_status cs (i, st))) (aa_root a)\<rparr>"

text \<open>C36: the rendered answer is the verified answer. Pydantic gives back the tree whose dictionary form it
  validates; then the renderer node writes exactly the text of the answer tree of the state, with the
  verified status on every claim (a status the model itself wrote into the tree survives only for a
  claim that was not verified) and without the claims that are not supported then.\<close>

theorem rendered_answer_is_verified:
  assumes "\<And>b. validate (ast_dict b) = Inr b"
    and "g_answer_ast s = PDict (ast_dict a)" and "g_claims s = map (\<lambda>c. PDict (claim_to_dict c)) cs"
  shows "answer_renderer_node validate s = Inr (s\<lparr>g_final_answer := Plain (render (supported_only (verified_ast cs a)))\<rparr>)
    \<and> ast_statuses (verified_ast cs a) = map (verified_status cs) (ast_statuses a)"
proof -
  have "typed_map []" by (simp add: typed_map_def)
  from build_map_typed [OF this, of cs] obtain m where m:
    "build_claim_status_map [] (g_claims s) = Inr m" "typed_map m"
    "\<And>i. sm_get m (PStr i) = (case map_of (rev (map (\<lambda>c. (cl_claim_id c, cl_final_status c)) cs)) i of
        Some st \<Rightarrow> Some (PStr st) | None \<Rightarrow> sm_get [] (PStr i))"
    unfolding assms(3) by blast
  have none: "sm_get [] v = None" for v by (simp add: sm_get_def)
  let ?b = "a\<lparr>aa_root := sync_section m (aa_root a)\<rparr>"
  have root: "dget (ast_dict a) ''root'' = PDict (section_dict (aa_root a))" by (simp add: ast_dict_def)
  have "ast_dict a \<noteq> []" by (simp add: ast_dict_def)
  then have "answer_renderer_node validate s = Inr (s\<lparr>g_final_answer := Plain (render ?b)\<rparr>)"
    using assms(1,2) m(1)
    by (simp add: answer_renderer_node_def Let_def root section_dict_nonempty sync_dict(1) [OF m(2)] dset_root
        del: sync_node.simps)
  moreover have st: "(\<lambda>(i, st). (i, status_in m i st)) = verified_status cs"
    by (rule ext) (auto simp: status_in_def verified_status_def m(3) none split: option.splits)
  have "status_in m i old = snd (verified_status cs (i, old))" for i old
    using fun_cong [OF st, of "(i, old)"] by (metis prod.case snd_conv)
  then have "status_in m = (\<lambda>i st. snd (verified_status cs (i, st)))" by (simp add: fun_eq_iff)
  then have b: "?b = verified_ast cs a" by (simp add: verified_ast_def sync_section_with)
  moreover have "ast_statuses ?b = map (verified_status cs) (ast_statuses a)"
    using st by (simp add: statuses_sync)
  moreover have "render ?b = render (supported_only ?b)"
    by (simp add: render_def supported_only_def render_prune)
  ultimately show ?thesis by simp
qed

subsection \<open>A validator for the exact dictionary form\<close>

definition str_at :: "pdict \<Rightarrow> string \<Rightarrow> string" where
  "str_at d k = (case dget d k of PStr x \<Rightarrow> x | _ \<Rightarrow> [])"

definition bool_at :: "pdict \<Rightarrow> string \<Rightarrow> bool" where
  "bool_at d k = (dget d k = PBool True)"

definition ints_at :: "pdict \<Rightarrow> string \<Rightarrow> int list" where
  "ints_at d k = (case dget d k of PList xs \<Rightarrow> map (\<lambda>v. case v of PInt i \<Rightarrow> i | _ \<Rightarrow> 0) xs | _ \<Rightarrow> [])"

fun strict_row :: "pyval \<Rightarrow> row_claim" where
  "strict_row v =
     (let d = (case v of PDict d \<Rightarrow> d | _ \<Rightarrow> []) in
      \<lparr>tr_claim_id = str_at d ''claim_id'', tr_row_index = (case dget d ''row_index'' of PInt n \<Rightarrow> n | _ \<Rightarrow> 0),
       tr_row_values = (case dget d ''row_values'' of PDict vs \<Rightarrow> map (\<lambda>p. (fst p, case snd p of PStr x \<Rightarrow> x | _ \<Rightarrow> [])) vs | _ \<Rightarrow> []),
       tr_citation_indices = ints_at d ''citation_indices'', tr_final_status = str_at d ''final_status''\<rparr>)"

fun strict_child :: "pyval \<Rightarrow> para_child" where
  "strict_child v =
     (let d = (case v of PDict d \<Rightarrow> d | _ \<Rightarrow> []) in
      if dget d ''node_type'' = PStr ''claim'' then
        ClaimChild \<lparr>cn_schema_version = str_at d ''schema_version'', cn_claim_id = str_at d ''claim_id'',
          cn_text = str_at d ''text'', cn_citation_indices = ints_at d ''citation_indices'',
          cn_model_claim_type = str_at d ''model_claim_type'', cn_model_is_required = bool_at d ''model_is_required'',
          cn_final_status = str_at d ''final_status'', cn_server_claim_type = str_at d ''server_claim_type'',
          cn_server_is_required = bool_at d ''server_is_required''\<rparr>
      else NarrativeChild (str_at d ''text''))"

fun strict_content :: "pyval \<Rightarrow> section_content" where
  "strict_content (PDict [_, (_, PList cs)]) = ParagraphC (map strict_child cs)"
| "strict_content (PDict [_, (_, PList hs), (_, PList rs)]) =
     TableC (map (\<lambda>h. case h of PStr x \<Rightarrow> x | _ \<Rightarrow> []) hs) (map strict_row rs)"
| "strict_content (PDict [_, (_, PStr t), (_, PInt l), (_, PList cs)]) = SectionC (Section t l (map strict_content cs))"
| "strict_content _ = ParagraphC []"

definition strict_validate :: "pdict \<Rightarrow> answer_ast res" where
  "strict_validate d =
     (case d of
        [(_, PStr v), (_, r)] \<Rightarrow>
          (case strict_content r of
             SectionC sec \<Rightarrow> Inr \<lparr>aa_schema_version = v, aa_root = sec\<rparr>
           | _ \<Rightarrow> Inl ValueError)
      | _ \<Rightarrow> Inl ValueError)"

lemma strict_row_dict: "strict_row (PDict (row_claim_dict r)) = r"
  by (cases r) (simp add: row_claim_dict_def comp_def case_prod_beta str_at_def ints_at_def)

lemma strict_child_dict: "strict_child (PDict (child_dict c)) = c"
proof (cases c)
  case (ClaimChild n)
  then show ?thesis by (cases n) (simp add: claim_node_dict_def comp_def str_at_def bool_at_def ints_at_def)
qed (simp add: str_at_def)

lemma strict_content_dict:
  "strict_content (PDict (section_dict sec)) = SectionC sec"
  "strict_content (PDict (content_dict c)) = c"
  by (induction sec and c rule: section_dict_content_dict.induct)
    (simp_all add: comp_def strict_row_dict strict_child_dict map_idI del: strict_row.simps strict_child.simps)

lemma strict_validate_dict: "strict_validate (ast_dict b) = Inr b"
  by (simp add: strict_validate_def ast_dict_def strict_content_dict)

definition demo_ast :: answer_ast where
  "demo_ast =
     \<lparr>aa_schema_version = ''1.0'',
      aa_root = Section [] 0 [ParagraphC
        [NarrativeChild ''So'',
         ClaimChild \<lparr>cn_schema_version = ''1.0'', cn_claim_id = ''c1'', cn_text = ''x'', cn_citation_indices = [1],
           cn_model_claim_type = ''statement'', cn_model_is_required = False, cn_final_status = ''supported'',
           cn_server_claim_type = [], cn_server_is_required = False\<rparr>]]\<rparr>"

theorem rendered_answer_is_verified_witness:
  "answer_renderer_node strict_validate
      (empty_state\<lparr>g_answer_ast := PDict (ast_dict demo_ast),
         g_claims := map (\<lambda>c. PDict (claim_to_dict c)) [(new_claim ''c1'' ''x'')\<lparr>cl_final_status := ''contradicted''\<rparr>]\<rparr>)
     = Inr (empty_state\<lparr>g_answer_ast := PDict (ast_dict demo_ast),
         g_claims := map (\<lambda>c. PDict (claim_to_dict c)) [(new_claim ''c1'' ''x'')\<lparr>cl_final_status := ''contradicted''\<rparr>],
         g_final_answer := Plain ''So''\<rparr>)"
proof -
  let ?cs = "[(new_claim ''c1'' ''x'')\<lparr>cl_final_status := ''contradicted''\<rparr>]"
  let ?s = "empty_state\<lparr>g_answer_ast := PDict (ast_dict demo_ast), g_claims := map (\<lambda>c. PDict (claim_to_dict c)) ?cs\<rparr>"
  have "render (supported_only (verified_ast ?cs demo_ast)) = ''So''" by code_simp
  then show ?thesis
    using rendered_answer_is_verified [OF strict_validate_dict, of ?s demo_ast ?cs] by simp
qed

end
