(* ===== verification/React_Models.thy ===== *)
theory React_Models
  imports Json
begin

text \<open>
  The data model of the restricted ReAct subgraph (\<open>agent/langgraph/react/models.py\<close>): action,
  observation, budget, subgraph state, loop-guard state and result. A \<open>TypedDict(total=False)\<close>
  field that the code reads with a default is an \<open>option\<close>. The settings of the budget, which the code
  converts, and the values chosen by the language model stay untyped (\<open>pyval\<close>, \<open>pdict\<close>); the other
  configuration sections are records over the types of their defaults.
\<close>

section \<open>Conversions of untyped arguments\<close>

text \<open>The digits of an integer literal: single underscores may stand between digits.\<close>

fun int_literal :: "bool \<Rightarrow> string \<Rightarrow> bool" where
  "int_literal seen [] = seen"
| "int_literal seen (c # cs) =
     (if c \<in> set ''0123456789'' then int_literal True cs
      else c = CHR ''_'' \<and> seen \<and> cs \<noteq> [] \<and> int_literal False cs)"

definition int_of_str :: "string \<Rightarrow> int res" where
  "int_of_str s0 =
     (let s = strip s0;
          neg = (case s of [] \<Rightarrow> False | c # _ \<Rightarrow> c = CHR ''-'');
          pos = (case s of [] \<Rightarrow> False | c # _ \<Rightarrow> c = CHR ''+'');
          body = (if neg \<or> pos then tl s else s)
      in if int_literal False body
         then Inr ((if neg then - 1 else 1) * digits_val (filter (\<lambda>c. c \<noteq> CHR ''_'') body))
         else Inl ValueError)"

fun py_int :: "pyval \<Rightarrow> int res" where
  "py_int (PBool b) = Inr (if b then 1 else 0)"
| "py_int (PInt i) = Inr i"
| "py_int (PFloat r) = Inr (if 0 \<le> r then \<lfloor>r\<rfloor> else \<lceil>r\<rceil>)"
| "py_int (PStr s) = int_of_str s"
| "py_int _ = Inl TypeError"

section \<open>Actions and observations\<close>

definition ACTION_TYPE_FINISH :: string where
  "ACTION_TYPE_FINISH = ''finish''"

record react_action =
  act_type :: string
  act_tool_name :: pyval
  act_purpose :: string
  act_arguments :: pdict
  act_thought_summary :: string

record react_observation =
  obs_action_type :: string
  obs_success :: bool
  obs_content :: string
  obs_structured_data :: pdict
  obs_error :: message
  obs_latency_ms :: int
  obs_risk_level :: string
  obs_truncated :: bool
  obs_metadata :: pdict

section \<open>Budget\<close>

record react_budget =
  step_count :: "int option"
  max_steps :: "int option"
  tool_call_count :: "int option"
  max_tool_calls :: "int option"
  db_query_count :: "int option"
  max_db_queries :: "int option"
  llm_call_count :: "int option"
  max_llm_calls :: "int option"
  deadline_ts :: "rat option"
  token_used :: "int option"
  token_budget :: "int option"

text \<open>The empty dictionary, which is falsy.\<close>

definition empty_budget :: react_budget where
  "empty_budget =
     \<lparr>step_count = None, max_steps = None, tool_call_count = None, max_tool_calls = None,
      db_query_count = None, max_db_queries = None, llm_call_count = None, max_llm_calls = None,
      deadline_ts = None, token_used = None, token_budget = None\<rparr>"

text \<open>\<open>DEFAULT_REACT_BUDGET\<close> and the default budget, at the time \<open>now\<close> (seconds).\<close>

definition DEFAULT_MAX_LATENCY_MS :: int where
  "DEFAULT_MAX_LATENCY_MS = 30000"

definition get_default_budget :: "rat \<Rightarrow> rat \<Rightarrow> react_budget" where
  "get_default_budget now deadline_offset_ms =
     \<lparr>step_count = Some 0, max_steps = Some 8, tool_call_count = Some 0, max_tool_calls = Some 6,
      db_query_count = Some 0, max_db_queries = Some 3, llm_call_count = Some 0,
      max_llm_calls = Some 5, deadline_ts = Some (now + deadline_offset_ms / 1000),
      token_used = Some 0, token_budget = Some 12000\<rparr>"

section \<open>Configuration\<close>

text \<open>The \<open>agent_config.react\<close> section; \<open>rc_policy\<close> holds the per-tool policy sections.\<close>

record react_config =
  rc_max_latency_ms :: "pyval option"
  rc_max_steps :: "pyval option"
  rc_max_tool_calls :: "pyval option"
  rc_max_db_queries :: "pyval option"
  rc_max_llm_calls :: "pyval option"
  rc_token_budget :: "pyval option"
  rc_allowed_tools :: "string list option"
  rc_policy :: "(string \<times> pdict) list"

definition empty_react_config :: react_config where
  "empty_react_config =
     \<lparr>rc_max_latency_ms = None, rc_max_steps = None, rc_max_tool_calls = None,
      rc_max_db_queries = None, rc_max_llm_calls = None, rc_token_budget = None,
      rc_allowed_tools = None, rc_policy = []\<rparr>"

text \<open>The default text of \<open>fallback_message\<close> ("the information at hand is not enough to answer, a
  human should step in"), in UTF-8.\<close>

definition FALLBACK_MESSAGE :: string where
  "FALLBACK_MESSAGE =
     [CHR 0xE5, CHR 0xBD, CHR 0x93, CHR 0xE5, CHR 0x89, CHR 0x8D, CHR 0xE4, CHR 0xBF, CHR 0xA1,
      CHR 0xE6, CHR 0x81, CHR 0xAF, CHR 0xE4, CHR 0xB8, CHR 0x8D, CHR 0xE8, CHR 0xB6, CHR 0xB3,
      CHR 0xE4, CHR 0xBB, CHR 0xA5, CHR 0xE5, CHR 0x9B, CHR 0x9E, CHR 0xE7, CHR 0xAD, CHR 0x94,
      CHR 0xEF, CHR 0xBC, CHR 0x8C, CHR 0xE5, CHR 0xBB, CHR 0xBA, CHR 0xE8, CHR 0xAE, CHR 0xAE,
      CHR 0xE4, CHR 0xBA, CHR 0xBA, CHR 0xE5, CHR 0xB7, CHR 0xA5, CHR 0xE4, CHR 0xBB, CHR 0x8B,
      CHR 0xE5, CHR 0x85, CHR 0xA5]"

record loop_guard_config =
  lc_enabled :: "bool option"
  lc_max_iterations :: "int option"
  lc_same_action_limit :: "int option"
  lc_rerank_drop_limit :: "int option"
  lc_min_rerank_drop :: "rat option"
  lc_min_evidence_gain :: "int option"
  lc_absolute_quality_floor :: "rat option"
  lc_fallback_message :: "string option"

definition DEFAULT_LOOP_GUARD_CONFIG :: loop_guard_config where
  "DEFAULT_LOOP_GUARD_CONFIG =
     \<lparr>lc_enabled = Some True, lc_max_iterations = Some 8, lc_same_action_limit = Some 3, lc_rerank_drop_limit = Some 2,
      lc_min_rerank_drop = Some (5 / 100), lc_min_evidence_gain = Some 1,
      lc_absolute_quality_floor = Some (30 / 100), lc_fallback_message = Some FALLBACK_MESSAGE\<rparr>"

text \<open>The empty configuration, for which the code falls back to the default one.\<close>

definition empty_loop_guard_config :: loop_guard_config where
  "empty_loop_guard_config =
     \<lparr>lc_enabled = None, lc_max_iterations = None, lc_same_action_limit = None, lc_rerank_drop_limit = None,
      lc_min_rerank_drop = None, lc_min_evidence_gain = None, lc_absolute_quality_floor = None,
      lc_fallback_message = None\<rparr>"

text \<open>The section \<open>react\<close> of the configuration: missing or falsy, a dictionary, or another value, on which
  \<open>.get\<close> raises.\<close>

datatype react_section = NoReact | ReactSection react_config | BadReact

fun read_section :: "react_section \<Rightarrow> react_config res" where
  "read_section NoReact = Inr empty_react_config"
| "read_section (ReactSection c) = Inr c"
| "read_section BadReact = Inl AttributeError"

record agent_config =
  ac_react :: react_section
  ac_loop_guard :: "loop_guard_config option"
  ac_permissions :: "string list option"

section \<open>Loop guard and subgraph state\<close>

record retrieval_observation =
  ro_iteration :: int
  ro_action_signature :: string
  ro_tool_name :: string
  ro_evidence_gain :: int
  ro_rerank_top_score :: "rat option"

record loop_guard_state =
  iteration_count :: int
  max_iterations :: int
  action_signature :: string
  same_action_count :: int
  rerank_score_history :: "rat list"
  rerank_drop_count :: int
  retrieval_observations :: "retrieval_observation list"
  lg_fallback_message :: string

text \<open>Entries of \<open>failures\<close> and of \<open>action_history\<close>. The result summary is the text the history
  shows for the step: a denial, a refused approval, the start of the content or the error.\<close>

datatype failure = FReason exn | FPolicy string message | FTool string message

datatype result_summary = RDenied message | RNeedsApproval message | RContent string | RError message

record history_entry =
  he_action_type :: string
  he_thought_summary :: string
  he_purpose :: "string option"
  he_arguments :: "pdict option"
  he_result_summary :: result_summary
  he_latency_ms :: "int option"
  he_evidence_count :: "int option"

record react_state =
  rs_user_question :: string
  rs_tenant_id :: string
  rs_user_id :: string
  rs_query_lang :: string
  rs_budget :: react_budget
  rs_allowed_tools :: "string list"
  rs_action_history :: "history_entry list"
  rs_observations :: "react_observation list"
  rs_failures :: "failure list"
  rs_evidence :: "pdict list"
  rs_needs_clarification :: bool
  rs_clarification_question :: pyval

datatype finish_reason = Completed | BudgetExhausted | PolicyDenied | NeedsClarification | ErrorFinish
  | SameActionLoop | RerankDeclining

text \<open>The strings the code uses for the reasons.\<close>

fun finish_reason_text :: "finish_reason \<Rightarrow> string" where
  "finish_reason_text Completed = ''completed''"
| "finish_reason_text BudgetExhausted = ''budget_exhausted''"
| "finish_reason_text PolicyDenied = ''policy_denied''"
| "finish_reason_text NeedsClarification = ''needs_clarification''"
| "finish_reason_text ErrorFinish = ''error''"
| "finish_reason_text SameActionLoop = ''same_action_loop''"
| "finish_reason_text RerankDeclining = ''rerank_declining''"

datatype termination_source = NoSource | BudgetSource | LoopGuardSource | PolicyGuardSource

record react_execution_result =
  rr_success :: bool
  rr_evidence :: "pdict list"
  rr_step_count :: int
  rr_finish_reason :: finish_reason
  rr_termination_reason :: "finish_reason option"
  rr_termination_source :: termination_source
  rr_last_action_signature :: string
  rr_same_action_count :: int
  rr_rerank_score_history :: "rat list"
  rr_rerank_drop_count :: int
  rr_budget_snapshot :: react_budget
  rr_can_continue :: bool
  rr_retrieval_observations :: "retrieval_observation list"
  rr_summary :: message

end
