(* ===== verification/React_Budget.thy ===== *)
theory React_Budget
  imports React_Models Interfaces
begin

text \<open>
  The budget controller of the ReAct subgraph (\<open>agent/langgraph/react/budget.py\<close>). The controller
  object is its \<open>budget\<close> dictionary, passed and returned; a call of \<open>time.time()\<close> is the argument
  \<open>now\<close>. The lemmas characterise when work may go on, that the extra check of
  \<open>can_db_query\<close> adds nothing, and how each increment moves the counters.
\<close>

datatype budget_violation_type = StepsExceeded | ToolCallsExceeded | DbQueriesExceeded
  | LlmCallsExceeded | TokenBudgetExceeded | DeadlineExceeded

record budget_check_result =
  bc_allowed :: bool
  bc_violation_type :: "budget_violation_type option"
  bc_reason :: message

text \<open>\<open>self.budget.get(key, default)\<close>, and the value of \<open>self.budget.get(key)\<close> in a message.\<close>

definition get_field :: "'a option \<Rightarrow> 'a \<Rightarrow> 'a" where
  "get_field x d = (case x of None \<Rightarrow> d | Some v \<Rightarrow> v)"

definition show_field :: "int option \<Rightarrow> pyval" where
  "show_field x = (case x of None \<Rightarrow> PNone | Some v \<Rightarrow> PInt v)"

definition denied :: "budget_violation_type \<Rightarrow> message \<Rightarrow> budget_check_result" where
  "denied v m = \<lparr>bc_allowed = False, bc_violation_type = Some v, bc_reason = m\<rparr>"

definition permitted :: budget_check_result where
  "permitted = \<lparr>bc_allowed = True, bc_violation_type = None, bc_reason = NoMsg\<rparr>"

definition init_budget :: "rat \<Rightarrow> react_budget option \<Rightarrow> react_budget" where
  "init_budget now b =
     (case b of
        None \<Rightarrow> get_default_budget now (of_int DEFAULT_MAX_LATENCY_MS)
      | Some b' \<Rightarrow> if b' = empty_budget then get_default_budget now (of_int DEFAULT_MAX_LATENCY_MS) else b')"

text \<open>The test \<open>deadline and time.time() > deadline\<close>.\<close>

definition past_deadline :: "rat \<Rightarrow> react_budget \<Rightarrow> bool" where
  "past_deadline now b = (let d = get_field (deadline_ts b) 0 in d \<noteq> 0 \<and> now > d)"

definition can_proceed :: "rat \<Rightarrow> react_budget \<Rightarrow> budget_check_result" where
  "can_proceed now b =
     (if get_field (step_count b) 0 \<ge> get_field (max_steps b) 8 then
        denied StepsExceeded
          (Msg ''step_count >= max_steps'' [show_field (step_count b), show_field (max_steps b)])
      else if get_field (tool_call_count b) 0 \<ge> get_field (max_tool_calls b) 6 then
        denied ToolCallsExceeded
          (Msg ''tool_call_count >= max_tool_calls''
             [show_field (tool_call_count b), show_field (max_tool_calls b)])
      else if get_field (db_query_count b) 0 \<ge> get_field (max_db_queries b) 3 then
        denied DbQueriesExceeded
          (Msg ''db_query_count >= max_db_queries''
             [show_field (db_query_count b), show_field (max_db_queries b)])
      else if get_field (llm_call_count b) 0 \<ge> get_field (max_llm_calls b) 5 then
        denied LlmCallsExceeded
          (Msg ''llm_call_count >= max_llm_calls''
             [show_field (llm_call_count b), show_field (max_llm_calls b)])
      else if past_deadline now b then
        denied DeadlineExceeded (Msg ''deadline_ts passed'' [PFloat (get_field (deadline_ts b) 0)])
      else
        (let used = get_field (token_used b) 0; tb = get_field (token_budget b) 0
         in if tb \<noteq> 0 \<and> used \<ge> tb
            then denied TokenBudgetExceeded (Msg ''token_used >= token_budget'' [PInt used, PInt tb])
            else permitted))"

definition can_db_query :: "rat \<Rightarrow> react_budget \<Rightarrow> budget_check_result" where
  "can_db_query now b =
     (let general = can_proceed now b
      in if \<not> bc_allowed general then general
         else if get_field (db_query_count b) 0 \<ge> get_field (max_db_queries b) 3 then
           denied DbQueriesExceeded
             (Msg ''db_query_count >= max_db_queries''
                [show_field (db_query_count b), show_field (max_db_queries b)])
         else permitted)"

definition increment_step :: "react_budget \<Rightarrow> react_budget" where
  "increment_step b = b\<lparr>step_count := Some (get_field (step_count b) 0 + 1)\<rparr>"

definition increment_tool_call :: "string \<Rightarrow> react_budget \<Rightarrow> react_budget" where
  "increment_tool_call tool_type b =
     (let b1 = b\<lparr>tool_call_count := Some (get_field (tool_call_count b) 0 + 1)\<rparr>
      in if tool_type = ''db_query''
         then b1\<lparr>db_query_count := Some (get_field (db_query_count b1) 0 + 1)\<rparr> else b1)"

definition increment_llm_call :: "int \<Rightarrow> react_budget \<Rightarrow> react_budget" where
  "increment_llm_call tokens_used b =
     (let b1 = b\<lparr>llm_call_count := Some (get_field (llm_call_count b) 0 + 1)\<rparr>
      in if tokens_used > 0
         then b1\<lparr>token_used := Some (get_field (token_used b1) 0 + tokens_used)\<rparr> else b1)"

definition snapshot :: "react_budget \<Rightarrow> react_budget" where
  "snapshot b = b"

definition remaining_steps :: "react_budget \<Rightarrow> int" where
  "remaining_steps b = max 0 (get_field (max_steps b) 8 - get_field (step_count b) 0)"

definition remaining_tool_calls :: "react_budget \<Rightarrow> int" where
  "remaining_tool_calls b = max 0 (get_field (max_tool_calls b) 6 - get_field (tool_call_count b) 0)"

definition remaining_db_queries :: "react_budget \<Rightarrow> int" where
  "remaining_db_queries b = max 0 (get_field (max_db_queries b) 3 - get_field (db_query_count b) 0)"

text \<open>\<open>deadline_offset_ms / 1000.0\<close> wants a number.\<close>

fun ms_value :: "pyval \<Rightarrow> rat res" where
  "ms_value (PBool b) = Inr (if b then 1 else 0)"
| "ms_value (PInt i) = Inr (of_int i)"
| "ms_value (PFloat r) = Inr r"
| "ms_value _ = Inl TypeError"

text \<open>\<open>if key in cfg: budget[key] = int(cfg[key])\<close>, which raises on what \<open>int\<close> cannot read.\<close>

definition override :: "pyval option \<Rightarrow> (int \<Rightarrow> react_budget \<Rightarrow> react_budget) \<Rightarrow> react_budget \<Rightarrow> react_budget res" where
  "override setting put b =
     (case setting of None \<Rightarrow> Inr b | Some v \<Rightarrow> rbind (py_int v) (\<lambda>n. Inr (put n b)))"

text \<open>\<open>cfg\<close> is \<open>react_config or {}\<close>.\<close>

definition build_budget_from_config ::
    "rat \<Rightarrow> react_config option \<Rightarrow> int option \<Rightarrow> react_budget res" where
  "build_budget_from_config now react_cfg max_latency_ms =
     (let cfg = (case react_cfg of None \<Rightarrow> empty_react_config | Some c \<Rightarrow> c);
          configured = get_field (rc_max_latency_ms cfg) (PInt 30000);
          max_latency = (case max_latency_ms of None \<Rightarrow> configured | Some l \<Rightarrow> if l \<noteq> 0 then PInt l else configured) in
      rbind (ms_value max_latency) (\<lambda>ms.
      rbind (override (rc_max_steps cfg) (\<lambda>n b. b\<lparr>max_steps := Some n\<rparr>) (get_default_budget now ms)) (\<lambda>b1.
      rbind (override (rc_max_tool_calls cfg) (\<lambda>n b. b\<lparr>max_tool_calls := Some n\<rparr>) b1) (\<lambda>b2.
      rbind (override (rc_max_db_queries cfg) (\<lambda>n b. b\<lparr>max_db_queries := Some n\<rparr>) b2) (\<lambda>b3.
      rbind (override (rc_max_llm_calls cfg) (\<lambda>n b. b\<lparr>max_llm_calls := Some n\<rparr>) b3) (\<lambda>b4.
        override (rc_token_budget cfg) (\<lambda>n b. b\<lparr>token_budget := Some n\<rparr>) b4))))))"

section \<open>Abbreviations for the counters and limits the controller reads\<close>

abbreviation steps_used :: "react_budget \<Rightarrow> int" where
  "steps_used b \<equiv> get_field (step_count b) 0"

abbreviation steps_limit :: "react_budget \<Rightarrow> int" where
  "steps_limit b \<equiv> get_field (max_steps b) 8"

abbreviation tools_used :: "react_budget \<Rightarrow> int" where
  "tools_used b \<equiv> get_field (tool_call_count b) 0"

abbreviation tools_limit :: "react_budget \<Rightarrow> int" where
  "tools_limit b \<equiv> get_field (max_tool_calls b) 6"

abbreviation db_used :: "react_budget \<Rightarrow> int" where
  "db_used b \<equiv> get_field (db_query_count b) 0"

abbreviation db_limit :: "react_budget \<Rightarrow> int" where
  "db_limit b \<equiv> get_field (max_db_queries b) 3"

abbreviation llm_used :: "react_budget \<Rightarrow> int" where
  "llm_used b \<equiv> get_field (llm_call_count b) 0"

abbreviation llm_limit :: "react_budget \<Rightarrow> int" where
  "llm_limit b \<equiv> get_field (max_llm_calls b) 5"

section \<open>Properties\<close>

lemma get_field_simps [simp]: "get_field None d = d" "get_field (Some v) d = v"
  by (simp_all add: get_field_def)

lemma check_result_simps [simp]:
  "bc_allowed (denied v m) = False" "bc_violation_type (denied v m) = Some v"
  "bc_allowed permitted = True" "bc_violation_type permitted = None"
  by (simp_all add: denied_def permitted_def)

lemma bc_allowed_can_proceed:
  "bc_allowed (can_proceed now b) \<longleftrightarrow>
     steps_used b < steps_limit b \<and> tools_used b < tools_limit b \<and> db_used b < db_limit b \<and>
     llm_used b < llm_limit b \<and> \<not> past_deadline now b \<and>
     (get_field (token_budget b) 0 = 0 \<or> get_field (token_used b) 0 < get_field (token_budget b) 0)"
  by (auto simp: can_proceed_def Let_def not_le)

lemma increment_step_simps [simp]:
  "steps_used (increment_step b) = steps_used b + 1"
  "max_steps (increment_step b) = max_steps b"
  "tool_call_count (increment_step b) = tool_call_count b"
  "max_tool_calls (increment_step b) = max_tool_calls b"
  "db_query_count (increment_step b) = db_query_count b"
  "max_db_queries (increment_step b) = max_db_queries b"
  "llm_call_count (increment_step b) = llm_call_count b"
  "max_llm_calls (increment_step b) = max_llm_calls b"
  "deadline_ts (increment_step b) = deadline_ts b"
  by (simp_all add: increment_step_def)

lemma increment_tool_call_simps [simp]:
  "step_count (increment_tool_call t b) = step_count b"
  "max_steps (increment_tool_call t b) = max_steps b"
  "tools_used (increment_tool_call t b) = tools_used b + 1"
  "max_tool_calls (increment_tool_call t b) = max_tool_calls b"
  "db_used (increment_tool_call t b) = db_used b + (if t = ''db_query'' then 1 else 0)"
  "max_db_queries (increment_tool_call t b) = max_db_queries b"
  "llm_call_count (increment_tool_call t b) = llm_call_count b"
  "max_llm_calls (increment_tool_call t b) = max_llm_calls b"
  "deadline_ts (increment_tool_call t b) = deadline_ts b"
  by (simp_all add: increment_tool_call_def Let_def)

lemma increment_llm_call_simps [simp]:
  "step_count (increment_llm_call n b) = step_count b"
  "max_steps (increment_llm_call n b) = max_steps b"
  "tool_call_count (increment_llm_call n b) = tool_call_count b"
  "max_tool_calls (increment_llm_call n b) = max_tool_calls b"
  "db_query_count (increment_llm_call n b) = db_query_count b"
  "max_db_queries (increment_llm_call n b) = max_db_queries b"
  "llm_used (increment_llm_call n b) = llm_used b + 1"
  "max_llm_calls (increment_llm_call n b) = max_llm_calls b"
  "deadline_ts (increment_llm_call n b) = deadline_ts b"
  by (simp_all add: increment_llm_call_def Let_def)

text \<open>A configuration is readable if its time limit is a number and \<open>int\<close> reads all its other settings.\<close>

definition int_readable :: "pyval option \<Rightarrow> bool" where
  "int_readable v \<longleftrightarrow> v = None \<or> \<not> isl (py_int (the v))"

definition readable_config :: "react_config \<Rightarrow> bool" where
  "readable_config c \<longleftrightarrow>
     \<not> isl (ms_value (get_field (rc_max_latency_ms c) (PInt 30000)))
     \<and> int_readable (rc_max_steps c) \<and> int_readable (rc_max_tool_calls c) \<and> int_readable (rc_max_db_queries c)
     \<and> int_readable (rc_max_llm_calls c) \<and> int_readable (rc_token_budget c)"

lemma override_Inr_iff:
  "override v put b = Inr b' \<longleftrightarrow>
     (v = None \<and> b' = b) \<or> (\<exists>x n. v = Some x \<and> py_int x = Inr n \<and> b' = put n b)"
  by (auto simp: override_def rbind_eq_Inr_iff split: option.splits)

lemma override_isl: "isl (override v put b) \<longleftrightarrow> \<not> int_readable v"
  by (auto simp: override_def int_readable_def rbind_def split: option.splits sum.splits)

lemma isl_rbind: "isl (rbind m f) \<longleftrightarrow> isl m \<or> isl (f (projr m))"
  by (cases m) simp_all

lemma build_budget_raises: "isl (build_budget_from_config now (Some c) None) \<longleftrightarrow> \<not> readable_config c"
  by (auto simp: build_budget_from_config_def readable_config_def isl_rbind override_isl Let_def)

lemma build_budget_counts_zero:
  assumes "build_budget_from_config now c l = Inr b"
  shows "steps_used b = 0" "tools_used b = 0" "db_used b = 0" "llm_used b = 0"
  using assms
  by (auto simp: build_budget_from_config_def get_default_budget_def get_field_def rbind_eq_Inr_iff override_Inr_iff Let_def)

text \<open>A limit is the number that \<open>int\<close> reads from its setting, or the default.\<close>

lemma build_budget_limits:
  assumes "build_budget_from_config now (Some c) l = Inr b"
  shows "Inr (steps_limit b) = py_int (get_field (rc_max_steps c) (PInt 8))"
    "Inr (tools_limit b) = py_int (get_field (rc_max_tool_calls c) (PInt 6))"
    "Inr (db_limit b) = py_int (get_field (rc_max_db_queries c) (PInt 3))"
    "Inr (llm_limit b) = py_int (get_field (rc_max_llm_calls c) (PInt 5))"
  using assms
  by (auto simp: build_budget_from_config_def get_default_budget_def get_field_def rbind_eq_Inr_iff override_Inr_iff Let_def)

text \<open>The controller lets the subgraph go on exactly when the steps, tool calls, database
  queries and LLM calls used are below their limits, the deadline (if one is set) has not passed
  and the token budget (if one is set) is not used up.\<close>

theorem can_proceed_iff:
  "bc_allowed (can_proceed now b) \<longleftrightarrow>
     get_field (step_count b) 0 < get_field (max_steps b) 8 \<and>
     get_field (tool_call_count b) 0 < get_field (max_tool_calls b) 6 \<and>
     get_field (db_query_count b) 0 < get_field (max_db_queries b) 3 \<and>
     get_field (llm_call_count b) 0 < get_field (max_llm_calls b) 5 \<and>
     (get_field (deadline_ts b) 0 = 0 \<or> now \<le> get_field (deadline_ts b) 0) \<and>
     (get_field (token_budget b) 0 = 0 \<or> get_field (token_used b) 0 < get_field (token_budget b) 0)"
  by (simp add: bc_allowed_can_proceed past_deadline_def Let_def not_less)

text \<open>The database-specific check returns the very result of the general check, for every
  budget and time: its own test of the query counter is subsumed.\<close>

theorem can_db_query_eq_can_proceed: "can_db_query now b = can_proceed now b"
proof (cases "bc_allowed (can_proceed now b)")
  case True
  then have "can_proceed now b = permitted"
    by (auto simp: can_proceed_def Let_def split: if_splits)
  moreover from True have "db_used b < db_limit b"
    by (simp add: bc_allowed_can_proceed)
  ultimately show ?thesis by (simp add: can_db_query_def Let_def)
next
  case False
  then show ?thesis by (simp add: can_db_query_def Let_def)
qed

end
