(* ===== verification/Skill_Policy.thy ===== *)
theory Skill_Policy
  imports Prelude
begin

text \<open>
  The skill policy adapter (\<open>agent/langgraph/skills/policy_adapter.py\<close>) over the skill models of
  \<open>agent/langgraph/skills/models.py\<close>, of which the records keep the fields the adapter reads.
  \<open>build_rules\<close> merges the declarations of the report, data and retrieval skill; \<open>evaluate_rules\<close>
  is the guard. The rendering of non-string values by \<open>str()\<close> is the argument \<open>show_py\<close>.
\<close>

record report_skill =
  rs_required_permissions :: "string list"
  rs_allowed_tenants :: "string list"
  rs_allowed_formats :: "string list"
  rs_publish_policy :: pdict

record data_skill =
  ds_required_permissions :: "string list"
  ds_policy_constraints :: pdict

record retrieval_skill =
  vs_required_permissions :: "string list"
  vs_retrieval_policy :: pdict

record resolved_skill_set =
  ss_report_skill :: report_skill
  ss_data_skill :: "data_skill option"
  ss_retrieval_skill :: "retrieval_skill option"

record skill_policy_rules =
  pr_required_permissions :: "string set"
  pr_allowed_tenants :: "string set"
  pr_require_tenant_filter :: bool
  pr_forbidden_operations :: "string set"
  pr_sensitive_field_policy :: pdict
  pr_default_limit :: "pyval option"
  pr_max_rows :: "pyval option"
  pr_allowed_formats :: "string set"
  pr_publish_policy :: pdict
  pr_allow_web_fallback :: bool

record skill_policy_context =
  sc_tenant_id :: string
  sc_permissions :: "string list"
  sc_report_format :: string
  sc_tenant_filter_present :: pyval
  sc_operation :: string
  sc_requested_fields :: "pyval list"
  sc_web_fallback_requested :: bool

record skill_policy_decision =
  sd_allowed :: bool
  sd_reason_code :: string
  sd_reason :: message

text \<open>\<open>value if isinstance(value, int) else None\<close>; a \<open>bool\<close> is an \<open>int\<close>.\<close>

fun optional_int :: "pyval \<Rightarrow> pyval option" where
  "optional_int (PInt i) = Some (PInt i)"
| "optional_int (PBool b) = Some (PBool b)"
| "optional_int _ = None"

text \<open>\<open>dict(value)\<close> for a mapping or an empty sequence; every other value is refused.\<close>

fun py_dict :: "pyval \<Rightarrow> pdict res" where
  "py_dict (PDict d) = Inr d"
| "py_dict (PList []) = Inr []"
| "py_dict (PStr []) = Inr []"
| "py_dict (PList (x # xs)) = Inl ValueError"
| "py_dict (PStr (c # cs)) = Inl ValueError"
| "py_dict _ = Inl TypeError"

definition skill_permissions :: "resolved_skill_set \<Rightarrow> string list" where
  "skill_permissions s =
     rs_required_permissions (ss_report_skill s)
     @ (case ss_data_skill s of None \<Rightarrow> [] | Some d \<Rightarrow> ds_required_permissions d)
     @ (case ss_retrieval_skill s of None \<Rightarrow> [] | Some v \<Rightarrow> vs_required_permissions v)"

definition build_rules :: "(pyval \<Rightarrow> string) \<Rightarrow> resolved_skill_set \<Rightarrow> skill_policy_rules res" where
  "build_rules show_py s =
     (let report = ss_report_skill s;
          data_policy = (case ss_data_skill s of None \<Rightarrow> [] | Some d \<Rightarrow> ds_policy_constraints d);
          retrieval_policy = (case ss_retrieval_skill s of None \<Rightarrow> [] | Some v \<Rightarrow> vs_retrieval_policy v)
      in rbind (py_iter (dget_or data_policy ''forbidden_operations'' (PList []))) (\<lambda>ops.
         rbind (py_dict (dget_or data_policy ''sensitive_field_policy'' (PDict []))) (\<lambda>sensitive.
         Inr \<lparr>pr_required_permissions = set (skill_permissions s),
              pr_allowed_tenants = set (rs_allowed_tenants report),
              pr_require_tenant_filter =
                (truthy (dget_or data_policy ''require_tenant_filter'' (PBool False))
                 \<or> truthy (dget_or retrieval_policy ''require_tenant_filter'' (PBool False))),
              pr_forbidden_operations = set (map (\<lambda>v. lower (py_str show_py v)) ops),
              pr_sensitive_field_policy = sensitive,
              pr_default_limit = optional_int (dget data_policy ''default_limit''),
              pr_max_rows = optional_int (dget data_policy ''max_rows''),
              pr_allowed_formats = set (map lower (rs_allowed_formats report)),
              pr_publish_policy = rs_publish_policy report,
              pr_allow_web_fallback =
                truthy (dget_or retrieval_policy ''allow_web_fallback'' (PBool True))\<rparr>)))"

definition deny :: "string \<Rightarrow> message \<Rightarrow> skill_policy_decision" where
  "deny code m = \<lparr>sd_allowed = False, sd_reason_code = code, sd_reason = m\<rparr>"

definition evaluate_rules :: "skill_policy_rules \<Rightarrow> skill_policy_context \<Rightarrow> skill_policy_decision" where
  "evaluate_rules rules ctx =
     (if \<not> pr_required_permissions rules \<subseteq> set (sc_permissions ctx) then
        deny ''PERMISSION_DENIED'' (Msg ''the user lacks permissions the skill requires'' [])
      else if pr_allowed_tenants rules \<noteq> {} \<and> sc_tenant_id ctx \<notin> pr_allowed_tenants rules then
        deny ''TENANT_NOT_ALLOWED'' (Msg ''the tenant has not enabled the skill'' [])
      else if sc_report_format ctx \<noteq> [] \<and> pr_allowed_formats rules \<noteq> {}
              \<and> lower (sc_report_format ctx) \<notin> pr_allowed_formats rules then
        deny ''FORMAT_NOT_ALLOWED'' (Msg ''the skill does not allow the report format'' [])
      else if pr_require_tenant_filter rules \<and> sc_tenant_filter_present ctx = PBool False then
        deny ''TENANT_FILTER_REQUIRED'' (Msg ''the skill requires a tenant filter'' [])
      else if sc_operation ctx \<noteq> [] \<and> lower (sc_operation ctx) \<in> pr_forbidden_operations rules then
        deny ''OPERATION_FORBIDDEN'' (Msg ''the data skill forbids the operation'' [])
      else if sc_web_fallback_requested ctx \<and> \<not> pr_allow_web_fallback rules then
        deny ''WEB_FALLBACK_DENIED'' (Msg ''the retrieval skill forbids web fallback'' [])
      else \<lparr>sd_allowed = True, sd_reason_code = ''ALLOWED'', sd_reason = NoMsg\<rparr>)"

section \<open>Properties\<close>

lemma deny_allowed [simp]: "sd_allowed (deny c m) = False"
  by (simp add: deny_def)

lemma evaluate_rules_allowed_iff:
  "sd_allowed (evaluate_rules r c) \<longleftrightarrow>
     pr_required_permissions r \<subseteq> set (sc_permissions c)
     \<and> (pr_allowed_tenants r = {} \<or> sc_tenant_id c \<in> pr_allowed_tenants r)
     \<and> (sc_report_format c = [] \<or> pr_allowed_formats r = {}
         \<or> lower (sc_report_format c) \<in> pr_allowed_formats r)
     \<and> (pr_require_tenant_filter r \<longrightarrow> sc_tenant_filter_present c \<noteq> PBool False)
     \<and> (sc_operation c = [] \<or> lower (sc_operation c) \<notin> pr_forbidden_operations r)
     \<and> (sc_web_fallback_requested c \<longrightarrow> pr_allow_web_fallback r)"
  by (simp add: evaluate_rules_def)

lemma build_rules_permissions:
  "build_rules show_py s = Inr r \<Longrightarrow> pr_required_permissions r = set (skill_permissions s)"
  by (auto simp: build_rules_def Let_def rbind_eq_Inr_iff)

lemma build_rules_forbidden:
  assumes "build_rules show_py s = Inr r" and "ss_data_skill s = Some d"
    and "dget_or (ds_policy_constraints d) ''forbidden_operations'' (PList []) = PList ops"
  shows "pr_forbidden_operations r = (\<lambda>v. lower (py_str show_py v)) ` set ops"
  using assms by (auto simp: build_rules_def Let_def rbind_eq_Inr_iff)

lemma build_rules_tenants:
  "build_rules show_py s = Inr r \<Longrightarrow> pr_allowed_tenants r = set (rs_allowed_tenants (ss_report_skill s))"
  by (auto simp: build_rules_def Let_def rbind_eq_Inr_iff)

text \<open>Whenever the rules of a skill set can be built, an action passes them only if the user
  holds every permission that the report, the data and the retrieval skill require, the tenant is one
  the report skill is enabled for (if it names any), and the operation is none that the data skill
  lists as forbidden, whatever the case of its letters.\<close>

theorem skill_policy_sound:
  assumes "build_rules show_py s = Inr r" and "sd_allowed (evaluate_rules r c)"
  shows "set (rs_required_permissions (ss_report_skill s)) \<subseteq> set (sc_permissions c)
    \<and> (\<forall>d. ss_data_skill s = Some d \<longrightarrow> set (ds_required_permissions d) \<subseteq> set (sc_permissions c))
    \<and> (\<forall>v. ss_retrieval_skill s = Some v \<longrightarrow> set (vs_required_permissions v) \<subseteq> set (sc_permissions c))
    \<and> (rs_allowed_tenants (ss_report_skill s) \<noteq> [] \<longrightarrow>
         sc_tenant_id c \<in> set (rs_allowed_tenants (ss_report_skill s)))
    \<and> (\<forall>d ops f. ss_data_skill s = Some d \<longrightarrow>
         dget_or (ds_policy_constraints d) ''forbidden_operations'' (PList []) = PList ops \<longrightarrow>
         PStr f \<in> set ops \<longrightarrow> sc_operation c \<noteq> [] \<longrightarrow> lower (sc_operation c) \<noteq> lower f)"
proof (intro conjI allI impI)
  have perms: "set (skill_permissions s) \<subseteq> set (sc_permissions c)"
    using assms by (auto simp: evaluate_rules_allowed_iff build_rules_permissions)
  show "set (rs_required_permissions (ss_report_skill s)) \<subseteq> set (sc_permissions c)"
    using perms by (auto simp: skill_permissions_def)
  show "set (ds_required_permissions d) \<subseteq> set (sc_permissions c)" if "ss_data_skill s = Some d" for d
    using perms that by (auto simp: skill_permissions_def)
  show "set (vs_required_permissions v) \<subseteq> set (sc_permissions c)" if "ss_retrieval_skill s = Some v" for v
    using perms that by (auto simp: skill_permissions_def)
  show "sc_tenant_id c \<in> set (rs_allowed_tenants (ss_report_skill s))"
    if "rs_allowed_tenants (ss_report_skill s) \<noteq> []"
    using assms that by (auto simp: evaluate_rules_allowed_iff build_rules_tenants)
  show "lower (sc_operation c) \<noteq> lower f"
    if "ss_data_skill s = Some d"
      and "dget_or (ds_policy_constraints d) ''forbidden_operations'' (PList []) = PList ops"
      and "PStr f \<in> set ops" and "sc_operation c \<noteq> []" for d ops f
    using assms(2) that build_rules_forbidden [OF assms(1) that(1,2)]
    by (force simp: evaluate_rules_allowed_iff)
qed

definition demo_skills :: resolved_skill_set where
  "demo_skills =
     \<lparr>ss_report_skill = \<lparr>rs_required_permissions = [''report.read''], rs_allowed_tenants = [''t1''],
        rs_allowed_formats = [''PDF''], rs_publish_policy = []\<rparr>,
      ss_data_skill = Some \<lparr>ds_required_permissions = [''db.read''],
        ds_policy_constraints = [(''forbidden_operations'', PList [PStr ''Export''])]\<rparr>,
      ss_retrieval_skill = None\<rparr>"

definition demo_context :: skill_policy_context where
  "demo_context =
     \<lparr>sc_tenant_id = ''t1'', sc_permissions = [''db.read'', ''report.read''], sc_report_format = ''pdf'',
      sc_tenant_filter_present = PBool False, sc_operation = ''db_query'', sc_requested_fields = [],
      sc_web_fallback_requested = False\<rparr>"

lemma demo_rules_allow:
  "\<exists>r. build_rules (\<lambda>_. []) demo_skills = Inr r \<and> sd_allowed (evaluate_rules r demo_context)"
  by (simp add: build_rules_def demo_skills_def demo_context_def evaluate_rules_allowed_iff
      skill_permissions_def lower_def lower_char_def upper_letters_def lower_letters_def)

theorem skill_policy_sound_witness:
  "lower (sc_operation demo_context) \<noteq> lower ''Export''
   \<and> set (rs_required_permissions (ss_report_skill demo_skills)) \<subseteq> set (sc_permissions demo_context)"
proof -
  obtain r where r: "build_rules (\<lambda>_. []) demo_skills = Inr r" "sd_allowed (evaluate_rules r demo_context)"
    using demo_rules_allow by blast
  show ?thesis
    using skill_policy_sound [OF r] by (simp add: demo_skills_def demo_context_def)
qed

end
