(* ===== verification/React_Policy.thy ===== *)
theory React_Policy
  imports React_Models Skill_Policy
begin

text \<open>
  The policy guard of the ReAct subgraph (\<open>agent/langgraph/react/policy.py\<close>): every action passes
  \<open>evaluate\<close> before a tool runs. The skill constraints come first, then the white list, then the check
  of the tool. The validation of a raw skill set by pydantic is the argument \<open>validate\<close>, the
  rendering of non-string values by \<open>str()\<close> is \<open>show_py\<close>. A reason text is its template and
  values.
\<close>

datatype policy_decision_type = Allow | Deny | NeedsApproval | NeedsClarify | RewriteArguments

definition HIGH_RISK_KEYWORDS :: "string list" where
  "HIGH_RISK_KEYWORDS =
     [''drop'', ''delete'', ''truncate'', ''update'', ''insert'', ''alter'', ''create'', ''grant'',
      ''revoke'', ''--'', ''/*'', ''xp_'', ''exec'']"

definition WRITE_KEYWORDS :: "string list" where
  "WRITE_KEYWORDS =
     [''insert'', ''update'', ''delete'', ''drop'', ''alter'', ''create'', ''truncate'', ''replace'']"

definition DEFAULT_ALLOWED_TOOLS :: "string list" where
  "DEFAULT_ALLOWED_TOOLS =
     [''rag_search'', ''db_query'', ''web_search'', ''finish'', ''ask_clarification'']"

datatype skill_arg = NoSkillSet | SkillSet resolved_skill_set | RawSkillSet pyval

record policy_context =
  pc_tenant_id :: string
  pc_user_id :: string
  pc_tool_name :: string
  pc_action_type :: string
  pc_purpose :: string
  pc_arguments :: pdict
  pc_allowed_tools :: "string list"
  pc_agent_config :: agent_config
  pc_skill_set :: skill_arg

record policy_result =
  po_decision :: policy_decision_type
  po_reason :: message
  po_sanitized_arguments :: pdict
  po_requires_approval :: bool
  po_risk_level :: string

record policy_guard =
  pg_allowed_tools :: "string list"
  pg_tool_policies :: "(string \<times> pdict) list"

definition init_guard :: "agent_config \<Rightarrow> policy_guard res" where
  "init_guard cfg =
     rbind (read_section (ac_react cfg)) (\<lambda>react_cfg.
       Inr \<lparr>pg_allowed_tools =
              (case rc_allowed_tools react_cfg of
                 None \<Rightarrow> DEFAULT_ALLOWED_TOOLS
               | Some ts \<Rightarrow> if ts = [] then DEFAULT_ALLOWED_TOOLS else ts),
            pg_tool_policies = rc_policy react_cfg\<rparr>)"

definition refuse :: "policy_decision_type \<Rightarrow> message \<Rightarrow> string \<Rightarrow> policy_result" where
  "refuse d m risk =
     \<lparr>po_decision = d, po_reason = m, po_sanitized_arguments = [], po_requires_approval = False,
      po_risk_level = risk\<rparr>"

definition accept :: "message \<Rightarrow> pdict \<Rightarrow> policy_result" where
  "accept m args =
     \<lparr>po_decision = Allow, po_reason = m, po_sanitized_arguments = args,
      po_requires_approval = False, po_risk_level = ''low''\<rparr>"

text \<open>The SQL text of a database action: \<open>(args.get("sql") or args.get("query") or "").strip()\<close>.\<close>

definition sql_of :: "pdict \<Rightarrow> string res" where
  "sql_of args = py_strip (py_or (py_or (dget args ''sql'') (dget args ''query'')) (PStr []))"

definition query_of :: "pdict \<Rightarrow> string res" where
  "query_of args = py_strip (py_or (dget args ''query'') (PStr []))"

text \<open>A configured white list refuses a value: the list is a non-empty list without it.\<close>

fun outside_list :: "pyval \<Rightarrow> pyval \<Rightarrow> bool" where
  "outside_list v (PList xs) = (xs \<noteq> [] \<and> \<not> py_in v xs)"
| "outside_list v _ = False"

definition evaluate_db_query :: "policy_guard \<Rightarrow> policy_context \<Rightarrow> policy_result res" where
  "evaluate_db_query g ctx =
     (let args = pc_arguments ctx in
      rbind (sql_of args) (\<lambda>sql.
        let db_id = dget_or args ''db_id'' (PStr []);
            sql_lower = lower sql;
            db_policy = dget_or (pg_tool_policies g) ''db_query'' []
        in Inr
          (case find (\<lambda>kw. contains kw sql_lower) HIGH_RISK_KEYWORDS of
             Some kw \<Rightarrow> refuse Deny (Msg ''SQL contains a high-risk keyword'' [PStr kw]) ''high''
           | None \<Rightarrow>
             (case (if truthy (dget_or db_policy ''readonly'' (PBool True))
                    then find (\<lambda>kw. contains_word kw sql_lower) WRITE_KEYWORDS else None) of
                Some kw \<Rightarrow> refuse Deny (Msg ''read-only mode forbids the write'' [PStr kw]) ''high''
              | None \<Rightarrow>
                if \<not> contains_word ''limit'' sql_lower \<and> starts_with ''select'' sql_lower then
                  (refuse NeedsApproval (Msg ''SQL has no LIMIT clause'' []) ''medium'')
                    \<lparr>po_requires_approval := True\<rparr>
                else if truthy db_id \<and> truthy (dget db_policy ''allowed_db_ids'')
                        \<and> outside_list db_id (dget db_policy ''allowed_db_ids'') then
                  refuse Deny
                    (Msg ''database not in the white list'' [db_id, dget db_policy ''allowed_db_ids'']) ''high''
                else accept (Msg ''the database tool passes'' []) args))))"

definition SUSPICIOUS_WEB :: "string list" where
  "SUSPICIOUS_WEB = [''javascript:'', ''data:'', ''file://'', ''<script'', ''</script'']"

definition PRIVATE_PREFIXES :: "string list" where
  "PRIVATE_PREFIXES = [''127.'', ''10.'', ''192.168.'', ''172.16.'', ''localhost'']"

definition evaluate_web_search :: "policy_guard \<Rightarrow> policy_context \<Rightarrow> policy_result res" where
  "evaluate_web_search g ctx =
     (let args = pc_arguments ctx in
      rbind (query_of args) (\<lambda>query.
        let web_policy = dget_or (pg_tool_policies g) ''web_search'' [] in Inr
        (if query = [] then refuse Deny (Msg ''the web query is empty'' []) ''low''
         else
           (case find (\<lambda>kw. contains (lower kw) (lower query)) SUSPICIOUS_WEB of
              Some kw \<Rightarrow> refuse Deny (Msg ''the web query has suspicious content'' [PStr kw]) ''high''
            | None \<Rightarrow>
              (case (if dget_or web_policy ''allow_private_ip'' (PBool False) = PBool False
                     then find (\<lambda>p. contains p query) PRIVATE_PREFIXES else None) of
                 Some p \<Rightarrow> refuse Deny (Msg ''the web query names a private address'' [PStr p]) ''high''
               | None \<Rightarrow> accept (Msg ''the web tool passes'' []) args)))))"

definition evaluate_rag_search :: "policy_guard \<Rightarrow> policy_context \<Rightarrow> policy_result res" where
  "evaluate_rag_search g ctx =
     (let args = pc_arguments ctx in
      rbind (query_of args) (\<lambda>query.
        let rag_policy = dget_or (pg_tool_policies g) ''rag_search'' [];
            kb_ids = dget_or args ''kb_ids'' (PList []);
            allowed = dget rag_policy ''allowed_kb_ids''
        in if query = [] then
             Inr (refuse NeedsClarify (Msg ''the retrieval query is empty'' []) ''low'')
           else
             (case (if truthy kb_ids then allowed else PNone) of
                PList (a # as) \<Rightarrow>
                  rbind (py_iter kb_ids) (\<lambda>kbs. Inr
                    (case find (\<lambda>kb. \<not> py_in kb (a # as)) kbs of
                       Some kb \<Rightarrow> refuse Deny (Msg ''knowledge base not in the white list'' [kb]) ''medium''
                     | None \<Rightarrow> accept (Msg ''the retrieval tool passes'' []) args))
              | _ \<Rightarrow> Inr (accept (Msg ''the retrieval tool passes'' []) args))))"

text \<open>The context the skill rules are checked against.\<close>

definition skill_context ::
    "(pyval \<Rightarrow> string) \<Rightarrow> policy_context \<Rightarrow> string \<Rightarrow> skill_policy_context res" where
  "skill_context show_py ctx action_type =
     (let args = pc_arguments ctx;
          present = dget args ''tenant_filter_present''
      in rbind (py_iter (dget_or args ''fields'' (PList []))) (\<lambda>fields.
         Inr \<lparr>sc_tenant_id = pc_tenant_id ctx,
              sc_permissions = (case ac_permissions (pc_agent_config ctx) of None \<Rightarrow> [] | Some ps \<Rightarrow> ps),
              sc_report_format = py_str show_py (dget_or args ''format'' (PStr [])),
              sc_tenant_filter_present =
                (if present = PNone then PBool (truthy (dget args ''tenant_id'')) else present),
              sc_operation = py_str show_py (dget_or args ''operation'' (PStr action_type)),
              sc_requested_fields = fields,
              sc_web_fallback_requested =
                (truthy (dget_or args ''web_fallback'' (PBool False))
                 \<or> truthy (dget_or args ''use_web_fallback'' (PBool False)))\<rparr>))"

text \<open>\<open>None\<close> lets the later checks decide. A skill set that does not validate is ignored.\<close>

definition resolve_skill_arg ::
    "(pyval \<Rightarrow> resolved_skill_set res) \<Rightarrow> skill_arg \<Rightarrow> resolved_skill_set option res" where
  "resolve_skill_arg validate a =
     (case a of
        NoSkillSet \<Rightarrow> Inr None
      | SkillSet s \<Rightarrow> Inr (Some s)
      | RawSkillSet v \<Rightarrow>
          (case validate v of
             Inr s \<Rightarrow> Inr (Some s)
           | Inl TypeError \<Rightarrow> Inr None
           | Inl ValueError \<Rightarrow> Inr None
           | Inl e \<Rightarrow> Inl e))"

definition evaluate_skill_policy ::
    "(pyval \<Rightarrow> resolved_skill_set res) \<Rightarrow> (pyval \<Rightarrow> string) \<Rightarrow> policy_context \<Rightarrow> string
     \<Rightarrow> policy_result option res" where
  "evaluate_skill_policy validate show_py ctx action_type =
     rbind (resolve_skill_arg validate (pc_skill_set ctx)) (\<lambda>so.
       case so of
         None \<Rightarrow> Inr None
       | Some s \<Rightarrow>
           rbind (build_rules show_py s) (\<lambda>rules.
           rbind (skill_context show_py ctx action_type) (\<lambda>sctx.
             let res = evaluate_rules rules sctx
             in if sd_allowed res then Inr None
                else Inr (Some (refuse Deny
                  (Msg ''skill policy'' [PStr (sd_reason_code res)]) ''high'')))))"

text \<open>\<open>PolicyGuard.evaluate\<close>\<close>

definition evaluate ::
    "(pyval \<Rightarrow> resolved_skill_set res) \<Rightarrow> (pyval \<Rightarrow> string) \<Rightarrow> policy_guard \<Rightarrow> policy_context
     \<Rightarrow> policy_result res" where
  "evaluate validate show_py g ctx =
     (let action_type = (if pc_action_type ctx \<noteq> [] then pc_action_type ctx else pc_tool_name ctx)
      in rbind (evaluate_skill_policy validate show_py ctx action_type) (\<lambda>skill_decision.
         case skill_decision of
           Some r \<Rightarrow> Inr r
         | None \<Rightarrow>
             if action_type = ''finish'' \<or> action_type = ''ask_clarification'' then
               Inr (accept (Msg ''always allowed'' [PStr action_type]) (pc_arguments ctx))
             else if action_type \<notin> set (pg_allowed_tools g) then
               Inr (refuse Deny
                 (Msg ''tool not in the white list'' [PStr action_type, PList (map PStr (pg_allowed_tools g))])
                 ''medium'')
             else if action_type = ''db_query'' then evaluate_db_query g ctx
             else if action_type = ''web_search'' then evaluate_web_search g ctx
             else if action_type = ''rag_search'' then evaluate_rag_search g ctx
             else Inr (accept (Msg ''the tool passes'' [PStr action_type]) (pc_arguments ctx))))"

section \<open>Properties\<close>

lemma refuse_simps [simp]:
  "po_decision (refuse d m k) = d" "po_sanitized_arguments (refuse d m k) = []"
  "po_decision ((refuse d m k)\<lparr>po_requires_approval := b\<rparr>) = d"
  "po_sanitized_arguments ((refuse d m k)\<lparr>po_requires_approval := b\<rparr>) = []"
  by (simp_all add: refuse_def)

lemma accept_simps [simp]:
  "po_decision (accept m a) = Allow" "po_sanitized_arguments (accept m a) = a"
  by (simp_all add: accept_def)

lemma refuse_neq_accept [simp]: "d \<noteq> Allow \<Longrightarrow> refuse d m k \<noteq> accept m' a"
  by (simp add: refuse_def accept_def)

lemma outside_list_truthy: "outside_list v w \<Longrightarrow> truthy w"
  by (cases w) auto

lemma evaluate_db_query_allow:
  assumes "evaluate_db_query g ctx = Inr r" and "po_decision r \<notin> {Deny, NeedsApproval}"
  shows "\<exists>sql. sql_of (pc_arguments ctx) = Inr sql
    \<and> (\<forall>kw \<in> set HIGH_RISK_KEYWORDS. \<not> contains kw (lower sql))
    \<and> (starts_with ''select'' (lower sql) \<longrightarrow> contains_word ''limit'' (lower sql))
    \<and> \<not> (truthy (dget_or (pc_arguments ctx) ''db_id'' (PStr []))
          \<and> outside_list (dget_or (pc_arguments ctx) ''db_id'' (PStr []))
              (dget (dget_or (pg_tool_policies g) ''db_query'' []) ''allowed_db_ids''))
    \<and> po_decision r = Allow \<and> po_sanitized_arguments r = pc_arguments ctx"
proof -
  obtain sql where sql: "sql_of (pc_arguments ctx) = Inr sql"
    using assms(1) by (auto simp: evaluate_db_query_def Let_def rbind_eq_Inr_iff)
  have risk: "find (\<lambda>kw. contains kw (lower sql)) HIGH_RISK_KEYWORDS = None"
    using assms sql by (auto simp: evaluate_db_query_def Let_def split: option.splits)
  let ?db = "dget_or (pg_tool_policies g) ''db_query'' []"
  have wr: "(if truthy (dget_or ?db ''readonly'' (PBool True))
      then find (\<lambda>kw. contains_word kw (lower sql)) WRITE_KEYWORDS else None) = None"
    using assms sql risk by (auto simp: evaluate_db_query_def Let_def split: option.splits)
  show ?thesis
    using assms sql risk wr outside_list_truthy
    by (auto simp: evaluate_db_query_def Let_def find_None_iff split: if_splits)
qed

text \<open>What the guard promises for the actions it does not refuse.\<close>

lemma evaluate_not_refused:
  assumes "evaluate validate show_py g ctx = Inr r" and "po_decision r \<notin> {Deny, NeedsApproval}"
    and "pc_action_type ctx = a" and "a \<noteq> []"
  shows "a \<in> {''finish'', ''ask_clarification''} \<or>
         (a \<in> set (pg_allowed_tools g) \<and> (a = ''db_query'' \<longrightarrow> evaluate_db_query g ctx = Inr r))"
  using assms
  by (auto simp: evaluate_def evaluate_skill_policy_def Let_def rbind_eq_Inr_iff
      split: option.splits if_splits)

lemma evaluate_web_search_allow:
  assumes "evaluate_web_search g ctx = Inr r" and "po_decision r = Allow"
  shows "\<exists>q. query_of (pc_arguments ctx) = Inr q \<and> q \<noteq> []
    \<and> (\<forall>kw \<in> set SUSPICIOUS_WEB. \<not> contains (lower kw) (lower q))
    \<and> (dget_or (dget_or (pg_tool_policies g) ''web_search'' []) ''allow_private_ip'' (PBool False) = PBool False
        \<longrightarrow> (\<forall>p \<in> set PRIVATE_PREFIXES. \<not> contains p q))"
  using assms
  by (auto simp: evaluate_web_search_def Let_def rbind_eq_Inr_iff find_None_iff
      split: if_splits option.splits)

lemma evaluate_rag_search_query:
  assumes "evaluate_rag_search g ctx = Inr r" and "po_decision r = Allow"
  shows "\<exists>q. query_of (pc_arguments ctx) = Inr q \<and> q \<noteq> []"
proof -
  obtain q where q: "query_of (pc_arguments ctx) = Inr q"
    using assms by (auto simp: evaluate_rag_search_def Let_def rbind_eq_Inr_iff)
  moreover from q assms have "q \<noteq> []"
    by (auto simp: evaluate_rag_search_def Let_def)
  ultimately show ?thesis by blast
qed

lemma evaluate_rag_search_kbs:
  assumes "evaluate_rag_search g ctx = Inr r" and "po_decision r = Allow"
    and "dget (dget_or (pg_tool_policies g) ''rag_search'' []) ''allowed_kb_ids'' = PList (a # as)"
    and "dget_or (pc_arguments ctx) ''kb_ids'' (PList []) = PList kbs"
  shows "\<forall>kb \<in> set kbs. py_in kb (a # as)"
proof (cases kbs)
  case (Cons k ks)
  obtain q where "query_of (pc_arguments ctx) = Inr q" "q \<noteq> []"
    using evaluate_rag_search_query [OF assms(1,2)] by blast
  with assms Cons have "find (\<lambda>kb. \<not> py_in kb (a # as)) kbs = None"
    by (cases "find (\<lambda>kb. \<not> py_in kb (a # as)) kbs") (auto simp: evaluate_rag_search_def Let_def)
  then show ?thesis by (auto simp: find_None_iff)
qed simp

text \<open>The guard lets a web search run only with a non-empty query that contains no script or local
  URL scheme in any case of letters and, unless the policy allows private addresses, none of the
  private-address prefixes; and a retrieval only with a non-empty query and, when a white list of
  knowledge bases is configured, only with knowledge bases of that list. Either tool must be in the
  guard's own list of tools.\<close>

theorem policy_guard_search_rules:
  assumes "evaluate validate show_py g ctx = Inr r" and "po_decision r = Allow"
    and "pc_action_type ctx \<in> {''web_search'', ''rag_search''}"
  shows "pc_action_type ctx \<in> set (pg_allowed_tools g)
    \<and> (\<exists>q. query_of (pc_arguments ctx) = Inr q \<and> q \<noteq> []
         \<and> (pc_action_type ctx = ''web_search'' \<longrightarrow>
              (\<forall>kw \<in> set SUSPICIOUS_WEB. \<not> contains (lower kw) (lower q))
              \<and> (dget_or (dget_or (pg_tool_policies g) ''web_search'' []) ''allow_private_ip''
                    (PBool False) = PBool False
                 \<longrightarrow> (\<forall>p \<in> set PRIVATE_PREFIXES. \<not> contains p q))))
    \<and> (pc_action_type ctx = ''rag_search'' \<longrightarrow>
         (\<forall>allowed kbs. dget (dget_or (pg_tool_policies g) ''rag_search'' []) ''allowed_kb_ids'' = PList allowed
            \<longrightarrow> allowed \<noteq> [] \<longrightarrow> dget_or (pc_arguments ctx) ''kb_ids'' (PList []) = PList kbs
            \<longrightarrow> (\<forall>kb \<in> set kbs. py_in kb allowed)))"
proof (cases "pc_action_type ctx = ''web_search''")
  case True
  then have "pc_action_type ctx \<in> set (pg_allowed_tools g) \<and> evaluate_web_search g ctx = Inr r"
    using assms(1,2)
    by (auto simp: evaluate_def evaluate_skill_policy_def Let_def rbind_eq_Inr_iff
        split: option.splits if_splits)
  with True evaluate_web_search_allow assms(2) show ?thesis by auto
next
  case False
  with assms(3) have a: "pc_action_type ctx = ''rag_search''" by simp
  then have "pc_action_type ctx \<in> set (pg_allowed_tools g)" "evaluate_rag_search g ctx = Inr r"
    using assms(1,2)
    by (auto simp: evaluate_def evaluate_skill_policy_def Let_def rbind_eq_Inr_iff
        split: option.splits if_splits)
  with a evaluate_rag_search_query evaluate_rag_search_kbs assms(2) show ?thesis
    by (auto simp: neq_Nil_conv)
qed

definition demo_web_context :: policy_context where
  "demo_web_context =
     \<lparr>pc_tenant_id = ''t'', pc_user_id = ''u'', pc_tool_name = ''web_search'',
      pc_action_type = ''web_search'', pc_purpose = [], pc_arguments = [(''query'', PStr '' rag '')],
      pc_allowed_tools = [], pc_agent_config = \<lparr>ac_react = NoReact, ac_loop_guard = None, ac_permissions = None\<rparr>,
      pc_skill_set = RawSkillSet PNone\<rparr>"

definition demo_guard :: policy_guard where
  "demo_guard = \<lparr>pg_allowed_tools = DEFAULT_ALLOWED_TOOLS, pg_tool_policies = []\<rparr>"

lemma demo_web_allowed:
  "case evaluate (\<lambda>_. Inl ValueError) (\<lambda>_. []) demo_guard demo_web_context of
     Inl _ \<Rightarrow> False | Inr r \<Rightarrow> po_decision r = Allow"
  by code_simp

theorem policy_guard_search_rules_witness:
  "\<exists>q. query_of (pc_arguments demo_web_context) = Inr q \<and> \<not> contains ''file://'' (lower q)"
proof -
  obtain r where r: "evaluate (\<lambda>_. Inl ValueError) (\<lambda>_. []) demo_guard demo_web_context = Inr r"
    "po_decision r = Allow"
    using demo_web_allowed by (auto split: sum.splits)
  have w: "pc_action_type demo_web_context = ''web_search''" by (simp add: demo_web_context_def)
  have k: "lower ''file://'' = ''file://''" "''file://'' \<in> set SUSPICIOUS_WEB" by code_simp+
  have "pc_action_type demo_web_context \<in> {''web_search'', ''rag_search''}" using w by simp
  from policy_guard_search_rules [OF r this] w k show ?thesis by (metis (no_types))
qed

text \<open>The read-only switch of the database policy matters only for the word \<open>replace\<close>: for every SQL
  text without that word, the decision is the same as with \<open>readonly\<close> switched off, because the
  high-risk check, which comes first and looks for substrings, already covers all the other write
  keywords.\<close>

theorem readonly_adds_only_replace:
  assumes "sql_of (pc_arguments ctx) = Inr sql" and "\<not> contains_word ''replace'' (lower sql)"
  shows "evaluate_db_query g ctx =
    evaluate_db_query (g\<lparr>pg_tool_policies :=
      [(''db_query'', dset (dget_or (pg_tool_policies g) ''db_query'' []) ''readonly'' (PBool False))]\<rparr>) ctx"
proof (cases "find (\<lambda>kw. contains kw (lower sql)) HIGH_RISK_KEYWORDS")
  case None
  have "kw \<in> set HIGH_RISK_KEYWORDS \<or> kw = ''replace''" if "kw \<in> set WRITE_KEYWORDS" for kw
    using that by (auto simp: WRITE_KEYWORDS_def HIGH_RISK_KEYWORDS_def)
  with None assms(2) have "find (\<lambda>kw. contains_word kw (lower sql)) WRITE_KEYWORDS = None"
    by (auto simp: find_None_iff dest: contains_word_contains)
  with None assms(1) show ?thesis by (simp add: evaluate_db_query_def Let_def)
next
  case (Some kw)
  with assms(1) show ?thesis by (simp add: evaluate_db_query_def Let_def)
qed

definition demo_db_context :: policy_context where
  "demo_db_context = demo_web_context\<lparr>pc_action_type := ''db_query'',
     pc_arguments := [(''sql'', PStr ''SELECT updated_at FROM t LIMIT 1'')]\<rparr>"

lemma demo_db_sql: "sql_of (pc_arguments demo_db_context) = Inr ''SELECT updated_at FROM t LIMIT 1''"
  "\<not> contains_word ''replace'' (lower ''SELECT updated_at FROM t LIMIT 1'')"
  by code_simp+

theorem readonly_adds_only_replace_witness:
  "evaluate_db_query demo_guard demo_db_context =
     evaluate_db_query (demo_guard\<lparr>pg_tool_policies := [(''db_query'', [(''readonly'', PBool False)])]\<rparr>)
       demo_db_context"
  using readonly_adds_only_replace [OF demo_db_sql, of demo_guard] by (simp add: demo_guard_def)

text \<open>A skill set that does not validate is as good as none: the guard decides exactly as if no
  skill set had been passed, so its permissions, tenants and forbidden operations are not enforced.\<close>

theorem invalid_skill_set_is_ignored:
  assumes "validate v \<in> {Inl ValueError, Inl TypeError}"
  shows "evaluate validate show_py g (ctx\<lparr>pc_skill_set := RawSkillSet v\<rparr>)
    = evaluate validate show_py g (ctx\<lparr>pc_skill_set := NoSkillSet\<rparr>)"
proof -
  have "evaluate_skill_policy validate show_py (ctx\<lparr>pc_skill_set := RawSkillSet v\<rparr>) t
      = evaluate_skill_policy validate show_py (ctx\<lparr>pc_skill_set := NoSkillSet\<rparr>) t" for t
    using assms by (auto simp: evaluate_skill_policy_def resolve_skill_arg_def)
  moreover have "evaluate_db_query g (ctx\<lparr>pc_skill_set := x\<rparr>) = evaluate_db_query g ctx"
    "evaluate_web_search g (ctx\<lparr>pc_skill_set := x\<rparr>) = evaluate_web_search g ctx"
    "evaluate_rag_search g (ctx\<lparr>pc_skill_set := x\<rparr>) = evaluate_rag_search g ctx" for x
    by (simp_all add: evaluate_db_query_def evaluate_web_search_def evaluate_rag_search_def)
  ultimately show ?thesis by (simp add: evaluate_def Let_def)
qed

theorem invalid_skill_set_is_ignored_witness:
  "evaluate (\<lambda>_. Inl ValueError) (\<lambda>_. []) demo_guard (demo_web_context\<lparr>pc_skill_set := RawSkillSet PNone\<rparr>)
   = evaluate (\<lambda>_. Inl ValueError) (\<lambda>_. []) demo_guard (demo_web_context\<lparr>pc_skill_set := NoSkillSet\<rparr>)"
  by (rule invalid_skill_set_is_ignored) simp

end
