(* ===== verification/React_Step.thy ===== *)
theory React_Step
  imports React_Models Json
begin

text \<open>
  One reasoning step of the ReAct subgraph (\<open>agent/langgraph/react/step.py\<close>): from the text a
  language model returns to an action. \<open>extract_json\<close> tries the whole text, a fenced block and the
  first balanced braces that parse; \<open>coerce_to_action\<close> reads the action leniently;
  \<open>parse_llm_output\<close> always returns an action and ends the run when there is none to read.
  The prompt and the model behind it are the argument \<open>llm\<close> of \<open>reason_step\<close>.
\<close>

section \<open>Finding the JSON object\<close>

text \<open>The search of the pattern \<open>```(?:json)?\\s*(\\{.*?\\})\\s*```\<close> with dot matching newlines:
  the first fence from which the pattern matches, and there the shortest block that is followed by
  white space and a fence.\<close>

definition FENCE :: string where
  "FENCE = [CHR 0x60, CHR 0x60, CHR 0x60]"

fun close_fence :: "string \<Rightarrow> string option" where
  "close_fence [] = None"
| "close_fence (c # cs) =
     (if c = CHR ''}'' \<and> starts_with FENCE (lstrip cs) then Some [c]
      else map_option (\<lambda>b. c # b) (close_fence cs))"

definition fence_at :: "string \<Rightarrow> string option" where
  "fence_at s =
     (if starts_with FENCE s then
        (let r = drop 3 s;
             r1 = lstrip (if starts_with ''json'' r then drop 4 r else r)
         in if next_is CHR ''{'' r1 then map_option (\<lambda>b. CHR ''{'' # b) (close_fence (tl r1)) else None)
      else None)"

fun fence_search :: "string \<Rightarrow> string option" where
  "fence_search [] = None"
| "fence_search (c # cs) =
     (case fence_at (c # cs) of Some b \<Rightarrow> Some b | None \<Rightarrow> fence_search cs)"

text \<open>The scan from an opening brace to the brace that closes it.\<close>

fun balanced :: "int \<Rightarrow> string \<Rightarrow> string option" where
  "balanced depth [] = None"
| "balanced depth (c # cs) =
     (if c = CHR ''{'' then map_option (\<lambda>b. c # b) (balanced (depth + 1) cs)
      else if c = CHR ''}'' then
        (if depth - 1 = 0 then Some [c] else map_option (\<lambda>b. c # b) (balanced (depth - 1) cs))
      else map_option (\<lambda>b. c # b) (balanced depth cs))"

fun try_starts :: "string \<Rightarrow> pyval option" where
  "try_starts [] = None"
| "try_starts (c # cs) =
     (if c = CHR ''{'' then
        (case balanced 0 (c # cs) of
           None \<Rightarrow> try_starts cs
         | Some candidate \<Rightarrow>
             (case json_loads candidate of Some v \<Rightarrow> Some v | None \<Rightarrow> try_starts cs))
      else try_starts cs)"

definition extract_json :: "string \<Rightarrow> pyval option" where
  "extract_json text0 =
     (if text0 = [] then None
      else
        (let t = strip text0 in
         case json_loads t of
           Some v \<Rightarrow> Some v
         | None \<Rightarrow>
             (case (case fence_search t of None \<Rightarrow> None | Some b \<Rightarrow> json_loads b) of
                Some v \<Rightarrow> Some v
              | None \<Rightarrow> try_starts t)))"

section \<open>Reading the action\<close>

text \<open>The texts of the finish action ("end ReAct", "the LLM output cannot be parsed, forced end",
  "the action field is missing, forced end"), in UTF-8.\<close>

definition FINISH_PURPOSE :: string where
  "FINISH_PURPOSE =
     [CHR 0xE7, CHR 0xBB, CHR 0x93, CHR 0xE6, CHR 0x9D, CHR 0x9F, CHR 0x20, CHR 0x52, CHR 0x65,
      CHR 0x41, CHR 0x63, CHR 0x74]"

definition PARSE_FAILED :: string where
  "PARSE_FAILED =
     [CHR 0x4C, CHR 0x4C, CHR 0x4D, CHR 0x20, CHR 0xE8, CHR 0xBE, CHR 0x93, CHR 0xE5, CHR 0x87,
      CHR 0xBA, CHR 0xE8, CHR 0xA7, CHR 0xA3, CHR 0xE6, CHR 0x9E, CHR 0x90, CHR 0xE5, CHR 0xA4,
      CHR 0xB1, CHR 0xE8, CHR 0xB4, CHR 0xA5, CHR 0xEF, CHR 0xBC, CHR 0x8C, CHR 0xE5, CHR 0xBC,
      CHR 0xBA, CHR 0xE5, CHR 0x88, CHR 0xB6, CHR 0xE7, CHR 0xBB, CHR 0x93, CHR 0xE6, CHR 0x9D,
      CHR 0x9F]"

definition ACTION_MISSING :: string where
  "ACTION_MISSING =
     [CHR 0x41, CHR 0x63, CHR 0x74, CHR 0x69, CHR 0x6F, CHR 0x6E, CHR 0x20, CHR 0xE5, CHR 0xAD,
      CHR 0x97, CHR 0xE6, CHR 0xAE, CHR 0xB5, CHR 0xE7, CHR 0xBC, CHR 0xBA, CHR 0xE5, CHR 0xA4,
      CHR 0xB1, CHR 0xEF, CHR 0xBC, CHR 0x8C, CHR 0xE5, CHR 0xBC, CHR 0xBA, CHR 0xE5, CHR 0x88,
      CHR 0xB6, CHR 0xE7, CHR 0xBB, CHR 0x93, CHR 0xE6, CHR 0x9D, CHR 0x9F]"

fun section_of :: "pyval \<Rightarrow> pdict" where
  "section_of (PDict d) = d"
| "section_of _ = []"

text \<open>\<open>action_type.strip()\<close> if it is a string, else the empty string.\<close>

fun strip_str :: "pyval \<Rightarrow> string" where
  "strip_str (PStr s) = strip s"
| "strip_str _ = []"

fun clip_str :: "nat \<Rightarrow> pyval \<Rightarrow> pyval" where
  "clip_str n (PStr s) = PStr (if u_len s > n then u_take n s else s)"
| "clip_str n v = v"

definition raw_arguments :: "pdict \<Rightarrow> pdict \<Rightarrow> pyval" where
  "raw_arguments sec parsed =
     (let a = py_or (dget sec ''arguments'') (dget parsed ''arguments'')
      in if a = PNone then
           PDict (if sec \<noteq> []
                  then filter (\<lambda>p. fst p \<notin> {''type'', ''tool_name'', ''purpose''}) sec else [])
         else a)"

fun arguments_dict :: "pyval \<Rightarrow> pdict" where
  "arguments_dict (PDict d) = d"
| "arguments_dict v = [(''value'', v)]"

definition coerce_to_action :: "(pyval \<Rightarrow> string) \<Rightarrow> pyval \<Rightarrow> react_action option" where
  "coerce_to_action show_py v =
     (case v of
        PDict parsed \<Rightarrow>
          (let sec = section_of (dget parsed ''action'');
               action_type = strip_str
                 (py_or (dget sec ''type'') (py_or (dget parsed ''type'')
                   (py_or (dget parsed ''action_type'') (py_or (dget parsed ''tool_name'') (PStr [])))))
           in if action_type = [] then None
              else
                (let thought = clip_str 200
                       (py_or (dget parsed ''thought_summary'') (py_or (dget parsed ''thought'')
                         (py_or (dget parsed ''reasoning'') (PStr []))));
                     purpose = py_or (dget sec ''purpose'') (py_or (dget parsed ''purpose'') (PStr []))
                 in Some \<lparr>act_type = action_type,
                          act_tool_name =
                            (if sec \<noteq> [] then dget_or sec ''tool_name'' (PStr action_type)
                             else PStr action_type),
                          act_purpose = py_str show_py purpose,
                          act_arguments = arguments_dict (raw_arguments sec parsed),
                          act_thought_summary = py_str show_py thought\<rparr>))
      | _ \<Rightarrow> None)"

definition finish_action :: "string \<Rightarrow> string \<Rightarrow> react_action" where
  "finish_action summary answer_hint =
     \<lparr>act_type = ''finish'', act_tool_name = PStr ''finish'',
      act_purpose = (if summary \<noteq> [] then summary else FINISH_PURPOSE),
      act_arguments = [(''summary'', PStr summary), (''answer_hint'', PStr answer_hint)],
      act_thought_summary = (if summary \<noteq> [] then u_take 200 summary else ''Finish'')\<rparr>"

definition parse_llm_output :: "(pyval \<Rightarrow> string) \<Rightarrow> string \<Rightarrow> react_action" where
  "parse_llm_output show_py llm_output =
     (case extract_json llm_output of
        None \<Rightarrow> finish_action PARSE_FAILED []
      | Some PNone \<Rightarrow> finish_action PARSE_FAILED []
      | Some v \<Rightarrow>
          (case coerce_to_action show_py v of
             None \<Rightarrow> finish_action ACTION_MISSING []
           | Some a \<Rightarrow> a))"

definition reason_step ::
    "(pyval \<Rightarrow> string) \<Rightarrow> (string \<Rightarrow> react_state \<Rightarrow> string res) \<Rightarrow> string \<Rightarrow> react_state
     \<Rightarrow> react_action res" where
  "reason_step show_py llm goal st =
     rbind (llm goal st) (\<lambda>out. Inr (parse_llm_output show_py out))"

section \<open>Properties\<close>

lemma finish_action_type [simp]: "act_type (finish_action s h) = ''finish''"
  by (simp add: finish_action_def)

lemma coerce_type_nonempty: "coerce_to_action show_py v = Some a \<Longrightarrow> act_type a \<noteq> []"
  by (auto simp: coerce_to_action_def Let_def split: pyval.splits if_splits)

lemma parse_type_nonempty: "act_type (parse_llm_output show_py s) \<noteq> []"
  by (auto simp: parse_llm_output_def split: option.split pyval.split dest: coerce_type_nonempty)

text \<open>The candidates are parts of the text.\<close>

lemma close_fence_prefix: "close_fence s = Some b \<Longrightarrow> \<exists>q. s = b @ q"
  by (induction s arbitrary: b) (fastforce split: if_splits)+

lemma balanced_prefix: "balanced d s = Some b \<Longrightarrow> \<exists>q. s = b @ q"
  by (induction d s arbitrary: b rule: balanced.induct) (fastforce split: if_splits)+

lemma strip_front_suffix: "\<exists>p. s = p @ strip_front ws s"
proof (induction ws s rule: strip_front.induct)
  case (1 ws s)
  show ?case
  proof (cases "ws_front ws s = 0 \<or> s = []")
    case True
    then show ?thesis by (subst strip_front.simps) (simp add: Let_def)
  next
    case False
    with "1.IH" obtain p where "drop (ws_front ws s) s = p @ strip_front ws (drop (ws_front ws s) s)"
      by metis
    then have "s = (take (ws_front ws s) s @ p) @ strip_front ws (drop (ws_front ws s) s)"
      by (metis append.assoc append_take_drop_id)
    moreover have "strip_front ws s = strip_front ws (drop (ws_front ws s) s)"
      using False by (subst strip_front.simps) (simp add: Let_def)
    ultimately show ?thesis by metis
  qed
qed

lemma lstrip_suffix: "\<exists>p. s = p @ lstrip s"
  unfolding lstrip_def by (rule strip_front_suffix)

lemma fence_at_infix:
  assumes "fence_at s = Some b"
  shows "\<exists>p q. s = p @ b @ q"
proof -
  define n where "n = (if starts_with ''json'' (drop 3 s) then 7 else 3 :: nat)"
  have r: "(if starts_with ''json'' (drop 3 s) then drop 4 (drop 3 s) else drop 3 s) = drop n s"
    by (simp add: n_def)
  from assms obtain b' where b: "b = CHR ''{'' # b'" "close_fence (tl (lstrip (drop n s))) = Some b'"
    and nx: "next_is CHR ''{'' (lstrip (drop n s))"
    by (auto simp: fence_at_def Let_def r simp del: drop_drop split: if_splits)
  from close_fence_prefix [OF b(2)] obtain q where q: "tl (lstrip (drop n s)) = b' @ q" by blast
  from nx q b(1) have l: "lstrip (drop n s) = b @ q"
    by (cases "lstrip (drop n s)") (auto simp: next_is_def)
  obtain p where "drop n s = p @ lstrip (drop n s)" using lstrip_suffix by blast
  with l have "s = (take n s @ p) @ b @ q" by (metis append.assoc append_take_drop_id)
  then show ?thesis by blast
qed

lemma fence_search_infix: "fence_search s = Some b \<Longrightarrow> \<exists>p q. s = p @ b @ q"
proof (induction s)
  case Nil
  then show ?case by simp
next
  case (Cons c cs)
  show ?case
  proof (cases "fence_at (c # cs)")
    case None
    with Cons obtain p q where "cs = p @ b @ q" by auto
    then have "c # cs = (c # p) @ b @ q" by simp
    then show ?thesis by blast
  next
    case (Some b')
    with Cons.prems have "fence_at (c # cs) = Some b" by simp
    then show ?thesis by (rule fence_at_infix)
  qed
qed

lemma try_starts_infix: "try_starts s = Some v \<Longrightarrow> \<exists>p b q. s = p @ b @ q \<and> json_loads b = Some v"
proof (induction s)
  case Nil
  then show ?case by simp
next
  case (Cons c cs)
  show ?case
  proof (cases "try_starts cs = Some v")
    case True
    with Cons.IH obtain p b q where "cs = p @ b @ q" "json_loads b = Some v" by blast
    then have "c # cs = (c # p) @ b @ q \<and> json_loads b = Some v" by simp
    then show ?thesis by blast
  next
    case False
    with Cons.prems obtain b where "balanced 0 (c # cs) = Some b" "json_loads b = Some v"
      by (auto split: if_splits option.splits)
    with balanced_prefix have "\<exists>q. c # cs = [] @ b @ q \<and> json_loads b = Some v" by fastforce
    then show ?thesis by blast
  qed
qed

lemma balanced_append: "balanced d s = Some b \<Longrightarrow> balanced d (s @ t) = Some b"
  by (induction d s arbitrary: b rule: balanced.induct) (auto split: if_splits)

lemma try_starts_skip: "CHR ''{'' \<notin> set p \<Longrightarrow> try_starts (p @ s) = try_starts s"
  by (induction p) auto

text \<open>What the extraction returns is the JSON reading of a part of the stripped text: the
  subgraph never acts on a value that the model's text does not spell out.\<close>

theorem extract_json_sound:
  assumes "extract_json t = Some v"
  shows "\<exists>p b q. strip t = p @ b @ q \<and> json_loads b = Some v"
proof -
  consider "json_loads (strip t) = Some v"
    | b where "fence_search (strip t) = Some b" "json_loads b = Some v"
    | "try_starts (strip t) = Some v"
    using assms by (auto simp: extract_json_def Let_def split: if_splits option.splits)
  then show ?thesis
  proof cases
    case 1
    then have "strip t = [] @ strip t @ [] \<and> json_loads (strip t) = Some v" by simp
    then show ?thesis by blast
  next
    case 2
    then show ?thesis using fence_search_infix by blast
  next
    case 3
    then show ?thesis by (rule try_starts_infix)
  qed
qed

text \<open>An object wrapped in prose is found. If the text as a whole and its fenced block do not
  parse, no brace precedes the object and the scan of the braces ends at the object's end, the
  extraction returns the object.\<close>

theorem extract_json_prose:
  assumes "strip t = p @ obj @ q" and "t \<noteq> []" and "json_loads (strip t) = None"
    and "case fence_search (strip t) of None \<Rightarrow> True | Some b \<Rightarrow> json_loads b = None"
    and "CHR ''{'' \<notin> set p" and "obj = CHR ''{'' # body" and "balanced 0 obj = Some obj"
    and "json_loads obj = Some v"
  shows "extract_json t = Some v"
proof -
  have "balanced 0 (CHR ''{'' # body @ q) = Some obj"
    using balanced_append [OF assms(7), of q] assms(6) by simp
  with assms(8) have "try_starts (CHR ''{'' # body @ q) = Some v"
    by (subst try_starts.simps) (simp del: balanced.simps)
  then have "try_starts (strip t) = Some v"
    using assms(1,5,6) by (simp add: try_starts_skip del: try_starts.simps)
  with assms(2,3,4) show ?thesis
    by (auto simp: extract_json_def Let_def split: option.splits)
qed

definition demo_text :: string where
  "demo_text = ''Sure: {} is it''"

theorem extract_json_sound_witness:
  "\<exists>p b q. strip demo_text = p @ b @ q \<and> json_loads b = Some (PDict [])"
proof -
  have "extract_json demo_text = Some (PDict [])" by code_simp
  then show ?thesis by (rule extract_json_sound)
qed

theorem extract_json_prose_witness: "extract_json demo_text = Some (PDict [])"
proof (rule extract_json_prose)
  show "strip demo_text = ''Sure: '' @ ''{}'' @ '' is it''" by code_simp
  show "demo_text \<noteq> []" by code_simp
  show "json_loads (strip demo_text) = None" by code_simp
  show "case fence_search (strip demo_text) of None \<Rightarrow> True | Some b \<Rightarrow> json_loads b = None"
    by code_simp
  show "CHR ''{'' \<notin> set ''Sure: ''" by simp
  show "''{}'' = CHR ''{'' # ''}''" by simp
  show "balanced 0 ''{}'' = Some ''{}''" by code_simp
  show "json_loads ''{}'' = Some (PDict [])" by code_simp
qed

end
