(* ===== verification/React_Executor.thy ===== *)
theory React_Executor
  imports React_Models
begin

text \<open>
  The tool executor of the ReAct subgraph (\<open>agent/langgraph/react/executor.py\<close>). The tools behind
  \<open>get_rag_tool\<close>, \<open>get_sql_agent_runner\<close> and \<open>get_web_tool\<close>, with the 30-second
  \<open>asyncio.wait_for\<close> around them, are the argument \<open>invoke\<close> (a timeout is \<open>Inl TimeoutError\<close>);
  the evidence normaliser is \<open>normalize\<close>; \<open>float()\<close> of a string is \<open>float_of_str\<close>, \<open>str()\<close> of a
  non-string is \<open>show_py\<close>; \<open>latency\<close> is the measured time. A tool that fails or times out becomes a
  failed observation; an exception of the normaliser propagates.
\<close>

datatype tool_kind = RagTool | SqlAgentRunner | WebTool

definition MAX_OBSERVATION_CHARS :: nat where
  "MAX_OBSERVATION_CHARS = 3000"

definition ELLIPSIS :: string where
  "ELLIPSIS = [CHR 0xE2, CHR 0x80, CHR 0xA6]"

section \<open>Tool inputs\<close>

definition rag_input ::
    "(string \<Rightarrow> rat res) \<Rightarrow> pdict \<Rightarrow> string \<Rightarrow> string \<Rightarrow> string list \<Rightarrow> pdict res" where
  "rag_input float_of_str args tenant_id llm_id kb_ids =
     rbind (py_int (dget_or args ''top_k'' (PInt 5))) (\<lambda>top_k.
     rbind (py_float float_of_str (dget_or args ''similarity_threshold'' (PFloat (2 / 10)))) (\<lambda>sim.
     rbind (py_float float_of_str (dget_or args ''keywords_similarity_weight'' (PFloat (5 / 10)))) (\<lambda>kw.
       Inr [(''query'', py_or (dget args ''query'') (py_or (dget args ''query_text'') (PStr []))),
            (''query_simplified'', dget_or args ''query_simplified'' (PStr [])),
            (''top_k'', PInt top_k),
            (''enable_rewrite'', dget_or args ''enable_rewrite'' (PBool True)),
            (''enable_rerank'', dget_or args ''enable_rerank'' (PBool True)),
            (''kb_ids'', py_or (dget args ''kb_ids'') (PList (map PStr kb_ids))),
            (''tenant_id'', PStr tenant_id),
            (''llm_id'', PStr llm_id),
            (''similarity_threshold'', PFloat sim),
            (''keywords_similarity_weight'', PFloat kw),
            (''rerank_id'', dget_or args ''rerank_id'' (PStr []))])))"

definition db_input :: "pdict \<Rightarrow> string \<Rightarrow> string \<Rightarrow> string \<Rightarrow> string \<Rightarrow> pdict" where
  "db_input args tenant_id llm_id db_id mcp_server_name =
     [(''query'', py_or (dget args ''query'') (py_or (dget args ''sql'') (PStr []))),
      (''db_id'', py_or (dget args ''db_id'') (PStr db_id)),
      (''tenant_id'', PStr tenant_id),
      (''llm_id'', PStr llm_id),
      (''mcp_server_name'', py_or (dget args ''mcp_server_name'') (PStr mcp_server_name)),
      (''enable_self_healing'', dget_or args ''enable_self_healing'' (PBool True))]"

definition web_input :: "pdict \<Rightarrow> pdict res" where
  "web_input args =
     rbind (py_int (dget_or args ''max_results'' (PInt 5))) (\<lambda>n.
       Inr [(''query'', py_or (dget args ''query'') (PStr [])),
            (''max_results'', PInt n),
            (''search_engine'', dget_or args ''search_engine'' (PStr ''tavily'')),
            (''search_depth'', dget_or args ''search_depth'' (PStr ''basic''))])"

section \<open>Observations\<close>

definition make_error_observation :: "string \<Rightarrow> message \<Rightarrow> int \<Rightarrow> string \<Rightarrow> react_observation" where
  "make_error_observation action_type err latency_ms risk_level =
     \<lparr>obs_action_type = action_type, obs_success = False, obs_content = [],
      obs_structured_data = [], obs_error = err, obs_latency_ms = latency_ms,
      obs_risk_level = risk_level, obs_truncated = False, obs_metadata = []\<rparr>"

definition truncate_observation_content :: "string \<Rightarrow> string \<times> bool" where
  "truncate_observation_content content =
     (if content = [] then ([], False)
      else if u_len content \<le> MAX_OBSERVATION_CHARS then (content, False)
      else (u_take MAX_OBSERVATION_CHARS content @ ELLIPSIS, True))"

text \<open>\<open>v[:n]\<close> inside a formatted string.\<close>

fun slice_text :: "(pyval \<Rightarrow> string) \<Rightarrow> nat \<Rightarrow> pyval \<Rightarrow> string res" where
  "slice_text show_py n (PStr s) = Inr (u_take n s)"
| "slice_text show_py n (PList xs) = Inr (show_py (PList (take n xs)))"
| "slice_text show_py n _ = Inl TypeError"

definition evidence_line :: "(pyval \<Rightarrow> string) \<Rightarrow> pdict \<Rightarrow> string res" where
  "evidence_line show_py e =
     rbind (slice_text show_py 500 (dget_or e ''content'' (PStr []))) (\<lambda>c.
       Inr (''['' @ py_str show_py (dget_or e ''source_type'' (PStr [])) @ ''] ''
            @ py_str show_py (dget_or e ''title'' (PStr [])) @ '': '' @ c))"

fun evidence_text :: "(pyval \<Rightarrow> string) \<Rightarrow> pdict list \<Rightarrow> string res" where
  "evidence_text show_py [] = Inr []"
| "evidence_text show_py [e] = evidence_line show_py e"
| "evidence_text show_py (e # es) =
     rbind (evidence_line show_py e) (\<lambda>l.
     rbind (evidence_text show_py es) (\<lambda>r. Inr (l @ [CHR 0x0A, CHR 0x0A] @ r)))"

text \<open>The text shown when there is no evidence: \<open>formatted_result\<close>, a string by the tools'
  contract, or the rendering of a result that is no dictionary.\<close>

fun text_value :: "pyval \<Rightarrow> string res" where
  "text_value (PStr s) = Inr s"
| "text_value v = (if truthy v then Inl TypeError else Inr [])"

fun raw_text :: "(pyval \<Rightarrow> string) \<Rightarrow> pyval \<Rightarrow> string res" where
  "raw_text show_py (PDict d) = text_value (dget_or d ''formatted_result'' (PStr []))"
| "raw_text show_py v = Inr (py_str show_py v)"

fun raw_dict :: "pyval \<Rightarrow> pdict" where
  "raw_dict (PDict d) = d"
| "raw_dict v = [(''raw'', v)]"

fun raw_keys :: "pyval \<Rightarrow> string list" where
  "raw_keys (PDict d) = map fst d"
| "raw_keys _ = []"

section \<open>Executing an action\<close>

record exec_args =
  ea_tenant_id :: string
  ea_user_id :: string
  ea_llm_id :: string
  ea_kb_ids :: "string list option"
  ea_db_id :: string
  ea_mcp_server_name :: string
  ea_query_lang :: string

record exec_env =
  ee_invoke :: "tool_kind \<Rightarrow> pdict \<Rightarrow> pyval res"
  ee_normalize :: "string \<Rightarrow> pdict \<Rightarrow> string \<Rightarrow> pyval \<Rightarrow> pdict list res"
  ee_latency :: int

text \<open>The dispatch inside the \<open>try\<close> block: \<open>None\<close> for an unknown action type.\<close>

definition call_tool ::
    "(string \<Rightarrow> rat res) \<Rightarrow> exec_env \<Rightarrow> exec_args \<Rightarrow> string \<Rightarrow> pdict \<Rightarrow> pyval res option" where
  "call_tool float_of_str env ea action_type args =
     (if action_type = ''rag_search'' then
        Some (rbind (rag_input float_of_str args (ea_tenant_id ea) (ea_llm_id ea)
                (case ea_kb_ids ea of None \<Rightarrow> [] | Some ks \<Rightarrow> ks))
              (ee_invoke env RagTool))
      else if action_type = ''db_query'' then
        Some (ee_invoke env SqlAgentRunner
                (db_input args (ea_tenant_id ea) (ea_llm_id ea) (ea_db_id ea) (ea_mcp_server_name ea)))
      else if action_type = ''web_search'' then
        Some (rbind (web_input args) (ee_invoke env WebTool))
      else None)"

text \<open>The observation of a tool that returned \<open>raw\<close>.\<close>

definition observe ::
    "(pyval \<Rightarrow> string) \<Rightarrow> exec_env \<Rightarrow> exec_args \<Rightarrow> string \<Rightarrow> pdict \<Rightarrow> pyval
     \<Rightarrow> (react_observation \<times> pdict list) res" where
  "observe show_py env ea action_type args raw =
     rbind (ee_normalize env action_type (raw_dict raw) (ea_tenant_id ea)
              (dget_or args ''query'' (PStr []))) (\<lambda>evidences.
     rbind (if evidences \<noteq> [] then evidence_text show_py evidences else raw_text show_py raw) (\<lambda>txt.
       let (content, truncated) = truncate_observation_content txt
       in Inr (\<lparr>obs_action_type = action_type, obs_success = True, obs_content = content,
                obs_structured_data = [], obs_error = NoMsg, obs_latency_ms = ee_latency env,
                obs_risk_level = ''low'', obs_truncated = truncated,
                obs_metadata = [(''raw_keys'', PList (map PStr (raw_keys raw))),
                                (''evidence_count'', PInt (int (length evidences)))]\<rparr>,
               evidences)))"

definition execute ::
    "(pyval \<Rightarrow> string) \<Rightarrow> (string \<Rightarrow> rat res) \<Rightarrow> exec_env \<Rightarrow> exec_args \<Rightarrow> react_action
     \<Rightarrow> (react_observation \<times> pdict list) res" where
  "execute show_py float_of_str env ea action =
     (let action_type = act_type action; args = act_arguments action in
      if action_type = ''finish'' \<or> action_type = ''ask_clarification'' then
        Inr (\<lparr>obs_action_type = action_type, obs_success = True, obs_content = act_purpose action,
              obs_structured_data = [], obs_error = NoMsg, obs_latency_ms = 0,
              obs_risk_level = ''low'', obs_truncated = False,
              obs_metadata = [(''purpose'', PStr (act_purpose action))]\<rparr>, [])
      else
        (case call_tool float_of_str env ea action_type args of
           None \<Rightarrow>
             Inr (make_error_observation action_type (Msg ''unknown action_type'' [PStr action_type])
                    (ee_latency env) ''low'', [])
         | Some (Inl TimeoutError) \<Rightarrow>
             Inr (make_error_observation action_type (Msg ''the tool call timed out'' [])
                    (ee_latency env) ''medium'', [])
         | Some (Inl e) \<Rightarrow>
             Inr (make_error_observation action_type (Msg ''the tool call raised'' [])
                    (ee_latency env) ''medium'', [])
         | Some (Inr raw) \<Rightarrow> observe show_py env ea action_type args raw))"

section \<open>Properties\<close>

lemma u_len_ELLIPSIS [simp]: "u_len ELLIPSIS = 1"
  by (simp add: ELLIPSIS_def u_len_def is_cont_def)

lemma truncate_observation_length:
  "u_len (fst (truncate_observation_content s)) \<le> MAX_OBSERVATION_CHARS + 1"
  by (simp add: truncate_observation_content_def u_len_take)

lemma observe_simps:
  assumes "observe show_py env ea t args raw = Inr (obs, evs)"
  shows "obs_success obs" and "obs_action_type obs = t"
    and "obs_metadata obs = [(''raw_keys'', PList (map PStr (raw_keys raw))),
           (''evidence_count'', PInt (int (length evs)))]"
    and "u_len (obs_content obs) \<le> MAX_OBSERVATION_CHARS + 1"
  using assms truncate_observation_length
  by (auto simp: observe_def rbind_eq_Inr_iff Let_def case_prod_beta)

text \<open>The three ways an execution ends in an observation.\<close>

lemma execute_cases:
  assumes "execute show_py fos env ea a = Inr (obs, evs)"
  obtains (terminal) "evs = []" "obs_success obs"
      "obs_metadata obs = [(''purpose'', PStr (act_purpose a))]"
    | (failed) err lat risk where "evs = []"
      "obs = make_error_observation (act_type a) err lat risk"
    | (observed) raw where "observe show_py env ea (act_type a) (act_arguments a) raw = Inr (obs, evs)"
  using assms
  by (auto simp: execute_def Let_def split: if_splits option.splits sum.splits exn.splits)

lemma execute_failed_no_evidence:
  assumes "execute show_py fos env ea a = Inr (obs, evs)" and "\<not> obs_success obs"
  shows "evs = []"
  using assms(1)
proof (cases rule: execute_cases)
  case (observed raw)
  with assms(2) observe_simps(1) show ?thesis by blast
qed

lemma execute_no_rerank_score:
  assumes "execute show_py fos env ea a = Inr (obs, evs)"
  shows "dget (obs_metadata obs) ''rerank_top_score'' = PNone"
  using assms
proof (cases rule: execute_cases)
  case (failed err lat risk)
  then show ?thesis by (simp add: make_error_observation_def)
next
  case (observed raw)
  then show ?thesis by (simp add: observe_simps(3))
qed (simp)

text \<open>Executing an action never raises because of the tool: for every action and every outcome of
  the tool call, timeouts and exceptions included, it returns an observation, unless the evidence
  normaliser or the rendering of its evidence raises; and then the tool itself had returned.\<close>

theorem execute_contains_tool_failures:
  assumes "execute show_py fos env ea a = Inl e"
  shows "\<exists>raw. call_tool fos env ea (act_type a) (act_arguments a) = Some (Inr raw)
    \<and> observe show_py env ea (act_type a) (act_arguments a) raw = Inl e"
  using assms
  by (auto simp: execute_def Let_def split: if_splits option.splits sum.splits exn.splits)

definition demo_broken_env :: exec_env where
  "demo_broken_env =
     \<lparr>ee_invoke = (\<lambda>_ _. Inr (PInt 1)), ee_normalize = (\<lambda>_ _ _ _. Inl KeyError), ee_latency = 1\<rparr>"

definition demo_exec_args :: exec_args where
  "demo_exec_args =
     \<lparr>ea_tenant_id = ''t'', ea_user_id = ''u'', ea_llm_id = ''m'', ea_kb_ids = None, ea_db_id = [],
      ea_mcp_server_name = [], ea_query_lang = ''en''\<rparr>"

definition demo_action :: react_action where
  "demo_action =
     \<lparr>act_type = ''db_query'', act_tool_name = PStr ''db_query'', act_purpose = [],
      act_arguments = [(''sql'', PStr ''show tables'')], act_thought_summary = []\<rparr>"

theorem execute_contains_tool_failures_witness:
  "\<exists>raw. call_tool (\<lambda>_. Inl ValueError) demo_broken_env demo_exec_args (act_type demo_action)
           (act_arguments demo_action) = Some (Inr raw)
     \<and> observe (\<lambda>_. []) demo_broken_env demo_exec_args (act_type demo_action)
         (act_arguments demo_action) raw = Inl KeyError"
  by (rule execute_contains_tool_failures)
     (simp add: execute_def call_tool_def observe_def demo_broken_env_def demo_action_def Let_def)

end
