(* ===== verification/React_Guard.thy ===== *)
theory React_Guard
  imports React_Models React_Budget Json
begin

text \<open>
  The loop guard of the ReAct subgraph (first part of \<open>agent/langgraph/react/graph.py\<close>): action
  signatures, the count of repeated actions without new evidence, and the trend of the rerank scores.
  SHA-256 is the argument \<open>sha256\<close>, the decimal form of a float is \<open>float_repr\<close>.
\<close>

definition SENSITIVE_KEYS :: "string list" where
  "SENSITIVE_KEYS = [''token'', ''api_key'', ''secret'', ''password'', ''authorization'']"

definition empty_value :: "pyval \<Rightarrow> bool" where
  "empty_value v \<longleftrightarrow> v = PNone \<or> v = PStr [] \<or> v = PDict [] \<or> v = PList []"

definition normalize_action_args :: "pdict \<Rightarrow> pdict" where
  "normalize_action_args args =
     filter (\<lambda>p. lower (fst p) \<notin> set SENSITIVE_KEYS \<and> \<not> empty_value (snd p)) (sort_key fst args)"

definition build_action_signature ::
    "(string \<Rightarrow> string) \<Rightarrow> (rat \<Rightarrow> string) \<Rightarrow> string \<Rightarrow> pdict \<Rightarrow> string list option \<Rightarrow> string \<Rightarrow> string" where
  "build_action_signature sha256 float_repr action_type args kb_ids db_id =
     sha256 (json_dumps float_repr (PDict (
       [(''action_type'', PStr action_type), (''arguments'', PDict (normalize_action_args args))]
       @ (case kb_ids of
            None \<Rightarrow> []
          | Some ks \<Rightarrow> if ks = [] then [] else [(''kb_ids'', PList (map PStr (sort ks)))])
       @ (if db_id = [] then [] else [(''db_id'', PStr db_id)]))))"

definition check_loop_guard_termination ::
    "loop_guard_state \<Rightarrow> loop_guard_config \<Rightarrow> finish_reason option" where
  "check_loop_guard_termination lg cfg =
     (if same_action_count lg \<ge> get_field (lc_same_action_limit cfg) 3 then Some SameActionLoop
      else if rerank_drop_count lg \<ge> get_field (lc_rerank_drop_limit cfg) 2 then Some RerankDeclining
      else None)"

text \<open>The identifiers present in a list of evidence, and how many the second list adds.\<close>

definition evidence_ids :: "pdict list \<Rightarrow> pyval list" where
  "evidence_ids es = filter truthy (map (\<lambda>e. dget e ''evidence_id'') es)"

definition evidence_gain :: "pdict list \<Rightarrow> pdict list \<Rightarrow> int" where
  "evidence_gain before after =
     int (length (remdups (filter (\<lambda>v. v \<notin> set (evidence_ids before)) (evidence_ids after))))"

definition same_action_update :: "int \<Rightarrow> string \<Rightarrow> int \<Rightarrow> loop_guard_state \<Rightarrow> int" where
  "same_action_update min_gain signature gain lg =
     (if signature = action_signature lg \<and> gain < min_gain then same_action_count lg + 1 else 1)"

text \<open>The count of consecutive drops after the score history \<open>h\<close>, which has the new score last.\<close>

definition rerank_drop_update ::
    "loop_guard_config \<Rightarrow> rat \<Rightarrow> int \<Rightarrow> rat list \<Rightarrow> int \<Rightarrow> int" where
  "rerank_drop_update cfg score gain h old =
     (if length h \<ge> 3 then
        (let a = h ! (length h - 3); b = h ! (length h - 2); c = h ! (length h - 1);
             min_drop = get_field (lc_min_rerank_drop cfg) (5 / 100)
         in if c < b \<and> b < a then
              (if a - b \<ge> min_drop \<and> b - c \<ge> min_drop then
                 (if gain < get_field (lc_min_evidence_gain cfg) 1
                     \<or> score < get_field (lc_absolute_quality_floor cfg) (30 / 100)
                  then old + 1 else 0)
               else 0)
            else 0)
      else old)"

definition update_loop_guard ::
    "(string \<Rightarrow> string) \<Rightarrow> (rat \<Rightarrow> string) \<Rightarrow> loop_guard_state \<Rightarrow> loop_guard_config \<Rightarrow> string
     \<Rightarrow> pdict \<Rightarrow> string list option \<Rightarrow> string \<Rightarrow> pdict list \<Rightarrow> pdict list \<Rightarrow> rat option
     \<Rightarrow> loop_guard_state" where
  "update_loop_guard sha256 float_repr lg cfg action_type args kb_ids db_id before after score =
     (let signature = build_action_signature sha256 float_repr action_type args kb_ids db_id;
          gain = evidence_gain before after;
          lg1 = lg\<lparr>same_action_count :=
                    same_action_update (get_field (lc_min_evidence_gain cfg) 1) signature gain lg,
                   action_signature := signature\<rparr>;
          lg2 = (case score of
              None \<Rightarrow> lg1
            | Some sc \<Rightarrow>
                if action_type = ''rag_search'' then
                  (let h = rerank_score_history lg1 @ [sc]
                   in lg1\<lparr>rerank_score_history := h,
                          rerank_drop_count := rerank_drop_update cfg sc gain h (rerank_drop_count lg1)\<rparr>)
                else lg1)
      in lg2\<lparr>retrieval_observations := retrieval_observations lg2 @
               [\<lparr>ro_iteration = iteration_count lg2, ro_action_signature = signature,
                 ro_tool_name = action_type, ro_evidence_gain = gain, ro_rerank_top_score = score\<rparr>],
             iteration_count := iteration_count lg2 + 1\<rparr>)"

section \<open>Properties\<close>

lemma update_loop_guard_simps:
  "same_action_count (update_loop_guard h f lg cfg t args ks d bef aft sc) =
     same_action_update (get_field (lc_min_evidence_gain cfg) 1)
       (build_action_signature h f t args ks d) (evidence_gain bef aft) lg"
  "action_signature (update_loop_guard h f lg cfg t args ks d bef aft sc) =
     build_action_signature h f t args ks d"
  "iteration_count (update_loop_guard h f lg cfg t args ks d bef aft sc) = iteration_count lg + 1"
  by (simp_all add: update_loop_guard_def Let_def split: option.split)

text \<open>Two dictionaries with the same entries are sorted to the same list.\<close>

lemma sort_key_fst_unique:
  fixes xs ys :: "('a::linorder \<times> 'b) list"
  assumes "mset xs = mset ys" and "distinct (map fst xs)"
  shows "sort_key fst xs = sort_key fst ys"
proof (rule sort_key_eq_sort_key)
  show "mset xs = mset ys" by fact
  show "inj_on fst (set xs)" using assms(2) by (simp add: distinct_map)
qed

lemma normalize_action_args_perm:
  assumes "mset xs = mset ys" and "distinct (map fst xs)"
  shows "normalize_action_args xs = normalize_action_args ys"
  using sort_key_fst_unique [OF assms] by (simp add: normalize_action_args_def)

lemma normalize_action_args_filter:
  assumes "distinct (map fst xs)"
  shows "normalize_action_args (filter (\<lambda>p. lower (fst p) \<notin> set SENSITIVE_KEYS \<and> \<not> empty_value (snd p)) xs)
    = normalize_action_args xs"
  by (simp add: normalize_action_args_def filter_sort [symmetric])

text \<open>Two calls of a tool have the same signature whenever their arguments agree up to the order of
  the keys and up to credentials and empty values: those never enter the signature, so the loop guard
  neither stores a secret nor is fooled by a reordered or padded repetition.\<close>

theorem action_signature_normal_form:
  assumes "distinct (map fst xs)" and "distinct (map fst ys)"
    and "mset (filter (\<lambda>p. lower (fst p) \<notin> set SENSITIVE_KEYS \<and> \<not> empty_value (snd p)) xs)
       = mset (filter (\<lambda>p. lower (fst p) \<notin> set SENSITIVE_KEYS \<and> \<not> empty_value (snd p)) ys)"
  shows "build_action_signature sha256 float_repr t xs ks d = build_action_signature sha256 float_repr t ys ks d"
proof -
  have "normalize_action_args xs = normalize_action_args ys"
    using normalize_action_args_perm [OF assms(3)] assms(1,2)
    by (metis (no_types, lifting) distinct_map_filter normalize_action_args_filter)
  then show ?thesis by (simp add: build_action_signature_def)
qed

theorem action_signature_normal_form_witness:
  "build_action_signature (\<lambda>s. s) (\<lambda>_. []) ''rag_search''
     [(''query'', PStr ''q''), (''top_k'', PInt 5), (''API_KEY'', PStr ''s3cret'')] None []
   = build_action_signature (\<lambda>s. s) (\<lambda>_. []) ''rag_search''
     [(''top_k'', PInt 5), (''filter'', PNone), (''query'', PStr ''q'')] None []"
  (is "build_action_signature _ _ _ ?xs _ _ = build_action_signature _ _ _ ?ys _ _")
proof (rule action_signature_normal_form)
  let ?F = "filter (\<lambda>p. lower (fst p) \<notin> set SENSITIVE_KEYS \<and> \<not> empty_value (snd p))"
  have "?F ?xs = [(''query'', PStr ''q''), (''top_k'', PInt 5)]"
    "?F ?ys = [(''top_k'', PInt 5), (''query'', PStr ''q'')]"
    by code_simp+
  then show "mset (?F ?xs) = mset (?F ?ys)" by (simp add: add_mset_commute)
qed simp_all

section \<open>Repeated actions\<close>

text \<open>\<open>n\<close> successful executions in a row of the same call, each bringing the evidence from
  \<open>before\<close> to \<open>after\<close>.\<close>

primrec repeat_call ::
    "(string \<Rightarrow> string) \<Rightarrow> (rat \<Rightarrow> string) \<Rightarrow> loop_guard_config \<Rightarrow> string \<Rightarrow> pdict \<Rightarrow> string list option
     \<Rightarrow> string \<Rightarrow> pdict list \<Rightarrow> nat \<Rightarrow> loop_guard_state \<Rightarrow> loop_guard_state" where
  "repeat_call h f cfg t args ks d es 0 lg = lg"
| "repeat_call h f cfg t args ks d es (Suc n) lg =
     update_loop_guard h f (repeat_call h f cfg t args ks d es n lg) cfg t args ks d es es None"

lemma evidence_gain_self [simp]: "evidence_gain es es = 0"
  by (simp add: evidence_gain_def)

lemma repeat_call_count:
  assumes "0 < get_field (lc_min_evidence_gain cfg) 1"
    and "action_signature lg \<noteq> build_action_signature h f t args ks d"
  shows "same_action_count (repeat_call h f cfg t args ks d es (Suc n) lg) = int n + 1
    \<and> action_signature (repeat_call h f cfg t args ks d es (Suc n) lg)
        = build_action_signature h f t args ks d"
  by (induction n)
     (use assms in \<open>auto simp: update_loop_guard_simps same_action_update_def\<close>)

lemma repeat_call_drop_count:
  "rerank_drop_count (repeat_call h f cfg t args ks d es n lg) = rerank_drop_count lg"
  by (induction n) (simp_all add: update_loop_guard_def Let_def)

text \<open>The loop guard catches a model that repeats itself, at exactly the configured number: after a
  different action, \<open>n\<close> identical calls in a row without new evidence stop the run with
  \<open>same_action_loop\<close> if and only if \<open>n\<close> has reached the limit (for positive limits and gains).\<close>

theorem same_action_loop_exact:
  assumes "0 < get_field (lc_min_evidence_gain cfg) 1" and "0 < get_field (lc_same_action_limit cfg) 3"
    and "action_signature lg \<noteq> build_action_signature h f t args ks d" and "0 < n"
  shows "check_loop_guard_termination (repeat_call h f cfg t args ks d es n lg) cfg = Some SameActionLoop
    \<longleftrightarrow> get_field (lc_same_action_limit cfg) 3 \<le> int n"
proof -
  obtain m where "n = Suc m" using \<open>0 < n\<close> by (cases n) auto
  with repeat_call_count [OF assms(1,3), of es m]
  have "same_action_count (repeat_call h f cfg t args ks d es n lg) = int n" by simp
  then show ?thesis by (simp add: check_loop_guard_termination_def)
qed

definition demo_guard_state :: loop_guard_state where
  "demo_guard_state =
     \<lparr>iteration_count = 0, max_iterations = 8, action_signature = [], same_action_count = 0,
      rerank_score_history = [], rerank_drop_count = 0, retrieval_observations = [],
      lg_fallback_message = []\<rparr>"

theorem same_action_loop_exact_witness:
  "check_loop_guard_termination
     (repeat_call (\<lambda>s. ''x'') (\<lambda>_. []) DEFAULT_LOOP_GUARD_CONFIG ''rag_search'' [] None [] [] 3 demo_guard_state)
     DEFAULT_LOOP_GUARD_CONFIG = Some SameActionLoop"
  by (subst same_action_loop_exact)
     (simp_all add: DEFAULT_LOOP_GUARD_CONFIG_def demo_guard_state_def build_action_signature_def)

section \<open>Declining scores\<close>

text \<open>The last \<open>n\<close> scores of a history each fall by at least \<open>d\<close> (and by more than nothing).\<close>

definition falling :: "rat \<Rightarrow> nat \<Rightarrow> rat list \<Rightarrow> bool" where
  "falling d n h \<longleftrightarrow>
     n < length h \<and> (\<forall>i. length h - n \<le> i \<and> i < length h \<longrightarrow> h ! i < h ! (i - 1) \<and> h ! (i - 1) - h ! i \<ge> d)"

definition drops_justified :: "loop_guard_config \<Rightarrow> loop_guard_state \<Rightarrow> bool" where
  "drops_justified cfg lg \<longleftrightarrow>
     rerank_drop_count lg \<ge> 0 \<and>
     (rerank_drop_count lg > 0 \<longrightarrow>
        falling (get_field (lc_min_rerank_drop cfg) (5 / 100)) (nat (rerank_drop_count lg) + 1)
          (rerank_score_history lg))"

lemma falling_snoc:
  assumes "falling d n h" and "h \<noteq> []" and "s < last h" and "last h - s \<ge> d"
  shows "falling d (Suc n) (h @ [s])"
  using assms
  by (auto simp: falling_def nth_append last_conv_nth less_Suc_eq Suc_diff_le)

lemma falling_two:
  assumes "length h \<ge> 3" and "h ! (length h - 1) < h ! (length h - 2)" and "h ! (length h - 2) < h ! (length h - 3)"
    and "h ! (length h - 3) - h ! (length h - 2) \<ge> d" and "h ! (length h - 2) - h ! (length h - 1) \<ge> d"
  shows "falling d 2 h"
proof -
  have "i = length h - 1 \<or> i = length h - 2" if "length h - 2 \<le> i" "i < length h" for i
    using that by linarith
  moreover have "length h - 1 - 1 = length h - 2" "length h - 2 - 1 = length h - 3" by simp_all
  ultimately show ?thesis
    using assms unfolding falling_def by (metis (no_types, lifting) One_nat_def Suc_le_lessD numeral_3_eq_3 numeral_2_eq_2)
qed

lemma rerank_drop_update_cases:
  fixes h cfg s
  defines "d \<equiv> get_field (lc_min_rerank_drop cfg) (5 / 100)"
  obtains (few) "length h < 2" "rerank_drop_update cfg s g (h @ [s]) k = k"
    | (reset) "rerank_drop_update cfg s g (h @ [s]) k = 0"
    | (drop) "length h \<ge> 2" "rerank_drop_update cfg s g (h @ [s]) k = k + 1"
        "s < last h" "last h - s \<ge> d" "falling d 2 (h @ [s])"
proof -
  let ?g = "h @ [s]" and ?k' = "rerank_drop_update cfg s g (h @ [s]) k"
  consider "length h < 2" | "?k' = 0" | "length h \<ge> 2" "?k' \<noteq> 0" by linarith
  then show thesis
  proof cases
    case 1
    then show thesis using few by (simp add: rerank_drop_update_def)
  next
    case 3
    then have f: "?g ! (length ?g - 1) < ?g ! (length ?g - 2)" "?g ! (length ?g - 2) < ?g ! (length ?g - 3)"
      "?g ! (length ?g - 3) - ?g ! (length ?g - 2) \<ge> d" "?g ! (length ?g - 2) - ?g ! (length ?g - 1) \<ge> d"
      and k: "?k' = k + 1"
      by (auto simp: rerank_drop_update_def d_def Let_def split: if_splits)
    have ne: "h \<noteq> []" using 3(1) by auto
    have l: "?g ! (length ?g - 1) = s" "?g ! (length ?g - 2) = last h" "length ?g \<ge> 3"
      using 3(1) ne by (auto simp: nth_append last_conv_nth)
    show thesis using drop [OF 3(1) k] f(1,4) l falling_two [OF l(3) f] by simp
  qed (use reset in blast)
qed

lemma drop_update_justified:
  assumes "drops_justified cfg lg"
  shows "drops_justified cfg (lg\<lparr>rerank_score_history := rerank_score_history lg @ [s],
    rerank_drop_count := rerank_drop_update cfg s g (rerank_score_history lg @ [s]) (rerank_drop_count lg)\<rparr>)"
proof -
  let ?h = "rerank_score_history lg" and ?d = "get_field (lc_min_rerank_drop cfg) (5 / 100)"
  let ?k = "rerank_drop_count lg"
  have k0: "?k \<ge> 0" using assms by (simp add: drops_justified_def)
  show ?thesis
  proof (cases rule: rerank_drop_update_cases [where h = ?h and cfg = cfg and s = s and g = g and k = ?k])
    case few
    with assms show ?thesis by (auto simp: drops_justified_def falling_def)
  next
    case reset
    then show ?thesis by (simp add: drops_justified_def)
  next
    case drop
    show ?thesis
    proof (cases "?k = 0")
      case True
      with drop show ?thesis by (simp add: drops_justified_def numeral_2_eq_2)
    next
      case False
      with assms k0 have "falling ?d (nat ?k + 1) ?h" by (simp add: drops_justified_def)
      moreover have "?h \<noteq> []" using drop(1) by auto
      ultimately have "falling ?d (Suc (nat ?k + 1)) (?h @ [s])" using drop(3,4) falling_snoc by blast
      moreover have "nat (?k + 1) + 1 = Suc (nat ?k + 1)" using k0 by simp
      ultimately show ?thesis using drop(2) k0 by (simp add: drops_justified_def)
    qed
  qed
qed

lemma falling_mono: "falling d n h \<Longrightarrow> m \<le> n \<Longrightarrow> falling d m h"
  by (auto simp: falling_def)

lemma drops_justified_cong:
  "rerank_score_history lg = rerank_score_history lg' \<Longrightarrow> rerank_drop_count lg = rerank_drop_count lg' \<Longrightarrow>
   drops_justified cfg lg = drops_justified cfg lg'"
  by (simp add: drops_justified_def)

lemma update_drops_justified:
  assumes "drops_justified cfg lg"
  shows "drops_justified cfg (update_loop_guard h f lg cfg t args ks d bef aft sc)"
proof -
  let ?u = "update_loop_guard h f lg cfg t args ks d bef aft sc"
  consider s where "sc = Some s" "t = ''rag_search''" | "sc = None \<or> t \<noteq> ''rag_search''"
    by (cases sc) auto
  then show ?thesis
  proof cases
    case 1
    let ?l = "lg\<lparr>rerank_score_history := rerank_score_history lg @ [s], rerank_drop_count :=
      rerank_drop_update cfg s (evidence_gain bef aft) (rerank_score_history lg @ [s]) (rerank_drop_count lg)\<rparr>"
    have "drops_justified cfg ?u = drops_justified cfg ?l"
      using 1 by (intro drops_justified_cong) (simp_all add: update_loop_guard_def Let_def)
    with drop_update_justified [OF assms] show ?thesis by blast
  next
    case 2
    then have "drops_justified cfg ?u = drops_justified cfg lg"
      by (intro drops_justified_cong) (auto simp: update_loop_guard_def Let_def split: option.split)
    with assms show ?thesis by blast
  qed
qed

end
