(* ===== verification/React_Loop.thy ===== *)
theory React_Loop
  imports React_Budget React_Policy React_Step React_Executor React_Guard
begin

text \<open>
  The main loop of the ReAct subgraph (\<open>ReactSubgraph\<close> in \<open>agent/langgraph/react/graph.py\<close>):
  budget check, loop guard, reasoning, terminal actions, policy guard, tool execution, bookkeeping.
  One pass of the \<open>while True\<close> body is \<open>react_iter\<close>; \<open>react_loop\<close> is the loop, total because every
  pass spends one LLM call of the budget; \<open>react_run\<close> is \<open>ReactSubgraph.run\<close>.

  The world is the record \<open>loop_env\<close>: in pass \<open>i\<close> the clock shows \<open>le_now i\<close>, the language model
  (with the prompt rendered for it) answers \<open>le_llm i\<close> and the tools behave as \<open>le_exec i\<close>. The
  remaining fields are library functions outside the repository.
\<close>

section \<open>Environment, parameters and loop state\<close>

record loop_env =
  le_now :: "nat \<Rightarrow> rat"
  le_llm :: "nat \<Rightarrow> string \<Rightarrow> react_state \<Rightarrow> string res"
  le_exec :: "nat \<Rightarrow> exec_env"
  le_show_py :: "pyval \<Rightarrow> string"
  le_float_of_str :: "string \<Rightarrow> rat res"
  le_float_repr :: "rat \<Rightarrow> string"
  le_sha256 :: "string \<Rightarrow> string"
  le_validate :: "pyval \<Rightarrow> resolved_skill_set res"

record react_subgraph =
  sg_agent_config :: agent_config
  sg_react_config :: react_config
  sg_budget :: react_budget
  sg_policy_guard :: policy_guard
  sg_loop_guard_config :: loop_guard_config

text \<open>\<open>ReactSubgraph.__init__\<close>; an empty configuration is falsy. It raises if the section is no dictionary or
  a setting of the budget cannot be read.\<close>

definition init_subgraph ::
    "rat \<Rightarrow> agent_config \<Rightarrow> react_config option \<Rightarrow> loop_guard_config option \<Rightarrow> react_subgraph res" where
  "init_subgraph now cfg react_cfg loop_cfg =
     (let agent_lc = (case ac_loop_guard cfg of
              Some c \<Rightarrow> if c \<noteq> empty_loop_guard_config then c else DEFAULT_LOOP_GUARD_CONFIG
            | None \<Rightarrow> DEFAULT_LOOP_GUARD_CONFIG) in
      rbind (case react_cfg of
               Some c \<Rightarrow> if c \<noteq> empty_react_config then Inr c else read_section (ac_react cfg)
             | None \<Rightarrow> read_section (ac_react cfg)) (\<lambda>rc.
      rbind (build_budget_from_config now (Some rc) None) (\<lambda>b.
      rbind (init_guard cfg) (\<lambda>guard.
        Inr \<lparr>sg_agent_config = cfg, sg_react_config = rc, sg_budget = init_budget now (Some b),
             sg_policy_guard = guard,
             sg_loop_guard_config =
               (case loop_cfg of
                  Some c \<Rightarrow> if c \<noteq> empty_loop_guard_config then c else agent_lc
                | None \<Rightarrow> agent_lc)\<rparr>))))"

record run_args =
  ra_user_question :: string
  ra_exec :: exec_args
  ra_max_latency_ms :: "int option"
  ra_skill_set :: skill_arg

record loop_state =
  ls_budget :: react_budget
  ls_state :: react_state
  ls_guard :: loop_guard_state

datatype outcome = Continue loop_state
  | Stop finish_reason "finish_reason option" termination_source loop_state

section \<open>The phases of one pass\<close>

text \<open>Budget check and loop guard: the reason to stop before reasoning, if there is one.\<close>

definition stop_before ::
    "rat \<Rightarrow> loop_guard_config \<Rightarrow> loop_state \<Rightarrow> (finish_reason \<times> termination_source) option" where
  "stop_before now cfg s =
     (if \<not> bc_allowed (can_proceed now (ls_budget s)) then Some (BudgetExhausted, BudgetSource)
      else map_option (\<lambda>r. (r, LoopGuardSource)) (check_loop_guard_termination (ls_guard s) cfg))"

fun is_policy_failure :: "failure \<Rightarrow> bool" where
  "is_policy_failure (FPolicy _ _) = True"
| "is_policy_failure _ = False"

definition last5 :: "'a list \<Rightarrow> 'a list" where
  "last5 xs = drop (length xs - 5) xs"

definition short_entry :: "react_action \<Rightarrow> result_summary \<Rightarrow> history_entry" where
  "short_entry a r =
     \<lparr>he_action_type = act_type a, he_thought_summary = act_thought_summary a, he_purpose = None,
      he_arguments = None, he_result_summary = r, he_latency_ms = None, he_evidence_count = None\<rparr>"

text \<open>A denied action: recorded, counted as a step; the run ends when three of the last five
  failures are policy failures.\<close>

definition on_denied :: "react_action \<Rightarrow> message \<Rightarrow> loop_state \<Rightarrow> outcome" where
  "on_denied a reason s =
     (let st = ls_state s;
          st1 = st\<lparr>rs_failures := rs_failures st @ [FPolicy (act_type a) reason],
                   rs_action_history := rs_action_history st @ [short_entry a (RDenied reason)]\<rparr>;
          s1 = s\<lparr>ls_state := st1, ls_budget := increment_step (ls_budget s)\<rparr>;
          denied_count = length (filter is_policy_failure (last5 (rs_failures st1)))
      in if denied_count \<ge> 3
         then Stop PolicyDenied (Some PolicyDenied) PolicyGuardSource s1 else Continue s1)"

fun approval_reason :: "message \<Rightarrow> message" where
  "approval_reason NoMsg = Msg ''NEEDS_APPROVAL: '' []"
| "approval_reason (Msg t vs) = Msg (''NEEDS_APPROVAL: '' @ t) vs"

definition on_needs_approval :: "react_action \<Rightarrow> message \<Rightarrow> loop_state \<Rightarrow> outcome" where
  "on_needs_approval a reason s =
     (let st = ls_state s;
          st1 = st\<lparr>rs_failures := rs_failures st @ [FPolicy (act_type a) (approval_reason reason)],
                   rs_action_history := rs_action_history st @ [short_entry a (RNeedsApproval reason)]\<rparr>
      in Continue (s\<lparr>ls_state := st1, ls_budget := increment_step (ls_budget s)\<rparr>))"

text \<open>Accumulating evidence without duplicates.\<close>

definition add_evidence :: "pdict list \<Rightarrow> pdict \<Rightarrow> pdict list" where
  "add_evidence es ev =
     (if list_ex (\<lambda>e. py_eq (dget e ''evidence_id'') (dget ev ''evidence_id'')) es then es else es @ [ev])"

text \<open>The best rerank score of the step: from the metadata, else from the evidence.\<close>

definition rerank_score :: "string \<Rightarrow> react_observation \<Rightarrow> pdict list \<Rightarrow> rat option res" where
  "rerank_score action_type obs evidences =
     (if action_type = ''rag_search'' then
        (let m = dget (obs_metadata obs) ''rerank_top_score'' in
         if m \<noteq> PNone then rbind (number_or_raise m) (\<lambda>r. Inr (Some r))
         else
           rbind (numbers (filter truthy (map (\<lambda>e. dget_or e ''relevance_score'' (PFloat 0)) evidences)))
             (\<lambda>scores. Inr (if scores = [] then None else Some (Max (set scores)))))
      else Inr None)"

definition full_entry ::
    "react_action \<Rightarrow> react_observation \<Rightarrow> pdict list \<Rightarrow> history_entry" where
  "full_entry a obs evidences =
     \<lparr>he_action_type = act_type a, he_thought_summary = act_thought_summary a,
      he_purpose = Some (act_purpose a), he_arguments = Some (act_arguments a),
      he_result_summary =
        (if obs_success obs then RContent (u_take 300 (obs_content obs)) else RError (obs_error obs)),
      he_latency_ms = Some (obs_latency_ms obs),
      he_evidence_count = Some (int (length evidences))\<rparr>"

text \<open>Tool execution and the bookkeeping after it.\<close>

definition run_tool ::
    "loop_env \<Rightarrow> nat \<Rightarrow> react_subgraph \<Rightarrow> run_args \<Rightarrow> react_action \<Rightarrow> loop_state \<Rightarrow> loop_state res" where
  "run_tool env i sg ra a s =
     (let b1 = increment_tool_call (act_type a) (ls_budget s);
          st = ls_state s;
          before = rs_evidence st
      in rbind (execute (le_show_py env) (le_float_of_str env) (le_exec env i) (ra_exec ra) a)
           (\<lambda>(obs, evidences).
         let after = foldl add_evidence before evidences in
         rbind (if obs_success obs then
                  rbind (rerank_score (act_type a) obs evidences) (\<lambda>score.
                    Inr (update_loop_guard (le_sha256 env) (le_float_repr env) (ls_guard s)
                      (sg_loop_guard_config sg) (act_type a) (act_arguments a)
                      (ea_kb_ids (ra_exec ra)) (ea_db_id (ra_exec ra)) before after score))
                else Inr (ls_guard s)) (\<lambda>guard.
           let st1 = st\<lparr>rs_observations := rs_observations st @ [obs],
                        rs_evidence := after,
                        rs_action_history := rs_action_history st @ [full_entry a obs evidences],
                        rs_failures := rs_failures st @
                          (if obs_success obs then [] else [FTool (act_type a) (obs_error obs)])\<rparr>
           in Inr \<lparr>ls_budget = increment_step b1, ls_state = st1, ls_guard = guard\<rparr>)))"

text \<open>From the policy decision to the end of the pass. Only \<open>Deny\<close> and \<open>NeedsApproval\<close> keep the tool
  from running.\<close>

definition policy_ctx :: "react_subgraph \<Rightarrow> run_args \<Rightarrow> react_state \<Rightarrow> react_action \<Rightarrow> policy_context" where
  "policy_ctx sg ra st a =
     \<lparr>pc_tenant_id = ea_tenant_id (ra_exec ra), pc_user_id = ea_user_id (ra_exec ra),
      pc_tool_name = act_type a, pc_action_type = act_type a, pc_purpose = act_purpose a,
      pc_arguments = act_arguments a, pc_allowed_tools = rs_allowed_tools st,
      pc_agent_config = sg_agent_config sg, pc_skill_set = ra_skill_set ra\<rparr>"

definition act_on ::
    "loop_env \<Rightarrow> nat \<Rightarrow> react_subgraph \<Rightarrow> run_args \<Rightarrow> react_action \<Rightarrow> loop_state \<Rightarrow> outcome res" where
  "act_on env i sg ra a s =
     rbind (evaluate (le_validate env) (le_show_py env) (sg_policy_guard sg)
              (policy_ctx sg ra (ls_state s) a)) (\<lambda>pr.
       if po_decision pr = Deny then Inr (on_denied a (po_reason pr) s)
       else if po_decision pr = NeedsApproval then Inr (on_needs_approval a (po_reason pr) s)
       else
         (let a1 = a\<lparr>act_arguments :=
                       (if po_sanitized_arguments pr \<noteq> [] then po_sanitized_arguments pr
                        else act_arguments a)\<rparr>
          in rbind (run_tool env i sg ra a1 s) (\<lambda>s1. Inr (Continue s1))))"

text \<open>The terminal actions. The action record carries no \<open>stop\<close> field: the parser drops it.\<close>

definition on_clarification :: "loop_env \<Rightarrow> react_action \<Rightarrow> loop_state \<Rightarrow> outcome res" where
  "on_clarification env a s =
     (let q = dget_or (act_arguments a) ''question'' (PStr []);
          st1 = (ls_state s)\<lparr>rs_needs_clarification := True, rs_clarification_question := q\<rparr>
      in rbind (slice_text (le_show_py env) 100 q) (\<lambda>_.
           Inr (Stop NeedsClarification None NoSource (s\<lparr>ls_state := st1\<rparr>))))"

definition react_iter ::
    "loop_env \<Rightarrow> nat \<Rightarrow> react_subgraph \<Rightarrow> run_args \<Rightarrow> loop_state \<Rightarrow> outcome res" where
  "react_iter env i sg ra s =
     (case stop_before (le_now env i) (sg_loop_guard_config sg) s of
        Some (r, src) \<Rightarrow> Inr (Stop r (Some r) src s)
      | None \<Rightarrow>
          (let s1 = s\<lparr>ls_budget := increment_llm_call 0 (ls_budget s)\<rparr> in
           case reason_step (le_show_py env) (le_llm env i) (ra_user_question ra) (ls_state s) of
             Inl e \<Rightarrow>
               Inr (Stop ErrorFinish None NoSource
                 (s1\<lparr>ls_state := (ls_state s1)\<lparr>rs_failures := rs_failures (ls_state s1) @ [FReason e]\<rparr>\<rparr>))
           | Inr a \<Rightarrow>
               if act_type a = ACTION_TYPE_FINISH then Inr (Stop Completed None NoSource s1)
               else if act_type a = ''ask_clarification'' then on_clarification env a s1
               else act_on env i sg ra a s1))"

section \<open>One pass spends one LLM call\<close>

abbreviation b_of :: "loop_state \<Rightarrow> react_budget" where
  "b_of s \<equiv> ls_budget s"

lemma run_tool_Inr:
  assumes "run_tool env i sg ra a s = Inr t"
  obtains obs evs guard where
    "execute (le_show_py env) (le_float_of_str env) (le_exec env i) (ra_exec ra) a = Inr (obs, evs)"
    "guard = ls_guard s \<or> (\<exists>score. guard = update_loop_guard (le_sha256 env) (le_float_repr env) (ls_guard s)
                      (sg_loop_guard_config sg) (act_type a) (act_arguments a)
                      (ea_kb_ids (ra_exec ra)) (ea_db_id (ra_exec ra)) (rs_evidence (ls_state s))
                      (foldl add_evidence (rs_evidence (ls_state s)) evs) score)"
    "t = \<lparr>ls_budget = increment_step (increment_tool_call (act_type a) (ls_budget s)),
          ls_state = (ls_state s)\<lparr>rs_observations := rs_observations (ls_state s) @ [obs],
             rs_evidence := foldl add_evidence (rs_evidence (ls_state s)) evs,
             rs_action_history := rs_action_history (ls_state s) @ [full_entry a obs evs],
             rs_failures := rs_failures (ls_state s) @
               (if obs_success obs then [] else [FTool (act_type a) (obs_error obs)])\<rparr>,
          ls_guard = guard\<rparr>"
proof -
  obtain obs evs where e:
    "execute (le_show_py env) (le_float_of_str env) (le_exec env i) (ra_exec ra) a = Inr (obs, evs)"
    using assms
    by (cases "execute (le_show_py env) (le_float_of_str env) (le_exec env i) (ra_exec ra) a")
       (auto simp: run_tool_def Let_def)
  let ?st = "ls_state s"
  let ?after = "foldl add_evidence (rs_evidence ?st) evs"
  let ?m = "if obs_success obs then
       rbind (rerank_score (act_type a) obs evs) (\<lambda>score.
         Inr (update_loop_guard (le_sha256 env) (le_float_repr env) (ls_guard s)
           (sg_loop_guard_config sg) (act_type a) (act_arguments a)
           (ea_kb_ids (ra_exec ra)) (ea_db_id (ra_exec ra)) (rs_evidence ?st) ?after score))
     else Inr (ls_guard s)"
  obtain guard where g: "?m = Inr guard"
    using assms e by (cases ?m) (simp_all add: run_tool_def Let_def)
  have "guard = ls_guard s \<or> (\<exists>score. guard = update_loop_guard (le_sha256 env) (le_float_repr env)
      (ls_guard s) (sg_loop_guard_config sg) (act_type a) (act_arguments a)
      (ea_kb_ids (ra_exec ra)) (ea_db_id (ra_exec ra)) (rs_evidence ?st) ?after score)"
    using g by (cases "rerank_score (act_type a) obs evs") (auto split: if_splits)
  moreover have "t = \<lparr>ls_budget = increment_step (increment_tool_call (act_type a) (ls_budget s)),
      ls_state = ?st\<lparr>rs_observations := rs_observations ?st @ [obs], rs_evidence := ?after,
        rs_action_history := rs_action_history ?st @ [full_entry a obs evs],
        rs_failures := rs_failures ?st @
          (if obs_success obs then [] else [FTool (act_type a) (obs_error obs)])\<rparr>,
      ls_guard = guard\<rparr>"
    using assms e g by (simp add: run_tool_def Let_def)
  ultimately show thesis using e that by blast
qed

lemma run_tool_budget:
  "run_tool env i sg ra a s = Inr t \<Longrightarrow>
     ls_budget t = increment_step (increment_tool_call (act_type a) (ls_budget s))"
  by (erule run_tool_Inr) simp

text \<open>The passes that go on: a refused action or an executed tool.\<close>

lemma act_on_Continue:
  assumes "act_on env i sg ra a s = Inr (Continue t)"
  obtains (refused) m where "ls_budget t = increment_step (ls_budget s)"
      "ls_guard t = ls_guard s"
      "rs_action_history (ls_state t) = rs_action_history (ls_state s) @ [short_entry a m]"
      "rs_evidence (ls_state t) = rs_evidence (ls_state s)"
      "rs_observations (ls_state t) = rs_observations (ls_state s)"
    | (ran) pr a1 where
      "evaluate (le_validate env) (le_show_py env) (sg_policy_guard sg)
         (policy_ctx sg ra (ls_state s) a) = Inr pr"
      "po_decision pr \<notin> {Deny, NeedsApproval}"
      "a1 = a\<lparr>act_arguments := (if po_sanitized_arguments pr \<noteq> [] then po_sanitized_arguments pr
                                else act_arguments a)\<rparr>"
      "run_tool env i sg ra a1 s = Inr t"
proof -
  obtain pr where pr: "evaluate (le_validate env) (le_show_py env) (sg_policy_guard sg)
         (policy_ctx sg ra (ls_state s) a) = Inr pr"
    using assms by (auto simp: act_on_def rbind_eq_Inr_iff)
  show thesis
  proof (cases "po_decision pr \<in> {Deny, NeedsApproval}")
    case True
    then show thesis
      using assms pr refused
      by (auto simp: act_on_def on_denied_def on_needs_approval_def Let_def split: if_splits)
  next
    case False
    then show thesis
      using assms pr ran by (auto simp: act_on_def Let_def rbind_eq_Inr_iff)
  qed
qed

lemma react_iter_Continue:
  assumes "react_iter env i sg ra s = Inr (Continue t)"
  obtains a where "stop_before (le_now env i) (sg_loop_guard_config sg) s = None"
    and "reason_step (le_show_py env) (le_llm env i) (ra_user_question ra) (ls_state s) = Inr a"
    and "act_type a \<notin> {''finish'', ''ask_clarification''}"
    and "act_on env i sg ra a (s\<lparr>ls_budget := increment_llm_call 0 (ls_budget s)\<rparr>) = Inr (Continue t)"
  using assms
  by (auto simp: react_iter_def on_clarification_def ACTION_TYPE_FINISH_def Let_def rbind_eq_Inr_iff
      split: option.splits sum.splits if_splits)

lemma stop_before_None:
  "stop_before now cfg s = None \<Longrightarrow> bc_allowed (can_proceed now (ls_budget s))"
  by (auto simp: stop_before_def split: if_splits)

lemma react_iter_budget:
  assumes "react_iter env i sg ra s = Inr (Continue t)"
  shows "bc_allowed (can_proceed (le_now env i) (b_of s))"
    and "\<exists>tool. b_of t = increment_step (increment_llm_call 0 (b_of s))
               \<or> b_of t = increment_step (increment_tool_call tool (increment_llm_call 0 (b_of s)))"
proof -
  obtain a where a: "stop_before (le_now env i) (sg_loop_guard_config sg) s = None"
    "act_on env i sg ra a (s\<lparr>ls_budget := increment_llm_call 0 (ls_budget s)\<rparr>) = Inr (Continue t)"
    using assms by (rule react_iter_Continue)
  show "bc_allowed (can_proceed (le_now env i) (b_of s))"
    using a(1) by (rule stop_before_None)
  from a(2) show "\<exists>tool. b_of t = increment_step (increment_llm_call 0 (b_of s))
               \<or> b_of t = increment_step (increment_tool_call tool (increment_llm_call 0 (b_of s)))"
  proof (cases rule: act_on_Continue)
    case (refused m)
    then show ?thesis by simp
  next
    case (ran pr a1)
    show ?thesis
      using run_tool_budget [OF ran(4)] by (intro exI [of _ "act_type a1"]) simp
  qed
qed

text \<open>The step relation of the loop.\<close>

definition loop_step :: "loop_env \<Rightarrow> react_subgraph \<Rightarrow> run_args \<Rightarrow> loop_state \<Rightarrow> loop_state \<Rightarrow> bool" where
  "loop_step env sg ra s t \<longleftrightarrow> (\<exists>i. react_iter env i sg ra s = Inr (Continue t))"

interpretation llm_calls: spending_counter "loop_step env sg ra" "\<lambda>s. llm_used (b_of s)" "\<lambda>s. llm_limit (b_of s)"
  for env sg ra
  by unfold_locales
     (fastforce simp: loop_step_def bc_allowed_can_proceed dest: react_iter_budget)+

interpretation steps: spending_counter "loop_step env sg ra" "\<lambda>s. steps_used (b_of s)" "\<lambda>s. steps_limit (b_of s)"
  for env sg ra
  by unfold_locales
     (fastforce simp: loop_step_def bc_allowed_can_proceed dest: react_iter_budget)+

interpretation tool_calls: guarded_counter "loop_step env sg ra" "\<lambda>s. tools_used (b_of s)" "\<lambda>s. tools_limit (b_of s)"
  for env sg ra
  by unfold_locales
     (fastforce simp: loop_step_def bc_allowed_can_proceed dest: react_iter_budget)+

interpretation db_queries: guarded_counter "loop_step env sg ra" "\<lambda>s. db_used (b_of s)" "\<lambda>s. db_limit (b_of s)"
  for env sg ra
  by unfold_locales
     (fastforce simp: loop_step_def bc_allowed_can_proceed dest: react_iter_budget)+

section \<open>The loop and the run\<close>

function react_loop ::
    "loop_env \<Rightarrow> nat \<Rightarrow> react_subgraph \<Rightarrow> run_args \<Rightarrow> loop_state
     \<Rightarrow> (finish_reason \<times> finish_reason option \<times> termination_source \<times> loop_state) res" where
  "react_loop env i sg ra s =
     (case react_iter env i sg ra s of
        Inl e \<Rightarrow> Inl e
      | Inr (Stop r tr src t) \<Rightarrow> Inr (r, tr, src, t)
      | Inr (Continue t) \<Rightarrow> react_loop env (Suc i) sg ra t)"
  by pat_completeness auto
termination
  apply (relation "measure (\<lambda>(env, i, sg, ra, s). nat (llm_limit (b_of s) - llm_used (b_of s)))")
   apply simp
  apply (simp only: in_measure split_conv)
  apply (rule llm_calls.step_measure)
  apply (auto simp: loop_step_def)
  done

declare react_loop.simps [simp del]

definition init_state :: "react_subgraph \<Rightarrow> run_args \<Rightarrow> react_budget \<Rightarrow> react_state" where
  "init_state sg ra b =
     \<lparr>rs_user_question = ra_user_question ra, rs_tenant_id = ea_tenant_id (ra_exec ra),
      rs_user_id = ea_user_id (ra_exec ra), rs_query_lang = ea_query_lang (ra_exec ra),
      rs_budget = snapshot b,
      rs_allowed_tools =
        get_field (rc_allowed_tools (sg_react_config sg)) [''rag_search'', ''db_query'', ''web_search''],
      rs_action_history = [], rs_observations = [], rs_failures = [], rs_evidence = [],
      rs_needs_clarification = False, rs_clarification_question = PStr []\<rparr>"

definition init_loop_guard :: "loop_guard_config \<Rightarrow> loop_guard_state" where
  "init_loop_guard cfg =
     \<lparr>iteration_count = 0, max_iterations = get_field (lc_max_iterations cfg) 8,
      action_signature = [], same_action_count = 0, rerank_score_history = [],
      rerank_drop_count = 0, retrieval_observations = [],
      lg_fallback_message = get_field (lc_fallback_message cfg) FALLBACK_MESSAGE\<rparr>"

definition start_budget :: "rat \<Rightarrow> react_subgraph \<Rightarrow> run_args \<Rightarrow> react_budget" where
  "start_budget now sg ra =
     (case ra_max_latency_ms ra of
        None \<Rightarrow> sg_budget sg
      | Some ms \<Rightarrow> (sg_budget sg)\<lparr>deadline_ts := Some (now + of_int ms / 1000)\<rparr>)"

definition start_state :: "rat \<Rightarrow> react_subgraph \<Rightarrow> run_args \<Rightarrow> loop_state" where
  "start_state now sg ra =
     (let b = start_budget now sg ra
      in \<lparr>ls_budget = b, ls_state = init_state sg ra b,
          ls_guard = init_loop_guard (sg_loop_guard_config sg)\<rparr>)"

definition build_summary :: "string \<Rightarrow> react_state \<Rightarrow> finish_reason \<Rightarrow> message" where
  "build_summary q st r =
     Msg ''question, steps, evidence, reason''
       [PStr (u_take 80 q), PInt (int (length (rs_action_history st))),
        PInt (int (length (rs_evidence st))), PStr (finish_reason_text r)]"

definition build_result ::
    "run_args \<Rightarrow> finish_reason \<times> finish_reason option \<times> termination_source \<times> loop_state
     \<Rightarrow> react_execution_result" where
  "build_result ra out =
     (case out of (r, tr, src, s) \<Rightarrow>
        \<lparr>rr_success = (r = Completed \<and> rs_evidence (ls_state s) \<noteq> []),
         rr_evidence = rs_evidence (ls_state s),
         rr_step_count = get_field (step_count (ls_budget s)) 0,
         rr_finish_reason = r, rr_termination_reason = tr, rr_termination_source = src,
         rr_last_action_signature = action_signature (ls_guard s),
         rr_same_action_count = same_action_count (ls_guard s),
         rr_rerank_score_history = rerank_score_history (ls_guard s),
         rr_rerank_drop_count = rerank_drop_count (ls_guard s),
         rr_budget_snapshot = snapshot (ls_budget s),
         rr_can_continue = (tr = None),
         rr_retrieval_observations = retrieval_observations (ls_guard s),
         rr_summary = build_summary (ra_user_question ra) (ls_state s) r\<rparr>)"

text \<open>\<open>ReactSubgraph.run\<close>: the result and the subgraph, whose budget the run has spent.\<close>

definition react_run ::
    "loop_env \<Rightarrow> rat \<Rightarrow> react_subgraph \<Rightarrow> run_args \<Rightarrow> (react_execution_result \<times> react_subgraph) res" where
  "react_run env now sg ra =
     rbind (react_loop env 0 sg ra (start_state now sg ra)) (\<lambda>(r, tr, src, s).
       Inr (build_result ra (r, tr, src, s), sg\<lparr>sg_budget := ls_budget s\<rparr>))"

text \<open>\<open>get_react_subgraph\<close>: the module-level instance, created on the first call and replaced
  whenever a configuration is given.\<close>

definition empty_agent_config :: agent_config where
  "empty_agent_config = \<lparr>ac_react = NoReact, ac_loop_guard = None, ac_permissions = None\<rparr>"

definition get_react_subgraph ::
    "rat \<Rightarrow> react_subgraph option \<Rightarrow> agent_config option \<Rightarrow> (react_subgraph \<times> react_subgraph option) res" where
  "get_react_subgraph now default_subgraph cfg =
     (case (default_subgraph, cfg) of
        (Some sg, None) \<Rightarrow> Inr (sg, Some sg)
      | _ \<Rightarrow>
          rbind (init_subgraph now (case cfg of None \<Rightarrow> empty_agent_config | Some c \<Rightarrow> c) None None)
            (\<lambda>sg. Inr (sg, Some sg)))"

section \<open>How a pass ends, and induction over the passes\<close>

lemma act_on_Stop:
  assumes "act_on env i sg ra a s = Inr (Stop r tr src t)"
  obtains m where "r = PolicyDenied" "tr = Some PolicyDenied" "src = PolicyGuardSource"
    "ls_budget t = increment_step (ls_budget s)" "ls_guard t = ls_guard s"
    "rs_evidence (ls_state t) = rs_evidence (ls_state s)"
    "rs_action_history (ls_state t) = rs_action_history (ls_state s) @ [short_entry a m]"
  using assms
  by (auto simp: act_on_def on_denied_def on_needs_approval_def Let_def rbind_eq_Inr_iff
      split: if_splits)

lemma react_iter_Stop:
  assumes "react_iter env i sg ra s = Inr (Stop r tr src t)"
  obtains (before) "stop_before (le_now env i) (sg_loop_guard_config sg) s = Some (r, src)"
      "tr = Some r" "t = s"
    | (reasoned) "bc_allowed (can_proceed (le_now env i) (ls_budget s))"
      "r \<in> {Completed, NeedsClarification, ErrorFinish}" "tr = None" "src = NoSource"
      "ls_budget t = increment_llm_call 0 (ls_budget s)" "ls_guard t = ls_guard s"
      "rs_evidence (ls_state t) = rs_evidence (ls_state s)"
      "rs_action_history (ls_state t) = rs_action_history (ls_state s)"
    | (denied) a m where "bc_allowed (can_proceed (le_now env i) (ls_budget s))"
      "r = PolicyDenied" "tr = Some PolicyDenied" "src = PolicyGuardSource"
      "ls_budget t = increment_step (increment_llm_call 0 (ls_budget s))" "ls_guard t = ls_guard s"
      "rs_evidence (ls_state t) = rs_evidence (ls_state s)"
      "rs_action_history (ls_state t) = rs_action_history (ls_state s) @ [short_entry a m]"
proof (cases "stop_before (le_now env i) (sg_loop_guard_config sg) s")
  case None
  note ok = stop_before_None [OF None]
  let ?s1 = "s\<lparr>ls_budget := increment_llm_call 0 (ls_budget s)\<rparr>"
  show thesis
  proof (cases "reason_step (le_show_py env) (le_llm env i) (ra_user_question ra) (ls_state s)")
    case (Inl e)
    with None assms ok reasoned show thesis by (auto simp: react_iter_def Let_def)
  next
    case (Inr a)
    show thesis
    proof (cases "act_type a \<in> {''finish'', ''ask_clarification''}")
      case True
      with None Inr assms ok reasoned show thesis
        by (auto simp: react_iter_def on_clarification_def ACTION_TYPE_FINISH_def Let_def
            rbind_eq_Inr_iff split: if_splits)
    next
      case False
      with None Inr assms have "act_on env i sg ra a ?s1 = Inr (Stop r tr src t)"
        by (simp add: react_iter_def ACTION_TYPE_FINISH_def Let_def)
      then show thesis by (rule act_on_Stop) (use denied ok in auto)
    qed
  qed
qed (use assms before in \<open>auto simp: react_iter_def\<close>)

lemma react_loop_induct_result:
  assumes "react_loop env i sg ra s = Inr (r, tr, src, t)" and "P s"
    and "\<And>j u v. P u \<Longrightarrow> react_iter env j sg ra u = Inr (Continue v) \<Longrightarrow> P v"
  obtains j u where "P u" "react_iter env j sg ra u = Inr (Stop r tr src t)"
  using assms
proof (induction env i sg ra s arbitrary: thesis rule: react_loop.induct)
  case (1 env i sg ra s)
  show thesis
  proof (cases "\<exists>v. react_iter env i sg ra s = Inr (Continue v)")
    case True
    then obtain v where v: "react_iter env i sg ra s = Inr (Continue v)" by blast
    with 1(3) have "react_loop env (Suc i) sg ra v = Inr (r, tr, src, t)"
      by (simp add: react_loop.simps [of env i])
    with 1(1) [OF v refl] 1(2,4,5) v show thesis by blast
  next
    case False
    with 1(3) have "react_iter env i sg ra s = Inr (Stop r tr src t)"
      by (auto simp: react_loop.simps [of env i] split: sum.splits outcome.splits)
    with 1(2,4) show thesis by blast
  qed
qed

end
