(* ===== verification/React_Run.thy ===== *)
theory React_Run
  imports React_Loop
begin

text \<open>
  What a whole run of the ReAct subgraph guarantees, by induction over its passes: budgets, the end of
  the loop, the evidence list, what the policy guard let through, and how the result fields fit
  together. The counters are the interpretations of \<open>guarded_counter\<close> in the theory of the loop.
\<close>

section \<open>Budgets\<close>

definition within_limits :: "react_budget \<Rightarrow> bool" where
  "within_limits b \<longleftrightarrow>
     steps_used b \<le> steps_limit b \<and> tools_used b \<le> tools_limit b \<and> db_used b \<le> db_limit b
     \<and> llm_used b \<le> llm_limit b"

definition same_limits :: "react_budget \<Rightarrow> react_budget \<Rightarrow> bool" where
  "same_limits b c \<longleftrightarrow>
     steps_limit b = steps_limit c \<and> tools_limit b = tools_limit c \<and> db_limit b = db_limit c
     \<and> llm_limit b = llm_limit c"

lemma limits_set_deadline [simp]:
  "within_limits (b\<lparr>deadline_ts := d\<rparr>) = within_limits b"
  "same_limits (b\<lparr>deadline_ts := d\<rparr>) c = same_limits b c"
  by (simp_all add: within_limits_def same_limits_def)

lemma same_limits_refl [simp]: "same_limits b b"
  by (simp add: same_limits_def)

lemma loop_step_limits:
  assumes "react_iter env j sg ra u = Inr (Continue v)"
    and "within_limits (b_of u) \<and> same_limits (b_of u) c"
  shows "within_limits (b_of v) \<and> same_limits (b_of v) c"
proof -
  have st: "(loop_step env sg ra)\<^sup>*\<^sup>* u v"
    using assms(1) by (intro r_into_rtranclp) (auto simp: loop_step_def)
  show ?thesis
    using steps.run_within [OF st] tool_calls.run_within [OF st] db_queries.run_within [OF st]
      llm_calls.run_within [OF st] steps.run_lim [OF st] tool_calls.run_lim [OF st]
      db_queries.run_lim [OF st] llm_calls.run_lim [OF st] assms(2)
    by (simp add: within_limits_def same_limits_def)
qed

lemma stop_limits:
  assumes "react_iter env j sg ra u = Inr (Stop r tr src t)"
    and "within_limits (b_of u) \<and> same_limits (b_of u) c"
  shows "within_limits (b_of t) \<and> same_limits (b_of t) c"
  using assms(1)
proof (cases rule: react_iter_Stop)
  case before
  with assms(2) show ?thesis by simp
qed (use assms(2) in \<open>simp_all add: within_limits_def same_limits_def bc_allowed_can_proceed\<close>)

lemma react_run_Inr:
  assumes "react_run env now sg ra = Inr (res, sg')"
  obtains r tr src t where
    "react_loop env 0 sg ra (start_state now sg ra) = Inr (r, tr, src, t)"
    "res = build_result ra (r, tr, src, t)" "sg' = sg\<lparr>sg_budget := ls_budget t\<rparr>"
  using assms by (auto simp: react_run_def rbind_eq_Inr_iff)

lemma start_state_budget [simp]:
  "within_limits (b_of (start_state now sg ra)) = within_limits (sg_budget sg)"
  "same_limits (b_of (start_state now sg ra)) c = same_limits (sg_budget sg) c"
  by (simp_all add: start_state_def start_budget_def Let_def split: option.split)

text \<open>C3: a run never spends more than its budget. If the subgraph's counters are within their limits
  when the run starts, then after the run, whatever the model answers and the tools do, the steps,
  tool calls, database queries and LLM calls in the result's snapshot are within the same limits; the
  reported step count is the snapshot's, and the snapshot is the budget the subgraph goes on with.\<close>

theorem react_run_within_budget:
  assumes "react_run env now sg ra = Inr (res, sg')" and "within_limits (sg_budget sg)"
  shows "within_limits (rr_budget_snapshot res) \<and> same_limits (rr_budget_snapshot res) (sg_budget sg)
    \<and> rr_step_count res = steps_used (rr_budget_snapshot res)
    \<and> sg_budget sg' = rr_budget_snapshot res"
proof -
  from assms(1) obtain r tr src t where run:
    "react_loop env 0 sg ra (start_state now sg ra) = Inr (r, tr, src, t)"
    "res = build_result ra (r, tr, src, t)" "sg' = sg\<lparr>sg_budget := ls_budget t\<rparr>"
    by (rule react_run_Inr)
  let ?P = "\<lambda>s. within_limits (b_of s) \<and> same_limits (b_of s) (sg_budget sg)"
  have "?P (start_state now sg ra)" using assms(2) by simp
  with run(1) obtain j u where "?P u" "react_iter env j sg ra u = Inr (Stop r tr src t)"
    by (rule react_loop_induct_result [where P = ?P]) (use loop_step_limits in blast)+
  then have "?P t" using stop_limits by blast
  with run(2,3) show ?thesis by (simp add: build_result_def snapshot_def)
qed

section \<open>The end of the loop\<close>

text \<open>The state after \<open>n\<close> passes from pass \<open>i\<close>, if none of them ends the loop or raises.\<close>

primrec after_passes ::
    "loop_env \<Rightarrow> nat \<Rightarrow> react_subgraph \<Rightarrow> run_args \<Rightarrow> nat \<Rightarrow> loop_state \<Rightarrow> loop_state option" where
  "after_passes env i sg ra 0 s = Some s"
| "after_passes env i sg ra (Suc n) s =
     (case after_passes env i sg ra n s of
        None \<Rightarrow> None
      | Some t \<Rightarrow>
          (case react_iter env (i + n) sg ra t of Inr (Continue u) \<Rightarrow> Some u | _ \<Rightarrow> None))"

lemma after_passes_relpow: "after_passes env i sg ra n s = Some t \<Longrightarrow> (loop_step env sg ra ^^ n) s t"
proof (induction n arbitrary: t)
  case 0
  then show ?case by simp
next
  case (Suc n)
  then obtain u where "after_passes env i sg ra n s = Some u"
    "react_iter env (i + n) sg ra u = Inr (Continue t)"
    by (auto split: option.splits sum.splits outcome.splits)
  with Suc.IH show ?case by (auto simp: loop_step_def)
qed

lemma after_passes_bound:
  assumes "after_passes env i sg ra n s = Some t"
  shows "int n \<le> max 0 (min (llm_limit (b_of s) - llm_used (b_of s)) (steps_limit (b_of s) - steps_used (b_of s)))"
proof (cases "n = 0")
  case False
  then show ?thesis
    using llm_calls.run_length_bound [OF after_passes_relpow [OF assms]]
      steps.run_length_bound [OF after_passes_relpow [OF assms]] by simp
qed simp

lemma react_loop_after_passes:
  "after_passes env i sg ra n s = Some t \<Longrightarrow> react_loop env i sg ra s = react_loop env (i + n) sg ra t"
  by (induction n arbitrary: t)
     (auto simp: react_loop.simps [of env "i + n" for i n] split: option.splits sum.splits outcome.splits)

lemma passes_stop:
  obtains n t where "after_passes env i sg ra n s = Some t"
    "\<nexists>u. react_iter env (i + n) sg ra t = Inr (Continue u)"
proof -
  let ?B = "nat (max 0 (min (llm_limit (b_of s) - llm_used (b_of s)) (steps_limit (b_of s) - steps_used (b_of s))))"
  let ?ok = "\<lambda>n. \<exists>t. after_passes env i sg ra n s = Some t"
  have bound: "\<And>n. ?ok n \<Longrightarrow> n \<le> ?B"
    using after_passes_bound by fastforce
  define n where "n = (GREATEST n. ?ok n)"
  have "?ok 0" by simp
  then have "?ok n" unfolding n_def using bound by (rule GreatestI_nat [where P = ?ok and b = ?B])
  then obtain t where t: "after_passes env i sg ra n s = Some t" by blast
  have "\<nexists>u. react_iter env (i + n) sg ra t = Inr (Continue u)"
  proof
    assume "\<exists>u. react_iter env (i + n) sg ra t = Inr (Continue u)"
    with t have "?ok (Suc n)" by auto
    then have "Suc n \<le> n" unfolding n_def using bound by (rule Greatest_le_nat [where P = ?ok and b = ?B])
    then show False by simp
  qed
  with t that show thesis by blast
qed

text \<open>C4: the \<open>while True\<close> loop always ends, for every behaviour of the model, the tools and the clock:
  after at most as many passes as LLM calls and steps are left in the budget there is a pass that
  does not continue, and the loop returns that pass's outcome.\<close>

theorem react_loop_ends:
  "\<exists>n t. int n \<le> max 0 (min (llm_limit (b_of s) - llm_used (b_of s)) (steps_limit (b_of s) - steps_used (b_of s)))
     \<and> after_passes env i sg ra n s = Some t
     \<and> (case react_iter env (i + n) sg ra t of
          Inl e \<Rightarrow> react_loop env i sg ra s = Inl e
        | Inr (Stop r tr src u) \<Rightarrow> react_loop env i sg ra s = Inr (r, tr, src, u)
        | Inr (Continue u) \<Rightarrow> False)"
proof -
  obtain n t where n: "after_passes env i sg ra n s = Some t"
    "\<nexists>u. react_iter env (i + n) sg ra t = Inr (Continue u)"
    by (rule passes_stop)
  with after_passes_bound [OF n(1)] react_loop_after_passes [OF n(1)] show ?thesis
    by (intro exI [of _ n] exI [of _ t])
       (auto simp: react_loop.simps [of env "i + n"] split: sum.splits outcome.splits)
qed

text \<open>A subgraph whose LLM calls are used up answers every later run at once, whatever its
  arguments, with the finish reason \<open>budget_exhausted\<close> and no evidence, and spends nothing: the budget
  belongs to the subgraph object and a run does not reset it.\<close>

theorem exhausted_subgraph_returns_at_once:
  assumes "llm_used (sg_budget sg) \<ge> llm_limit (sg_budget sg)"
  shows "\<exists>res. react_run env now sg ra = Inr (res, sg\<lparr>sg_budget := start_budget now sg ra\<rparr>)
    \<and> rr_finish_reason res = BudgetExhausted \<and> rr_evidence res = [] \<and> \<not> rr_success res
    \<and> llm_used (start_budget now sg ra) = llm_used (sg_budget sg)"
proof -
  let ?s = "start_state now sg ra"
  have b: "ls_budget ?s = start_budget now sg ra" by (simp add: start_state_def Let_def)
  have l: "llm_used (start_budget now sg ra) = llm_used (sg_budget sg)"
    "llm_limit (start_budget now sg ra) = llm_limit (sg_budget sg)"
    by (simp_all add: start_budget_def split: option.split)
  then have "\<not> bc_allowed (can_proceed (le_now env 0) (ls_budget ?s))"
    using assms b by (simp add: bc_allowed_can_proceed)
  then have "react_loop env 0 sg ra ?s = Inr (BudgetExhausted, Some BudgetExhausted, BudgetSource, ?s)"
    by (simp add: react_loop.simps [of env 0] react_iter_def stop_before_def)
  then show ?thesis
    using b l by (auto simp: react_run_def build_result_def start_state_def init_state_def Let_def)
qed

section \<open>The evidence list\<close>

definition distinct_evidence :: "pdict list \<Rightarrow> bool" where
  "distinct_evidence es \<longleftrightarrow>
     sorted_wrt (\<lambda>e f. \<not> py_eq (dget e ''evidence_id'') (dget f ''evidence_id'')) es"

lemma distinct_add_evidence: "distinct_evidence es \<Longrightarrow> distinct_evidence (add_evidence es ev)"
  by (auto simp: distinct_evidence_def add_evidence_def sorted_wrt_append list_ex_iff)

lemma distinct_foldl_add: "distinct_evidence es \<Longrightarrow> distinct_evidence (foldl add_evidence es evs)"
  by (induction evs arbitrary: es) (auto intro: distinct_add_evidence)

lemma run_tool_evidence:
  assumes "run_tool env i sg ra a s = Inr t"
  obtains evs where "rs_evidence (ls_state t) = foldl add_evidence (rs_evidence (ls_state s)) evs"
  using assms by (rule run_tool_Inr) simp

lemma iter_distinct_evidence:
  assumes "react_iter env j sg ra u = Inr (Continue v)" and "distinct_evidence (rs_evidence (ls_state u))"
  shows "distinct_evidence (rs_evidence (ls_state v))"
proof -
  from assms(1) obtain a where
    "act_on env j sg ra a (u\<lparr>ls_budget := increment_llm_call 0 (ls_budget u)\<rparr>) = Inr (Continue v)"
    by (rule react_iter_Continue)
  then show ?thesis
  proof (cases rule: act_on_Continue)
    case (refused m)
    with assms(2) show ?thesis by simp
  next
    case (ran pr a1)
    then obtain evs where "rs_evidence (ls_state v) = foldl add_evidence (rs_evidence (ls_state u)) evs"
      by (auto elim: run_tool_evidence)
    with assms(2) distinct_foldl_add show ?thesis by metis
  qed
qed

text \<open>The evidence a run returns has no two entries with equal identifiers (in Python's equality):
  however often the tools report the same item, it is kept once. In particular at most one entry
  without an identifier survives.\<close>

theorem react_run_distinct_evidence:
  assumes "react_run env now sg ra = Inr (res, sg')" and "j < k" and "k < length (rr_evidence res)"
  shows "\<not> py_eq (dget (rr_evidence res ! j) ''evidence_id'') (dget (rr_evidence res ! k) ''evidence_id'')"
proof -
  from assms(1) obtain r tr src t where run:
    "react_loop env 0 sg ra (start_state now sg ra) = Inr (r, tr, src, t)"
    "res = build_result ra (r, tr, src, t)"
    by (rule react_run_Inr)
  let ?P = "\<lambda>s. distinct_evidence (rs_evidence (ls_state s))"
  have "?P (start_state now sg ra)"
    by (simp add: start_state_def init_state_def distinct_evidence_def Let_def)
  with run(1) obtain i u where u: "?P u" "react_iter env i sg ra u = Inr (Stop r tr src t)"
    by (rule react_loop_induct_result [where P = ?P]) (use iter_distinct_evidence in blast)+
  from u(2) have "rs_evidence (ls_state t) = rs_evidence (ls_state u)"
    by (cases rule: react_iter_Stop) auto
  with u(1) run(2) assms(2,3) show ?thesis
    by (simp add: build_result_def distinct_evidence_def sorted_wrt_iff_nth_less)
qed

section \<open>What the policy guard let through\<close>

text \<open>A history entry with arguments is the record of a tool execution (a refusal records none).\<close>

definition harmless_sql :: "string res \<Rightarrow> bool" where
  "harmless_sql t \<longleftrightarrow>
     (case t of
        Inl _ \<Rightarrow> False
      | Inr sql \<Rightarrow>
          (\<forall>kw \<in> set HIGH_RISK_KEYWORDS. \<not> contains kw (lower sql))
          \<and> (starts_with ''select'' (lower sql) \<longrightarrow> contains_word ''limit'' (lower sql)))"

definition executed_ok :: "policy_guard \<Rightarrow> history_entry \<Rightarrow> bool" where
  "executed_ok g h \<longleftrightarrow>
     (case he_arguments h of
        None \<Rightarrow> True
      | Some args \<Rightarrow>
          he_action_type h \<in> set (pg_allowed_tools g) \<and>
          (he_action_type h = ''db_query'' \<longrightarrow> harmless_sql (sql_of args)))"

text \<open>The text that the executor sends to the SQL agent for such an entry is harmless, if its arguments have
  only one of \<open>sql\<close> and \<open>query\<close>.\<close>

definition sent_ok :: "string \<Rightarrow> string \<Rightarrow> string \<Rightarrow> string \<Rightarrow> history_entry \<Rightarrow> bool" where
  "sent_ok tenant llm db mcp h \<longleftrightarrow>
     (case he_arguments h of
        None \<Rightarrow> True
      | Some args \<Rightarrow>
          he_action_type h = ''db_query'' \<and> \<not> (truthy (dget args ''sql'') \<and> truthy (dget args ''query'')) \<longrightarrow>
            harmless_sql (py_strip (dget (db_input args tenant llm db mcp) ''query'')))"

lemma executed_ok_short [simp]: "executed_ok g (short_entry a m)"
  by (simp add: executed_ok_def short_entry_def)

lemma run_tool_history:
  assumes "run_tool env i sg ra a s = Inr t"
  obtains h where "rs_action_history (ls_state t) = rs_action_history (ls_state s) @ [h]"
    "he_action_type h = act_type a" "he_arguments h = Some (act_arguments a)"
  using assms by (rule run_tool_Inr) (auto simp: full_entry_def)

lemma ran_executed_ok:
  assumes ev: "evaluate validate show_py g (policy_ctx sg ra st a) = Inr pr"
    and "po_decision pr \<notin> {Deny, NeedsApproval}"
    and "act_type a \<noteq> []" and "act_type a \<notin> {''finish'', ''ask_clarification''}"
    and "he_action_type h = act_type a"
    and "he_arguments h = Some (if po_sanitized_arguments pr \<noteq> [] then po_sanitized_arguments pr
                                else act_arguments a)"
  shows "executed_ok g h"
proof -
  let ?ctx = "policy_ctx sg ra st a"
  have c [simp]: "pc_action_type ?ctx = act_type a" "pc_arguments ?ctx = act_arguments a"
    by (simp_all add: policy_ctx_def)
  have "act_type a \<in> set (pg_allowed_tools g)
      \<and> (act_type a = ''db_query'' \<longrightarrow> evaluate_db_query g ?ctx = Inr pr)"
    using evaluate_not_refused [OF ev assms(2) c(1) assms(3)] assms(4) by auto
  then show ?thesis
    using evaluate_db_query_allow [of g ?ctx pr] assms(2,5,6) by (auto simp: executed_ok_def harmless_sql_def)
qed

lemma history_executed_ok:
  assumes "react_iter env j sg ra u = Inr (Continue v)"
    and "list_all (executed_ok (sg_policy_guard sg)) (rs_action_history (ls_state u))"
  shows "list_all (executed_ok (sg_policy_guard sg)) (rs_action_history (ls_state v))"
proof -
  from assms(1) obtain a where a:
    "reason_step (le_show_py env) (le_llm env j) (ra_user_question ra) (ls_state u) = Inr a"
    "act_type a \<notin> {''finish'', ''ask_clarification''}"
    "act_on env j sg ra a (u\<lparr>ls_budget := increment_llm_call 0 (ls_budget u)\<rparr>) = Inr (Continue v)"
    by (rule react_iter_Continue)
  have ne: "act_type a \<noteq> []"
    using a(1) parse_type_nonempty by (auto simp: reason_step_def rbind_eq_Inr_iff)
  from a(3) show ?thesis
  proof (cases rule: act_on_Continue)
    case (refused m)
    with assms(2) show ?thesis by auto
  next
    case (ran pr a1)
    from ran(4) obtain h where h: "rs_action_history (ls_state v) = rs_action_history (ls_state u) @ [h]"
      "he_action_type h = act_type a1" "he_arguments h = Some (act_arguments a1)"
      by (rule run_tool_history) simp
    with ran(3) ran_executed_ok [OF ran(1,2) ne a(2)] have "executed_ok (sg_policy_guard sg) h" by simp
    with h(1) assms(2) show ?thesis by simp
  qed
qed

text \<open>When the arguments of a database action carry only one of \<open>sql\<close> and \<open>query\<close>, the text that
  is sent to the SQL agent is the text the guard has checked (up to surrounding white space).\<close>

lemma sent_text_is_checked_text:
  assumes "\<not> (truthy (dget args ''sql'') \<and> truthy (dget args ''query''))"
  shows "py_strip (dget (db_input args tenant llm db mcp) ''query'') = sql_of args"
  using assms by (simp add: db_input_def sql_of_def py_or_def)

lemma executed_is_sent_ok: "executed_ok g h \<Longrightarrow> sent_ok tenant llm db mcp h"
  by (auto simp: executed_ok_def sent_ok_def sent_text_is_checked_text split: option.splits)

text \<open>C5: the guard's checks hold for every executed tool. In the history of every run, each entry of an
  executed tool names a tool of the guard's white list. For a database query the text that the guard
  reads (\<open>sql\<close>, else \<open>query\<close>) contains none of the high-risk keywords, in any case of letters, and a
  \<open>select\<close> in it has a \<open>limit\<close>; and if the arguments have only one of \<open>sql\<close> and \<open>query\<close>, the same holds for
  the text that the executor sends to the SQL agent. With both of them present the executor sends the
  one that the guard has not read, and nothing is claimed about it.\<close>

theorem executed_tools_passed_guard:
  assumes "react_loop env 0 sg ra (start_state now sg ra) = Inr (r, tr, src, t)"
  shows "list_all (\<lambda>h. executed_ok (sg_policy_guard sg) h \<and> sent_ok tenant llm db mcp h) (rs_action_history (ls_state t))"
proof -
  let ?P = "\<lambda>s. list_all (executed_ok (sg_policy_guard sg)) (rs_action_history (ls_state s))"
  have "?P (start_state now sg ra)"
    by (simp add: start_state_def init_state_def Let_def)
  with assms obtain j u where u: "?P u" "react_iter env j sg ra u = Inr (Stop r tr src t)"
    by (rule react_loop_induct_result [where P = ?P]) (use history_executed_ok in blast)+
  from u(2,1) have "?P t"
    by (cases rule: react_iter_Stop) auto
  then show ?thesis using executed_is_sent_ok by (auto simp: list_all_iff)
qed

text \<open>With both \<open>sql\<close> and \<open>query\<close> present the guard checks \<open>sql\<close> and the executor sends
  \<open>query\<close>: a harmless \<open>sql\<close> carries any \<open>query\<close> text past the keyword check, for every guard that
  allows the database tool and sets no database white list.\<close>

theorem guard_and_executor_read_different_texts:
  assumes "''db_query'' \<in> set (pg_allowed_tools g)" and "pg_tool_policies g = []" and "q \<noteq> []"
  shows "let args = [(''sql'', PStr ''show tables''), (''query'', PStr q)];
             a = \<lparr>act_type = ''db_query'', act_tool_name = PStr ''db_query'', act_purpose = [],
                  act_arguments = args, act_thought_summary = []\<rparr>
         in (\<exists>pr. evaluate validate show_py g
                    (policy_ctx sg (ra\<lparr>ra_skill_set := NoSkillSet\<rparr>) st a) = Inr pr
                  \<and> po_decision pr = Allow)
            \<and> dget (db_input args tenant llm db mcp) ''query'' = PStr q"
proof -
  let ?args = "[(''sql'', PStr ''show tables''), (''query'', PStr q)]"
  let ?a = "\<lparr>act_type = ''db_query'', act_tool_name = PStr ''db_query'', act_purpose = [],
              act_arguments = ?args, act_thought_summary = []\<rparr>"
  let ?ctx = "policy_ctx sg (ra\<lparr>ra_skill_set := NoSkillSet\<rparr>) st ?a"
  have sql: "sql_of ?args = Inr ''show tables''"
  proof -
    have "strip ''show tables'' = ''show tables''" by code_simp
    then show ?thesis by (simp add: sql_of_def py_or_def)
  qed
  have "find (\<lambda>kw. contains kw (lower ''show tables'')) HIGH_RISK_KEYWORDS = None"
    "find (\<lambda>kw. contains_word kw (lower ''show tables'')) WRITE_KEYWORDS = None"
    "\<not> starts_with ''select'' (lower ''show tables'')"
    by code_simp+
  then have "\<exists>m. evaluate_db_query g ?ctx = Inr (accept m ?args)"
    using sql assms(2) by (auto simp: evaluate_db_query_def policy_ctx_def Let_def)
  then have "\<exists>pr. evaluate validate show_py g ?ctx = Inr pr \<and> po_decision pr = Allow"
    using assms(1)
    by (auto simp: evaluate_def evaluate_skill_policy_def resolve_skill_arg_def policy_ctx_def)
  then show ?thesis
    using assms(3) by (simp add: db_input_def py_or_def)
qed

section \<open>The result\<close>

text \<open>The fields of a result agree with each other. The termination source names the budget, the
  loop guard or the policy guard exactly for the finish reasons of that part; the run counts as one
  that can be continued exactly when none of them stopped it; and it is a success only if the model
  finished by itself with some evidence.\<close>

theorem react_result_consistent:
  assumes "react_run env now sg ra = Inr (res, sg')"
  shows "(rr_termination_source res = BudgetSource \<longleftrightarrow> rr_finish_reason res = BudgetExhausted)
    \<and> (rr_termination_source res = LoopGuardSource \<longleftrightarrow>
         rr_finish_reason res \<in> {SameActionLoop, RerankDeclining})
    \<and> (rr_termination_source res = PolicyGuardSource \<longleftrightarrow> rr_finish_reason res = PolicyDenied)
    \<and> (rr_can_continue res \<longleftrightarrow> rr_finish_reason res \<in> {Completed, NeedsClarification, ErrorFinish})
    \<and> (rr_success res \<longleftrightarrow> rr_finish_reason res = Completed \<and> rr_evidence res \<noteq> [])"
proof -
  from assms obtain r tr src t where run:
    "react_loop env 0 sg ra (start_state now sg ra) = Inr (r, tr, src, t)"
    "res = build_result ra (r, tr, src, t)"
    by (rule react_run_Inr)
  from run(1) obtain j u where u: "react_iter env j sg ra u = Inr (Stop r tr src t)"
    by (rule react_loop_induct_result [where P = "\<lambda>_. True"]) auto
  from u show ?thesis
  proof (cases rule: react_iter_Stop)
    case before
    then show ?thesis
      using run(2) by (auto simp: build_result_def stop_before_def check_loop_guard_termination_def
          split: if_splits)
  qed (use run(2) in \<open>auto simp: build_result_def\<close>)
qed

section \<open>Declining scores\<close>

lemma run_tool_guard:
  assumes "run_tool env i sg ra a s = Inr t"
    and "drops_justified (sg_loop_guard_config sg) (ls_guard s)"
  shows "drops_justified (sg_loop_guard_config sg) (ls_guard t)"
  using assms(1) by (rule run_tool_Inr) (auto simp: assms(2) update_drops_justified)

lemma iter_drops_justified:
  assumes "react_iter env j sg ra u = Inr (Continue v)"
    and "drops_justified (sg_loop_guard_config sg) (ls_guard u)"
  shows "drops_justified (sg_loop_guard_config sg) (ls_guard v)"
proof -
  from assms(1) obtain a where
    "act_on env j sg ra a (u\<lparr>ls_budget := increment_llm_call 0 (ls_budget u)\<rparr>) = Inr (Continue v)"
    by (rule react_iter_Continue)
  then show ?thesis
    by (cases rule: act_on_Continue) (use assms(2) run_tool_guard in fastforce)+
qed

text \<open>A run is stopped for declining scores only after a real decline: with a positive limit \<open>L\<close>,
  the last \<open>L + 1\<close> scores of the history the result carries each lie below their predecessor by at
  least the configured minimal drop.\<close>

theorem rerank_declining_justified:
  assumes "react_run env now sg ra = Inr (res, sg')" and "rr_finish_reason res = RerankDeclining"
    and "get_field (lc_rerank_drop_limit (sg_loop_guard_config sg)) 2 = L" and "0 < L"
  shows "falling (get_field (lc_min_rerank_drop (sg_loop_guard_config sg)) (5 / 100)) (nat L + 1)
    (rr_rerank_score_history res)"
proof -
  from assms(1) obtain r tr src t where run:
    "react_loop env 0 sg ra (start_state now sg ra) = Inr (r, tr, src, t)"
    "res = build_result ra (r, tr, src, t)"
    by (rule react_run_Inr)
  let ?cfg = "sg_loop_guard_config sg"
  let ?P = "\<lambda>s. drops_justified ?cfg (ls_guard s)"
  have "?P (start_state now sg ra)"
    by (simp add: start_state_def init_loop_guard_def drops_justified_def Let_def)
  with run(1) obtain i u where u: "?P u" "react_iter env i sg ra u = Inr (Stop r tr src t)"
    by (rule react_loop_induct_result [where P = ?P]) (use iter_drops_justified in blast)+
  from assms(2) run(2) have r: "r = RerankDeclining" by (simp add: build_result_def)
  with u(2) have "check_loop_guard_termination (ls_guard t) ?cfg = Some RerankDeclining" "t = u"
    by (auto elim!: react_iter_Stop simp: stop_before_def split: if_splits)
  with u(1) assms(3,4) have "falling (get_field (lc_min_rerank_drop ?cfg) (5 / 100))
      (nat (rerank_drop_count (ls_guard t)) + 1) (rerank_score_history (ls_guard t))"
    "nat L + 1 \<le> nat (rerank_drop_count (ls_guard t)) + 1"
    by (auto simp: check_loop_guard_termination_def drops_justified_def split: if_splits)
  then show ?thesis
    using run(2) by (simp add: build_result_def falling_mono)
qed

section \<open>A concrete run\<close>

text \<open>A model that first queries the database and then finishes; the tool reports one item twice.
  \<open>quoted\<close> writes a JSON text with \<open>~\<close> for the quotation mark.\<close>

definition quoted :: "string \<Rightarrow> string" where
  "quoted s = map (\<lambda>c. if c = CHR ''~'' then CHR 0x22 else c) s"

definition demo_exec :: exec_env where
  "demo_exec =
     \<lparr>ee_invoke = (\<lambda>_ _. Inr (PDict [(''formatted_result'', PStr ''t1'')])),
      ee_normalize = (\<lambda>_ _ _ _. Inr [[(''evidence_id'', PStr ''e1''), (''content'', PStr ''x'')],
                                      [(''evidence_id'', PStr ''e1''), (''content'', PStr ''y'')],
                                      [(''evidence_id'', PStr ''e2''), (''content'', PStr ''z'')]]),
      ee_latency = 1\<rparr>"

definition demo_env :: loop_env where
  "demo_env =
     \<lparr>le_now = (\<lambda>_. 1),
      le_llm = (\<lambda>i _ _. Inr (quoted (if i = 0
                  then ''{~type~: ~db_query~, ~sql~: ~show tables~, ~arguments~: {~sql~: ~show tables~}}''
                  else ''{~type~: ~finish~}''))),
      le_exec = (\<lambda>_. demo_exec), le_show_py = (\<lambda>_. []), le_float_of_str = (\<lambda>_. Inl ValueError),
      le_float_repr = (\<lambda>_. []), le_sha256 = (\<lambda>s. s), le_validate = (\<lambda>_. Inl ValueError)\<rparr>"

definition demo_subgraph :: react_subgraph where
  "demo_subgraph = projr (init_subgraph 0 empty_agent_config None None)"

definition demo_args :: run_args where
  "demo_args =
     \<lparr>ra_user_question = ''q'',
      ra_exec = \<lparr>ea_tenant_id = ''t'', ea_user_id = ''u'', ea_llm_id = ''m'', ea_kb_ids = None,
                 ea_db_id = [], ea_mcp_server_name = [], ea_query_lang = ''en''\<rparr>,
      ra_max_latency_ms = None, ra_skill_set = NoSkillSet\<rparr>"

lemma demo_run:
  "case react_run demo_env 1 demo_subgraph demo_args of
     Inl _ \<Rightarrow> False
   | Inr (res, sg') \<Rightarrow>
       length (rr_evidence res) = 2 \<and> rr_step_count res = 1 \<and> rr_success res"
  by code_simp

lemma demo_run_Inr:
  obtains res sg' where "react_run demo_env 1 demo_subgraph demo_args = Inr (res, sg')"
    "length (rr_evidence res) = 2" "rr_step_count res = 1" "rr_success res"
  using demo_run by (auto split: sum.splits)

lemma demo_within: "within_limits (sg_budget demo_subgraph)"
  by code_simp

theorem react_run_within_budget_witness:
  "\<exists>res sg'. react_run demo_env 1 demo_subgraph demo_args = Inr (res, sg')
     \<and> within_limits (rr_budget_snapshot res) \<and> steps_used (rr_budget_snapshot res) = 1"
proof -
  obtain res sg' where d: "react_run demo_env 1 demo_subgraph demo_args = Inr (res, sg')"
    "rr_step_count res = 1"
    by (rule demo_run_Inr)
  from react_run_within_budget [OF d(1) demo_within] d show ?thesis by auto
qed

theorem exhausted_subgraph_returns_at_once_witness:
  "\<exists>res sg'. react_run demo_env 1 (demo_subgraph\<lparr>sg_budget := (sg_budget demo_subgraph)
       \<lparr>llm_call_count := Some 5\<rparr>\<rparr>) demo_args = Inr (res, sg')
     \<and> rr_finish_reason res = BudgetExhausted \<and> rr_evidence res = []"
proof -
  let ?sg = "demo_subgraph\<lparr>sg_budget := (sg_budget demo_subgraph)\<lparr>llm_call_count := Some 5\<rparr>\<rparr>"
  have "llm_used (sg_budget ?sg) \<ge> llm_limit (sg_budget ?sg)" by code_simp
  from exhausted_subgraph_returns_at_once [OF this, of demo_env 1 demo_args] show ?thesis by blast
qed

theorem react_run_distinct_evidence_witness:
  "\<exists>res sg'. react_run demo_env 1 demo_subgraph demo_args = Inr (res, sg')
     \<and> \<not> py_eq (dget (rr_evidence res ! 0) ''evidence_id'') (dget (rr_evidence res ! 1) ''evidence_id'')"
proof -
  obtain res sg' where d: "react_run demo_env 1 demo_subgraph demo_args = Inr (res, sg')"
    "length (rr_evidence res) = 2"
    by (rule demo_run_Inr)
  from react_run_distinct_evidence [OF d(1), of 0 1] d show ?thesis by auto
qed

theorem executed_tools_passed_guard_witness:
  "\<exists>r tr src t. react_loop demo_env 0 demo_subgraph demo_args (start_state 1 demo_subgraph demo_args)
       = Inr (r, tr, src, t)
     \<and> list_all (\<lambda>h. executed_ok (sg_policy_guard demo_subgraph) h \<and> sent_ok ''t'' ''m'' [] [] h) (rs_action_history (ls_state t))"
proof -
  obtain res sg' where "react_run demo_env 1 demo_subgraph demo_args = Inr (res, sg')"
    by (rule demo_run_Inr)
  then obtain r tr src t where
    "react_loop demo_env 0 demo_subgraph demo_args (start_state 1 demo_subgraph demo_args)
       = Inr (r, tr, src, t)"
    by (rule react_run_Inr)
  from this executed_tools_passed_guard [OF this] show ?thesis by blast
qed

theorem guard_and_executor_read_different_texts_witness:
  "dget (db_input [(''sql'', PStr ''show tables''), (''query'', PStr ''drop table t'')] [] [] [] []) ''query''
     = PStr ''drop table t''
   \<and> (\<exists>pr. evaluate (le_validate demo_env) (le_show_py demo_env)
             \<lparr>pg_allowed_tools = [''db_query''], pg_tool_policies = []\<rparr>
             (policy_ctx demo_subgraph (demo_args\<lparr>ra_skill_set := NoSkillSet\<rparr>)
               (ls_state (start_state 1 demo_subgraph demo_args))
               \<lparr>act_type = ''db_query'', act_tool_name = PStr ''db_query'', act_purpose = [],
                act_arguments = [(''sql'', PStr ''show tables''), (''query'', PStr ''drop table t'')],
                act_thought_summary = []\<rparr>) = Inr pr \<and> po_decision pr = Allow)"
  using guard_and_executor_read_different_texts
    [of "\<lparr>pg_allowed_tools = [''db_query''], pg_tool_policies = []\<rparr>" "''drop table t''"
        "le_validate demo_env" "le_show_py demo_env" demo_subgraph demo_args
        "ls_state (start_state 1 demo_subgraph demo_args)" "[]" "[]" "[]" "[]"]
  by (simp add: Let_def)

theorem react_result_consistent_witness:
  "\<exists>res sg'. react_run demo_env 1 demo_subgraph demo_args = Inr (res, sg')
     \<and> rr_finish_reason res = Completed \<and> rr_can_continue res"
proof -
  obtain res sg' where d: "react_run demo_env 1 demo_subgraph demo_args = Inr (res, sg')"
    "rr_success res"
    by (rule demo_run_Inr)
  from react_result_consistent [OF d(1)] d show ?thesis by auto
qed

text \<open>Three retrievals with falling scores under a limit of one drop.\<close>

definition declining_env :: loop_env where
  "declining_env = demo_env\<lparr>
     le_llm := (\<lambda>i _ _. Inr (quoted (''{~type~: ~rag_search~, ~query~: ~a~, ~arguments~: {~query~: ~''
                   @ replicate (Suc i) CHR ''a'' @ ''~}}''))),
     le_exec := (\<lambda>i. demo_exec\<lparr>ee_normalize := (\<lambda>_ _ _ _.
       Inr [[(''evidence_id'', PStr ''e''), (''content'', PStr ''x''),
             (''relevance_score'', PFloat (1 - of_nat i / 4))]])\<rparr>)\<rparr>"

definition declining_subgraph :: react_subgraph where
  "declining_subgraph = projr (init_subgraph 0 empty_agent_config None
     (Some (DEFAULT_LOOP_GUARD_CONFIG\<lparr>lc_rerank_drop_limit := Some 1\<rparr>)))"

lemma declining_run:
  "case react_run declining_env 1 declining_subgraph demo_args of
     Inl _ \<Rightarrow> False
   | Inr (res, sg') \<Rightarrow> rr_finish_reason res = RerankDeclining"
  by code_simp

theorem rerank_declining_justified_witness:
  "\<exists>res sg'. react_run declining_env 1 declining_subgraph demo_args = Inr (res, sg')
     \<and> falling (5 / 100) 2 (rr_rerank_score_history res)"
proof -
  obtain res sg' where d: "react_run declining_env 1 declining_subgraph demo_args = Inr (res, sg')"
    "rr_finish_reason res = RerankDeclining"
    using declining_run by (auto split: sum.splits)
  have l: "get_field (lc_rerank_drop_limit (sg_loop_guard_config declining_subgraph)) 2 = 1"
    "get_field (lc_min_rerank_drop (sg_loop_guard_config declining_subgraph)) (5 / 100) = 5 / 100"
    by code_simp+
  have "falling (5 / 100) (nat 1 + 1) (rr_rerank_score_history res)"
    using rerank_declining_justified [OF d l(1)] by (simp only: l(2))
  with d(1) show ?thesis by (auto simp: numeral_2_eq_2)
qed

end
