(* ===== verification/React_Node.thy ===== *)
theory React_Node
  imports React_Run
begin

text \<open>
  The node of the main graph that runs the ReAct subgraph
  (\<open>agent/langgraph/nodes/react_subgraph.py\<close>): it builds a fresh subgraph, turns an exception of the
  run into a degraded result, merges the evidence into that of the main graph and copies the
  termination data. The state record keeps the fields the node reads; the choice of the LLM function
  (\<open>_resolve_llm_callable\<close>) is part of the environment.
\<close>

record agent_state =
  ag_user_question :: string
  ag_exec :: exec_args
  ag_agent_config :: agent_config
  ag_react_enabled :: bool
  ag_skill_set :: skill_arg
  ag_evidence :: "pdict list"

text \<open>The result field of the update: skipped with a reason, degraded after an exception, or the
  result of the run.\<close>

datatype node_result = Skipped string | Degraded exn | Ran react_execution_result

record node_guard =
  ng_action_signature :: string
  ng_same_action_count :: int
  ng_rerank_score_history :: "rat list"
  ng_rerank_drop_count :: int
  ng_retrieval_observations :: "retrieval_observation list"
  ng_termination_reason :: "finish_reason option"
  ng_termination_source :: termination_source
  ng_agent_iteration_count :: int

record node_update =
  nu_result :: node_result
  nu_evidence :: "pdict list"
  nu_guard :: "node_guard option"

section \<open>Merging evidence\<close>

definition evidence_id :: "pdict \<Rightarrow> pyval" where
  "evidence_id ev = dget_or ev ''evidence_id'' (PStr [])"

fun seen_of :: "pdict list \<Rightarrow> pyval list res" where
  "seen_of [] = Inr []"
| "seen_of (ev # evs) =
     (if hashable (evidence_id ev) then rbind (seen_of evs) (\<lambda>ids. Inr (evidence_id ev # ids))
      else Inl TypeError)"

fun merge_new :: "pyval list \<Rightarrow> pdict list \<Rightarrow> pdict list \<Rightarrow> pdict list res" where
  "merge_new seen merged [] = Inr merged"
| "merge_new seen merged (ev # evs) =
     (let eid = evidence_id ev in
      if truthy eid then
        (if \<not> hashable eid then Inl TypeError
         else if \<not> py_in eid seen then merge_new (seen @ [eid]) (merged @ [ev]) evs
         else merge_new seen merged evs)
      else merge_new seen (merged @ [ev]) evs)"

definition merge_evidence :: "pdict list \<Rightarrow> pdict list \<Rightarrow> pdict list res" where
  "merge_evidence existing new = rbind (seen_of existing) (\<lambda>seen. merge_new seen existing new)"

section \<open>The node\<close>

definition node_args :: "agent_state \<Rightarrow> run_args" where
  "node_args s =
     \<lparr>ra_user_question = ag_user_question s, ra_exec = ag_exec s, ra_max_latency_ms = None,
      ra_skill_set = ag_skill_set s\<rparr>"

definition run_outcome :: "loop_env \<Rightarrow> rat \<Rightarrow> react_subgraph \<Rightarrow> agent_state \<Rightarrow> node_result" where
  "run_outcome env now sg s =
     (case react_run env now sg (node_args s) of
        Inl e \<Rightarrow> Degraded e
      | Inr (res, _) \<Rightarrow> Ran res)"

fun result_evidence :: "node_result \<Rightarrow> pdict list" where
  "result_evidence (Ran res) = rr_evidence res"
| "result_evidence _ = []"

fun guard_of :: "node_result \<Rightarrow> node_guard" where
  "guard_of (Ran res) =
     \<lparr>ng_action_signature = rr_last_action_signature res,
      ng_same_action_count = rr_same_action_count res,
      ng_rerank_score_history = rr_rerank_score_history res,
      ng_rerank_drop_count = rr_rerank_drop_count res,
      ng_retrieval_observations = rr_retrieval_observations res,
      ng_termination_reason = rr_termination_reason res,
      ng_termination_source = rr_termination_source res,
      ng_agent_iteration_count = rr_step_count res\<rparr>"
| "guard_of _ =
     \<lparr>ng_action_signature = [], ng_same_action_count = 0, ng_rerank_score_history = [],
      ng_rerank_drop_count = 0, ng_retrieval_observations = [], ng_termination_reason = None,
      ng_termination_source = NoSource, ng_agent_iteration_count = 0\<rparr>"

text \<open>The subgraph is constructed outside of the \<open>try\<close> around its run.\<close>

definition react_subgraph_node :: "loop_env \<Rightarrow> rat \<Rightarrow> agent_state \<Rightarrow> node_update res" where
  "react_subgraph_node env now s =
     (if \<not> ag_react_enabled s then
        Inr \<lparr>nu_result = Skipped ''disabled'', nu_evidence = ag_evidence s, nu_guard = None\<rparr>
      else if ag_user_question s = [] then
        Inr \<lparr>nu_result = Skipped ''empty_question'', nu_evidence = ag_evidence s, nu_guard = None\<rparr>
      else
        rbind (init_subgraph now (ag_agent_config s) None None) (\<lambda>sg.
          let r = run_outcome env now sg s in
          rbind (merge_evidence (ag_evidence s) (result_evidence r)) (\<lambda>merged.
            Inr \<lparr>nu_result = r, nu_evidence = merged, nu_guard = Some (guard_of r)\<rparr>)))"

section \<open>Properties\<close>

lemma seen_of_hashable: "\<forall>ev \<in> set evs. hashable (evidence_id ev) \<Longrightarrow> seen_of evs = Inr (map evidence_id evs)"
  by (induction evs) auto

lemma seen_of_Inr: "seen_of evs = Inr ids \<Longrightarrow> ids = map evidence_id evs"
  by (induction evs arbitrary: ids) (auto simp: rbind_eq_Inr_iff split: if_splits)

lemma merge_new_hashable:
  "\<forall>ev \<in> set new. hashable (evidence_id ev) \<Longrightarrow> \<exists>m. merge_new seen merged new = Inr m"
  by (induction seen merged new rule: merge_new.induct) (auto simp: Let_def)

lemma merge_new_extends: "merge_new seen merged new = Inr m \<Longrightarrow> \<exists>added. m = merged @ added \<and> set added \<subseteq> set new"
proof (induction seen merged new rule: merge_new.induct)
  case (2 seen merged ev evs)
  then show ?case by (fastforce simp: Let_def split: if_splits)
qed simp

text \<open>Every entry that is added has an identifier that no earlier entry with a known identifier has.\<close>

lemma merge_new_fresh:
  assumes "merge_new seen merged new = Inr (merged @ added)"
  shows "sorted_wrt (\<lambda>e f. truthy (evidence_id f) \<longrightarrow> truthy (evidence_id e) \<longrightarrow> \<not> py_eq (evidence_id f) (evidence_id e)) added
    \<and> (\<forall>f \<in> set added. truthy (evidence_id f) \<longrightarrow> \<not> py_in (evidence_id f) seen)"
  using assms
proof (induction seen merged new arbitrary: added rule: merge_new.induct)
  case (1 seen merged)
  then show ?case by simp
next
  case (2 seen merged ev evs)
  let ?eid = "evidence_id ev"
  consider "truthy ?eid" "hashable ?eid" "\<not> py_in ?eid seen" | "truthy ?eid" "hashable ?eid" "py_in ?eid seen"
    | "\<not> truthy ?eid"
    using "2.prems" by (cases "truthy ?eid"; cases "hashable ?eid"; cases "py_in ?eid seen") (auto simp: Let_def)
  then show ?case
  proof cases
    case 1
    then have r: "merge_new (seen @ [?eid]) (merged @ [ev]) evs = Inr (merged @ added)"
      using "2.prems" by (simp add: Let_def)
    then obtain a' where a': "added = ev # a'" using merge_new_extends [OF r] by auto
    with r "2.IH"(1) [OF refl 1(1) _ 1(3), of a'] 1 show ?thesis
      by (auto simp: py_in_def)
  next
    case 2
    then show ?thesis using "2.IH"(2) [OF refl] "2.prems" by (simp add: Let_def)
  next
    case 3
    then have r: "merge_new seen (merged @ [ev]) evs = Inr (merged @ added)"
      using "2.prems" by (simp add: Let_def)
    then obtain a' where a': "added = ev # a'" using merge_new_extends [OF r] by auto
    with r "2.IH"(3) [OF refl 3, of a'] 3 show ?thesis by auto
  qed
qed

subsection \<open>The evidence of a run comes from the normaliser\<close>

definition normaliser_hashable :: "loop_env \<Rightarrow> bool" where
  "normaliser_hashable env \<longleftrightarrow>
     (\<forall>i t r tn q evs. ee_normalize (le_exec env i) t r tn q = Inr evs \<longrightarrow>
        (\<forall>ev \<in> set evs. hashable (evidence_id ev)))"

definition all_hashable :: "pdict list \<Rightarrow> bool" where
  "all_hashable evs \<longleftrightarrow> (\<forall>ev \<in> set evs. hashable (evidence_id ev))"

lemma execute_hashable:
  assumes "normaliser_hashable env" and "execute sp fos (le_exec env i) ea a = Inr (obs, evs)"
  shows "all_hashable evs"
  using assms(2)
proof (cases rule: execute_cases)
  case (observed raw)
  then obtain t r tn q where "ee_normalize (le_exec env i) t r tn q = Inr evs"
    by (auto simp: observe_def rbind_eq_Inr_iff Let_def case_prod_beta)
  with assms(1) show ?thesis
    unfolding normaliser_hashable_def all_hashable_def by blast
qed (simp_all add: all_hashable_def)

lemma all_hashable_foldl: "all_hashable es \<Longrightarrow> all_hashable evs \<Longrightarrow> all_hashable (foldl add_evidence es evs)"
proof (induction evs arbitrary: es)
  case (Cons ev evs)
  then have "all_hashable (add_evidence es ev)" by (auto simp: all_hashable_def add_evidence_def)
  with Cons show ?case by (simp add: all_hashable_def)
qed simp

lemma iter_hashable:
  assumes "normaliser_hashable env" and "react_iter env j sg ra u = Inr (Continue v)"
    and "all_hashable (rs_evidence (ls_state u))"
  shows "all_hashable (rs_evidence (ls_state v))"
proof -
  from assms(2) obtain a where
    "act_on env j sg ra a (u\<lparr>ls_budget := increment_llm_call 0 (ls_budget u)\<rparr>) = Inr (Continue v)"
    by (rule react_iter_Continue)
  then show ?thesis
  proof (cases rule: act_on_Continue)
    case (refused m)
    with assms(3) show ?thesis by simp
  next
    case (ran pr a1)
    from ran(4) obtain obs evs where
      "execute (le_show_py env) (le_float_of_str env) (le_exec env j) (ra_exec ra) a1 = Inr (obs, evs)"
      "rs_evidence (ls_state v) = foldl add_evidence (rs_evidence (ls_state u)) evs"
      by (rule run_tool_Inr) simp
    with assms(1,3) execute_hashable all_hashable_foldl show ?thesis by metis
  qed
qed

lemma run_hashable:
  assumes "normaliser_hashable env" and "react_run env now sg ra = Inr (res, sg')"
  shows "all_hashable (rr_evidence res)"
proof -
  from assms(2) obtain r tr src t where run:
    "react_loop env 0 sg ra (start_state now sg ra) = Inr (r, tr, src, t)"
    "res = build_result ra (r, tr, src, t)"
    by (rule react_run_Inr)
  let ?P = "\<lambda>s. all_hashable (rs_evidence (ls_state s))"
  have "?P (start_state now sg ra)"
    by (simp add: start_state_def init_state_def all_hashable_def Let_def)
  with run(1) obtain j u where u: "?P u" "react_iter env j sg ra u = Inr (Stop r tr src t)"
    by (rule react_loop_induct_result [where P = ?P]) (use iter_hashable assms(1) in blast)+
  from u(2) have "rs_evidence (ls_state t) = rs_evidence (ls_state u)"
    by (cases rule: react_iter_Stop) auto
  with u(1) run(2) show ?thesis by (simp add: build_result_def)
qed

text \<open>The construction of the subgraph raises exactly on a section that is no dictionary or cannot be read.\<close>

lemma init_subgraph_raises:
  "isl (init_subgraph now cfg None None) \<longleftrightarrow>
     ac_react cfg = BadReact \<or> (\<exists>c. ac_react cfg = ReactSection c \<and> \<not> readable_config c)"
proof -
  have "readable_config empty_react_config"
    by (simp add: readable_config_def empty_react_config_def int_readable_def get_field_def)
  then show ?thesis
    by (cases "ac_react cfg") (simp_all add: init_subgraph_def Let_def isl_rbind build_budget_raises init_guard_def)
qed

text \<open>C40: when the node raises. Whatever the language model answers and however the tools fail, an
  exception of the run included, the node returns an update that keeps the evidence of the main graph, in
  place and unchanged, in front of what it adds. It raises in one case only, when it is enabled, has a
  question and the subgraph cannot be constructed: the section \<open>react\<close> of the configuration is no
  dictionary, its time limit is no number, or \<open>int\<close> cannot read one of its limits. The evidence identifiers
  of the state and of the evidence normaliser are taken to be values that fit into a set (they are
  strings).\<close>

theorem react_node_raises_exactly:
  assumes "normaliser_hashable env" and "all_hashable (ag_evidence s)"
  shows "((\<exists>e. react_subgraph_node env now s = Inl e) \<longleftrightarrow>
      ag_react_enabled s \<and> ag_user_question s \<noteq> []
      \<and> (ac_react (ag_agent_config s) = BadReact
         \<or> (\<exists>c. ac_react (ag_agent_config s) = ReactSection c \<and> \<not> readable_config c)))
    \<and> (\<forall>u. react_subgraph_node env now s = Inr u \<longrightarrow> (\<exists>added. nu_evidence u = ag_evidence s @ added))"
proof -
  define body where "body sg = (let r = run_outcome env now sg s in
      rbind (merge_evidence (ag_evidence s) (result_evidence r)) (\<lambda>merged.
        Inr \<lparr>nu_result = r, nu_evidence = merged, nu_guard = Some (guard_of r)\<rparr>))" for sg
  have node: "ag_react_enabled s \<Longrightarrow> ag_user_question s \<noteq> [] \<Longrightarrow>
      react_subgraph_node env now s = rbind (init_subgraph now (ag_agent_config s) None None) body"
    by (simp add: react_subgraph_node_def body_def [abs_def])
  have skipped: "\<not> (ag_react_enabled s \<and> ag_user_question s \<noteq> []) \<Longrightarrow>
      \<exists>u. react_subgraph_node env now s = Inr u \<and> nu_evidence u = ag_evidence s @ []"
    by (simp add: react_subgraph_node_def)
  have run: "\<exists>u added. body sg = Inr u \<and> nu_evidence u = ag_evidence s @ added" for sg
  proof -
    let ?r = "run_outcome env now sg s"
    have "all_hashable (result_evidence ?r)"
      using run_hashable [OF assms(1)]
      by (auto simp: run_outcome_def all_hashable_def split: sum.split)
    then obtain m where m: "merge_new (map evidence_id (ag_evidence s)) (ag_evidence s) (result_evidence ?r) = Inr m"
      using merge_new_hashable unfolding all_hashable_def by blast
    obtain added where "m = ag_evidence s @ added" using merge_new_extends [OF m] by blast
    with m assms(2) show ?thesis
      by (simp add: body_def merge_evidence_def seen_of_hashable all_hashable_def Let_def)
  qed
  show ?thesis
  proof (cases "ag_react_enabled s \<and> ag_user_question s \<noteq> []")
    case True
    show ?thesis
    proof (cases "init_subgraph now (ag_agent_config s) None None")
      case (Inl e)
      with True node show ?thesis unfolding init_subgraph_raises [where now = now, symmetric] by simp
    next
      case (Inr sg)
      obtain u added where "body sg = Inr u" "nu_evidence u = ag_evidence s @ added" using run by blast
      with Inr True node show ?thesis unfolding init_subgraph_raises [where now = now, symmetric] by simp
    qed
  qed (use skipped in auto)
qed

text \<open>Merging never duplicates: an entry the node adds that carries an identifier has one that no
  entry of the main graph and no other added entry has.\<close>

theorem react_node_adds_fresh_evidence:
  assumes "react_subgraph_node env now s = Inr u" and "nu_evidence u = ag_evidence s @ added"
    and "k < length added" and "truthy (evidence_id (added ! k))"
  shows "(\<forall>e \<in> set (ag_evidence s). \<not> py_eq (evidence_id (added ! k)) (evidence_id e))
    \<and> (\<forall>j < k. truthy (evidence_id (added ! j)) \<longrightarrow>
         \<not> py_eq (evidence_id (added ! k)) (evidence_id (added ! j)))"
proof (cases "ag_react_enabled s \<and> ag_user_question s \<noteq> []")
  case True
  with assms(1,2) obtain seen sg where seen: "seen_of (ag_evidence s) = Inr seen"
    "merge_new seen (ag_evidence s) (result_evidence (run_outcome env now sg s)) = Inr (ag_evidence s @ added)"
    by (auto simp: react_subgraph_node_def merge_evidence_def Let_def rbind_eq_Inr_iff)
  from merge_new_fresh [OF seen(2)] seen_of_Inr [OF seen(1)] assms(3,4) show ?thesis
    by (auto simp: sorted_wrt_iff_nth_less py_in_def list_ex_iff)
next
  case False
  with assms(1-3) show ?thesis by (auto simp: react_subgraph_node_def split: if_splits)
qed

section \<open>A concrete node call\<close>

definition demo_state :: agent_state where
  "demo_state =
     \<lparr>ag_user_question = ''q'', ag_exec = ra_exec demo_args, ag_agent_config = empty_agent_config,
      ag_react_enabled = True, ag_skill_set = NoSkillSet,
      ag_evidence = [[(''evidence_id'', PStr ''e1'')]]\<rparr>"

lemma demo_normaliser: "normaliser_hashable demo_env"
  by (simp add: normaliser_hashable_def demo_env_def demo_exec_def evidence_id_def)

theorem react_node_raises_exactly_witness:
  "(\<exists>u added. react_subgraph_node demo_env 1 demo_state = Inr u
     \<and> nu_evidence u = [[(''evidence_id'', PStr ''e1'')]] @ added)
   \<and> (\<exists>e. react_subgraph_node demo_env 1
        (demo_state\<lparr>ag_agent_config := empty_agent_config
           \<lparr>ac_react := ReactSection (empty_react_config\<lparr>rc_max_steps := Some (PStr ''many'')\<rparr>)\<rparr>\<rparr>) = Inl e)"
proof
  have h: "all_hashable (ag_evidence demo_state)" by code_simp
  have "ac_react (ag_agent_config demo_state) = NoReact" by (simp add: demo_state_def empty_agent_config_def)
  with react_node_raises_exactly [OF demo_normaliser h, of 1] obtain u where "react_subgraph_node demo_env 1 demo_state = Inr u"
      "\<exists>added. nu_evidence u = ag_evidence demo_state @ added"
    by (cases "react_subgraph_node demo_env 1 demo_state") auto
  then show "\<exists>u added. react_subgraph_node demo_env 1 demo_state = Inr u
     \<and> nu_evidence u = [[(''evidence_id'', PStr ''e1'')]] @ added"
    by (auto simp: demo_state_def)
  let ?c = "empty_react_config\<lparr>rc_max_steps := Some (PStr ''many'')\<rparr>"
  let ?s = "demo_state\<lparr>ag_agent_config := empty_agent_config\<lparr>ac_react := ReactSection ?c\<rparr>\<rparr>"
  have "\<not> readable_config ?c" "all_hashable (ag_evidence ?s)" by code_simp+
  with react_node_raises_exactly [OF demo_normaliser, of ?s 1]
  show "\<exists>e. react_subgraph_node demo_env 1 ?s = Inl e"
    by (simp add: demo_state_def)
qed

lemma demo_node:
  "case react_subgraph_node demo_env 1 demo_state of
     Inl _ \<Rightarrow> False
   | Inr u \<Rightarrow> nu_evidence u = ag_evidence demo_state @ [[(''evidence_id'', PStr ''e2''), (''content'', PStr ''z'')]]"
  by code_simp

theorem react_node_adds_fresh_evidence_witness:
  "\<not> py_eq (PStr ''e2'') (PStr ''e1'') \<and> (\<exists>u. react_subgraph_node demo_env 1 demo_state = Inr u)"
proof -
  obtain u where u: "react_subgraph_node demo_env 1 demo_state = Inr u"
    "nu_evidence u = ag_evidence demo_state @ [[(''evidence_id'', PStr ''e2''), (''content'', PStr ''z'')]]"
    using demo_node by (auto split: sum.splits)
  from react_node_adds_fresh_evidence [OF u, of 0] u(1) show ?thesis
    by (simp add: evidence_id_def demo_state_def)
qed

end
