(* ===== verification/Token_Budget.thy ===== *)
theory Token_Budget
  imports Agent_State Evidence_Fusion
begin

text \<open>
  The token budget of the evidence (\<open>agent/langgraph/evidence/token_budget.py\<close>, class
  \<open>TokenBudgetScheduler\<close>): counting the tokens of the tool results, the level of compression, the
  compression of documents and of database tables, and the assembly of the context that goes into the
  prompt. The tokenizer is an argument that may raise; \<open>num_tokens_from_string\<close>
  (\<open>common/token_utils.py\<close>) turns that into 0. \<open>str\<close> of a value that is no string is the argument
  \<open>show_py\<close>. The five concurrent compressions are independent of each other and are made in order.

  Rows and columns have their declared types, a list of dictionaries and a list of strings; the code
  raises on other rows at the latest when it turns them into evidence.
\<close>

section \<open>Counting\<close>

type_synonym tokenizer = "string \<Rightarrow> nat res"

fun num_tokens_from_string :: "tokenizer \<Rightarrow> pyval \<Rightarrow> nat" where
  "num_tokens_from_string enc (PStr s) = (case enc s of Inl _ \<Rightarrow> 0 | Inr n \<Rightarrow> n)"
| "num_tokens_from_string enc _ = 0"

abbreviation toks :: "tokenizer \<Rightarrow> string \<Rightarrow> nat" where
  "toks enc s \<equiv> num_tokens_from_string enc (PStr s)"

definition OUTPUT_RESERVE_TOKENS :: int where
  "OUTPUT_RESERVE_TOKENS = 2000"

definition PER_TOOL_EXEMPTION_TOKENS :: int where
  "PER_TOOL_EXEMPTION_TOKENS = 30000"

text \<open>\<open>total_budget or int(128000 * 0.85)\<close>\<close>

definition scheduler_budget :: "int \<Rightarrow> int" where
  "scheduler_budget total_budget = (if total_budget = 0 then 108800 else total_budget)"

type_synonym token_counts = "(string \<times> nat) list"

definition doc_tokens :: "tokenizer \<Rightarrow> pdict list \<Rightarrow> nat" where
  "doc_tokens enc docs =
     sum_list (map (\<lambda>d. num_tokens_from_string enc (dget_or d ''content'' (PStr []))) docs)"

definition count_tool_tokens :: "tokenizer \<Rightarrow> (pyval \<Rightarrow> string) \<Rightarrow> graph_state \<Rightarrow> token_counts res" where
  "count_tool_tokens enc show_py s =
     rbind (py_iter (dget_or (g_db_result s) ''rows'' (PList []))) (\<lambda>rows.
       Inr (filter (\<lambda>p. snd p > 0)
              [(''rag'', doc_tokens enc (g_rag_docs s)),
               (''db'', sum_list (map (\<lambda>row. toks enc (py_str show_py row)) rows)),
               (''web'', doc_tokens enc (g_web_docs s))]))"

section \<open>Level of compression\<close>

definition total_tokens :: "token_counts \<Rightarrow> nat" where
  "total_tokens counts = sum_list (map snd counts)"

definition ZeroDivisionError :: exn where
  "ZeroDivisionError = OtherError ''ZeroDivisionError''"

definition calculate_overflow_ratio :: "int \<Rightarrow> token_counts \<Rightarrow> int \<Rightarrow> rat res" where
  "calculate_overflow_ratio budget counts locked_tokens =
     (let total_evidence = int (total_tokens counts);
          available = budget - locked_tokens - OUTPUT_RESERVE_TOKENS
      in if total_evidence \<le> available then Inr 0
         else if available = 0 then Inl ZeroDivisionError
         else Inr (of_int (total_evidence - available) / of_int available))"

definition determine_level :: "rat \<Rightarrow> string" where
  "determine_level overflow_ratio =
     (if overflow_ratio \<le> 0 then ''normal''
      else if overflow_ratio \<le> 30/100 then ''light''
      else if overflow_ratio \<le> 80/100 then ''moderate''
      else if overflow_ratio \<le> 150/100 then ''severe''
      else ''compact'')"

definition identify_overflown_tools :: "token_counts \<Rightarrow> string list \<times> string list" where
  "identify_overflown_tools counts =
     (map fst (filter (\<lambda>p. int (snd p) > PER_TOOL_EXEMPTION_TOKENS) counts),
      map fst (filter (\<lambda>p. \<not> int (snd p) > PER_TOOL_EXEMPTION_TOKENS) counts))"

section \<open>Compression of documents\<close>

definition NO_RELEVANT_CONTENT :: string where
  "NO_RELEVANT_CONTENT = uni [0x65E0, 0x76F8, 0x5173, 0x5185, 0x5BB9]"

text \<open>\<open>compress_one\<close>; \<open>llm\<close> is the answer of the model to the prompt for a text. The code changes the
  document in place.\<close>

definition compress_one :: "tokenizer \<Rightarrow> (string \<Rightarrow> string res) \<Rightarrow> pdict \<Rightarrow> pdict" where
  "compress_one enc llm chunk =
     (let content = dget_or chunk ''content'' (PStr []);
          tokens = num_tokens_from_string enc content
      in if tokens < 100 then chunk
         else
           (case content of
              PStr s \<Rightarrow>
                (case llm s of
                   Inl _ \<Rightarrow> chunk
                 | Inr response \<Rightarrow>
                     (let compressed = strip response;
                          compressed_tokens = toks enc compressed
                      in if of_nat compressed_tokens > (of_nat tokens :: rat) * (9/10) then chunk
                         else if contains NO_RELEVANT_CONTENT compressed then
                           dset (dset chunk ''content'' (PStr [])) ''compressed'' (PBool True)
                         else
                           dset (dset (dset chunk ''content'' (PStr compressed)) ''compressed'' (PBool True))
                             ''compression_ratio'' (PFloat (of_nat compressed_tokens / of_nat tokens))))
            | _ \<Rightarrow> chunk))"

definition COMPRESSING_LEVELS :: "string list" where
  "COMPRESSING_LEVELS = [''moderate'', ''severe'', ''compact'']"

definition compress_rag_chunks ::
    "tokenizer \<Rightarrow> (string \<Rightarrow> string \<Rightarrow> string \<Rightarrow> string res) \<Rightarrow> string \<Rightarrow> string \<Rightarrow> pdict list \<Rightarrow> pdict list" where
  "compress_rag_chunks enc llm question level chunks =
     (if level \<in> set COMPRESSING_LEVELS then map (compress_one enc (llm level question)) chunks else chunks)"

section \<open>Formats of a table\<close>

text \<open>\<open>str(row.get(c, ""))\<close>\<close>

definition cell :: "(pyval \<Rightarrow> string) \<Rightarrow> pdict \<Rightarrow> string \<Rightarrow> string" where
  "cell show_py row c = py_str show_py (dget_or row c (PStr []))"

definition EMPTY_RESULT :: string where
  "EMPTY_RESULT = uni [0xFF08, 0x7A7A, 0x7ED3, 0x679C, 0xFF09]"

definition newline :: string where
  "newline = [CHR 0x0A]"

definition format_db_table :: "(pyval \<Rightarrow> string) \<Rightarrow> pdict list \<Rightarrow> string list \<Rightarrow> string" where
  "format_db_table show_py rows columns =
     (if rows = [] then EMPTY_RESULT
      else
        (''| '' @ join '' | '' columns @ '' |'') @ newline
        @ (''|'' @ join ''|'' (map (\<lambda>_. ''---'') columns) @ ''|'') @ newline
        @ join newline (map (\<lambda>row. ''| '' @ join '' | '' (map (cell show_py row) columns) @ '' |'') rows))"

definition compact_row :: "(pyval \<Rightarrow> string) \<Rightarrow> string list \<Rightarrow> nat \<times> pdict \<Rightarrow> string" where
  "compact_row show_py columns r =
     ''['' @ nat_digits (fst r + 1) @ ''] '' @ join '', '' (map (\<lambda>c. c @ ''='' @ cell show_py (snd r) c) columns)"

definition format_compact_rows :: "(pyval \<Rightarrow> string) \<Rightarrow> pdict list \<Rightarrow> string list \<Rightarrow> string" where
  "format_compact_rows show_py rows columns = join newline (map (compact_row show_py columns) (enumerate 0 rows))"

text \<open>Columns whose texts are longer than a hundred characters on average; columns with a number.\<close>

definition identify_text_columns :: "(pyval \<Rightarrow> string) \<Rightarrow> pdict list \<Rightarrow> string list \<Rightarrow> string list" where
  "identify_text_columns show_py rows columns =
     filter (\<lambda>col.
       let lengths = map (\<lambda>row. u_len (cell show_py row col)) (filter (\<lambda>row. dget row col \<noteq> PNone) rows)
       in lengths \<noteq> [] \<and> (of_nat (sum_list lengths) :: rat) / of_nat (length lengths) > 100) columns"

fun is_number :: "pyval \<Rightarrow> bool" where
  "is_number (PBool _) = True"
| "is_number (PInt _) = True"
| "is_number (PFloat _) = True"
| "is_number _ = False"

definition identify_numeric_columns :: "pdict list \<Rightarrow> string list \<Rightarrow> string list" where
  "identify_numeric_columns rows columns =
     filter (\<lambda>col. list_ex (\<lambda>row. is_number (dget row col)) rows) columns"

text \<open>One line of the summary: sum and average of a numeric column; a value that is no number is read
  by \<open>float\<close> and may raise.\<close>

definition column_summary ::
    "(string \<Rightarrow> rat res) \<Rightarrow> pdict list \<Rightarrow> string \<Rightarrow> string list res" where
  "column_summary float_of_str rows nc =
     rbind (all_res (\<lambda>row. py_float float_of_str (dget row nc)) (filter (\<lambda>row. dget row nc \<noteq> PNone) rows)) (\<lambda>values.
       Inr (if values = [] then []
            else [nc @ '': sum='' @ fmt2 (sum_list values) @ '', avg=''
                  @ fmt2 (sum_list values / of_nat (length values))]))"

definition format_db_summary ::
    "(string \<Rightarrow> rat res) \<Rightarrow> (pyval \<Rightarrow> string) \<Rightarrow> pdict list \<Rightarrow> string list \<Rightarrow> string res" where
  "format_db_summary float_of_str show_py rows columns =
     (if rows = [] then Inr EMPTY_RESULT
      else
        rbind (all_res (column_summary float_of_str rows) (identify_numeric_columns rows columns)) (\<lambda>lines.
          Inr (join newline
                 ((uni [0x5171, 0x20] @ nat_digits (length rows) @ uni [0x20, 0x884C, 0x3002]) # concat lines
                  @ [uni [0x6837, 0x672C, 0x3A, 0x20]
                     @ format_compact_rows show_py [hd rows] (take 6 columns)]))))"

section \<open>Compression of tables\<close>

text \<open>The loop of \<open>_fit_db_to_quota\<close> and of \<open>_compress_db_result\<close>: halve the number of rows until they
  fit or one is left.\<close>

function halve_rows :: "(nat \<Rightarrow> bool) \<Rightarrow> nat \<Rightarrow> nat" where
  "halve_rows fits kept =
     (if kept \<le> 1 \<or> fits kept then kept else halve_rows fits (max 1 (kept div 2)))"
  by pat_completeness auto
termination
  by (relation "measure (\<lambda>(fits, kept). kept)") auto

declare halve_rows.simps [simp del]

record db_text =
  dt_text :: string
  dt_truncated :: bool
  dt_original_rows :: nat
  dt_kept_rows :: nat

definition fit_db_to_quota ::
    "tokenizer \<Rightarrow> (pyval \<Rightarrow> string) \<Rightarrow> pdict list \<Rightarrow> string list \<Rightarrow> nat \<Rightarrow> nat \<Rightarrow> db_text" where
  "fit_db_to_quota enc show_py rows columns quota original_rows =
     (let kept = halve_rows (\<lambda>k. toks enc (format_db_table show_py (take k rows) columns) \<le> quota) (length rows)
      in \<lparr>dt_text = format_db_table show_py (take kept rows) columns,
          dt_truncated = (kept < original_rows), dt_original_rows = original_rows, dt_kept_rows = kept\<rparr>)"

definition table_text ::
    "tokenizer \<Rightarrow> (pyval \<Rightarrow> string) \<Rightarrow> pdict list \<Rightarrow> string list \<Rightarrow> nat \<Rightarrow> nat \<Rightarrow> db_text" where
  "table_text enc show_py rows columns quota original_rows =
     (let text' = format_db_table show_py rows columns
      in if toks enc text' > quota then fit_db_to_quota enc show_py rows columns quota original_rows
         else \<lparr>dt_text = text', dt_truncated = (original_rows > length rows),
               dt_original_rows = original_rows, dt_kept_rows = length rows\<rparr>)"

definition keep_columns :: "(pyval \<Rightarrow> string) \<Rightarrow> pdict list \<Rightarrow> string list \<Rightarrow> string list" where
  "keep_columns show_py rows columns =
     (let kept = filter (\<lambda>c. c \<notin> set (identify_text_columns show_py rows columns)) columns
      in if kept = [] then columns else kept)"

definition NO_ROWS_TEXT :: string where
  "NO_ROWS_TEXT = uni [0xFF08, 0x67E5, 0x8BE2, 0x65E0, 0x7ED3, 0x679C, 0xFF09]"

definition compress_db_evidence ::
    "tokenizer \<Rightarrow> (string \<Rightarrow> rat res) \<Rightarrow> (pyval \<Rightarrow> string) \<Rightarrow> pdict list \<Rightarrow> string list \<Rightarrow> nat \<Rightarrow> string \<Rightarrow> db_text res" where
  "compress_db_evidence enc float_of_str show_py rows columns quota level =
     (let n = length rows in
      if rows = [] then
        Inr \<lparr>dt_text = NO_ROWS_TEXT, dt_truncated = False, dt_original_rows = 0, dt_kept_rows = 0\<rparr>
      else if level = ''normal'' \<or> level = ''light'' then Inr (table_text enc show_py rows columns quota n)
      else if level = ''moderate'' then Inr (table_text enc show_py (take (min n 50) rows) columns quota n)
      else if level = ''severe'' then
        (let max_rows = min n 10;
             columns' = keep_columns show_py rows columns;
             compact = format_compact_rows show_py (take max_rows rows) columns';
             kept = (if toks enc compact > quota then take (max 1 (max_rows div 2)) rows else take max_rows rows)
         in Inr \<lparr>dt_text = format_compact_rows show_py kept columns', dt_truncated = True,
                 dt_original_rows = n, dt_kept_rows = length kept\<rparr>)
      else
        rbind (format_db_summary float_of_str show_py rows columns) (\<lambda>summary_text.
          Inr \<lparr>dt_text = summary_text, dt_truncated = True, dt_original_rows = n, dt_kept_rows = 1\<rparr>))"

record db_rows =
  dr_rows :: "pdict list"
  dr_columns :: "string list"
  dr_truncated :: bool
  dr_original_row_count :: nat
  dr_kept_row_count :: nat

definition compress_db_result ::
    "tokenizer \<Rightarrow> (pyval \<Rightarrow> string) \<Rightarrow> pdict list \<Rightarrow> string list \<Rightarrow> nat \<Rightarrow> string \<Rightarrow> db_rows" where
  "compress_db_result enc show_py rows columns quota level =
     (if rows = [] then
        \<lparr>dr_rows = [], dr_columns = columns, dr_truncated = False, dr_original_row_count = 0, dr_kept_row_count = 0\<rparr>
      else
        (let n = length rows;
             (first, columns', truncated) =
               (if level = ''normal'' \<or> level = ''light'' then (n, columns, False)
                else if level = ''moderate'' then (min n 50, columns, n > min n 50)
                else if level = ''severe'' then (min n 10, keep_columns show_py rows columns, True)
                else (1, columns, True));
             kept = halve_rows (\<lambda>k. toks enc (format_compact_rows show_py (take k rows) columns') \<le> quota) first
         in \<lparr>dr_rows = take kept rows, dr_columns = columns', dr_truncated = truncated,
             dr_original_row_count = n, dr_kept_row_count = kept\<rparr>))"

text \<open>The shares of several tables: proportional to their rows, at least 200 each, scaled down if they
  exceed the quota together, again to at least 200.\<close>

definition allocate_db_quota :: "nat list \<Rightarrow> nat \<Rightarrow> nat list" where
  "allocate_db_quota row_counts db_quota =
     (if row_counts = [] then []
      else if length row_counts = 1 then [db_quota]
      else
        (let total_rows = (if sum_list row_counts = 0 then 1 else sum_list row_counts);
             quotas = map (\<lambda>rc. max 200 (db_quota * rc div total_rows)) row_counts;
             total_q = sum_list quotas
         in if total_q > db_quota then map (\<lambda>q. max 200 (q * db_quota div total_q)) quotas else quotas))"

section \<open>Assembly of the context\<close>

text \<open>\<open>f"{score:.2f}"\<close> of a value: Python formats numbers, and raises for the others.\<close>

fun score_text :: "pyval \<Rightarrow> string res" where
  "score_text (PStr _) = Inl ValueError"
| "score_text v = rbind (number_or_raise v) (\<lambda>r. Inr (fmt2 r))"

definition RELEVANCE :: string where
  "RELEVANCE = uni [0x76F8, 0x5173, 0x5EA6, 0x3A]"

definition SOURCE_LABEL :: string where
  "SOURCE_LABEL = uni [0x6765, 0x6E90, 0x3A]"

definition format_evidence :: "(pyval \<Rightarrow> string) \<Rightarrow> pdict \<Rightarrow> string \<Rightarrow> string res" where
  "format_evidence show_py ev source_type =
     (let content = py_str show_py (dget_or ev ''content'' (PStr []));
          title = py_str show_py (dget_or ev ''title'' (PStr []))
      in rbind (score_text (py_or (dget ev ''relevance_score'') (dget_or ev ''confidence'' (PFloat 0)))) (\<lambda>score.
           Inr (if source_type = ''rag'' then ''('' @ RELEVANCE @ score @ '') '' @ content
                else
                  ''('' @ SOURCE_LABEL @ source_type @ '', '' @ RELEVANCE @ score @ '') ''
                  @ (if source_type = ''db'' \<or> source_type = ''web'' then ''['' @ title @ ''] '' else []) @ content)))"

definition SOURCE_ORDER :: "string list" where
  "SOURCE_ORDER = [''rag'', ''db'', ''web'', ''report'']"

text \<open>One source: its pieces in order of weight. A piece that exceeds the quota of the source is
  skipped; when the budget is used up the source ends in compact mode. \<open>limit\<close> is the budget less the
  reserve for the output and the locked tokens.\<close>

record assembly =
  as_parts :: "string list"
  as_compact :: bool
  as_total :: nat

fun assemble_group ::
    "tokenizer \<Rightarrow> (pyval \<Rightarrow> string) \<Rightarrow> string \<Rightarrow> int \<Rightarrow> nat \<Rightarrow> nat \<Rightarrow> pdict list \<Rightarrow> assembly \<Rightarrow> assembly res" where
  "assemble_group enc show_py st limit quota tool_used [] a = Inr a"
| "assemble_group enc show_py st limit quota tool_used (ev # evs) a =
     (if tool_used \<ge> quota then Inr a
      else if int (as_total a) \<ge> limit then Inr (a\<lparr>as_compact := True\<rparr>)
      else
        rbind (format_evidence show_py ev st) (\<lambda>content.
          let line_tokens = toks enc content in
          if tool_used + line_tokens > quota then assemble_group enc show_py st limit quota tool_used evs a
          else if int (as_total a + line_tokens) > limit then Inr (a\<lparr>as_compact := True\<rparr>)
          else
            assemble_group enc show_py st limit quota (tool_used + line_tokens) evs
              (a\<lparr>as_parts := as_parts a @ [content], as_total := as_total a + line_tokens\<rparr>)))"

fun assemble_sources ::
    "tokenizer \<Rightarrow> (pyval \<Rightarrow> string) \<Rightarrow> int \<Rightarrow> token_counts \<Rightarrow> (pyval \<times> pdict list) list \<Rightarrow> string list \<Rightarrow> assembly \<Rightarrow> assembly res" where
  "assemble_sources enc show_py limit counts groups [] a = Inr a"
| "assemble_sources enc show_py limit counts groups (st # sts) a =
     rbind (assemble_group enc show_py st limit (dget_or counts st 0) 0 (dget_or groups (PStr st) []) a)
       (assemble_sources enc show_py limit counts groups sts)"

definition REFERENCES_HEADER :: string where
  "REFERENCES_HEADER = uni [0x3010, 0x53C2, 0x8003, 0x8D44, 0x6599, 0x3011]"

definition assemble_parts ::
    "tokenizer \<Rightarrow> (string \<Rightarrow> rat res) \<Rightarrow> (pyval \<Rightarrow> string) \<Rightarrow> int \<Rightarrow> token_counts \<Rightarrow> pdict list \<Rightarrow> assembly res" where
  "assemble_parts enc float_of_str show_py limit counts evidences =
     rbind (group_by_source [] evidences) (\<lambda>groups.
     rbind (all_res (\<lambda>(st, grp). rbind (sort_by_weight float_of_str grp) (\<lambda>ranked. Inr (st, ranked))) groups) (\<lambda>ranked.
       assemble_sources enc show_py limit counts ranked SOURCE_ORDER
         \<lparr>as_parts = [], as_compact = False, as_total = 0\<rparr>))"

definition NO_CONTEXT_TEXT :: string where
  "NO_CONTEXT_TEXT =
     uni [0xFF08, 0x65E0, 0x8DB3, 0x591F, 0x4E0A, 0x4E0B, 0x6587, 0xFF0C, 0x8BF7, 0x76F4, 0x63A5, 0x56DE, 0x7B54, 0xFF09]"

definition COMPACT_HEADER :: string where
  "COMPACT_HEADER = uni [0x3010, 0x7CBE, 0x7B80, 0x53C2, 0x8003, 0x8D44, 0x6599, 0x3011]"

text \<open>\<open>content.split("\<dots>")[0][:200]\<close> up to the first full stop (U+3002); a content that is true but no
  string has no \<open>split\<close>.\<close>

definition first_sentence :: "pyval \<Rightarrow> string res" where
  "first_sentence content =
     (if \<not> truthy content then Inr []
      else (case content of PStr s \<Rightarrow> Inr (u_take 200 (concat (takeWhile (\<lambda>c. c \<noteq> uni [0x3002]) (u_chars s))))
            | _ \<Rightarrow> Inl AttributeError))"

definition compact_line :: "(pyval \<Rightarrow> string) \<Rightarrow> nat \<times> pdict \<Rightarrow> string res" where
  "compact_line show_py p =
     (case p of (i, ev) \<Rightarrow>
        rbind (first_sentence (dget_or ev ''content'' (PStr []))) (\<lambda>sentence.
          Inr (''['' @ nat_digits i @ ''] ('' @ py_str show_py (dget_or ev ''source_type'' (PStr [])) @ '') ''
               @ py_str show_py (dget_or ev ''title'' (PStr [])) @ '': '' @ sentence @ ''...'')))"

definition compact_assemble ::
    "tokenizer \<Rightarrow> (string \<Rightarrow> rat res) \<Rightarrow> (pyval \<Rightarrow> string) \<Rightarrow> pdict list \<Rightarrow> (string \<times> bool \<times> nat) res" where
  "compact_assemble enc float_of_str show_py evidences =
     (if evidences = [] then Inr (NO_CONTEXT_TEXT, True, 0)
      else
        rbind (sort_by_weight float_of_str evidences) (\<lambda>ranked.
        rbind (all_res (compact_line show_py) (enumerate 1 (take 3 ranked))) (\<lambda>lines.
          let text' = join newline (COMPACT_HEADER # lines) in Inr (text', True, toks enc text'))))"

definition assemble ::
    "tokenizer \<Rightarrow> (string \<Rightarrow> rat res) \<Rightarrow> (pyval \<Rightarrow> string) \<Rightarrow> int \<Rightarrow> pdict list \<Rightarrow> token_counts \<Rightarrow> int
      \<Rightarrow> (string \<times> bool \<times> nat) res" where
  "assemble enc float_of_str show_py budget evidences counts locked_tokens =
     (if budget - locked_tokens \<le> OUTPUT_RESERVE_TOKENS
      then compact_assemble enc float_of_str show_py evidences
      else
        rbind (assemble_parts enc float_of_str show_py (budget - OUTPUT_RESERVE_TOKENS - locked_tokens) counts evidences)
          (\<lambda>a. Inr (join newline (REFERENCES_HEADER # as_parts a), as_compact a, as_total a)))"

section \<open>Active tools\<close>

definition tool_class :: "pyval \<Rightarrow> string option" where
  "tool_class tool =
     (if tool \<in> {PStr ''rag'', PStr ''rag_search''} then Some ''rag''
      else if tool \<in> {PStr ''database'', PStr ''db'', PStr ''db_query''} then Some ''db''
      else if tool \<in> {PStr ''web'', PStr ''web_search''} then Some ''web''
      else None)"

text \<open>The tests are chained by \<open>elif\<close>, each with the condition that the class is new; the classes are
  disjoint, so a known class is simply not added again.\<close>

definition detect_active_tools :: "graph_state \<Rightarrow> string list" where
  "detect_active_tools s =
     (let active =
        foldl (\<lambda>acc tr. case tool_class (dget_or tr ''tool'' (PStr [])) of
                          None \<Rightarrow> acc
                        | Some c \<Rightarrow> if c \<in> set acc then acc else acc @ [c]) [] (g_tool_results s)
      in if active \<noteq> [] then active
         else
           (let found =
              (if g_rag_docs s \<noteq> [] then [''rag''] else [])
              @ (if g_db_result s \<noteq> [] \<and> truthy (dget (g_db_result s) ''rows'') then [''db''] else [])
              @ (if g_web_docs s \<noteq> [] then [''web''] else [])
            in if found = [] then [''rag''] else found))"

section \<open>Properties of the assembly\<close>

definition line_tokens :: "tokenizer \<Rightarrow> (string \<times> string) list \<Rightarrow> nat" where
  "line_tokens enc ls = sum_list (map (\<lambda>l. toks enc (snd l)) ls)"

lemma line_tokens_simps [simp]:
  "line_tokens enc [] = 0" "line_tokens enc (l # ls) = toks enc (snd l) + line_tokens enc ls"
  "line_tokens enc (ks @ ls) = line_tokens enc ks + line_tokens enc ls"
  by (simp_all add: line_tokens_def)

text \<open>What one source adds: lines of its own evidence, within its quota and the limit.\<close>

definition added :: "tokenizer \<Rightarrow> (pyval \<Rightarrow> string) \<Rightarrow> int \<Rightarrow> assembly \<Rightarrow> assembly \<Rightarrow> (string \<times> string) list \<Rightarrow> bool" where
  "added enc show_py limit a b ls \<longleftrightarrow>
     as_parts b = as_parts a @ map snd ls \<and> as_total b = as_total a + line_tokens enc ls
     \<and> (int (as_total a) \<le> limit \<longrightarrow> int (as_total b) \<le> limit)"

lemma addedI:
  assumes "as_parts b = as_parts a @ map snd ls" "as_total b = as_total a + line_tokens enc ls"
    "int (as_total a) \<le> limit \<Longrightarrow> int (as_total b) \<le> limit"
  shows "added enc show_py limit a b ls"
  using assms by (simp add: added_def)

lemma assemble_group_spec:
  assumes "assemble_group enc show_py st limit quota used evs a = Inr b"
  shows "\<exists>ls. added enc show_py limit a b ls \<and> (ls \<noteq> [] \<longrightarrow> used + line_tokens enc ls \<le> quota \<and> used < quota)
    \<and> (\<forall>l \<in> set ls. fst l = st \<and> (\<exists>ev \<in> set evs. format_evidence show_py ev st = Inr (snd l)))"
  using assms
proof (induction enc show_py st limit quota used evs a arbitrary: b rule: assemble_group.induct)
  case (1 enc show_py st limit quota used a)
  then have "added enc show_py limit a b []" by (simp add: added_def)
  then show ?case by fastforce
next
  case (2 enc show_py st limit quota used ev evs a)
  have none: ?case if "as_parts b = as_parts a" "as_total b = as_total a"
  proof -
    from that have "added enc show_py limit a b []" by (simp add: added_def)
    then show ?thesis by fastforce
  qed
  show ?case
  proof (cases "used \<ge> quota \<or> int (as_total a) \<ge> limit")
    case True
    with "2.prems" have "as_parts b = as_parts a \<and> as_total b = as_total a" by (auto split: if_splits)
    with none show ?thesis by blast
  next
    case False
    with "2.prems" obtain c where c: "format_evidence show_py ev st = Inr c"
      by (auto simp: rbind_eq_Inr_iff split: if_splits)
    let ?n = "toks enc c" and ?a = "a\<lparr>as_parts := as_parts a @ [c], as_total := as_total a + toks enc c\<rparr>"
    consider "used + ?n > quota" | "\<not> used + ?n > quota" "int (as_total a + ?n) > limit"
      | "\<not> used + ?n > quota" "\<not> int (as_total a + ?n) > limit" by blast
    then show ?thesis
    proof cases
      case 1
      with "2.prems" False c have "assemble_group enc show_py st limit quota used evs a = Inr b" by simp
      from "2.IH"(1) [OF _ _ refl 1 this] False obtain ls where
        "added enc show_py limit a b ls" "ls \<noteq> [] \<longrightarrow> used + line_tokens enc ls \<le> quota \<and> used < quota"
        "\<forall>l \<in> set ls. fst l = st \<and> (\<exists>ev \<in> set evs. format_evidence show_py ev st = Inr (snd l))" by auto
      then show ?thesis by (intro exI [of _ ls]) auto
    next
      case 2
      with "2.prems" False c have "b = a\<lparr>as_compact := True\<rparr>" by simp
      with none show ?thesis by simp
    next
      case 3
      with "2.prems" False c have "assemble_group enc show_py st limit quota (used + ?n) evs ?a = Inr b"
        by (simp add: Let_def)
      from "2.IH"(2) [OF _ _ refl 3 this] False obtain ls where ls:
        "added enc show_py limit ?a b ls" "ls \<noteq> [] \<longrightarrow> used + ?n + line_tokens enc ls \<le> quota \<and> used + ?n < quota"
        "\<forall>l \<in> set ls. fst l = st \<and> (\<exists>ev \<in> set evs. format_evidence show_py ev st = Inr (snd l))" by auto
      have "added enc show_py limit a b ((st, c) # ls)" using ls(1) 3 by (auto simp: added_def)
      with ls 3 False c show ?thesis by (intro exI [of _ "(st, c) # ls"]) (auto simp: not_less)
    qed
  qed
qed

definition of_st :: "string \<Rightarrow> (string \<times> string) list \<Rightarrow> (string \<times> string) list" where
  "of_st st ls = filter (\<lambda>l. fst l = st) ls"

lemma of_st_all: "\<forall>l \<in> set ls. fst l = st \<Longrightarrow> of_st st' ls = (if st' = st then ls else [])"
  by (induction ls) (auto simp: of_st_def)

lemma of_st_append [simp]: "of_st st (ks @ ls) = of_st st ks @ of_st st ls"
  by (simp add: of_st_def)

lemma assemble_sources_spec:
  assumes "assemble_sources enc show_py limit counts groups sts a = Inr b" and "distinct sts"
  shows "\<exists>ls. added enc show_py limit a b ls
    \<and> (\<forall>st. line_tokens enc (of_st st ls) \<le> dget_or counts st 0)
    \<and> (\<forall>l \<in> set ls. fst l \<in> set sts \<and> 0 < dget_or counts (fst l) 0
         \<and> (\<exists>ev \<in> set (dget_or groups (PStr (fst l)) []). format_evidence show_py ev (fst l) = Inr (snd l)))"
  using assms
proof (induction enc show_py limit counts groups sts a arbitrary: b rule: assemble_sources.induct)
  case (1 enc show_py limit counts groups a)
  then have "added enc show_py limit a b []" by (simp add: added_def)
  then show ?case by (fastforce simp: of_st_def)
next
  case (2 enc show_py limit counts groups st sts a)
  from "2.prems"(1) obtain c where
    c: "assemble_group enc show_py st limit (dget_or counts st 0) 0 (dget_or groups (PStr st) []) a = Inr c"
    and b: "assemble_sources enc show_py limit counts groups sts c = Inr b" by (auto simp: rbind_eq_Inr_iff)
  from assemble_group_spec [OF c] obtain ks where ks: "added enc show_py limit a c ks"
    "ks \<noteq> [] \<longrightarrow> line_tokens enc ks \<le> dget_or counts st 0 \<and> 0 < dget_or counts st 0"
    "\<forall>l \<in> set ks. fst l = st \<and> (\<exists>ev \<in> set (dget_or groups (PStr st) []). format_evidence show_py ev st = Inr (snd l))"
    by auto
  from "2.IH" [OF b] "2.prems"(2) obtain ls where ls: "added enc show_py limit c b ls"
    "\<forall>st. line_tokens enc (of_st st ls) \<le> dget_or counts st 0"
    "\<forall>l \<in> set ls. fst l \<in> set sts \<and> 0 < dget_or counts (fst l) 0
       \<and> (\<exists>ev \<in> set (dget_or groups (PStr (fst l)) []). format_evidence show_py ev (fst l) = Inr (snd l))" by auto
  have "of_st st ls = []" using ls(3) "2.prems"(2) by (auto simp: of_st_def filter_empty_conv)
  then have "line_tokens enc (of_st st' (ks @ ls)) \<le> dget_or counts st' 0" for st'
    using ks(2,3) ls(2) of_st_all [of ks st st'] by (cases "ks = []") auto
  moreover have "added enc show_py limit a b (ks @ ls)" using ks(1) ls(1) by (auto simp: added_def)
  ultimately show ?case using ks ls by (intro exI [of _ "ks @ ls"]) auto
qed

text \<open>The groups of \<open>group_by_source\<close> hold evidence of their source.\<close>

definition grouped :: "pdict list \<Rightarrow> (pyval \<times> pdict list) list \<Rightarrow> bool" where
  "grouped evs groups \<longleftrightarrow> (\<forall>g \<in> set groups. \<forall>ev \<in> set (snd g). ev \<in> set evs \<and> py_eq (source_of ev) (fst g))"

lemma group_add_grouped:
  assumes "grouped evs groups" and "ev \<in> set evs" and "py_eq (source_of ev) (source_of ev)"
  shows "grouped evs (group_add ev groups)"
  using assms by (induction ev groups rule: group_add.induct) (auto simp: grouped_def)

lemma py_eq_hashable_refl: "hashable v \<Longrightarrow> py_eq v v"
  by (cases v) simp_all

lemma group_by_source_grouped:
  assumes "group_by_source groups xs = Inr gs" and "grouped evs groups" and "set xs \<subseteq> set evs"
  shows "grouped evs gs"
  using assms
proof (induction groups xs rule: group_by_source.induct)
  case (2 groups ev xs)
  then have "hashable (source_of ev)" by (auto split: if_splits)
  with 2 group_add_grouped [OF "2.prems"(2), of ev] show ?case by (auto simp: py_eq_hashable_refl)
qed simp

lemma sort_by_weight_set: "sort_by_weight f xs = Inr ys \<Longrightarrow> set ys = set xs"
proof -
  assume "sort_by_weight f xs = Inr ys"
  then obtain ps where ps: "all_res (\<lambda>ev. rbind (evidence_weight f ev) (\<lambda>w. Inr (w, ev))) xs = Inr ps"
    and ys: "ys = map snd (sort_key (\<lambda>p. - fst p) ps)"
    by (auto simp: sort_by_weight_def rbind_eq_Inr_iff)
  have "map snd ps = xs"
    using ps by (induction xs arbitrary: ps) (auto simp: rbind_eq_Inr_iff)
  then have "snd ` set ps = set xs" by (metis set_map)
  with ys show ?thesis by simp
qed

lemma ranked_groups_grouped:
  assumes "all_res (\<lambda>(st, grp). rbind (sort_by_weight f grp) (\<lambda>ranked. Inr (st, ranked))) groups = Inr gs"
    and "grouped evs groups"
  shows "grouped evs gs"
proof -
  have "list_all2 (\<lambda>g h. fst h = fst g \<and> set (snd h) = set (snd g)) groups gs"
    using assms(1) unfolding all_res_Inr_iff
    by (rule list_all2_mono) (fastforce simp: rbind_eq_Inr_iff sort_by_weight_set)
  then have "\<exists>g \<in> set groups. fst h = fst g \<and> set (snd h) = set (snd g)" if "h \<in> set gs" for h
    using that by (fastforce simp: list_all2_conv_all_nth in_set_conv_nth)
  with assms(2) show ?thesis by (fastforce simp: grouped_def)
qed

lemma dget_or_grouped:
  assumes "grouped evs gs" and "ev \<in> set (dget_or gs (PStr st) [])"
  shows "ev \<in> set evs \<and> source_of ev = PStr st"
proof -
  from assms(2) obtain g where "map_of gs (PStr st) = Some g" "ev \<in> set g"
    by (cases "map_of gs (PStr st)") (auto simp: dget_or_def)
  with assms(1) map_of_SomeD [of gs "PStr st" g] have "ev \<in> set evs" "py_eq (source_of ev) (PStr st)"
    by (auto simp: grouped_def)
  then show ?thesis by (cases "source_of ev") (auto split: if_splits)
qed

lemma assemble_lines:
  assumes "assemble enc f show_py budget evs counts locked = Inr (ctx, cm, used)"
    and "budget - locked > OUTPUT_RESERVE_TOKENS"
  shows "\<exists>ls. ctx = join newline (REFERENCES_HEADER # map snd ls)
    \<and> used = line_tokens enc ls \<and> int used + locked \<le> budget - OUTPUT_RESERVE_TOKENS
    \<and> (\<forall>st. line_tokens enc (of_st st ls) \<le> dget_or counts st 0)
    \<and> (\<forall>(st, l) \<in> set ls. st \<in> {''rag'', ''db'', ''web'', ''report''} \<and> 0 < dget_or counts st 0
         \<and> (\<exists>ev \<in> set evs. source_of ev = PStr st \<and> format_evidence show_py ev st = Inr l))"
proof -
  let ?limit = "budget - OUTPUT_RESERVE_TOKENS - locked" and ?a = "\<lparr>as_parts = [], as_compact = False, as_total = 0\<rparr>"
  from assms obtain a where a: "assemble_parts enc f show_py ?limit counts evs = Inr a"
    and out: "ctx = join newline (REFERENCES_HEADER # as_parts a)" "used = as_total a"
    by (auto simp: assemble_def rbind_eq_Inr_iff split: if_splits)
  from a obtain groups gs where g: "group_by_source [] evs = Inr groups"
    "all_res (\<lambda>(st, grp). rbind (sort_by_weight f grp) (\<lambda>ranked. Inr (st, ranked))) groups = Inr gs"
    and src: "assemble_sources enc show_py ?limit counts gs SOURCE_ORDER ?a = Inr a"
    by (auto simp: assemble_parts_def rbind_eq_Inr_iff)
  have "grouped evs gs"
    using ranked_groups_grouped [OF g(2) group_by_source_grouped [OF g(1), of evs]] by (simp add: grouped_def)
  note from_group = dget_or_grouped [OF this]
  have "distinct SOURCE_ORDER" by (simp add: SOURCE_ORDER_def)
  from assemble_sources_spec [OF src this] obtain ls where ls: "added enc show_py ?limit ?a a ls"
    "\<forall>st. line_tokens enc (of_st st ls) \<le> dget_or counts st 0"
    "\<forall>l \<in> set ls. fst l \<in> set SOURCE_ORDER \<and> 0 < dget_or counts (fst l) 0
       \<and> (\<exists>ev \<in> set (dget_or gs (PStr (fst l)) []). format_evidence show_py ev (fst l) = Inr (snd l))" by blast
  have "st \<in> {''rag'', ''db'', ''web'', ''report''} \<and> 0 < dget_or counts st 0
      \<and> (\<exists>ev \<in> set evs. source_of ev = PStr st \<and> format_evidence show_py ev st = Inr l)"
    if "(st, l) \<in> set ls" for st l
  proof -
    from ls(3) that have *: "st \<in> set SOURCE_ORDER" "0 < dget_or counts st 0"
      "\<exists>ev \<in> set (dget_or gs (PStr st) []). format_evidence show_py ev st = Inr l" by fastforce+
    with from_group show ?thesis by (auto simp: SOURCE_ORDER_def)
  qed
  with ls(1,2) out assms(2) show ?thesis by (intro exI [of _ ls]) (auto simp: added_def)
qed

text \<open>C27: the context stays within the budget. When there is room beyond the reserve for the output, the
  assembled context is the header and the lines of some pieces of evidence, each formatted for the
  source it comes from; their tokens are the reported number, which leaves the reserve and the locked
  tokens free; the lines of a source do not exceed the tokens counted for it. A source for which no
  tokens were counted (graph, REST and report results always) does not appear at all.\<close>

theorem assemble_within_budget:
  assumes "assemble enc f show_py budget evs counts locked = Inr (ctx, cm, used)"
    and "budget - locked > OUTPUT_RESERVE_TOKENS"
  shows "\<exists>ls. ctx = join newline (REFERENCES_HEADER # map snd ls)
    \<and> used = line_tokens enc ls \<and> int used + locked \<le> budget - OUTPUT_RESERVE_TOKENS
    \<and> (\<forall>st. line_tokens enc (of_st st ls) \<le> dget_or counts st 0)
    \<and> (\<forall>(st, l) \<in> set ls. st \<in> {''rag'', ''db'', ''web'', ''report''} \<and> 0 < dget_or counts st 0
         \<and> (\<exists>ev \<in> set evs. source_of ev = PStr st \<and> format_evidence show_py ev st = Inr l))"
  using assms by (rule assemble_lines)

definition demo_tokens :: tokenizer where
  "demo_tokens s = Inr (length s)"

definition demo_sources :: "pdict list" where
  "demo_sources =
     [[(''evidence_id'', PStr ''e1''), (''source_type'', PStr ''rag''), (''content'', PStr ''Paris''), (''relevance_score'', PFloat (1/2))],
      [(''evidence_id'', PStr ''e2''), (''source_type'', PStr ''graph''), (''content'', PStr ''Rome''), (''relevance_score'', PFloat 1)]]"

lemmas assembly_defs = assemble_def assemble_parts_def OUTPUT_RESERVE_TOKENS_def SOURCE_ORDER_def source_of_def
  sort_by_weight_def evidence_weight_def Let_def format_evidence_def demo_sources_def demo_tokens_def
  RELEVANCE_def REFERENCES_HEADER_def SOURCE_LABEL_def uni_def utf8_def join_def newline_def fmt2_def round_even_def
  digit_chars_def nat_digits.simps py_or_def

theorem assemble_within_budget_witness:
  "\<exists>ctx used. assemble demo_tokens (\<lambda>_. Inl ValueError) (\<lambda>_. []) 3000 demo_sources [(''rag'', 40)] 500
       = Inr (ctx, False, used)
     \<and> int used + 500 \<le> 3000 - OUTPUT_RESERVE_TOKENS
     \<and> (\<exists>ls. ctx = join newline (REFERENCES_HEADER # map snd ls) \<and> used = line_tokens demo_tokens ls)"
proof -
  have room: "3000 - 500 > OUTPUT_RESERVE_TOKENS" by (simp add: OUTPUT_RESERVE_TOKENS_def)
  obtain ctx used where a:
    "assemble demo_tokens (\<lambda>_. Inl ValueError) (\<lambda>_. []) 3000 demo_sources [(''rag'', 40)] 500 = Inr (ctx, False, used)"
    by (simp add: assembly_defs)
  from assemble_within_budget [OF a room] a show ?thesis by blast
qed

text \<open>A lone document never reaches the prompt. The tokens counted for the documents are those of
  their bare text, and the same number is the quota for the formatted lines. So if retrieval found one
  document and the prefix of a line costs any token at all, its evidence is skipped and the context
  consists of the header alone, whatever the budget.\<close>

theorem lone_document_is_dropped:
  assumes "count_tool_tokens enc show_py s = Inr counts"
    and "g_rag_docs s = [doc]" and "g_db_result s = []" and "g_web_docs s = []"
    and "dget_or doc ''content'' (PStr []) = PStr c"
    and "source_of ev = PStr ''rag''" and "dget_or ev ''content'' (PStr []) = PStr c"
    and "\<And>score. toks enc (''('' @ RELEVANCE @ score @ '') '' @ c) > toks enc c"
    and "budget - locked > OUTPUT_RESERVE_TOKENS"
    and "assemble enc f show_py budget [ev] counts locked = Inr r"
  shows "r = (REFERENCES_HEADER, False, 0)"
proof -
  let ?limit = "budget - OUTPUT_RESERVE_TOKENS - locked" and ?a = "\<lparr>as_parts = [], as_compact = False, as_total = 0\<rparr>"
  have quota: "dget_or counts ''rag'' 0 = toks enc c"
    using assms(1-5) by (auto simp: count_tool_tokens_def doc_tokens_def dget_or_def simp del: num_tokens_from_string.simps)
  have line: "toks enc l > toks enc c" if "format_evidence show_py ev ''rag'' = Inr l" for l
    using that assms(7,8) by (auto simp: format_evidence_def Let_def rbind_eq_Inr_iff simp del: num_tokens_from_string.simps)
  have grp: "group_by_source [] [ev] = Inr [(PStr ''rag'', [ev])]" using assms(6) by simp
  have one: "ranked = [ev]" if "sort_by_weight f [ev] = Inr ranked" for ranked
    using that by (auto simp: sort_by_weight_def rbind_eq_Inr_iff)
  from assms(9,10) obtain a where a: "assemble_parts enc f show_py ?limit counts [ev] = Inr a"
    and r: "r = (join newline (REFERENCES_HEADER # as_parts a), as_compact a, as_total a)"
    by (auto simp: assemble_def rbind_eq_Inr_iff split: if_splits)
  from a have src: "assemble_sources enc show_py ?limit counts [(PStr ''rag'', [ev])] SOURCE_ORDER ?a = Inr a"
    by (auto simp: assemble_parts_def grp rbind_eq_Inr_iff simp del: group_by_source.simps dest!: one)
  have "a = ?a"
    using src line assms(9)
    by (auto simp: SOURCE_ORDER_def quota rbind_eq_Inr_iff Let_def simp del: num_tokens_from_string.simps split: if_splits)
  with r show ?thesis by (simp add: join_def)
qed

theorem lone_document_is_dropped_witness:
  "assemble demo_tokens (\<lambda>_. Inl ValueError) (\<lambda>_. []) 110000 [hd demo_sources] [(''rag'', 5)] 0
     = Inr (REFERENCES_HEADER, False, 0)"
proof -
  let ?s = "empty_state\<lparr>g_rag_docs := [[(''content'', PStr ''Paris'')]]\<rparr>"
  obtain r where r: "assemble demo_tokens (\<lambda>_. Inl ValueError) (\<lambda>_. []) 110000 [hd demo_sources] [(''rag'', 5)] 0 = Inr r"
    by (simp add: assembly_defs)
  have "r = (REFERENCES_HEADER, False, 0)"
  proof (rule lone_document_is_dropped [where doc = "[(''content'', PStr ''Paris'')]" and c = "''Paris''" and s = ?s, OF _ _ _ _ _ _ _ _ _ r])
    show "count_tool_tokens demo_tokens (\<lambda>_. []) ?s = Inr [(''rag'', 5)]"
      by (simp add: count_tool_tokens_def empty_state_def doc_tokens_def demo_tokens_def)
    show "toks demo_tokens (''('' @ RELEVANCE @ score @ '') '' @ ''Paris'') > toks demo_tokens ''Paris''" for score
      by (simp add: demo_tokens_def)
  qed (simp_all add: empty_state_def demo_sources_def source_of_def OUTPUT_RESERVE_TOKENS_def)
  with r show ?thesis by simp
qed

section \<open>Properties of the compression\<close>

lemma halve_rows_le: "halve_rows fits n \<le> n"
proof (induction fits n rule: halve_rows.induct)
  case (1 fits n)
  then show ?case by (subst halve_rows.simps) (auto intro: order_trans)
qed

lemma halve_rows_spec: "1 \<le> n \<Longrightarrow> 1 \<le> halve_rows fits n \<and> (halve_rows fits n = 1 \<or> fits (halve_rows fits n))"
proof (induction fits n rule: halve_rows.induct)
  case (1 fits n)
  then show ?case by (subst (1 2 3) halve_rows.simps) auto
qed

definition level_rows :: "string \<Rightarrow> nat \<Rightarrow> nat" where
  "level_rows level n =
     (if level = ''normal'' \<or> level = ''light'' then n else if level = ''moderate'' then min n 50
      else if level = ''severe'' then min n 10 else 1)"

text \<open>A compressed table is never empty and fits. From a table with rows the compression keeps a
  prefix of at least one row and at most as many as the level allows (all, 50, 10, 1), it drops no row
  unless it must: either the formatted rows fit the quota or a single row is left; it keeps all columns
  except, at the severe level, long text columns, and never no column at all.\<close>

theorem compressed_table_spec:
  fixes enc show_py columns quota level
  assumes "rows \<noteq> []"
  defines "r \<equiv> compress_db_result enc show_py rows columns quota level"
  shows "dr_rows r = take (dr_kept_row_count r) rows \<and> 1 \<le> dr_kept_row_count r
    \<and> dr_kept_row_count r \<le> level_rows level (length rows) \<and> dr_original_row_count r = length rows
    \<and> (dr_kept_row_count r = 1 \<or> toks enc (format_compact_rows show_py (dr_rows r) (dr_columns r)) \<le> quota)
    \<and> set (dr_columns r) \<subseteq> set columns \<and> (dr_columns r = [] \<longrightarrow> columns = [])
    \<and> (level \<noteq> ''severe'' \<longrightarrow> dr_columns r = columns)"
proof -
  let ?n = "length rows"
  define cs where "cs = (if level = ''severe'' then keep_columns show_py rows columns else columns)"
  let ?fits = "\<lambda>k. toks enc (format_compact_rows show_py (take k rows) cs) \<le> quota"
  let ?k = "halve_rows ?fits (level_rows level ?n)"
  have pos: "1 \<le> level_rows level ?n" using assms(1) by (auto simp: level_rows_def Suc_le_eq)
  have "r = \<lparr>dr_rows = take ?k rows, dr_columns = cs, dr_truncated = dr_truncated r,
        dr_original_row_count = ?n, dr_kept_row_count = ?k\<rparr>"
    using assms(1) unfolding r_def compress_db_result_def cs_def level_rows_def
    by (simp add: Let_def del: num_tokens_from_string.simps)
  then have r: "dr_rows r = take ?k rows" "dr_columns r = cs" "dr_original_row_count r = ?n" "dr_kept_row_count r = ?k"
    by (metis db_rows.select_convs)+
  have cols: "set cs \<subseteq> set columns" "cs = [] \<longrightarrow> columns = []" "level \<noteq> ''severe'' \<longrightarrow> cs = columns"
    by (auto simp: cs_def keep_columns_def Let_def)
  show ?thesis
    unfolding r using halve_rows_spec [OF pos, of ?fits] halve_rows_le [of ?fits "level_rows level ?n"] cols by blast
qed

theorem compressed_table_spec_witness:
  "let rows = [[(''a'', PInt 1)], [(''a'', PInt 2)], [(''a'', PInt 3)]];
       r = compress_db_result demo_tokens (\<lambda>_. ''x'') rows [''a''] 8 ''moderate''
   in rows \<noteq> [] \<and> 1 \<le> dr_kept_row_count r \<and> dr_rows r = take (dr_kept_row_count r) rows"
  using compressed_table_spec [of "[[(''a'', PInt 1)], [(''a'', PInt 2)], [(''a'', PInt 3)]]" demo_tokens "\<lambda>_. ''x''" "[''a'']" 8 "''moderate''"]
  by (simp add: Let_def)

text \<open>The level of compression follows the overflow, except that an exhausted budget looks like no
  overflow: with tokens available it is normal exactly if the evidence fits into them, light up to 30
  percent above, moderate up to 80, severe up to 150, compact beyond; when the locked tokens leave
  nothing (a negative number available) the level is normal however much evidence there is, and when
  they leave exactly zero the computation raises.\<close>

theorem level_of_overflow:
  fixes counts budget locked
  defines "avail \<equiv> budget - locked - OUTPUT_RESERVE_TOKENS" and "n \<equiv> int (total_tokens counts)"
  shows "(0 < avail \<longrightarrow>
      rbind (calculate_overflow_ratio budget counts locked) (\<lambda>r. Inr (determine_level r))
        = Inr (if n \<le> avail then ''normal'' else if 10 * n \<le> 13 * avail then ''light''
               else if 10 * n \<le> 18 * avail then ''moderate'' else if 10 * n \<le> 25 * avail then ''severe'' else ''compact''))
    \<and> (avail < 0 \<longrightarrow> rbind (calculate_overflow_ratio budget counts locked) (\<lambda>r. Inr (determine_level r)) = Inr ''normal'')
    \<and> (avail = 0 \<and> 0 < n \<longrightarrow> calculate_overflow_ratio budget counts locked = Inl ZeroDivisionError)"
proof -
  have ratio: "calculate_overflow_ratio budget counts locked
      = (if n \<le> avail then Inr 0 else if avail = 0 then Inl ZeroDivisionError
         else Inr (of_int (n - avail) / of_int avail))"
    by (simp add: calculate_overflow_ratio_def Let_def avail_def n_def)
  have bound: "of_int (n - avail) / (of_int avail :: rat) \<le> of_int p / 100 \<longleftrightarrow> 100 * n \<le> (100 + p) * avail"
    if "0 < avail" for p
  proof -
    have "of_int (n - avail) / (of_int avail :: rat) \<le> of_int p / 100
        \<longleftrightarrow> of_int (100 * (n - avail)) \<le> (of_int (p * avail) :: rat)"
      using that by (simp add: field_simps)
    also have "\<dots> \<longleftrightarrow> 100 * (n - avail) \<le> p * avail" by (rule of_int_le_iff)
    finally show ?thesis by (simp add: algebra_simps)
  qed
  have lv: "determine_level (of_int (n - avail) / of_int avail)
      = (if 10 * n \<le> 13 * avail then ''light'' else if 10 * n \<le> 18 * avail then ''moderate''
         else if 10 * n \<le> 25 * avail then ''severe'' else ''compact'')" if "0 < avail" "avail < n"
  proof -
    have "\<not> of_int (n - avail) / (of_int avail :: rat) \<le> 0"
      using that by (simp add: not_le)
    then show ?thesis
      using bound [OF that(1), of 30] bound [OF that(1), of 80] bound [OF that(1), of 150]
      by (simp add: determine_level_def)
  qed
  have neg: "of_int (n - avail) / (of_int avail :: rat) \<le> 0" if "avail < 0"
    using that by (simp add: n_def divide_le_0_iff)
  have nn: "0 \<le> n" by (simp add: n_def)
  show ?thesis
    using lv neg nn by (auto simp: ratio not_le determine_level_def)
qed

theorem level_of_overflow_witness:
  "calculate_overflow_ratio 1000 [(''rag'', 50000)] 5000 = Inr (of_int (50000 + 6000) / of_int (- 6000))
    \<and> rbind (calculate_overflow_ratio 1000 [(''rag'', 50000)] 5000) (\<lambda>r. Inr (determine_level r)) = Inr ''normal''
    \<and> rbind (calculate_overflow_ratio 12000 [(''rag'', 15000)] 0) (\<lambda>r. Inr (determine_level r)) = Inr ''moderate''"
proof -
  have "rbind (calculate_overflow_ratio 1000 [(''rag'', 50000)] 5000) (\<lambda>r. Inr (determine_level r)) = Inr ''normal''"
    using level_of_overflow [of 1000 5000 "[(''rag'', 50000)]"] by (simp add: OUTPUT_RESERVE_TOKENS_def)
  moreover have "rbind (calculate_overflow_ratio 12000 [(''rag'', 15000)] 0) (\<lambda>r. Inr (determine_level r)) = Inr ''moderate''"
    using level_of_overflow [of 12000 0 "[(''rag'', 15000)]"] by (simp add: OUTPUT_RESERVE_TOKENS_def total_tokens_def)
  ultimately show ?thesis
    by (simp add: calculate_overflow_ratio_def OUTPUT_RESERVE_TOKENS_def total_tokens_def)
qed

text \<open>The shares of several tables of a quota are at least 200 tokens each, and together they exceed
  the quota by at most 200 for every table; an overrun does happen, when the minimum of 200 is applied
  again after scaling down.\<close>

theorem db_quota_shares:
  assumes "2 \<le> length row_counts"
  shows "length (allocate_db_quota row_counts q) = length row_counts
    \<and> (\<forall>x \<in> set (allocate_db_quota row_counts q). 200 \<le> x)
    \<and> sum_list (allocate_db_quota row_counts q) \<le> q + 200 * length row_counts"
proof -
  have share: "sum_list (map (\<lambda>x. max 200 (x * q div t)) xs) \<le> 200 * length xs + sum_list xs * q div t" if "0 < t" for xs t
  proof (induction xs)
    case (Cons x xs)
    have "max 200 (x * q div t) \<le> 200 + x * q div t" by simp
    moreover have "x * q div t + sum_list xs * q div t \<le> (x * q + sum_list xs * q) div t"
      by (simp add: div_add1_eq [of "x * q"])
    ultimately show ?case using Cons by (simp add: add_mult_distrib)
  qed simp
  define t where "t = (if sum_list row_counts = 0 then 1 else sum_list row_counts)"
  define qs where "qs = map (\<lambda>rc. max 200 (q * rc div t)) row_counts"
  have alloc: "allocate_db_quota row_counts q
      = (if sum_list qs > q then map (\<lambda>x. max 200 (x * q div sum_list qs)) qs else qs)"
    using assms by (auto simp: allocate_db_quota_def Let_def t_def qs_def)
  have len: "length qs = length row_counts" by (simp add: qs_def)
  show ?thesis
  proof (cases "sum_list qs > q")
    case True
    then have "sum_list (map (\<lambda>x. max 200 (x * q div sum_list qs)) qs) \<le> 200 * length qs + q"
      using share [of "sum_list qs" qs] by simp
    with True len show ?thesis by (auto simp: alloc)
  next
    case False
    then show ?thesis unfolding alloc by (auto simp: len qs_def)
  qed
qed

theorem db_quota_shares_witness:
  "allocate_db_quota [10, 10] 300 = [200, 200] \<and> sum_list (allocate_db_quota [10, 10] 300) > 300
    \<and> sum_list (allocate_db_quota [10, 10] 300) \<le> 300 + 200 * 2"
  using db_quota_shares [of "[10, 10]" 300] by (simp add: allocate_db_quota_def Let_def)

end
