(* ===== verification/Redaction.thy ===== *)
theory Redaction
  imports Json
begin

text \<open>
  The regular expressions with which the evidence models (\<open>agent/langgraph/evidence/models.py\<close>) redact
  texts (\<open>_scrub_sensitive\<close>) and normalise SQL (\<open>_make_sql_fingerprint\<close>). They work on code points; the
  classes \<open>\\w\<close> and \<open>\\d\<close> are fixed for ASCII, and for the other code points they are the tables of
  Python's Unicode database, the record \<open>unicode\<close>.
\<close>

section \<open>Character classes\<close>

record unicode =
  un_word :: "string \<Rightarrow> bool"
  un_digit :: "string \<Rightarrow> bool"

text \<open>A decimal digit is a word character.\<close>

definition cp_digit :: "unicode \<Rightarrow> string \<Rightarrow> bool" where
  "cp_digit u p = (case p of [c] \<Rightarrow> c \<in> set digit_chars | _ \<Rightarrow> un_digit u p)"

definition ascii_word :: "char \<Rightarrow> bool" where
  "ascii_word c \<longleftrightarrow> c \<in> set lower_letters \<or> c \<in> set upper_letters \<or> c \<in> set digit_chars \<or> c = CHR ''_''"

definition cp_word :: "unicode \<Rightarrow> string \<Rightarrow> bool" where
  "cp_word u p = (case p of [c] \<Rightarrow> ascii_word c | _ \<Rightarrow> un_word u p \<or> un_digit u p)"

lemma digit_is_word: "cp_digit u p \<Longrightarrow> cp_word u p"
  by (auto simp: cp_digit_def cp_word_def ascii_word_def split: list.splits)

section \<open>Substitution\<close>

text \<open>A pattern is a sequence of character classes between word boundaries: \<open>\\b...\\b\<close>, where the first
  and the last class are classes of word characters. A match begins where no word character precedes
  and ends where none follows.\<close>

type_synonym pattern = "(string \<Rightarrow> bool) list"

definition next_word :: "unicode \<Rightarrow> string list \<Rightarrow> bool" where
  "next_word u xs = (case xs of [] \<Rightarrow> False | x # _ \<Rightarrow> cp_word u x)"

definition match_at :: "unicode \<Rightarrow> pattern \<Rightarrow> bool \<Rightarrow> string list \<Rightarrow> bool" where
  "match_at u ps prev xs \<longleftrightarrow>
     \<not> prev \<and> length ps \<le> length xs \<and> list_all2 (\<lambda>p x. p x) ps (take (length ps) xs)
     \<and> \<not> next_word u (drop (length ps) xs)"

text \<open>\<open>re.sub(pattern, repl, s)\<close>: the leftmost match is replaced and the search goes on behind it;
  \<open>prev\<close> tells whether a word character precedes.\<close>

function re_sub :: "unicode \<Rightarrow> pattern \<Rightarrow> string list \<Rightarrow> bool \<Rightarrow> string list \<Rightarrow> string list" where
  "re_sub u ps repl prev [] = []"
| "re_sub u ps repl prev (x # xs) =
     (if ps \<noteq> [] \<and> match_at u ps prev (x # xs)
      then repl @ re_sub u ps repl True (drop (length ps) (x # xs))
      else x # re_sub u ps repl (cp_word u x) xs)"
  by pat_completeness auto
termination
  by (relation "measure (\<lambda>(u, ps, repl, prev, xs). length xs)") (auto simp: Suc_le_eq length_greater_0_conv [symmetric] simp del: length_greater_0_conv)

text \<open>\<open>re.search(pattern, s)\<close>\<close>

fun re_search :: "unicode \<Rightarrow> pattern \<Rightarrow> bool \<Rightarrow> string list \<Rightarrow> bool" where
  "re_search u ps prev [] = False"
| "re_search u ps prev (x # xs) = (match_at u ps prev (x # xs) \<or> re_search u ps (cp_word u x) xs)"

definition points :: "string \<Rightarrow> string list" where
  "points s = map (\<lambda>c. [c]) s"

section \<open>Redaction of numbers\<close>

text \<open>\<open>\\b1[3-9]\\d{9}\\b\<close> and \<open>\\b\\d{17}[\\dXx]\\b\<close>\<close>

definition PHONE :: "unicode \<Rightarrow> pattern" where
  "PHONE u = [\<lambda>p. p = ''1'', \<lambda>p. p \<in> set (points ''3456789'')] @ replicate 9 (cp_digit u)"

definition ID_CARD :: "unicode \<Rightarrow> pattern" where
  "ID_CARD u = replicate 17 (cp_digit u) @ [\<lambda>p. cp_digit u p \<or> p = ''X'' \<or> p = ''x'']"

definition scrub_points :: "unicode \<Rightarrow> string list \<Rightarrow> string list" where
  "scrub_points u xs =
     re_sub u (ID_CARD u) (points ''ID-XXXXXXXX'') False
       (re_sub u (PHONE u) (points ''1XX-XXXX-XXXX'') False xs)"

definition scrub_sensitive :: "unicode \<Rightarrow> string \<Rightarrow> string" where
  "scrub_sensitive u content = concat (scrub_points u (u_chars content))"

section \<open>Fingerprint of a query\<close>

definition upper_char :: "char \<Rightarrow> char" where
  "upper_char c = (case map_of (zip lower_letters upper_letters) c of None \<Rightarrow> c | Some d \<Rightarrow> d)"

definition upper :: "string \<Rightarrow> string" where
  "upper s = map upper_char s"

text \<open>\<open>re.sub(r"\\s+", " ", s)\<close>, \<open>re.sub(r"'[^']*'", "?", s)\<close> and \<open>re.sub(r"\\b\\d+\\b", "?", s)\<close>.\<close>

fun collapse_ws :: "bool \<Rightarrow> string list \<Rightarrow> string list" where
  "collapse_ws inside [] = []"
| "collapse_ws inside (x # xs) =
     (if x \<in> set ws_points then (if inside then [] else ['' '']) @ collapse_ws True xs
      else x # collapse_ws False xs)"

definition quote_pt :: string where
  "quote_pt = [CHR 0x27]"

function hide_literals :: "string list \<Rightarrow> string list" where
  "hide_literals [] = []"
| "hide_literals (x # xs) =
     (if x = quote_pt \<and> quote_pt \<in> set xs then ''?'' # hide_literals (tl (dropWhile (\<lambda>p. p \<noteq> quote_pt) xs))
      else x # hide_literals xs)"
  by pat_completeness auto
termination
  by (relation "measure length")
    (simp_all add: less_Suc_eq_le le_diff_conv le_SucI length_dropWhile_le)

function hide_numbers :: "unicode \<Rightarrow> bool \<Rightarrow> string list \<Rightarrow> string list" where
  "hide_numbers u prev [] = []"
| "hide_numbers u prev (x # xs) =
     (if \<not> prev \<and> cp_digit u x \<and> \<not> next_word u (dropWhile (cp_digit u) xs)
      then ''?'' # hide_numbers u True (dropWhile (cp_digit u) xs)
      else x # hide_numbers u (cp_word u x) xs)"
  by pat_completeness auto
termination
  by (relation "measure (\<lambda>(u, prev, xs). length xs)") (auto intro: le_imp_less_Suc length_dropWhile_le)

definition make_sql_fingerprint :: "unicode \<Rightarrow> (string \<Rightarrow> string) \<Rightarrow> string \<Rightarrow> string" where
  "make_sql_fingerprint u sha256 sql =
     (if sql = [] then ''unknown''
      else take 16 (sha256 (concat (hide_numbers u False (hide_literals (collapse_ws False (u_chars (strip (upper sql)))))))))"

section \<open>What a substitution leaves\<close>

text \<open>Inside a word nothing is replaced.\<close>

lemma re_sub_word_run:
  "list_all (cp_word u) (take n (re_sub u ps repl True ys)) \<Longrightarrow>
   take n (re_sub u ps repl True ys) = take n ys
   \<and> next_word u (drop n (re_sub u ps repl True ys)) = next_word u (drop n ys)
   \<and> (n \<le> length (re_sub u ps repl True ys) \<longrightarrow> n \<le> length ys)"
proof (induction n arbitrary: ys)
  case 0
  then show ?case by (cases ys) (simp_all add: match_at_def next_word_def)
next
  case (Suc n)
  then show ?case by (cases ys) (auto simp: match_at_def next_word_def)
qed

text \<open>A pattern of word characters: a match in the result that begins at a kept character is a match
  in the original.\<close>

definition word_pattern :: "unicode \<Rightarrow> pattern \<Rightarrow> bool" where
  "word_pattern u ps \<longleftrightarrow> ps \<noteq> [] \<and> (\<forall>p \<in> set ps. \<forall>x. p x \<longrightarrow> cp_word u x)"

lemma list_all2_word: "list_all2 (\<lambda>p x. p x) ps xs \<Longrightarrow> \<forall>p \<in> set ps. \<forall>x. p x \<longrightarrow> cp_word u x \<Longrightarrow> list_all (cp_word u) xs"
  by (induction ps xs rule: list_all2_induct) simp_all

lemma match_at_kept:
  assumes "word_pattern u qs" and "match_at u qs prev (x # re_sub u ps repl (cp_word u x) xs)"
  shows "match_at u qs prev (x # xs)"
proof -
  obtain q qs' where q: "qs = q # qs'" using assms(1) by (cases qs) (auto simp: word_pattern_def)
  have w: "cp_word u x" and run: "list_all (cp_word u) (take (length qs') (re_sub u ps repl (cp_word u x) xs))"
    using assms list_all2_word [of qs "take (length qs) (x # re_sub u ps repl (cp_word u x) xs)" u]
    by (auto simp: match_at_def word_pattern_def q)
  from re_sub_word_run [of u "length qs'" ps repl xs] run w assms(2) show ?thesis
    by (auto simp: match_at_def q)
qed

lemma re_search_append_True:
  assumes "re_search u ps (cp_word u (last xs)) ys" and "xs \<noteq> []"
  shows "re_search u ps prev (xs @ ys)"
  using assms by (induction xs arbitrary: prev) (auto split: if_splits)

text \<open>A replacement is opaque for a pattern if no match begins in it, whatever follows, and a word
  character ends it.\<close>

definition opaque :: "unicode \<Rightarrow> pattern \<Rightarrow> string list \<Rightarrow> bool" where
  "opaque u qs repl \<longleftrightarrow> (\<forall>prev ys. re_search u qs prev (repl @ ys) \<longrightarrow> re_search u qs True ys)"

lemma match_at_word_end:
  assumes "match_at u ps prev xs" and "word_pattern u ps"
  shows "cp_word u (last (take (length ps) xs)) \<and> take (length ps) xs \<noteq> []"
proof -
  have "list_all (cp_word u) (take (length ps) xs)" "take (length ps) xs \<noteq> []"
    using assms list_all2_word [of ps "take (length ps) xs" u] by (auto simp: match_at_def word_pattern_def)
  then show ?thesis by (auto simp: list_all_iff)
qed

lemma re_sub_keeps_free:
  assumes "word_pattern u ps" and "word_pattern u qs" and "opaque u qs repl"
    and "\<not> re_search u qs prev xs"
  shows "\<not> re_search u qs prev (re_sub u ps repl prev xs)"
  using assms(4)
proof (induction "length xs" arbitrary: prev xs rule: less_induct)
  case less
  show ?case
  proof (cases xs)
    case (Cons x ys)
    let ?n = "length ps"
    have n: "?n \<noteq> 0" using assms(1) by (auto simp: word_pattern_def)
    show ?thesis
    proof (cases "match_at u ps prev xs")
      case True
      have "\<not> re_search u qs True (drop ?n xs)"
        using match_at_word_end [OF True assms(1)] less.prems
          re_search_append_True [of u qs "take ?n xs" "drop ?n xs" prev] by auto
      then have "\<not> re_search u qs True (re_sub u ps repl True (drop ?n xs))"
        using less.hyps [of "drop ?n xs"] n Cons by simp
      with True assms(1,3) Cons show ?thesis by (auto simp: opaque_def word_pattern_def)
    next
      case False
      have "\<not> re_search u qs (cp_word u x) (re_sub u ps repl (cp_word u x) ys)"
        using less.hyps [of ys] less.prems Cons by simp
      with False Cons less.prems match_at_kept [OF assms(2), of prev x ps repl ys] show ?thesis by auto
    qed
  qed simp
qed

text \<open>After a substitution by an opaque text no match of the pattern is left.\<close>

lemma re_sub_removes:
  assumes "word_pattern u ps" and "opaque u ps repl"
  shows "\<not> re_search u ps prev (re_sub u ps repl prev xs)"
proof (induction "length xs" arbitrary: prev xs rule: less_induct)
  case less
  show ?case
  proof (cases xs)
    case (Cons x ys)
    have n: "length ps \<noteq> 0" using assms(1) by (auto simp: word_pattern_def)
    show ?thesis
    proof (cases "match_at u ps prev xs")
      case True
      with less.hyps [of "drop (length ps) xs" True] n Cons assms show ?thesis
        by (auto simp: opaque_def word_pattern_def)
    next
      case False
      with less.hyps [of ys "cp_word u x"] Cons match_at_kept [OF assms(1), of prev x ps repl ys] show ?thesis
        by auto
    qed
  qed simp
qed

lemma phone_word: "word_pattern u (PHONE u)"
  by (auto simp: word_pattern_def PHONE_def cp_word_def ascii_word_def points_def digit_chars_def dest: digit_is_word)

lemma id_card_word: "word_pattern u (ID_CARD u)"
  by (auto simp: word_pattern_def ID_CARD_def cp_word_def ascii_word_def upper_letters_def lower_letters_def dest: digit_is_word)

lemma not_match_first: "\<not> p x \<Longrightarrow> \<not> match_at u (p # ps) prev (x # xs)"
  by (simp add: match_at_def)

lemma not_match_second: "\<not> q y \<Longrightarrow> \<not> match_at u (p # q # ps) prev (x # y # xs)"
  by (simp add: match_at_def)

lemma ascii_points [simp]:
  "cp_word u ''X''" "\<not> cp_digit u ''X''" "\<not> cp_digit u ''I''" "\<not> cp_digit u ''D''" "\<not> cp_digit u ''-''"
  by (simp_all add: cp_word_def cp_digit_def ascii_word_def upper_letters_def digit_chars_def)

lemma PHONE_eq: "PHONE u = (\<lambda>p. p = ''1'') # (\<lambda>p. p \<in> set (points ''3456789'')) # replicate 9 (cp_digit u)"
  by (simp add: PHONE_def)

lemma ID_CARD_eq: "ID_CARD u = cp_digit u # replicate 16 (cp_digit u) @ [\<lambda>p. cp_digit u p \<or> p = ''X'' \<or> p = ''x'']"
  by (simp add: ID_CARD_def numeral_eq_Suc)

lemma opaque_phone: "opaque u (PHONE u) (points ''1XX-XXXX-XXXX'')" "opaque u (PHONE u) (points ''ID-XXXXXXXX'')"
  unfolding PHONE_eq by (simp_all add: opaque_def points_def not_match_first not_match_second)

lemma opaque_id: "opaque u (ID_CARD u) (points ''ID-XXXXXXXX'')"
  unfolding ID_CARD_eq by (simp add: opaque_def points_def not_match_first)

lemma scrub_points_clean:
  "\<not> re_search u (PHONE u) False (scrub_points u xs) \<and> \<not> re_search u (ID_CARD u) False (scrub_points u xs)"
  unfolding scrub_points_def
  by (intro conjI re_sub_removes re_sub_keeps_free phone_word id_card_word opaque_phone opaque_id)

text \<open>A text is well-formed if it does not begin inside a code point; its code points are then recovered
  from any text put together from them.\<close>

definition point :: "string \<Rightarrow> bool" where
  "point p \<longleftrightarrow> (case p of [] \<Rightarrow> False | c # cs \<Rightarrow> \<not> is_cont c \<and> list_all is_cont cs)"

lemma u_chars_point:
  assumes "point p" and "xs = [] \<or> \<not> is_cont (hd xs)"
  shows "u_chars (p @ xs) = p # u_chars xs"
proof -
  obtain c cs where p: "p = c # cs" "\<not> is_cont c" "list_all is_cont cs"
    using assms(1) by (auto simp: point_def split: list.splits)
  have "takeWhile is_cont (cs @ xs) = cs \<and> dropWhile is_cont (cs @ xs) = xs"
    using p(3) assms(2) by (cases xs) (auto simp: list_all_iff takeWhile_append dropWhile_append)
  then show ?thesis by (simp add: p)
qed

lemma u_chars_concat: "list_all point ps \<Longrightarrow> u_chars (concat ps) = ps"
proof (induction ps)
  case (Cons p ps)
  have "concat ps = [] \<or> \<not> is_cont (hd (concat ps))"
    using Cons.prems by (cases ps) (auto simp: point_def split: list.splits)
  with Cons show ?case by (simp add: u_chars_point)
qed simp

lemma u_chars_points: "s = [] \<or> \<not> is_cont (hd s) \<Longrightarrow> list_all point (u_chars s)"
proof (induction s rule: u_chars.induct)
  case (2 c cs)
  have "dropWhile is_cont cs = [] \<or> \<not> is_cont (hd (dropWhile is_cont cs))"
    using hd_dropWhile by blast
  with 2 show ?case by (auto simp: point_def list_all_iff dest: set_takeWhileD)
qed simp

lemma re_sub_points:
  assumes "list_all point repl" and "list_all point xs"
  shows "list_all point (re_sub u ps repl prev xs)"
  using assms(2)
proof (induction "length xs" arbitrary: prev xs rule: less_induct)
  case less
  show ?case
  proof (cases xs)
    case (Cons x ys)
    have "list_all point (drop n xs)" for n using less.prems by (auto simp: list_all_iff dest: in_set_dropD)
    with less Cons assms(1) show ?thesis by auto
  qed simp
qed

text \<open>C28: no stand-alone number survives. In a redacted text there is no mobile number (1, a digit from
  3 to 9 and nine more digits) and no identity number (17 digits and a digit or X) that stands between
  word boundaries, whatever the text was; the second substitution does not undo the first.\<close>

theorem scrub_removes_numbers:
  assumes "content = [] \<or> \<not> is_cont (hd content)"
  shows "\<not> re_search u (PHONE u) False (u_chars (scrub_sensitive u content))
    \<and> \<not> re_search u (ID_CARD u) False (u_chars (scrub_sensitive u content))"
proof -
  have "list_all point (scrub_points u (u_chars content))"
    unfolding scrub_points_def
    by (intro re_sub_points u_chars_points assms) (simp_all add: points_def point_def is_cont_def)
  then show ?thesis unfolding scrub_sensitive_def by (simp add: u_chars_concat scrub_points_clean)
qed

definition ascii_only :: unicode where
  "ascii_only = \<lparr>un_word = \<lambda>_. True, un_digit = \<lambda>_. False\<rparr>"

theorem scrub_removes_numbers_witness:
  "scrub_sensitive ascii_only ''call 13812345678.'' = ''call 1XX-XXXX-XXXX.''
    \<and> \<not> re_search ascii_only (PHONE ascii_only) False (u_chars (scrub_sensitive ascii_only ''call 13812345678.''))"
proof -
  have "scrub_sensitive ascii_only ''call 13812345678.'' = ''call 1XX-XXXX-XXXX.''"
    by (simp add: scrub_sensitive_def scrub_points_def is_cont_def PHONE_def ID_CARD_def match_at_def next_word_def
        points_def cp_word_def cp_digit_def ascii_word_def digit_chars_def lower_letters_def upper_letters_def numeral_eq_Suc)
  with scrub_removes_numbers [of "''call 13812345678.''" ascii_only] show ?thesis by (simp add: is_cont_def)
qed

lemma re_sub_inside_word: "list_all (cp_word u) xs \<Longrightarrow> re_sub u ps repl True xs = xs"
  by (induction xs) (simp_all add: match_at_def)

text \<open>A number that touches a letter is kept. If a word character that is no digit stands directly in
  front of a run of word characters, as a Chinese character in front of a telephone number does, there
  is no word boundary between them and the redaction leaves the whole text unchanged.\<close>

theorem adjacent_number_is_kept:
  assumes "point p" and "cp_word u p" and "\<not> cp_digit u p" and "list_all point ds" and "list_all (cp_word u) ds"
  shows "scrub_sensitive u (p @ concat ds) = p @ concat ds"
proof -
  have chars: "u_chars (p @ concat ds) = p # ds"
    using u_chars_concat [of "p # ds"] assms(1,4) by simp
  have "p \<noteq> ''1''" using assms(3) by (auto simp: cp_digit_def digit_chars_def)
  then have "\<not> match_at u (PHONE u) False (p # ds)" by (simp add: PHONE_eq not_match_first)
  then have phone: "re_sub u (PHONE u) repl False (p # ds) = p # ds" for repl
    using assms(2,5) by (simp add: re_sub_inside_word)
  have "\<not> match_at u (ID_CARD u) False (p # ds)" using assms(3) by (simp add: ID_CARD_eq not_match_first)
  then have "re_sub u (ID_CARD u) repl False (p # ds) = p # ds" for repl
    using assms(2,5) by (simp add: re_sub_inside_word)
  with phone show ?thesis by (simp add: scrub_sensitive_def scrub_points_def chars)
qed

theorem adjacent_number_is_kept_witness:
  "scrub_sensitive ascii_only ([CHR 0xE5, CHR 0x8F, CHR 0xB7] @ concat (points ''13812345678'')) = [CHR 0xE5, CHR 0x8F, CHR 0xB7] @ ''13812345678''"
  using adjacent_number_is_kept [of "[CHR 0xE5, CHR 0x8F, CHR 0xB7]" ascii_only "points ''13812345678''"]
  by (simp add: point_def is_cont_def points_def cp_word_def cp_digit_def ascii_word_def ascii_only_def
      digit_chars_def lower_letters_def upper_letters_def)

end
