(* ===== verification/Evidence_Models.thy ===== *)
theory Evidence_Models
  imports Redaction Agent_State Evidence_Fusion
begin

text \<open>
  Normalisation of tool results to evidence (\<open>agent/langgraph/evidence/models.py\<close>) with the provenance
  that is attached to it (\<open>evidence/provenance.py\<close>), and the normalisation of the tool results of a state
  (\<open>nodes/evidence_fusion.py\<close>). Tool results are untyped, so every read may raise; the kinds of the raised
  exceptions are not told apart where the source meets a value of a wrong type. The environment \<open>norm_env\<close>
  has the digest, the clock, the texts of values that are no strings and the Unicode tables.
\<close>

record norm_env =
  ne_sha256 :: "string \<Rightarrow> string"
  ne_now :: string
  ne_show :: "pyval \<Rightarrow> string"
  ne_float_repr :: "rat \<Rightarrow> string"
  ne_float_of_str :: "string \<Rightarrow> rat res"
  ne_unicode :: unicode

abbreviation txt_of :: "norm_env \<Rightarrow> pyval \<Rightarrow> string" where
  "txt_of env v \<equiv> py_str (ne_show env) v"

section \<open>Tables\<close>

definition TOOL_SOURCE_TYPE_MAP :: "(string \<times> string) list" where
  "TOOL_SOURCE_TYPE_MAP =
     [(''rag_search'', ''rag''), (''rag'', ''rag''), (''db_query'', ''db''), (''database'', ''db''),
      (''web_search'', ''web''), (''web'', ''web''), (''rest'', ''rest''), (''rest_search'', ''rest''),
      (''graph'', ''graph''), (''graph_tool'', ''graph''), (''report'', ''report'')]"

definition DEFAULT_AUTHORITY_SCORE :: "(string \<times> rat) list" where
  "DEFAULT_AUTHORITY_SCORE =
     [(''db'', 95/100), (''rest'', 90/100), (''graph'', 90/100), (''rag'', 80/100), (''report'', 85/100), (''web'', 50/100)]"

section \<open>Parts of an evidence\<close>

definition make_evidence_id :: "norm_env \<Rightarrow> string \<Rightarrow> string \<Rightarrow> string" where
  "make_evidence_id env source_uri content =
     ''ev_'' @ take 16 (ne_sha256 env (source_uri @ ''|'' @ u_take 200 content))"

definition truncate_content :: "string \<Rightarrow> nat \<Rightarrow> string \<times> bool" where
  "truncate_content content max_chars =
     (if content = [] then ([], False)
      else if u_len content \<le> max_chars then (content, False)
      else (u_take max_chars content @ uni [0x2026], True))"

definition clamp01 :: "rat \<Rightarrow> rat" where
  "clamp01 x = max 0 (min 1 x)"

text \<open>The text that an evidence shows and whether it was cut.\<close>

definition shown_content :: "norm_env \<Rightarrow> string \<Rightarrow> string \<times> bool" where
  "shown_content env content_raw =
     (case truncate_content content_raw 2000 of (c, t) \<Rightarrow>
        (if c = [] then c else scrub_sensitive (ne_unicode env) c, t))"

text \<open>A truthy content that is no string makes \<open>len\<close>, the slice or the substitution raise.\<close>

definition content_text :: "pyval \<Rightarrow> string res" where
  "content_text v = (case py_or v (PStr []) of PStr s \<Rightarrow> Inr s | _ \<Rightarrow> Inl TypeError)"

record evidence_fields =
  ef_evidence_id :: string
  ef_source_type :: string
  ef_title :: pyval
  ef_content :: string
  ef_structured_data :: pyval
  ef_source_uri :: pyval
  ef_tenant_id :: string
  ef_score :: rat
  ef_freshness :: rat
  ef_created_at :: pyval
  ef_metadata :: pdict

text \<open>The keys in the order of the source; confidence and relevance are the same score except for an
  empty query result.\<close>

definition evidence_dict :: "rat \<Rightarrow> evidence_fields \<Rightarrow> pdict" where
  "evidence_dict relevance e =
     [(''evidence_id'', PStr (ef_evidence_id e)), (''source_type'', PStr (ef_source_type e)),
      (''title'', ef_title e), (''content'', PStr (ef_content e)), (''structured_data'', ef_structured_data e),
      (''source_uri'', ef_source_uri e), (''tenant_id'', PStr (ef_tenant_id e)),
      (''confidence'', PFloat (ef_score e)), (''relevance_score'', PFloat relevance),
      (''authority_score'', PFloat (dget_or DEFAULT_AUTHORITY_SCORE (ef_source_type e) 0)),
      (''freshness_score'', PFloat (ef_freshness e)), (''created_at'', ef_created_at e),
      (''metadata'', PDict (ef_metadata e))]"

section \<open>Provenance\<close>

text \<open>Only non-empty values are kept.\<close>

definition build_db_provenance ::
    "pyval \<Rightarrow> pyval \<Rightarrow> pyval \<Rightarrow> pyval \<Rightarrow> pyval list \<Rightarrow> pyval \<Rightarrow> pdict" where
  "build_db_provenance db_id table_name query_id sql_fingerprint row_keys step_id =
     filter (\<lambda>kv. truthy (snd kv))
       [(''db_id'', db_id), (''table_name'', table_name), (''query_id'', query_id),
        (''sql_fingerprint'', sql_fingerprint), (''row_keys'', PList row_keys), (''step_id'', step_id)]"

definition build_rag_provenance ::
    "pyval \<Rightarrow> pyval \<Rightarrow> pyval \<Rightarrow> pyval \<Rightarrow> pyval \<Rightarrow> pyval \<Rightarrow> pyval \<Rightarrow> pdict" where
  "build_rag_provenance kb_id doc_id chunk_id doc_title doc_uri retrieval_query step_id =
     filter (\<lambda>kv. truthy (snd kv))
       [(''kb_id'', kb_id), (''doc_id'', doc_id), (''chunk_id'', chunk_id), (''doc_title'', doc_title),
        (''doc_uri'', doc_uri), (''retrieval_query'', retrieval_query), (''step_id'', step_id)]"

text \<open>The evidence has a dictionary of metadata, to which the provenance is added unless it is empty.\<close>

definition attach_provenance :: "pdict \<Rightarrow> pdict \<Rightarrow> pdict" where
  "attach_provenance metadata provenance =
     (if provenance = [] then metadata else dset metadata ''provenance'' (PDict provenance))"

section \<open>Documents\<close>

definition rag_source_uri :: "norm_env \<Rightarrow> pyval \<Rightarrow> pyval \<Rightarrow> pyval \<Rightarrow> string" where
  "rag_source_uri env kb_id doc_id chunk_id =
     (if truthy kb_id then ''kb://'' @ txt_of env kb_id @ ''/'' @ txt_of env doc_id @ ''/'' @ txt_of env chunk_id
      else ''rag://'' @ txt_of env (py_or chunk_id (PStr ''unknown'')))"

definition rag_fields :: "norm_env \<Rightarrow> string \<Rightarrow> string \<Rightarrow> pdict \<Rightarrow> string \<Rightarrow> rat \<Rightarrow> evidence_fields" where
  "rag_fields env tenant_id query doc content_raw score =
     (let shown = shown_content env content_raw;
           kb_id = dget_or doc ''kb_id'' (PStr []);
           doc_id = py_or (dget doc ''doc_id'') (dget_or doc ''document_id'' (PStr []));
           chunk_id = dget_or doc ''chunk_id'' (PStr []);
           source_uri = rag_source_uri env kb_id doc_id chunk_id;
           title = dget_or doc ''title'' (PStr []);
           metadata =
             [(''kb_id'', kb_id), (''doc_id'', doc_id), (''chunk_id'', chunk_id),
              (''page'', dget_or doc ''page'' (PStr [])), (''truncated'', PBool (snd shown)), (''query'', PStr query)];
           provenance =
             build_rag_provenance kb_id doc_id chunk_id title
               (py_or (dget_or doc ''doc_uri'' (PStr [])) (dget_or doc ''uri'' (PStr []))) (PStr query)
               (dget_or doc ''step_id'' (PStr []))
      in \<lparr>ef_evidence_id = make_evidence_id env source_uri content_raw, ef_source_type = ''rag'',
             ef_title = py_or title
               (PStr (uni [0x77E5, 0x8BC6, 0x5E93, 0x6587, 0x6863, 0x7247, 0x6BB5, 0x20] @ txt_of env chunk_id)),
             ef_content = fst shown, ef_structured_data = PDict [], ef_source_uri = PStr source_uri,
             ef_tenant_id = tenant_id, ef_score = clamp01 score, ef_freshness = 1,
             ef_created_at = PStr (ne_now env), ef_metadata = attach_provenance metadata provenance\<rparr>)"

definition normalize_rag_doc :: "norm_env \<Rightarrow> string \<Rightarrow> string \<Rightarrow> pdict \<Rightarrow> pdict res" where
  "normalize_rag_doc env tenant_id query doc =
     rbind (content_text (py_or (dget doc ''content'') (dget doc ''text''))) (\<lambda>content_raw.
     rbind (py_float (ne_float_of_str env) (py_or (dget_or doc ''score'' (PFloat 0)) (PFloat 0))) (\<lambda>score.
       Inr (evidence_dict (clamp01 score) (rag_fields env tenant_id query doc content_raw score))))"

definition normalize_rag_evidence :: "norm_env \<Rightarrow> string \<Rightarrow> string \<Rightarrow> pdict list \<Rightarrow> pdict list res" where
  "normalize_rag_evidence env tenant_id query docs = all_res (normalize_rag_doc env tenant_id query) docs"

definition web_fields :: "norm_env \<Rightarrow> string \<Rightarrow> string \<Rightarrow> pdict \<Rightarrow> string \<Rightarrow> rat \<Rightarrow> evidence_fields" where
  "web_fields env tenant_id query doc content_raw score =
     (let shown = shown_content env content_raw;
           url = dget_or doc ''url'' (PStr []);
           title = dget_or doc ''title'' (PStr []);
           fetched_at = dget_or doc ''fetched_at'' (PStr (ne_now env))
      in \<lparr>ef_evidence_id = make_evidence_id env (txt_of env url) content_raw, ef_source_type = ''web'',
             ef_title = py_or (py_or title url) (PStr (uni [0x57, 0x65, 0x62, 0x20, 0x641C, 0x7D22, 0x7ED3, 0x679C])),
             ef_content = fst shown, ef_structured_data = PDict [], ef_source_uri = py_or url (PStr ''web://unknown''),
             ef_tenant_id = tenant_id, ef_score = clamp01 score, ef_freshness = 7/10, ef_created_at = fetched_at,
             ef_metadata =
               [(''url'', url), (''title'', title), (''published_at'', dget_or doc ''published_at'' (PStr [])),
                (''fetched_at'', fetched_at), (''truncated'', PBool (snd shown)), (''query'', PStr query)]\<rparr>)"

definition normalize_web_doc :: "norm_env \<Rightarrow> string \<Rightarrow> string \<Rightarrow> pdict \<Rightarrow> pdict res" where
  "normalize_web_doc env tenant_id query doc =
     rbind (content_text (py_or (dget doc ''content'') (dget doc ''snippet''))) (\<lambda>content_raw.
     rbind (py_float (ne_float_of_str env) (py_or (dget_or doc ''score'' (PFloat (1/2))) (PFloat (1/2)))) (\<lambda>score.
       Inr (evidence_dict (clamp01 score) (web_fields env tenant_id query doc content_raw score))))"

definition normalize_web_evidence :: "norm_env \<Rightarrow> string \<Rightarrow> string \<Rightarrow> pdict list \<Rightarrow> pdict list res" where
  "normalize_web_evidence env tenant_id query docs = all_res (normalize_web_doc env tenant_id query) docs"

section \<open>REST results\<close>

definition rest_content :: "norm_env \<Rightarrow> pyval \<Rightarrow> pyval" where
  "rest_content env v = (case v of PDict d \<Rightarrow> PStr (json_text (ne_float_repr env) (PDict d)) | _ \<Rightarrow> v)"

definition rest_fields :: "norm_env \<Rightarrow> string \<Rightarrow> string \<Rightarrow> pyval \<Rightarrow> pdict \<Rightarrow> string \<Rightarrow> rat \<Rightarrow> evidence_fields" where
  "rest_fields env tenant_id query erp_domain doc content_raw quality =
     (let shown = shown_content env content_raw;
           function_name = dget_or doc ''function'' (PStr []);
           endpoint = dget_or doc ''endpoint'' (PStr []);
           domain = dget_or doc ''erp_domain'' erp_domain;
           source_uri =
             (if truthy domain
              then ''rest://'' @ txt_of env domain @ ''/'' @ txt_of env function_name @ ''/'' @ txt_of env endpoint
              else ''rest://'' @ txt_of env (py_or function_name (PStr ''unknown'')))
      in \<lparr>ef_evidence_id = make_evidence_id env source_uri content_raw, ef_source_type = ''rest'',
             ef_title = py_or (dget_or doc ''title'' (PStr []))
               (PStr (uni [0x45, 0x52, 0x50, 0x20, 0x67E5, 0x8BE2, 0x7ED3, 0x679C, 0xFF08]
                      @ txt_of env (py_or function_name (PStr (uni [0x672A, 0x77E5]))) @ uni [0xFF09])),
             ef_content = fst shown,
             ef_structured_data = (case dget doc ''data'' of PDict d \<Rightarrow> PDict d | _ \<Rightarrow> PDict []),
             ef_source_uri = PStr source_uri, ef_tenant_id = tenant_id, ef_score = clamp01 quality,
             ef_freshness = 1, ef_created_at = PStr (ne_now env),
             ef_metadata =
               [(''function'', function_name), (''endpoint'', endpoint), (''method'', dget_or doc ''method'' (PStr ''GET'')),
                (''erp_domain'', domain), (''truncated'', PBool (snd shown)), (''query'', PStr query)]\<rparr>)"

definition normalize_rest_doc :: "norm_env \<Rightarrow> string \<Rightarrow> string \<Rightarrow> pyval \<Rightarrow> pdict \<Rightarrow> pdict res" where
  "normalize_rest_doc env tenant_id query erp_domain doc =
     rbind (content_text (rest_content env
       (py_or (py_or (dget doc ''content'') (dget doc ''data'')) (PStr [])))) (\<lambda>content_raw.
     rbind (py_float (ne_float_of_str env) (py_or (dget_or doc ''quality_score'' (PFloat (85/100))) (PFloat (85/100)))) (\<lambda>quality.
       Inr (evidence_dict (clamp01 quality) (rest_fields env tenant_id query erp_domain doc content_raw quality))))"

definition normalize_rest_evidence :: "norm_env \<Rightarrow> string \<Rightarrow> string \<Rightarrow> pyval \<Rightarrow> pdict list \<Rightarrow> pdict list res" where
  "normalize_rest_evidence env tenant_id query erp_domain docs =
     all_res (normalize_rest_doc env tenant_id query erp_domain) docs"

section \<open>Query results\<close>

text \<open>\<open>"_".join(f"{k}={v}" for k, v in items)\<close>\<close>

definition key_text :: "norm_env \<Rightarrow> pdict \<Rightarrow> string" where
  "key_text env items = join ''_'' (map (\<lambda>(k, v). k @ ''='' @ txt_of env v) items)"

definition PRIMARY_KEYS :: "string list" where
  "PRIMARY_KEYS = [''id'', ''ID'', ''Id'', ''exception_id'', ''uid'', ''uuid'', ''key'']"

definition extract_row_key :: "norm_env \<Rightarrow> pdict \<Rightarrow> string \<Rightarrow> string" where
  "extract_row_key env row first_col =
     (if row = [] then ''unknown''
      else
        (case filter (\<lambda>pk. pk \<in> fst ` set row \<and> dget row pk \<noteq> PStr []) PRIMARY_KEYS of
           pk # _ \<Rightarrow> pk @ ''='' @ txt_of env (dget row pk)
         | [] \<Rightarrow>
             if first_col \<noteq> [] \<and> first_col \<in> fst ` set row
             then first_col @ ''='' @ txt_of env (dget row first_col)
             else key_text env (take 3 row)))"

text \<open>The query of a database result. Tables are a list of strings, or a string, which Python
  iterates by character.\<close>

fun table_names :: "pyval \<Rightarrow> string list res" where
  "table_names (PList xs) = all_res (\<lambda>v. case v of PStr s \<Rightarrow> Inr s | _ \<Rightarrow> Inl TypeError) xs"
| "table_names (PStr s) = Inr (u_chars s)"
| "table_names _ = Inl TypeError"

record db_query =
  dq_sql :: pyval
  dq_tables :: pyval
  dq_table_names :: "string list"
  dq_row_count :: pyval
  dq_source :: pyval
  dq_time_ms :: pyval
  dq_query_id :: pyval
  dq_fingerprint :: pyval
  dq_as_of :: pyval
  dq_step_id :: pyval

definition fingerprint_of :: "norm_env \<Rightarrow> pdict \<Rightarrow> pyval \<Rightarrow> pyval res" where
  "fingerprint_of env db_result sql =
     (if truthy (dget_or db_result ''sql_fingerprint'' (PStr [])) then Inr (dget db_result ''sql_fingerprint'')
      else
        (case sql of
           PStr s \<Rightarrow> Inr (PStr (make_sql_fingerprint (ne_unicode env) (ne_sha256 env) s))
         | _ \<Rightarrow> Inl AttributeError))"

definition db_query_of :: "norm_env \<Rightarrow> pdict \<Rightarrow> nat \<Rightarrow> db_query res" where
  "db_query_of env d n_rows =
     (let sql = py_or (dget_or d ''sql'' (PStr [])) (PStr []);
          tables = py_or (dget_or d ''tables'' (PList [])) (PList [])
      in rbind (fingerprint_of env d sql) (\<lambda>fingerprint.
         rbind (table_names tables) (\<lambda>names.
           Inr \<lparr>dq_sql = sql, dq_tables = tables, dq_table_names = names,
                dq_row_count = dget_or d ''row_count'' (PInt (int n_rows)),
                dq_source = dget_or d ''source'' (PStr []), dq_time_ms = dget_or d ''execution_time_ms'' (PInt 0),
                dq_query_id = dget_or d ''query_id'' (PStr []), dq_fingerprint = fingerprint,
                dq_as_of = dget_or d ''as_of'' (PStr (ne_now env)), dq_step_id = dget_or d ''step_id'' (PStr [])\<rparr>)))"

definition db_uri :: "norm_env \<Rightarrow> db_query \<Rightarrow> string" where
  "db_uri env q =
     ''db://'' @ (if dq_table_names q = [] then ''unknown'' else join ''/'' (dq_table_names q)) @ ''/''
     @ txt_of env (dq_query_id q) @ ''/'' @ txt_of env (dq_fingerprint q)"

text \<open>\<open>tables[0].split(".")[0]\<close>\<close>

definition db_prov :: "db_query \<Rightarrow> pyval list \<Rightarrow> pdict" where
  "db_prov q row_keys =
     (let first = (case dq_table_names q of [] \<Rightarrow> [] | t # _ \<Rightarrow> t)
      in build_db_provenance (py_or (dq_source q) (PStr (takeWhile (\<lambda>c. c \<noteq> CHR ''.'') first))) (PStr first)
           (dq_query_id q) (dq_fingerprint q) row_keys (dq_step_id q))"

definition db_metadata :: "db_query \<Rightarrow> string \<Rightarrow> pyval \<Rightarrow> pdict \<Rightarrow> pdict" where
  "db_metadata q query row_count trunc =
     [(''sql'', dq_sql q), (''tables'', dq_tables q), (''row_count'', row_count), (''query_time_ms'', dq_time_ms q),
      (''source'', dq_source q)] @ trunc @
     [(''natural_query'', PStr query), (''query_id'', dq_query_id q),
      (''sql_fingerprint'', dq_fingerprint q), (''as_of'', dq_as_of q)]"

text \<open>An empty result is evidence too, with an empty content.\<close>

definition zero_rows_evidence :: "norm_env \<Rightarrow> string \<Rightarrow> string \<Rightarrow> db_query \<Rightarrow> pdict" where
  "zero_rows_evidence env tenant_id query q =
     (let source_uri = db_uri env q @ ''?as_of='' @ txt_of env (dq_as_of q) @ ''&zero_rows=true''
      in evidence_dict (3/10)
           \<lparr>ef_evidence_id = make_evidence_id env source_uri ''ZERO_ROWS'', ef_source_type = ''db'',
            ef_title = PStr (uni [0x6570, 0x636E, 0x5E93, 0x67E5, 0x8BE2, 0x7ED3, 0x679C, 0xFF08, 0x30, 0x20, 0x884C, 0xFF09]),
            ef_content = [], ef_structured_data = PDict [(''row_count'', PInt 0)], ef_source_uri = PStr source_uri,
            ef_tenant_id = tenant_id, ef_score = 1, ef_freshness = 1, ef_created_at = PStr (ne_now env),
            ef_metadata = attach_provenance (db_metadata q query (PInt 0) [] @ [(''zero_rows'', PBool True)]) (db_prov q [])\<rparr>)"

definition row_evidence ::
    "norm_env \<Rightarrow> string \<Rightarrow> string \<Rightarrow> db_query \<Rightarrow> rat \<Rightarrow> string \<Rightarrow> string \<Rightarrow> pdict \<Rightarrow> pdict \<Rightarrow> pdict" where
  "row_evidence env tenant_id query q quality title row_key extra row =
     (let source_uri = db_uri env q @ ''/'' @ row_key @ ''?as_of='' @ txt_of env (dq_as_of q);
          content_raw = json_text (ne_float_repr env) (PDict row);
          shown = shown_content env content_raw
      in evidence_dict (clamp01 quality)
           \<lparr>ef_evidence_id = make_evidence_id env source_uri content_raw, ef_source_type = ''db'',
            ef_title = PStr title, ef_content = fst shown, ef_structured_data = PDict row,
            ef_source_uri = PStr source_uri, ef_tenant_id = tenant_id, ef_score = clamp01 quality,
            ef_freshness = 1, ef_created_at = PStr (ne_now env),
            ef_metadata = attach_provenance
              (db_metadata q query (dq_row_count q) [(''truncated'', PBool (snd shown))] @ extra @ [(''row_key'', PStr row_key)])
              (db_prov q [PStr row_key])\<rparr>)"

definition AGGREGATE_KEYWORDS :: "string list" where
  "AGGREGATE_KEYWORDS = [''COUNT('', ''SUM('', ''AVG('', ''MAX('', ''MIN('', ''GROUP BY'']"

definition is_aggregate :: "pyval \<Rightarrow> bool res" where
  "is_aggregate sql =
     (case sql of
        PStr s \<Rightarrow> Inr (list_ex (\<lambda>kw. contains kw (strip (upper s))) AGGREGATE_KEYWORDS)
      | _ \<Rightarrow> Inl AttributeError)"

definition aggregate_evidence ::
    "norm_env \<Rightarrow> string \<Rightarrow> string \<Rightarrow> db_query \<Rightarrow> rat \<Rightarrow> nat \<Rightarrow> pdict \<Rightarrow> pdict" where
  "aggregate_evidence env tenant_id query q quality n row =
     row_evidence env tenant_id query q quality
       (uni [0x6570, 0x636E, 0x5E93, 0x805A, 0x5408, 0x67E5, 0x8BE2, 0x7ED3, 0x679C, 0xFF08] @ nat_digits n @ uni [0x20, 0x884C, 0xFF09])
       (''aggregate_'' @ key_text env row) [(''is_aggregate'', PBool True)] row"

definition plain_row_evidence ::
    "norm_env \<Rightarrow> string \<Rightarrow> string \<Rightarrow> db_query \<Rightarrow> rat \<Rightarrow> string \<Rightarrow> pdict \<Rightarrow> pdict" where
  "plain_row_evidence env tenant_id query q quality first_col row =
     row_evidence env tenant_id query q quality
       (uni [0x6570, 0x636E, 0x5E93, 0x67E5, 0x8BE2, 0x7ED3, 0x679C, 0x884C, 0xFF08] @ first_col @ ''=''
        @ txt_of env (dget_or row first_col (PStr [])) @ uni [0xFF09])
       (extract_row_key env row first_col) [] row"

text \<open>\<open>list(rows[0].keys())[0]\<close> raises for an empty first row.\<close>

definition first_column :: "pdict list \<Rightarrow> string res" where
  "first_column rows = (case rows of ((k, _) # _) # _ \<Rightarrow> Inr k | _ \<Rightarrow> Inl IndexError)"

definition normalize_db_evidence :: "norm_env \<Rightarrow> string \<Rightarrow> string \<Rightarrow> pdict \<Rightarrow> pdict list res" where
  "normalize_db_evidence env tenant_id query db_result =
     (if db_result = [] then Inr []
      else
        rbind (dict_list (py_or (dget_or db_result ''rows'' (PList [])) (PList []))) (\<lambda>rows.
        rbind (db_query_of env db_result (length rows)) (\<lambda>q.
          if rows = [] then Inr [zero_rows_evidence env tenant_id query q]
          else
            rbind (is_aggregate (dq_sql q)) (\<lambda>aggregate.
            rbind (py_float (ne_float_of_str env)
                     (py_or (dget_or db_result ''quality_score'' (PFloat (8/10))) (PFloat (8/10)))) (\<lambda>quality.
              if aggregate \<and> length rows \<le> 5
              then Inr (map (aggregate_evidence env tenant_id query q quality (length rows)) rows)
              else
                rbind (first_column rows) (\<lambda>first_col.
                  Inr (map (plain_row_evidence env tenant_id query q quality first_col) rows)))))))"

section \<open>Graph results\<close>

definition first_truthy :: "pdict \<Rightarrow> string list \<Rightarrow> pyval" where
  "first_truthy d ks = (case filter truthy (map (dget d) ks) of [] \<Rightarrow> PStr [] | v # _ \<Rightarrow> v)"

definition GRAPH_KEYS :: "string list" where
  "GRAPH_KEYS = [''id'', ''ID'', ''Id'', ''name'', ''Name'', ''uuid'', ''uid'']"

definition graph_key :: "norm_env \<Rightarrow> pdict \<Rightarrow> pyval" where
  "graph_key env first =
     (let key = first_truthy first [''key'', ''Key'', ''_key''] in
      if truthy key then key
      else
        (case filter (\<lambda>pk. dget first pk \<noteq> PNone \<and> dget first pk \<noteq> PStr []) GRAPH_KEYS of
           pk # _ \<Rightarrow> PStr (pk @ ''='' @ txt_of env (dget first pk))
         | [] \<Rightarrow> key))"

definition extract_graph_source_uri :: "norm_env \<Rightarrow> pyval list \<Rightarrow> string" where
  "extract_graph_source_uri env rows =
     (case rows of
        PDict first # _ \<Rightarrow>
          (let label = first_truthy first [''label'', ''Label'', ''_label'']; key = graph_key env first in
           if truthy label \<or> truthy key
           then ''graph://neo4j/'' @ txt_of env (py_or label (PStr ''graph'')) @ ''/'' @ txt_of env (py_or key (PStr ''unknown''))
           else ''graph://neo4j/graph'')
      | _ \<Rightarrow> ''graph://neo4j/graph'')"

definition graph_row_text :: "norm_env \<Rightarrow> pyval \<Rightarrow> string" where
  "graph_row_text env row = (case row of PDict d \<Rightarrow> json_text (ne_float_repr env) row | _ \<Rightarrow> txt_of env row)"

text \<open>The rows are a list, or a string; a dictionary has a length but no row 0.\<close>

definition graph_evidence ::
    "norm_env \<Rightarrow> string \<Rightarrow> string \<Rightarrow> pdict \<Rightarrow> pyval \<Rightarrow> pyval list \<Rightarrow> pyval \<Rightarrow> rat \<Rightarrow> string \<Rightarrow> pdict" where
  "graph_evidence env tenant_id query d rows_value rows row_count quality content_raw =
     (let shown = shown_content env content_raw;
          source_uri = extract_graph_source_uri env rows
      in evidence_dict (clamp01 quality)
           \<lparr>ef_evidence_id = make_evidence_id env source_uri content_raw, ef_source_type = ''graph'',
            ef_title = py_or (dget_or d ''title'' (PStr []))
              (PStr (uni [0x56FE, 0x8C31, 0x67E5, 0x8BE2, 0x7ED3, 0x679C, 0xFF08] @ txt_of env row_count @ uni [0x20, 0x884C, 0xFF09])),
            ef_content = fst shown,
            ef_structured_data = PDict [(''rows'', rows_value), (''row_count'', row_count)],
            ef_source_uri = PStr source_uri, ef_tenant_id = tenant_id, ef_score = clamp01 quality, ef_freshness = 1,
            ef_created_at = PStr (ne_now env),
            ef_metadata =
              [(''row_count'', row_count), (''source_type'', dget_or d ''source_type'' (PStr [])),
               (''truncated'', PBool (snd shown)), (''query'', PStr query)]\<rparr>)"

definition graph_from_rows ::
    "norm_env \<Rightarrow> string \<Rightarrow> string \<Rightarrow> pdict \<Rightarrow> pyval \<Rightarrow> pyval list \<Rightarrow> rat \<Rightarrow> pdict list res" where
  "graph_from_rows env tenant_id query d rows_value rows quality =
     (let row_count = dget_or d ''row_count'' (PInt (int (length rows)));
          answer = py_or (dget_or d ''answer'' (PStr [])) (PStr [])
      in if truthy (dget_or d ''error'' (PStr [])) \<or> py_eq row_count (PInt 0) then Inr []
         else
           rbind (if truthy answer then content_text answer
                  else Inr (join [CHR 0x0A] (map (graph_row_text env) rows))) (\<lambda>content_raw.
             if as_dict rows_value \<noteq> None then Inl KeyError
             else Inr [graph_evidence env tenant_id query d rows_value rows row_count quality content_raw]))"

definition normalize_graph_evidence :: "norm_env \<Rightarrow> string \<Rightarrow> string \<Rightarrow> pdict \<Rightarrow> pdict list res" where
  "normalize_graph_evidence env tenant_id query d =
     (if d = [] then Inr []
      else
        (let rows_value = py_or (dget_or d ''rows'' (PList [])) (PList []) in
         rbind (py_iter rows_value) (\<lambda>rows.
         rbind (py_float (ne_float_of_str env) (py_or (dget_or d ''quality_score'' (PFloat (85/100))) (PFloat (85/100))))
           (graph_from_rows env tenant_id query d rows_value rows))))"

section \<open>All tools\<close>

definition docs_of :: "pdict \<Rightarrow> string \<Rightarrow> pdict list res" where
  "docs_of result k = dict_list (py_or (py_or (dget result ''docs'') (dget result k)) (PList []))"

definition normalize_tool_result :: "norm_env \<Rightarrow> string \<Rightarrow> pdict \<Rightarrow> string \<Rightarrow> string \<Rightarrow> pdict list res" where
  "normalize_tool_result env tool_name result tenant_id query =
     (let source_type = dget_or TOOL_SOURCE_TYPE_MAP tool_name [] in
      if source_type = ''rag'' then rbind (docs_of result ''rag_docs'') (normalize_rag_evidence env tenant_id query)
      else if source_type = ''db'' then normalize_db_evidence env tenant_id query result
      else if source_type = ''web'' then rbind (docs_of result ''web_docs'') (normalize_web_evidence env tenant_id query)
      else if source_type = ''report'' then normalize_db_evidence env tenant_id query result
      else if source_type = ''rest'' then
        rbind (docs_of result ''rest_docs'') (normalize_rest_evidence env tenant_id query (dget_or result ''erp_domain'' (PStr [])))
      else if source_type = ''graph'' then normalize_graph_evidence env tenant_id query result
      else Inr [])"

text \<open>The results of a state, in the order documents, database, web, graph; empty results are skipped.\<close>

definition normalize_current_tool_results :: "norm_env \<Rightarrow> graph_state \<Rightarrow> pdict list res" where
  "normalize_current_tool_results env s =
     (let norm = (\<lambda>tool present result.
            if present then normalize_tool_result env tool result (g_tenant_id s) (g_user_question s) else Inr []) in
      rbind (norm ''rag_search'' (g_rag_docs s \<noteq> []) [(''docs'', PList (map PDict (g_rag_docs s)))]) (\<lambda>rag.
      rbind (norm ''db_query'' (g_db_result s \<noteq> []) (g_db_result s)) (\<lambda>db.
      rbind (norm ''web_search'' (g_web_docs s \<noteq> []) [(''docs'', PList (map PDict (g_web_docs s)))]) (\<lambda>web.
      rbind (norm ''graph'' (g_graph_result s \<noteq> []) (g_graph_result s)) (\<lambda>graph.
        Inr (rag @ db @ web @ graph))))))"

section \<open>Properties\<close>

text \<open>The identifier of an evidence is the digest of its own origin and of the text whose cut and redacted form it
  shows; for an empty query result it is that of its origin and the constant \<open>ZERO_ROWS\<close>. The origin is
  the source, of a web page its address.\<close>

definition digested_origin :: "norm_env \<Rightarrow> string \<Rightarrow> pdict \<Rightarrow> string" where
  "digested_origin env source_type ev =
     (if source_type = ''web''
      then (case dget ev ''metadata'' of PDict m \<Rightarrow> txt_of env (dget m ''url'') | _ \<Rightarrow> [])
      else txt_of env (dget ev ''source_uri''))"

definition identified :: "norm_env \<Rightarrow> string \<Rightarrow> pdict \<Rightarrow> bool" where
  "identified env source_type ev \<longleftrightarrow>
     (\<exists>raw. dget ev ''content'' = PStr (fst (shown_content env raw))
        \<and> dget ev ''evidence_id'' = PStr (make_evidence_id env (digested_origin env source_type ev) raw))
     \<or> (source_type = ''db'' \<and> dget ev ''content'' = PStr []
        \<and> dget ev ''structured_data'' = PDict [(''row_count'', PInt 0)]
        \<and> dget ev ''evidence_id'' = PStr (make_evidence_id env (digested_origin env source_type ev) ''ZERO_ROWS''))"

text \<open>The contract of a normalised evidence.\<close>

definition wf_evidence :: "norm_env \<Rightarrow> string \<Rightarrow> string \<Rightarrow> pdict \<Rightarrow> bool" where
  "wf_evidence env tenant_id source_type ev \<longleftrightarrow>
     dget ev ''source_type'' = PStr source_type \<and> dget ev ''tenant_id'' = PStr tenant_id
     \<and> dget ev ''authority_score'' = PFloat (dget_or DEFAULT_AUTHORITY_SCORE source_type 0)
     \<and> identified env source_type ev
     \<and> (\<exists>r. dget ev ''relevance_score'' = PFloat r \<and> 0 \<le> r \<and> r \<le> 1)
     \<and> (\<exists>r. dget ev ''confidence'' = PFloat r \<and> 0 \<le> r \<and> r \<le> 1)
     \<and> (\<exists>c. dget ev ''content'' = PStr (fst (shown_content env c)))
     \<and> (\<exists>m. dget ev ''metadata'' = PDict m \<and> dget m ''tool_run_id'' = PNone \<and> dget m ''run_id'' = PNone)"

lemma clamp01_bounds: "0 \<le> clamp01 x \<and> clamp01 x \<le> 1"
  by (simp add: clamp01_def)

lemma dget_evidence_dict:
  "dget (evidence_dict r e) ''evidence_id'' = PStr (ef_evidence_id e)" "dget (evidence_dict r e) ''content'' = PStr (ef_content e)"
  "dget (evidence_dict r e) ''metadata'' = PDict (ef_metadata e)" "dget (evidence_dict r e) ''source_uri'' = ef_source_uri e"
  "dget (evidence_dict r e) ''structured_data'' = ef_structured_data e"
  by (simp_all add: evidence_dict_def)

lemma identifiedI:
  assumes "ef_evidence_id e = make_evidence_id env uri c" "ef_content e = fst (shown_content env c)"
    "digested_origin env st (evidence_dict r e) = uri"
  shows "identified env st (evidence_dict r e)"
  using assms by (auto simp: identified_def dget_evidence_dict)

lemma evidence_dict_wf:
  assumes "ef_source_type e = st" "ef_tenant_id e = tenant" "identified env st (evidence_dict r e)"
    "\<exists>c. ef_content e = fst (shown_content env c)" "0 \<le> ef_score e \<and> ef_score e \<le> 1" "0 \<le> r \<and> r \<le> 1"
    "dget (ef_metadata e) ''tool_run_id'' = PNone" "dget (ef_metadata e) ''run_id'' = PNone"
  shows "wf_evidence env tenant st (evidence_dict r e)"
  using assms by (auto simp: wf_evidence_def evidence_dict_def)

lemma dget_or_append: "dget_or (d @ e) k v = (if k \<in> fst ` set d then dget_or d k v else dget_or e k v)"
proof (cases "map_of d k")
  case None
  then have "k \<notin> fst ` set d" by (simp add: map_of_eq_None_iff)
  with None show ?thesis by (simp add: dget_or_def map_add_def)
next
  case (Some w)
  then have "k \<in> fst ` set d" by (metis map_of_eq_None_iff option.distinct(1))
  with Some show ?thesis by (simp add: dget_or_def map_add_def)
qed

lemma attach_provenance_get [simp]: "k \<noteq> ''provenance'' \<Longrightarrow> dget (attach_provenance m p) k = dget m k"
  by (simp add: attach_provenance_def)

lemma shown_empty: "\<exists>c. [] = fst (shown_content env c)"
  by (rule exI [of _ "[]"]) (simp add: shown_content_def truncate_content_def)

lemma fields_identified:
  "identified env ''rag'' (evidence_dict r (rag_fields env tenant query doc c x))"
  "identified env ''web'' (evidence_dict r (web_fields env tenant query doc c x))"
  "identified env ''rest'' (evidence_dict r (rest_fields env tenant query erp doc c x))"
  by (rule identifiedI [OF _ _ refl]; simp add: digested_origin_def dget_evidence_dict rag_fields_def web_fields_def rest_fields_def Let_def)+

lemma fields_wf:
  "wf_evidence env tenant ''rag'' (evidence_dict (clamp01 x) (rag_fields env tenant query doc c x))"
  "wf_evidence env tenant ''web'' (evidence_dict (clamp01 x) (web_fields env tenant query doc c x))"
  "wf_evidence env tenant ''rest'' (evidence_dict (clamp01 x) (rest_fields env tenant query erp doc c x))"
  by (rule evidence_dict_wf [OF _ _ fields_identified(1)], auto simp: rag_fields_def Let_def clamp01_bounds,
      rule evidence_dict_wf [OF _ _ fields_identified(2)], auto simp: web_fields_def Let_def clamp01_bounds,
      rule evidence_dict_wf [OF _ _ fields_identified(3)], auto simp: rest_fields_def Let_def clamp01_bounds)

lemma rag_doc_wf: "normalize_rag_doc env tenant query doc = Inr ev \<Longrightarrow> wf_evidence env tenant ''rag'' ev"
  using fields_wf(1) by (auto simp: normalize_rag_doc_def rbind_eq_Inr_iff)

lemma web_doc_wf: "normalize_web_doc env tenant query doc = Inr ev \<Longrightarrow> wf_evidence env tenant ''web'' ev"
  using fields_wf(2) by (auto simp: normalize_web_doc_def rbind_eq_Inr_iff)

lemma rest_doc_wf: "normalize_rest_doc env tenant query erp doc = Inr ev \<Longrightarrow> wf_evidence env tenant ''rest'' ev"
  using fields_wf(3) by (auto simp: normalize_rest_doc_def rbind_eq_Inr_iff)

lemma zero_rows_wf: "wf_evidence env tenant ''db'' (zero_rows_evidence env tenant query q)"
  unfolding zero_rows_evidence_def Let_def
  by (rule evidence_dict_wf)
    (use shown_empty in \<open>auto simp: db_metadata_def identified_def digested_origin_def dget_evidence_dict\<close>)

lemma row_wf:
  "dget extra ''tool_run_id'' = PNone \<Longrightarrow> dget extra ''run_id'' = PNone \<Longrightarrow>
   wf_evidence env tenant ''db'' (row_evidence env tenant query q quality title row_key extra row)"
  unfolding row_evidence_def Let_def
  by (rule evidence_dict_wf [OF _ _ identifiedI [OF _ _ refl]])
    (auto simp: clamp01_bounds db_metadata_def dget_or_append digested_origin_def dget_evidence_dict)

lemma graph_wf: "wf_evidence env tenant ''graph'' (graph_evidence env tenant query d rv rows n quality c)"
  unfolding graph_evidence_def Let_def
  by (rule evidence_dict_wf [OF _ _ identifiedI [OF _ _ refl]])
    (auto simp: clamp01_bounds digested_origin_def dget_evidence_dict)

lemma all_res_set:
  assumes "all_res f xs = Inr ys" and "y \<in> set ys"
  shows "\<exists>x \<in> set xs. f x = Inr y"
  using assms by (induction xs arbitrary: ys) (auto simp: rbind_eq_Inr_iff)

lemma db_evidence_wf:
  assumes "normalize_db_evidence env tenant query d = Inr evs" and "ev \<in> set evs"
  shows "wf_evidence env tenant ''db'' ev"
proof -
  have "wf_evidence env tenant ''db'' (aggregate_evidence env tenant query q quality n row)"
    "wf_evidence env tenant ''db'' (plain_row_evidence env tenant query q quality c row)" for q quality n c row
    unfolding aggregate_evidence_def plain_row_evidence_def by (simp_all add: row_wf)
  with assms zero_rows_wf show ?thesis
    by (auto simp: normalize_db_evidence_def rbind_eq_Inr_iff split: if_splits)
qed

lemma graph_from_rows_cases:
  "graph_from_rows env tenant query d rv rows quality = Inr evs \<Longrightarrow>
   evs = [] \<or> (\<exists>n c. evs = [graph_evidence env tenant query d rv rows n quality c])"
  by (auto simp: graph_from_rows_def Let_def rbind_eq_Inr_iff split: if_splits)

lemma graph_evidence_wf:
  assumes "normalize_graph_evidence env tenant query d = Inr evs" and "ev \<in> set evs"
  shows "wf_evidence env tenant ''graph'' ev"
  using assms graph_wf graph_from_rows_cases
  by (fastforce simp: normalize_graph_evidence_def Let_def rbind_eq_Inr_iff split: if_splits)

definition evidence_type :: "string \<Rightarrow> string" where
  "evidence_type tool = (let st = dget_or TOOL_SOURCE_TYPE_MAP tool [] in if st = ''report'' then ''db'' else st)"

lemma normalize_tool_result_wf:
  assumes "normalize_tool_result env tool result tenant query = Inr evs" and "ev \<in> set evs"
  shows "wf_evidence env tenant (evidence_type tool) ev"
proof -
  define st where "st = dget_or TOOL_SOURCE_TYPE_MAP tool []"
  have docs: "\<exists>d. f d = Inr ev" if "rbind (docs_of result k) (\<lambda>ds. all_res f ds) = Inr evs" for f k
    using that assms(2) all_res_set [of f _ evs ev] by (auto simp: rbind_eq_Inr_iff)
  note unf = assms(1) [unfolded normalize_tool_result_def Let_def, folded st_def]
  have known: "st \<in> {''rag'', ''db'', ''web'', ''report'', ''rest'', ''graph''}"
  proof (rule ccontr)
    assume "st \<notin> {''rag'', ''db'', ''web'', ''report'', ''rest'', ''graph''}"
    with unf have "evs = []" by simp
    with assms(2) show False by simp
  qed
  have type: "evidence_type tool = (if st = ''report'' then ''db'' else st)" by (simp add: evidence_type_def st_def Let_def)
  from known consider "st = ''rag''" | "st = ''db'' \<or> st = ''report''" | "st = ''web''" | "st = ''rest''" | "st = ''graph''"
    by blast
  then show ?thesis
  proof cases
    case 1
    with unf docs [of "''rag_docs''" "normalize_rag_doc env tenant query"] rag_doc_wf show ?thesis
      by (auto simp: type normalize_rag_evidence_def [abs_def])
  next
    case 2
    with unf db_evidence_wf [OF _ assms(2)] show ?thesis by (auto simp: type)
  next
    case 3
    with unf docs [of "''web_docs''" "normalize_web_doc env tenant query"] web_doc_wf show ?thesis
      by (auto simp: type normalize_web_evidence_def [abs_def])
  next
    case 4
    with unf docs [of "''rest_docs''" "normalize_rest_doc env tenant query (dget_or result ''erp_domain'' (PStr []))"] rest_doc_wf
    show ?thesis by (auto simp: type normalize_rest_evidence_def [abs_def])
  next
    case 5
    with unf graph_evidence_wf [OF _ assms(2)] show ?thesis by (simp add: type)
  qed
qed

text \<open>C26: normalised evidence is well-formed and stays with its tenant. Whatever a tool returned, every
  evidence made from it carries the source type of the tool (results of a report as those of a
  database), the tenant of the request, the authority of its source, scores between 0 and 1, and a content
  cut to 2000 characters and redacted. Its identifier is the digest of its own origin and of the very text
  that its content shows; an empty query result has no such text and is identified by its origin and the
  constant \<open>ZERO_ROWS\<close>. Its metadata never has the identifier of a tool run.\<close>

theorem normalized_evidence_wf:
  assumes "normalize_tool_result env tool result tenant query = Inr evs" and "ev \<in> set evs"
  shows "wf_evidence env tenant (evidence_type tool) ev"
  using assms by (rule normalize_tool_result_wf)

definition demo_norm :: norm_env where
  "demo_norm =
     \<lparr>ne_sha256 = id, ne_now = ''now'', ne_show = (\<lambda>_. []), ne_float_repr = (\<lambda>_. []),
      ne_float_of_str = (\<lambda>_. Inl ValueError), ne_unicode = ascii_only\<rparr>"

theorem normalized_evidence_wf_witness:
  "\<exists>ev. normalize_tool_result demo_norm ''rag_search''
          [(''docs'', PList [PDict [(''content'', PStr ''Paris''), (''score'', PInt 7)]])] ''t1'' ''q'' = Inr [ev]
     \<and> wf_evidence demo_norm ''t1'' ''rag'' ev"
proof -
  obtain ev where ev: "normalize_tool_result demo_norm ''rag_search''
      [(''docs'', PList [PDict [(''content'', PStr ''Paris''), (''score'', PInt 7)]])] ''t1'' ''q'' = Inr [ev]"
    by (simp add: normalize_tool_result_def TOOL_SOURCE_TYPE_MAP_def docs_of_def normalize_rag_evidence_def
        normalize_rag_doc_def content_text_def)
  moreover have "evidence_type ''rag_search'' = ''rag''" by (simp add: evidence_type_def TOOL_SOURCE_TYPE_MAP_def)
  ultimately show ?thesis using normalized_evidence_wf [OF ev] by simp
qed

lemma wf_source_key:
  assumes "wf_evidence env tenant st ev"
  shows "source_key ev = Inr (PStr st, PStr [])"
  using assms by (auto simp: wf_evidence_def source_key_def extract_tool_run_id_def dget_or_def py_or_def split: option.splits)

text \<open>A new attempt replaces whole sources. Normalised evidence has no tool run in its metadata, so
  when new evidence is merged into old, every old evidence of a source type that occurs in the new one is
  dropped, also that of other tool runs, and the old evidence of all other source types is kept.\<close>

theorem replacement_is_by_source_type:
  assumes "\<And>ev. ev \<in> set old \<union> set new \<Longrightarrow> \<exists>tenant st. st \<noteq> [] \<and> wf_evidence env tenant st ev"
    and "old \<noteq> []" and "new \<noteq> []"
  shows "merge_with_replacement old new
    = Inr (filter (\<lambda>o1. \<forall>n1 \<in> set new. dget o1 ''source_type'' \<noteq> dget n1 ''source_type'') old @ new)"
proof -
  have key: "\<exists>st. st \<noteq> [] \<and> source_key ev = Inr (PStr st, PStr []) \<and> dget ev ''source_type'' = PStr st"
    if "ev \<in> set old \<union> set new" for ev
    using assms(1) [OF that] wf_source_key by (auto simp: wf_evidence_def) metis
  have new_keys: "all_res new_key xs = Inr (map (\<lambda>ev. [(dget ev ''source_type'', PStr [])]) xs)" if "set xs \<subseteq> set new" for xs
    using that by (induction xs) (use key in \<open>fastforce simp: new_key_def hashable_key_def\<close>)+
  have in_key: "key_in (PStr st, PStr []) (concat (map (\<lambda>ev. [(dget ev ''source_type'', PStr [])]) new))
      \<longleftrightarrow> (\<exists>n1 \<in> set new. dget n1 ''source_type'' = PStr st)" for st
    by (auto simp: key_in_def list_ex_iff)
  have kept: "all_res (kept_old (concat (map (\<lambda>ev. [(dget ev ''source_type'', PStr [])]) new))) xs
      = Inr (map (\<lambda>o1. if \<exists>n1 \<in> set new. dget n1 ''source_type'' = dget o1 ''source_type'' then [] else [o1]) xs)"
    if "set xs \<subseteq> set old" for xs
    using that
  proof (induction xs)
    case (Cons x xs)
    with key [of x] obtain st where "source_key x = Inr (PStr st, PStr [])" "dget x ''source_type'' = PStr st" by auto
    with Cons in_key [of st] show ?case by (simp add: kept_old_def hashable_key_def)
  qed simp
  have "concat (map (\<lambda>o1. if \<exists>n1 \<in> set new. dget n1 ''source_type'' = dget o1 ''source_type'' then [] else [o1]) old)
      = filter (\<lambda>o1. \<forall>n1 \<in> set new. dget o1 ''source_type'' \<noteq> dget n1 ''source_type'') old"
    by (induction old) (auto simp: eq_commute)
  with assms(2,3) new_keys [OF subset_refl] kept [OF subset_refl] show ?thesis
    by (simp add: merge_with_replacement_def)
qed

definition demo_rag_ev :: "string \<Rightarrow> pdict" where
  "demo_rag_ev c = evidence_dict (clamp01 1) (rag_fields demo_norm ''t'' ''q'' [] c 1)"

definition demo_web_ev :: "string \<Rightarrow> pdict" where
  "demo_web_ev c = evidence_dict (clamp01 1) (web_fields demo_norm ''t'' ''q'' [] c 1)"

theorem replacement_is_by_source_type_witness:
  "merge_with_replacement [demo_rag_ev ''a'', demo_web_ev ''b''] [demo_rag_ev ''c''] = Inr [demo_web_ev ''b'', demo_rag_ev ''c'']"
proof -
  have wf: "wf_evidence demo_norm ''t'' ''rag'' (demo_rag_ev c)" "wf_evidence demo_norm ''t'' ''web'' (demo_web_ev c)" for c
    unfolding demo_rag_ev_def demo_web_ev_def by (rule fields_wf)+
  then have "dget (demo_rag_ev c) ''source_type'' = PStr ''rag''" "dget (demo_web_ev c) ''source_type'' = PStr ''web''" for c
    by (simp_all add: wf_evidence_def)
  moreover have "\<exists>tenant st. st \<noteq> [] \<and> wf_evidence demo_norm tenant st ev"
    if "ev \<in> set [demo_rag_ev ''a'', demo_web_ev ''b''] \<union> set [demo_rag_ev ''c'']" for ev
    using that wf by auto
  ultimately show ?thesis
    using replacement_is_by_source_type [of "[demo_rag_ev ''a'', demo_web_ev ''b'']" "[demo_rag_ev ''c'']" demo_norm] by simp
qed

end
