(* ===== verification/Fusion_Node.thy ===== *)
theory Fusion_Node
  imports Token_Budget Evidence_Models
begin

text \<open>
  The fusion node of the main graph (\<open>agent/langgraph/nodes/evidence_fusion.py\<close>): it counts the tokens of
  the tool results, compresses the documents and tables of the tools that exceed their exemption,
  normalises the results to evidence, replaces the evidence of earlier attempts, applies the quota of
  each source and fuses the rest. The environment \<open>fusion_env\<close> has the environment of the normalisation,
  the tokenizer and the language model that compresses documents, if there is one.

  The compression changes the documents of the state in place, so the node leaves them compressed in
  the state; the texts that became empty are left out of the normalisation only.
\<close>

section \<open>Compression of the database results\<close>

text \<open>\<open>len(v or [])\<close>\<close>

definition len_of :: "pyval \<Rightarrow> nat res" where
  "len_of v = rbind (py_iter (py_or v (PList []))) (\<lambda>xs. Inr (length xs))"

text \<open>The rows and columns of a result, of their declared types.\<close>

definition db_table :: "pdict \<Rightarrow> (pdict list \<times> string list) res" where
  "db_table db =
     rbind (dict_list (py_or (dget_or db ''rows'' (PList [])) (PList []))) (\<lambda>rows.
     rbind (py_iter (py_or (dget_or db ''columns'' (PList [])) (PList []))) (\<lambda>cs.
     rbind (all_res str_of_val cs) (\<lambda>columns. Inr (rows, columns))))"

definition split_db_to_tables :: "graph_state \<Rightarrow> pdict \<Rightarrow> pdict list res" where
  "split_db_to_tables s db_result =
     rbind (all_res (\<lambda>tr. case py_or (py_or (dget tr ''result'') (dget tr ''db_result'')) (PDict []) of
                            PDict d \<Rightarrow> Inr d | _ \<Rightarrow> Inl AttributeError)
              (filter (\<lambda>tr. dget_or tr ''tool'' (PStr []) \<in> {PStr ''database'', PStr ''db'', PStr ''db_query''}) (g_tool_results s)))
       (\<lambda>dbs.
          let db_results = filter (\<lambda>d. truthy (dget d ''rows'')) dbs in
          Inr (if db_results \<noteq> [] then db_results
               else if truthy (dget db_result ''rows'') then [db_result] else []))"

definition with_table :: "pdict \<Rightarrow> pdict list \<Rightarrow> pyval \<Rightarrow> bool \<Rightarrow> nat \<Rightarrow> pdict" where
  "with_table db_result rows columns compressed original_row_count =
     dset (dset (dset (dset db_result ''rows'' (PList (map PDict rows))) ''columns'' columns)
       ''_compressed'' (PBool compressed)) ''_original_row_count'' (PInt (int original_row_count))"

definition compress_db_for_fusion ::
    "tokenizer \<Rightarrow> (pyval \<Rightarrow> string) \<Rightarrow> graph_state \<Rightarrow> pdict \<Rightarrow> string \<Rightarrow> nat \<Rightarrow> pdict res" where
  "compress_db_for_fusion enc show_py s db_result level db_quota =
     rbind (split_db_to_tables s db_result) (\<lambda>tables.
       if tables = [] then Inr db_result
       else
         rbind (len_of (dget_or db_result ''rows'' (PList []))) (\<lambda>n.
         rbind (all_res db_table tables) (\<lambda>ts.
           let quotas = allocate_db_quota (map (\<lambda>t. length (fst t)) ts) db_quota;
               compressed = map (\<lambda>((rows, columns), quota). compress_db_result enc show_py rows columns quota level) (zip ts quotas)
           in case compressed of
                [c] \<Rightarrow> Inr (with_table db_result (dr_rows c) (PList (map PStr (dr_columns c))) (dr_truncated c) n)
              | _ \<Rightarrow>
                  Inr (with_table db_result (concat (map dr_rows compressed))
                         (case rev (filter (\<lambda>cs. cs \<noteq> []) (map dr_columns compressed)) of
                            [] \<Rightarrow> dget_or db_result ''columns'' (PList [])
                          | cs # _ \<Rightarrow> PList (map PStr cs))
                         (list_ex dr_truncated compressed) n))))"

section \<open>The node\<close>

record fusion_env =
  fe_norm :: norm_env
  fe_tokens :: tokenizer
  fe_compression_llm :: "graph_state \<Rightarrow> (string \<Rightarrow> string \<Rightarrow> string \<Rightarrow> string res) option"

text \<open>The documents after compression, and the working copy of the state.\<close>

definition compressed_docs :: "fusion_env \<Rightarrow> string \<Rightarrow> string list \<Rightarrow> graph_state \<Rightarrow> pdict list option" where
  "compressed_docs env level overflown s =
     (if level \<in> set COMPRESSING_LEVELS \<and> ''rag'' \<in> set overflown \<and> g_rag_docs s \<noteq> [] then
        map_option (\<lambda>llm. compress_rag_chunks (fe_tokens env) llm (g_user_question s) level (g_rag_docs s))
          (fe_compression_llm env s)
      else None)"

definition working_state ::
    "fusion_env \<Rightarrow> string \<Rightarrow> string list \<Rightarrow> token_counts \<Rightarrow> graph_state \<Rightarrow> graph_state res" where
  "working_state env level overflown counts s =
     (let docs = (case compressed_docs env level overflown s of
                    None \<Rightarrow> g_rag_docs s
                  | Some ds \<Rightarrow> filter (\<lambda>d. truthy (dget d ''content'')) ds) in
      rbind (if level \<in> set COMPRESSING_LEVELS \<and> ''db'' \<in> set overflown \<and> truthy (dget (g_db_result s) ''rows'')
             then compress_db_for_fusion (fe_tokens env) (ne_show (fe_norm env)) s (g_db_result s) level (dget_or counts ''db'' 0)
             else Inr (g_db_result s)) (\<lambda>db.
        Inr (s\<lparr>g_rag_docs := docs, g_db_result := db\<rparr>)))"

text \<open>The steps from the working copy to the fused evidence.\<close>

definition fused_evidence :: "fusion_env \<Rightarrow> pdict list \<Rightarrow> pdict list \<Rightarrow> int \<Rightarrow> pdict list res" where
  "fused_evidence env old_evidences new_evidences token_budget =
     rbind (if new_evidences \<noteq> [] \<and> old_evidences \<noteq> [] then merge_with_replacement old_evidences new_evidences
            else if new_evidences \<noteq> [] then Inr new_evidences else Inr old_evidences) (\<lambda>merged.
     rbind (apply_source_quota (ne_float_of_str (fe_norm env)) merged DEFAULT_SOURCE_QUOTA) (\<lambda>quota_applied.
     rbind (fuse_evidences (ne_float_of_str (fe_norm env)) quota_applied DEFAULT_MAX_EVIDENCE_COUNT token_budget) (\<lambda>fusion.
       Inr (fr_fused fusion))))"

definition evidence_fusion_node :: "fusion_env \<Rightarrow> graph_state \<Rightarrow> graph_state res" where
  "evidence_fusion_node env s =
     rbind (count_tool_tokens (fe_tokens env) (ne_show (fe_norm env)) s) (\<lambda>counts.
     rbind (calculate_overflow_ratio (scheduler_budget (g_total_token_budget s)) counts
              (g_locked_system_tokens s + g_locked_history_tokens s)) (\<lambda>overflow_ratio.
     let level = determine_level overflow_ratio;
         overflown = fst (identify_overflown_tools counts)
     in rbind (working_state env level overflown counts s) (\<lambda>work.
        rbind (normalize_current_tool_results (fe_norm env) work) (\<lambda>new_evidences.
        rbind (fused_evidence env (g_evidence s) new_evidences (int (total_tokens counts))) (\<lambda>fused.
        rbind (snapshot_build (ne_sha256 (fe_norm env)) fused [] 1) (\<lambda>_.
          Inr (s\<lparr>g_evidence := fused, g_tool_token_counts := counts,
                 g_rag_docs := (case compressed_docs env level overflown s of None \<Rightarrow> g_rag_docs s | Some ds \<Rightarrow> ds)\<rparr>)))))))"

section \<open>What the node writes\<close>

lemma fusion_cases:
  assumes "evidence_fusion_node f s = Inr t"
  obtains evs counts docs where "t = s\<lparr>g_evidence := evs, g_tool_token_counts := counts, g_rag_docs := docs\<rparr>"
  using assms by (auto simp: evidence_fusion_node_def rbind_eq_Inr_iff Let_def)

lemma merge_subset:
  assumes "merge_with_replacement old new = Inr merged"
  shows "set merged \<subseteq> set old \<union> set new"
proof (cases "old = [] \<or> new = []")
  case True
  with assms show ?thesis by (cases "new = []") (simp_all add: merge_with_replacement_def)
next
  case False
  with assms obtain ks kept where "all_res (kept_old ks) old = Inr kept" and m: "merged = concat kept @ new"
    by (auto simp: merge_with_replacement_def rbind_eq_Inr_iff)
  then have "set evs \<subseteq> set old" if "evs \<in> set kept" for evs
    using all_res_set [OF _ that] by (fastforce simp: kept_old_def rbind_eq_Inr_iff split: if_splits)
  with m show ?thesis by auto
qed

lemma group_add_subset: "(st, grp) \<in> set (group_add ev gs) \<Longrightarrow> set grp \<subseteq> insert ev (\<Union>g \<in> set gs. set (snd g))"
  by (induction ev gs rule: group_add.induct) (auto split: if_splits)

lemma group_by_source_subset:
  assumes "group_by_source gs evs = Inr gs'" and "(st, grp) \<in> set gs'"
  shows "set grp \<subseteq> (\<Union>g \<in> set gs. set (snd g)) \<union> set evs"
  using assms
  by (induction gs evs rule: group_by_source.induct) (fastforce split: if_splits dest: group_add_subset)+

lemma quota_subset:
  assumes "apply_source_quota f evs quota = Inr kept"
  shows "set kept \<subseteq> set evs"
proof -
  from assms obtain groups ks where g: "group_by_source [] evs = Inr groups" and kept: "kept = concat ks"
    and ks: "all_res (\<lambda>(st, grp). rbind (sort_by_weight f grp) (\<lambda>ranked. Inr (take (dget_or quota st 5) ranked))) groups = Inr ks"
    by (auto simp: apply_source_quota_def rbind_eq_Inr_iff)
  have "set grp \<subseteq> set evs" if "(st, grp) \<in> set groups" for st grp
    using group_by_source_subset [OF g that] by simp
  then have "set k \<subseteq> set evs" if "k \<in> set ks" for k
    using all_res_set [OF ks that] by (fastforce simp: rbind_eq_Inr_iff dest: sort_by_weight_set in_set_takeD)
  with kept show ?thesis by auto
qed

lemma fused_subset:
  assumes "fused_evidence env old new b = Inr fused"
  shows "set fused \<subseteq> set old \<union> set new \<and> length fused \<le> DEFAULT_MAX_EVIDENCE_COUNT"
proof -
  from assms obtain merged quota_applied r where m: "set merged \<subseteq> set old \<union> set new"
    and q: "apply_source_quota (ne_float_of_str (fe_norm env)) merged DEFAULT_SOURCE_QUOTA = Inr quota_applied"
    and r: "fuse_evidences (ne_float_of_str (fe_norm env)) quota_applied DEFAULT_MAX_EVIDENCE_COUNT b = Inr r"
    and fused: "fused = fr_fused r"
    by (auto simp: fused_evidence_def rbind_eq_Inr_iff split: if_splits dest: merge_subset)
  from r obtain d where "dedupe_by_id [] quota_applied = Inr d"
    and "fr_fused r = take DEFAULT_MAX_EVIDENCE_COUNT (sort_key (\<lambda>ev. - weight (ne_float_of_str (fe_norm env)) ev) d)"
    by (rule fuse_evidences_Inr)
  with dedupe_by_id_subset quota_subset [OF q] m fused show ?thesis by (fastforce dest: in_set_takeD)
qed

lemma current_results_wf:
  assumes "normalize_current_tool_results env s = Inr evs" and "ev \<in> set evs"
  shows "\<exists>st \<in> {''rag'', ''db'', ''web'', ''graph''}. wf_evidence env (g_tenant_id s) st ev"
proof -
  from assms obtain tool result evs' where "tool \<in> {''rag_search'', ''db_query'', ''web_search'', ''graph''}"
    "normalize_tool_result env tool result (g_tenant_id s) (g_user_question s) = Inr evs'" "ev \<in> set evs'"
    by (fastforce simp: normalize_current_tool_results_def Let_def rbind_eq_Inr_iff split: if_splits)
  then show ?thesis
    using normalize_tool_result_wf [of env tool result] by (fastforce simp: evidence_type_def TOOL_SOURCE_TYPE_MAP_def)
qed

lemma working_state_tenant: "working_state env level overflown counts s = Inr w \<Longrightarrow> g_tenant_id w = g_tenant_id s"
  by (auto simp: working_state_def Let_def rbind_eq_Inr_iff)

lemma fusion_node_out:
  assumes "evidence_fusion_node env s = Inr t"
  shows "length (g_evidence t) \<le> 20
    \<and> (\<forall>ev \<in> set (g_evidence t). ev \<in> set (g_evidence s)
         \<or> (\<exists>st \<in> {''rag'', ''db'', ''web'', ''graph''}. wf_evidence (fe_norm env) (g_tenant_id s) st ev))
    \<and> length (g_rag_docs t) = length (g_rag_docs s)
    \<and> (\<forall>p \<in> set (g_tool_token_counts t). snd p > 0)"
proof -
  from assms obtain counts level overflown w new b where
    c: "count_tool_tokens (fe_tokens env) (ne_show (fe_norm env)) s = Inr counts"
    and w: "working_state env level overflown counts s = Inr w"
    and new: "normalize_current_tool_results (fe_norm env) w = Inr new"
    and fused: "fused_evidence env (g_evidence s) new b = Inr (g_evidence t)"
    and t: "g_tool_token_counts t = counts"
      "g_rag_docs t = (case compressed_docs env level overflown s of None \<Rightarrow> g_rag_docs s | Some ds \<Rightarrow> ds)"
    by (auto simp: evidence_fusion_node_def rbind_eq_Inr_iff Let_def)
  have "length (g_rag_docs t) = length (g_rag_docs s)"
    unfolding t(2) by (auto simp: compressed_docs_def compress_rag_chunks_def split: option.splits if_splits)
  moreover obtain xs where "counts = filter (\<lambda>p. snd p > 0) xs"
    using c by (auto simp: count_tool_tokens_def rbind_eq_Inr_iff simp del: filter.simps)
  ultimately show ?thesis
    using fused_subset [OF fused] current_results_wf [OF new] working_state_tenant [OF w]
    by (auto simp: DEFAULT_MAX_EVIDENCE_COUNT_def t(1))
qed

text \<open>The fusion node hands on at most twenty pieces of evidence, each of which was in the state
  before or is well-formed evidence of the tenant of the run, made of a result of a tool in the state;
  it loses no document of the state, and the token counts it stores have an entry only for a source
  with tokens.\<close>

theorem fusion_node_evidence:
  assumes "evidence_fusion_node env s = Inr t"
  shows "length (g_evidence t) \<le> 20
    \<and> (\<forall>ev \<in> set (g_evidence t). ev \<in> set (g_evidence s)
         \<or> (\<exists>st \<in> {''rag'', ''db'', ''web'', ''graph''}. wf_evidence (fe_norm env) (g_tenant_id s) st ev))
    \<and> length (g_rag_docs t) = length (g_rag_docs s)
    \<and> (\<forall>p \<in> set (g_tool_token_counts t). snd p > 0)"
  using assms by (rule fusion_node_out)

definition demo_fusion_env :: fusion_env where
  "demo_fusion_env = \<lparr>fe_norm = demo_norm, fe_tokens = (\<lambda>s. Inr (length s)), fe_compression_llm = (\<lambda>_. None)\<rparr>"

definition demo_fusion_state :: graph_state where
  "demo_fusion_state =
     empty_state\<lparr>g_tenant_id := ''t1'', g_user_question := ''q'',
       g_rag_docs := [[(''content'', PStr ''Paris''), (''score'', PFloat (7/10))]]\<rparr>"

lemma demo_fusion_run:
  "case evidence_fusion_node demo_fusion_env demo_fusion_state of
     Inl _ \<Rightarrow> False
   | Inr t \<Rightarrow> map (\<lambda>ev. dget ev ''content'') (g_evidence t) = [PStr ''Paris'']
       \<and> g_tool_token_counts t = [(''rag'', 5)]"
  by code_simp

theorem fusion_node_evidence_witness:
  "\<exists>t ev. evidence_fusion_node demo_fusion_env demo_fusion_state = Inr t \<and> g_evidence t = [ev]
     \<and> dget ev ''content'' = PStr ''Paris'' \<and> (\<exists>st \<in> {''rag'', ''db'', ''web'', ''graph''}. wf_evidence demo_norm ''t1'' st ev)"
proof -
  obtain t where t: "evidence_fusion_node demo_fusion_env demo_fusion_state = Inr t"
    and c: "map (\<lambda>ev. dget ev ''content'') (g_evidence t) = [PStr ''Paris'']"
    using demo_fusion_run by (auto split: sum.splits)
  have "g_evidence demo_fusion_state = []" "g_tenant_id demo_fusion_state = ''t1''" "fe_norm demo_fusion_env = demo_norm"
    by (simp_all add: demo_fusion_state_def demo_fusion_env_def empty_state_def)
  with fusion_node_evidence [OF t] t c show ?thesis by (auto simp: Cons_eq_map_conv)
qed

end
