(* ===== verification/Prompt_Assembly.thy ===== *)
theory Prompt_Assembly
  imports Token_Budget
begin

text \<open>
  The assembly of the prompt (\<open>agent/langgraph/nodes/prompt_assembly.py\<close>): with evidence in the state, the
  context is what the token budget lets through and the prompt asks for citations; without, the context
  is made of the documents, rows and pages of the tools. The texts of the prompts are the code points of
  the source. \<open>original_text\<close> is \<open>extract_original_text\<close> of \<open>api/utils/chunk_preprocessor.py\<close>.

  The environment has the tokenizer, the numbers that Python reads from strings and the texts of values
  that are no strings.
\<close>

record prompt_env =
  pe_tokens :: tokenizer
  pe_float_of_str :: "string \<Rightarrow> rat res"
  pe_show :: "pyval \<Rightarrow> string"

section \<open>Texts\<close>

definition dq :: string where
  "dq = [CHR 0x22]"

definition LANGUAGE_INSTRUCTIONS :: "(string \<times> string) list" where
  "LANGUAGE_INSTRUCTIONS =
     [(''zh_CN'',
        uni [0x8BF7, 0x4F7F, 0x7528, 0x7B80, 0x4F53, 0x4E2D, 0x6587, 0x56DE, 0x7B54, 0x4EE5, 0x4E0B, 0x95EE,
        0x9898, 0x3002]),
      (''zh_TW'',
        uni [0x8ACB, 0x4F7F, 0x7528, 0x7E41, 0x9AD4, 0x4E2D, 0x6587, 0x56DE, 0x7B54, 0x4EE5, 0x4E0B, 0x554F,
        0x984C, 0x3002]),
      (''en'', ''Please answer the following question in English.'')]"

definition lang_instruction :: "string \<Rightarrow> string" where
  "lang_instruction lang = dget_or LANGUAGE_INSTRUCTIONS lang (dget_or LANGUAGE_INSTRUCTIONS ''zh_CN'' [])"

definition ROLE_TEXT :: string where
  "ROLE_TEXT =
     uni [0x4F60, 0x662F, 0x4E00, 0x4E2A, 0x667A, 0x80FD, 0x52A9, 0x624B, 0xFF0C, 0x8BF7, 0x6839, 0x636E,
     0x4EE5, 0x4E0B, 0x53C2, 0x8003, 0x8D44, 0x6599, 0x56DE, 0x7B54, 0x7528, 0x6237, 0x95EE, 0x9898, 0x3002]"

definition HONESTY_TEXT :: string where
  "HONESTY_TEXT =
     uni [0x5982, 0x679C, 0x53C2, 0x8003, 0x8D44, 0x6599, 0x4E2D, 0x6CA1, 0x6709, 0x76F8, 0x5173, 0x4FE1,
     0x606F, 0xFF0C, 0x8BF7, 0x8BDA, 0x5B9E, 0x544A, 0x77E5, 0xFF0C, 0x4E0D, 0x8981, 0x7F16, 0x9020, 0x7B54,
     0x6848, 0x3002]"

definition QUESTION_LABEL :: string where
  "QUESTION_LABEL =
     uni [0x7528, 0x6237, 0x95EE, 0x9898, 0xFF1A]"

definition CITE_SOURCES_TEXT :: string where
  "CITE_SOURCES_TEXT =
     uni [0x8BF7, 0x57FA, 0x4E8E, 0x4EE5, 0x4E0A, 0x53C2, 0x8003, 0x8D44, 0x6599, 0x7ED9, 0x51FA, 0x51C6,
     0x786E, 0x3001, 0x5B8C, 0x6574, 0x7684, 0x56DE, 0x7B54, 0x3002, 0x5982, 0x679C, 0x5F15, 0x7528, 0x4E86,
     0x53C2, 0x8003, 0x8D44, 0x6599, 0xFF0C, 0x8BF7, 0x6807, 0x6CE8, 0x6765, 0x6E90, 0x3002]"

definition CITATION_RULES_HEADER :: string where
  "CITATION_RULES_HEADER =
     uni [0x3010, 0x5F15, 0x7528, 0x6807, 0x6CE8, 0x89C4, 0x5219, 0x3011]"

definition CITE_NUMBERS_TEXT :: string where
  "CITE_NUMBERS_TEXT =
     uni [0x8BF7, 0x5728, 0x56DE, 0x7B54, 0x4E2D, 0x6BCF, 0x4E2A, 0x4E8B, 0x5B9E, 0x53E5, 0x540E, 0x6807,
     0x6CE8, 0x5F15, 0x7528, 0x7F16, 0x53F7] @ '' [n]'' @ uni [0xFF0C, 0x7F16, 0x53F7, 0x5BF9, 0x5E94,
     0x4E0B, 0x65B9, 0x53C2, 0x8003, 0x8D44, 0x6599, 0x4E2D, 0x7684] @ '' [n]'' @ uni [0x3002]"

definition CITE_EXAMPLE_TEXT :: string where
  "CITE_EXAMPLE_TEXT =
     uni [0x4F8B, 0x5982, 0xFF1A, 0x6839, 0x636E, 0x8D44, 0x6599, 0x663E, 0x793A, 0xFF0C, 0x67D0, 0x67D0,
     0x6307, 0x6807, 0x589E, 0x957F, 0x4E86] @ '' 15%[1][3]'' @ uni [0x3002]"

definition CITE_CLOSING_TEXT :: string where
  "CITE_CLOSING_TEXT =
     uni [0x8BF7, 0x57FA, 0x4E8E, 0x4EE5, 0x4E0A, 0x53C2, 0x8003, 0x8D44, 0x6599, 0x7ED9, 0x51FA, 0x51C6,
     0x786E, 0x3001, 0x5B8C, 0x6574, 0x7684, 0x56DE, 0x7B54, 0xFF0C, 0x5E76, 0x5728, 0x4E8B, 0x5B9E, 0x53E5,
     0x540E, 0x6807, 0x6CE8, 0x5F15, 0x7528, 0x7F16, 0x53F7] @ '' [n]'' @ uni [0x3002]"

definition COMPACT_MODE_TEXT :: string where
  "COMPACT_MODE_TEXT =
     uni [0xA, 0x3010, 0x7CBE, 0x7B80, 0x6A21, 0x5F0F, 0x3011, 0x4E0A, 0x4E0B, 0x6587, 0x7A7A, 0x95F4,
     0x4E0D, 0x8DB3, 0xFF0C, 0x8BF7, 0x4EC5, 0x8F93, 0x51FA, 0x6838, 0x5FC3, 0x7ED3, 0x8BBA, 0xFF08] @ ''1-3 ''
     @ uni [0x53E5, 0x8BDD, 0xFF09, 0xFF0C, 0x4E0D, 0x8981, 0x5C55, 0x5F00, 0x8BE6, 0x7EC6, 0x5206,
     0x6790, 0x3002]"

definition AST_FORMAT :: "string list" where
  "AST_FORMAT =
     [
      uni [0x3010, 0x8F93, 0x51FA, 0x683C, 0x5F0F, 0x8981, 0x6C42, 0x3011],
      uni [0x4F60, 0x5FC5, 0x987B, 0x8F93, 0x51FA, 0x4E25, 0x683C, 0x7684] @ '' JSON '' @ uni [0x683C,
      0x5F0F, 0xFF08] @ ''Answer AST'' @ uni [0xFF09, 0xFF0C, 0x7ED3, 0x6784, 0x5982, 0x4E0B, 0xFF1A],
      ''{'',
      ''  '' @ dq @ ''schema_version'' @ dq @ '': '' @ dq @ ''1.0'' @ dq @ '','',
      ''  '' @ dq @ ''root'' @ dq @ '': {'',
      ''    '' @ dq @ ''node_type'' @ dq @ '': '' @ dq @ ''section'' @ dq @ '','',
      ''    '' @ dq @ ''title'' @ dq @ '': '' @ dq @ dq @ '','',
      ''    '' @ dq @ ''level'' @ dq @ '': 1,'',
      ''    '' @ dq @ ''content'' @ dq @ '': ['',
      ''      {'',
      ''        '' @ dq @ ''node_type'' @ dq @ '': '' @ dq @ ''paragraph'' @ dq @ '','',
      ''        '' @ dq @ ''children'' @ dq @ '': ['',
      ''          {'',
      ''            '' @ dq @ ''node_type'' @ dq @ '': '' @ dq @ ''claim'' @ dq @ '','',
      ''            '' @ dq @ ''claim_id'' @ dq @ '': '' @ dq @ ''c1'' @ dq @ '','',
      ''            '' @ dq @ ''text'' @ dq @ '': '' @ dq @ uni [0x4E8B, 0x5B9E, 0x9648, 0x8FF0, 0x6587,
      0x672C, 0xFF08, 0x4E0D, 0x542B, 0x5F15, 0x7528, 0x6807, 0x8BB0, 0xFF09] @ uni [0x22, 0x2C],
      ''            '' @ dq @ ''citation_indices'' @ dq @ '': [1, 2],'',
      ''            '' @ dq @ ''model_claim_type'' @ dq @ '': '' @ dq @ ''statement'' @ dq @ '','',
      ''            '' @ dq @ ''model_is_required'' @ dq @ '': false'',
      ''          },'',
      ''          {'',
      ''            '' @ dq @ ''node_type'' @ dq @ '': '' @ dq @ ''narrative'' @ dq @ '','',
      ''            '' @ dq @ ''text'' @ dq @ '': '' @ dq @ uni [0x975E, 0x4E8B, 0x5B9E, 0x8FDE, 0x63A5,
      0x6587, 0x672C, 0xFF08, 0x5982, 0x8FC7, 0x6E21, 0x53E5, 0x3001, 0x603B, 0x7ED3, 0x53E5, 0xFF09] @ uni
      [0x22],
      ''          }'',
      ''        ]'',
      ''      }'',
      ''    ]'',
      ''  }'',
      ''}'',
      [],
      uni [0x3010, 0x5F15, 0x7528, 0x6807, 0x6CE8, 0x89C4, 0x5219, 0x3011],
      ''1. '' @ uni [0x6BCF, 0x4E2A, 0x4E8B, 0x5B9E, 0x58F0, 0x660E, 0xFF08] @ ''Claim'' @ uni [0xFF09,
      0x5FC5, 0x987B, 0x5728] @ '' citation_indices '' @ uni [0x4E2D, 0x6807, 0x6CE8, 0x6240, 0x5F15, 0x7528,
      0x7684, 0x53C2, 0x8003, 0x8D44, 0x6599, 0x7F16, 0x53F7] @ '' [n]'' @ uni [0x3002],
      ''2. citation_indices '' @ uni [0x4E2D, 0x7684, 0x7F16, 0x53F7, 0x5FC5, 0x987B, 0x5BF9, 0x5E94, 0x4E0B,
      0x65B9, 0x53C2, 0x8003, 0x8D44, 0x6599, 0x4E2D, 0x7684] @ '' [n] '' @ uni [0x7F16, 0x53F7, 0x3002],
      ''3. '' @ uni [0x975E, 0x4E8B, 0x5B9E, 0x8FDE, 0x63A5, 0x6587, 0x672C, 0xFF08] @ ''Narrative'' @ uni
      [0xFF0C, 0x5982, 0x8FC7, 0x6E21, 0x53E5, 0xFF09, 0x4E0D, 0x9700, 0x6807, 0x6CE8, 0x5F15, 0x7528,
      0x3002],
      ''4. '' @ uni [0x5982, 0x679C, 0x67D0, 0x4E2A, 0x4E8B, 0x5B9E, 0x65E0, 0x5BF9, 0x5E94, 0x8BC1, 0x636E,
      0xFF0C, 0x4E0D, 0x8981, 0x7F16, 0x9020, 0xFF0C, 0x5E94, 0x7701, 0x7565, 0x8BE5] @ '' Claim '' @ uni
      [0x6216, 0x5728] @ '' narrative '' @ uni [0x4E2D, 0x8BF4, 0x660E, 0x3002],
      ''5. '' @ uni [0x53EA, 0x8F93, 0x51FA] @ '' JSON'' @ uni [0xFF0C, 0x4E0D, 0x8981, 0x8F93, 0x51FA,
      0x4EFB, 0x4F55, 0x5176, 0x4ED6, 0x6587, 0x672C, 0x6216] @ '' Markdown '' @ uni [0x4EE3, 0x7801, 0x5757,
      0x6807, 0x8BB0, 0x3002]
     ]"

section \<open>The context of the tools\<close>

text \<open>The first of the fields that is not \<open>None\<close>, as a text.\<close>

definition original_text :: "(pyval \<Rightarrow> string) \<Rightarrow> pdict \<Rightarrow> string" where
  "original_text show_py chunk =
     (case filter (\<lambda>v. v \<noteq> PNone)
             (map (dget chunk) [''original_text'', ''content'', ''content_with_weight'', ''text'']) of
        [] \<Rightarrow> [] | v # _ \<Rightarrow> py_str show_py v)"

definition rag_line :: "(pyval \<Rightarrow> string) \<Rightarrow> nat \<times> pdict \<Rightarrow> string list res" where
  "rag_line show_py p =
     (case p of (i, doc) \<Rightarrow>
        (let content = original_text show_py doc;
             source = dget_or doc ''source'' (PStr []);
             line = nat_digits i @ ''. '' @ content
         in if content = [] then Inr []
            else if truthy source then
              rbind (score_text (dget_or doc ''score'' (PFloat 0))) (\<lambda>score.
                Inr [line @ uni [0xFF08, 0x6765, 0x6E90, 0xFF1A] @ py_str show_py source
                     @ uni [0xFF0C, 0x76F8, 0x5173, 0x5EA6, 0xFF1A] @ score @ uni [0xFF09]])
            else Inr [line]))"

definition format_rag_context :: "(pyval \<Rightarrow> string) \<Rightarrow> pdict list \<Rightarrow> string res" where
  "format_rag_context show_py rag_docs =
     (if rag_docs = [] then Inr []
      else
        rbind (all_res (rag_line show_py) (enumerate 1 (take 5 rag_docs))) (\<lambda>lines.
          Inr (join newline (REFERENCES_HEADER # concat lines))))"

definition SOURCE_DB :: string where
  "SOURCE_DB = ''_source_db''"

definition db_row_line :: "(pyval \<Rightarrow> string) \<Rightarrow> nat \<times> pdict \<Rightarrow> string" where
  "db_row_line show_py p =
     (case p of (i, row) \<Rightarrow>
        (let source_db = dget_or row SOURCE_DB (PStr []);
             items = map (\<lambda>(k, v). k @ ''='' @ py_str show_py v) (filter (\<lambda>kv. fst kv \<noteq> SOURCE_DB) row)
         in ''  '' @ uni [0x7B2C] @ nat_digits i @ uni [0x884C, 0xFF1A] @ join (uni [0xFF0C]) items
            @ (if truthy source_db then uni [0xFF08, 0x6765, 0x6E90, 0xFF1A] @ py_str show_py source_db @ uni [0xFF09] else [])))"

text \<open>The result of a query has the declared types where the code slices or joins; the comparison of the
  row count raises for a value that is no number, and text is formatted for any.\<close>

definition format_db_context :: "(pyval \<Rightarrow> string) \<Rightarrow> pdict \<Rightarrow> string res" where
  "format_db_context show_py db =
     (let sql = dget_or db ''sql'' (PStr []);
          row_count = dget_or db ''row_count'' (PInt 0);
          source_dbs = dget_or db ''source_dbs'' (PList []) in
      rbind (dict_list (py_or (dget_or db ''rows'' (PList [])) (PList []))) (\<lambda>rows.
        if rows = [] then Inr []
        else
          (let columns = filter (\<lambda>k. k \<noteq> SOURCE_DB) (map fst (hd rows)) in
           rbind (if truthy (dget_or db ''is_aggregated'' (PBool False)) \<and> truthy source_dbs
                  then rbind (py_iter source_dbs) (\<lambda>xs. rbind (all_res str_of_val xs) (\<lambda>dbs.
                         Inr [uni [0x6570, 0x636E, 0x6765, 0x6E90, 0xFF1A] @ join '', '' dbs]))
                  else Inr []) (\<lambda>sources.
           rbind (number_or_raise row_count) (\<lambda>n.
             Inr (join newline
               ([uni [0x3010, 0x6570, 0x636E, 0x5E93, 0x67E5, 0x8BE2, 0x7ED3, 0x679C, 0x3011]]
                @ (if truthy sql then [uni [0x67E5, 0x8BE2, 0x8BED, 0x53E5, 0xFF1A] @ py_str show_py sql] else [])
                @ [uni [0x7ED3, 0x679C, 0x884C, 0x6570, 0xFF1A] @ py_str show_py row_count]
                @ sources
                @ (if columns \<noteq> [] then [uni [0x5217, 0x540D, 0xFF1A] @ join (uni [0x3001]) columns] else [])
                @ map (db_row_line show_py) (enumerate 1 (take 20 rows))
                @ (if n > 20 then [''  ...'' @ uni [0xFF08, 0x7701, 0x7565] @ '' '' @ py_str show_py (case row_count of PFloat r \<Rightarrow> PFloat (r - 20) | _ \<Rightarrow> PInt (\<lfloor>n\<rfloor> - 20))
                      @ '' '' @ uni [0x884C, 0xFF09]] else []))))))))"

text \<open>\<open>content[:500]\<close>\<close>

fun head_500 :: "(pyval \<Rightarrow> string) \<Rightarrow> pyval \<Rightarrow> string res" where
  "head_500 show_py (PStr s) = Inr (u_take 500 s)"
| "head_500 show_py (PList xs) = Inr (show_py (PList (take 500 xs)))"
| "head_500 show_py _ = Inl TypeError"

definition web_line :: "(pyval \<Rightarrow> string) \<Rightarrow> nat \<times> pdict \<Rightarrow> string list res" where
  "web_line show_py p =
     (case p of (i, doc) \<Rightarrow>
        (let content = dget_or doc ''content'' (PStr []);
             title = dget_or doc ''title'' (PStr []);
             url = dget_or doc ''url'' (PStr [])
         in if \<not> truthy content then Inr []
            else
              rbind (head_500 show_py content) (\<lambda>c.
                Inr [nat_digits i @ ''. '' @ c
                     @ (if truthy title then uni [0xFF08] @ py_str show_py title @ uni [0xFF09] else [])
                     @ (if truthy url then '' ['' @ py_str show_py url @ '']'' else [])])))"

definition format_web_context :: "(pyval \<Rightarrow> string) \<Rightarrow> pdict list \<Rightarrow> string res" where
  "format_web_context show_py web_docs =
     (if web_docs = [] then Inr []
      else
        rbind (all_res (web_line show_py) (enumerate 1 (take 6 web_docs))) (\<lambda>lines.
          Inr (join newline ((uni [0x3010, 0x7F51, 0x7EDC, 0x641C, 0x7D22, 0x7ED3, 0x679C, 0x3011]) # concat lines))))"

definition results_context :: "(pyval \<Rightarrow> string) \<Rightarrow> graph_state \<Rightarrow> string res" where
  "results_context show_py s =
     rbind (format_rag_context show_py (g_rag_docs s)) (\<lambda>rag.
     rbind (if g_db_result s \<noteq> [] \<and> truthy (dget (g_db_result s) ''rows'') then format_db_context show_py (g_db_result s)
            else Inr []) (\<lambda>db.
     rbind (format_web_context show_py (g_web_docs s)) (\<lambda>web.
       Inr (join (newline @ newline) (filter (\<lambda>p. p \<noteq> []) [rag, db, web])))))"

section \<open>The history\<close>

definition ROLE_LABEL :: "(string \<times> string) list" where
  "ROLE_LABEL =
     [(''user'', uni [0x7528, 0x6237]), (''assistant'', uni [0x52A9, 0x624B]), (''system'', uni [0x7CFB, 0x7EDF])]"

definition history_line :: "(pyval \<Rightarrow> string) \<Rightarrow> pdict \<Rightarrow> string list res" where
  "history_line show_py msg =
     (let role = dget_or msg ''role'' (PStr ''user'') in
      rbind (py_strip (py_or (dget msg ''content'') (PStr []))) (\<lambda>content.
        if content = [] then Inr []
        else if \<not> hashable role then Inl TypeError
        else
          Inr [(case role of PStr r \<Rightarrow> dget_or ROLE_LABEL r r | v \<Rightarrow> show_py v) @ '': '' @ content]))"

definition format_conversation_history :: "(pyval \<Rightarrow> string) \<Rightarrow> pdict list \<Rightarrow> string \<Rightarrow> string res" where
  "format_conversation_history show_py history summary =
     (let summary_part = (if summary \<noteq> [] then [(uni [0x3010, 0x5386, 0x53F2, 0x6458, 0x8981, 0x3011]) @ newline @ summary] else []) in
      rbind (all_res (history_line show_py) (drop (length history - 10) history)) (\<lambda>ls.
        Inr (join (newline @ newline)
          (summary_part
           @ (if concat ls \<noteq> [] then [join newline ((uni [0x3010, 0x5BF9, 0x8BDD, 0x5386, 0x53F2, 0x3011]) # concat ls)] else [])))))"

definition history_parts :: "string \<Rightarrow> string list" where
  "history_parts history_block = (if history_block \<noteq> [] then [[], history_block] else [])"

section \<open>The prompts\<close>

text \<open>The prompt without a context.\<close>

definition plain_parts :: "string \<Rightarrow> string \<Rightarrow> string \<Rightarrow> string list" where
  "plain_parts instruction history_block question =
     [instruction] @ history_parts history_block @ [[], QUESTION_LABEL @ question]"

definition build_prompt :: "string \<Rightarrow> string \<Rightarrow> string \<Rightarrow> string \<Rightarrow> string \<Rightarrow> string" where
  "build_prompt user_question merged_context query_lang route_target history_block =
     join newline
       (if route_target = ''chitchat'' \<or> merged_context = []
        then plain_parts (lang_instruction query_lang) history_block user_question
        else
          [ROLE_TEXT, HONESTY_TEXT, lang_instruction query_lang] @ history_parts history_block
          @ [[], merged_context, [], QUESTION_LABEL @ user_question, [], CITE_SOURCES_TEXT])"

definition prompt_enforcement_mode :: "graph_state \<Rightarrow> string" where
  "prompt_enforcement_mode s =
     (let mode = lower (strip (g_enforcement_mode s))
      in if mode \<in> {''disabled'', ''shadow'', ''enforced''} then mode else ''disabled'')"

definition build_citation_aware_prompt :: "string \<Rightarrow> string \<Rightarrow> string \<Rightarrow> string \<Rightarrow> string \<Rightarrow> bool \<Rightarrow> string" where
  "build_citation_aware_prompt question evidence_context lang enforcement_mode history_block compact_mode =
     (let opening = [ROLE_TEXT, HONESTY_TEXT, lang_instruction lang, []];
          middle = history_parts history_block @ [[], evidence_context]
                   @ (if compact_mode then [COMPACT_MODE_TEXT] else []) @ [[], QUESTION_LABEL @ question]
      in join newline
           (if evidence_context = [] then plain_parts (lang_instruction lang) history_block question
            else if enforcement_mode = ''enforced'' then opening @ AST_FORMAT @ middle
            else opening @ [CITATION_RULES_HEADER, CITE_NUMBERS_TEXT, CITE_EXAMPLE_TEXT] @ middle
                 @ [[], CITE_CLOSING_TEXT]))"

section \<open>The node\<close>

text \<open>The context and the prompt that the node writes.\<close>

definition prompt_of :: "prompt_env \<Rightarrow> graph_state \<Rightarrow> (string \<times> string) res" where
  "prompt_of env s =
     (let question = g_user_question s;
          history = format_conversation_history (pe_show env) (g_conversation_history s) (g_conversation_summary s) in
      rbind (if g_evidence s \<noteq> []
             then assemble (pe_tokens env) (pe_float_of_str env) (pe_show env) (scheduler_budget (g_total_token_budget s))
                    (g_evidence s) (g_tool_token_counts s) (g_locked_system_tokens s + g_locked_history_tokens s)
             else Inr ([], False, 0)) (\<lambda>(evidence_context, compact_mode, used_tokens).
        if evidence_context \<noteq> [] then
          rbind history (\<lambda>h.
            Inr (evidence_context,
                 build_citation_aware_prompt question evidence_context (g_query_lang s) (prompt_enforcement_mode s) h compact_mode))
        else
          rbind (results_context (pe_show env) s) (\<lambda>merged_context.
          rbind history (\<lambda>h.
            Inr (merged_context,
                 build_prompt question merged_context (g_query_lang s)
                   (case g_route_target s of None \<Rightarrow> ''chitchat'' | Some r \<Rightarrow> r) h)))))"

definition prompt_assembly_node :: "prompt_env \<Rightarrow> graph_state \<Rightarrow> graph_state res" where
  "prompt_assembly_node env s =
     rbind (prompt_of env s) (\<lambda>(merged_context, final_prompt).
       Inr (s\<lparr>g_merged_context := merged_context, g_final_prompt := final_prompt\<rparr>))"

section \<open>Properties\<close>

lemma contains_refl [simp]: "contains s s"
  unfolding contains_iff by (metis append_Nil append_Nil2)

lemma contains_append: "contains s t \<or> contains s u \<Longrightarrow> contains s (t @ u)"
  unfolding contains_iff by (metis append.assoc)

lemma contains_trans: "contains s t \<Longrightarrow> contains t u \<Longrightarrow> contains s u"
  unfolding contains_iff by (metis append.assoc)

lemma contains_concat: "p \<in> set ps \<Longrightarrow> contains p (concat ps)"
  by (induction ps) (auto intro: contains_append)

lemma contains_join: "p \<in> set ps \<Longrightarrow> contains p (join sep ps)"
proof (cases ps)
  case (Cons q qs)
  assume "p \<in> set ps"
  then consider "p = q" | "p \<in> set qs" using Cons by auto
  then show ?thesis
  proof cases
    case 2
    then have "contains p (sep @ p)" "contains (sep @ p) (concat (map (\<lambda>z. sep @ z) qs))"
      by (auto intro: contains_append contains_concat)
    then show ?thesis unfolding Cons join_def by (auto intro: contains_append contains_trans)
  qed (simp add: Cons join_def contains_append)
qed simp

lemma assemble_nonempty: "assemble enc f show_py b evs counts l = Inr (ctx, cm, used) \<Longrightarrow> ctx \<noteq> []"
  by (auto simp: assemble_def compact_assemble_def rbind_eq_Inr_iff Let_def join_def NO_CONTEXT_TEXT_def COMPACT_HEADER_def
      REFERENCES_HEADER_def uni_def utf8_def split: if_splits)

lemma prompt_cases:
  assumes "prompt_assembly_node v s = Inr t"
  obtains c p where "t = s\<lparr>g_merged_context := c, g_final_prompt := p\<rparr>"
  using assms by (auto simp: prompt_assembly_node_def rbind_eq_Inr_iff)

lemma build_prompt_parts:
  "contains (QUESTION_LABEL @ q) (build_prompt q c l r h) \<and> contains (lang_instruction l) (build_prompt q c l r h)
   \<and> (c \<noteq> [] \<and> r \<noteq> ''chitchat'' \<longrightarrow> contains c (build_prompt q c l r h))"
  unfolding build_prompt_def plain_parts_def by (auto intro!: contains_join)

lemma citation_prompt_parts:
  assumes "c \<noteq> []"
  shows "contains (QUESTION_LABEL @ q) (build_citation_aware_prompt q c l e h cm)
    \<and> contains (lang_instruction l) (build_citation_aware_prompt q c l e h cm)
    \<and> contains c (build_citation_aware_prompt q c l e h cm)
    \<and> (\<forall>p \<in> set (if e = ''enforced'' then AST_FORMAT else [CITE_NUMBERS_TEXT, CITE_CLOSING_TEXT]).
         contains p (build_citation_aware_prompt q c l e h cm))"
  using assms unfolding build_citation_aware_prompt_def Let_def by (auto intro!: contains_join)

lemma prompt_nonempty:
  assumes "prompt_of env s = Inr (ctx, p)"
  shows "p \<noteq> []"
proof -
  have "contains (QUESTION_LABEL @ g_user_question s) p"
    using assms build_prompt_parts citation_prompt_parts
    by (auto simp: prompt_of_def Let_def rbind_eq_Inr_iff split: if_splits dest: assemble_nonempty)
  then show ?thesis by (cases p) (simp_all add: QUESTION_LABEL_def uni_def utf8_def)
qed

text \<open>C29: what a prompt says. It holds the question of the user and the instruction for the language of
  the answer. With evidence it holds the assembled context, and asks for the answer structure if
  verification is enforced and for numbered citations otherwise; without evidence it holds the context
  of the tools, if there is one and the route is not small talk.\<close>

theorem prompt_parts:
  assumes "prompt_assembly_node env s = Inr t"
  shows "contains (QUESTION_LABEL @ g_user_question s) (g_final_prompt t)
    \<and> contains (lang_instruction (g_query_lang s)) (g_final_prompt t)
    \<and> (g_evidence s \<noteq> [] \<longrightarrow>
         contains (g_merged_context t) (g_final_prompt t)
         \<and> (\<forall>p \<in> set (if prompt_enforcement_mode s = ''enforced'' then AST_FORMAT else [CITE_NUMBERS_TEXT, CITE_CLOSING_TEXT]).
              contains p (g_final_prompt t)))
    \<and> (g_evidence s = [] \<longrightarrow> results_context (pe_show env) s = Inr (g_merged_context t)
         \<and> (g_merged_context t \<noteq> [] \<and> g_route_target s \<notin> {None, Some ''chitchat''} \<longrightarrow>
              contains (g_merged_context t) (g_final_prompt t)))"
proof (cases "g_evidence s = []")
  case True
  with assms obtain c h where t: "t = s\<lparr>g_merged_context := c, g_final_prompt :=
      build_prompt (g_user_question s) c (g_query_lang s) (case g_route_target s of None \<Rightarrow> ''chitchat'' | Some r \<Rightarrow> r) h\<rparr>"
    and c: "results_context (pe_show env) s = Inr c"
    by (auto simp: prompt_assembly_node_def prompt_of_def Let_def rbind_eq_Inr_iff)
  show ?thesis using True t c build_prompt_parts [of "g_user_question s" c "g_query_lang s" _ h] by (auto split: option.splits)
next
  case False
  with assms obtain c h cm used where t: "t = s\<lparr>g_merged_context := c, g_final_prompt :=
      build_citation_aware_prompt (g_user_question s) c (g_query_lang s) (prompt_enforcement_mode s) h cm\<rparr>"
    and "c \<noteq> []"
    by (auto simp: prompt_assembly_node_def prompt_of_def Let_def rbind_eq_Inr_iff split: if_splits dest: assemble_nonempty)
  show ?thesis using False t citation_prompt_parts [OF \<open>c \<noteq> []\<close>] by simp
qed

definition demo_prompt_env :: prompt_env where
  "demo_prompt_env = \<lparr>pe_tokens = demo_tokens, pe_float_of_str = (\<lambda>_. Inl ValueError), pe_show = (\<lambda>_. [])\<rparr>"

theorem prompt_parts_witness:
  "\<exists>t. prompt_assembly_node demo_prompt_env (empty_state\<lparr>g_user_question := ''why'', g_query_lang := ''en''\<rparr>) = Inr t
     \<and> contains ''Please answer the following question in English.'' (g_final_prompt t)"
proof -
  obtain t where t: "prompt_assembly_node demo_prompt_env (empty_state\<lparr>g_user_question := ''why'', g_query_lang := ''en''\<rparr>) = Inr t"
    by (simp add: prompt_assembly_node_def prompt_of_def empty_state_def results_context_def format_rag_context_def
        format_web_context_def format_conversation_history_def Let_def)
  have "lang_instruction ''en'' = ''Please answer the following question in English.''"
    by (simp add: lang_instruction_def LANGUAGE_INSTRUCTIONS_def dget_or_def)
  with prompt_parts [OF t] t show ?thesis by auto
qed

lemma counted_sources:
  "count_tool_tokens enc show_py s = Inr counts \<Longrightarrow> st \<notin> {''rag'', ''db'', ''web''} \<Longrightarrow> dget_or counts st 0 = 0"
  by (auto simp: count_tool_tokens_def rbind_eq_Inr_iff dget_or_def)

text \<open>Evidence of the knowledge graph is not shown to the model. The token counts that the fusion node
  stores know the sources documents, database and web only. So if the evidence of a run comes from
  other tools (the knowledge graph), the context consists of the header alone, although there is room
  for it.\<close>

theorem uncounted_sources_are_hidden:
  assumes "prompt_assembly_node env s = Inr t" and "g_evidence s \<noteq> []"
    and "\<forall>ev \<in> set (g_evidence s). source_of ev \<notin> {PStr ''rag'', PStr ''db'', PStr ''web''}"
    and "count_tool_tokens enc show_py u = Inr (g_tool_token_counts s)"
    and "scheduler_budget (g_total_token_budget s) - (g_locked_system_tokens s + g_locked_history_tokens s) > OUTPUT_RESERVE_TOKENS"
  shows "g_merged_context t = REFERENCES_HEADER"
proof -
  from assms(1,2) obtain cm used where
    a: "assemble (pe_tokens env) (pe_float_of_str env) (pe_show env) (scheduler_budget (g_total_token_budget s)) (g_evidence s)
      (g_tool_token_counts s) (g_locked_system_tokens s + g_locked_history_tokens s) = Inr (g_merged_context t, cm, used)"
    by (auto simp: prompt_assembly_node_def prompt_of_def Let_def rbind_eq_Inr_iff split: if_splits dest: assemble_nonempty)
  from assemble_lines [OF a assms(5)] obtain ls where ctx: "g_merged_context t = join newline (REFERENCES_HEADER # map snd ls)"
    and ls: "\<forall>(st, l) \<in> set ls. st \<in> {''rag'', ''db'', ''web'', ''report''} \<and> 0 < dget_or (g_tool_token_counts s) st 0
         \<and> (\<exists>ev \<in> set (g_evidence s). source_of ev = PStr st \<and> format_evidence (pe_show env) ev st = Inr l)"
    by blast
  have "ls = []"
  proof (cases ls)
    case (Cons l ls')
    with ls assms(3) have "fst l = ''report''" "0 < dget_or (g_tool_token_counts s) (fst l) 0" by fastforce+
    with counted_sources [OF assms(4), of "''report''"] show ?thesis by simp
  qed simp
  with ctx show ?thesis by (simp add: join_def)
qed

theorem uncounted_sources_are_hidden_witness:
  "\<exists>t. prompt_assembly_node demo_prompt_env (empty_state\<lparr>g_evidence := tl demo_sources\<rparr>) = Inr t
     \<and> g_merged_context t = REFERENCES_HEADER"
proof -
  let ?s = "empty_state\<lparr>g_evidence := tl demo_sources\<rparr>"
  obtain t where t: "prompt_assembly_node demo_prompt_env ?s = Inr t"
    by (simp add: prompt_assembly_node_def prompt_of_def empty_state_def demo_prompt_env_def assembly_defs
        format_conversation_history_def scheduler_budget_def Let_def)
  have "g_merged_context t = REFERENCES_HEADER"
    by (rule uncounted_sources_are_hidden [OF t, where u = empty_state and enc = demo_tokens and show_py = "\<lambda>_. []"])
      (simp_all add: demo_sources_def empty_state_def source_of_def count_tool_tokens_def doc_tokens_def
        scheduler_budget_def OUTPUT_RESERVE_TOKENS_def)
  with t show ?thesis by blast
qed

end
