(* ===== verification/Agent_Graph.thy ===== *)
theory Agent_Graph
  imports Intent_Router Quality_Check Answer_Nodes React_Node Fusion_Node Prompt_Assembly
begin

text \<open>
  The main graph (\<open>agent/langgraph/graph.py\<close>, run by \<open>runner.py\<close>): its nodes, its fixed and conditional
  edges, and the step relation of its runs. The tools, the language models, the user and everything
  else outside of the modelled nodes are the record \<open>graph_io\<close>; a step may use any of them, so the
  theorems about runs hold for every behaviour of the environment, changing from step to step.

  LangGraph keeps only the keys that \<open>AgentState\<close> declares: \<open>commit\<close> resets the others to their default.
\<close>

section \<open>Nodes and their operations\<close>

datatype gnode = QuestionInput | IntentRouter | Clarification | RagTool | DbTool | WebTool | PlanExecutor
  | ReactSubgraph | RestTool | GraphTool | EvidenceFusion | Reflection | QualityCheck | PromptAssembly
  | LlmGenerate | Hallucination | AnswerRenderer | Observability | AnswerOutput | Fallback

record react_io =
  ri_env :: loop_env
  ri_now :: rat
  ri_config :: "graph_state \<Rightarrow> agent_config"

text \<open>The view the ReAct node has of the state (\<open>ri_config\<close> reads the typed configuration from the
  dictionary), and its update of it.\<close>

definition react_exec_args :: "graph_state \<Rightarrow> exec_args" where
  "react_exec_args s =
     \<lparr>ea_tenant_id = g_tenant_id s, ea_user_id = g_user_id s, ea_llm_id = g_llm_id s,
      ea_kb_ids = Some (g_kb_ids s), ea_db_id = g_db_id s, ea_mcp_server_name = g_mcp_server_name s,
      ea_query_lang = g_query_lang s\<rparr>"

definition react_view :: "react_io \<Rightarrow> graph_state \<Rightarrow> agent_state" where
  "react_view r s =
     \<lparr>ag_user_question = g_user_question s, ag_exec = react_exec_args s, ag_agent_config = ri_config r s,
      ag_react_enabled = g_react_enabled s,
      ag_skill_set = (if g_skill_set s = PNone then NoSkillSet else RawSkillSet (g_skill_set s)),
      ag_evidence = g_evidence s\<rparr>"

definition reason_text :: "finish_reason option \<Rightarrow> string" where
  "reason_text r = (case r of None \<Rightarrow> [] | Some f \<Rightarrow> finish_reason_text f)"

fun source_text :: "termination_source \<Rightarrow> string" where
  "source_text NoSource = []"
| "source_text BudgetSource = ''budget''"
| "source_text LoopGuardSource = ''loop_guard''"
| "source_text PolicyGuardSource = ''policy_guard''"

definition react_node :: "react_io \<Rightarrow> graph_state \<Rightarrow> graph_state res" where
  "react_node r s =
     rbind (react_subgraph_node (ri_env r) (ri_now r) (react_view r s)) (\<lambda>u.
       Inr (case nu_guard u of
              None \<Rightarrow> s\<lparr>g_evidence := nu_evidence u\<rparr>
            | Some g \<Rightarrow>
                s\<lparr>g_evidence := nu_evidence u,
                  g_termination_reason := reason_text (ng_termination_reason g),
                  g_termination_source := source_text (ng_termination_source g)\<rparr>))"

record graph_io =
  io_lang :: "string \<Rightarrow> string \<times> string"
  io_router :: router_env
  io_ask :: "clarification_request \<Rightarrow> pyval option"
  io_rag :: "pdict \<Rightarrow> rag_output res"
  io_db :: "pdict \<Rightarrow> pdict res"
  io_web :: "pdict \<Rightarrow> pdict list res"
  io_rest :: "pdict \<Rightarrow> service_output res"
  io_graph :: "pyval \<Rightarrow> pdict \<Rightarrow> service_output res"
  io_plan :: plan_env
  io_react :: react_io
  io_fusion :: fusion_env
  io_reflection :: reflection_env
  io_prompt :: prompt_env
  io_models :: "string \<Rightarrow> string \<Rightarrow> (string \<Rightarrow> string res) option"
  io_hallucination :: hallucination_env
  io_validate :: "pdict \<Rightarrow> answer_ast res"

text \<open>\<open>observability\<close> writes no key of the model.\<close>

fun run_node :: "graph_io \<Rightarrow> gnode \<Rightarrow> graph_state \<Rightarrow> graph_state res" where
  "run_node io QuestionInput s = Inr (user_question_node (io_lang io) s)"
| "run_node io IntentRouter s = intent_router_node (io_router io) s"
| "run_node io Clarification s = Inr (clarification_node (io_ask io) s)"
| "run_node io RagTool s = rag_tool_node (io_rag io) s"
| "run_node io DbTool s = db_tool_node (io_db io) s"
| "run_node io WebTool s = web_tool_node (io_web io) s"
| "run_node io PlanExecutor s = plan_executor_node (io_plan io) s"
| "run_node io ReactSubgraph s = react_node (io_react io) s"
| "run_node io RestTool s = rest_tool_node (io_rest io) s"
| "run_node io GraphTool s = graph_tool_node (io_graph io) s"
| "run_node io EvidenceFusion s = evidence_fusion_node (io_fusion io) s"
| "run_node io Reflection s = reflection_node (io_reflection io) s"
| "run_node io QualityCheck s = quality_check_node s"
| "run_node io PromptAssembly s = prompt_assembly_node (io_prompt io) s"
| "run_node io LlmGenerate s = Inr (llm_generate_node (io_models io) s)"
| "run_node io Hallucination s = hallucination_node (io_hallucination io) s"
| "run_node io AnswerRenderer s = answer_renderer_node (io_validate io) s"
| "run_node io Observability s = Inr s"
| "run_node io AnswerOutput s = final_answer_node s"
| "run_node io Fallback s = fallback_node s"

definition commit :: "graph_state \<Rightarrow> graph_state" where
  "commit s =
     s\<lparr>g_user_id := [], g_db_tool_enabled := True, g_retrieval_error_code := [], g_report_artifacts := [],
       g_report_fields := []\<rparr>"

section \<open>Edges\<close>

text \<open>The target maps of the conditional edges; a name outside of the map raises, which no routing
  function returns.\<close>

definition node_names :: "(string \<times> gnode) list" where
  "node_names =
     [(''clarification'', Clarification), (''rag_tool'', RagTool), (''db_tool'', DbTool),
      (''react_subgraph'', ReactSubgraph), (''plan_executor'', PlanExecutor), (''rest_tool'', RestTool),
      (''web_tool'', WebTool), (''graph_tool'', GraphTool), (''prompt_assembly'', PromptAssembly),
      (''evidence_fusion'', EvidenceFusion), (''fallback'', Fallback), (''answer_renderer'', AnswerRenderer),
      (''observability'', Observability)]"

fun next_node :: "gnode \<Rightarrow> graph_state \<Rightarrow> gnode option" where
  "next_node QuestionInput s = Some IntentRouter"
| "next_node IntentRouter s = map_of node_names (route_next s)"
| "next_node Clarification s = Some IntentRouter"
| "next_node RagTool s = map_of node_names (after_rag_tool s)"
| "next_node EvidenceFusion s = Some Reflection"
| "next_node Reflection s = Some QualityCheck"
| "next_node QualityCheck s = map_of node_names (quality_check_decision s)"
| "next_node PromptAssembly s = Some LlmGenerate"
| "next_node LlmGenerate s = Some Hallucination"
| "next_node Hallucination s = map_of node_names (hallucination_decision s)"
| "next_node AnswerRenderer s = Some Observability"
| "next_node Fallback s = Some Observability"
| "next_node Observability s = Some AnswerOutput"
| "next_node AnswerOutput s = None"
| "next_node _ s = Some EvidenceFusion"

type_synonym graph_conf = "gnode \<times> graph_state"

text \<open>A step may meet any environment: models, tools and clocks may answer differently from step to step, so
  what holds for every run holds for all of these. What a run does in one given environment is stated with
  \<open>exec_steps\<close>.\<close>

inductive graph_step :: "graph_conf \<Rightarrow> graph_conf \<Rightarrow> bool" where
  step: "run_node io n s = Inr t \<Longrightarrow> next_node n (commit t) = Some m \<Longrightarrow> graph_step (n, s) (m, commit t)"

inductive_cases graph_stepE: "graph_step (n, s) c"

text \<open>A run starts at the entry point with the initial state; its answer is what the last node writes.\<close>

definition start_conf :: "run_request \<Rightarrow> graph_conf" where
  "start_conf rq = (QuestionInput, commit (build_initial_state rq))"

definition reachable :: "run_request \<Rightarrow> graph_conf \<Rightarrow> bool" where
  "reachable rq c \<longleftrightarrow> graph_step\<^sup>*\<^sup>* (start_conf rq) c"

definition answers :: "graph_conf \<Rightarrow> answer_text \<Rightarrow> bool" where
  "answers c a \<longleftrightarrow> (\<exists>s t. c = (AnswerOutput, s) \<and> final_answer_node s = Inr t \<and> a = g_final_answer t)"

text \<open>Execution of a number of steps in a fixed environment; \<open>None\<close> if a node raises or the run has
  ended.\<close>

fun exec_steps :: "graph_io \<Rightarrow> nat \<Rightarrow> graph_conf \<Rightarrow> graph_conf option" where
  "exec_steps io 0 c = Some c"
| "exec_steps io (Suc k) (n, s) =
     (case run_node io n s of
        Inl _ \<Rightarrow> None
      | Inr t \<Rightarrow>
          (case next_node n (commit t) of
             None \<Rightarrow> None
           | Some m \<Rightarrow> exec_steps io k (m, commit t)))"

lemma exec_steps_run: "exec_steps io k c = Some d \<Longrightarrow> graph_step\<^sup>*\<^sup>* c d"
  by (induction io k c rule: exec_steps.induct)
    (auto split: sum.splits option.splits intro: converse_rtranclp_into_rtranclp graph_step.step)

lemma exec_steps_add: "exec_steps io j c = Some d \<Longrightarrow> exec_steps io (j + k) c = exec_steps io k d"
  by (induction io j c rule: exec_steps.induct) (auto split: sum.splits option.splits)

lemma exec_steps_none: "exec_steps io j c = None \<Longrightarrow> exec_steps io (j + k) c = None"
  by (induction io j c rule: exec_steps.induct) (auto split: sum.splits option.splits)

section \<open>What a node leaves alone\<close>

text \<open>The keys that control the run: the counters, and the answer with its check.\<close>

abbreviation counters :: "graph_state \<Rightarrow> int \<times> int \<times> int" where
  "counters s \<equiv> (g_retry_count s, g_max_retries s, g_regenerate_count s)"

abbreviation answer_keys :: "graph_state \<Rightarrow> string \<times> string \<times> string \<times> string" where
  "answer_keys s \<equiv> (g_generated_answer s, g_hallucination_action s, g_enforcement_mode s, g_run_mode s)"

abbreviation ast_keys :: "graph_state \<Rightarrow> pyval \<times> pyval list" where
  "ast_keys s \<equiv> (g_answer_ast s, g_claims s)"

abbreviation run_keys where
  "run_keys s \<equiv> (counters s, answer_keys s, ast_keys s, g_termination_reason s)"

lemma commit_simps [simp]:
  "g_retry_count (commit s) = g_retry_count s" "g_max_retries (commit s) = g_max_retries s"
  "g_regenerate_count (commit s) = g_regenerate_count s" "g_generated_answer (commit s) = g_generated_answer s"
  "g_hallucination_action (commit s) = g_hallucination_action s" "g_enforcement_mode (commit s) = g_enforcement_mode s"
  "g_run_mode (commit s) = g_run_mode s" "g_answer_ast (commit s) = g_answer_ast s" "g_claims (commit s) = g_claims s"
  "g_termination_reason (commit s) = g_termination_reason s" "g_quality_decision (commit s) = g_quality_decision s"
  "g_route_target (commit s) = g_route_target s" "g_route_decision (commit s) = g_route_decision s"
  "g_report_artifacts (commit s) = []" "g_agent_config (commit s) = g_agent_config s"
  by (simp_all add: commit_def)

text \<open>Tools and the nodes behind them, up to the gate.\<close>

definition tool_nodes :: "gnode set" where
  "tool_nodes = {RagTool, DbTool, WebTool, PlanExecutor, ReactSubgraph, RestTool, GraphTool, EvidenceFusion, Reflection}"

lemma case_Inr_iff:
  "(case m of Inl e \<Rightarrow> h e | Inr x \<Rightarrow> f x) = Inr t \<longleftrightarrow> (\<exists>e. m = Inl e \<and> h e = Inr t) \<or> (\<exists>x. m = Inr x \<and> f x = Inr t)"
  by (cases m) auto

lemma rag_tool_cases:
  assumes "rag_tool_node f s = Inr t"
  obtains (empty) "t = empty_rag_state s" | (found) r lens where "t = rag_update r lens s"
  using assms unfolding rag_tool_node_def
  by (auto simp: rbind_eq_Inr_iff case_Inr_iff split: if_splits)

lemma rag_tool_frame:
  "rag_tool_node f s = Inr t \<Longrightarrow>
   counters t = counters s \<and> answer_keys t = answer_keys s \<and> ast_keys t = ast_keys s \<and> g_route_target t = g_route_target s
   \<and> g_termination_reason t = g_termination_reason s"
  by (erule rag_tool_cases) (simp_all add: empty_rag_state_def rag_update_def)

lemma db_tool_cases:
  assumes "db_tool_node f s = Inr t"
  obtains r q where "t = s\<lparr>g_db_result := r, g_db_quality_score := q\<rparr>"
  using assms unfolding db_tool_node_def empty_db_state_def
  by (auto simp: rbind_eq_Inr_iff case_Inr_iff simp del: number_or_raise.simps split: if_splits)

lemma db_tool_frame:
  "db_tool_node f s = Inr t \<Longrightarrow>
   counters t = counters s \<and> answer_keys t = answer_keys s \<and> ast_keys t = ast_keys s \<and> g_route_target t = g_route_target s
   \<and> g_termination_reason t = g_termination_reason s"
  by (erule db_tool_cases) simp

lemma web_tool_cases:
  assumes "web_tool_node f s = Inr t"
  obtains docs where "t = s\<lparr>g_web_docs := docs\<rparr>"
  using assms by (auto simp: web_tool_node_def rbind_eq_Inr_iff split: if_splits)

lemma rest_tool_frame:
  "rest_tool_node f s = Inr t \<Longrightarrow>
   counters t = counters s \<and> answer_keys t = answer_keys s \<and> ast_keys t = ast_keys s \<and> g_route_target t = g_route_target s
   \<and> g_termination_reason t = g_termination_reason s"
  by (auto simp: rest_tool_node_def rbind_eq_Inr_iff Let_def)

lemma graph_tool_frame:
  "graph_tool_node f s = Inr t \<Longrightarrow>
   counters t = counters s \<and> answer_keys t = answer_keys s \<and> ast_keys t = ast_keys s \<and> g_route_target t = g_route_target s
   \<and> g_termination_reason t = g_termination_reason s"
  by (auto simp: graph_tool_node_def rbind_eq_Inr_iff Let_def)

lemma plan_executor_frame:
  "plan_executor_node f s = Inr t \<Longrightarrow>
   counters t = counters s \<and> answer_keys t = answer_keys s \<and> ast_keys t = ast_keys s \<and> g_route_target t = g_route_target s
   \<and> g_termination_reason t = g_termination_reason s"
  by (auto simp: plan_executor_node_def fallback_empty_result_def rbind_eq_Inr_iff Let_def split: option.splits)

lemma react_frame:
  "react_node f s = Inr t \<Longrightarrow>
   counters t = counters s \<and> answer_keys t = answer_keys s \<and> ast_keys t = ast_keys s \<and> g_route_target t = g_route_target s"
  by (auto simp: react_node_def rbind_eq_Inr_iff split: option.splits)

lemma reflection_cases:
  assumes "reflection_node f s = Inr t"
  obtains r where "t = s\<lparr>g_reflection_result := r\<rparr>"
  using assms by (auto simp: reflection_node_def rbind_eq_Inr_iff)

lemma tool_frame:
  assumes "run_node io n s = Inr t" and "n \<in> tool_nodes"
  shows "counters t = counters s \<and> answer_keys t = answer_keys s \<and> ast_keys t = ast_keys s \<and> g_route_target t = g_route_target s"
  using assms
  by (cases n)
    (auto simp: tool_nodes_def dest: rag_tool_frame db_tool_frame rest_tool_frame graph_tool_frame plan_executor_frame
      react_frame elim!: web_tool_cases fusion_cases reflection_cases)

lemma routed_frame:
  "run_keys (routed d s) = run_keys s"
  by (simp add: routed_def)

lemma apply_skill_plan_frame:
  "run_keys (apply_skill_plan env d k s) = run_keys s"
  by (simp add: apply_skill_plan_def routed_def split: sum.split pyval.split)

lemma finalize_route_frame:
  "run_keys (finalize_route env d s) = run_keys s"
  using apply_skill_plan_frame [of env d]
  by (simp add: finalize_route_def routed_def Let_def split: option.split)

lemma intent_router_frame:
  assumes "intent_router_node env s = Inr t"
  shows "run_keys t = run_keys s"
proof -
  have plan: "run_keys u = run_keys s"
    if "plan_route env tn d s = Inr u" for tn d u
    using that finalize_route_frame [of env]
    by (auto simp: plan_route_def rbind_eq_Inr_iff Let_def split: if_splits option.splits)
  have llm: "run_keys u = run_keys s"
    if "llm_route env tn g d s = Inr u" for tn g d u
    using that finalize_route_frame [of env] routed_frame
    by (auto simp: llm_route_def rbind_eq_Inr_iff Let_def split: if_splits dest!: plan)
  show ?thesis
    using assms finalize_route_frame [of env] routed_frame
    by (auto simp: intent_router_node_def Let_def split: if_splits option.splits dest!: llm)
qed

lemma clarification_frame:
  "run_keys (clarification_node f s) = run_keys s"
  by (simp add: clarification_node_def Let_def split: option.split)

lemma quality_check_frame:
  assumes "quality_check_node s = Inr t"
  shows "answer_keys t = answer_keys s \<and> ast_keys t = ast_keys s \<and> g_termination_reason t = g_termination_reason s
    \<and> (g_max_retries t, g_regenerate_count t) = (g_max_retries s, g_regenerate_count s)
    \<and> (if g_quality_decision t \<in> {''retry_rag'', ''retry_db'', ''retry_graph''}
       then g_retry_count t = g_retry_count s + 1 \<and> g_retry_count s < g_max_retries s
       else g_retry_count t = g_retry_count s)"
  using assms by (rule quality_check_node_cases) (auto simp: decided_def)

lemma fallback_cases:
  assumes "fallback_node s = Inr t"
  obtains a where "t = s\<lparr>g_final_answer := a, g_quality_decision := ''fallback''\<rparr>"
  using assms by (auto simp: fallback_node_def rbind_eq_Inr_iff Let_def simp del: number_or_raise.simps)

lemma renderer_cases:
  assumes "answer_renderer_node v s = Inr t"
  obtains a where "t = s\<lparr>g_final_answer := a\<rparr>"
  using assms by (auto simp: answer_renderer_node_def rbind_eq_Inr_iff Let_def case_Inr_iff split: pyval.splits if_splits)

section \<open>Invariant of the runs\<close>

text \<open>Nodes before the generation of an answer.\<close>

definition before_answer :: "gnode set" where
  "before_answer = tool_nodes \<union> {QuestionInput, IntentRouter, Clarification, QualityCheck, Fallback}"

definition conf_inv :: "graph_conf \<Rightarrow> bool" where
  "conf_inv c \<longleftrightarrow>
     (case c of (n, s) \<Rightarrow>
        (0 \<le> g_retry_count s \<and> g_retry_count s \<le> 3 \<and> g_max_retries s = 3
         \<and> 0 \<le> g_regenerate_count s \<and> g_regenerate_count s \<le> 2)
        \<and> (g_report_artifacts s = [] \<and> ast_keys s = (PNone, []))
        \<and> (n \<in> before_answer \<longrightarrow> (g_generated_answer s, g_hallucination_action s, g_enforcement_mode s) = ([], ''pass'', []))
        \<and> (g_enforcement_mode s = ''enforced'' \<longrightarrow> g_hallucination_action s \<in> {''reject'', ''regenerate''})
        \<and> (n \<in> {AnswerRenderer, Observability, AnswerOutput} \<longrightarrow> g_hallucination_action s \<noteq> ''regenerate''))"

lemma conf_inv_start: "conf_inv (start_conf rq)"
  by (simp add: conf_inv_def start_conf_def build_initial_state_def empty_state_def commit_def)

lemma conf_inv_same:
  assumes "conf_inv (n, s)" and "counters t = counters s" and "answer_keys t = answer_keys s" and "ast_keys t = ast_keys s"
    and "m \<in> before_answer \<longrightarrow> n \<in> before_answer"
    and "m \<in> {AnswerRenderer, Observability, AnswerOutput} \<longrightarrow> g_hallucination_action s \<noteq> ''regenerate''"
  shows "conf_inv (m, commit t)"
  using assms by (auto simp: conf_inv_def)

lemma next_node_before:
  assumes "next_node n s = Some m" and "n \<in> before_answer"
  shows "m \<in> before_answer \<union> {PromptAssembly, Observability}"
  using assms
  by (cases n)
    (auto simp: before_answer_def tool_nodes_def node_names_def route_next_def after_rag_tool_def quality_check_decision_def Let_def
      split: if_splits)

lemma next_node_after:
  assumes "next_node n s = Some m" and "n \<notin> before_answer"
  shows "m \<notin> before_answer"
  using assms
  by (cases n) (auto simp: before_answer_def tool_nodes_def node_names_def hallucination_decision_def split: if_splits)

lemma enforcement_value_eq: "enforcement_value e = ''enforced'' \<longleftrightarrow> e = Enforced"
  by (cases e) simp_all

lemma conf_inv_hallucination:
  assumes "conf_inv (Hallucination, s)" and "hallucination_node env s = Inr t"
    and "next_node Hallucination (commit t) = Some m"
  shows "conf_inv (m, commit t)"
proof -
  from assms(2) obtain e where e: "node_enforcement s = Inr e" and c: "checked s e t"
    by (rule hallucination_node_checked)
  have "e = Enforced \<Longrightarrow> g_hallucination_action t \<in> {''reject'', ''regenerate''}"
    using enforced_without_ast [OF assms(2)] e assms(1) by (simp add: conf_inv_def)
  moreover have "m \<noteq> AnswerOutput \<and> m \<notin> before_answer"
    "m \<in> {AnswerRenderer, Observability} \<longrightarrow> g_hallucination_action t \<noteq> ''regenerate''"
    using assms(3) by (auto simp: hallucination_decision_def node_names_def before_answer_def tool_nodes_def split: if_splits)
  ultimately show ?thesis
    using assms(1) c by (auto simp: conf_inv_def checked_def enforcement_value_eq)
qed

lemma conf_inv_before:
  assumes "conf_inv (n, s)" and "n \<in> before_answer" and "run_node io n s = Inr t" and "next_node n (commit t) = Some m"
    and "n \<noteq> QualityCheck" and "n \<noteq> QuestionInput"
  shows "conf_inv (m, commit t)"
proof -
  have "counters t = counters s \<and> answer_keys t = answer_keys s \<and> ast_keys t = ast_keys s"
  proof (cases "n \<in> tool_nodes")
    case True
    with tool_frame [OF assms(3)] show ?thesis by blast
  next
    case False
    with assms(2,3,5,6) show ?thesis
      by (auto simp: before_answer_def dest: intent_router_frame elim!: fallback_cases)
        (use clarification_frame in auto)
  qed
  moreover have "g_hallucination_action s \<noteq> ''regenerate''" using assms(1,2) by (simp add: conf_inv_def)
  ultimately show ?thesis using conf_inv_same [OF assms(1)] assms(2) by blast
qed

lemma conf_inv_step:
  assumes "graph_step c d" and "conf_inv c"
  shows "conf_inv d"
  using assms
proof (cases rule: graph_step.cases)
  case (step io n s t m)
  note inv = assms(2) [unfolded step(1)]
  have pass: "g_hallucination_action s \<noteq> ''regenerate''" if "n \<in> {AnswerRenderer, Observability}"
    using inv that by (auto simp: conf_inv_def)
  consider "n \<in> before_answer - {QualityCheck, QuestionInput}" | "n = QualityCheck" | "n = QuestionInput"
    | "n = PromptAssembly" | "n = LlmGenerate" | "n = Hallucination" | "n = AnswerRenderer" | "n = Observability"
    | "n = AnswerOutput"
    by (cases n) (auto simp: before_answer_def tool_nodes_def)
  then have "conf_inv (m, commit t)"
  proof cases
    case 1
    with conf_inv_before [OF inv] step(3,4) show ?thesis by blast
  next
    case 2
    with step(3) have q: "quality_check_node s = Inr t" by simp
    have "m \<noteq> AnswerRenderer \<and> m \<noteq> Observability \<and> m \<noteq> AnswerOutput"
      using step(4) 2 by (auto simp: node_names_def quality_check_decision_def split: if_splits)
    with quality_check_frame [OF q] inv 2 show ?thesis
      by (auto simp: conf_inv_def before_answer_def split: if_splits)
  next
    case 3
    with step inv show ?thesis
      by (auto simp: conf_inv_def user_question_node_def before_answer_def split: if_splits prod.splits)
  next
    case 4
    with step(3,4) show ?thesis
      by (auto elim!: prompt_cases intro!: conf_inv_same [OF inv] simp: before_answer_def tool_nodes_def)
  next
    case 5
    with step(3,4) inv show ?thesis
      by (auto simp: conf_inv_def llm_generate_node_def before_answer_def tool_nodes_def)
  next
    case 6
    with conf_inv_hallucination inv step(3,4) show ?thesis by auto
  next
    case 7
    with step(3,4) pass show ?thesis
      by (auto elim!: renderer_cases intro!: conf_inv_same [OF inv] simp: before_answer_def tool_nodes_def)
  next
    case 8
    with step(3,4) pass show ?thesis
      by (auto intro!: conf_inv_same [OF inv] simp: before_answer_def tool_nodes_def)
  next
    case 9
    with step(4) show ?thesis by simp
  qed
  with step(2) show ?thesis by simp
qed

interpretation runs: inductive_invariant "\<lambda>c. \<exists>rq. c = start_conf rq" graph_step conf_inv
  by unfold_locales (auto simp: conf_inv_start intro: conf_inv_step)

lemma reachable_conf_inv: "reachable rq c \<Longrightarrow> conf_inv c"
  unfolding reachable_def by (rule runs.reachable_inv) blast

end
