(* ===== verification/Agent_Runs.thy ===== *)
theory Agent_Runs
  imports Agent_Graph
begin

text \<open>
  Properties of the runs of the main graph: they end unless they ask the user again or fall back to the
  web; what the counters reach; when a run cannot answer; and what it answers. The last section has
  runs in a concrete environment.
\<close>

section \<open>Runs end unless they fall back to the web or ask the user\<close>

text \<open>A rank that falls along every edge that does not return to an earlier stage.\<close>

fun rank :: "gnode \<Rightarrow> nat" where
  "rank QuestionInput = 15" | "rank Clarification = 14" | "rank IntentRouter = 13"
| "rank RagTool = 12" | "rank DbTool = 11" | "rank WebTool = 11" | "rank PlanExecutor = 11"
| "rank ReactSubgraph = 11" | "rank RestTool = 11" | "rank GraphTool = 11"
| "rank EvidenceFusion = 10" | "rank Reflection = 9" | "rank QualityCheck = 8" | "rank PromptAssembly = 7"
| "rank LlmGenerate = 6" | "rank Hallucination = 5" | "rank AnswerRenderer = 4" | "rank Fallback = 4"
| "rank Observability = 3" | "rank AnswerOutput = 2"

text \<open>Progress: the entry node, then the retries left, then the regenerations left, then the rank.\<close>

definition progress :: "(graph_conf \<times> graph_conf) set" where
  "progress = measures [\<lambda>(n, s). if n = QuestionInput then 1 else 0, \<lambda>(n, s). nat (g_max_retries s - g_retry_count s),
     \<lambda>(n, s). nat (2 - g_regenerate_count s), \<lambda>(n, s). rank n]"

text \<open>The steps that are neither a question to the user nor the gate's fallback to the web.\<close>

definition direct_step :: "graph_conf \<Rightarrow> graph_conf \<Rightarrow> bool" where
  "direct_step c d \<longleftrightarrow> graph_step c d \<and> fst d \<noteq> Clarification \<and> \<not> (fst c = QualityCheck \<and> fst d = WebTool)"

lemma progress_rank:
  "counters t = counters s \<Longrightarrow> rank m < rank n \<Longrightarrow> n \<noteq> QuestionInput \<Longrightarrow> m \<noteq> QuestionInput
   \<Longrightarrow> ((m, commit t), (n, s)) \<in> progress"
  by (simp add: progress_def)

lemma next_rank:
  assumes "next_node n s = Some m" and "n \<noteq> QualityCheck" and "n \<noteq> Hallucination" and "m \<noteq> Clarification"
  shows "rank m < rank n \<and> m \<noteq> QuestionInput"
  using assms
  by (cases n) (auto simp: node_names_def route_next_def after_rag_tool_def Let_def split: if_splits)

lemma direct_step_progress:
  assumes "direct_step c d"
  shows "(d, c) \<in> progress"
proof -
  from assms obtain io n s t m where c: "c = (n, s)" and d: "d = (m, commit t)" and run: "run_node io n s = Inr t"
    and nxt: "next_node n (commit t) = Some m" and cl: "m \<noteq> Clarification" and web: "\<not> (n = QualityCheck \<and> m = WebTool)"
    unfolding direct_step_def by (auto elim!: graph_step.cases)
  consider "n = QuestionInput" | "n = QualityCheck" | "n = Hallucination" | "n \<notin> {QuestionInput, QualityCheck, Hallucination}"
    by blast
  then show ?thesis
  proof cases
    case 1
    with nxt c d show ?thesis by (auto simp: progress_def)
  next
    case 2
    with run have q: "quality_check_node s = Inr t" by simp
    have retry: "g_quality_decision t \<in> {''retry_rag'', ''retry_db'', ''retry_graph''} \<or> rank m < rank QualityCheck"
      and "m \<noteq> QuestionInput"
      using nxt 2 web by (auto simp: node_names_def quality_check_decision_def split: if_splits)
    with quality_check_frame [OF q] 2 c d show ?thesis
      by (auto simp: progress_def split: if_splits)
  next
    case 3
    with run have "hallucination_node (io_hallucination io) s = Inr t" by simp
    then obtain e where "checked s e t" by (rule hallucination_node_checked)
    moreover have "g_hallucination_action t = ''regenerate'' \<or> rank m < rank Hallucination" and "m \<noteq> QuestionInput"
      using nxt 3 by (auto simp: node_names_def hallucination_decision_def split: if_splits)
    ultimately show ?thesis using 3 c d by (auto simp: progress_def checked_def split: if_splits)
  next
    case 4
    have "counters t = counters s"
    proof (cases "n \<in> tool_nodes")
      case True
      with tool_frame [OF run] show ?thesis by blast
    next
      case False
      with 4 run show ?thesis
        by (cases n) (auto simp: tool_nodes_def llm_generate_node_def final_answer_node_def rbind_eq_Inr_iff
            clarification_frame [simplified] dest: intent_router_frame
            elim!: fallback_cases renderer_cases prompt_cases split: list.splits)
    qed
    with progress_rank next_rank [OF nxt _ _ cl] 4 c d show ?thesis by auto
  qed
qed

text \<open>C1: every run ends, whatever the tools, the language model and the verifier do, as long as it
  neither asks the user again nor falls back to the web from the quality gate: there is no infinite
  sequence of other steps, from any state. Retries of a tool and regenerations of an answer are cut
  off by their counters.\<close>

theorem direct_runs_terminate: "wf {(d, c). direct_step c d}"
proof (rule wf_subset)
  show "wf progress" unfolding progress_def by (rule wf_measures)
  show "{(d, c). direct_step c d} \<subseteq> progress" using direct_step_progress by auto
qed

section \<open>Bounds\<close>

text \<open>C6: in every reachable state of the graph a tool has been retried at most three times and an
  answer regenerated at most twice; no node ever stores an answer structure or claims, nor keeps a
  report.\<close>

theorem run_counters_bounded:
  assumes "reachable rq (n, s)"
  shows "0 \<le> g_retry_count s \<and> g_retry_count s \<le> 3 \<and> 0 \<le> g_regenerate_count s \<and> g_regenerate_count s \<le> 2
    \<and> g_answer_ast s = PNone \<and> g_claims s = [] \<and> g_report_artifacts s = []"
  using reachable_conf_inv [OF assms] by (simp add: conf_inv_def)

section \<open>The fallback to the web\<close>

lemma commit_idem [simp]: "commit (commit s) = commit s"
  by (simp add: commit_def)

lemma reachable_committed:
  assumes "reachable rq (n, s)"
  shows "commit s = s"
  using assms unfolding reachable_def
  by (cases rule: rtranclp.cases) (auto simp: start_conf_def elim!: graph_step.cases)

definition web_cycle :: "gnode set" where
  "web_cycle = {WebTool, EvidenceFusion, Reflection, QualityCheck}"

text \<open>A state in which the gate falls back to the web, and which no node of the cycle changes for the
  gate.\<close>

definition stuck :: "graph_state \<Rightarrow> bool" where
  "stuck s \<longleftrightarrow> commit s = s \<and> g_termination_reason s = [] \<and> quality_check_node s = Inr (decided ''fallback_web'' s)"

lemma decided_web: "decided ''fallback_web'' s = s\<lparr>g_quality_decision := ''fallback_web''\<rparr>"
  by (simp add: decided_def)

text \<open>What the gate reads is not touched by web search, fusion, reflection and its own decision.\<close>

lemma gate_views:
  "target_of (s\<lparr>g_web_docs := w\<rparr>) = target_of s" "verdict_decision (s\<lparr>g_web_docs := w\<rparr>) = verdict_decision s"
  "target_of (s\<lparr>g_evidence := v, g_tool_token_counts := c, g_rag_docs := ds\<rparr>) = target_of s"
  "verdict_decision (s\<lparr>g_evidence := v, g_tool_token_counts := c, g_rag_docs := ds\<rparr>) = verdict_decision s"
  "target_of (s\<lparr>g_reflection_result := r\<rparr>) = target_of s"
  "verdict_decision (s\<lparr>g_reflection_result := r\<rparr>) = verdict_decision s"
  "target_of (s\<lparr>g_quality_decision := d\<rparr>) = target_of s"
  "verdict_decision (s\<lparr>g_quality_decision := d\<rparr>) = verdict_decision s"
  by (simp_all add: target_of_def verdict_decision_def Let_def)

lemma gate_reads:
  "quality_inputs (s\<lparr>g_web_docs := w\<rparr>) = quality_inputs s" "gate (s\<lparr>g_web_docs := w\<rparr>) = gate s"
  "quality_inputs (s\<lparr>g_evidence := v, g_tool_token_counts := c, g_rag_docs := ds\<rparr>) = quality_inputs s"
  "gate (s\<lparr>g_evidence := v, g_tool_token_counts := c, g_rag_docs := ds\<rparr>) = gate s"
  "quality_inputs (s\<lparr>g_reflection_result := r\<rparr>) = quality_inputs s" "gate (s\<lparr>g_reflection_result := r\<rparr>) = gate s"
  "quality_inputs (s\<lparr>g_quality_decision := d\<rparr>) = quality_inputs s" "gate (s\<lparr>g_quality_decision := d\<rparr>) = gate s"
  by (cases "verdict_decision s";
      simp add: quality_inputs_def gate_def gate_views Quality_Check.token_budget_def Let_def fun_eq_iff
      del: number_or_raise.simps)+

lemma gate_decision_iff:
  "quality_check_node s = Inr (decided ''fallback_web'' s) \<longleftrightarrow>
     (\<exists>score relevant cnt source. quality_inputs s = Inr (score, relevant, cnt, source)
        \<and> decided (gate s score relevant cnt source) s = decided ''fallback_web'' s)"
  by (auto simp: quality_check_node_def rbind_eq_Inr_iff)

lemma decided_inject: "decided d s = decided e s \<longleftrightarrow> d = e"
  by (metis decided_simps(1))

lemma commit_update:
  "commit (s\<lparr>g_web_docs := w\<rparr>) = (commit s)\<lparr>g_web_docs := w\<rparr>"
  "commit (s\<lparr>g_evidence := v, g_tool_token_counts := c, g_rag_docs := ds\<rparr>) = (commit s)\<lparr>g_evidence := v, g_tool_token_counts := c, g_rag_docs := ds\<rparr>"
  "commit (s\<lparr>g_reflection_result := r\<rparr>) = (commit s)\<lparr>g_reflection_result := r\<rparr>"
  "commit (s\<lparr>g_quality_decision := d\<rparr>) = (commit s)\<lparr>g_quality_decision := d\<rparr>"
  by (simp_all add: commit_def)

lemma stuck_updates:
  assumes "stuck s"
  shows "stuck (s\<lparr>g_web_docs := w\<rparr>)" "stuck (s\<lparr>g_evidence := v, g_tool_token_counts := c, g_rag_docs := ds\<rparr>)" "stuck (s\<lparr>g_reflection_result := r\<rparr>)"
    "stuck (s\<lparr>g_quality_decision := d\<rparr>)"
  using assms unfolding stuck_def gate_decision_iff decided_inject gate_reads
  by (auto simp: commit_update)

lemma stuck_step:
  assumes "graph_step (n, s) (m, t)" and "n \<in> web_cycle" and "stuck s"
  shows "m \<in> web_cycle \<and> stuck t"
  using assms(1)
proof (cases rule: graph_step.cases)
  case (step io u)
  have "stuck u \<and> (n = QualityCheck \<longrightarrow> u = decided ''fallback_web'' s)"
    using step assms(2,3) stuck_updates [OF assms(3)]
    by (auto simp: web_cycle_def stuck_def decided_web elim!: web_tool_cases fusion_cases reflection_cases)
  with step assms(2) show ?thesis
    by (auto simp: web_cycle_def stuck_def node_names_def quality_check_decision_def)
qed

lemma stuck_run:
  assumes "graph_step\<^sup>*\<^sup>* (n, s) (m, t)" and "n \<in> web_cycle" and "stuck s"
  shows "m \<in> web_cycle \<and> stuck t"
  using assms(1)
proof (induction "(m, t)" arbitrary: m t rule: rtranclp_induct)
  case base
  with assms show ?case by simp
next
  case (step d)
  obtain k u where "d = (k, u)" by fastforce
  with step stuck_step show ?case by blast
qed

text \<open>C33: the fallback to the web never leads to an answer. Once the quality gate of a run sends it to
  the web search, the run stays in the cycle web search, fusion, reflection, gate: what the gate reads
  is not changed by the web results, so it decides the same again, whatever the search finds. No run
  goes on from there to the generation or output of an answer.\<close>

theorem web_fallback_never_answers:
  assumes "reachable rq (QualityCheck, s)" and "graph_step (QualityCheck, s) (WebTool, t)"
    and "graph_step\<^sup>*\<^sup>* (WebTool, t) (m, u)"
  shows "m \<in> {WebTool, EvidenceFusion, Reflection, QualityCheck}"
proof -
  from assms(2) obtain v where v: "quality_check_node s = Inr v" "t = commit v"
    "next_node QualityCheck (commit v) = Some WebTool"
    by (auto elim!: graph_step.cases)
  from v(1) obtain d where d: "v = decided d s" by (rule quality_check_node_cases)
  with v(3) have "d = ''fallback_web'' \<and> g_termination_reason s = []"
    by (auto simp: node_names_def quality_check_decision_def split: if_splits)
  with v(1) d reachable_committed [OF assms(1)] have "stuck s" by (simp add: stuck_def)
  with stuck_step [OF assms(2)] have "stuck t" by (simp add: web_cycle_def)
  with stuck_run [OF assms(3)] show ?thesis by (simp add: web_cycle_def)
qed

text \<open>A question routed to the web or to a REST service is never answered: the gate has no score for
  these routes, so from the tool on every run stays in the cycle of the web search.\<close>

theorem unscored_routes_never_answer:
  assumes "reachable rq (n, s)" and "n \<in> {WebTool, RestTool}" and "unscored (target_of s)"
    and "g_termination_reason s = []" and "graph_step\<^sup>*\<^sup>* (n, s) (m, u)"
  shows "m = n \<or> m \<in> {WebTool, EvidenceFusion, Reflection, QualityCheck}"
proof -
  have stuck: "stuck v" if "commit v = v" "g_termination_reason v = []" "g_route_target v = g_route_target s" for v
    using that assms(3) unscored_falls_back [of v] by (simp add: stuck_def target_of_def)
  show ?thesis
  proof (cases "n = WebTool")
    case True
    with stuck_run [OF assms(5)] stuck [of s] reachable_committed [OF assms(1)] assms(4) show ?thesis
      by (simp add: web_cycle_def)
  next
    case False
    with assms(2) have n: "n = RestTool" by simp
    from assms(5) show ?thesis
    proof (cases rule: converse_rtranclpE)
      case (step c)
      from step(1) obtain f t where t: "rest_tool_node f s = Inr t" "c = (EvidenceFusion, commit t)"
        unfolding n by (auto elim!: graph_step.cases)
      with rest_tool_frame [OF t(1)] assms(4) have "stuck (commit t)" by (intro stuck) simp_all
      with step(2) stuck_run t(2) show ?thesis by (auto simp: web_cycle_def)
    qed simp
  qed
qed

section \<open>What a run answers\<close>

lemma answers_plain:
  assumes "reachable rq (AnswerOutput, s)" and "answers (AnswerOutput, s) a"
  shows "a = plain_final_answer s"
  using reachable_conf_inv [OF assms(1)] assms(2) by (auto simp: conf_inv_def answers_def final_answer_node_def)

text \<open>The answer given out is decided by the last check alone. Whatever the renderer or the fallback
  node wrote before, the output of a run is a refusal if the check rejected the answer, the beginning
  of the retrieved context (or a refusal) if regeneration was exhausted, and in every other case,
  filtering included, the text of the language model as it was generated.\<close>

theorem output_is_the_generated_text:
  assumes "reachable rq (AnswerOutput, s)" and "answers (AnswerOutput, s) a"
  shows "a =
    (if g_hallucination_action s = ''reject'' \<or> g_hallucination_action s = ''exhausted'' \<and> g_merged_context s = []
     then Rejection (known_lang (g_query_lang s))
     else if g_hallucination_action s = ''exhausted''
     then Conservative (known_lang (g_query_lang s)) (u_take 2000 (g_merged_context s))
     else Plain (g_generated_answer s))"
  using answers_plain [OF assms]
  by (simp add: plain_final_answer_def get_rejection_message_def get_conservative_answer_def)

text \<open>With enforced verification no question is ever answered. No node stores the structure of an
  answer, which the check demands in this mode, so every run whose check is enforced ends with a
  refusal.\<close>

theorem enforced_mode_only_refuses:
  assumes "reachable rq (AnswerOutput, s)" and "answers (AnswerOutput, s) a" and "g_enforcement_mode s = ''enforced''"
  shows "a = Rejection (known_lang (g_query_lang s))"
proof -
  from reachable_conf_inv [OF assms(1)] assms(3) have "g_hallucination_action s = ''reject''"
    by (auto simp: conf_inv_def)
  with answers_plain [OF assms(1,2)] show ?thesis
    by (simp add: plain_final_answer_def get_rejection_message_def)
qed

lemma hallucination_termination:
  "hallucination_node env s = Inr t \<Longrightarrow> g_termination_reason t = g_termination_reason s"
  by (erule hallucination_node_checked) (simp add: checked_def)

lemma termination_frame:
  assumes "run_node io n s = Inr t" and "n \<noteq> ReactSubgraph"
  shows "g_termination_reason t = g_termination_reason s"
  using assms
  by (cases n) (auto simp: llm_generate_node_def final_answer_node_def user_question_node_def rbind_eq_Inr_iff
      clarification_frame [simplified]
      dest: rag_tool_frame db_tool_frame rest_tool_frame graph_tool_frame plan_executor_frame intent_router_frame
      quality_check_frame hallucination_termination
      elim!: web_tool_cases fusion_cases reflection_cases fallback_cases renderer_cases prompt_cases
      split: list.splits prod.splits)

text \<open>A run with a reason to terminate goes straight to the fallback and to the output.\<close>

definition terminated_inv :: "graph_conf \<Rightarrow> bool" where
  "terminated_inv c \<longleftrightarrow>
     conf_inv c \<and>
     (case c of (n, s) \<Rightarrow>
        g_termination_reason s \<noteq> [] \<longrightarrow>
          n \<in> {EvidenceFusion, Reflection, QualityCheck, Fallback, Observability, AnswerOutput}
          \<and> (g_generated_answer s, g_hallucination_action s) = ([], ''pass''))"

lemma terminated_inv_step:
  assumes "graph_step c d" and "terminated_inv c"
  shows "terminated_inv d"
  using assms(1)
proof (cases rule: graph_step.cases)
  case (step io n s t m)
  from assms(2) step(1) have inv: "conf_inv (n, s)" by (simp add: terminated_inv_def)
  show ?thesis
  proof (cases "g_termination_reason t = []")
    case True
    with conf_inv_step [OF assms(1)] step(1,2) inv show ?thesis by (simp add: terminated_inv_def)
  next
    case t: False
    show ?thesis
    proof (cases "n = ReactSubgraph")
      case True
      with step(3) react_frame have "answer_keys t = answer_keys s" by auto
      with inv True have "(g_generated_answer t, g_hallucination_action t) = ([], ''pass'')"
        by (simp add: conf_inv_def before_answer_def tool_nodes_def)
      with True conf_inv_step [OF assms(1)] step inv show ?thesis by (simp add: terminated_inv_def)
    next
      case False
      with termination_frame [OF step(3)] t assms(2) step(1)
      have n: "n \<in> {EvidenceFusion, Reflection, QualityCheck, Fallback, Observability, AnswerOutput}"
        "(g_generated_answer s, g_hallucination_action s) = ([], ''pass'')"
        by (auto simp: terminated_inv_def)
      have "answer_keys t = answer_keys s"
        using n(1) step(3,4) by (auto elim!: fusion_cases reflection_cases fallback_cases dest!: quality_check_frame)
      moreover have "m \<in> {EvidenceFusion, Reflection, QualityCheck, Fallback, Observability, AnswerOutput}"
        using n(1) step(4) t by (auto simp: quality_check_decision_def node_names_def)
      ultimately show ?thesis
        using n(2) conf_inv_step [OF assms(1)] step(1,2) inv by (simp add: terminated_inv_def)
    qed
  qed
qed

interpretation terminations: inductive_invariant "\<lambda>c. \<exists>rq. c = start_conf rq" graph_step terminated_inv
proof unfold_locales
  fix c :: graph_conf
  assume "\<exists>rq. c = start_conf rq"
  then show "terminated_inv c"
    by (auto simp: terminated_inv_def conf_inv_start) (auto simp: start_conf_def build_initial_state_def empty_state_def)
qed (rule terminated_inv_step)

text \<open>A run that the ReAct subgraph terminates (its budget is used up, it repeats itself, its
  retrieval gets worse or its tools are refused) answers with the empty text: the explanation that the
  fallback node writes for the user is overwritten by the output node.\<close>

theorem terminated_runs_answer_nothing:
  assumes "reachable rq (AnswerOutput, s)" and "answers (AnswerOutput, s) a" and "g_termination_reason s \<noteq> []"
  shows "a = Plain []"
proof -
  from assms(1) have "terminated_inv (AnswerOutput, s)"
    unfolding reachable_def by (intro terminations.reachable_inv [where s = "start_conf rq"]) auto
  with assms(3) answers_plain [OF assms(1,2)] show ?thesis
    by (simp add: terminated_inv_def plain_final_answer_def)
qed

lemma node_enforcement_cong:
  assumes "g_enforcement_mode t = g_enforcement_mode s" and "g_run_mode t = g_run_mode s"
    and "g_route_target t = g_route_target s" and "g_agent_config t = g_agent_config s"
  shows "node_enforcement t = node_enforcement s"
  unfolding node_enforcement_def node_run_mode_def assms ..

text \<open>C2: a good answer is given. In a given environment and a committed state without an answer tree (no node
  writes one), if the prompt can be assembled, the language model is configured and returns a text that is
  not empty and without the error mark \<open>**ERROR**\<close>, verification is not enforced, and
  there is no evidence to check the text against or the verifier gives it a score of at least 0.6, then
  the run goes from the assembly of the prompt to the output in five steps, and its only answer is this
  very text.\<close>

theorem good_answer_is_given:
  fixes io :: graph_io
  assumes "commit s = s" and "g_answer_ast s = PNone"
    and "prompt_of (io_prompt io) s = Inr (ctx, p)" and "g_tenant_id s \<noteq> []" and "g_llm_id s \<noteq> []"
    and "io_models io (g_tenant_id s) (g_llm_id s) = Some chat" and "chat p = Inr a" and "a \<noteq> []"
    and "\<not> contains ''**ERROR**'' a"
    and "node_enforcement s = Inr e" and "e \<noteq> Enforced"
    and "g_evidence s = [] \<or> (\<exists>c q. evidence_context (g_evidence s) = Inr c
           \<and> gateway_score (io_hallucination io) c (s\<lparr>g_generated_answer := a\<rparr>) = Inr q \<and> q \<ge> 6/10)"
  shows "\<exists>u. exec_steps io 5 (PromptAssembly, s) = Some (AnswerOutput, u)
    \<and> (\<forall>b. answers (AnswerOutput, u) b \<longleftrightarrow> b = Plain a)"
proof -
  note nonempty = prompt_nonempty [OF assms(3)]
  let ?s1 = "commit (s\<lparr>g_merged_context := ctx, g_final_prompt := p\<rparr>)"
  let ?s2 = "commit (?s1\<lparr>g_generated_answer := a\<rparr>)"
  have run1: "exec_steps io 2 (PromptAssembly, s) = Some (Hallucination, ?s2)"
    using assms(3-7,9) nonempty
    by (simp add: numeral_2_eq_2 prompt_assembly_node_def llm_generate_node_def get_chat_model_def commit_def)
  have mode: "node_enforcement ?s2 = Inr e"
    unfolding assms(10) [symmetric] by (rule node_enforcement_cong) simp_all
  have gw: "gateway_score env c ?s2 = gateway_score env c (s\<lparr>g_generated_answer := a\<rparr>)" for env c
    by (simp add: gateway_score_def commit_def)
  obtain q where t: "hallucination_node (io_hallucination io) ?s2
      = Inr (base_return e q (if q \<ge> 85/100 then ''pass'' else ''filter'') ?s2)" and q: "q \<ge> 6/10"
  proof (cases "g_evidence s = []")
    case True
    with mode assms(8,11) that [of 1] show thesis by (simp add: hallucination_node_def commit_def)
  next
    case False
    with assms(12) obtain c q where c: "evidence_context (g_evidence s) = Inr c"
      "gateway_score (io_hallucination io) c ?s2 = Inr q" "q \<ge> 6/10"
      unfolding gw by blast
    have ev: "g_evidence ?s2 = g_evidence s" "g_generated_answer ?s2 = a" by (simp_all add: commit_def)
    show thesis
    proof (cases "is_feature_enabled (he_config (io_hallucination io)) ''hallucination''")
      case True
      with c ev mode False assms(8,11) show thesis
        by (intro that [of q])
          (simp_all add: hallucination_node_def verify_answer_def disposed_def dispose_def PASS_THRESHOLD_def
            FILTER_THRESHOLD_def Let_def)
    next
      case off: False
      with c ev mode False assms(8,11) show thesis
        by (intro that [of 1]) (simp_all add: hallucination_node_def)
    qed
  qed
  let ?t = "base_return e q (if q \<ge> 85/100 then ''pass'' else ''filter'') ?s2"
  have run2: "exec_steps io 3 (Hallucination, ?s2)
      = Some (AnswerOutput, commit (commit (?t)\<lparr>g_final_answer := Plain a\<rparr>))"
    using t assms(2)
    by (simp add: numeral_3_eq_3 hallucination_decision_def node_names_def answer_renderer_node_def
        base_return_def Let_def commit_def)
  have "exec_steps io 5 (PromptAssembly, s) = Some (AnswerOutput, commit (commit (?t)\<lparr>g_final_answer := Plain a\<rparr>))"
    using exec_steps_add [OF run1, of 3] run2 by simp
  moreover have "answers (AnswerOutput, commit (commit (?t)\<lparr>g_final_answer := Plain a\<rparr>)) b \<longleftrightarrow> b = Plain a" for b
    by (simp add: answers_def final_answer_node_def plain_final_answer_def base_return_def commit_def)
  ultimately show ?thesis by blast
qed

section \<open>Tenants\<close>

text \<open>The nodes other than fusion and the ReAct subgraph leave the tenant and the evidence alone.\<close>

abbreviation tenant_keys :: "graph_state \<Rightarrow> string \<times> pdict list" where
  "tenant_keys s \<equiv> (g_tenant_id s, g_evidence s)"

lemma router_tenant_frame:
  assumes "intent_router_node env s = Inr t"
  shows "tenant_keys t = tenant_keys s"
proof -
  have routed: "tenant_keys (routed d u) = tenant_keys u" for d u by (simp add: routed_def)
  have "tenant_keys (apply_skill_plan env d k u) = tenant_keys u" for d k u
    by (simp add: apply_skill_plan_def routed_def split: sum.split pyval.split)
  then have fin: "tenant_keys (finalize_route env d u) = tenant_keys u" for d u
    by (simp add: finalize_route_def routed_def Let_def split: option.split)
  have plan: "tenant_keys u = tenant_keys s" if "plan_route env tn d s = Inr u" for tn d u
    using that fin by (auto simp: plan_route_def rbind_eq_Inr_iff Let_def split: if_splits option.splits)
  have llm: "tenant_keys u = tenant_keys s" if "llm_route env tn g d s = Inr u" for tn g d u
    using that fin routed by (auto simp: llm_route_def rbind_eq_Inr_iff Let_def split: if_splits dest!: plan)
  show ?thesis
    using assms fin routed by (auto simp: intent_router_node_def Let_def split: if_splits option.splits dest!: llm)
qed

lemma tool_tenant:
  "rag_tool_node f s = Inr t \<Longrightarrow> tenant_keys t = tenant_keys s"
  "rest_tool_node g s = Inr t \<Longrightarrow> tenant_keys t = tenant_keys s"
  "graph_tool_node h s = Inr t \<Longrightarrow> tenant_keys t = tenant_keys s"
  "plan_executor_node p s = Inr t \<Longrightarrow> tenant_keys t = tenant_keys s"
  by (auto simp: empty_rag_state_def rag_update_def rest_tool_node_def graph_tool_node_def plan_executor_node_def
      fallback_empty_result_def rbind_eq_Inr_iff Let_def split: option.splits elim!: rag_tool_cases)

lemma check_tenant:
  "tenant_keys (base_return e q a s) = tenant_keys s" "tenant_keys (rejected e r s) = tenant_keys s"
  "tenant_keys (disposed e q s) = tenant_keys s" "tenant_keys (verify_answer env e c s) = tenant_keys s"
  by (simp_all add: base_return_def rejected_def disposed_def verify_answer_def Let_def split: sum.split)

lemma hallucination_tenant:
  assumes "hallucination_node v s = Inr t"
  shows "tenant_keys t = tenant_keys s"
  using assms check_tenant unfolding hallucination_node_def by (auto simp: rbind_eq_Inr_iff split: if_splits)

lemma answer_tenant:
  "quality_check_node s = Inr t \<Longrightarrow> tenant_keys t = tenant_keys s"
  "final_answer_node s = Inr t \<Longrightarrow> tenant_keys t = tenant_keys s"
  "tenant_keys (clarification_node f s) = tenant_keys s"
  "tenant_keys (user_question_node l s) = tenant_keys s"
  "tenant_keys (llm_generate_node m s) = tenant_keys s"
  by (auto simp: decided_def final_answer_node_def clarification_node_def user_question_node_def llm_generate_node_def
      rbind_eq_Inr_iff Let_def split: option.splits prod.splits if_splits list.splits elim!: quality_check_node_cases)

lemma node_tenant:
  assumes "run_node io n s = Inr t" and "n \<notin> {EvidenceFusion, ReactSubgraph}"
  shows "tenant_keys t = tenant_keys s"
  using assms
  by (cases n)
    (auto dest: router_tenant_frame tool_tenant answer_tenant(1,2) hallucination_tenant simp: answer_tenant(3-5) [simplified]
      elim!: db_tool_cases web_tool_cases reflection_cases prompt_cases renderer_cases fallback_cases)

text \<open>Steps outside of the ReAct subgraph, and the evidence they keep.\<close>

definition plain_step :: "graph_conf \<Rightarrow> graph_conf \<Rightarrow> bool" where
  "plain_step c d \<longleftrightarrow> graph_step c d \<and> fst c \<noteq> ReactSubgraph"

definition tenant_inv :: "run_request \<Rightarrow> graph_conf \<Rightarrow> bool" where
  "tenant_inv rq c \<longleftrightarrow>
     (case c of (n, s) \<Rightarrow> g_tenant_id s = rq_tenant_id rq \<and> length (g_evidence s) \<le> 20
        \<and> (\<forall>ev \<in> set (g_evidence s). dget ev ''tenant_id'' = PStr (rq_tenant_id rq)))"

lemma tenant_inv_step:
  assumes "plain_step c d" and "tenant_inv rq c"
  shows "tenant_inv rq d"
proof -
  from assms(1) obtain io n s t m where c: "c = (n, s)" and d: "d = (m, commit t)" and run: "run_node io n s = Inr t"
    and n: "n \<noteq> ReactSubgraph"
    unfolding plain_step_def by (auto elim!: graph_step.cases)
  have "g_tenant_id (commit t) = g_tenant_id t" "g_evidence (commit t) = g_evidence t" by (simp_all add: commit_def)
  moreover have "g_tenant_id t = g_tenant_id s \<and> length (g_evidence t) \<le> 20
      \<and> (\<forall>ev \<in> set (g_evidence t). ev \<in> set (g_evidence s) \<or> dget ev ''tenant_id'' = PStr (g_tenant_id s))"
  proof (cases "n = EvidenceFusion")
    case True
    with run have f: "evidence_fusion_node (io_fusion io) s = Inr t" by simp
    then have "g_tenant_id t = g_tenant_id s" by (rule fusion_cases) simp
    with fusion_node_out [OF f] show ?thesis by (auto simp: wf_evidence_def)
  next
    case False
    with node_tenant [OF run] n assms(2) c show ?thesis by (simp add: tenant_inv_def)
  qed
  ultimately show ?thesis using assms(2) c d by (auto simp: tenant_inv_def)
qed

text \<open>C7: the evidence of a run stays with its tenant. As long as a run does not enter the ReAct subgraph,
  in every state it reaches there are at most twenty pieces of evidence, and every one of them carries
  the tenant of the request.\<close>

theorem evidence_stays_with_tenant:
  assumes "plain_step\<^sup>*\<^sup>* (start_conf rq) (n, s)"
  shows "g_tenant_id s = rq_tenant_id rq \<and> length (g_evidence s) \<le> 20
    \<and> (\<forall>ev \<in> set (g_evidence s). dget ev ''tenant_id'' = PStr (rq_tenant_id rq))"
proof -
  have "tenant_inv rq (start_conf rq)"
    by (simp add: tenant_inv_def start_conf_def build_initial_state_def empty_state_def commit_def)
  with assms have "tenant_inv rq (n, s)" by (induction rule: rtranclp_induct) (auto intro: tenant_inv_step)
  then show ?thesis by (simp add: tenant_inv_def)
qed

section \<open>Concrete runs\<close>

definition demo_decision :: "string \<Rightarrow> route_decision" where
  "demo_decision t =
     \<lparr>rd_target = t, rd_confidence = 1, rd_source = ''rule'', rd_reason = NoMsg, rd_complexity = ''complex'',
      rd_kb_ids = [], rd_metadata = [(''directive'', PBool True), (''needs_multi_tool'', PBool True)]\<rparr>"

definition demo_router :: "string \<Rightarrow> router_env" where
  "demo_router t =
     \<lparr>rt_pre_filter = (\<lambda>_. Some (demo_decision t)),
      rt_gate = (\<lambda>_. \<lparr>gr_is_complex = False, gr_triggered_signals = [], gr_confidence = 0\<rparr>),
      rt_rule = (\<lambda>_. demo_decision t), rt_rule_to_llm = 7/10, rt_llm = (\<lambda>_ _ d _. Inr d), rt_plan = (\<lambda>_ _ d _. Inr d),
      rt_resolve_skill = (\<lambda>_ _. None), rt_plan_with_skills = (\<lambda>d _ _. Inr d), rt_parse_plan = (\<lambda>_. Inl ValueError)\<rparr>"

text \<open>An environment with one document for every search, a language model that says hello and a ReAct
  subgraph whose budget allows no call of the language model.\<close>

definition demo_io :: "string \<Rightarrow> graph_io" where
  "demo_io t =
     \<lparr>io_lang = (\<lambda>q. (''en'', q)), io_router = demo_router t, io_ask = (\<lambda>_. None), io_rag = (\<lambda>_. Inl ValueError),
      io_db = (\<lambda>_. Inl ValueError), io_web = (\<lambda>_. Inr [[(''content'', PStr ''c'')]]), io_rest = (\<lambda>_. Inl ValueError),
      io_graph = (\<lambda>_ _. Inl ValueError),
      io_plan = \<lparr>pn_parse = (\<lambda>_. Inl ValueError), pn_dispatch = demo_dispatch_env, pn_float_of_str = (\<lambda>_. Inl ValueError)\<rparr>,
      io_react = \<lparr>ri_env = demo_env, ri_now = 1,
        ri_config = (\<lambda>_. empty_agent_config\<lparr>ac_react := ReactSection (empty_react_config\<lparr>rc_max_llm_calls := Some (PInt 0)\<rparr>)\<rparr>)\<rparr>,
      io_fusion = demo_fusion_env,
      io_reflection = \<lparr>re_show_py = (\<lambda>_. []), re_call = (\<lambda>_ _. Inl TimeoutError), re_repair = (\<lambda>_. Inl ValueError)\<rparr>,
      io_prompt = demo_prompt_env, io_models = (\<lambda>_ _. Some (\<lambda>_. Inr ''hello'')),
      io_hallucination = demo_check_env, io_validate = (\<lambda>_. Inl ValueError)\<rparr>"

definition demo_request :: "pdict \<Rightarrow> run_request" where
  "demo_request cfg =
     \<lparr>rq_user_question = ''q'', rq_query_lang = ''en'', rq_tenant_id = ''t'', rq_llm_id = ''m'', rq_kb_ids = [],
      rq_db_id = [], rq_mcp_server_name = [], rq_conversation_history = [], rq_conversation_summary = [],
      rq_agent_config = cfg\<rparr>"

lemma exec_reachable: "exec_steps io k (start_conf rq) = Some c \<Longrightarrow> reachable rq c"
  unfolding reachable_def by (rule exec_steps_run)

lemma exec_node:
  assumes "map_option (\<lambda>(n, s). (n, f s)) (exec_steps io k (start_conf rq)) = Some (n, x)"
  obtains s where "exec_steps io k (start_conf rq) = Some (n, s)" and "reachable rq (n, s)" and "f s = x"
  using assms by (auto intro: exec_reachable)

lemma exec_one: "exec_steps io (Suc 0) c = Some d \<Longrightarrow> graph_step c d"
  by (cases c) (auto split: sum.splits option.splits intro: graph_step.step)

lemma output_answers:
  assumes "reachable rq (AnswerOutput, s)"
  obtains a where "answers (AnswerOutput, s) a"
  using reachable_conf_inv [OF assms] that by (auto simp: conf_inv_def answers_def final_answer_node_def)

lemma demo_web_run:
  "map_option (\<lambda>(n, s). (n, ())) (exec_steps (demo_io ''web'') 5 (start_conf (demo_request []))) = Some (QualityCheck, ())"
  "map_option (\<lambda>(n, s). (n, ())) (exec_steps (demo_io ''web'') 6 (start_conf (demo_request []))) = Some (WebTool, ())"
  "map_option (\<lambda>(n, s). (n, unscored (target_of s), g_termination_reason s)) (exec_steps (demo_io ''web'') 2 (start_conf (demo_request [])))
     = Some (WebTool, True, [])"
  by code_simp+

lemma exec_plain:
  assumes "exec_steps io k c = Some d" and "list_all (\<lambda>j. map_option fst (exec_steps io j c) \<noteq> Some ReactSubgraph) [0..<k]"
  shows "plain_step\<^sup>*\<^sup>* c d"
  using assms
proof (induction k arbitrary: d)
  case (Suc k)
  then obtain b where b: "exec_steps io k c = Some b"
    by (cases "exec_steps io k c") (use exec_steps_none [of io k c "Suc 0"] in auto)
  with Suc have run: "plain_step\<^sup>*\<^sup>* c b" by simp
  from exec_steps_add [OF b, of "Suc 0"] Suc.prems(1) have "exec_steps io (Suc 0) b = Some d" by simp
  then have "graph_step b d" by (rule exec_one)
  with Suc.prems(2) b have "plain_step b d" by (cases b) (simp add: plain_step_def)
  with run show ?case by simp
qed simp

lemma demo_tenant_run:
  "map_option (\<lambda>(n, s). (n, length (g_evidence s))) (exec_steps (demo_io ''web'') 4 (start_conf (demo_request []))) = Some (Reflection, 1)"
  "list_all (\<lambda>j. map_option fst (exec_steps (demo_io ''web'') j (start_conf (demo_request []))) \<noteq> Some ReactSubgraph) [0..<4]"
  by code_simp+

theorem evidence_stays_with_tenant_witness:
  "\<exists>s ev. plain_step\<^sup>*\<^sup>* (start_conf (demo_request [])) (Reflection, s) \<and> g_evidence s = [ev] \<and> dget ev ''tenant_id'' = PStr ''t''"
proof -
  obtain s where s: "exec_steps (demo_io ''web'') 4 (start_conf (demo_request [])) = Some (Reflection, s)" "length (g_evidence s) = 1"
    by (rule exec_node [OF demo_tenant_run(1)])
  note run = exec_plain [OF s(1) demo_tenant_run(2)]
  from evidence_stays_with_tenant [OF run] run s(2) show ?thesis
    by (auto simp: demo_request_def length_Suc_conv)
qed

theorem run_counters_bounded_witness:
  "\<exists>s. reachable (demo_request []) (QualityCheck, s) \<and> g_retry_count s \<le> 3 \<and> g_answer_ast s = PNone"
proof -
  obtain s where "reachable (demo_request []) (QualityCheck, s)" by (rule exec_node [OF demo_web_run(1)])
  with run_counters_bounded [OF this] show ?thesis by blast
qed

theorem web_fallback_never_answers_witness:
  "\<exists>s t. reachable (demo_request []) (QualityCheck, s) \<and> graph_step (QualityCheck, s) (WebTool, t)
     \<and> \<not> (\<exists>u. graph_step\<^sup>*\<^sup>* (WebTool, t) (AnswerOutput, u))"
proof -
  obtain s where s: "exec_steps (demo_io ''web'') 5 (start_conf (demo_request [])) = Some (QualityCheck, s)"
    "reachable (demo_request []) (QualityCheck, s)" by (rule exec_node [OF demo_web_run(1)])
  obtain t where t: "exec_steps (demo_io ''web'') 6 (start_conf (demo_request [])) = Some (WebTool, t)"
    by (rule exec_node [OF demo_web_run(2)])
  with exec_steps_add [OF s(1), of "Suc 0"] have "graph_step (QualityCheck, s) (WebTool, t)"
    by (intro exec_one [of "demo_io ''web''"]) simp
  with web_fallback_never_answers [OF s(2) this] s(2) show ?thesis by blast
qed

theorem unscored_routes_never_answer_witness:
  "\<exists>s. reachable (demo_request []) (WebTool, s) \<and> \<not> (\<exists>u. graph_step\<^sup>*\<^sup>* (WebTool, s) (AnswerOutput, u))"
proof -
  obtain s where s: "reachable (demo_request []) (WebTool, s)" "(unscored (target_of s), g_termination_reason s) = (True, [])"
    by (rule exec_node [OF demo_web_run(3)])
  with unscored_routes_never_answer [OF s(1)] show ?thesis by auto
qed

lemma demo_chitchat_run:
  "map_option (\<lambda>(n, s). (n, g_hallucination_action s, g_generated_answer s))
     (exec_steps (demo_io ''chitchat'') 7 (start_conf (demo_request []))) = Some (AnswerOutput, ''pass'', ''hello'')"
  "map_option (\<lambda>(n, s). (n, g_tenant_id s, g_llm_id s, g_evidence s, node_enforcement s, isl (prompt_of demo_prompt_env s)))
     (exec_steps (demo_io ''chitchat'') 2 (start_conf (demo_request []))) = Some (PromptAssembly, ''t'', ''m'', [], Inr Disabled, False)"
  by code_simp+

theorem output_is_the_generated_text_witness:
  "\<exists>s. reachable (demo_request []) (AnswerOutput, s) \<and> answers (AnswerOutput, s) (Plain ''hello'')"
proof -
  obtain s where s: "reachable (demo_request []) (AnswerOutput, s)"
    "(g_hallucination_action s, g_generated_answer s) = (''pass'', ''hello'')"
    by (rule exec_node [OF demo_chitchat_run(1)])
  obtain a where a: "answers (AnswerOutput, s) a" using s(1) by (rule output_answers)
  from output_is_the_generated_text [OF s(1) a] s a show ?thesis by auto
qed

theorem good_answer_is_given_witness:
  "\<exists>s u. exec_steps (demo_io ''chitchat'') 2 (start_conf (demo_request [])) = Some (PromptAssembly, s)
     \<and> exec_steps (demo_io ''chitchat'') 5 (PromptAssembly, s) = Some (AnswerOutput, u)
     \<and> answers (AnswerOutput, u) (Plain ''hello'')"
proof -
  obtain s where s: "exec_steps (demo_io ''chitchat'') 2 (start_conf (demo_request [])) = Some (PromptAssembly, s)"
    "reachable (demo_request []) (PromptAssembly, s)"
    "(g_tenant_id s, g_llm_id s, g_evidence s, node_enforcement s, isl (prompt_of demo_prompt_env s)) = (''t'', ''m'', [], Inr Disabled, False)"
    by (rule exec_node [OF demo_chitchat_run(2)])
  then obtain ctx p where p: "prompt_of demo_prompt_env s = Inr (ctx, p)" by (cases "prompt_of demo_prompt_env s") auto
  have "g_answer_ast s = PNone" using reachable_conf_inv [OF s(2)] by (simp add: conf_inv_def)
  moreover have "\<not> contains ''**ERROR**'' ''hello''" by code_simp
  ultimately show ?thesis
    using good_answer_is_given [OF reachable_committed [OF s(2)], of "demo_io ''chitchat''" ctx p "\<lambda>_. Inr ''hello''" "''hello''" Disabled] s p
    by (auto simp: demo_io_def)
qed

lemma demo_enforced_run:
  "map_option (\<lambda>(n, s). (n, g_enforcement_mode s)) (exec_steps (demo_io ''other'') 6 (start_conf (demo_request
     [(''citation_enhancement'', PDict [(''enabled'', PBool True), (''rollout_phase'', PStr ''full'')])])))
   = Some (AnswerOutput, ''enforced'')"
  by code_simp

theorem enforced_mode_only_refuses_witness:
  "\<exists>rq s l. reachable rq (AnswerOutput, s) \<and> answers (AnswerOutput, s) (Rejection l)"
proof -
  obtain rq s where s: "reachable rq (AnswerOutput, s)" "g_enforcement_mode s = ''enforced''"
    by (rule exec_node [OF demo_enforced_run]) blast
  obtain a where a: "answers (AnswerOutput, s) a" using s(1) by (rule output_answers)
  from enforced_mode_only_refuses [OF s(1) a s(2)] s(1) a show ?thesis by blast
qed

lemma demo_terminated_run:
  "map_option (\<lambda>(n, s). (n, g_termination_reason s)) (exec_steps (demo_io ''database'') 8 (start_conf (demo_request
     [(''react'', PDict [(''enabled'', PBool True)])])))
   = Some (AnswerOutput, ''budget_exhausted'')"
  by code_simp

theorem terminated_runs_answer_nothing_witness:
  "\<exists>rq s. reachable rq (AnswerOutput, s) \<and> g_termination_reason s = ''budget_exhausted''
     \<and> answers (AnswerOutput, s) (Plain [])"
proof -
  obtain rq s where s: "reachable rq (AnswerOutput, s)" "g_termination_reason s = ''budget_exhausted''"
    by (rule exec_node [OF demo_terminated_run]) blast
  obtain a where a: "answers (AnswerOutput, s) a" using s(1) by (rule output_answers)
  from terminated_runs_answer_nothing [OF s(1) a] s a show ?thesis by auto
qed

end
