(* ===== verification/Approval.thy ===== *)
theory Approval
  imports Interfaces
begin

text \<open>
  The approval chain of a skill (\<open>agent/langgraph/skills/approval.py\<close>): a life cycle
  \<open>draft\<close>, \<open>pending_review\<close>, \<open>approved\<close>, \<open>active\<close>, \<open>deprecated\<close>, \<open>archived\<close> with a chain of approval
  steps and an audit log. The methods of \<open>ApprovalStateMachine\<close> change the state object in place;
  here they return the changed record. The \<open>n\<close>-th reading of the clock within an operation is
  \<open>clk n\<close> (seconds); \<open>_now_iso\<close> cuts it to whole seconds.
\<close>

section \<open>State\<close>

datatype approval_status = Draft | PendingReview | ApprovedStatus | Active | Deprecated | Archived

definition APPROVAL_TRANSITIONS :: "(approval_status \<times> approval_status list) list" where
  "APPROVAL_TRANSITIONS =
     [(Draft, [PendingReview, Deprecated]), (PendingReview, [ApprovedStatus, Draft, Deprecated]),
      (ApprovedStatus, [Active, Deprecated]), (Active, [Deprecated]), (Deprecated, [Archived]),
      (Archived, [])]"

definition transition_allowed :: "approval_status \<Rightarrow> approval_status \<Rightarrow> bool" where
  "transition_allowed a b \<longleftrightarrow> b \<in> set (dget_or APPROVAL_TRANSITIONS a [])"

text \<open>A time stamp field: empty, a time in the format of \<open>_now_iso\<close>, or another text.\<close>

datatype stamp = NoStamp | Stamp int | OtherText string

definition now_iso :: "rat \<Rightarrow> stamp" where
  "now_iso t = Stamp \<lfloor>t\<rfloor>"

record approval_step =
  st_role :: string
  st_approver_ids :: "string list"
  st_timeout_hours :: int
  st_required :: bool

record approval_chain =
  ch_steps :: "approval_step list"
  ch_current_step :: nat

datatype approval_decision = ApprovedDecision | RejectedDecision | TimeoutDecision

record approval_record =
  ar_step_index :: nat
  ar_approver_id :: string
  ar_decision :: approval_decision
  ar_reason :: message
  ar_timestamp :: stamp

record approval_state =
  as_chain :: approval_chain
  as_status :: approval_status
  as_approvals :: "approval_record list"
  as_started_at :: stamp
  as_updated_at :: stamp

section \<open>Operations\<close>

abbreviation steps_of :: "approval_state \<Rightarrow> approval_step list" where
  "steps_of s \<equiv> ch_steps (as_chain s)"

abbreviation cur_of :: "approval_state \<Rightarrow> nat" where
  "cur_of s \<equiv> ch_current_step (as_chain s)"

definition set_current :: "nat \<Rightarrow> approval_state \<Rightarrow> approval_state" where
  "set_current i s = s\<lparr>as_chain := (as_chain s)\<lparr>ch_current_step := i\<rparr>\<rparr>"

definition submit :: "(nat \<Rightarrow> rat) \<Rightarrow> approval_state \<Rightarrow> approval_state" where
  "submit clk s =
     (if as_status s \<noteq> Draft then s
      else if steps_of s = [] then s
      else
        (let s1 = set_current 0 (s\<lparr>as_status := PendingReview\<rparr>);
             now = now_iso (clk 0);
             s2 = (if as_started_at s1 = NoStamp then s1\<lparr>as_started_at := now\<rparr> else s1)
         in s2\<lparr>as_updated_at := now\<rparr>))"

definition approved_by :: "approval_state \<Rightarrow> nat \<Rightarrow> string list" where
  "approved_by s i =
     map ar_approver_id (filter (\<lambda>r. ar_step_index r = i \<and> ar_decision r = ApprovedDecision) (as_approvals s))"

definition step_satisfied :: "approval_state \<Rightarrow> nat \<Rightarrow> bool" where
  "step_satisfied s i =
     (if i \<ge> length (steps_of s) then True
      else
        (let step = steps_of s ! i
         in if st_approver_ids step = [] then True
            else set (st_approver_ids step) \<subseteq> set (approved_by s i)))"

text \<open>The loop that passes over the steps that are not required.\<close>

function skip_optional :: "approval_step list \<Rightarrow> nat \<Rightarrow> nat" where
  "skip_optional steps i =
     (if i < length steps \<and> \<not> st_required (steps ! i) then skip_optional steps (i + 1) else i)"
  by pat_completeness auto
termination
  by (relation "measure (\<lambda>(steps, i). length steps - i)") auto

declare skip_optional.simps [simp del]

text \<open>\<open>_advance_chain\<close> appends the approval to the log and stamps the state whether or not the step is
  then complete.\<close>

definition record_approval :: "(nat \<Rightarrow> rat) \<Rightarrow> approval_state \<Rightarrow> string \<Rightarrow> approval_state" where
  "record_approval clk s approver_id =
     s\<lparr>as_approvals := as_approvals s @
         [\<lparr>ar_step_index = cur_of s, ar_approver_id = approver_id, ar_decision = ApprovedDecision,
           ar_reason = NoMsg, ar_timestamp = now_iso (clk 0)\<rparr>],
       as_updated_at := now_iso (clk 1)\<rparr>"

definition advance_chain :: "(nat \<Rightarrow> rat) \<Rightarrow> approval_state \<Rightarrow> string \<Rightarrow> approval_state" where
  "advance_chain clk s approver_id =
     (let cur = cur_of s in
      if cur \<ge> length (steps_of s) then s
      else
        (let step = steps_of s ! cur in
         if st_approver_ids step \<noteq> [] \<and> approver_id \<notin> set (st_approver_ids step) then s
         else
           (let s1 = record_approval clk s approver_id
            in if \<not> step_satisfied s1 cur then s1
               else
                 (let nxt = skip_optional (steps_of s) (cur + 1);
                      s2 = set_current nxt s1
                  in if nxt \<ge> length (steps_of s) then s2\<lparr>as_status := ApprovedStatus\<rparr> else s2))))"

definition approve :: "(nat \<Rightarrow> rat) \<Rightarrow> approval_state \<Rightarrow> string \<Rightarrow> approval_state" where
  "approve clk s approver_id =
     (if as_status s = PendingReview then advance_chain clk s approver_id
      else if as_status s = ApprovedStatus then
        s\<lparr>as_status := Active, as_updated_at := now_iso (clk 0)\<rparr>
      else s)"

definition reject :: "(nat \<Rightarrow> rat) \<Rightarrow> approval_state \<Rightarrow> string \<Rightarrow> message \<Rightarrow> approval_state" where
  "reject clk s approver_id reason =
     (if as_status s \<noteq> PendingReview then s
      else
        (let s1 = s\<lparr>as_approvals := as_approvals s @
               [\<lparr>ar_step_index = cur_of s, ar_approver_id = approver_id, ar_decision = RejectedDecision,
                 ar_reason = reason, ar_timestamp = now_iso (clk 0)\<rparr>],
               as_status := Draft\<rparr>
         in (set_current 0 s1)\<lparr>as_updated_at := now_iso (clk 1)\<rparr>))"

definition withdraw :: "(nat \<Rightarrow> rat) \<Rightarrow> approval_state \<Rightarrow> approval_state" where
  "withdraw clk s =
     (case as_status s of
        Active \<Rightarrow> s\<lparr>as_status := Deprecated, as_updated_at := now_iso (clk 0)\<rparr>
      | Deprecated \<Rightarrow> s\<lparr>as_status := Archived, as_updated_at := now_iso (clk 0)\<rparr>
      | Archived \<Rightarrow> s
      | _ \<Rightarrow> s\<lparr>as_status := Deprecated, as_updated_at := now_iso (clk 0)\<rparr>)"

definition check_timeout :: "(nat \<Rightarrow> rat) \<Rightarrow> approval_state \<Rightarrow> approval_state" where
  "check_timeout clk s =
     (if as_status s \<noteq> PendingReview then s
      else if cur_of s \<ge> length (steps_of s) then s
      else
        (case as_updated_at s of
           Stamp started \<Rightarrow>
             (let step = steps_of s ! cur_of s;
                  elapsed_hours = (clk 0 - of_int started) / 3600
              in if elapsed_hours > of_int (st_timeout_hours step) then
                   (let s1 = s\<lparr>as_approvals := as_approvals s @
                          [\<lparr>ar_step_index = cur_of s, ar_approver_id = [], ar_decision = TimeoutDecision,
                            ar_reason = Msg ''step timed out''
                              [PStr (st_role step), PInt (st_timeout_hours step)],
                            ar_timestamp = now_iso (clk 1)\<rparr>],
                          as_status := Draft\<rparr>
                    in (set_current 0 s1)\<lparr>as_updated_at := now_iso (clk 2)\<rparr>)
                 else s)
         | _ \<Rightarrow> s))"

text \<open>A call of the service, with the readings of the clock during it.\<close>

datatype approval_op = Submit | Approve string | Reject string message | Withdraw | CheckTimeout

fun apply_approval :: "approval_state \<Rightarrow> approval_op \<times> (nat \<Rightarrow> rat) \<Rightarrow> approval_state" where
  "apply_approval s (Submit, clk) = submit clk s"
| "apply_approval s (Approve x, clk) = approve clk s x"
| "apply_approval s (Reject x m, clk) = reject clk s x m"
| "apply_approval s (Withdraw, clk) = withdraw clk s"
| "apply_approval s (CheckTimeout, clk) = check_timeout clk s"

section \<open>Statuses move along the table\<close>

lemma set_current_simps [simp]:
  "as_status (set_current i s) = as_status s" "as_approvals (set_current i s) = as_approvals s"
  "steps_of (set_current i s) = steps_of s" "cur_of (set_current i s) = i"
  by (simp_all add: set_current_def)

lemmas op_defs = submit_def approve_def advance_chain_def record_approval_def reject_def withdraw_def check_timeout_def Let_def

lemma transition_allowed_iff:
  "transition_allowed a b \<longleftrightarrow>
     (case a of Draft \<Rightarrow> b \<in> {PendingReview, Deprecated}
      | PendingReview \<Rightarrow> b \<in> {ApprovedStatus, Draft, Deprecated}
      | ApprovedStatus \<Rightarrow> b \<in> {Active, Deprecated}
      | Active \<Rightarrow> b = Deprecated | Deprecated \<Rightarrow> b = Archived | Archived \<Rightarrow> False)"
  by (cases a) (auto simp: transition_allowed_def APPROVAL_TRANSITIONS_def)

lemma approval_status_step:
  "as_status (apply_approval s x) = as_status s
   \<or> transition_allowed (as_status s) (as_status (apply_approval s x))"
  by (cases "(s, x)" rule: apply_approval.cases)
     (auto simp: op_defs transition_allowed_iff split: approval_status.splits stamp.splits)

interpretation approval: status_machine apply_approval as_status transition_allowed
  by unfold_locales (rule approval_status_step)

lemma steps_of_apply [simp]: "steps_of (apply_approval s x) = steps_of s"
  by (cases "(s, x)" rule: apply_approval.cases)
     (auto simp: op_defs split: approval_status.splits stamp.splits)

lemma steps_of_run [simp]: "steps_of (run_ops apply_approval s xs) = steps_of s"
  by (induction xs arbitrary: s) simp_all

text \<open>Whatever sequence of operations is applied, the status moves only along the transition
  table, and a skill that has been withdrawn never becomes active again: from \<open>deprecated\<close> or
  \<open>archived\<close> every sequence of operations leads to \<open>deprecated\<close> or \<open>archived\<close>.\<close>

theorem approval_follows_table:
  "transition_allowed\<^sup>*\<^sup>* (as_status s) (as_status (run_ops apply_approval s xs))
   \<and> (as_status s \<notin> {Deprecated, Archived} \<or> as_status (run_ops apply_approval s xs) \<in> {Deprecated, Archived})"
proof
  show "transition_allowed\<^sup>*\<^sup>* (as_status s) (as_status (run_ops apply_approval s xs))"
    by (rule approval.run_status)
  have "as_status s \<in> {Deprecated, Archived} \<Longrightarrow>
      as_status (run_ops apply_approval s xs) \<in> {Deprecated, Archived}"
    by (rule approval.closed_run) (auto simp: transition_allowed_iff)
  then show "as_status s \<notin> {Deprecated, Archived} \<or>
      as_status (run_ops apply_approval s xs) \<in> {Deprecated, Archived}" by blast
qed

definition demo_approval :: approval_state where
  "demo_approval =
     \<lparr>as_chain = \<lparr>ch_steps =
         [\<lparr>st_role = ''owner'', st_approver_ids = [''ann'', ''bob''], st_timeout_hours = 48, st_required = True\<rparr>,
          \<lparr>st_role = ''advice'', st_approver_ids = [''cat''], st_timeout_hours = 48, st_required = False\<rparr>],
         ch_current_step = 0\<rparr>,
      as_status = Draft, as_approvals = [], as_started_at = NoStamp, as_updated_at = NoStamp\<rparr>"

theorem approval_follows_table_witness:
  "as_status (run_ops apply_approval (demo_approval\<lparr>as_status := Deprecated\<rparr>)
     [(Submit, \<lambda>_. 0), (Approve ''ann'', \<lambda>_. 0)]) \<in> {Deprecated, Archived}"
  using approval_follows_table [of "demo_approval\<lparr>as_status := Deprecated\<rparr>"
      "[(Submit, \<lambda>_. 0), (Approve ''ann'', \<lambda>_. 0)]"] by simp

section \<open>Approval needs every required step\<close>

text \<open>The audit log holds an authorised approval of step \<open>i\<close>, and one by each of its approvers.\<close>

definition signed_off :: "approval_state \<Rightarrow> nat \<Rightarrow> bool" where
  "signed_off s i \<longleftrightarrow>
     approved_by s i \<noteq> [] \<and> set (st_approver_ids (steps_of s ! i)) \<subseteq> set (approved_by s i)"

definition all_signed_below :: "approval_state \<Rightarrow> nat \<Rightarrow> bool" where
  "all_signed_below s n \<longleftrightarrow>
     (\<forall>i < min n (length (steps_of s)). st_required (steps_of s ! i) \<longrightarrow> signed_off s i)"

definition log_authorised :: "approval_state \<Rightarrow> bool" where
  "log_authorised s \<longleftrightarrow>
     (\<forall>r \<in> set (as_approvals s). ar_decision r = ApprovedDecision \<longrightarrow>
        ar_step_index r < length (steps_of s) \<and>
        (st_approver_ids (steps_of s ! ar_step_index r) = []
         \<or> ar_approver_id r \<in> set (st_approver_ids (steps_of s ! ar_step_index r))))"

definition approval_inv :: "approval_state \<Rightarrow> bool" where
  "approval_inv s \<longleftrightarrow>
     log_authorised s \<and>
     (as_status s = PendingReview \<longrightarrow> cur_of s < length (steps_of s) \<and> all_signed_below s (cur_of s)) \<and>
     (as_status s \<in> {ApprovedStatus, Active} \<longrightarrow> all_signed_below s (length (steps_of s)))"

lemma approved_by_append:
  "as_approvals t = as_approvals s @ rs \<Longrightarrow> set (approved_by s i) \<subseteq> set (approved_by t i)"
  by (auto simp: approved_by_def)

lemma all_signed_append:
  assumes "as_approvals t = as_approvals s @ rs" and "steps_of t = steps_of s" and "all_signed_below s n"
  shows "all_signed_below t n"
proof -
  have "signed_off s i \<Longrightarrow> signed_off t i" for i
    using approved_by_append [OF assms(1), of i] assms(2) by (auto simp: signed_off_def)
  with assms(2,3) show ?thesis by (simp add: all_signed_below_def)
qed

lemma skip_optional_between:
  "i \<le> j \<Longrightarrow> j < skip_optional steps i \<Longrightarrow> j < length steps \<and> \<not> st_required (steps ! j)"
proof (induction steps i rule: skip_optional.induct)
  case (1 steps i)
  show ?case
  proof (cases "i < length steps \<and> \<not> st_required (steps ! i)")
    case True
    then have "skip_optional steps i = skip_optional steps (i + 1)" by (simp add: skip_optional.simps)
    with 1 True show ?thesis by (cases "j = i") auto
  next
    case False
    with "1.prems" show ?thesis by (simp add: skip_optional.simps [of steps i])
  qed
qed

lemma all_signed_skip:
  assumes "all_signed_below s i" and "i < length (steps_of s)" and "signed_off s i"
  shows "all_signed_below s (skip_optional (steps_of s) (i + 1))"
  unfolding all_signed_below_def
proof (intro allI impI)
  fix j assume "j < min (skip_optional (steps_of s) (i + 1)) (length (steps_of s))"
    and "st_required (steps_of s ! j)"
  then show "signed_off s j"
    using assms skip_optional_between [of "i + 1" j "steps_of s"]
    by (cases j i rule: linorder_cases) (auto simp: all_signed_below_def)
qed

definition may_approve :: "approval_state \<Rightarrow> string \<Rightarrow> bool" where
  "may_approve s x \<longleftrightarrow>
     (let ids = st_approver_ids (steps_of s ! cur_of s) in ids = [] \<or> x \<in> set ids)"

lemma advance_chain_eq:
  assumes "cur_of s < length (steps_of s)"
  shows "advance_chain clk s x =
    (let s1 = record_approval clk s x; nxt = skip_optional (steps_of s) (cur_of s + 1)
     in if \<not> may_approve s x then s
        else if \<not> step_satisfied s1 (cur_of s) then s1
        else if nxt \<ge> length (steps_of s) then (set_current nxt s1)\<lparr>as_status := ApprovedStatus\<rparr>
        else set_current nxt s1)"
  using assms by (auto simp: advance_chain_def may_approve_def Let_def)

lemma record_approval_simps [simp]:
  "as_chain (record_approval clk s x) = as_chain s" "as_status (record_approval clk s x) = as_status s"
  "set (approved_by (record_approval clk s x) i) =
     (if i = cur_of s then insert x (set (approved_by s i)) else set (approved_by s i))"
  by (auto simp: record_approval_def approved_by_def)

lemma record_approval_keeps:
  assumes "all_signed_below s n" shows "all_signed_below (record_approval clk s x) n"
  using assms by (rule all_signed_append [rotated 2]) (simp_all add: record_approval_def)

lemma record_approval_log:
  assumes "log_authorised s" and "cur_of s < length (steps_of s)" and "may_approve s x"
  shows "log_authorised (record_approval clk s x)"
  using assms by (auto simp: log_authorised_def record_approval_def may_approve_def Let_def)

lemma inv_parts_set_current [simp]:
  "all_signed_below (set_current n s) m = all_signed_below s m"
  "log_authorised (set_current n s) = log_authorised s"
  "all_signed_below (s\<lparr>as_status := v\<rparr>) m = all_signed_below s m"
  "log_authorised (s\<lparr>as_status := v\<rparr>) = log_authorised s"
  "all_signed_below (s\<lparr>as_updated_at := u\<rparr>) m = all_signed_below s m"
  "log_authorised (s\<lparr>as_updated_at := u\<rparr>) = log_authorised s"
  by (simp_all add: all_signed_below_def signed_off_def approved_by_def log_authorised_def)

lemma advance_chain_inv:
  assumes inv: "approval_inv s" and st: "as_status s = PendingReview"
  shows "approval_inv (advance_chain clk s x)"
proof (cases "may_approve s x")
  case True
  let ?s1 = "record_approval clk s x" and ?nxt = "skip_optional (steps_of s) (cur_of s + 1)"
  have cur: "cur_of s < length (steps_of s)" and below: "all_signed_below s (cur_of s)"
    and log: "log_authorised s"
    using inv st by (simp_all add: approval_inv_def)
  have log1: "log_authorised ?s1" using record_approval_log [OF log cur True] .
  have below1: "all_signed_below ?s1 (cur_of s)" using record_approval_keeps [OF below] .
  show ?thesis
  proof (cases "step_satisfied ?s1 (cur_of s)")
    case False
    then have "advance_chain clk s x = ?s1"
      using advance_chain_eq [OF cur] True by simp
    with log1 below1 cur st show ?thesis by (simp add: approval_inv_def)
  next
    case sat: True
    then have "signed_off ?s1 (cur_of s)"
      using cur by (auto simp: signed_off_def step_satisfied_def Let_def simp flip: set_empty
          split: if_splits)
    then have nxt: "all_signed_below ?s1 ?nxt"
      using all_signed_skip [OF below1] cur by simp
    from nxt have "?nxt \<ge> length (steps_of s) \<Longrightarrow> all_signed_below ?s1 (length (steps_of s))"
      by (simp add: all_signed_below_def)
    with nxt log1 sat True st advance_chain_eq [OF cur, of clk x] show ?thesis
      by (simp add: approval_inv_def Let_def)
  qed
next
  case False
  with inv st advance_chain_eq [of s clk x] show ?thesis by (simp add: approval_inv_def)
qed

lemma submit_inv: "approval_inv s \<Longrightarrow> approval_inv (submit clk s)"
  by (auto simp: submit_def Let_def approval_inv_def all_signed_below_def log_authorised_def)

lemma reject_inv: "approval_inv s \<Longrightarrow> approval_inv (reject clk s x m)"
  by (cases "as_status s = PendingReview")
     (auto simp: reject_def Let_def approval_inv_def log_authorised_def)

lemma withdraw_inv: "approval_inv s \<Longrightarrow> approval_inv (withdraw clk s)"
  by (cases "as_status s") (auto simp: withdraw_def approval_inv_def log_authorised_def)

lemma check_timeout_inv: "approval_inv s \<Longrightarrow> approval_inv (check_timeout clk s)"
  by (cases "as_updated_at s") (auto simp: check_timeout_def Let_def approval_inv_def log_authorised_def)

lemma approve_inv: "approval_inv s \<Longrightarrow> approval_inv (approve clk s x)"
proof (cases "as_status s")
  case PendingReview
  then show "approval_inv s \<Longrightarrow> ?thesis" using advance_chain_inv [of s clk x] by (simp add: approve_def)
next
  case ApprovedStatus
  moreover have "approval_inv (s\<lparr>as_status := Active, as_updated_at := now_iso (clk 0)\<rparr>)"
    if "approval_inv s"
    using that ApprovedStatus by (simp add: approval_inv_def)
  ultimately show "approval_inv s \<Longrightarrow> ?thesis" by (simp add: approve_def)
qed (simp_all add: approve_def)

interpretation approval_log: step_machine apply_approval approval_inv
proof
  fix s :: approval_state and x assume "approval_inv s"
  then show "approval_inv (apply_approval s x)"
    by (cases "(s, x)" rule: apply_approval.cases)
       (auto intro: submit_inv reject_inv withdraw_inv check_timeout_inv approve_inv)
qed

definition fresh_draft :: "approval_state \<Rightarrow> bool" where
  "fresh_draft s \<longleftrightarrow> as_status s = Draft \<and> as_approvals s = []"

text \<open>C8: a skill that starts as a draft with an empty log is approved or active, after any sequence of
  operations, only if every required step of its chain is signed off in the audit log: there is an
  approval of the step by every one of its approvers, at least one approval in any case, and all of
  them come from users the step authorises.\<close>

theorem approved_means_signed_off:
  assumes "fresh_draft s" and "as_status (run_ops apply_approval s xs) \<in> {ApprovedStatus, Active}"
    and "i < length (steps_of s)" and "st_required (steps_of s ! i)"
  shows "approved_by (run_ops apply_approval s xs) i \<noteq> []
    \<and> set (st_approver_ids (steps_of s ! i)) \<subseteq> set (approved_by (run_ops apply_approval s xs) i)
    \<and> (st_approver_ids (steps_of s ! i) = []
         \<or> set (approved_by (run_ops apply_approval s xs) i) = set (st_approver_ids (steps_of s ! i)))"
proof -
  let ?t = "run_ops apply_approval s xs"
  have "approval_inv s"
    using assms(1) by (simp add: fresh_draft_def approval_inv_def log_authorised_def)
  then have t: "approval_inv ?t" by (rule approval_log.inv_run)
  with assms have "signed_off ?t i"
    by (auto simp: approval_inv_def all_signed_below_def)
  moreover have "st_approver_ids (steps_of s ! i) = []
      \<or> set (approved_by ?t i) \<subseteq> set (st_approver_ids (steps_of s ! i))"
    using t by (auto simp: approval_inv_def log_authorised_def approved_by_def)
  ultimately show ?thesis by (auto simp: signed_off_def)
qed

text \<open>Two approvers sign, the optional step is passed over.\<close>

theorem approved_means_signed_off_witness:
  "set (approved_by (run_ops apply_approval demo_approval
     [(Submit, \<lambda>_. 0), (Approve ''ann'', \<lambda>_. 0), (Approve ''eve'', \<lambda>_. 0), (Approve ''bob'', \<lambda>_. 0)]) 0)
   = {''ann'', ''bob''}"
proof -
  let ?xs = "[(Submit, \<lambda>_. 0), (Approve ''ann'', \<lambda>_. 0), (Approve ''eve'', \<lambda>_. 0),
    (Approve ''bob'', \<lambda>_. 0)] :: (approval_op \<times> (nat \<Rightarrow> rat)) list"
  have "fresh_draft demo_approval" "as_status (run_ops apply_approval demo_approval ?xs) \<in> {ApprovedStatus, Active}"
    "0 < length (steps_of demo_approval)" "st_required (steps_of demo_approval ! 0)"
    by code_simp+
  from approved_means_signed_off [OF this] show ?thesis by (auto simp: demo_approval_def)
qed

section \<open>Who may approve, and what a rejection undoes\<close>

text \<open>While a skill is under review, an approval by a user whom the current step does not authorise
  changes nothing at all: neither the log nor the step nor the clock of the step.\<close>

theorem unauthorised_approval_has_no_effect:
  assumes "as_status s = PendingReview" and "cur_of s < length (steps_of s)"
    and "st_approver_ids (steps_of s ! cur_of s) \<noteq> []" and "x \<notin> set (st_approver_ids (steps_of s ! cur_of s))"
  shows "approve clk s x = s"
  using assms by (simp add: approve_def advance_chain_def Let_def)

theorem unauthorised_approval_has_no_effect_witness:
  "approve (\<lambda>_. 5) (submit (\<lambda>_. 0) demo_approval) ''eve'' = submit (\<lambda>_. 0) demo_approval"
  by (rule unauthorised_approval_has_no_effect)
     (simp_all add: submit_def demo_approval_def set_current_def Let_def)

text \<open>A rejection does not undo the approvals before it. For a chain of one step with the approvers
  \<open>a\<close> and \<open>b\<close>: after \<open>a\<close> approves and \<open>b\<close> rejects, a new submission is approved by \<open>b\<close> alone,
  because the log entry of \<open>a\<close> from before the rejection still counts.\<close>

theorem rejection_keeps_earlier_approvals:
  assumes "a \<noteq> b" and "fresh_draft s"
    and "steps_of s = [\<lparr>st_role = role, st_approver_ids = [a, b], st_timeout_hours = h, st_required = True\<rparr>]"
  shows "as_status (run_ops apply_approval s
      [(Submit, c0), (Approve a, c1), (Reject b m, c2), (Submit, c3), (Approve b, c4)]) = ApprovedStatus"
proof -
  have skip: "skip_optional [st] (Suc 0) = Suc 0" for st
    by (simp add: skip_optional.simps)
  show ?thesis
    using assms
    by (simp add: fresh_draft_def submit_def approve_def advance_chain_eq reject_def may_approve_def
        record_approval_def step_satisfied_def approved_by_def set_current_def skip Let_def)
qed

theorem rejection_keeps_earlier_approvals_witness:
  "as_status (run_ops apply_approval
      (demo_approval\<lparr>as_chain := \<lparr>ch_steps = [\<lparr>st_role = ''owner'', st_approver_ids = [''ann'', ''bob''],
          st_timeout_hours = 48, st_required = True\<rparr>], ch_current_step = 0\<rparr>\<rparr>)
      [(Submit, \<lambda>_. 0), (Approve ''ann'', \<lambda>_. 0), (Reject ''bob'' NoMsg, \<lambda>_. 0), (Submit, \<lambda>_. 0),
       (Approve ''bob'', \<lambda>_. 0)]) = ApprovedStatus"
  by (rule rejection_keeps_earlier_approvals) (simp_all add: fresh_draft_def demo_approval_def)

end
