(* ===== verification/Skill_Governance.thy ===== *)
theory Skill_Governance
  imports Approval
begin

text \<open>
  Governance of skills (\<open>agent/langgraph/skills/governance.py\<close>): the life cycle of a skill, who may select
  it and whether a user has the permissions it demands; and the stable split of tenants in a canary
  release (\<open>skills/canary_splitter.py\<close>). Statuses are the strings of the source; the time stamp and MD5 are
  arguments.
\<close>

section \<open>Life cycle\<close>

definition SKILL_STATUS_TRANSITIONS :: "(string \<times> string list) list" where
  "SKILL_STATUS_TRANSITIONS =
     [(''draft'', [''pending_review'', ''deprecated'']), (''pending_review'', [''approved'', ''draft'', ''deprecated'']),
      (''approved'', [''active'', ''deprecated'']), (''active'', [''deprecated'']), (''deprecated'', [])]"

definition SELECTABLE_SKILL_STATUSES :: "string list" where
  "SELECTABLE_SKILL_STATUSES = [''active'', ''approved'']"

definition is_valid_skill_status_transition :: "string \<Rightarrow> string \<Rightarrow> bool" where
  "is_valid_skill_status_transition from_status to_status \<longleftrightarrow>
     from_status = to_status \<or> to_status \<in> set (dget_or SKILL_STATUS_TRANSITIONS from_status [])"

definition status_to_action :: "string \<Rightarrow> string" where
  "status_to_action status =
     dget_or [(''pending_review'', ''submit''), (''approved'', ''approve''), (''active'', ''activate''),
              (''deprecated'', ''deprecate'')] status ''edit''"

record change_log_entry =
  cl_timestamp :: string
  cl_actor :: string
  cl_action :: string
  cl_from_status :: string
  cl_to_status :: string
  cl_reason :: string
  cl_diff :: pdict

definition transition_skill_status :: "string \<Rightarrow> string \<Rightarrow> string \<Rightarrow> string \<Rightarrow> string \<Rightarrow> pdict \<Rightarrow> change_log_entry option" where
  "transition_skill_status stamp from_status to_status actor reason diff =
     (if \<not> is_valid_skill_status_transition from_status to_status then None
      else Some \<lparr>cl_timestamp = stamp, cl_actor = actor, cl_action = status_to_action to_status,
                 cl_from_status = from_status, cl_to_status = to_status, cl_reason = reason, cl_diff = diff\<rparr>)"

section \<open>Selection\<close>

text \<open>\<open>SkillResolverLifecycleFilter.is_selectable\<close>; \<open>allow_approved\<close> is the flag of the constructor.\<close>

definition is_selectable :: "bool \<Rightarrow> string \<Rightarrow> string \<Rightarrow> (string \<times> bool) list \<Rightarrow> bool" where
  "is_selectable allow_approved status tenant_id tenant_overrides \<longleftrightarrow>
     (if status \<in> set SELECTABLE_SKILL_STATUSES then
        (if status = ''active'' then True
         else if allow_approved then True
         else if tenant_id \<noteq> [] \<and> tenant_overrides \<noteq> [] then dget_or tenant_overrides tenant_id False
         else False)
      else False)"

definition compute_permissions :: "string list \<Rightarrow> string list \<Rightarrow> string set \<times> bool" where
  "compute_permissions user_permissions required =
     (set user_permissions \<inter> set required, set required \<subseteq> set user_permissions)"

definition is_skill_available :: "string list \<Rightarrow> string list \<Rightarrow> bool" where
  "is_skill_available user_permissions required = snd (compute_permissions user_permissions required)"

datatype usability = Usable | NotSelectable string | NotPermitted

definition is_skill_usable :: "bool \<Rightarrow> string \<Rightarrow> string list \<Rightarrow> string list \<Rightarrow> string \<Rightarrow> (string \<times> bool) list \<Rightarrow> usability" where
  "is_skill_usable allow_approved status required user_permissions tenant_id tenant_overrides =
     (if \<not> is_selectable allow_approved status tenant_id tenant_overrides then NotSelectable status
      else if \<not> is_skill_available user_permissions required then NotPermitted
      else Usable)"

section \<open>Canary release\<close>

record canary_config =
  cc_canary_tenants :: "string list"
  cc_rollout_percentage :: rat
  cc_enabled :: bool

text \<open>The first eight digits of the digest are the number \<open>md5_32\<close> of the text.\<close>

definition canary_bucket :: "(string \<Rightarrow> nat) \<Rightarrow> string \<Rightarrow> string \<Rightarrow> rat" where
  "canary_bucket md5_32 tenant_id catalog_revision =
     of_nat (md5_32 (tenant_id @ '':'' @ catalog_revision) mod 10000) / 100"

definition should_use_new_router :: "(string \<Rightarrow> nat) \<Rightarrow> string \<Rightarrow> string \<Rightarrow> canary_config \<Rightarrow> bool" where
  "should_use_new_router md5_32 tenant_id catalog_revision config \<longleftrightarrow>
     (if \<not> cc_enabled config then False
      else if tenant_id \<noteq> [] \<and> tenant_id \<in> set (cc_canary_tenants config) then True
      else if cc_rollout_percentage config \<le> 0 then False
      else if cc_rollout_percentage config \<ge> 100 then True
      else canary_bucket md5_32 tenant_id catalog_revision < cc_rollout_percentage config)"

section \<open>A skill becomes active by review and approval only\<close>

text \<open>The status of a skill under requested changes; a refused change leaves it.\<close>

definition apply_status :: "string \<Rightarrow> string \<Rightarrow> string" where
  "apply_status status to_status =
     (case transition_skill_status [] status to_status [] [] [] of None \<Rightarrow> status | Some e \<Rightarrow> cl_to_status e)"

interpretation governance: status_machine apply_status "\<lambda>s. s" is_valid_skill_status_transition
  by unfold_locales (auto simp: apply_status_def transition_skill_status_def)

fun visited :: "string \<Rightarrow> string list \<Rightarrow> string list" where
  "visited s [] = [s]"
| "visited s (t # ts) = s # visited (apply_status s t) ts"

lemma apply_status_iff: "apply_status s t = (if is_valid_skill_status_transition s t then t else s)"
  by (simp add: apply_status_def transition_skill_status_def)

lemma valid_into:
  assumes "is_valid_skill_status_transition s t" "s \<noteq> t"
  shows "t = ''active'' \<Longrightarrow> s = ''approved''" "t = ''approved'' \<Longrightarrow> s = ''pending_review''" "s \<noteq> ''deprecated''"
  using assms
  by (auto simp: is_valid_skill_status_transition_def dget_or_def SKILL_STATUS_TRANSITIONS_def split: if_splits)

lemma run_in_visited: "run_ops apply_status s ts \<in> set (visited s ts)"
  by (induction ts arbitrary: s) auto

text \<open>A status reached by a run from another one has been entered from some other status on the way.\<close>

lemma entered_from:
  "run_ops apply_status s ts = t \<Longrightarrow> s \<noteq> t \<Longrightarrow>
     \<exists>r. r \<in> set (visited s ts) \<and> r \<noteq> t \<and> is_valid_skill_status_transition r t \<and>
       (\<exists>us. run_ops apply_status s us = r \<and> set (visited s us) \<subseteq> set (visited s ts))"
proof (induction ts arbitrary: s)
  case Nil
  then show ?case by simp
next
  case (Cons x ts)
  show ?case
  proof (cases "apply_status s x = t")
    case True
    with Cons.prems have "is_valid_skill_status_transition s t" by (auto simp: apply_status_iff split: if_splits)
    with Cons.prems(2) show ?thesis by (intro exI [of _ s]) (auto intro: exI [of _ "[]"])
  next
    case False
    with Cons.IH [of "apply_status s x"] Cons.prems obtain r us where r: "r \<in> set (visited (apply_status s x) ts)" "r \<noteq> t"
        "is_valid_skill_status_transition r t" "run_ops apply_status (apply_status s x) us = r"
        "set (visited (apply_status s x) us) \<subseteq> set (visited (apply_status s x) ts)" by auto
    then show ?thesis by (intro exI [of _ r]) (auto intro!: exI [of _ "x # us"])
  qed
qed

text \<open>C24: a skill becomes active only through review and approval. Whatever changes are requested for a draft,
  in any order and with any number of refused ones, it is active in the end only if it was in review and
  approved on the way; and a deprecated skill stays deprecated.\<close>

theorem active_was_reviewed:
  assumes "run_ops apply_status ''draft'' ts = ''active''"
  shows "{''pending_review'', ''approved''} \<subseteq> set (visited ''draft'' ts)
    \<and> run_ops apply_status ''deprecated'' us = ''deprecated''"
proof -
  obtain r us1 where r: "r \<in> set (visited ''draft'' ts)" "r \<noteq> ''active''" "is_valid_skill_status_transition r ''active''"
      "run_ops apply_status ''draft'' us1 = r" "set (visited ''draft'' us1) \<subseteq> set (visited ''draft'' ts)"
    using entered_from [OF assms] by auto
  then have app: "r = ''approved''" using valid_into(1) by blast
  then obtain q where q: "q \<in> set (visited ''draft'' us1)" "q \<noteq> ''approved''" "is_valid_skill_status_transition q ''approved''"
    using entered_from [OF r(4)] by auto
  then have "q = ''pending_review''" using valid_into(2) by blast
  moreover have "run_ops apply_status ''deprecated'' us = ''deprecated''"
  proof (induction us)
    case (Cons u us)
    have "apply_status ''deprecated'' u = ''deprecated''" using valid_into(3) by (auto simp: apply_status_iff)
    with Cons show ?case by simp
  qed simp
  ultimately show ?thesis using app r(1,5) q(1) by auto
qed

theorem active_was_reviewed_witness:
  "{''pending_review'', ''approved''} \<subseteq> set (visited ''draft'' [''active'', ''pending_review'', ''approved'', ''active''])"
proof -
  have "run_ops apply_status ''draft'' [''active'', ''pending_review'', ''approved'', ''active''] = ''active''" by code_simp
  from active_was_reviewed [OF this] show ?thesis by blast
qed

section \<open>Who may use a skill\<close>

text \<open>A skill is usable exactly if it is active, or approved and released for approved skills in general or
  for the tenant, and the user has all the permissions it demands.\<close>

theorem usable_iff:
  "is_skill_usable allow status required perms tenant overrides = Usable \<longleftrightarrow>
     (status = ''active'' \<or> status = ''approved'' \<and> (allow \<or> tenant \<noteq> [] \<and> map_of overrides tenant = Some True))
     \<and> set required \<subseteq> set perms"
proof -
  have "is_selectable allow status tenant overrides \<longleftrightarrow>
      status = ''active'' \<or> status = ''approved'' \<and> (allow \<or> tenant \<noteq> [] \<and> map_of overrides tenant = Some True)"
    by (cases overrides) (auto simp: is_selectable_def SELECTABLE_SKILL_STATUSES_def dget_or_def split: option.splits)
  then show ?thesis
    by (auto simp: is_skill_usable_def is_skill_available_def compute_permissions_def split: if_splits)
qed

text \<open>A canary release grows monotonically. With a higher percentage every tenant that had the new router
  keeps it, the tenants named for the canary always have it, and at 100 percent everybody does.\<close>

theorem rollout_is_monotone:
  assumes "p \<le> q" and "cc_enabled c"
  shows "(should_use_new_router md5 t r (c\<lparr>cc_rollout_percentage := p\<rparr>) \<longrightarrow> should_use_new_router md5 t r (c\<lparr>cc_rollout_percentage := q\<rparr>))
    \<and> (t \<noteq> [] \<and> t \<in> set (cc_canary_tenants c) \<longrightarrow> should_use_new_router md5 t r c)
    \<and> (100 \<le> p \<longrightarrow> should_use_new_router md5 t r (c\<lparr>cc_rollout_percentage := p\<rparr>))"
  using assms by (auto simp: should_use_new_router_def)

end
