(* ===== verification/Prompt_Manager.thy ===== *)
theory Prompt_Manager
  imports Json Interfaces
begin

text \<open>
  The prompt templates of the routers (\<open>agent/langgraph/routers/prompt_manager.py\<close>, class
  \<open>PromptManager\<close>): a template is read from its file once and kept, with a built-in template where the
  file is missing or unreadable, and \<open>str.format\<close> fills it. The template files are the argument \<open>files\<close>
  (\<open>None\<close> for a file that does not exist, an error for one that cannot be read). A replacement field that
  is no plain name (conversions, attributes, positions) leaves the rest of the template to the argument
  \<open>other\<close>.
\<close>

section \<open>Filling a template\<close>

definition simple_name :: "string \<Rightarrow> bool" where
  "simple_name s \<longleftrightarrow> s \<noteq> [] \<and> list_all is_word s \<and> \<not> is_digit (hd s)"

text \<open>\<open>template.format(**kwargs)\<close>: doubled braces stand for one brace.\<close>

function format_text :: "(string \<Rightarrow> string res) \<Rightarrow> (string \<times> string) list \<Rightarrow> string \<Rightarrow> string res" where
  "format_text other kwargs [] = Inr []"
| "format_text other kwargs (c # cs) =
     (if c = CHR ''{'' then
        (if next_is (CHR ''{'') cs then rbind (format_text other kwargs (tl cs)) (\<lambda>r. Inr (CHR ''{'' # r))
         else
           (let name = takeWhile (\<lambda>d. d \<noteq> CHR ''}'') cs; rest = dropWhile (\<lambda>d. d \<noteq> CHR ''}'') cs in
            if rest = [] then Inl ValueError
            else if \<not> simple_name name then other (c # cs)
            else
              (case map_of kwargs name of
                 None \<Rightarrow> Inl KeyError
               | Some v \<Rightarrow> rbind (format_text other kwargs (tl rest)) (\<lambda>r. Inr (v @ r)))))
      else if c = CHR ''}'' then
        (if next_is (CHR ''}'') cs then rbind (format_text other kwargs (tl cs)) (\<lambda>r. Inr (CHR ''}'' # r))
         else Inl ValueError)
      else rbind (format_text other kwargs cs) (\<lambda>r. Inr (c # r)))"
  by pat_completeness auto
termination
proof (relation "measure (\<lambda>(f, k, s). length s)", goal_cases)
  case (3 other kwargs c cs name rest v)
  have "length rest \<le> length cs" using 3 by (simp add: length_dropWhile_le)
  then show ?case by simp
qed auto

declare format_text.simps(2) [simp del]

section \<open>The built-in templates\<close>

abbreviation nl :: string where
  "nl \<equiv> [CHR 0x0A]"

abbreviation quote_mark :: string where
  "quote_mark \<equiv> [CHR 0x22]"

definition INTENT_TASK :: string where
  "INTENT_TASK =
     uni [0x4F60, 0x662F, 0x4E00, 0x4E2A, 0x610F, 0x56FE, 0x8BC6, 0x522B, 0x4E13, 0x5BB6, 0x3002,
     0x8BF7, 0x5206, 0x6790, 0x7528, 0x6237, 0x67E5, 0x8BE2, 0xFF0C, 0x5224, 0x65AD, 0x5176, 0x4E3B,
     0x8981, 0x610F, 0x56FE, 0x3002] @ nl @ nl @ ''## '' @ uni [0x7528, 0x6237, 0x67E5, 0x8BE2] @ nl"

definition INTENT_KNOWLEDGE :: string where
  "INTENT_KNOWLEDGE =
     nl @ nl @ ''## '' @ uni [0x53EF, 0x7528, 0x77E5, 0x8BC6, 0x5E93] @ nl"

definition INTENT_RULES :: string where
  "INTENT_RULES =
     nl @ nl @ ''## '' @ uni [0x5206, 0x7C7B, 0x89C4, 0x5219] @ nl @ ''1. **database**: '' @ uni
     [0x67E5, 0x8BE2, 0x6570, 0x636E, 0x3001, 0x7EDF, 0x8BA1, 0x3001, 0x805A, 0x5408, 0x3001, 0x8868,
     0x7ED3, 0x6784, 0x3001] @ ''SQL '' @ uni [0x76F8, 0x5173] @ nl @ ''2. **rag**: '' @ uni [0x67E5,
     0x8BE2, 0x77E5, 0x8BC6, 0x3001, 0x6982, 0x5FF5, 0x3001, 0x5B9A, 0x4E49, 0x3001, 0x89E3, 0x91CA,
     0x3001, 0x6587, 0x6863, 0x5185, 0x5BB9] @ nl @ ''3. **web**: '' @ uni [0x67E5, 0x8BE2, 0x5916,
     0x90E8, 0x4FE1, 0x606F, 0x3001, 0x5B9E, 0x65F6, 0x6570, 0x636E, 0x3001, 0x65B0, 0x95FB, 0x3001,
     0x7F51, 0x4E0A, 0x641C, 0x7D22] @ nl @ ''4. **hybrid**: '' @ uni [0x540C, 0x65F6, 0x5305, 0x542B,
     0x6570, 0x636E, 0x548C, 0x77E5, 0x8BC6, 0x67E5, 0x8BE2, 0x9700, 0x6C42] @ nl @
     ''5. **chitchat**: '' @ uni [0x95F2, 0x804A, 0x3001, 0x95EE, 0x5019, 0x3001, 0x65E0, 0x660E,
     0x786E, 0x4EFB, 0x52A1] @ nl @ nl @ ''## '' @ uni [0x8F93, 0x51FA, 0x683C, 0x5F0F] @ nl @ uni
     [0x8BF7, 0x4E25, 0x683C, 0x8F93, 0x51FA] @ '' JSON '' @ uni [0x683C, 0x5F0F, 0xFF1A] @ nl @ ''{{''
     @ nl @ ''  '' @ quote_mark @ ''primary_intent'' @ quote_mark @ '': '' @ quote_mark @
     ''database|rag|web|hybrid|chitchat'' @ quote_mark @ '','' @ nl @ ''  '' @ quote_mark @
     ''confidence'' @ quote_mark @ '': 0.0-1.0,'' @ nl @ ''  '' @ quote_mark @ ''reason'' @ quote_mark
     @ '': '' @ quote_mark @ uni [0x8DEF, 0x7531, 0x7406, 0x7531] @ quote_mark @ '','' @ nl @ ''  '' @
     quote_mark @ ''complexity'' @ quote_mark @ '': '' @ quote_mark @ ''simple|moderate|complex'' @
     quote_mark @ '','' @ nl @ ''  '' @ quote_mark @ ''kb_ids'' @ quote_mark @ '': [],'' @ nl @ ''  ''
     @ quote_mark @ ''sub_intents'' @ quote_mark @ '': [],'' @ nl @ ''  '' @ quote_mark @ ''entities''
     @ quote_mark @ '': {{}},'' @ nl @ ''  '' @ quote_mark @ ''needs_clarification'' @ quote_mark @
     '': false,'' @ nl @ ''  '' @ quote_mark @ ''clarification_question'' @ quote_mark @ '': '' @
     quote_mark @ quote_mark @ nl @ ''}}'' @ nl"

definition PLAN_TASK :: string where
  "PLAN_TASK =
     uni [0x4F60, 0x662F, 0x4E00, 0x4E2A, 0x4EFB, 0x52A1, 0x89C4, 0x5212, 0x4E13, 0x5BB6, 0x3002,
     0x8BF7, 0x5C06, 0x590D, 0x6742, 0x4EFB, 0x52A1, 0x62C6, 0x89E3, 0x4E3A, 0x53EF, 0x6267, 0x884C,
     0x7684, 0x6B65, 0x9AA4, 0x3002] @ nl @ nl @ ''## '' @ uni [0x7528, 0x6237, 0x67E5, 0x8BE2] @ nl"

definition PLAN_CONTEXT :: string where
  "PLAN_CONTEXT =
     nl @ nl @ ''## '' @ uni [0x4E0A, 0x4E0B, 0x6587, 0x4FE1, 0x606F] @ nl"

definition PLAN_KNOWLEDGE :: string where
  "PLAN_KNOWLEDGE =
     nl @ nl @ ''## '' @ uni [0x53EF, 0x7528, 0x77E5, 0x8BC6, 0x5E93] @ nl"

definition PLAN_FORMAT :: string where
  "PLAN_FORMAT =
     nl @ nl @ ''## '' @ uni [0x8F93, 0x51FA, 0x683C, 0x5F0F] @ nl @ uni [0x8BF7, 0x4E25, 0x683C,
     0x8F93, 0x51FA] @ '' JSON '' @ uni [0x683C, 0x5F0F, 0xFF1A] @ nl @ ''{{'' @ nl @ ''  '' @
     quote_mark @ ''plan_id'' @ quote_mark @ '': '' @ quote_mark @ ''plan_xxx'' @ quote_mark @ '','' @
     nl @ ''  '' @ quote_mark @ ''steps'' @ quote_mark @ '': ['' @ nl @ ''    {{'' @ nl @ ''      '' @
     quote_mark @ ''step_id'' @ quote_mark @ '': '' @ quote_mark @ ''step1'' @ quote_mark @ '','' @ nl
     @ ''      '' @ quote_mark @ ''tool'' @ quote_mark @ '': '' @ quote_mark @ ''database|rag|web'' @
     quote_mark @ '','' @ nl @ ''      '' @ quote_mark @ ''args'' @ quote_mark @ '': {{'' @ quote_mark
     @ ''query'' @ quote_mark @ '': '' @ quote_mark @ uni [0x5B50, 0x67E5, 0x8BE2] @ quote_mark @
     '', '' @ quote_mark @ ''kb_ids'' @ quote_mark @ '': []}},'' @ nl @ ''      '' @ quote_mark @
     ''depends_on'' @ quote_mark @ '': [],'' @ nl @ ''      '' @ quote_mark @ ''can_parallel'' @
     quote_mark @ '': false'' @ nl @ ''    }}'' @ nl @ ''  ],'' @ nl @ ''  '' @ quote_mark @
     ''estimated_tokens'' @ quote_mark @ '': 1000,'' @ nl @ ''  '' @ quote_mark @ ''fallback_strategy''
     @ quote_mark @ '': '' @ quote_mark @ ''sequential'' @ quote_mark @ nl @ ''}}'' @ nl"

definition INTENT_TEMPLATE :: string where
  "INTENT_TEMPLATE = INTENT_TASK @ ''{query}'' @ INTENT_KNOWLEDGE @ ''{kb_metadata}'' @ INTENT_RULES"

definition PLAN_TEMPLATE :: string where
  "PLAN_TEMPLATE =
     PLAN_TASK @ ''{query}'' @ PLAN_CONTEXT @ ''{context}'' @ PLAN_KNOWLEDGE @ ''{kb_metadata}'' @ PLAN_FORMAT"

definition get_default_template :: "string \<Rightarrow> string" where
  "get_default_template prompt_name =
     (if prompt_name = ''intent_router'' then INTENT_TEMPLATE
      else if prompt_name = ''planner'' then PLAN_TEMPLATE
      else uni [0x9ED8, 0x8BA4, 0x6A21, 0x677F, 0xFF1A] @ ''{query}'')"

section \<open>The manager\<close>

type_synonym prompt_cache = "(string \<times> string) list"

definition cache_key :: "string \<Rightarrow> string \<Rightarrow> string" where
  "cache_key prompt_name version = prompt_name @ ''_'' @ version"

definition load_prompt :: "(string \<Rightarrow> string option res) \<Rightarrow> string \<Rightarrow> string \<Rightarrow> prompt_cache \<Rightarrow> string \<times> prompt_cache" where
  "load_prompt files prompt_name version cache =
     (let key = cache_key prompt_name version in
      case map_of cache key of
        Some template \<Rightarrow> (template, cache)
      | None \<Rightarrow>
          (let template = (case files (key @ ''.txt'') of
                             Inr (Some t) \<Rightarrow> t
                           | _ \<Rightarrow> get_default_template prompt_name)
           in (template, dset cache key template)))"

definition render_prompt :: "(string \<Rightarrow> string option res) \<Rightarrow> (string \<Rightarrow> string res) \<Rightarrow> string \<Rightarrow> string
    \<Rightarrow> (string \<times> string) list \<Rightarrow> prompt_cache \<Rightarrow> string res \<times> prompt_cache" where
  "render_prompt files other prompt_name version kwargs cache =
     (case load_prompt files prompt_name version cache of
        (template, cache') \<Rightarrow> (format_text other kwargs template, cache'))"

definition clear_cache :: "prompt_cache \<Rightarrow> prompt_cache" where
  "clear_cache cache = []"

section \<open>Filling is exact\<close>

text \<open>A template as its parts: text, with the braces doubled, and replacement fields.\<close>

datatype piece = Verbatim string | Field string

definition escape_char :: "char \<Rightarrow> string" where
  "escape_char c = (if c = CHR ''{'' \<or> c = CHR ''}'' then [c, c] else [c])"

definition escape_braces :: "string \<Rightarrow> string" where
  "escape_braces s = concat (map escape_char s)"

fun piece_source :: "piece \<Rightarrow> string" where
  "piece_source (Verbatim s) = escape_braces s"
| "piece_source (Field n) = ''{'' @ n @ ''}''"

fun piece_text :: "(string \<times> string) list \<Rightarrow> piece \<Rightarrow> string" where
  "piece_text kwargs (Verbatim s) = s"
| "piece_text kwargs (Field n) = dget_or kwargs n []"

fun plain_piece :: "piece \<Rightarrow> bool" where
  "plain_piece (Verbatim s) = True"
| "plain_piece (Field n) = simple_name n"

fun known_piece :: "(string \<times> string) list \<Rightarrow> piece \<Rightarrow> bool" where
  "known_piece kwargs (Verbatim s) = True"
| "known_piece kwargs (Field n) = (map_of kwargs n \<noteq> None)"

lemma next_is_Cons [simp]: "next_is c (d # ds) = (d = c)"
  by (simp add: next_is_def)

lemma format_escape:
  "format_text other kwargs (escape_braces s @ rest) = rbind (format_text other kwargs rest) (\<lambda>r. Inr (s @ r))"
proof (induction s)
  case Nil
  show ?case by (cases "format_text other kwargs rest") (simp_all add: escape_braces_def)
next
  case (Cons c s)
  have "escape_braces (c # s) @ rest = escape_char c @ escape_braces s @ rest"
    by (simp add: escape_braces_def)
  moreover have "format_text other kwargs (escape_char c @ xs) = rbind (format_text other kwargs xs) (\<lambda>r. Inr (c # r))" for xs
    by (simp add: escape_char_def format_text.simps(2))
  ultimately show ?case using Cons by (cases "format_text other kwargs rest") simp_all
qed

lemma simple_name_no_brace:
  assumes "simple_name n"
  shows "CHR ''}'' \<notin> set n" and "CHR ''{'' \<notin> set n"
proof -
  have "\<not> is_word (CHR ''}'')" "\<not> is_word (CHR ''{'')" by code_simp+
  with assms show "CHR ''}'' \<notin> set n" "CHR ''{'' \<notin> set n" by (auto simp: simple_name_def list_all_iff)
qed

lemma format_field:
  assumes "simple_name n"
  shows "format_text other kwargs (''{'' @ n @ ''}'' @ rest) =
    (case map_of kwargs n of None \<Rightarrow> Inl KeyError | Some v \<Rightarrow> rbind (format_text other kwargs rest) (\<lambda>r. Inr (v @ r)))"
proof -
  from assms have ne: "n \<noteq> []" by (simp add: simple_name_def)
  have no: "CHR ''}'' \<notin> set n" "CHR ''{'' \<notin> set n" by (rule simple_name_no_brace [OF assms])+
  then have keep: "\<forall>d \<in> set n. d \<noteq> CHR ''}''" by metis
  have "takeWhile (\<lambda>d. d \<noteq> CHR ''}'') (n @ CHR ''}'' # rest) = n"
    "dropWhile (\<lambda>d. d \<noteq> CHR ''}'') (n @ CHR ''}'' # rest) = CHR ''}'' # rest"
    using keep by (simp_all add: takeWhile_append2 dropWhile_append2)
  moreover have "\<not> next_is (CHR ''{'') (n @ CHR ''}'' # rest)"
    using no(2) ne by (cases n) auto
  ultimately show ?thesis
    using assms by (simp add: format_text.simps(2) Let_def split: option.split)
qed

text \<open>The values of a prompt are inserted as they are. For a template made of texts (with their braces
  doubled) and of replacement fields, the filled template is the concatenation of the texts and of the
  values, whatever characters the values contain, so no question can address another field; a field
  without a value is a \<open>KeyError\<close>.\<close>

theorem format_is_exact:
  assumes "\<forall>p \<in> set ps. plain_piece p"
  shows "format_text other kwargs (concat (map piece_source ps)) =
    (if \<forall>p \<in> set ps. known_piece kwargs p then Inr (concat (map (piece_text kwargs) ps)) else Inl KeyError)"
  using assms
proof (induction ps)
  case Nil
  show ?case by simp
next
  case (Cons p ps)
  show ?case
  proof (cases p)
    case (Verbatim s)
    with Cons show ?thesis by (simp add: format_escape)
  next
    case (Field n)
    with Cons have n: "simple_name n" by simp
    have "concat (map piece_source (p # ps)) = ''{'' @ n @ ''}'' @ concat (map piece_source ps)" using Field by simp
    then show ?thesis
      using Cons Field by (simp only: format_field [OF n]) (auto simp: dget_or_def split: option.splits)
  qed
qed

theorem format_is_exact_witness:
  "format_text (\<lambda>_. Inl ValueError) [(''query'', ''{x} or {query}'')] ''Q: {query} {{}}'' = Inr ''Q: {x} or {query} {}''"
proof -
  have src: "concat (map piece_source [Verbatim ''Q: '', Field ''query'', Verbatim '' {}'']) = ''Q: {query} {{}}''"
    by code_simp
  have "\<forall>p \<in> set [Verbatim ''Q: '', Field ''query'', Verbatim '' {}'']. plain_piece p"
    by code_simp
  from format_is_exact [OF this, of "\<lambda>_. Inl ValueError" "[(''query'', ''{x} or {query}'')]", unfolded src]
  show ?thesis by (simp add: dget_or_def)
qed

section \<open>The prompts of the built-in templates\<close>

fun single_braces :: "string \<Rightarrow> string" where
  "single_braces [] = []"
| "single_braces [c] = [c]"
| "single_braces (c # d # s) =
     (if c = d \<and> (c = CHR ''{'' \<or> c = CHR ''}'') then c # single_braces s else c # single_braces (d # s))"

definition intent_text :: "string \<Rightarrow> string \<Rightarrow> string" where
  "intent_text query kbs = INTENT_TASK @ query @ INTENT_KNOWLEDGE @ kbs @ single_braces INTENT_RULES"

definition plan_text :: "string \<Rightarrow> string \<Rightarrow> string \<Rightarrow> string" where
  "plan_text query context kbs =
     PLAN_TASK @ query @ PLAN_CONTEXT @ context @ PLAN_KNOWLEDGE @ kbs @ single_braces PLAN_FORMAT"

lemma template_braces:
  "escape_braces INTENT_TASK = INTENT_TASK" "escape_braces INTENT_KNOWLEDGE = INTENT_KNOWLEDGE"
  "escape_braces (single_braces INTENT_RULES) = INTENT_RULES"
  "escape_braces PLAN_TASK = PLAN_TASK" "escape_braces PLAN_CONTEXT = PLAN_CONTEXT"
  "escape_braces PLAN_KNOWLEDGE = PLAN_KNOWLEDGE" "escape_braces (single_braces PLAN_FORMAT) = PLAN_FORMAT"
  by code_simp+

lemma template_fields: "simple_name ''query''" "simple_name ''kb_metadata''" "simple_name ''context''"
  by code_simp+

lemma intent_filled:
  "format_text other [(''query'', q), (''kb_metadata'', k)] INTENT_TEMPLATE = Inr (intent_text q k)"
proof -
  let ?ps = "[Verbatim INTENT_TASK, Field ''query'', Verbatim INTENT_KNOWLEDGE, Field ''kb_metadata'', Verbatim (single_braces INTENT_RULES)]"
  have "concat (map piece_source ?ps) = INTENT_TEMPLATE" by (simp add: template_braces INTENT_TEMPLATE_def)
  with format_is_exact [of ?ps other "[(''query'', q), (''kb_metadata'', k)]"] show ?thesis
    by (simp add: template_fields intent_text_def)
qed

lemma plan_filled:
  "format_text other [(''query'', q), (''context'', c), (''kb_metadata'', k)] PLAN_TEMPLATE = Inr (plan_text q c k)"
proof -
  let ?ps = "[Verbatim PLAN_TASK, Field ''query'', Verbatim PLAN_CONTEXT, Field ''context'', Verbatim PLAN_KNOWLEDGE,
    Field ''kb_metadata'', Verbatim (single_braces PLAN_FORMAT)]"
  have "concat (map piece_source ?ps) = PLAN_TEMPLATE" by (simp add: template_braces PLAN_TEMPLATE_def)
  with format_is_exact [of ?ps other "[(''query'', q), (''context'', c), (''kb_metadata'', k)]"] show ?thesis
    by (simp add: template_fields plan_text_def)
qed

section \<open>Templates are kept\<close>

text \<open>The operations of the manager; the files may differ from call to call.\<close>

datatype prompt_op =
    LoadPrompt "string \<Rightarrow> string option res" string string
  | RenderPrompt "string \<Rightarrow> string option res" "string \<Rightarrow> string res" string string "(string \<times> string) list"
  | ClearCache

fun apply_prompt_op :: "prompt_cache \<Rightarrow> prompt_op \<Rightarrow> prompt_cache" where
  "apply_prompt_op cache (LoadPrompt files name version) = snd (load_prompt files name version cache)"
| "apply_prompt_op cache (RenderPrompt files other name version kwargs) = snd (render_prompt files other name version kwargs cache)"
| "apply_prompt_op cache ClearCache = clear_cache cache"

lemma load_keeps: "map_of cache k = Some t \<Longrightarrow> map_of (snd (load_prompt files name version cache)) k = Some t"
  by (auto simp: load_prompt_def Let_def split: option.splits)

lemma op_keeps: "map_of cache k = Some t \<Longrightarrow> op1 \<noteq> ClearCache \<Longrightarrow> map_of (apply_prompt_op cache op1) k = Some t"
  using load_keeps by (cases op1) (auto simp: render_prompt_def case_prod_beta)

lemma ops_keep: "map_of cache k = Some t \<Longrightarrow> ClearCache \<notin> set ops \<Longrightarrow> map_of (run_ops apply_prompt_op cache ops) k = Some t"
  by (induction ops arbitrary: cache) (auto simp: op_keeps)

lemma load_unreadable:
  assumes "\<forall>t. files (cache_key name version @ ''.txt'') \<noteq> Inr (Some t)" "map_of cache (cache_key name version) = None"
  shows "map_of (snd (load_prompt files name version cache)) (cache_key name version) = Some (get_default_template name)"
  using assms by (auto simp: load_prompt_def Let_def split: sum.splits option.splits)

lemma render_kept:
  "map_of cache (cache_key name version) = Some t \<Longrightarrow>
     fst (render_prompt files other name version kwargs cache) = format_text other kwargs t"
  by (simp add: render_prompt_def load_prompt_def)

end
