(* ===== verification/Skill_Recall.thy ===== *)
theory Skill_Recall
  imports Skill_Governance Prompt_Manager
begin

text \<open>
  Cards of skills and how candidates for a question are found and ranked: the domains of a question and
  reciprocal rank fusion (\<open>agent/langgraph/skills/router.py\<close>), the reranker by language model
  (\<open>skills/reranker.py\<close>) and the decision over its ranking (\<open>skills/decision_policy.py\<close>). The retrievers and
  the model are arguments; so are the constructor of \<open>SkillRankDecision\<close> (pydantic) and \<open>float()\<close> of a
  string. The records keep the fields of \<open>catalog_models.py\<close> that some selection step reads.
\<close>

section \<open>Cards\<close>

record skill_card =
  sk_skill_id :: string
  sk_version :: string
  sk_skill_type :: string
  sk_name :: string
  sk_description :: string
  sk_domains :: "string list"
  sk_capabilities :: "string list"
  sk_intents :: "string list"
  sk_languages :: "string list"
  sk_positive_examples :: "string list"
  sk_negative_examples :: "string list"
  sk_exclusion_rules :: "pyval list"
  sk_required_permissions :: "string list"
  sk_allowed_tenants :: "string list"
  sk_lifecycle_status :: string
  sk_tenant_overrides :: "(string \<times> bool) list"
  sk_risk_level :: string
  sk_cost_class :: string
  sk_latency_class :: string
  sk_dependencies_healthy :: bool
  sk_required_dependency_ids :: "string list"
  sk_execution_mode :: string
  sk_report_type :: "string option"

record scored_card =
  so_card :: skill_card
  so_score :: rat
  so_source :: string

abbreviation so_id :: "scored_card \<Rightarrow> string" where
  "so_id s \<equiv> sk_skill_id (so_card s)"

section \<open>Domains and fusion\<close>

definition DOMAIN_KEYWORD_RULES :: "(string \<times> string list) list" where
  "DOMAIN_KEYWORD_RULES =
     [(''quality'', [uni [0x8D28, 0x91CF], uni [0x54C1, 0x8D28], uni [0x4E0D, 0x826F], uni [0x7F3A, 0x9677], uni [0x5BA2, 0x8BC9], uni [0x826F, 0x7387], ''8D'', ''IQC'', ''OQC'']),
      (''production'', [uni [0x4EA7, 0x7EBF], uni [0x4EA7, 0x80FD], uni [0x7A3C, 0x52A8], ''OEE'', uni [0x5DE5, 0x5355], uni [0x6392, 0x7A0B], uni [0x751F, 0x4EA7]]),
      (''cost'', [uni [0x6210, 0x672C], uni [0x8D39, 0x7528], uni [0x9884, 0x7B97], uni [0x5229, 0x6DA6], uni [0x8D22, 0x52A1], uni [0x652F, 0x51FA]]),
      (''delivery'', [uni [0x4EA4, 0x4ED8], uni [0x7269, 0x6D41], uni [0x51FA, 0x8D27], uni [0x5E93, 0x5B58], uni [0x5468, 0x8F6C], uni [0x51C6, 0x65F6, 0x7387]]),
      (''operations'', [uni [0x8FD0, 0x8425], uni [0x7EFC, 0x5408], uni [0x6708, 0x62A5], uni [0x5468, 0x62A5], uni [0x770B, 0x677F], ''KPI''])]"

text \<open>\<open>sort(key=..., reverse=True)\<close> is stable.\<close>

definition sort_desc :: "('a \<Rightarrow> rat) \<Rightarrow> 'a list \<Rightarrow> 'a list" where
  "sort_desc f xs = sort_key (\<lambda>x. - f x) xs"

definition classify_domains_by_rule :: "string \<Rightarrow> string list" where
  "classify_domains_by_rule query =
     (let scored = filter (\<lambda>(d, hits). hits > 0)
            (map (\<lambda>(d, kws). (d, length (filter (\<lambda>kw. contains kw query) kws))) DOMAIN_KEYWORD_RULES) in
      if scored = [] then [''generic'']
      else map fst (take 3 (sort_desc (\<lambda>x. of_nat (snd x)) scored)))"

definition filter_by_domain :: "skill_card list \<Rightarrow> string list \<Rightarrow> skill_card list" where
  "filter_by_domain cards domains =
     (if ''generic'' \<in> set domains then cards
      else filter (\<lambda>c. ''generic'' \<in> set (sk_domains c) \<or> set domains \<inter> set (sk_domains c) \<noteq> {}) cards)"

definition RRF_K :: nat where
  "RRF_K = 60"

text \<open>One pass over a ranked list: the score of a card grows by the reciprocal of its rank.\<close>

fun rrf_add :: "nat \<Rightarrow> scored_card list \<Rightarrow> (string \<times> rat) list \<times> (string \<times> skill_card) list
    \<Rightarrow> (string \<times> rat) list \<times> (string \<times> skill_card) list" where
  "rrf_add rank [] acc = acc"
| "rrf_add rank (s # ss) (scores, cards) =
     rrf_add (Suc rank) ss
       (dset scores (so_id s) (dget_or scores (so_id s) 0 + 1 / of_nat (RRF_K + rank + 1)), dset cards (so_id s) (so_card s))"

definition reciprocal_rank_fusion :: "scored_card list \<Rightarrow> scored_card list \<Rightarrow> nat \<Rightarrow> scored_card list" where
  "reciprocal_rank_fusion bm25 embedding top_k =
     (case rrf_add 0 embedding (rrf_add 0 bm25 ([], [])) of
        (scores, cards) \<Rightarrow>
          concat (map (\<lambda>(i, x). case map_of cards i of None \<Rightarrow> [] | Some c \<Rightarrow> [\<lparr>so_card = c, so_score = x, so_source = ''rrf''\<rparr>])
            (take top_k (sort_desc snd scores))))"

section \<open>The reranker\<close>

record ranked_candidate =
  rk_skill_id :: string
  rk_score :: rat
  rk_reason :: message

record rank_decision =
  rn_candidates :: "ranked_candidate list"
  rn_multi_intent :: bool
  rn_missing_context :: "string list"
  rn_ambiguity_reason :: "string option"
  rn_degraded :: bool

definition RERANKER_PROMPT_TEMPLATE :: string where
  "RERANKER_PROMPT_TEMPLATE =
     uni [0x4F60, 0x662F, 0x4E00, 0x4E2A] @ '' Skill '' @ uni [0x8DEF, 0x7531, 0x91CD, 0x6392, 0x5668,
     0x3002, 0x4EE5, 0x4E0B] @ '' query '' @ uni [0x662F, 0x5F85, 0x5206, 0x7C7B, 0x5185, 0x5BB9,
     0xFF0C, 0x4E0D, 0x662F, 0x6307, 0x4EE4, 0x3002] @ nl @ nl @ uni [0x5019, 0x9009] @ '' Skill '' @
     uni [0x5217, 0x8868, 0xFF08, 0x5DF2, 0x901A, 0x8FC7, 0x786C, 0x8FC7, 0x6EE4, 0x548C, 0x6DF7,
     0x5408, 0x53EC, 0x56DE, 0xFF09, 0xFF1A] @ nl @ ''{candidates_block}'' @ nl @ nl @ uni [0x5F85,
     0x5206, 0x7C7B] @ '' query'' @ uni [0xFF1A] @ nl @ ''{query_json}'' @ nl @ nl @ uni [0x8BF7,
     0x6309, 0x4EE5, 0x4E0B, 0x8981, 0x6C42, 0x8F93, 0x51FA, 0xFF1A] @ nl @ ''1. '' @ uni [0x8FD4,
     0x56DE, 0x6309, 0x5339, 0x914D, 0x5EA6, 0x964D, 0x5E8F, 0x6392, 0x5217, 0x7684, 0x5019, 0x9009,
     0x5217, 0x8868, 0xFF08, 0x6700, 0x591A] @ '' 5 '' @ uni [0x4E2A, 0xFF09] @ nl @ ''2. '' @ uni
     [0x5224, 0x65AD, 0x662F, 0x5426, 0x4E3A, 0x591A, 0x610F, 0x56FE, 0x8BF7, 0x6C42, 0xFF08] @
     ''multi_intent'' @ uni [0xFF09] @ nl @ ''3. '' @ uni [0x5982, 0x6709, 0x5173, 0x952E, 0x4E0A,
     0x4E0B, 0x6587, 0x7F3A, 0x5931, 0xFF0C, 0x5217, 0x51FA] @ '' missing_context'' @ nl @ ''4. '' @
     uni [0x5982, 0x5019, 0x9009, 0x95F4, 0x5B58, 0x5728, 0x6B67, 0x4E49, 0xFF0C, 0x8BF4, 0x660E] @
     '' ambiguity_reason'' @ nl @ nl @ uni [0x8F93, 0x51FA] @ '' JSON'' @ uni [0xFF08, 0x5FC5, 0x987B,
     0x5339, 0x914D] @ '' schema'' @ uni [0xFF09, 0xFF1A] @ nl @ ''{{'' @ quote_mark @ ''candidates'' @
     quote_mark @ '': [{{'' @ quote_mark @ ''skill_id'' @ quote_mark @ '': '' @ quote_mark @ ''...'' @
     quote_mark @ '', '' @ quote_mark @ ''score'' @ quote_mark @ '': 0.0-1.0, '' @ quote_mark @
     ''reason'' @ quote_mark @ '': '' @ quote_mark @ ''...'' @ quote_mark @ ''}}], '' @ quote_mark @
     ''multi_intent'' @ quote_mark @ '': false, '' @ quote_mark @ ''missing_context'' @ quote_mark @
     '': [], '' @ quote_mark @ ''ambiguity_reason'' @ quote_mark @ '': null}}''"

definition examples_text :: "string list \<Rightarrow> string" where
  "examples_text xs = (if xs = [] then uni [0x65E0] else join (uni [0xFF1B]) xs)"

definition candidate_block :: "scored_card \<Rightarrow> string" where
  "candidate_block s =
     (let c = so_card s in
      ''---'' @ nl @ ''['' @ sk_skill_id c @ '']'' @ nl @ uni [0x540D, 0x79F0, 0xFF1A] @ sk_name c @ nl
      @ uni [0x63CF, 0x8FF0, 0xFF1A] @ sk_description c @ nl @ uni [0x6B63, 0x4F8B, 0xFF1A] @ examples_text (sk_positive_examples c) @ nl
      @ uni [0x8D1F, 0x4F8B, 0xFF1A] @ examples_text (sk_negative_examples c))"

definition build_candidates_block :: "scored_card list \<Rightarrow> string" where
  "build_candidates_block ss = join nl (map candidate_block ss)"

record rerank_env =
  rx_llm_call :: "(string \<Rightarrow> string res) option"
  rx_max_candidates :: nat
  rx_output_top_k :: nat
  rx_float_of_str :: "string \<Rightarrow> rat res"
  rx_decision :: "ranked_candidate list \<Rightarrow> bool \<Rightarrow> pyval list \<Rightarrow> pyval \<Rightarrow> rank_decision res"

definition rerank_prompt :: "string \<Rightarrow> scored_card list \<Rightarrow> string res" where
  "rerank_prompt query ss =
     format_text (\<lambda>_. Inl KeyError)
       [(''candidates_block'', build_candidates_block ss), (''query_json'', json_text (\<lambda>_. []) (PStr query))]
       RERANKER_PROMPT_TEMPLATE"

definition fallback_to_recall_scores :: "scored_card list \<Rightarrow> rank_decision" where
  "fallback_to_recall_scores ss =
     \<lparr>rn_candidates = map (\<lambda>s. \<lparr>rk_skill_id = so_id s, rk_score = so_score s,
                                rk_reason = Msg ''recall fallback'' [PStr (so_source s)]\<rparr>) (take 5 (sort_desc so_score ss)),
      rn_multi_intent = False, rn_missing_context = [], rn_ambiguity_reason = None, rn_degraded = True\<rparr>"

text \<open>A score of the model, clamped; what is no number counts as 0.\<close>

definition clamp_score :: "rat res \<Rightarrow> rat" where
  "clamp_score x = (case x of Inr y \<Rightarrow> max 0 (min 1 y) | Inl _ \<Rightarrow> 0)"

text \<open>The items of the answer that are dictionaries and name a candidate.\<close>

fun ranked_items :: "rerank_env \<Rightarrow> string list \<Rightarrow> pyval list \<Rightarrow> ranked_candidate list res" where
  "ranked_items env valid [] = Inr []"
| "ranked_items env valid (PDict item # items) =
     (let skill_id = dget_or item ''skill_id'' (PStr []) in
      if \<not> hashable skill_id then Inl TypeError
      else
        (case skill_id of
           PStr i \<Rightarrow>
             if i \<in> set valid then
               rbind (ranked_items env valid items) (\<lambda>rs.
                 Inr (\<lparr>rk_skill_id = i,
                       rk_score = clamp_score (py_float (rx_float_of_str env) (dget_or item ''score'' (PFloat 0))),
                       rk_reason = Msg ''model'' [dget_or item ''reason'' (PStr [])]\<rparr> # rs))
             else ranked_items env valid items
         | _ \<Rightarrow> ranked_items env valid items))"
| "ranked_items env valid (v # items) = ranked_items env valid items"

definition parse_rank_output :: "rerank_env \<Rightarrow> string \<Rightarrow> scored_card list \<Rightarrow> rank_decision res" where
  "parse_rank_output env raw ss =
     (case json_loads raw of
        None \<Rightarrow> Inr (fallback_to_recall_scores ss)
      | Some (PDict data) \<Rightarrow>
          rbind (py_iter (dget_or data ''candidates'' (PList []))) (\<lambda>items.
          rbind (ranked_items env (map so_id ss) items) (\<lambda>ranked.
            if ranked = [] then Inr (fallback_to_recall_scores ss)
            else
              rbind (py_iter (dget_or data ''missing_context'' (PList []))) (\<lambda>missing.
                rx_decision env (take (rx_output_top_k env) ranked) (truthy (dget_or data ''multi_intent'' (PBool False)))
                  missing (dget data ''ambiguity_reason''))))
      | Some _ \<Rightarrow> Inl AttributeError)"

definition rerank :: "rerank_env \<Rightarrow> string \<Rightarrow> scored_card list \<Rightarrow> rank_decision res" where
  "rerank env query candidates =
     (let truncated = take (rx_max_candidates env) candidates in
      case rx_llm_call env of
        None \<Rightarrow> Inr (fallback_to_recall_scores truncated)
      | Some call \<Rightarrow>
          rbind (rerank_prompt query truncated) (\<lambda>prompt.
            case call prompt of
              Inl _ \<Rightarrow> Inr (fallback_to_recall_scores truncated)
            | Inr raw \<Rightarrow> parse_rank_output env raw truncated))"

section \<open>The decision\<close>

record decision_thresholds =
  dt_absolute :: rat
  dt_margin :: rat
  dt_composition :: rat
  dt_critical :: rat
  dt_no_skill :: rat

definition default_thresholds :: decision_thresholds where
  "default_thresholds = \<lparr>dt_absolute = 75/100, dt_margin = 15/100, dt_composition = 70/100, dt_critical = 85/100, dt_no_skill = 40/100\<rparr>"

text \<open>\<open>DecisionThresholds.from_config\<close>; the threshold for critical skills is not read from the file.\<close>

definition thresholds_from_config :: "(string \<Rightarrow> rat res) \<Rightarrow> pdict \<Rightarrow> decision_thresholds res" where
  "thresholds_from_config float_of_str config =
     (if config = [] then Inr default_thresholds
      else
        (case dget_or config ''skill_router'' (PDict []) of
           PDict c \<Rightarrow>
             rbind (py_float float_of_str (dget_or c ''absolute_threshold'' (PFloat (75/100)))) (\<lambda>a.
             rbind (py_float float_of_str (dget_or c ''margin_threshold'' (PFloat (15/100)))) (\<lambda>m.
             rbind (py_float float_of_str (dget_or c ''composition_confidence'' (PFloat (70/100)))) (\<lambda>co.
             rbind (py_float float_of_str (dget_or c ''no_skill_confidence'' (PFloat (40/100)))) (\<lambda>n.
               Inr (default_thresholds\<lparr>dt_absolute := a, dt_margin := m, dt_composition := co, dt_no_skill := n\<rparr>)))))
         | _ \<Rightarrow> Inr default_thresholds))"

datatype decision_result =
    NoSkill message
  | Clarify "skill_card list" message
  | Composition string "skill_card option"
  | Select string "skill_card option"

definition clarify_result :: "rank_decision \<Rightarrow> (string \<times> skill_card) list \<Rightarrow> message \<Rightarrow> decision_result" where
  "clarify_result rn cards reason =
     Clarify (concat (map (\<lambda>r. case map_of cards (rk_skill_id r) of None \<Rightarrow> [] | Some c \<Rightarrow> [c]) (take 2 (rn_candidates rn)))) reason"

text \<open>\<open>DecisionPolicy.decide\<close>\<close>

definition decide_skill :: "decision_thresholds \<Rightarrow> rank_decision \<Rightarrow> (string \<times> skill_card) list \<Rightarrow> decision_result" where
  "decide_skill th rn cards =
     (case rn_candidates rn of
        [] \<Rightarrow> NoSkill (Msg ''NO_CANDIDATES'' [])
      | top1 # others \<Rightarrow>
          (let card = map_of cards (rk_skill_id top1); score = rk_score top1 in
           if score < dt_no_skill th then NoSkill (Msg ''TOP1_SCORE_BELOW_THRESHOLD'' [PFloat score])
           else if (case card of None \<Rightarrow> False | Some c \<Rightarrow> sk_risk_level c = ''critical'') \<and> score < dt_critical th
           then clarify_result rn cards (Msg ''CRITICAL_SKILL_LOW_CONFIDENCE'' [PFloat score])
           else if score < dt_absolute th then clarify_result rn cards (Msg ''TOP1_SCORE_BELOW_ABSOLUTE'' [PFloat score])
           else if (case others of [] \<Rightarrow> False | top2 # _ \<Rightarrow> score - rk_score top2 < dt_margin th)
           then clarify_result rn cards (Msg ''INSUFFICIENT_MARGIN'' [])
           else if (case rn_ambiguity_reason rn of None \<Rightarrow> False | Some a \<Rightarrow> a \<noteq> [])
           then clarify_result rn cards (Msg ''AMBIGUITY'' [])
           else if rn_multi_intent rn \<and> others \<noteq> [] then Composition (rk_skill_id top1) card
           else Select (rk_skill_id top1) card))"

section \<open>Fusion is exact\<close>

text \<open>What a ranked list contributes to the score of a card.\<close>

fun rank_term :: "nat \<Rightarrow> string \<Rightarrow> scored_card list \<Rightarrow> rat" where
  "rank_term rank i [] = 0"
| "rank_term rank i (s # ss) = (if so_id s = i then 1 / of_nat (RRF_K + rank + 1) else 0) + rank_term (Suc rank) i ss"

lemma rrf_add_scores:
  "dget_or (fst (rrf_add rank ss (scores, cards))) i 0 = dget_or scores i 0 + rank_term rank i ss"
  by (induction rank ss "(scores, cards)" arbitrary: scores cards rule: rrf_add.induct) auto

lemma rrf_add_keys:
  "fst ` set (fst (rrf_add rank ss (scores, cards))) = fst ` set scores \<union> so_id ` set ss"
  "fst ` set (snd (rrf_add rank ss (scores, cards))) = fst ` set cards \<union> so_id ` set ss"
  by (induction rank ss "(scores, cards)" arbitrary: scores cards rule: rrf_add.induct) (auto simp: dom_dset)

lemma rrf_add_distinct: "distinct (map fst scores) \<Longrightarrow> distinct (map fst (fst (rrf_add rank ss (scores, cards))))"
  by (induction rank ss "(scores, cards)" arbitrary: scores cards rule: rrf_add.induct) auto

lemma rrf_add_cards:
  "\<forall>(i, c) \<in> set cards. sk_skill_id c = i \<Longrightarrow> \<forall>(i, c) \<in> set (snd (rrf_add rank ss (scores, cards))). sk_skill_id c = i"
proof (induction rank ss "(scores, cards)" arbitrary: scores cards rule: rrf_add.induct)
  case (2 rank s ss scores cards)
  have "\<forall>(i, c) \<in> set (dset cards (so_id s) (so_card s)). sk_skill_id c = i"
    using "2.prems" by (induction cards) (auto split: if_splits)
  then show ?case using "2.hyps" by simp
qed simp

definition fused :: "scored_card list \<Rightarrow> scored_card list \<Rightarrow> (string \<times> rat) list \<times> (string \<times> skill_card) list" where
  "fused bm25 embedding = rrf_add 0 embedding (rrf_add 0 bm25 ([], []))"

lemma fused_facts:
  "distinct (map fst (fst (fused a b)))" "fst ` set (fst (fused a b)) = so_id ` set a \<union> so_id ` set b"
  "fst ` set (snd (fused a b)) = so_id ` set a \<union> so_id ` set b"
  "\<forall>(i, c) \<in> set (snd (fused a b)). sk_skill_id c = i"
  "dget_or (fst (fused a b)) i 0 = rank_term 0 i a + rank_term 0 i b"
proof -
  obtain sc ca where ac: "rrf_add 0 a ([], []) = (sc, ca)" by (cases "rrf_add 0 a ([], [])")
  have sc: "distinct (map fst sc)" "fst ` set sc = so_id ` set a" "fst ` set ca = so_id ` set a"
    "\<forall>(i, c) \<in> set ca. sk_skill_id c = i" "dget_or sc i 0 = rank_term 0 i a"
    using rrf_add_distinct [of "[]" 0 a "[]"] rrf_add_keys [of 0 a "[]" "[]"] rrf_add_cards [of "[]" 0 a "[]"]
      rrf_add_scores [of 0 a "[]" "[]" i] by (simp_all add: ac dget_or_def)
  show "distinct (map fst (fst (fused a b)))" "fst ` set (fst (fused a b)) = so_id ` set a \<union> so_id ` set b"
    "fst ` set (snd (fused a b)) = so_id ` set a \<union> so_id ` set b" "\<forall>(i, c) \<in> set (snd (fused a b)). sk_skill_id c = i"
    "dget_or (fst (fused a b)) i 0 = rank_term 0 i a + rank_term 0 i b"
    using rrf_add_distinct [OF sc(1), of 0 b ca] rrf_add_keys [of 0 b sc ca] rrf_add_cards [OF sc(4), of 0 b sc]
      rrf_add_scores [of 0 b sc ca i] sc by (simp_all add: fused_def ac)
qed

lemma sort_desc_facts: "set (sort_desc f xs) = set xs" "sorted_wrt (\<lambda>x y. f y \<le> f x) (sort_desc f xs)" "length (sort_desc f xs) = length xs"
  "distinct (map g (sort_desc f xs)) = distinct (map g xs)"
proof -
  show "set (sort_desc f xs) = set xs" "length (sort_desc f xs) = length xs" by (simp_all add: sort_desc_def)
  have "sorted (map (\<lambda>x. - f x) (sort_desc f xs))" unfolding sort_desc_def by simp
  then show "sorted_wrt (\<lambda>x y. f y \<le> f x) (sort_desc f xs)" by (simp add: sorted_map)
  show "distinct (map g (sort_desc f xs)) = distinct (map g xs)"
    unfolding sort_desc_def by (metis mset_map mset_sort mset_eq_imp_distinct_iff)
qed

lemma fusion_as_map:
  "reciprocal_rank_fusion a b n =
     map (\<lambda>(i, x). \<lparr>so_card = the (map_of (snd (fused a b)) i), so_score = x, so_source = ''rrf''\<rparr>)
       (take n (sort_desc snd (fst (fused a b))))"
proof -
  have mem: "\<exists>c. map_of (snd (fused a b)) i = Some c" if "(i, x) \<in> set (take n (sort_desc snd (fst (fused a b))))" for i x
  proof -
    have "i \<in> fst ` set (fst (fused a b))"
      using that by (metis fst_conv image_eqI in_set_takeD sort_desc_facts(1))
    then have "i \<in> fst ` set (snd (fused a b))" by (simp add: fused_facts(2,3))
    then show ?thesis by (metis domD dom_map_of_conv_image_fst)
  qed
  have *: "concat (map (\<lambda>(i, x). case map_of cs i of None \<Rightarrow> [] | Some c \<Rightarrow> [\<lparr>so_card = c, so_score = x, so_source = ''rrf''\<rparr>]) ys) =
      map (\<lambda>(i, x). \<lparr>so_card = the (map_of cs i), so_score = x, so_source = ''rrf''\<rparr>) ys"
    if "\<And>i x. (i, x) \<in> set ys \<Longrightarrow> \<exists>c. map_of cs i = Some c" for ys :: "(string \<times> rat) list" and cs
    using that by (induction ys) (auto, fastforce)
  show ?thesis
    unfolding reciprocal_rank_fusion_def fused_def [symmetric]
    using * [OF mem] by (simp add: case_prod_beta)
qed

lemma fused_card_id:
  assumes "i \<in> fst ` set (fst (fused a b))"
  shows "sk_skill_id (the (map_of (snd (fused a b)) i)) = i"
proof -
  from assms have "i \<in> fst ` set (snd (fused a b))" by (simp add: fused_facts(2,3))
  then obtain c where c: "map_of (snd (fused a b)) i = Some c" by (metis domD dom_map_of_conv_image_fst)
  then have "(i, c) \<in> set (snd (fused a b))" by (rule map_of_SomeD)
  then have "sk_skill_id c = i" using fused_facts(4) [of a b] by auto
  with c show ?thesis by simp
qed

lemma fusion_ids: "map so_id (reciprocal_rank_fusion a b n) = map fst (take n (sort_desc snd (fst (fused a b))))"
proof -
  have "so_id (case p of (i, x) \<Rightarrow> \<lparr>so_card = the (map_of (snd (fused a b)) i), so_score = x, so_source = ''rrf''\<rparr>) = fst p"
    if "p \<in> set (take n (sort_desc snd (fst (fused a b))))" for p
  proof (cases p)
    case (Pair i x)
    with that have "i \<in> fst ` set (fst (fused a b))" by (metis fst_conv image_eqI in_set_takeD sort_desc_facts(1))
    then show ?thesis using Pair fused_card_id by simp
  qed
  then show ?thesis unfolding fusion_as_map by simp
qed

text \<open>The fused score of an identifier.\<close>

definition rrf_score :: "scored_card list \<Rightarrow> scored_card list \<Rightarrow> string \<Rightarrow> rat" where
  "rrf_score a b i = rank_term 0 i a + rank_term 0 i b"

lemma fused_score:
  assumes "p \<in> set (fst (fused a b))"
  shows "snd p = rrf_score a b (fst p)"
proof -
  obtain i x where p: "p = (i, x)" by (cases p)
  have "map_of (fst (fused a b)) i = Some x"
    by (rule map_of_is_SomeI [OF fused_facts(1)]) (use assms p in simp)
  then have "dget_or (fst (fused a b)) (fst p) 0 = snd p" by (simp add: dget_or_def p)
  then show ?thesis using fused_facts(5) [of a b "fst p"] by (simp add: rrf_score_def)
qed

lemma fusion_scores: "map so_score (reciprocal_rank_fusion a b n) = map snd (take n (sort_desc snd (fst (fused a b))))"
  unfolding fusion_as_map by (simp add: case_prod_beta)

lemma fusion_leaves_out:
  assumes "i \<in> so_id ` set a \<union> so_id ` set b" "i \<notin> so_id ` set (reciprocal_rank_fusion a b n)"
    "s \<in> set (reciprocal_rank_fusion a b n)"
  shows "rrf_score a b i \<le> so_score s"
proof -
  let ?L = "sort_desc snd (fst (fused a b))"
  have kept: "so_id ` set (reciprocal_rank_fusion a b n) = fst ` set (take n ?L)"
    using fusion_ids [of a b n] by (metis set_map)
  have "i \<in> fst ` set ?L" using assms(1) fused_facts(2) [of a b] by (simp only: sort_desc_facts(1))
  then obtain q where q: "q \<in> set ?L" "fst q = i" by blast
  have "q \<notin> set (take n ?L)" using assms(2) kept q(2) by auto
  moreover have "q \<in> set (take n ?L) \<union> set (drop n ?L)" using q(1) by (metis append_take_drop_id set_append)
  ultimately have qd: "q \<in> set (drop n ?L)" by blast
  obtain p where p: "p \<in> set (take n ?L)" "snd p = so_score s"
    using assms(3) fusion_scores [of a b n] by (metis (no_types, lifting) imageE image_eqI set_map)
  have "sorted_wrt (\<lambda>x y. snd y \<le> snd x) (take n ?L @ drop n ?L)" using sort_desc_facts(2) by simp
  then have "snd q \<le> snd p" using p(1) qd unfolding sorted_wrt_append by blast
  with p(2) q fused_score [of q a b] show ?thesis by (simp add: sort_desc_facts(1))
qed

lemma rrf_add_from: "snd ` set (snd (rrf_add rank ss (scores, cards))) \<subseteq> snd ` set cards \<union> so_card ` set ss"
proof (induction rank ss "(scores, cards)" arbitrary: scores cards rule: rrf_add.induct)
  case (2 rank s ss scores cards)
  have "snd ` set (dset cards (so_id s) (so_card s)) \<subseteq> insert (so_card s) (snd ` set cards)"
    by (induction cards) auto
  with "2.hyps" show ?case by (auto simp: subset_iff)
qed simp

lemma fusion_cards_from: "so_card ` set (reciprocal_rank_fusion a b n) \<subseteq> so_card ` set a \<union> so_card ` set b"
proof
  fix k
  assume "k \<in> so_card ` set (reciprocal_rank_fusion a b n)"
  then obtain p where p: "p \<in> set (take n (sort_desc snd (fst (fused a b))))" "k = the (map_of (snd (fused a b)) (fst p))"
    unfolding fusion_as_map by (auto simp: case_prod_beta)
  then have "fst p \<in> fst ` set (snd (fused a b))"
    using fused_facts(2,3) [of a b] by (metis image_eqI in_set_takeD sort_desc_facts(1))
  then have "map_of (snd (fused a b)) (fst p) = Some k" using p(2) by (metis domD dom_map_of_conv_image_fst option.sel)
  then have "k \<in> snd ` set (snd (fused a b))" by (force dest: map_of_SomeD)
  moreover obtain sc ca where "rrf_add 0 a ([], []) = (sc, ca)" by (cases "rrf_add 0 a ([], [])")
  ultimately show "k \<in> so_card ` set a \<union> so_card ` set b"
    using rrf_add_from [of 0 b sc ca] rrf_add_from [of 0 a "[]" "[]"] by (auto simp: fused_def)
qed

lemma fusion_length: "length (reciprocal_rank_fusion a b n) = min n (card (so_id ` set a \<union> so_id ` set b))"
  using distinct_card [OF fused_facts(1), of a b] fused_facts(2) [of a b]
  by (simp add: fusion_as_map sort_desc_facts(3))

text \<open>C22: reciprocal rank fusion is exact. The fused list holds cards of the two lists, each identifier once, as
  many as fit; the score of a card is the sum of the reciprocals of its shifted ranks in both lists, the
  list is ordered by it, and what is left out scores no higher than anything that is kept.\<close>

theorem fusion_is_exact:
  "distinct (map so_id (reciprocal_rank_fusion a b n))
   \<and> length (reciprocal_rank_fusion a b n) = min n (card (so_id ` set a \<union> so_id ` set b))
   \<and> so_card ` set (reciprocal_rank_fusion a b n) \<subseteq> so_card ` set a \<union> so_card ` set b
   \<and> map so_score (reciprocal_rank_fusion a b n) = map (\<lambda>s. rrf_score a b (so_id s)) (reciprocal_rank_fusion a b n)
   \<and> sorted_wrt (\<lambda>s t. so_score t \<le> so_score s) (reciprocal_rank_fusion a b n)
   \<and> (\<forall>i \<in> (so_id ` set a \<union> so_id ` set b) - so_id ` set (reciprocal_rank_fusion a b n).
        \<forall>s \<in> set (reciprocal_rank_fusion a b n). rrf_score a b i \<le> so_score s)"
proof -
  let ?F = "fst (fused a b)" and ?R = "reciprocal_rank_fusion a b n"
  let ?T = "take n (sort_desc snd ?F)"
  have distT: "distinct (map fst ?T)"
    using sort_desc_facts(4) [of fst snd ?F] fused_facts(1) [of a b] by (simp add: take_map [symmetric])
  have "snd p = rrf_score a b (fst p)" if "p \<in> set ?T" for p
    using that by (metis fused_score in_set_takeD sort_desc_facts(1))
  then have "map snd ?T = map (rrf_score a b) (map fst ?T)" by simp
  also have "\<dots> = map (\<lambda>s. rrf_score a b (so_id s)) ?R"
    unfolding fusion_ids [symmetric] by simp
  finally have eq: "map so_score ?R = map (\<lambda>s. rrf_score a b (so_id s)) ?R"
    using fusion_scores by simp
  have "sorted_wrt (\<lambda>x y. y \<le> x) (map so_score ?R)"
    unfolding fusion_scores using sort_desc_facts(2) [of snd ?F] by (simp add: sorted_wrt_map sorted_wrt_take)
  then have "sorted_wrt (\<lambda>s t. so_score t \<le> so_score s) ?R" by (simp add: sorted_wrt_map)
  moreover have "distinct (map so_id ?R)" using distT by (simp add: fusion_ids)
  ultimately show ?thesis
    using eq fusion_length fusion_cards_from fusion_leaves_out by blast
qed

section \<open>The model ranks, it does not invent\<close>

lemma clamp_bounds: "0 \<le> clamp_score x" "clamp_score x \<le> 1"
  by (cases x; simp add: clamp_score_def)+

lemma ranked_items_dict:
  assumes "ranked_items env valid (PDict item # items) = Inr rs"
  shows "ranked_items env valid items = Inr rs \<or>
    (\<exists>r rest. rk_skill_id r \<in> set valid \<and> 0 \<le> rk_score r \<and> rk_score r \<le> 1 \<and> ranked_items env valid items = Inr rest \<and> rs = r # rest)"
proof (cases "dget_or item ''skill_id'' (PStr [])")
  case (PStr i)
  with assms show ?thesis by (cases "i \<in> set valid") (auto simp: rbind_eq_Inr_iff clamp_bounds)
qed (use assms in \<open>simp_all\<close>)

lemma ranked_items_known:
  "ranked_items env valid items = Inr rs \<Longrightarrow> r \<in> set rs \<Longrightarrow> rk_skill_id r \<in> set valid \<and> 0 \<le> rk_score r \<and> rk_score r \<le> 1"
proof (induction items arbitrary: rs)
  case (Cons v items)
  show ?case
  proof (cases v)
    case (PDict item)
    with Cons.prems(1) ranked_items_dict [of env valid item items rs] Cons.IH Cons.prems(2) show ?thesis by fastforce
  qed (use Cons in simp_all)
qed simp

lemma fallback_known: "rk_skill_id ` set (rn_candidates (fallback_to_recall_scores ss)) \<subseteq> so_id ` set ss"
proof -
  have "set (take 5 (sort_desc so_score ss)) \<subseteq> set ss" using set_take_subset sort_desc_facts(1) by metis
  then show ?thesis by (auto simp: fallback_to_recall_scores_def)
qed

text \<open>What the code relies on of pydantic: the candidates of a constructed ranking are those it was built
  from.\<close>

definition keeps_candidates :: "rerank_env \<Rightarrow> bool" where
  "keeps_candidates env \<longleftrightarrow>
     (\<forall>cs b m a d. rx_decision env cs b m a = Inr d \<longrightarrow> rn_candidates d = cs \<and> \<not> rn_degraded d)"

lemma parse_rank_cases:
  assumes "parse_rank_output env raw ss = Inr d"
  shows "d = fallback_to_recall_scores ss \<or>
    (\<exists>items ranked m a b. ranked_items env (map so_id ss) items = Inr ranked
       \<and> rx_decision env (take (rx_output_top_k env) ranked) m a b = Inr d)"
proof (cases "json_loads raw")
  case None
  with assms show ?thesis by (simp add: parse_rank_output_def)
next
  case (Some v)
  show ?thesis
  proof (cases v)
    case (PDict data)
    with Some assms show ?thesis by (auto simp: parse_rank_output_def rbind_eq_Inr_iff split: if_splits)
  qed (use Some assms in \<open>simp_all add: parse_rank_output_def\<close>)
qed

lemma rerank_cases:
  assumes "rerank env query ss = Inr d"
  shows "d = fallback_to_recall_scores (take (rx_max_candidates env) ss) \<or>
    (\<exists>raw. parse_rank_output env raw (take (rx_max_candidates env) ss) = Inr d)"
proof (cases "rx_llm_call env")
  case None
  with assms show ?thesis by (simp add: rerank_def)
next
  case (Some call)
  with assms obtain p where "rerank_prompt query (take (rx_max_candidates env) ss) = Inr p"
    by (auto simp: rerank_def rbind_eq_Inr_iff Let_def)
  with Some assms show ?thesis by (cases "call p") (auto simp: rerank_def)
qed

text \<open>C23: the reranker never introduces a skill. Whatever the model answers, every ranked candidate is one of
  those that were recalled and shown to it, and a score given by the model lies between 0 and 1.\<close>

theorem rerank_keeps_to_candidates:
  assumes "rerank env query ss = Inr d" and "keeps_candidates env"
  shows "rk_skill_id ` set (rn_candidates d) \<subseteq> so_id ` set (take (rx_max_candidates env) ss)
    \<and> (\<not> rn_degraded d \<longrightarrow> (\<forall>r \<in> set (rn_candidates d). 0 \<le> rk_score r \<and> rk_score r \<le> 1))"
proof -
  let ?T = "take (rx_max_candidates env) ss"
  consider "d = fallback_to_recall_scores ?T"
    | items ranked m a b where "ranked_items env (map so_id ?T) items = Inr ranked"
        "rx_decision env (take (rx_output_top_k env) ranked) m a b = Inr d"
    using rerank_cases [OF assms(1)] parse_rank_cases by blast
  then show ?thesis
  proof cases
    case 1
    then show ?thesis using fallback_known [of ?T] by (simp add: fallback_to_recall_scores_def)
  next
    case 2
    then have c: "rn_candidates d = take (rx_output_top_k env) ranked" using assms(2) by (simp add: keeps_candidates_def)
    have "set (rn_candidates d) \<subseteq> set ranked" unfolding c by (rule set_take_subset)
    with ranked_items_known [OF 2(1)] show ?thesis by auto
  qed
qed

definition example_card :: scored_card where
  "example_card =
     \<lparr>so_card = \<lparr>sk_skill_id = ''q1'', sk_version = ''1'', sk_skill_type = ''report'', sk_name = ''n'', sk_description = ''d'',
        sk_domains = [], sk_capabilities = [], sk_intents = [], sk_languages = [], sk_positive_examples = [],
        sk_negative_examples = [], sk_exclusion_rules = [], sk_required_permissions = [], sk_allowed_tenants = [],
        sk_lifecycle_status = ''active'', sk_tenant_overrides = [], sk_risk_level = ''low'', sk_cost_class = ''low'',
        sk_latency_class = ''low'', sk_dependencies_healthy = True, sk_required_dependency_ids = [],
        sk_execution_mode = ''linear'', sk_report_type = None\<rparr>, so_score = 1/2, so_source = ''bm25''\<rparr>"

theorem fusion_is_exact_witness:
  "let first = example_card\<lparr>so_card := (so_card example_card)\<lparr>sk_skill_id := ''q2''\<rparr>\<rparr>;
       fused_one = reciprocal_rank_fusion [first, example_card] [example_card] 1 in
   map so_id fused_one = [''q1'']
   \<and> (\<forall>s \<in> set fused_one. rrf_score [first, example_card] [example_card] ''q2'' \<le> so_score s)"
proof -
  let ?a = "[example_card\<lparr>so_card := (so_card example_card)\<lparr>sk_skill_id := ''q2''\<rparr>\<rparr>, example_card]"
  have ids: "map so_id (reciprocal_rank_fusion ?a [example_card] 1) = [''q1'']" by code_simp
  then have "so_id ` set (reciprocal_rank_fusion ?a [example_card] 1) = {''q1''}" by (metis list.set_map list.simps(15) empty_set)
  then have "''q2'' \<in> (so_id ` set ?a \<union> so_id ` set [example_card]) - so_id ` set (reciprocal_rank_fusion ?a [example_card] 1)"
    by simp
  with fusion_is_exact [of ?a "[example_card]" 1] ids show ?thesis unfolding Let_def by blast
qed

definition example_rerank :: rerank_env where
  "example_rerank =
     \<lparr>rx_llm_call = Some (\<lambda>_. Inr ''{\"candidates\":[{\"skill_id\":\"q1\",\"score\":2},{\"skill_id\":\"x\"}]}''),
      rx_max_candidates = 10, rx_output_top_k = 5, rx_float_of_str = (\<lambda>_. Inl ValueError),
      rx_decision = (\<lambda>cs b m a. Inr \<lparr>rn_candidates = cs, rn_multi_intent = b, rn_missing_context = [],
                                    rn_ambiguity_reason = None, rn_degraded = False\<rparr>)\<rparr>"

theorem rerank_keeps_to_candidates_witness:
  "case rerank example_rerank ''q'' [example_card] of
     Inl _ \<Rightarrow> False
   | Inr d \<Rightarrow> rn_candidates d \<noteq> [] \<and> rk_skill_id ` set (rn_candidates d) \<subseteq> {''q1''}"
proof -
  have ex: "rerank example_rerank ''q'' [example_card] =
      Inr \<lparr>rn_candidates = [\<lparr>rk_skill_id = ''q1'', rk_score = 1, rk_reason = Msg ''model'' [PStr []]\<rparr>], rn_multi_intent = False,
           rn_missing_context = [], rn_ambiguity_reason = None, rn_degraded = False\<rparr>"
    by code_simp
  have "keeps_candidates example_rerank" by (auto simp: keeps_candidates_def example_rerank_def)
  from rerank_keeps_to_candidates [OF ex this] ex show ?thesis by (simp add: example_card_def example_rerank_def)
qed

section \<open>A selected skill is a confident choice\<close>

text \<open>A skill is selected only with confidence. Its score reaches the absolute threshold, the higher one if
  the skill is critical, it leads the next candidate by the margin, and the ranking reports no ambiguity.\<close>

theorem selected_skill_is_confident:
  assumes "decide_skill th rn cards = Select i c"
  shows "\<exists>top others. rn_candidates rn = top # others \<and> rk_skill_id top = i \<and> map_of cards i = c
    \<and> dt_absolute th \<le> rk_score top \<and> dt_no_skill th \<le> rk_score top
    \<and> (\<forall>card. c = Some card \<longrightarrow> sk_risk_level card = ''critical'' \<longrightarrow> dt_critical th \<le> rk_score top)
    \<and> (\<forall>second rest. others = second # rest \<longrightarrow> dt_margin th \<le> rk_score top - rk_score second \<and> \<not> rn_multi_intent rn)
    \<and> (rn_ambiguity_reason rn = None \<or> rn_ambiguity_reason rn = Some [])"
  using assms
  by (auto simp: decide_skill_def clarify_result_def Let_def split: list.splits if_splits option.splits)

theorem selected_skill_is_confident_witness:
  "dt_absolute default_thresholds \<le> (9/10 :: rat)"
proof -
  have "decide_skill default_thresholds
      \<lparr>rn_candidates = [\<lparr>rk_skill_id = ''q1'', rk_score = 9/10, rk_reason = Msg [] []\<rparr>], rn_multi_intent = False,
       rn_missing_context = [], rn_ambiguity_reason = None, rn_degraded = False\<rparr> [] = Select ''q1'' None"
    by (simp add: decide_skill_def default_thresholds_def)
  from selected_skill_is_confident [OF this] show ?thesis by auto
qed

end
