(* ===== verification/Regex.thy ===== *)
theory Regex
  imports Redaction
begin

text \<open>
  The part of Python's \<open>re\<close> that the routers use, on the code points of a text: literals and classes,
  sequence, alternative, greedy repetition, the anchors \<open>^\<close> and \<open>$\<close> and the word boundary \<open>\\b\<close>. A
  position is the code point before it (\<open>None\<close> at the start) and the rest of the text. \<open>ends\<close> is the
  backtracking matcher: the positions behind the matches of an expression, in the order in which
  Python tries them, so that the first one is the match that Python reports. \<open>matches\<close> is the
  declarative meaning, and \<open>ends_iff\<close> shows that the matcher finds exactly the matches.

  With \<open>re.IGNORECASE\<close> a literal of ASCII letters also matches the other case; the two letters outside
  of ASCII whose case folding is an ASCII letter (U+017F and U+212A) are not matched.
\<close>

section \<open>Expressions and their meaning\<close>

datatype re = Eps | Sat "string \<Rightarrow> bool" | Seq re re | Alt re re | Rep re | Bol | Eol | Bound

type_synonym pos = "string option \<times> string list"

definition at_bound :: "unicode \<Rightarrow> pos \<Rightarrow> bool" where
  "at_bound u p \<longleftrightarrow> (case fst p of None \<Rightarrow> False | Some c \<Rightarrow> cp_word u c) \<noteq> next_word u (snd p)"

definition at_end :: "pos \<Rightarrow> bool" where
  "at_end p \<longleftrightarrow> snd p = [] \<or> snd p = [[CHR 0x0A]]"

primrec matches :: "unicode \<Rightarrow> re \<Rightarrow> pos \<Rightarrow> pos \<Rightarrow> bool" where
  "matches u Eps = (\<lambda>p q. q = p)"
| "matches u (Sat f) = (\<lambda>p q. \<exists>c cs. snd p = c # cs \<and> f c \<and> q = (Some c, cs))"
| "matches u (Seq r s) = (\<lambda>p q. \<exists>m. matches u r p m \<and> matches u s m q)"
| "matches u (Alt r s) = (\<lambda>p q. matches u r p q \<or> matches u s p q)"
| "matches u (Rep r) = (matches u r)\<^sup>*\<^sup>*"
| "matches u Bol = (\<lambda>p q. q = p \<and> fst p = None)"
| "matches u Eol = (\<lambda>p q. q = p \<and> at_end p)"
| "matches u Bound = (\<lambda>p q. q = p \<and> at_bound u p)"

section \<open>The matcher\<close>

definition sat_ends :: "(string \<Rightarrow> bool) \<Rightarrow> pos \<Rightarrow> pos list" where
  "sat_ends f p = (case snd p of [] \<Rightarrow> [] | c # cs \<Rightarrow> if f c then [(Some c, cs)] else [])"

text \<open>A pass of a repetition that consumes nothing ends it.\<close>

function ends :: "unicode \<Rightarrow> re \<Rightarrow> pos \<Rightarrow> pos list" where
  "ends u Eps p = [p]"
| "ends u (Sat f) p = sat_ends f p"
| "ends u (Seq r s) p = concat (map (ends u s) (ends u r p))"
| "ends u (Alt r s) p = ends u r p @ ends u s p"
| "ends u (Rep r) p =
     concat (map (\<lambda>q. if length (snd q) < length (snd p) then ends u (Rep r) q else []) (ends u r p)) @ [p]"
| "ends u Bol p = (if fst p = None then [p] else [])"
| "ends u Eol p = (if at_end p then [p] else [])"
| "ends u Bound p = (if at_bound u p then [p] else [])"
  by pat_completeness auto
termination
  by (relation "measures [\<lambda>(u, r, p). size r, \<lambda>(u, r, p). length (snd p)]") auto

declare ends.simps(5) [simp del]

text \<open>\<open>re.search\<close> from a position, and the text of the match; \<open>re.match\<close> is tried at the start only.\<close>

function search_from :: "unicode \<Rightarrow> re \<Rightarrow> pos \<Rightarrow> (string list) option" where
  "search_from u r p =
     (case ends u r p of
        q # _ \<Rightarrow> Some (take (length (snd p) - length (snd q)) (snd p))
      | [] \<Rightarrow> (case snd p of [] \<Rightarrow> None | c # cs \<Rightarrow> search_from u r (Some c, cs)))"
  by pat_completeness auto
termination
  by (relation "measure (\<lambda>(u, r, p). length (snd p))") auto

declare search_from.simps [simp del]

definition search_text :: "unicode \<Rightarrow> re \<Rightarrow> string \<Rightarrow> string option" where
  "search_text u r s = map_option concat (search_from u r (None, u_chars s))"

definition search :: "unicode \<Rightarrow> re \<Rightarrow> string \<Rightarrow> bool" where
  "search u r s \<longleftrightarrow> search_text u r s \<noteq> None"

definition match_start :: "unicode \<Rightarrow> re \<Rightarrow> string \<Rightarrow> bool" where
  "match_start u r s \<longleftrightarrow> ends u r (None, u_chars s) \<noteq> []"

section \<open>Derived expressions\<close>

fun seqs :: "re list \<Rightarrow> re" where
  "seqs [] = Eps"
| "seqs [r] = r"
| "seqs (r # rs) = Seq r (seqs rs)"

fun alts :: "re list \<Rightarrow> re" where
  "alts [] = Sat (\<lambda>_. False)"
| "alts [r] = r"
| "alts (r # rs) = Alt r (alts rs)"

text \<open>A literal, with and without \<open>re.IGNORECASE\<close>; \<open>.\<close>, \<open>\\s\<close>, \<open>\\d\<close> and \<open>\\w\<close>.\<close>

definition lit :: "string \<Rightarrow> re" where
  "lit s = seqs (map (\<lambda>c. Sat (\<lambda>p. p = c)) (u_chars s))"

definition lit_ci :: "string \<Rightarrow> re" where
  "lit_ci s = seqs (map (\<lambda>c. Sat (\<lambda>p. lower p = lower c)) (u_chars s))"

definition any_of :: "string \<Rightarrow> re" where
  "any_of cs = Sat (\<lambda>p. p \<in> set (u_chars cs))"

definition none_of :: "string \<Rightarrow> re" where
  "none_of cs = Sat (\<lambda>p. p \<notin> set (u_chars cs))"

definition dot :: re where
  "dot = Sat (\<lambda>p. p \<noteq> [CHR 0x0A])"

definition space :: re where
  "space = Sat (\<lambda>p. p \<in> set ws_points)"

definition digit :: "unicode \<Rightarrow> re" where
  "digit u = Sat (cp_digit u)"

definition wordc :: "unicode \<Rightarrow> re" where
  "wordc u = Sat (cp_word u)"

definition many1 :: "re \<Rightarrow> re" where
  "many1 r = Seq r (Rep r)"

definition opt :: "re \<Rightarrow> re" where
  "opt r = Alt r Eps"

text \<open>\<open>r{n,}\<close> and \<open>r{m,n}\<close>\<close>

fun at_least :: "nat \<Rightarrow> re \<Rightarrow> re" where
  "at_least 0 r = Rep r"
| "at_least (Suc n) r = Seq r (at_least n r)"

fun up_to :: "nat \<Rightarrow> re \<Rightarrow> re" where
  "up_to 0 r = Eps"
| "up_to (Suc n) r = opt (Seq r (up_to n r))"

fun between :: "nat \<Rightarrow> nat \<Rightarrow> re \<Rightarrow> re" where
  "between 0 n r = up_to n r"
| "between (Suc m) n r = Seq r (between m (n - 1) r)"

section \<open>The matcher finds the matches\<close>

text \<open>A match consumes a part of the text.\<close>

definition consumed :: "pos \<Rightarrow> string list \<Rightarrow> pos \<Rightarrow> bool" where
  "consumed p zs q \<longleftrightarrow> snd p = zs @ snd q \<and> fst q = (if zs = [] then fst p else Some (last zs))"

lemma consumed_refl: "consumed p [] p"
  by (simp add: consumed_def)

lemma consumed_trans: "consumed p xs m \<Longrightarrow> consumed m ys q \<Longrightarrow> consumed p (xs @ ys) q"
  by (auto simp: consumed_def)

lemma matches_consumed: "matches u r p q \<Longrightarrow> \<exists>zs. consumed p zs q"
proof (induction r arbitrary: p q)
  case (Rep r)
  from Rep.prems have "(matches u r)\<^sup>*\<^sup>* p q" by simp
  then show ?case
    by (induction rule: rtranclp_induct) (blast intro: consumed_refl consumed_trans dest: Rep.IH)+
next
  case (Sat f)
  then obtain c cs where "snd p = c # cs" "q = (Some c, cs)" by auto
  then have "consumed p [c] q" by (simp add: consumed_def)
  then show ?case ..
next
  case (Seq r s)
  from Seq.prems obtain m where "matches u r p m" "matches u s m q" by auto
  with Seq.IH obtain xs ys where "consumed p xs m" "consumed m ys q" by blast
  then have "consumed p (xs @ ys) q" by (rule consumed_trans)
  then show ?case ..
qed (auto intro: consumed_refl)

lemma matches_length: "matches u r p q \<Longrightarrow> length (snd q) \<le> length (snd p)"
  using matches_consumed by (fastforce simp: consumed_def)

lemma matches_stay:
  assumes "matches u r p q" and "length (snd q) = length (snd p)"
  shows "q = p"
proof -
  from matches_consumed [OF assms(1)] obtain zs where "consumed p zs q" ..
  with assms(2) show ?thesis by (auto simp: consumed_def prod_eq_iff)
qed

lemma rep_progress:
  assumes "(matches u r)\<^sup>*\<^sup>* p q"
  shows "q = p \<or> (\<exists>m. matches u r p m \<and> length (snd m) < length (snd p) \<and> (matches u r)\<^sup>*\<^sup>* m q)"
  using assms
proof (induction rule: converse_rtranclp_induct)
  case (step a b)
  show ?case
  proof (cases "length (snd b) < length (snd a)")
    case False
    with matches_length [OF step(1)] matches_stay [OF step(1)] have "b = a" by simp
    with step.IH show ?thesis by simp
  qed (use step in blast)
qed simp

lemma set_ends_Rep:
  "q \<in> set (ends u (Rep r) p) \<longleftrightarrow>
     q = p \<or> (\<exists>m \<in> set (ends u r p). length (snd m) < length (snd p) \<and> q \<in> set (ends u (Rep r) m))"
  by (subst ends.simps(5)) (auto split: if_splits)

lemma ends_iff: "q \<in> set (ends u r p) \<longleftrightarrow> matches u r p q"
proof (induction u r p arbitrary: q rule: ends.induct)
  case (5 u r p)
  show ?case
  proof
    assume "q \<in> set (ends u (Rep r) p)"
    then consider "q = p" | m where "m \<in> set (ends u r p)" "length (snd m) < length (snd p)" "q \<in> set (ends u (Rep r) m)"
      unfolding set_ends_Rep [of q u r p] by blast
    then show "matches u (Rep r) p q"
    proof cases
      case 2
      with "5.IH"(1) [of m] "5.IH"(2) [OF 2(1,2), of q] have "matches u r p m" "(matches u r)\<^sup>*\<^sup>* m q" by simp_all
      then show ?thesis by simp
    qed simp
  next
    assume "matches u (Rep r) p q"
    then consider "q = p" | m where "matches u r p m" "length (snd m) < length (snd p)" "matches u (Rep r) m q"
      using rep_progress [of u r p q] by auto
    then show "q \<in> set (ends u (Rep r) p)"
    proof cases
      case 2
      with "5.IH"(1) [of m] have m: "m \<in> set (ends u r p)" by simp
      with "5.IH"(2) [OF m 2(2), of q] 2 show ?thesis unfolding set_ends_Rep [of q u r p] by blast
    qed (simp add: set_ends_Rep [of p u r p])
  qed
qed (auto simp: sat_ends_def split: list.splits)

text \<open>A search succeeds exactly if the expression matches somewhere.\<close>

lemma search_from_iff:
  "search_from u r p \<noteq> None \<longleftrightarrow> (\<exists>zs m q. consumed p zs m \<and> matches u r m q)"
proof (induction u r p rule: search_from.induct)
  case (1 u r p)
  show ?case
  proof (cases "ends u r p")
    case (Cons q qs)
    then have "matches u r p q" using ends_iff [of q u r p] by simp
    with consumed_refl have "\<exists>zs m q. consumed p zs m \<and> matches u r m q" by blast
    with Cons show ?thesis by (subst search_from.simps) simp
  next
    case Nil
    then have here: "\<not> matches u r p q" for q using ends_iff [of q u r p] by simp
    show ?thesis
    proof (cases "snd p")
      case Nil': Nil
      have "\<not> (\<exists>zs m q. consumed p zs m \<and> matches u r m q)"
      proof (intro notI, elim exE conjE)
        fix zs m q assume "consumed p zs m" and m: "matches u r m q"
        with Nil' have "m = p" by (auto simp: consumed_def prod_eq_iff)
        with m here show False by blast
      qed
      with Nil Nil' show ?thesis by (subst search_from.simps) simp
    next
      case (Cons c cs)
      have "(\<exists>zs m q. consumed p zs m \<and> matches u r m q) \<longleftrightarrow> (\<exists>zs m q. consumed (Some c, cs) zs m \<and> matches u r m q)"
      proof
        assume "\<exists>zs m q. consumed p zs m \<and> matches u r m q"
        then obtain zs m q where m: "consumed p zs m" "matches u r m q" by blast
        have "m = p" if "zs = []" using that m(1) by (auto simp: consumed_def prod_eq_iff)
        with here m(2) have "zs \<noteq> []" by blast
        with m(1) Cons have "consumed (Some c, cs) (tl zs) m" by (cases zs) (auto simp: consumed_def)
        with m(2) show "\<exists>zs m q. consumed (Some c, cs) zs m \<and> matches u r m q" by blast
      next
        assume "\<exists>zs m q. consumed (Some c, cs) zs m \<and> matches u r m q"
        then obtain zs m q where m: "consumed (Some c, cs) zs m" "matches u r m q" by blast
        with Cons have "consumed p (c # zs) m" by (auto simp: consumed_def)
        with m(2) show "\<exists>zs m q. consumed p zs m \<and> matches u r m q" by blast
      qed
      with 1 [OF Nil Cons] Nil Cons show ?thesis by (subst search_from.simps) simp
    qed
  qed
qed

lemma search_iff: "search u r s \<longleftrightarrow> (\<exists>zs m q. consumed (None, u_chars s) zs m \<and> matches u r m q)"
  unfolding search_def search_text_def using search_from_iff [of u r "(None, u_chars s)"] by auto

section \<open>Meaning of the derived expressions\<close>

lemma matches_seqs: "matches u (seqs (r # rs)) p q \<longleftrightarrow> (\<exists>m. matches u r p m \<and> matches u (seqs rs) m q)"
  by (cases rs; cases q) auto

lemma matches_alts: "matches u (alts rs) p q \<longleftrightarrow> (\<exists>r \<in> set rs. matches u r p q)"
  by (induction rs rule: alts.induct) auto

lemma consumed_Cons: "consumed p (c # cs) q \<longleftrightarrow> (\<exists>ds. snd p = c # ds \<and> consumed (Some c, ds) cs q)"
  by (auto simp: consumed_def)

lemma consumed_Nil: "consumed p [] q \<longleftrightarrow> q = p"
  by (auto simp: consumed_def prod_eq_iff)

lemma matches_lit: "matches u (lit s) p q \<longleftrightarrow> consumed p (u_chars s) q"
proof -
  have "matches u (seqs (map (\<lambda>c. Sat (\<lambda>p. p = c)) cs)) p q \<longleftrightarrow> consumed p cs q" for cs
    by (induction cs arbitrary: p) (auto simp: consumed_Nil consumed_Cons matches_seqs simp del: seqs.simps(2,3))
  then show ?thesis by (simp add: lit_def)
qed

lemma matches_many: "matches u (Rep (Sat f)) p q \<longleftrightarrow> (\<exists>zs. consumed p zs q \<and> list_all f zs)"
proof
  assume "matches u (Rep (Sat f)) p q"
  then have "(matches u (Sat f))\<^sup>*\<^sup>* p q" by simp
  then show "\<exists>zs. consumed p zs q \<and> list_all f zs"
  proof (induction rule: converse_rtranclp_induct)
    case base
    show ?case using consumed_refl by fastforce
  next
    case (step a b)
    then obtain c cs zs where "snd a = c # cs" "f c" "b = (Some c, cs)" "consumed b zs q" "list_all f zs" by auto
    then have "consumed a (c # zs) q \<and> list_all f (c # zs)" by (simp add: consumed_Cons)
    then show ?case by blast
  qed
next
  assume "\<exists>zs. consumed p zs q \<and> list_all f zs"
  then obtain zs where "consumed p zs q" "list_all f zs" by blast
  then show "matches u (Rep (Sat f)) p q"
  proof (induction zs arbitrary: p)
    case (Cons c zs)
    then obtain ds where ds: "snd p = c # ds" "consumed (Some c, ds) zs q" by (auto simp: consumed_Cons)
    with Cons have "(matches u (Sat f))\<^sup>*\<^sup>* (Some c, ds) q" "matches u (Sat f) p (Some c, ds)" by auto
    then have "(matches u (Sat f))\<^sup>*\<^sup>* p q" by (rule converse_rtranclp_into_rtranclp [rotated])
    then show ?case unfolding matches.simps(5) .
  qed (simp add: consumed_Nil)
qed

text \<open>\<open>r{n,}\<close> for one character class: enough characters of the class in a row.\<close>

lemma matches_run: "(\<exists>q. matches u (at_least n (Sat f)) p q) \<longleftrightarrow> n \<le> length (takeWhile f (snd p))"
proof (induction n arbitrary: p)
  case (Suc n)
  show ?case
  proof (cases "snd p")
    case (Cons c cs)
    with Suc [of "(Some c, cs)"] show ?thesis by auto
  qed auto
qed auto

lemma search_run:
  "search u (at_least n (Sat f)) s \<longleftrightarrow> (\<exists>xs ys zs. u_chars s = xs @ ys @ zs \<and> length ys = n \<and> list_all f ys)"
proof
  assume "search u (at_least n (Sat f)) s"
  then obtain xs m where m: "consumed (None, u_chars s) xs m" "n \<le> length (takeWhile f (snd m))"
    unfolding search_iff using matches_run [of u n f] by blast
  let ?ys = "take n (takeWhile f (snd m))"
  have "snd m = ?ys @ drop n (takeWhile f (snd m)) @ dropWhile f (snd m)"
    by (metis append.assoc append_take_drop_id takeWhile_dropWhile_id)
  moreover have "list_all f ?ys" by (auto simp: list_all_iff dest: in_set_takeD set_takeWhileD)
  moreover have "length ?ys = n" "u_chars s = xs @ snd m" using m by (simp_all add: consumed_def)
  ultimately show "\<exists>xs ys zs. u_chars s = xs @ ys @ zs \<and> length ys = n \<and> list_all f ys" by metis
next
  assume "\<exists>xs ys zs. u_chars s = xs @ ys @ zs \<and> length ys = n \<and> list_all f ys"
  then obtain xs ys zs where s: "u_chars s = xs @ ys @ zs" "length ys = n" "list_all f ys" by blast
  let ?m = "(if xs = [] then None else Some (last xs), ys @ zs)"
  have "takeWhile f (ys @ zs) = ys @ takeWhile f zs" using s(3) by (simp add: list_all_iff)
  with s(2) obtain q where "matches u (at_least n (Sat f)) ?m q"
    using matches_run [of u n f ?m] by auto
  moreover have "consumed (None, u_chars s) xs ?m" using s(1) by (simp add: consumed_def)
  ultimately show "search u (at_least n (Sat f)) s" unfolding search_iff by blast
qed

text \<open>\<open>([^m]*[m]){n,}\<close>: at least \<open>n\<close> marks.\<close>

abbreviation marked_by :: "(string \<Rightarrow> bool) \<Rightarrow> re" where
  "marked_by f \<equiv> Seq (Rep (Sat (\<lambda>c. \<not> f c))) (Sat f)"

lemma matches_marked:
  "matches u (marked_by f) p q \<longleftrightarrow> (\<exists>zs c. consumed p (zs @ [c]) q \<and> f c \<and> list_all (\<lambda>c. \<not> f c) zs)"
proof
  assume "matches u (marked_by f) p q"
  then obtain m zs c cs where "consumed p zs m" "list_all (\<lambda>c. \<not> f c) zs" "snd m = c # cs" "f c" "q = (Some c, cs)"
    using matches_many [of u "\<lambda>c. \<not> f c" p] by auto
  then show "\<exists>zs c. consumed p (zs @ [c]) q \<and> f c \<and> list_all (\<lambda>c. \<not> f c) zs"
    by (intro exI [of _ zs] exI [of _ c]) (auto simp: consumed_def)
next
  assume "\<exists>zs c. consumed p (zs @ [c]) q \<and> f c \<and> list_all (\<lambda>c. \<not> f c) zs"
  then obtain zs c where c: "consumed p (zs @ [c]) q" "f c" "list_all (\<lambda>c. \<not> f c) zs" by blast
  let ?m = "(if zs = [] then fst p else Some (last zs), c # snd q)"
  from c have "consumed p zs ?m" "q = (Some c, snd q)" by (auto simp: consumed_def prod_eq_iff)
  with c show "matches u (marked_by f) p q"
    using matches_many [of u "\<lambda>c. \<not> f c" p ?m] by auto
qed

lemma marked_at_least: "(\<exists>q. matches u (at_least n (marked_by f)) p q) \<longleftrightarrow> n \<le> length (filter f (snd p))"
proof (induction n arbitrary: p)
  case 0
  have "matches u (at_least 0 (marked_by f)) p p" by simp
  then show ?case by blast
next
  case (Suc n)
  have split: "(\<exists>q. matches u (at_least (Suc n) (marked_by f)) p q)
      \<longleftrightarrow> (\<exists>m. matches u (marked_by f) p m \<and> n \<le> length (filter f (snd m)))"
    unfolding at_least.simps matches.simps(3) [of u "marked_by f" "at_least n (marked_by f)"] Suc [symmetric] by blast
  show ?case unfolding split
  proof
    assume "\<exists>m. matches u (marked_by f) p m \<and> n \<le> length (filter f (snd m))"
    then show "Suc n \<le> length (filter f (snd p))" unfolding matches_marked by (auto simp: consumed_def)
  next
    assume n: "Suc n \<le> length (filter f (snd p))"
    let ?zs = "takeWhile (\<lambda>c. \<not> f c) (snd p)"
    obtain c cs where c: "dropWhile (\<lambda>c. \<not> f c) (snd p) = c # cs"
      using n by (cases "dropWhile (\<lambda>c. \<not> f c) (snd p)") (auto simp: filter_empty_conv)
    then have p: "snd p = ?zs @ c # cs" by (metis takeWhile_dropWhile_id)
    have "f c" using hd_dropWhile [of "\<lambda>c. \<not> f c" "snd p"] c by auto
    moreover have zs: "list_all (\<lambda>c. \<not> f c) ?zs" by (auto simp: list_all_iff dest: set_takeWhileD)
    moreover have "consumed p (?zs @ [c]) (Some c, cs)" using p by (simp add: consumed_def)
    moreover have "filter f ?zs = []" using zs by (simp add: list_all_iff)
    with n p \<open>f c\<close> have "n \<le> length (filter f cs)" by (metis Suc_le_mono append_Nil filter.simps(2) filter_append length_Cons)
    ultimately show "\<exists>m. matches u (marked_by f) p m \<and> n \<le> length (filter f (snd m))"
      unfolding matches_marked by (intro exI [of _ "(Some c, cs)"]) auto
  qed
qed

lemma search_marked: "search u (at_least n (marked_by f)) s \<longleftrightarrow> n \<le> length (filter f (u_chars s))"
proof
  assume "search u (at_least n (marked_by f)) s"
  then obtain zs m where "consumed (None, u_chars s) zs m" "n \<le> length (filter f (snd m))"
    unfolding search_iff using marked_at_least [of u n f] by blast
  then show "n \<le> length (filter f (u_chars s))" by (auto simp: consumed_def)
next
  assume "n \<le> length (filter f (u_chars s))"
  then obtain q where "matches u (at_least n (marked_by f)) (None, u_chars s) q"
    using marked_at_least [of u n f "(None, u_chars s)"] by auto
  then show "search u (at_least n (marked_by f)) s" unfolding search_iff using consumed_refl by blast
qed

text \<open>A list of words: one of them occurs.\<close>

lemma search_words:
  "search u (alts (map lit ws)) s \<longleftrightarrow> (\<exists>w \<in> set ws. \<exists>xs zs. u_chars s = xs @ u_chars w @ zs)"
proof
  assume "search u (alts (map lit ws)) s"
  then obtain w xs m q where "w \<in> set ws" "consumed (None, u_chars s) xs m" "consumed m (u_chars w) q"
    unfolding search_iff matches_alts by (auto simp: matches_lit)
  then show "\<exists>w \<in> set ws. \<exists>xs zs. u_chars s = xs @ u_chars w @ zs" by (auto simp: consumed_def)
next
  assume "\<exists>w \<in> set ws. \<exists>xs zs. u_chars s = xs @ u_chars w @ zs"
  then obtain w xs zs where w: "w \<in> set ws" and s: "u_chars s = xs @ u_chars w @ zs" by blast
  let ?m = "(if xs = [] then None else Some (last xs), u_chars w @ zs)"
  let ?q = "(if u_chars w = [] then fst ?m else Some (last (u_chars w)), zs)"
  have "consumed (None, u_chars s) xs ?m" "consumed ?m (u_chars w) ?q" using s by (simp_all add: consumed_def)
  with w show "search u (alts (map lit ws)) s"
    unfolding search_iff matches_alts using matches_lit [of u w ?m ?q] by (metis image_eqI list.set_map)
qed

end
