(* ===== verification/Pre_Filter.thy ===== *)
theory Pre_Filter
  imports Regex Agent_State
begin

text \<open>
  The first layer of the router (\<open>agent/langgraph/routers/pre_filter.py\<close>, class \<open>PreFilter\<close>): a question
  that looks like an attack is taken out, explicit directives, external searches, greetings and entity
  numbers are routed at once, in this order. The expressions are those of the source, translated to
  \<open>re\<close>; the two searches with \<open>re.IGNORECASE\<close> on a lowered text are the same as one without.
\<close>

section \<open>Tables\<close>

definition SQL_INJECTION_PATTERNS :: "re list" where
  "SQL_INJECTION_PATTERNS =
     [seqs [any_of ([CHR 0x27] @ [CHR 0x22]), Rep space, lit '';'', Rep space, alts [lit_ci ''drop'', lit_ci ''delete'', lit_ci ''update'', lit_ci ''insert'', lit_ci ''alter'', lit_ci ''create'', lit_ci ''truncate'']],
      seqs [lit ''--'', Rep space, Eol],
      seqs [lit_ci ''union'', many1 space, opt (seqs [lit_ci ''all'', many1 space]), lit_ci ''select''],
      seqs [lit_ci ''or'', many1 space, lit ''1'', Rep space, lit ''='', Rep space, lit ''1''],
      seqs [lit_ci ''and'', many1 space, lit ''1'', Rep space, lit ''='', Rep space, lit ''1''],
      seqs [any_of ([CHR 0x27] @ [CHR 0x22]), Rep space, lit_ci ''or'', many1 space, any_of ([CHR 0x27] @ [CHR 0x22])]]"

definition PRIVILEGE_ESCALATION_KEYWORDS :: "string list" where
  "PRIVILEGE_ESCALATION_KEYWORDS =
     [uni [0x5220, 0x5E93], uni [0x5220, 0x9664, 0x6240, 0x6709], uni [0x6240, 0x6709, 0x7528, 0x6237,
     0x5BC6, 0x7801], uni [0x7BA1, 0x7406, 0x5458, 0x5BC6, 0x7801], ''root'' @ uni [0x5BC6, 0x7801], uni
     [0x7CFB, 0x7EDF, 0x5BC6, 0x7801], ''DROP TABLE'', ''DROP DATABASE'']"

definition ACTION_KEYWORDS :: "string list" where
  "ACTION_KEYWORDS =
     [uni [0x641C, 0x7D22], uni [0x67E5, 0x4E00, 0x4E0B], uni [0x67E5, 0x627E], uni [0x4E0A, 0x7F51, 0x627E],
     uni [0x7F51, 0x4E0A, 0x641C], uni [0x767E, 0x5EA6, 0x4E00, 0x4E0B], uni [0x8C37, 0x6B4C, 0x641C,
     0x7D22], uni [0x641C, 0x4E00, 0x4E0B]]"

definition EXTERNAL_SCOPE_KEYWORDS :: "string list" where
  "EXTERNAL_SCOPE_KEYWORDS =
     [uni [0x7F51, 0x4E0A], uni [0x767E, 0x5EA6], uni [0x8C37, 0x6B4C], uni [0x5916, 0x90E8], uni [0x5168,
     0x7F51], uni [0x4E92, 0x8054, 0x7F51], uni [0x5916, 0x7F51], uni [0x641C, 0x7D22, 0x5F15, 0x64CE]]"

definition closing :: re where
  "closing = opt (any_of (uni [0xFF01] @ ''!'' @ uni [0x3002] @ ''.'' @ uni [0xFF1F] @ ''?''))"

definition GREETING_PATTERNS :: "re list" where
  "GREETING_PATTERNS =
     [seqs [Bol, lit (uni [0x4F60, 0x597D]), closing, Eol],
      seqs [Bol, lit (uni [0x60A8, 0x597D]), closing, Eol],
      seqs [Bol, lit_ci ''hello'', closing, Eol],
      seqs [Bol, lit_ci ''hi'', closing, Eol],
      seqs [Bol, lit (uni [0x55E8]), closing, Eol],
      seqs [Bol, lit (uni [0x8C22, 0x8C22]), closing, Eol],
      seqs [Bol, lit (uni [0x611F, 0x8C22]), closing, Eol],
      seqs [Bol, lit_ci ''thank'', Rep space, lit_ci ''you'', closing, Eol],
      seqs [Bol, lit_ci ''thanks'', closing, Eol],
      seqs [Bol, lit (uni [0x518D, 0x89C1]), closing, Eol],
      seqs [Bol, lit_ci ''bye'', closing, Eol]]"

text \<open>With the target and the text of the pattern.\<close>

definition DIRECTIVE_PATTERNS :: "(re \<times> string \<times> string) list" where
  "DIRECTIVE_PATTERNS =
     [(seqs [Bol, lit_ci ''@d'', alts [lit_ci ''atabase'', lit_ci ''b''], many1 space], ''database'',
        ''^@(?:database|db)'' @ [CHR 0x5C] @ ''s+''),
      (seqs [Bol, lit ''@'', alts [lit_ci ''rag'', lit_ci ''kb''], many1 space], ''rag'',
        ''^@(?:rag|kb)'' @ [CHR 0x5C] @ ''s+''),
      (seqs [Bol, lit ''@'', alts [lit_ci ''web'', lit_ci ''search''], many1 space], ''web'',
        ''^@(?:web|search)'' @ [CHR 0x5C] @ ''s+''),
      (seqs [Bol, lit ''@'', alts [lit_ci ''graph'', lit_ci ''neo4j'', lit (uni [0x56FE, 0x8C31]), lit (uni [0x77E5, 0x8BC6, 0x56FE, 0x8C31])], many1 space], ''graph'',
        ''^@(?:graph|neo4j|'' @ uni [0x56FE, 0x8C31] @ ''|'' @ uni [0x77E5, 0x8BC6, 0x56FE, 0x8C31] @ '')'' @ [CHR 0x5C] @ ''s+''),
      (seqs [Bol, lit ''/'', alts [lit_ci ''help'', lit_ci ''status''], Bound], ''chitchat'',
        ''^/(?:help|status)'' @ [CHR 0x5C] @ ''b'')]"

definition ENTITY_PATTERNS :: "unicode \<Rightarrow> (re \<times> string) list" where
  "ENTITY_PATTERNS u =
     [(seqs [lit_ci ''sku-'', many1 (digit u)], ''database''),
      (seqs [lit_ci ''ord-'', many1 (digit u)], ''database''),
      (seqs [lit (uni [0x5DE5, 0x5355, 0x53F7]), any_of (uni [0xFF1A] @ '':''), Rep space, many1 (digit u)], ''database''),
      (seqs [lit (uni [0x8BA2, 0x5355, 0x53F7]), any_of (uni [0xFF1A] @ '':''), Rep space, many1 (digit u)], ''database''),
      (seqs [lit (uni [0x4EA7, 0x54C1, 0x7F16, 0x53F7]), any_of (uni [0xFF1A] @ '':''), Rep space, many1 (wordc u)], ''database''),
      (seqs [lit_ci ''sku'', any_of (uni [0xFF1A] @ '':''), Rep space, many1 (wordc u)], ''database'')]"

section \<open>Checks\<close>

definition prefilter_decision :: "string \<Rightarrow> rat \<Rightarrow> message \<Rightarrow> pdict \<Rightarrow> route_decision" where
  "prefilter_decision target confidence reason metadata =
     \<lparr>rd_target = target, rd_confidence = confidence, rd_source = ''prefilter'', rd_reason = reason,
      rd_complexity = ''simple'', rd_kb_ids = [], rd_metadata = metadata\<rparr>"

definition blocked :: "message \<Rightarrow> string \<Rightarrow> route_decision" where
  "blocked reason kind =
     prefilter_decision ''chitchat'' 1 reason [(''blocked'', PBool True), (''reason'', PStr kind)]"

definition check_security :: "unicode \<Rightarrow> string \<Rightarrow> route_decision option" where
  "check_security u query =
     (let query_lower = lower query in
      if list_ex (\<lambda>p. search u p query_lower) SQL_INJECTION_PATTERNS
      then Some (blocked (Msg ''SQL injection'' []) ''sql_injection'')
      else map_option (\<lambda>kw. blocked (Msg ''privileged keyword'' [PStr kw]) ''privilege_escalation'')
             (find (\<lambda>kw. contains (lower kw) query_lower) PRIVILEGE_ESCALATION_KEYWORDS))"

definition check_directive :: "unicode \<Rightarrow> string \<Rightarrow> route_decision option" where
  "check_directive u query =
     map_option (\<lambda>(p, target, pattern).
         prefilter_decision target (98/100) (Msg ''directive'' [PStr pattern])
           [(''directive'', PBool True), (''directive_pattern'', PStr pattern)])
       (find (\<lambda>(p, target, pattern). search u p query) DIRECTIVE_PATTERNS)"

definition check_external_search :: "string \<Rightarrow> route_decision option" where
  "check_external_search query =
     (let query_lower = lower query in
      if list_ex (\<lambda>kw. contains kw query_lower) ACTION_KEYWORDS
         \<and> list_ex (\<lambda>kw. contains kw query_lower) EXTERNAL_SCOPE_KEYWORDS
      then Some (prefilter_decision ''web'' 1 (Msg ''explicit external search'' [])
                   [(''explicit_external_search'', PBool True)])
      else None)"

definition check_greeting :: "unicode \<Rightarrow> string \<Rightarrow> route_decision option" where
  "check_greeting u query =
     (if list_ex (\<lambda>p. match_start u p (lower query)) GREETING_PATTERNS
      then Some (prefilter_decision ''chitchat'' 1 (Msg ''greeting'' []) [(''greeting'', PBool True)])
      else None)"

fun entity_match :: "unicode \<Rightarrow> string \<Rightarrow> (re \<times> string) list \<Rightarrow> (string \<times> string) option" where
  "entity_match u query [] = None"
| "entity_match u query ((p, target) # ps) =
     (case search_text u p query of
        Some m \<Rightarrow> Some (m, target)
      | None \<Rightarrow> entity_match u query ps)"

definition check_entity_format :: "unicode \<Rightarrow> string \<Rightarrow> route_decision option" where
  "check_entity_format u query =
     map_option (\<lambda>(m, target).
         prefilter_decision target 1 (Msg ''entity'' [PStr m])
           [(''entity_match'', PStr m), (''entity_type'', PStr target)])
       (entity_match u query (ENTITY_PATTERNS u))"

text \<open>\<open>PreFilter.filter\<close>: the first check that decides.\<close>

definition first_some :: "'a option list \<Rightarrow> 'a option" where
  "first_some xs = (case filter (\<lambda>x. x \<noteq> None) xs of [] \<Rightarrow> None | x # _ \<Rightarrow> x)"

definition pre_filter :: "unicode \<Rightarrow> string \<Rightarrow> route_decision option" where
  "pre_filter u query =
     (let q = strip query in
      if q = [] then None
      else
        first_some
          [check_security u q, check_directive u q, check_external_search q, check_greeting u q, check_entity_format u q])"

end
