(* ===== verification/Rule_Router.thy ===== *)
theory Rule_Router
  imports Regex Intent_Router
begin

text \<open>
  The second and the third layer of the router: the complexity gate
  (\<open>agent/langgraph/routers/complexity_gate.py\<close>) and the rules (\<open>rule_router.py\<close>), with the configuration
  they read (\<open>config_loader.py\<close>). The configuration file is an argument: a record with the entries that
  the two layers read, \<open>None\<close> for an entry that is absent; patterns of the file are compiled. The
  singletons keep the configuration of their first use.
\<close>

section \<open>Configuration\<close>

record router_config =
  cf_gate_enabled :: "bool option"
  cf_long_enabled :: "bool option"
  cf_long_threshold :: "nat option"
  cf_clause_enabled :: "bool option"
  cf_clause_min_count :: "nat option"
  cf_question_enabled :: "bool option"
  cf_question_min_count :: "nat option"
  cf_reasoning_enabled :: "bool option"
  cf_reasoning_keywords :: "string list option"
  cf_multi_tool_enabled :: "bool option"
  cf_progressive_enabled :: "bool option"
  cf_progressive_patterns :: "re list option"
  cf_db_bias :: "string list option"
  cf_rag_bias :: "string list option"
  cf_erp_bias :: "string list option"
  cf_graph_bias :: "string list option"
  cf_external_scope :: "string list option"
  cf_freshness_keywords :: "string list option"
  cf_historical_keywords :: "string list option"
  cf_rule_to_llm :: "rat option"

text \<open>\<open>cfg.get(key, default)\<close>\<close>

definition entry :: "'a option \<Rightarrow> 'a \<Rightarrow> 'a" where
  "entry x d = (case x of None \<Rightarrow> d | Some v \<Rightarrow> v)"

definition DB_BIAS :: "string list" where
  "DB_BIAS =
     [uni [0x591A, 0x5C11], uni [0x603B, 0x989D], uni [0x603B], uni [0x5360, 0x6BD4], uni [0x6392, 0x540D],
     ''top'', uni [0x73AF, 0x6BD4], uni [0x540C, 0x6BD4], uni [0x6700, 0x5927, 0x503C], uni [0x6700, 0x5C0F,
     0x503C], uni [0x7EDF, 0x8BA1], uni [0x6C47, 0x603B], uni [0x5E73, 0x5747], uni [0x6C42, 0x548C], uni
     [0x603B, 0x8BA1], uni [0x8BA1, 0x7B97], uni [0x67E5, 0x8BE2, 0x6570, 0x636E], uni [0x6570, 0x636E,
     0x91CF], uni [0x67E5, 0x8BE2], uni [0x6570, 0x636E], uni [0x4EA7, 0x7EBF], ''oee'', uni [0x9500, 0x552E,
     0x989D], uni [0x4E1A, 0x7EE9], uni [0x4EA7, 0x91CF]]"

definition RAG_BIAS :: "string list" where
  "RAG_BIAS =
     [uni [0x5B9A, 0x4E49], uni [0x89E3, 0x91CA], uni [0x542B, 0x4E49], uni [0x533A, 0x522B], uni [0x8054,
     0x7CFB], uni [0x5F71, 0x54CD], uni [0x539F, 0x56E0], uni [0x80CC, 0x666F], uni [0x4EC0, 0x4E48, 0x662F],
     uni [0x662F, 0x4EC0, 0x4E48], uni [0x5982, 0x4F55], uni [0x4E3A, 0x4EC0, 0x4E48], uni [0x600E, 0x4E48],
     uni [0x8BF7, 0x95EE], uni [0x6982, 0x5FF5], uni [0x539F, 0x7406], uni [0x65B9, 0x6CD5], uni [0x6D41,
     0x7A0B], uni [0x6CBB, 0x7406], uni [0x6539, 0x5584]]"

definition EXTERNAL_SCOPE :: "string list" where
  "EXTERNAL_SCOPE =
     [uni [0x7F51, 0x4E0A], uni [0x767E, 0x5EA6], uni [0x8C37, 0x6B4C], uni [0x5916, 0x90E8], uni [0x5168,
     0x7F51], uni [0x4E92, 0x8054, 0x7F51], uni [0x5916, 0x7F51], uni [0x641C, 0x7D22, 0x5F15, 0x64CE]]"

definition FRESHNESS_KEYWORDS :: "string list" where
  "FRESHNESS_KEYWORDS =
     [uni [0x4ECA, 0x5929], uni [0x6700, 0x65B0], uni [0x5B9E, 0x65F6], ''current'', ''latest'',
     ''trending'', uni [0x73B0, 0x5728], uni [0x5F53, 0x524D], uni [0x521A, 0x521A]]"

definition HISTORICAL_KEYWORDS :: "string list" where
  "HISTORICAL_KEYWORDS =
     [uni [0x53BB, 0x5E74], uni [0x5386, 0x53F2], uni [0x5F80, 0x5E74], uni [0x8FC7, 0x53BB], uni [0x4EE5,
     0x524D], uni [0x4E4B, 0x524D], uni [0x53BB, 0x5E74], uni [0x4E0A, 0x5E74], uni [0x4E0A, 0x5B63, 0x5EA6]]"

definition DEFAULT_REASONING :: "string list" where
  "DEFAULT_REASONING =
     [uni [0x5206, 0x6790], uni [0x5BF9, 0x6BD4], uni [0x6BD4, 0x8F83], uni [0x4E3A, 0x4EC0, 0x4E48], uni
     [0x63A8, 0x5BFC], uni [0x8BC4, 0x4F30], uni [0x7EFC, 0x5408, 0x8003, 0x8651], uni [0x6743, 0x8861], uni
     [0x8BBA, 0x8BC1]]"

definition PROGRESSIVE :: "re list" where
  "PROGRESSIVE =
     [seqs [lit (uni [0x5148]), between 1 20 dot, lit (uni [0x518D])],
      seqs [lit (uni [0x9996, 0x5148]), between 1 20 dot, lit (uni [0x7136, 0x540E])],
      lit (uni [0x7B2C, 0x4E00, 0x6B65]),
      lit (uni [0x63A5, 0x7740]),
      lit (uni [0x6700, 0x540E])]"

definition default_config :: router_config where
  "default_config =
     \<lparr>cf_gate_enabled = Some True, cf_long_enabled = Some True, cf_long_threshold = Some 50,
      cf_clause_enabled = Some True, cf_clause_min_count = Some 2, cf_question_enabled = Some True,
      cf_question_min_count = Some 2, cf_reasoning_enabled = Some True,
      cf_reasoning_keywords = Some DEFAULT_REASONING, cf_multi_tool_enabled = Some True,
      cf_progressive_enabled = Some True, cf_progressive_patterns = Some PROGRESSIVE,
      cf_db_bias = Some DB_BIAS, cf_rag_bias = Some RAG_BIAS, cf_erp_bias = None, cf_graph_bias = None,
      cf_external_scope = Some EXTERNAL_SCOPE, cf_freshness_keywords = Some FRESHNESS_KEYWORDS,
      cf_historical_keywords = Some HISTORICAL_KEYWORDS, cf_rule_to_llm = Some (7/10)\<rparr>"

section \<open>The complexity gate\<close>

definition CLAUSE_MARKS :: "string" where
  "CLAUSE_MARKS =
     uni [0xFF0C] @ '','' @ uni [0xFF1B] @ '';''"

definition QUESTION_MARKS :: "string" where
  "QUESTION_MARKS =
     uni [0xFF1F] @ ''?''"

definition REASONING_MARKERS :: "string list" where
  "REASONING_MARKERS =
     [uni [0x5206, 0x6790], uni [0x5BF9, 0x6BD4], uni [0x6BD4, 0x8F83], uni [0x4E3A, 0x4EC0, 0x4E48], uni
     [0x63A8, 0x5BFC], uni [0x8BC4, 0x4F30], uni [0x7EFC, 0x5408, 0x8003, 0x8651]]"

text \<open>The words and the marks are searched in the question as it is.\<close>

definition long_query :: "nat \<Rightarrow> re" where
  "long_query threshold = at_least threshold dot"

definition marked :: "string \<Rightarrow> nat \<Rightarrow> re" where
  "marked marks min_count = at_least min_count (Seq (Rep (none_of marks)) (any_of marks))"

definition any_word :: "string list \<Rightarrow> re" where
  "any_word ws = alts (map lit ws)"

definition multi_tool_search :: "unicode \<Rightarrow> string list \<Rightarrow> string list \<Rightarrow> string \<Rightarrow> bool" where
  "multi_tool_search u db_keywords rag_keywords query \<longleftrightarrow>
     search u (any_word (take 15 db_keywords)) query \<and> search u (any_word (take 15 rag_keywords)) query"

text \<open>\<open>_compile_signals\<close>: the enabled signals in their order.\<close>

definition compile_signals :: "unicode \<Rightarrow> router_config \<Rightarrow> (string \<times> (string \<Rightarrow> bool)) list" where
  "compile_signals u cfg =
     (if \<not> entry (cf_gate_enabled cfg) True then []
      else
        (if entry (cf_long_enabled cfg) True
         then [(''long_query'', search u (long_query (entry (cf_long_threshold cfg) 50)))] else [])
        @ (if entry (cf_clause_enabled cfg) True
           then [(''multi_clause'', search u (marked CLAUSE_MARKS (entry (cf_clause_min_count cfg) 2)))] else [])
        @ (if entry (cf_question_enabled cfg) True
           then [(''multi_question'', search u (marked QUESTION_MARKS (entry (cf_question_min_count cfg) 2)))] else [])
        @ (let markers = entry (cf_reasoning_keywords cfg) REASONING_MARKERS in
           if entry (cf_reasoning_enabled cfg) True \<and> markers \<noteq> []
           then [(''reasoning_markers'', search u (any_word markers))] else [])
        @ (let db = entry (cf_db_bias cfg) []; rag = entry (cf_rag_bias cfg) [] in
           if entry (cf_multi_tool_enabled cfg) True \<and> db \<noteq> [] \<and> rag \<noteq> []
           then [(''multi_tool'', multi_tool_search u db rag)] else [])
        @ (let patterns = entry (cf_progressive_patterns cfg) PROGRESSIVE in
           if entry (cf_progressive_enabled cfg) True \<and> patterns \<noteq> []
           then [(''progressive'', search u (alts patterns))] else []))"

definition gate_check :: "unicode \<Rightarrow> router_config \<Rightarrow> string \<Rightarrow> gate_result" where
  "gate_check u cfg query =
     (if strip query = [] then \<lparr>gr_is_complex = False, gr_triggered_signals = [], gr_confidence = 0\<rparr>
      else
        (let triggered = map fst (filter (\<lambda>(name, matcher). matcher query) (compile_signals u cfg))
         in \<lparr>gr_is_complex = (triggered \<noteq> []), gr_triggered_signals = map PStr triggered,
             gr_confidence = (if triggered \<noteq> [] then min (of_nat (length triggered) * (3/10)) (9/10) else 0)\<rparr>))"

section \<open>The rules\<close>

definition STRONG_PATTERNS :: "(re \<times> string \<times> string) list" where
  "STRONG_PATTERNS =
     [(seqs [Bol, lit (uni [0x4EC0, 0x4E48, 0x662F]), many1 dot], ''rag'',
        uni [0x4EC0, 0x4E48, 0x662F] @ ''X''),
      (seqs [Bol, many1 dot, lit (uni [0x662F, 0x4EC0, 0x4E48]), Eol], ''rag'',
        ''X'' @ uni [0x662F, 0x4EC0, 0x4E48]),
      (seqs [Bol, many1 dot, lit (uni [0x662F, 0x4EC0, 0x4E48, 0x610F, 0x601D]), Eol], ''rag'',
        ''X'' @ uni [0x662F, 0x4EC0, 0x4E48, 0x610F, 0x601D]),
      (seqs [Bol, lit (uni [0x4EC0, 0x4E48, 0x610F, 0x601D])], ''rag'',
        uni [0x4EC0, 0x4E48, 0x610F, 0x601D]),
      (seqs [Bol, many1 dot, lit (uni [0x7684, 0x539F, 0x7406])], ''rag'',
        ''X'' @ uni [0x7684, 0x539F, 0x7406]),
      (seqs [Bol, lit (uni [0x7EDF, 0x8BA1]), many1 dot, alts [lit (uni [0x6570, 0x91CF]), lit (uni [0x603B, 0x6570]), lit (uni [0x4EBA, 0x6570])], Eol], ''database'',
        uni [0x7EDF, 0x8BA1] @ ''X'' @ uni [0x6570, 0x91CF]),
      (seqs [Bol, lit (uni [0x67E5, 0x8BE2]), many1 dot, alts [lit (uni [0x6570, 0x91CF]), lit (uni [0x603B, 0x6570]), lit (uni [0x4EBA, 0x6570])], Eol], ''database'',
        uni [0x67E5, 0x8BE2] @ ''X'' @ uni [0x6570, 0x91CF]),
      (seqs [Bol, lit (uni [0x67E5, 0x8BE2]), Rep dot, alts [lit (uni [0x5E74, 0x5047]), lit (uni [0x8BF7, 0x5047]), lit (uni [0x5047, 0x671F]), lit (uni [0x4F11, 0x5047])]], ''rest'',
        ''ERP'' @ uni [0x5E74, 0x5047, 0x67E5, 0x8BE2]),
      (seqs [Bol, lit (uni [0x67E5, 0x8BE2]), Rep dot, alts [lit (uni [0x8003, 0x52E4]), lit (uni [0x6253, 0x5361]), lit (uni [0x51FA, 0x52E4])]], ''rest'',
        ''ERP'' @ uni [0x8003, 0x52E4, 0x67E5, 0x8BE2]),
      (seqs [Bol, lit (uni [0x67E5, 0x8BE2]), Rep dot, alts [lit (uni [0x91C7, 0x8D2D]), lit (uni [0x8BA2, 0x5355]), lit ''PO'']], ''rest'',
        ''ERP'' @ uni [0x91C7, 0x8D2D, 0x67E5, 0x8BE2]),
      (seqs [Bol, lit (uni [0x67E5, 0x8BE2]), Rep dot, alts [lit (uni [0x62A5, 0x9500]), lit (uni [0x8D39, 0x7528]), lit (uni [0x5DEE, 0x65C5])]], ''rest'',
        ''ERP'' @ uni [0x62A5, 0x9500, 0x67E5, 0x8BE2]),
      (seqs [Bol, lit (uni [0x6211, 0x7684]), Rep dot, alts [lit (uni [0x5E74, 0x5047]), lit (uni [0x8003, 0x52E4]), lit (uni [0x8BF7, 0x5047]), lit (uni [0x5047, 0x671F])]], ''rest'',
        ''ERP'' @ uni [0x4E2A, 0x4EBA, 0x67E5, 0x8BE2]),
      (seqs [Bol, Rep dot, alts [lit (uni [0x5DE5, 0x8D44]), lit (uni [0x85AA, 0x8D44]), lit (uni [0x85AA, 0x916C]), lit (uni [0x7EE9, 0x6548])], Rep dot, alts [lit (uni [0x67E5, 0x8BE2]), lit (uni [0x591A, 0x5C11])]], ''rest'',
        ''ERP'' @ uni [0x85AA, 0x916C, 0x67E5, 0x8BE2]),
      (alts [lit (uni [0x5173, 0x7CFB, 0x56FE, 0x8C31]), lit (uni [0x77E5, 0x8BC6, 0x56FE, 0x8C31]), lit (uni [0x5B9E, 0x4F53, 0x5173, 0x8054]), lit (uni [0x591A, 0x8DF3, 0x67E5, 0x8BE2]), lit (uni [0x56FE, 0x67E5, 0x8BE2]), lit (uni [0x591A, 0x8DF3])], ''graph'',
        uni [0x56FE, 0x67E5, 0x8BE2])]"

definition ERP_BIAS :: "string list" where
  "ERP_BIAS =
     [uni [0x5E74, 0x5047], uni [0x8BF7, 0x5047], uni [0x5047, 0x671F], uni [0x4F11, 0x5047], uni [0x8003,
     0x52E4], uni [0x6253, 0x5361], uni [0x51FA, 0x52E4], uni [0x91C7, 0x8D2D], uni [0x8BA2, 0x5355], uni
     [0x62A5, 0x9500], uni [0x5DEE, 0x65C5], uni [0x8D39, 0x7528], uni [0x5DE5, 0x8D44], uni [0x85AA,
     0x8D44], uni [0x85AA, 0x916C], uni [0x7EE9, 0x6548], uni [0x5E93, 0x5B58], uni [0x4F9B, 0x5E94, 0x94FE],
     uni [0x4EBA, 0x529B], uni [0x8D22, 0x52A1], uni [0x5458, 0x5DE5], ''hr'', ''erp'', uni [0x5BA1, 0x6279],
     uni [0x5165, 0x804C], uni [0x79BB, 0x804C], uni [0x5408, 0x540C], uni [0x53D1, 0x7968], uni [0x7269,
     0x6599], uni [0x4F9B, 0x5E94, 0x5546], uni [0x5BA2, 0x6237, 0x4FE1, 0x606F], uni [0x8D44, 0x4EA7], uni
     [0x9884, 0x7B97]]"

definition GRAPH_BIAS :: "string list" where
  "GRAPH_BIAS =
     [uni [0x56FE, 0x8C31], uni [0x77E5, 0x8BC6, 0x56FE, 0x8C31], uni [0x5173, 0x7CFB, 0x56FE, 0x8C31], uni
     [0x5B9E, 0x4F53], uni [0x5173, 0x7CFB], uni [0x5173, 0x8054], uni [0x591A, 0x8DF3], uni [0x56FE, 0x67E5,
     0x8BE2], ''neo4j'', uni [0x8282, 0x70B9], uni [0x8FB9], uni [0x94FE, 0x8DEF], uni [0x4E0A, 0x4E0B,
     0x6E38], uni [0x76F8, 0x5173, 0x4EBA], uni [0x76F8, 0x5173, 0x4EBA, 0x5458], uni [0x7EC4, 0x7EC7,
     0x67B6, 0x6784], uni [0x5173, 0x8054, 0x65B9]]"

definition WEAK_BASE_SCORE :: rat where
  "WEAK_BASE_SCORE = 45/100"

definition WEAK_BONUS_PER_KEYWORD :: rat where
  "WEAK_BONUS_PER_KEYWORD = 5/100"

definition WEAK_BONUS_CAP :: rat where
  "WEAK_BONUS_CAP = 10/100"

definition WEAK_CONFIDENCE_CAP :: rat where
  "WEAK_CONFIDENCE_CAP = 55/100"

definition rule_decision :: "string \<Rightarrow> rat \<Rightarrow> message \<Rightarrow> pdict \<Rightarrow> route_decision" where
  "rule_decision target confidence reason metadata =
     \<lparr>rd_target = target, rd_confidence = confidence, rd_source = ''rule'', rd_reason = reason,
      rd_complexity = ''simple'', rd_kb_ids = [], rd_metadata = metadata\<rparr>"

definition detect_scope :: "router_config \<Rightarrow> string \<Rightarrow> string" where
  "detect_scope cfg query =
     (if list_ex (\<lambda>kw. contains kw query) (entry (cf_external_scope cfg) []) then ''external'' else ''internal'')"

definition detect_freshness :: "router_config \<Rightarrow> string \<Rightarrow> bool" where
  "detect_freshness cfg query \<longleftrightarrow>
     list_ex (\<lambda>kw. contains kw query) (entry (cf_freshness_keywords cfg) [])
     \<and> \<not> list_ex (\<lambda>kw. contains kw query) (entry (cf_historical_keywords cfg) [])"

definition match_strong_pattern :: "unicode \<Rightarrow> string \<Rightarrow> (string \<times> string) option" where
  "match_strong_pattern u query =
     map_option snd (find (\<lambda>(p, target, name). search u p query) STRONG_PATTERNS)"

text \<open>The four functions \<open>_match_db_bias\<close>, \<open>_match_rag_bias\<close>, \<open>_match_erp_bias\<close> and \<open>_match_graph_bias\<close> differ
  in their list only.\<close>

definition match_bias :: "string list \<Rightarrow> string \<Rightarrow> rat \<times> string list" where
  "match_bias keywords query =
     (let matched = filter (\<lambda>kw. contains kw query) keywords in
      if matched = [] then (0, [])
      else (WEAK_BASE_SCORE + min (of_nat (length matched - 1) * WEAK_BONUS_PER_KEYWORD) WEAK_BONUS_CAP, matched))"

definition strs_of :: "string list \<Rightarrow> pyval" where
  "strs_of ws = PList (map PStr ws)"

definition weak_decision :: "(rat \<times> string list) \<Rightarrow> (rat \<times> string list) \<Rightarrow> (rat \<times> string list) \<Rightarrow> (rat \<times> string list)
    \<Rightarrow> string \<times> rat \<times> message" where
  "weak_decision db rag erp graph =
     (case (db, rag, erp, graph) of
        ((db_score, dbs), (rag_score, rags), (erp_score, erps), (graph_score, graphs)) \<Rightarrow>
          if db_score > 0 \<and> rag_score > 0 then
            (''hybrid'', min (max db_score rag_score) WEAK_CONFIDENCE_CAP, Msg ''hybrid'' [strs_of dbs, strs_of rags])
          else if erp_score > db_score \<and> erp_score > rag_score \<and> erp_score > 0 then
            (''rest'', min erp_score WEAK_CONFIDENCE_CAP, Msg ''erp words'' [strs_of erps])
          else if graph_score > db_score \<and> graph_score > rag_score \<and> graph_score > 0 then
            (''graph'', min graph_score WEAK_CONFIDENCE_CAP, Msg ''graph words'' [strs_of graphs])
          else if db_score > rag_score \<and> db_score > 0 then
            (''database'', min db_score WEAK_CONFIDENCE_CAP, Msg ''database words'' [strs_of dbs])
          else if rag_score > db_score \<and> rag_score > 0 then
            (''rag'', min rag_score WEAK_CONFIDENCE_CAP, Msg ''document words'' [strs_of rags])
          else (''chitchat'', 1/2, Msg ''no keyword'' []))"

definition rule_route :: "unicode \<Rightarrow> router_config \<Rightarrow> string \<Rightarrow> route_decision" where
  "rule_route u cfg query =
     (if strip query = [] then rule_decision ''chitchat'' (1/2) (Msg ''empty question'' []) []
      else
        (let query_lower = lower query;
             scope = detect_scope cfg query_lower;
             fresh = detect_freshness cfg query_lower in
         if scope = ''external'' \<and> fresh then
           rule_decision ''web'' (85/100) (Msg ''external and fresh'' [])
             [(''scope'', PStr ''external''), (''freshness_required'', PBool True)]
         else if scope = ''external'' then
           rule_decision ''web'' (8/10) (Msg ''external'' []) [(''scope'', PStr ''external'')]
         else if fresh then
           rule_decision ''web'' (75/100) (Msg ''fresh'' []) [(''freshness_required'', PBool True)]
         else
           (case match_strong_pattern u query of
              Some (target, name) \<Rightarrow>
                rule_decision target (80/100) (Msg ''strong pattern'' [PStr name]) [(''pattern'', PStr name)]
            | None \<Rightarrow>
                (let db = match_bias (entry (cf_db_bias cfg) []) query_lower;
                     rag = match_bias (entry (cf_rag_bias cfg) []) query_lower;
                     erp = match_bias (entry (cf_erp_bias cfg) ERP_BIAS) query_lower;
                     graph = match_bias (entry (cf_graph_bias cfg) GRAPH_BIAS) query_lower in
                 case weak_decision db rag erp graph of
                   (target, confidence, reason) \<Rightarrow>
                     rule_decision target confidence reason
                       [(''db_score'', PFloat (fst db)), (''rag_score'', PFloat (fst rag)),
                        (''erp_score'', PFloat (fst erp)), (''graph_score'', PFloat (fst graph)),
                        (''db_keywords'', strs_of (snd db)), (''rag_keywords'', strs_of (snd rag)),
                        (''erp_keywords'', strs_of (snd erp)), (''graph_keywords'', strs_of (snd graph)),
                        (''scope'', PStr scope), (''freshness_required'', PBool fresh)]))))"

end
