(* ===== verification/Router_Layers.thy ===== *)
theory Router_Layers
  imports Pre_Filter Rule_Router
begin

text \<open>
  The router node with its first layers in place: pre-filter, complexity gate and rules of the sources
  for the arguments of \<open>Intent_Router\<close>, and the properties of the layers and of their composition.
\<close>

definition layered :: "unicode \<Rightarrow> router_config \<Rightarrow> router_env \<Rightarrow> router_env" where
  "layered u cfg env =
     env\<lparr>rt_pre_filter := pre_filter u, rt_gate := gate_check u cfg, rt_rule := rule_route u cfg,
         rt_rule_to_llm := entry (cf_rule_to_llm cfg) (7/10)\<rparr>"

section \<open>Decisions are valid\<close>

text \<open>The constraints of \<open>RouteDecision\<close>, which pydantic would enforce by an exception.\<close>

definition ROUTE_TARGETS :: "string list" where
  "ROUTE_TARGETS = [''rag'', ''database'', ''web'', ''rest'', ''hybrid'', ''chitchat'', ''graph'']"

definition ROUTE_SOURCES :: "string list" where
  "ROUTE_SOURCES = [''rule'', ''llm'', ''planner'', ''prefilter'', ''react_planner'']"

definition ROUTE_COMPLEXITIES :: "string list" where
  "ROUTE_COMPLEXITIES = [''simple'', ''moderate'', ''complex'']"

definition valid_decision :: "route_decision \<Rightarrow> bool" where
  "valid_decision d \<longleftrightarrow>
     rd_target d \<in> set ROUTE_TARGETS \<and> 0 \<le> rd_confidence d \<and> rd_confidence d \<le> 1
     \<and> rd_source d \<in> set ROUTE_SOURCES \<and> rd_complexity d \<in> set ROUTE_COMPLEXITIES"

lemmas valid_defs = valid_decision_def ROUTE_TARGETS_def ROUTE_SOURCES_def ROUTE_COMPLEXITIES_def

lemma valid_prefilter:
  "t \<in> set ROUTE_TARGETS \<Longrightarrow> 0 \<le> c \<Longrightarrow> c \<le> 1 \<Longrightarrow> valid_decision (prefilter_decision t c r m)"
  by (simp add: valid_defs prefilter_decision_def)

lemma valid_rule: "t \<in> set ROUTE_TARGETS \<Longrightarrow> 0 \<le> c \<Longrightarrow> c \<le> 1 \<Longrightarrow> valid_decision (rule_decision t c r m)"
  by (simp add: valid_defs rule_decision_def)

lemma first_some_in: "first_some xs = Some d \<Longrightarrow> Some d \<in> set xs"
  unfolding first_some_def by (cases "filter (\<lambda>x. x \<noteq> None) xs") (auto simp: filter_eq_Cons_iff)

lemma table_targets:
  "(p, t, n) \<in> set DIRECTIVE_PATTERNS \<Longrightarrow> t \<in> set ROUTE_TARGETS"
  "(p, t) \<in> set (ENTITY_PATTERNS u) \<Longrightarrow> t \<in> set ROUTE_TARGETS"
  "(p, t, n) \<in> set STRONG_PATTERNS \<Longrightarrow> t \<in> set ROUTE_TARGETS"
  by (auto simp: DIRECTIVE_PATTERNS_def ENTITY_PATTERNS_def STRONG_PATTERNS_def ROUTE_TARGETS_def)

lemma found_in: "find P xs = Some x \<Longrightarrow> x \<in> set xs"
  by (induction xs) (auto split: if_splits)

lemma entity_match_target: "entity_match u q ps = Some (m, t) \<Longrightarrow> \<exists>p. (p, t) \<in> set ps"
  by (induction u q ps rule: entity_match.induct) (auto split: option.splits)

lemma valid_directive: "check_directive u q = Some d \<Longrightarrow> valid_decision d"
  by (auto simp: check_directive_def dest!: found_in intro!: valid_prefilter table_targets(1))

lemma valid_entity: "check_entity_format u q = Some d \<Longrightarrow> valid_decision d"
  by (auto simp: check_entity_format_def dest!: entity_match_target intro!: valid_prefilter intro: table_targets(2))

lemma chitchat_target [simp]: "''chitchat'' \<in> set ROUTE_TARGETS" "''web'' \<in> set ROUTE_TARGETS"
  by (simp_all add: ROUTE_TARGETS_def)

lemma valid_security: "check_security u q = Some d \<Longrightarrow> valid_decision d"
  by (auto simp: check_security_def blocked_def Let_def intro!: valid_prefilter split: if_splits)

lemma valid_external: "check_external_search q = Some d \<Longrightarrow> valid_decision d"
  by (auto simp: check_external_search_def Let_def intro!: valid_prefilter split: if_splits)

lemma valid_greeting: "check_greeting u q = Some d \<Longrightarrow> valid_decision d"
  by (auto simp: check_greeting_def intro!: valid_prefilter split: if_splits)

lemma valid_pre_filter:
  assumes "pre_filter u q = Some d"
  shows "valid_decision d"
proof -
  let ?q = "strip q"
  from assms have "Some d \<in> set [check_security u ?q, check_directive u ?q, check_external_search ?q, check_greeting u ?q,
      check_entity_format u ?q]"
    unfolding pre_filter_def Let_def by (auto split: if_splits dest: first_some_in)
  then show ?thesis
    by (auto dest: valid_security valid_directive valid_external valid_greeting valid_entity dest!: sym [of "Some d"])
qed

lemma match_bias_bounds: "0 \<le> fst (match_bias ws q) \<and> fst (match_bias ws q) \<le> 55/100"
  by (auto simp: match_bias_def Let_def WEAK_BASE_SCORE_def WEAK_BONUS_CAP_def WEAK_BONUS_PER_KEYWORD_def)

lemma weak_decision_bounds:
  assumes "weak_decision db rag erp graph = (t, c, r)"
    and "0 \<le> fst db" "0 \<le> fst rag" "0 \<le> fst erp" "0 \<le> fst graph"
  shows "t \<in> set ROUTE_TARGETS \<and> 0 \<le> c \<and> c \<le> 55/100"
  using assms
  by (auto simp: weak_decision_def WEAK_CONFIDENCE_CAP_def ROUTE_TARGETS_def min_def max_def split: prod.splits if_splits)

lemma strong_target: "match_strong_pattern u q = Some (t, n) \<Longrightarrow> t \<in> set ROUTE_TARGETS"
  by (auto simp: match_strong_pattern_def dest!: found_in intro: table_targets(3))

text \<open>A weak match of the rules.\<close>

definition weak_route :: "unicode \<Rightarrow> router_config \<Rightarrow> string \<Rightarrow> bool" where
  "weak_route u cfg q \<longleftrightarrow>
     strip q = [] \<or> detect_scope cfg (lower q) \<noteq> ''external'' \<and> \<not> detect_freshness cfg (lower q)
       \<and> match_strong_pattern u q = None"

lemma web_route:
  assumes "strip q \<noteq> []" and "detect_scope cfg (lower q) = ''external'' \<or> detect_freshness cfg (lower q)"
  obtains c r m where "rule_route u cfg q = rule_decision ''web'' c r m" and "75/100 \<le> c" and "c \<le> 1"
proof (cases "detect_freshness cfg (lower q)")
  case True
  show thesis
  proof (cases "detect_scope cfg (lower q) = ''external''")
    case ext: True
    with True assms(1) have "rule_route u cfg q = rule_decision ''web'' (85/100) (Msg ''external and fresh'' [])
        [(''scope'', PStr ''external''), (''freshness_required'', PBool True)]" by (simp add: rule_route_def)
    then show thesis by (rule that) simp_all
  next
    case int: False
    with True assms(1) have "rule_route u cfg q = rule_decision ''web'' (75/100) (Msg ''fresh'' []) [(''freshness_required'', PBool True)]"
      by (simp add: rule_route_def)
    then show thesis by (rule that) simp_all
  qed
next
  case False
  with assms have "rule_route u cfg q = rule_decision ''web'' (8/10) (Msg ''external'' []) [(''scope'', PStr ''external'')]"
    by (simp add: rule_route_def Let_def)
  then show thesis by (rule that) simp_all
qed

lemma rule_route_cases:
  obtains (weak) t c r m where "weak_route u cfg q" and "rule_route u cfg q = rule_decision t c r m"
    and "t \<in> set ROUTE_TARGETS" and "0 \<le> c" and "c \<le> 55/100"
  | (strong) t c r m where "\<not> weak_route u cfg q" and "rule_route u cfg q = rule_decision t c r m"
    and "t \<in> set ROUTE_TARGETS" and "75/100 \<le> c" and "c \<le> 1"
proof (cases "weak_route u cfg q")
  case True
  let ?b = "\<lambda>ws. match_bias ws (lower q)"
  obtain t c r where w: "weak_decision (?b (entry (cf_db_bias cfg) [])) (?b (entry (cf_rag_bias cfg) []))
      (?b (entry (cf_erp_bias cfg) ERP_BIAS)) (?b (entry (cf_graph_bias cfg) GRAPH_BIAS)) = (t, c, r)"
    by (metis prod_cases3)
  show thesis
  proof (cases "strip q = []")
    case empty: True
    then have "rule_route u cfg q = rule_decision ''chitchat'' (1/2) (Msg ''empty question'' []) []"
      by (simp add: rule_route_def)
    then show thesis by (rule weak [OF True, of "''chitchat''" "1/2"]) simp_all
  next
    case False
    with True w obtain m where "rule_route u cfg q = rule_decision t c r m"
      by (auto simp: rule_route_def weak_route_def Let_def)
    with weak_decision_bounds [OF w] match_bias_bounds show thesis by (intro weak [OF True]) auto
  qed
next
  case False
  then have "strip q \<noteq> []" by (simp add: weak_route_def)
  from False consider "detect_scope cfg (lower q) = ''external'' \<or> detect_freshness cfg (lower q)"
    | "match_strong_pattern u q \<noteq> None" "detect_scope cfg (lower q) \<noteq> ''external''" "\<not> detect_freshness cfg (lower q)"
    by (auto simp: weak_route_def)
  then show thesis
  proof cases
    case 1
    obtain c r m where "rule_route u cfg q = rule_decision ''web'' c r m" "75/100 \<le> c" "c \<le> 1"
      using \<open>strip q \<noteq> []\<close> 1 by (rule web_route [of q cfg u])
    then show thesis by (intro strong [OF False, of "''web''" c r m]) simp_all
  next
    case 2
    then obtain t n where n: "match_strong_pattern u q = Some (t, n)" by auto
    with 2 False have "rule_route u cfg q = rule_decision t (80/100) (Msg ''strong pattern'' [PStr n]) [(''pattern'', PStr n)]"
      by (simp add: rule_route_def weak_route_def Let_def)
    then show thesis by (rule strong [OF False]) (use strong_target [OF n] in simp_all)
  qed
qed

text \<open>The layers of the router make valid decisions only: the target, the source and the complexity are
  of the declared values and the confidence is between 0 and 1, for every question and every
  configuration, so that the validation of \<open>RouteDecision\<close> never raises.\<close>

lemma layer_decisions_valid:
  "(\<forall>d. pre_filter u q = Some d \<longrightarrow> valid_decision d) \<and> valid_decision (rule_route u cfg q)"
proof
  show "\<forall>d. pre_filter u q = Some d \<longrightarrow> valid_decision d" using valid_pre_filter by blast
  show "valid_decision (rule_route u cfg q)"
    by (rule rule_route_cases [of u cfg q]) (auto intro!: valid_rule)
qed

text \<open>Only strong rules decide without the language model. The confidence of a rule reaches the threshold
  0.7 exactly if the question names an external scope, asks for something current or has the form of a
  strong pattern; any number of keywords stays at 0.55 or below, and then the language model decides.\<close>

theorem weak_rules_defer:
  "(rd_confidence (rule_route u cfg q) \<ge> 7/10 \<longleftrightarrow>
      strip q \<noteq> [] \<and> (detect_scope cfg (lower q) = ''external'' \<or> detect_freshness cfg (lower q)
        \<or> match_strong_pattern u q \<noteq> None))
   \<and> (rd_confidence (rule_route u cfg q) < 7/10 \<longrightarrow> rd_confidence (rule_route u cfg q) \<le> 55/100)"
proof (rule rule_route_cases [of u cfg q])
  fix t c r m
  assume "weak_route u cfg q" "rule_route u cfg q = rule_decision t c r m" "c \<le> 55/100"
  then show ?thesis by (auto simp: weak_route_def rule_decision_def)
next
  fix t c r m
  assume "\<not> weak_route u cfg q" "rule_route u cfg q = rule_decision t c r m" "75/100 \<le> c"
  then show ?thesis by (auto simp: weak_route_def rule_decision_def)
qed

section \<open>The complexity gate\<close>

definition occurs :: "string \<Rightarrow> string \<Rightarrow> bool" where
  "occurs w s \<longleftrightarrow> (\<exists>xs zs. u_chars s = xs @ u_chars w @ zs)"

definition count_marks :: "string \<Rightarrow> string \<Rightarrow> nat" where
  "count_marks marks s = length (filter (\<lambda>c. c \<in> set (u_chars marks)) (u_chars s))"

lemma search_marks: "search u (marked marks n) s \<longleftrightarrow> n \<le> count_marks marks s"
  unfolding marked_def none_of_def any_of_def count_marks_def by (rule search_marked)

lemma search_any_word: "search u (any_word ws) s \<longleftrightarrow> (\<exists>w \<in> set ws. occurs w s)"
  unfolding any_word_def occurs_def by (rule search_words)

lemma search_long:
  "search u (long_query n) s \<longleftrightarrow> (\<exists>xs ys zs. u_chars s = xs @ ys @ zs \<and> length ys = n \<and> [CHR 0x0A] \<notin> set ys)"
  unfolding long_query_def dot_def search_run by (auto simp: list_all_iff)

text \<open>C16: The signals of the complexity gate in the default configuration. The gate finds a question complex
  exactly if a signal fires, with a confidence of at most 0.9; it is long if fifty characters stand in
  one line, it has several clauses (questions) if it has at least two clause marks (question marks), it
  asks for reasoning if one of the reasoning words occurs, and for several tools if a word of the first
  fifteen of both lists occurs.\<close>

theorem complexity_signals:
  "gr_is_complex (gate_check u default_config q) = (gr_triggered_signals (gate_check u default_config q) \<noteq> [])
   \<and> 0 \<le> gr_confidence (gate_check u default_config q) \<and> gr_confidence (gate_check u default_config q) \<le> 9/10
   \<and> (PStr ''long_query'' \<in> set (gr_triggered_signals (gate_check u default_config q)) \<longleftrightarrow>
        strip q \<noteq> [] \<and> (\<exists>xs ys zs. u_chars q = xs @ ys @ zs \<and> length ys = 50 \<and> [CHR 0x0A] \<notin> set ys))
   \<and> (PStr ''multi_clause'' \<in> set (gr_triggered_signals (gate_check u default_config q)) \<longleftrightarrow>
        strip q \<noteq> [] \<and> 2 \<le> count_marks CLAUSE_MARKS q)
   \<and> (PStr ''multi_question'' \<in> set (gr_triggered_signals (gate_check u default_config q)) \<longleftrightarrow>
        strip q \<noteq> [] \<and> 2 \<le> count_marks QUESTION_MARKS q)
   \<and> (PStr ''reasoning_markers'' \<in> set (gr_triggered_signals (gate_check u default_config q)) \<longleftrightarrow>
        strip q \<noteq> [] \<and> (\<exists>w \<in> set DEFAULT_REASONING. occurs w q))
   \<and> (PStr ''multi_tool'' \<in> set (gr_triggered_signals (gate_check u default_config q)) \<longleftrightarrow>
        strip q \<noteq> [] \<and> (\<exists>w \<in> set (take 15 DB_BIAS). occurs w q) \<and> (\<exists>w \<in> set (take 15 RAG_BIAS). occurs w q))"
proof (cases "strip q = []")
  case True
  then show ?thesis by (simp add: gate_check_def)
next
  case False
  have nonempty: "DEFAULT_REASONING \<noteq> []" "DB_BIAS \<noteq> []" "RAG_BIAS \<noteq> []" "PROGRESSIVE \<noteq> []"
    by (simp_all add: DEFAULT_REASONING_def DB_BIAS_def RAG_BIAS_def PROGRESSIVE_def)
  let ?T = "map fst (filter (\<lambda>(name, matcher). matcher q) (compile_signals u default_config))"
  have sig: "compile_signals u default_config =
      [(''long_query'', search u (long_query 50)), (''multi_clause'', search u (marked CLAUSE_MARKS 2)),
       (''multi_question'', search u (marked QUESTION_MARKS 2)), (''reasoning_markers'', search u (any_word DEFAULT_REASONING)),
       (''multi_tool'', multi_tool_search u DB_BIAS RAG_BIAS), (''progressive'', search u (alts PROGRESSIVE))]"
    unfolding compile_signals_def default_config_def entry_def by (simp add: nonempty)
  have g: "gr_triggered_signals (gate_check u default_config q) = map PStr ?T"
    "gr_is_complex (gate_check u default_config q) = (?T \<noteq> [])"
    "gr_confidence (gate_check u default_config q) = (if ?T \<noteq> [] then min (of_nat (length ?T) * (3/10)) (9/10) else 0)"
    using False by (simp_all add: gate_check_def Let_def)
  have fires: "PStr n \<in> set (gr_triggered_signals (gate_check u default_config q)) \<longleftrightarrow> (\<exists>f. (n, f) \<in> set (compile_signals u default_config) \<and> f q)" for n
    unfolding g(1) by force
  have "0 \<le> gr_confidence (gate_check u default_config q) \<and> gr_confidence (gate_check u default_config q) \<le> 9/10"
    unfolding g(3) by (auto intro: min.coboundedI2)
  moreover have "gr_is_complex (gate_check u default_config q) = (gr_triggered_signals (gate_check u default_config q) \<noteq> [])"
    unfolding g by simp
  ultimately show ?thesis
    unfolding fires sig using False by (simp add: search_long search_marks search_any_word multi_tool_search_def)
qed

section \<open>Blocked questions\<close>

lemma security_blocks:
  assumes "(\<exists>kw \<in> set PRIVILEGE_ESCALATION_KEYWORDS. contains (lower kw) (lower q))
    \<or> (\<exists>p \<in> set SQL_INJECTION_PATTERNS. search u p (lower q))"
  obtains r k where "check_security u q = Some (blocked r k)"
proof (cases "list_ex (\<lambda>p. search u p (lower q)) SQL_INJECTION_PATTERNS")
  case True
  with that show thesis by (simp add: check_security_def)
next
  case False
  with assms have "\<exists>kw \<in> set PRIVILEGE_ESCALATION_KEYWORDS. contains (lower kw) (lower q)" by (auto simp: list_ex_iff)
  then obtain kw where "find (\<lambda>kw. contains (lower kw) (lower q)) PRIVILEGE_ESCALATION_KEYWORDS = Some kw"
    by (cases "find (\<lambda>kw. contains (lower kw) (lower q)) PRIVILEGE_ESCALATION_KEYWORDS") (auto simp: find_None_iff)
  with False that show thesis by (simp add: check_security_def)
qed

text \<open>C17: A question that looks like an attack reaches no tool. If a privileged word occurs in it, in any
  case, or one of the injection patterns matches, the node decides at once: no skill is resolved, the
  language model is not asked for a route, and the next node is the assembly of the prompt. The flag
  \<open>blocked\<close> is set in the decision.\<close>

theorem blocked_question_reaches_no_tool:
  assumes "intent_router_node (layered u cfg env) s = Inr t"
    and "(\<exists>kw \<in> set PRIVILEGE_ESCALATION_KEYWORDS. contains (lower kw) (lower (strip (g_user_question s))))
      \<or> (\<exists>p \<in> set SQL_INJECTION_PATTERNS. search u p (lower (strip (g_user_question s))))"
    and "strip (g_user_question s) \<noteq> []"
  shows "route_next t = ''prompt_assembly'' \<and> g_skill_resolution t = g_skill_resolution s
    \<and> (\<exists>d. t = routed d s \<and> dget (rd_metadata d) ''blocked'' = PBool True)"
proof -
  let ?q = "strip (g_user_question s)"
  have "g_user_question s \<noteq> []" using assms(3) by (auto simp: strip_def lstrip_def strip_front.simps ws_front_def)
  obtain r k where "check_security u ?q = Some (blocked r k)" using assms(2) by (rule security_blocks)
  then have "pre_filter u (g_user_question s) = Some (blocked r k)"
    using assms(3) by (simp add: pre_filter_def first_some_def Let_def)
  with assms(1) \<open>g_user_question s \<noteq> []\<close> have t: "t = routed (blocked r k) s"
    by (simp add: intent_router_node_def layered_def finalize_route_def blocked_def prefilter_decision_def Let_def)
  have "dget (rd_metadata (blocked r k)) ''blocked'' = PBool True" by (simp add: blocked_def prefilter_decision_def)
  moreover have "route_next t = ''prompt_assembly'' \<and> g_skill_resolution t = g_skill_resolution s"
    using t by (simp add: routed_def blocked_def prefilter_decision_def route_next_def flag_of_def complex_decision_def from_planner_def)
  ultimately show ?thesis using t by blast
qed

definition quiet_router :: router_env where
  "quiet_router =
     \<lparr>rt_pre_filter = (\<lambda>_. None), rt_gate = (\<lambda>_. \<lparr>gr_is_complex = False, gr_triggered_signals = [], gr_confidence = 0\<rparr>),
      rt_rule = (\<lambda>_. empty_question_decision), rt_rule_to_llm = 0, rt_llm = (\<lambda>_ _ _ _. Inl ValueError),
      rt_plan = (\<lambda>_ _ _ _. Inl ValueError), rt_resolve_skill = (\<lambda>_ _. None),
      rt_plan_with_skills = (\<lambda>_ _ _. Inl ValueError), rt_parse_plan = (\<lambda>_. Inl ValueError)\<rparr>"

lemma demo_blocked: "contains (lower ''DROP TABLE'') (lower (strip ''please drop table users''))" "strip ''please drop table users'' \<noteq> []"
  by code_simp+

theorem blocked_question_reaches_no_tool_witness:
  "\<exists>t. intent_router_node (layered ascii_only default_config quiet_router) (empty_state\<lparr>g_user_question := ''please drop table users''\<rparr>) = Inr t
     \<and> route_next t = ''prompt_assembly''"
proof -
  let ?s = "empty_state\<lparr>g_user_question := ''please drop table users''\<rparr>"
  have kw: "\<exists>kw \<in> set PRIVILEGE_ESCALATION_KEYWORDS. contains (lower kw) (lower (strip (g_user_question ?s)))"
    using demo_blocked(1) by (auto simp: PRIVILEGE_ESCALATION_KEYWORDS_def intro: bexI [of _ "''DROP TABLE''"])
  then obtain r k where "check_security ascii_only (strip ''please drop table users'') = Some (blocked r k)"
    using security_blocks [of "strip ''please drop table users''" ascii_only] by auto
  then obtain d where "pre_filter ascii_only ''please drop table users'' = Some d"
    using demo_blocked(2) by (auto simp: pre_filter_def first_some_def Let_def)
  then obtain t where t: "intent_router_node (layered ascii_only default_config quiet_router) ?s = Inr t"
    by (simp add: intent_router_node_def layered_def Let_def)
  have "strip (g_user_question ?s) \<noteq> []" using demo_blocked(2) by simp
  with blocked_question_reaches_no_tool [OF t] kw t show ?thesis by blast
qed

theorem weak_rules_defer_witness: "rd_confidence (rule_route ascii_only default_config ''top'') \<le> 55/100"
proof -
  have "\<not> rd_confidence (rule_route ascii_only default_config ''top'') \<ge> 7/10" by code_simp
  with weak_rules_defer [of ascii_only default_config "''top''"] show ?thesis by auto
qed

end
