(* ===== verification/Llm_Router.thy ===== *)
theory Llm_Router
  imports Router_Layers Prompt_Manager
begin

text \<open>
  The layers of the router that ask a language model: the semantic router with its circuit breaker
  (\<open>agent/langgraph/routers/llm_router.py\<close>) and the planner (\<open>planner.py\<close>), over the plan steps of
  \<open>routers/models.py\<close>, and the process-wide objects they share: the loaded configuration
  (\<open>config_loader.py\<close>), whose sections the router node writes the tenant into, and the singletons that
  keep the configuration object of their first use. The model gateway, \<open>json_repair\<close>, the constructors
  of pydantic and \<open>str()\<close> of a dictionary are arguments; so is the clock.
\<close>

section \<open>The circuit breaker\<close>

record circuit_breaker =
  cb_failure_threshold :: int
  cb_recovery_timeout_s :: rat
  cb_failure_count :: int
  cb_last_failure_time :: rat
  cb_is_open :: bool

definition init_breaker :: "int \<Rightarrow> rat \<Rightarrow> circuit_breaker" where
  "init_breaker threshold timeout =
     \<lparr>cb_failure_threshold = threshold, cb_recovery_timeout_s = timeout, cb_failure_count = 0,
      cb_last_failure_time = 0, cb_is_open = False\<rparr>"

definition record_failure :: "rat \<Rightarrow> circuit_breaker \<Rightarrow> circuit_breaker" where
  "record_failure now cb =
     (let n = cb_failure_count cb + 1 in
      cb\<lparr>cb_failure_count := n, cb_last_failure_time := now,
         cb_is_open := (if n \<ge> cb_failure_threshold cb then True else cb_is_open cb)\<rparr>)"

definition record_success :: "circuit_breaker \<Rightarrow> circuit_breaker" where
  "record_success cb = cb\<lparr>cb_failure_count := 0, cb_is_open := False\<rparr>"

definition can_execute :: "rat \<Rightarrow> circuit_breaker \<Rightarrow> bool \<times> circuit_breaker" where
  "can_execute now cb =
     (if \<not> cb_is_open cb then (True, cb)
      else if now - cb_last_failure_time cb > cb_recovery_timeout_s cb
      then (True, cb\<lparr>cb_is_open := False, cb_failure_count := 0\<rparr>)
      else (False, cb))"

section \<open>Configuration\<close>

text \<open>The sections \<open>llm_router\<close> and \<open>planner\<close> of a configuration object, \<open>None\<close> for an absent entry. A
  section that is absent altogether is read as a new empty dictionary, so a write into it is lost.\<close>

record llm_section =
  ls_tenant_id :: "string option"
  ls_model_id :: "string option"
  ls_prompt_version :: "string option"
  ls_timeout_ms :: "rat option"
  ls_failure_threshold :: "int option"
  ls_recovery_timeout_s :: "rat option"
  ls_direct_adopt :: "rat option"
  ls_needs_clarification :: "rat option"

record planner_section =
  pl_tenant_id :: "string option"
  pl_model_id :: "string option"
  pl_prompt_version :: "string option"
  pl_timeout_ms :: "rat option"

record sections =
  sc_llm :: "llm_section option"
  sc_planner :: "planner_section option"

definition empty_llm :: llm_section where
  "empty_llm =
     \<lparr>ls_tenant_id = None, ls_model_id = None, ls_prompt_version = None, ls_timeout_ms = None,
      ls_failure_threshold = None, ls_recovery_timeout_s = None, ls_direct_adopt = None, ls_needs_clarification = None\<rparr>"

definition empty_planner :: planner_section where
  "empty_planner = \<lparr>pl_tenant_id = None, pl_model_id = None, pl_prompt_version = None, pl_timeout_ms = None\<rparr>"

definition default_sections :: sections where
  "default_sections =
     \<lparr>sc_llm = Some \<lparr>ls_tenant_id = Some [], ls_model_id = Some ''qwen3.5-9b'', ls_prompt_version = Some ''v1'',
                     ls_timeout_ms = Some 500, ls_failure_threshold = Some 3, ls_recovery_timeout_s = Some 60,
                     ls_direct_adopt = Some (75/100), ls_needs_clarification = Some (6/10)\<rparr>,
      sc_planner = Some \<lparr>pl_tenant_id = Some [], pl_model_id = Some ''qwen3.6-27b'', pl_prompt_version = Some ''v1'',
                         pl_timeout_ms = Some 5000\<rparr>\<rparr>"

definition llm_of :: "sections \<Rightarrow> llm_section" where
  "llm_of c = entry (sc_llm c) empty_llm"

definition planner_of :: "sections \<Rightarrow> planner_section" where
  "planner_of c = entry (sc_planner c) empty_planner"

text \<open>The tenant of a request is written into both sections, unless it is empty.\<close>

definition inject_tenant :: "string \<Rightarrow> sections \<Rightarrow> sections" where
  "inject_tenant tenant c =
     (if tenant = [] then c
      else c\<lparr>sc_llm := map_option (\<lambda>l. l\<lparr>ls_tenant_id := Some tenant\<rparr>) (sc_llm c),
             sc_planner := map_option (\<lambda>l. l\<lparr>pl_tenant_id := Some tenant\<rparr>) (sc_planner c)\<rparr>)"

section \<open>What the layers call\<close>

text \<open>\<open>le_chat\<close> is \<open>model_for\<close> and \<open>async_chat\<close> of the gateway under \<open>asyncio.wait_for\<close>: its arguments
  are the limit in seconds, the tenant, the model, the system prompt and the prompt; a call that is too
  slow is a \<open>TimeoutError\<close>. \<open>le_decision\<close>, \<open>le_step_args\<close>, \<open>le_step\<close> and \<open>le_plan\<close> are the constructors
  \<open>RouteDecision\<close>, \<open>StepArgs\<close>, \<open>PlanStep\<close> and \<open>ExecutionPlan\<close>, which validate and coerce their arguments,
  and \<open>le_dump\<close> is \<open>model_dump\<close> of a plan.\<close>

record llm_env =
  le_files :: "string \<Rightarrow> string option res"
  le_other :: "string \<Rightarrow> string res"
  le_chat :: "rat \<Rightarrow> string \<Rightarrow> string \<Rightarrow> string \<Rightarrow> string \<Rightarrow> string res"
  le_repair :: "string \<Rightarrow> pyval res"
  le_repr :: "pdict \<Rightarrow> string"
  le_decision :: "string \<Rightarrow> pyval \<Rightarrow> string \<Rightarrow> pyval \<Rightarrow> pyval \<Rightarrow> pyval \<Rightarrow> pdict \<Rightarrow> route_decision res"
  le_step_args :: "pdict \<Rightarrow> pdict res"
  le_step :: "pyval \<Rightarrow> pyval \<Rightarrow> pdict \<Rightarrow> pyval \<Rightarrow> pyval \<Rightarrow> pyval \<Rightarrow> plan_step res"
  le_plan :: "pyval \<Rightarrow> plan_step list \<Rightarrow> pyval \<Rightarrow> pyval \<Rightarrow> execution_plan res"
  le_dump :: "execution_plan \<Rightarrow> pyval"

definition ERROR_MARK :: string where
  "ERROR_MARK = ''**ERROR**''"

text \<open>The answer of the gateway, checked for its error mark and repaired to a value.\<close>

definition ask_model :: "llm_env \<Rightarrow> rat \<Rightarrow> string \<Rightarrow> string \<Rightarrow> string \<Rightarrow> string res \<Rightarrow> pyval res" where
  "ask_model env limit tenant model system prompt =
     rbind prompt (\<lambda>p.
       rbind (le_chat env limit tenant model system p) (\<lambda>content.
         if starts_with ERROR_MARK content then Inl (OtherError ''RuntimeError'') else le_repair env content))"

definition kb_metadata :: "string list \<Rightarrow> string" where
  "kb_metadata kb_ids = json_text (\<lambda>_. []) (PList (map PStr kb_ids))"

section \<open>The semantic router\<close>

definition LLM_SYSTEM_PROMPT :: string where
  "LLM_SYSTEM_PROMPT =
     uni [0x4F60, 0x662F, 0x4E00, 0x4E2A, 0x610F, 0x56FE, 0x8BC6, 0x522B, 0x4E13, 0x5BB6, 0x3002, 0x8BF7,
     0x4E25, 0x683C, 0x6309, 0x7167] @ '' JSON '' @ uni [0x683C, 0x5F0F, 0x8F93, 0x51FA, 0x3002]"

definition call_llm :: "llm_env \<Rightarrow> rat \<Rightarrow> llm_section \<Rightarrow> string \<Rightarrow> string list \<Rightarrow> prompt_cache \<Rightarrow> pyval res \<times> prompt_cache" where
  "call_llm env timeout_ms cfg query kb_ids cache =
     (case render_prompt (le_files env) (le_other env) ''intent_router'' (entry (ls_prompt_version cfg) ''v1'')
             [(''query'', query), (''kb_metadata'', kb_metadata kb_ids)] cache of
        (prompt, cache') \<Rightarrow>
          (ask_model env (timeout_ms / 1000) (entry (ls_tenant_id cfg) []) (entry (ls_model_id cfg) ''qwen3.5-9b'')
             LLM_SYSTEM_PROMPT prompt, cache'))"

definition LLM_TARGETS :: "string list" where
  "LLM_TARGETS = [''database'', ''rag'', ''web'', ''rest'', ''hybrid'', ''chitchat'']"

definition target_of_intent :: "pyval \<Rightarrow> string res" where
  "target_of_intent v =
     (if \<not> hashable v then Inl TypeError
      else Inr (case v of PStr s \<Rightarrow> if s \<in> set LLM_TARGETS then s else ''chitchat'' | _ \<Rightarrow> ''chitchat''))"

definition parse_llm_result :: "llm_env \<Rightarrow> pyval \<Rightarrow> route_decision res" where
  "parse_llm_result env llm_result =
     (case llm_result of
        PDict r \<Rightarrow>
          rbind (target_of_intent (dget_or r ''primary_intent'' (PStr ''chitchat''))) (\<lambda>target.
            le_decision env target (dget_or r ''confidence'' (PFloat (1/2))) ''llm'' (dget_or r ''reason'' (PStr []))
              (dget_or r ''complexity'' (PStr ''simple'')) (dget_or r ''kb_ids'' (PList []))
              [(''sub_intents'', dget_or r ''sub_intents'' (PList [])), (''entities'', dget_or r ''entities'' (PDict [])),
               (''needs_clarification'', dget_or r ''needs_clarification'' (PBool False)),
               (''clarification_question'', dget_or r ''clarification_question'' (PStr []))])
      | _ \<Rightarrow> Inl AttributeError)"

record llm_router =
  lr_config :: nat
  lr_breaker :: circuit_breaker
  lr_timeout_ms :: rat
  lr_direct_adopt :: rat
  lr_needs_clarification :: rat

definition init_llm_router :: "nat \<Rightarrow> sections \<Rightarrow> llm_router" where
  "init_llm_router ref c =
     (let l = llm_of c in
      \<lparr>lr_config = ref,
       lr_breaker = init_breaker (entry (ls_failure_threshold l) 3) (entry (ls_recovery_timeout_s l) 60),
       lr_timeout_ms = entry (ls_timeout_ms l) 500,
       lr_direct_adopt = entry (ls_direct_adopt l) (75/100),
       lr_needs_clarification = entry (ls_needs_clarification l) (6/10)\<rparr>)"

text \<open>The labels by confidence.\<close>

definition label_decision :: "llm_router \<Rightarrow> route_decision \<Rightarrow> route_decision" where
  "label_decision r d =
     (if rd_confidence d \<ge> lr_direct_adopt r then d
      else if rd_confidence d \<ge> lr_needs_clarification r
      then d\<lparr>rd_metadata := dset (rd_metadata d) ''low_confidence_label'' (PBool True)\<rparr>
      else d\<lparr>rd_metadata := dset (rd_metadata d) ''needs_clarification'' (PBool True)\<rparr>)"

text \<open>\<open>LLMRouter.route\<close>: \<open>now\<close> is the time of the check of the breaker, \<open>later\<close> that of a failure.\<close>

definition llm_router_route :: "llm_env \<Rightarrow> sections \<Rightarrow> rat \<Rightarrow> rat \<Rightarrow> string \<Rightarrow> route_decision \<Rightarrow> string list
    \<Rightarrow> llm_router \<Rightarrow> prompt_cache \<Rightarrow> route_decision \<times> llm_router \<times> prompt_cache" where
  "llm_router_route env cfg now later query rule kb_ids r cache =
     (case can_execute now (lr_breaker r) of
        (False, cb) \<Rightarrow> (rule, r\<lparr>lr_breaker := cb\<rparr>, cache)
      | (True, cb) \<Rightarrow>
          (case call_llm env (lr_timeout_ms r) (llm_of cfg) query kb_ids cache of
             (Inl _, cache') \<Rightarrow> (rule, r\<lparr>lr_breaker := record_failure later cb\<rparr>, cache')
           | (Inr llm_result, cache') \<Rightarrow>
               (let cb1 = record_success cb in
                case parse_llm_result env llm_result of
                  Inl _ \<Rightarrow> (rule, r\<lparr>lr_breaker := record_failure later cb1\<rparr>, cache')
                | Inr d \<Rightarrow> (label_decision r d, r\<lparr>lr_breaker := cb1\<rparr>, cache'))))"

section \<open>The planner\<close>

definition KNOWN_FIELDS :: "string list" where
  "KNOWN_FIELDS =
     [''query'', ''query_simplified'', ''kb_ids'', ''db_id'', ''mcp_server_name'', ''search_engine'', ''function'',
      ''function_params'', ''rest_endpoint'', ''rest_method'', ''rest_payload'', ''erp_domain'', ''source_type'',
      ''enable_pg'', ''max_rows'', ''max_result_chars'', ''enable_hybrid_retrieval'', ''timeout_ms'', ''extra'']"

definition step_args_from_dict :: "llm_env \<Rightarrow> pyval \<Rightarrow> pdict res" where
  "step_args_from_dict env data =
     (if \<not> truthy data then le_step_args env []
      else
        (case data of
           PDict d \<Rightarrow> le_step_args env (filter (\<lambda>(k, v). k \<in> set KNOWN_FIELDS) d)
         | _ \<Rightarrow> Inl AttributeError))"

definition plan_step_from_dict :: "llm_env \<Rightarrow> pyval \<Rightarrow> plan_step res" where
  "plan_step_from_dict env data =
     (case data of
        PDict d \<Rightarrow>
          rbind (step_args_from_dict env (dget_or d ''args'' (PDict []))) (\<lambda>step_args.
            le_step env (dget_or d ''step_id'' (PStr [])) (dget_or d ''tool'' (PStr ''rag'')) step_args
              (dget_or d ''depends_on'' (PList [])) (dget_or d ''can_parallel'' (PBool False))
              (dget_or d ''description'' (PStr [])))
      | _ \<Rightarrow> Inl AttributeError)"

definition PLANNER_SYSTEM_PROMPT :: string where
  "PLANNER_SYSTEM_PROMPT =
     uni [0x4F60, 0x662F, 0x4E00, 0x4E2A, 0x4EFB, 0x52A1, 0x89C4, 0x5212, 0x4E13, 0x5BB6, 0x3002, 0x8BF7,
     0x4E25, 0x683C, 0x6309, 0x7167] @ '' JSON '' @ uni [0x683C, 0x5F0F, 0x8F93, 0x51FA, 0x6267, 0x884C, 0x8BA1,
     0x5212, 0x3002]"

definition plan_context :: "route_decision \<Rightarrow> pdict" where
  "plan_context d =
     [(''sub_intents'', dget_or (rd_metadata d) ''sub_intents'' (PList [])),
      (''entities'', dget_or (rd_metadata d) ''entities'' (PDict [])), (''primary_intent'', PStr (rd_target d))]"

definition plan_of :: "llm_env \<Rightarrow> int \<Rightarrow> pyval \<Rightarrow> execution_plan res" where
  "plan_of env secs parsed =
     (case parsed of
        PDict d \<Rightarrow>
          rbind (py_iter (dget_or d ''steps'' (PList []))) (\<lambda>raw.
            rbind (all_res (plan_step_from_dict env) raw) (\<lambda>steps.
              le_plan env (dget_or d ''plan_id'' (PStr (''plan_'' @ int_str secs))) steps
                (dget_or d ''estimated_tokens'' (PInt 1000)) (dget_or d ''fallback_strategy'' (PStr ''sequential''))))
      | _ \<Rightarrow> Inl AttributeError)"

definition call_planner :: "llm_env \<Rightarrow> rat \<Rightarrow> int \<Rightarrow> planner_section \<Rightarrow> string \<Rightarrow> route_decision \<Rightarrow> string list
    \<Rightarrow> prompt_cache \<Rightarrow> execution_plan res \<times> prompt_cache" where
  "call_planner env timeout_ms secs cfg query llm_decision kb_ids cache =
     (case render_prompt (le_files env) (le_other env) ''planner'' (entry (pl_prompt_version cfg) ''v1'')
             [(''query'', query), (''context'', le_repr env (plan_context llm_decision)),
              (''kb_metadata'', kb_metadata kb_ids)] cache of
        (prompt, cache') \<Rightarrow>
          (rbind (ask_model env (timeout_ms / 1000) (entry (pl_tenant_id cfg) []) (entry (pl_model_id cfg) ''qwen3.6-27b'')
                    PLANNER_SYSTEM_PROMPT prompt) (plan_of env secs), cache'))"

definition determine_target :: "execution_plan \<Rightarrow> string" where
  "determine_target plan =
     (case remdups (map ps_tool (ep_steps plan)) of
        [] \<Rightarrow> ''chitchat''
      | [tool] \<Rightarrow> tool
      | _ \<Rightarrow> ''hybrid'')"

definition step_kb_ids :: "plan_step \<Rightarrow> string list" where
  "step_kb_ids s =
     (if ps_tool s \<noteq> ''rag'' then []
      else
        (case dget (ps_args s) ''kb_ids'' of
           PList xs \<Rightarrow> concat (map (\<lambda>v. case v of PStr k \<Rightarrow> [k] | _ \<Rightarrow> []) xs)
         | _ \<Rightarrow> []))"

text \<open>\<open>list(dict.fromkeys(xs))\<close>: the first occurrences.\<close>

definition from_keys :: "string list \<Rightarrow> string list" where
  "from_keys xs = rev (remdups (rev xs))"

definition plan_kb_ids :: "execution_plan \<Rightarrow> string list" where
  "plan_kb_ids plan = from_keys (concat (map step_kb_ids (ep_steps plan)))"

record planner =
  pn_config :: nat
  pn_timeout_ms :: rat

definition init_planner :: "nat \<Rightarrow> sections \<Rightarrow> planner" where
  "init_planner ref c = \<lparr>pn_config = ref, pn_timeout_ms = entry (pl_timeout_ms (planner_of c)) 5000\<rparr>"

definition flagged :: "string \<Rightarrow> route_decision \<Rightarrow> route_decision" where
  "flagged k d = d\<lparr>rd_metadata := dset (rd_metadata d) k (PBool True)\<rparr>"

definition plan_reason :: "execution_plan \<Rightarrow> string" where
  "plan_reason plan =
     ''Planner '' @ uni [0x751F, 0x6210, 0x6267, 0x884C, 0x8BA1, 0x5212] @ '': '' @ int_str (int (length (ep_steps plan)))
     @ '' '' @ uni [0x4E2A, 0x6B65, 0x9AA4]"

text \<open>\<open>Planner.plan\<close>: only the call is guarded; the decision is built outside of the \<open>try\<close>.\<close>

definition planner_plan :: "llm_env \<Rightarrow> sections \<Rightarrow> int \<Rightarrow> string \<Rightarrow> route_decision \<Rightarrow> string list \<Rightarrow> planner
    \<Rightarrow> prompt_cache \<Rightarrow> route_decision res \<times> prompt_cache" where
  "planner_plan env cfg secs query llm_decision kb_ids pl cache =
     (case call_planner env (pn_timeout_ms pl) secs (planner_of cfg) query llm_decision kb_ids cache of
        (Inl TimeoutError, cache') \<Rightarrow> (Inr (flagged ''planner_timeout'' llm_decision), cache')
      | (Inl _, cache') \<Rightarrow> (Inr (flagged ''planner_failed'' llm_decision), cache')
      | (Inr plan, cache') \<Rightarrow>
          (le_decision env (determine_target plan) (PFloat (rd_confidence llm_decision)) ''planner''
             (PStr (plan_reason plan)) (PStr ''complex'')
             (PList (map PStr (plan_kb_ids plan)))
             [(''plan'', le_dump env plan),
              (''sub_intents'', dget_or (rd_metadata llm_decision) ''sub_intents'' (PList [])),
              (''entities'', dget_or (rd_metadata llm_decision) ''entities'' (PDict []))], cache'))"

section \<open>The breaker opens exactly after its threshold\<close>

datatype breaker_op = Fail rat | Succeed | Ask rat

fun apply_breaker :: "circuit_breaker \<Rightarrow> breaker_op \<Rightarrow> circuit_breaker" where
  "apply_breaker cb (Fail t) = record_failure t cb"
| "apply_breaker cb Succeed = record_success cb"
| "apply_breaker cb (Ask t) = snd (can_execute t cb)"

definition breaker_inv :: "int \<Rightarrow> rat \<Rightarrow> circuit_breaker \<Rightarrow> bool" where
  "breaker_inv n w cb \<longleftrightarrow>
     cb_failure_threshold cb = n \<and> cb_recovery_timeout_s cb = w \<and> 0 \<le> cb_failure_count cb
     \<and> (0 < n \<longrightarrow> (cb_is_open cb \<longleftrightarrow> n \<le> cb_failure_count cb))"

lemmas breaker_defs = record_failure_def record_success_def can_execute_def init_breaker_def Let_def

interpretation breaker: step_machine apply_breaker "breaker_inv n w" for n w
proof
  fix cb x
  assume "breaker_inv n w cb"
  then show "breaker_inv n w (apply_breaker cb x)"
    by (cases x) (auto simp: breaker_inv_def breaker_defs)
qed

lemma run_failures:
  "cb_failure_count (run_ops apply_breaker cb (map Fail ts)) = cb_failure_count cb + int (length ts)"
  "cb_last_failure_time (run_ops apply_breaker cb (map Fail ts)) = last (cb_last_failure_time cb # ts)"
  by (induction ts arbitrary: cb) (auto simp: breaker_defs)

lemma breaker_open_iff:
  assumes "0 < n"
  shows "cb_is_open (run_ops apply_breaker (init_breaker n w) xs)
    \<longleftrightarrow> n \<le> cb_failure_count (run_ops apply_breaker (init_breaker n w) xs)"
proof -
  have "breaker_inv n w (init_breaker n w)" by (simp add: breaker_inv_def breaker_defs)
  then have "breaker_inv n w (run_ops apply_breaker (init_breaker n w) xs)" by (rule breaker.inv_run)
  with assms show ?thesis by (simp add: breaker_inv_def)
qed

lemma breaker_timeout: "cb_recovery_timeout_s (run_ops apply_breaker (init_breaker n w) xs) = w"
proof -
  have "breaker_inv n w (init_breaker n w)" by (simp add: breaker_inv_def breaker_defs)
  then have "breaker_inv n w (run_ops apply_breaker (init_breaker n w) xs)" by (rule breaker.inv_run)
  then show ?thesis by (simp add: breaker_inv_def)
qed

text \<open>A breaker after any history, a success and failures at the times \<open>ts\<close>.\<close>

definition breaker_after :: "int \<Rightarrow> rat \<Rightarrow> breaker_op list \<Rightarrow> rat list \<Rightarrow> circuit_breaker" where
  "breaker_after n w xs ts = run_ops apply_breaker (init_breaker n w) (xs @ Succeed # map Fail ts)"

text \<open>The breaker is open exactly after as many failures in a row as its threshold says. After any
  history, a success and further failures it is open if and only if there were at least \<open>n\<close> of them, and
  then it refuses a call until the recovery time has passed since the last one; otherwise it grants every
  call.\<close>

theorem breaker_opens_exactly:
  assumes "0 < n"
  shows "(cb_is_open (breaker_after n w xs ts) \<longleftrightarrow> n \<le> int (length ts))
    \<and> (fst (can_execute now (breaker_after n w xs ts)) \<longleftrightarrow> int (length ts) < n \<or> w < now - last ts)"
proof -
  let ?cb = "breaker_after n w xs ts"
  have count: "cb_failure_count ?cb = int (length ts)"
    by (simp add: breaker_after_def run_ops_append run_failures breaker_defs)
  have op: "cb_is_open ?cb \<longleftrightarrow> n \<le> int (length ts)"
    using breaker_open_iff [OF assms, of w "xs @ Succeed # map Fail ts"] count by (simp add: breaker_after_def)
  have w: "cb_recovery_timeout_s ?cb = w" by (simp add: breaker_after_def breaker_timeout)
  have "n \<le> int (length ts) \<Longrightarrow> cb_last_failure_time ?cb = last ts"
    using assms by (cases ts) (simp_all add: breaker_after_def run_ops_append run_failures breaker_defs)
  then show ?thesis using op w by (auto simp: can_execute_def)
qed

theorem breaker_opens_exactly_witness:
  "cb_is_open (breaker_after 3 60 [Fail 1, Fail 2] [5, 6, 7]) \<and> \<not> fst (can_execute 20 (breaker_after 3 60 [Fail 1, Fail 2] [5, 6, 7]))
   \<and> fst (can_execute 70 (breaker_after 3 60 [Fail 1, Fail 2] [5, 6, 7]))"
  using breaker_opens_exactly [of 3 60 "[Fail 1, Fail 2]" "[5, 6, 7]" 20]
    breaker_opens_exactly [of 3 60 "[Fail 1, Fail 2]" "[5, 6, 7]" 70] by simp

section \<open>Answers that cannot be parsed never open it\<close>

datatype call_outcome = Failed | Malformed | Answered route_decision

definition outcome_of :: "llm_env \<Rightarrow> sections \<Rightarrow> llm_router \<Rightarrow> string \<Rightarrow> string list \<Rightarrow> prompt_cache \<Rightarrow> call_outcome" where
  "outcome_of env cfg r query kb_ids cache =
     (case fst (call_llm env (lr_timeout_ms r) (llm_of cfg) query kb_ids cache) of
        Inl _ \<Rightarrow> Failed
      | Inr v \<Rightarrow> (case parse_llm_result env v of Inl _ \<Rightarrow> Malformed | Inr d \<Rightarrow> Answered d))"

record llm_request =
  lq_now :: rat
  lq_later :: rat
  lq_query :: string
  lq_rule :: route_decision
  lq_kb_ids :: "string list"

text \<open>A sequence of requests to one router, with the outcome of each call of the model.\<close>

fun route_all :: "llm_env \<Rightarrow> sections \<Rightarrow> llm_router \<Rightarrow> prompt_cache \<Rightarrow> llm_request list
    \<Rightarrow> (call_outcome \<times> route_decision) list \<times> llm_router" where
  "route_all env cfg r cache [] = ([], r)"
| "route_all env cfg r cache (q # qs) =
     (case llm_router_route env cfg (lq_now q) (lq_later q) (lq_query q) (lq_rule q) (lq_kb_ids q) r cache of
        (d, r', cache') \<Rightarrow>
          (case route_all env cfg r' cache' qs of
             (ds, r'') \<Rightarrow> ((outcome_of env cfg r (lq_query q) (lq_kb_ids q) cache, d) # ds, r'')))"

lemma route_breaker:
  assumes "\<not> cb_is_open (lr_breaker r)"
  shows "\<exists>cache'. llm_router_route env cfg now later query rule kb_ids r cache =
    (case outcome_of env cfg r query kb_ids cache of
       Failed \<Rightarrow> (rule, r\<lparr>lr_breaker := record_failure later (lr_breaker r)\<rparr>, cache')
     | Malformed \<Rightarrow> (rule, r\<lparr>lr_breaker := record_failure later (record_success (lr_breaker r))\<rparr>, cache')
     | Answered d \<Rightarrow> (label_decision r d, r\<lparr>lr_breaker := record_success (lr_breaker r)\<rparr>, cache'))"
  using assms
  by (auto simp: llm_router_route_def outcome_of_def can_execute_def Let_def split: prod.splits sum.splits)

definition settled_decision :: "llm_router \<Rightarrow> route_decision \<Rightarrow> call_outcome \<Rightarrow> route_decision" where
  "settled_decision r rule oc = (case oc of Answered d \<Rightarrow> label_decision r d | _ \<Rightarrow> rule)"

lemma label_decision_breaker [simp]: "label_decision (r\<lparr>lr_breaker := cb\<rparr>) d = label_decision r d"
  by (simp add: label_decision_def)

text \<open>C15: Answers that cannot be parsed never open the breaker. The success of a call is recorded before
  its answer is parsed, so for a threshold of at least two a router whose calls of the model all return
  stays closed for ever and asks the model for every request, even if no answer ever parses; a request
  without a parsed answer keeps the decision of the rules. (The breaker is meant to count such answers as
  failures: \<open>record_failure\<close> is called for them.)\<close>

theorem malformed_answers_never_open:
  assumes "2 \<le> cb_failure_threshold (lr_breaker r)" "\<not> cb_is_open (lr_breaker r)"
    and "\<forall>x \<in> set (fst (route_all env cfg r cache qs)). fst x \<noteq> Failed"
  shows "\<not> cb_is_open (lr_breaker (snd (route_all env cfg r cache qs)))
    \<and> map snd (fst (route_all env cfg r cache qs)) =
      map2 (\<lambda>q x. settled_decision r (lq_rule q) (fst x)) qs (fst (route_all env cfg r cache qs))"
  using assms
proof (induction qs arbitrary: r cache)
  case Nil
  then show ?case by simp
next
  case (Cons q qs)
  let ?oc = "outcome_of env cfg r (lq_query q) (lq_kb_ids q) cache"
  obtain cache' where route: "llm_router_route env cfg (lq_now q) (lq_later q) (lq_query q) (lq_rule q) (lq_kb_ids q) r cache =
    (case ?oc of
       Failed \<Rightarrow> (lq_rule q, r\<lparr>lr_breaker := record_failure (lq_later q) (lr_breaker r)\<rparr>, cache')
     | Malformed \<Rightarrow> (lq_rule q, r\<lparr>lr_breaker := record_failure (lq_later q) (record_success (lr_breaker r))\<rparr>, cache')
     | Answered d \<Rightarrow> (label_decision r d, r\<lparr>lr_breaker := record_success (lr_breaker r)\<rparr>, cache'))"
    using route_breaker [OF Cons.prems(2)] by blast
  have ne: "?oc \<noteq> Failed" using Cons.prems(3) by (simp split: prod.splits)
  define r' where "r' = r\<lparr>lr_breaker := (if ?oc = Malformed then record_failure (lq_later q) (record_success (lr_breaker r))
    else record_success (lr_breaker r))\<rparr>"
  have step: "route_all env cfg r cache (q # qs) =
      ((?oc, settled_decision r (lq_rule q) ?oc) # fst (route_all env cfg r' cache' qs), snd (route_all env cfg r' cache' qs))"
    using ne by (cases ?oc) (simp_all add: route r'_def settled_decision_def split: prod.splits)
  have closed: "2 \<le> cb_failure_threshold (lr_breaker r')" "\<not> cb_is_open (lr_breaker r')"
    using Cons.prems(1) by (simp_all add: r'_def breaker_defs)
  have "settled_decision r' = settled_decision r"
    by (intro ext) (simp add: r'_def settled_decision_def split: call_outcome.split)
  with Cons.IH [OF closed, of cache'] Cons.prems(3) show ?case by (simp add: step del: route_all.simps)
qed

section \<open>Decisions of the model\<close>

text \<open>What the code relies on of pydantic: a constructed decision satisfies the constraints and has the
  fields it was built from.\<close>

definition constructs_valid :: "llm_env \<Rightarrow> bool" where
  "constructs_valid env \<longleftrightarrow>
     (\<forall>t c src rs cx kb m d. le_decision env t c src rs cx kb m = Inr d \<longrightarrow>
        valid_decision d \<and> rd_target d = t \<and> rd_source d = src \<and> rd_metadata d = m)"

lemma parsed_decision:
  assumes "parse_llm_result env v = Inr d" and "constructs_valid env"
  shows "valid_decision d \<and> rd_source d = ''llm'' \<and> rd_target d \<in> set LLM_TARGETS"
  using assms
  by (fastforce simp: parse_llm_result_def constructs_valid_def target_of_intent_def rbind_eq_Inr_iff LLM_TARGETS_def
        split: pyval.splits if_splits)

lemma label_decision_fields [simp]:
  "rd_target (label_decision r d) = rd_target d" "rd_source (label_decision r d) = rd_source d"
  "rd_confidence (label_decision r d) = rd_confidence d" "valid_decision (label_decision r d) = valid_decision d"
  by (simp_all add: label_decision_def valid_decision_def)

lemma dget_dset [simp]: "dget (dset m k v) k = v"
  by (induction m) (auto simp: dget_or_def)

text \<open>What the semantic router decides. The result is the decision of the rules, or a valid decision of
  the model for one of its six targets (the knowledge graph is not among them), and a decision of the
  model below both thresholds asks for clarification.\<close>

theorem llm_decision_sound:
  assumes "constructs_valid env"
    and "llm_router_route env cfg now later query rule kb_ids r cache = (d, r', cache')"
  shows "d = rule \<or> valid_decision d \<and> rd_source d = ''llm'' \<and> rd_target d \<in> set LLM_TARGETS \<and> rd_target d \<noteq> ''graph''
    \<and> (rd_confidence d < lr_direct_adopt r \<and> rd_confidence d < lr_needs_clarification r
       \<longrightarrow> truthy (dget (rd_metadata d) ''needs_clarification''))"
proof (cases "d = rule")
  case False
  with assms(2) obtain v e where "parse_llm_result env v = Inr e" "d = label_decision r e"
    by (auto simp: llm_router_route_def Let_def split: prod.splits bool.splits sum.splits)
  with parsed_decision [OF this(1) assms(1)] show ?thesis
    by (auto simp: LLM_TARGETS_def label_decision_def valid_decision_def)
qed simp

section \<open>Plans\<close>

text \<open>The documented behaviour of the constructor: it accepts exactly the decisions that satisfy the
  constraints.\<close>

definition accepts_valid :: "llm_env \<Rightarrow> bool" where
  "accepts_valid env \<longleftrightarrow>
     (\<forall>t c src rs cx kb m. t \<in> set ROUTE_TARGETS \<and> 0 \<le> c \<and> c \<le> 1 \<and> src \<in> set ROUTE_SOURCES \<and> cx \<in> set ROUTE_COMPLEXITIES
        \<longleftrightarrow> (\<exists>d. le_decision env t (PFloat c) src (PStr rs) (PStr cx) (PList (map PStr kb)) m = Inr d))"

definition PLAN_TOOLS :: "string list" where
  "PLAN_TOOLS = [''rag'', ''database'', ''web'', ''rest'', ''report'', ''graph'']"

lemma determine_target_cases:
  assumes "\<forall>s \<in> set (ep_steps plan). ps_tool s \<in> set PLAN_TOOLS"
  shows "determine_target plan \<in> set ROUTE_TARGETS \<longleftrightarrow> \<not> (ep_steps plan \<noteq> [] \<and> (\<forall>s \<in> set (ep_steps plan). ps_tool s = ''report''))"
proof (cases "remdups (map ps_tool (ep_steps plan))")
  case Nil
  then show ?thesis by (simp add: determine_target_def ROUTE_TARGETS_def)
next
  case (Cons t ts)
  show ?thesis
  proof (cases ts)
    case Nil
    with Cons have eq: "ps_tool ` set (ep_steps plan) = {t}"
      using set_remdups [of "map ps_tool (ep_steps plan)"] by simp
    then have "t \<in> ps_tool ` set (ep_steps plan)" by simp
    then have "t \<in> set PLAN_TOOLS" using assms by auto
    then have "t \<in> set ROUTE_TARGETS \<longleftrightarrow> t \<noteq> ''report''" by (auto simp: ROUTE_TARGETS_def PLAN_TOOLS_def)
    moreover have "ep_steps plan \<noteq> []" using eq by auto
    moreover have "(\<forall>s \<in> set (ep_steps plan). ps_tool s = ''report'') \<longleftrightarrow> t = ''report''" using eq by auto
    moreover have "determine_target plan = t" using Cons Nil by (simp add: determine_target_def)
    ultimately show ?thesis by simp
  next
    case (Cons t' us)
    with \<open>remdups (map ps_tool (ep_steps plan)) = t # ts\<close>
    have rd: "remdups (map ps_tool (ep_steps plan)) = t # t' # us" by simp
    then have neq: "t \<noteq> t'" using distinct_remdups [of "map ps_tool (ep_steps plan)"] by auto
    have sub: "{t, t'} \<subseteq> ps_tool ` set (ep_steps plan)"
      using set_remdups [of "map ps_tool (ep_steps plan)"] rd by auto
    have "\<not> (\<forall>s \<in> set (ep_steps plan). ps_tool s = ''report'')"
    proof
      assume "\<forall>s \<in> set (ep_steps plan). ps_tool s = ''report''"
      then have "ps_tool ` set (ep_steps plan) \<subseteq> {''report''}" by auto
      with sub have "{t, t'} \<subseteq> {''report''}" by (rule subset_trans)
      with neq show False by simp
    qed
    then show ?thesis using rd by (simp add: determine_target_def ROUTE_TARGETS_def)
  qed
qed

text \<open>C18: how planning ends. A failed or late call of the model never raises: the decision of the semantic
  router is returned, unchanged but for the flag \<open>planner_timeout\<close> or \<open>planner_failed\<close> in its metadata. With
  a plan whose steps use the known tools the planner raises exactly if the plan has steps and all of them
  are reports, since the decision is built with the single tool as its target, outside of the guarded
  part, and \<open>report\<close> is no target.\<close>

theorem planner_raises_exactly:
  assumes "accepts_valid env" and "0 \<le> rd_confidence d" "rd_confidence d \<le> 1"
    and "\<forall>plan. fst (call_planner env (pn_timeout_ms pl) secs (planner_of cfg) query d kb_ids cache) = Inr plan
           \<longrightarrow> (\<forall>s \<in> set (ep_steps plan). ps_tool s \<in> set PLAN_TOOLS)"
  shows "((\<exists>e. fst (planner_plan env cfg secs query d kb_ids pl cache) = Inl e) \<longleftrightarrow>
      (\<exists>plan. fst (call_planner env (pn_timeout_ms pl) secs (planner_of cfg) query d kb_ids cache) = Inr plan
         \<and> ep_steps plan \<noteq> [] \<and> (\<forall>s \<in> set (ep_steps plan). ps_tool s = ''report'')))
    \<and> (\<forall>e. fst (call_planner env (pn_timeout_ms pl) secs (planner_of cfg) query d kb_ids cache) = Inl e \<longrightarrow>
        fst (planner_plan env cfg secs query d kb_ids pl cache) =
          Inr (d\<lparr>rd_metadata := dset (rd_metadata d)
                 (if e = TimeoutError then ''planner_timeout'' else ''planner_failed'') (PBool True)\<rparr>))"
proof (cases "call_planner env (pn_timeout_ms pl) secs (planner_of cfg) query d kb_ids cache")
  case (Pair oc c)
  show ?thesis
  proof (cases oc)
    case (Inl e)
    with Pair show ?thesis by (cases e) (simp_all add: planner_plan_def flagged_def)
  next
    case (Inr plan)
    have "(\<exists>x. le_decision env (determine_target plan) (PFloat (rd_confidence d)) ''planner'' (PStr (plan_reason plan)) (PStr ''complex'')
        (PList (map PStr (plan_kb_ids plan)))
        [(''plan'', le_dump env plan), (''sub_intents'', dget_or (rd_metadata d) ''sub_intents'' (PList [])),
         (''entities'', dget_or (rd_metadata d) ''entities'' (PDict []))] = Inr x) \<longleftrightarrow> determine_target plan \<in> set ROUTE_TARGETS"
      using assms(1-3) unfolding accepts_valid_def by (auto simp: ROUTE_SOURCES_def ROUTE_COMPLEXITIES_def)
    moreover have "(\<exists>e. r = Inl e) \<longleftrightarrow> \<not> (\<exists>x. r = Inr x)" for r :: "route_decision res"
      by (cases r) auto
    ultimately show ?thesis
      using determine_target_cases [of plan] assms(4) Pair Inr by (simp add: planner_plan_def) blast
  qed
qed

section \<open>What the model is asked\<close>

lemma cache_keys_differ: "cache_key ''intent_router'' v \<noteq> cache_key ''planner'' w"
  by (simp add: cache_key_def)

lemma defaults_kept:
  assumes "\<forall>t. files (cache_key ''intent_router'' v @ ''.txt'') \<noteq> Inr (Some t)"
    and "\<forall>t. files (cache_key ''planner'' w @ ''.txt'') \<noteq> Inr (Some t)"
    and "ClearCache \<notin> set ops"
    and "cache = run_ops apply_prompt_op (snd (load_prompt files ''planner'' w (snd (load_prompt files ''intent_router'' v [])))) ops"
  shows "map_of cache (cache_key ''intent_router'' v) = Some INTENT_TEMPLATE"
    and "map_of cache (cache_key ''planner'' w) = Some PLAN_TEMPLATE"
proof -
  let ?one = "snd (load_prompt files ''intent_router'' v [])"
  have "map_of ?one (cache_key ''intent_router'' v) = Some INTENT_TEMPLATE"
    using load_unreadable [of files "''intent_router''" v "[]"] assms(1) by (simp add: get_default_template_def)
  then show "map_of cache (cache_key ''intent_router'' v) = Some INTENT_TEMPLATE"
    unfolding assms(4) by (intro ops_keep [OF load_keeps] assms(3))
  have "map_of ?one (cache_key ''planner'' w) = None"
    by (simp add: load_prompt_def Let_def cache_keys_differ [symmetric])
  with load_unreadable [of files "''planner''" w ?one] assms(2)
  have "map_of (snd (load_prompt files ''planner'' w ?one)) (cache_key ''planner'' w) = Some PLAN_TEMPLATE"
    by (simp add: get_default_template_def)
  then show "map_of cache (cache_key ''planner'' w) = Some PLAN_TEMPLATE"
    unfolding assms(4) by (intro ops_keep assms(3))
qed

text \<open>C19: what the models are asked. After the two templates were loaded while their files could not be read,
  and until the cache is cleared, whatever else the manager loads and whatever the files hold by then, the
  semantic router and the planner send the built-in prompts: the fixed texts with the question, the
  context and the knowledge bases inserted as they are in their places, so a question with braces of its
  own neither fails nor addresses another field. They are sent within the time limit in seconds and with
  the tenant, the model and the system prompt of the configuration; of the planner's answer the plan is
  read.\<close>

theorem model_gets_the_exact_prompt:
  assumes "\<forall>t. files0 (cache_key ''intent_router'' (entry (ls_prompt_version lcfg) ''v1'') @ ''.txt'') \<noteq> Inr (Some t)"
    and "\<forall>t. files0 (cache_key ''planner'' (entry (pl_prompt_version pcfg) ''v1'') @ ''.txt'') \<noteq> Inr (Some t)"
    and "ClearCache \<notin> set ops"
    and "cache = run_ops apply_prompt_op (snd (load_prompt files0 ''planner'' (entry (pl_prompt_version pcfg) ''v1'')
           (snd (load_prompt files0 ''intent_router'' (entry (ls_prompt_version lcfg) ''v1'') [])))) ops"
  shows "fst (call_llm env timeout_ms lcfg query kb_ids cache) =
      ask_model env (timeout_ms / 1000) (entry (ls_tenant_id lcfg) []) (entry (ls_model_id lcfg) ''qwen3.5-9b'')
        LLM_SYSTEM_PROMPT (Inr (intent_text query (kb_metadata kb_ids)))
    \<and> fst (call_planner env timeout_ms secs pcfg query d kb_ids cache) =
      rbind (ask_model env (timeout_ms / 1000) (entry (pl_tenant_id pcfg) []) (entry (pl_model_id pcfg) ''qwen3.6-27b'')
        PLANNER_SYSTEM_PROMPT (Inr (plan_text query (le_repr env (plan_context d)) (kb_metadata kb_ids)))) (plan_of env secs)"
proof
  note kept = defaults_kept [OF assms]
  show "fst (call_llm env timeout_ms lcfg query kb_ids cache) =
      ask_model env (timeout_ms / 1000) (entry (ls_tenant_id lcfg) []) (entry (ls_model_id lcfg) ''qwen3.5-9b'')
        LLM_SYSTEM_PROMPT (Inr (intent_text query (kb_metadata kb_ids)))"
    by (simp add: call_llm_def case_prod_beta render_kept [OF kept(1)] intent_filled)
  show "fst (call_planner env timeout_ms secs pcfg query d kb_ids cache) =
      rbind (ask_model env (timeout_ms / 1000) (entry (pl_tenant_id pcfg) []) (entry (pl_model_id pcfg) ''qwen3.6-27b'')
        PLANNER_SYSTEM_PROMPT (Inr (plan_text query (le_repr env (plan_context d)) (kb_metadata kb_ids)))) (plan_of env secs)"
    by (simp add: call_planner_def case_prod_beta render_kept [OF kept(2)] plan_filled)
qed

section \<open>Concrete runs\<close>

text \<open>An environment whose model always gives the same answer, with constructors that check the
  constraints.\<close>

definition sample_decision :: "string \<Rightarrow> pyval \<Rightarrow> string \<Rightarrow> pyval \<Rightarrow> pyval \<Rightarrow> pyval \<Rightarrow> pdict \<Rightarrow> route_decision res" where
  "sample_decision t c src rs cx kb m =
     (case (c, cx) of
        (PFloat x, PStr y) \<Rightarrow>
          (let d = \<lparr>rd_target = t, rd_confidence = x, rd_source = src, rd_reason = Msg [] [rs], rd_complexity = y,
                    rd_kb_ids = [], rd_metadata = m\<rparr>
           in if valid_decision d then Inr d else Inl ValueError)
      | _ \<Rightarrow> Inl ValueError)"

definition sample_step :: "pyval \<Rightarrow> pyval \<Rightarrow> pdict \<Rightarrow> pyval \<Rightarrow> pyval \<Rightarrow> pyval \<Rightarrow> plan_step res" where
  "sample_step i t a deps par des =
     (case (i, t) of
        (PStr i', PStr t') \<Rightarrow>
          if t' \<in> set PLAN_TOOLS
          then Inr \<lparr>ps_step_id = i', ps_tool = t', ps_args = a, ps_depends_on = [], ps_can_parallel = False, ps_description = []\<rparr>
          else Inl ValueError
      | _ \<Rightarrow> Inl ValueError)"

definition sample_env :: "pyval \<Rightarrow> llm_env" where
  "sample_env v =
     \<lparr>le_files = \<lambda>_. Inr (Some ''{query}''), le_other = \<lambda>_. Inl ValueError, le_chat = \<lambda>_ _ _ _ _. Inr ''{}'',
      le_repair = \<lambda>_. Inr v, le_repr = \<lambda>_. [], le_decision = sample_decision, le_step_args = Inr, le_step = sample_step,
      le_plan = \<lambda>i ss n f. Inr \<lparr>ep_plan_id = i, ep_steps = ss, ep_estimated_tokens = n, ep_fallback_strategy = f\<rparr>,
      le_dump = \<lambda>_. PDict []\<rparr>"

definition sample_rule :: route_decision where
  "sample_rule = rule_decision ''chitchat'' (1/2) NoMsg []"

definition sample_request :: "rat \<Rightarrow> llm_request" where
  "sample_request t = \<lparr>lq_now = t, lq_later = t, lq_query = ''q'', lq_rule = sample_rule, lq_kb_ids = []\<rparr>"

abbreviation sample_router :: llm_router where
  "sample_router \<equiv> init_llm_router 0 default_sections"

lemma sample_constructs: "constructs_valid (sample_env v)" "accepts_valid (sample_env v)"
  by (auto simp: constructs_valid_def accepts_valid_def sample_env_def sample_decision_def Let_def valid_decision_def
      split: pyval.splits if_splits)

theorem malformed_answers_never_open_witness:
  "\<not> cb_is_open (lr_breaker (snd (route_all (sample_env (PList [])) default_sections sample_router []
       (map sample_request [1, 2, 3, 4]))))
   \<and> map fst (fst (route_all (sample_env (PList [])) default_sections sample_router [] (map sample_request [1, 2, 3, 4])))
     = [Malformed, Malformed, Malformed, Malformed]"
proof -
  have fsts: "map fst (fst (route_all (sample_env (PList [])) default_sections sample_router [] (map sample_request [1, 2, 3, 4])))
     = [Malformed, Malformed, Malformed, Malformed]"
    by code_simp
  then have "\<forall>x \<in> set (fst (route_all (sample_env (PList [])) default_sections sample_router [] (map sample_request [1, 2, 3, 4]))).
      fst x \<noteq> Failed"
    by (metis (no_types, lifting) call_outcome.distinct(1) empty_iff image_eqI list.set(1) list.set(2) list.set_map insertE)
  moreover have "2 \<le> cb_failure_threshold (lr_breaker sample_router)" "\<not> cb_is_open (lr_breaker sample_router)"
    by code_simp+
  ultimately show ?thesis
    using malformed_answers_never_open [of sample_router "sample_env (PList [])" default_sections "[]"
        "map sample_request [1, 2, 3, 4]"] fsts by blast
qed

theorem llm_decision_sound_witness:
  "rd_target (fst (llm_router_route (sample_env (PDict [(''primary_intent'', PStr ''rag'')])) default_sections 0 0 ''q'' sample_rule []
     sample_router [])) \<in> set LLM_TARGETS"
proof -
  let ?x = "llm_router_route (sample_env (PDict [(''primary_intent'', PStr ''rag'')])) default_sections 0 0 ''q'' sample_rule []
     sample_router []"
  have "?x = (fst ?x, fst (snd ?x), snd (snd ?x))" by simp
  from llm_decision_sound [OF sample_constructs(1) this]
  have "fst ?x = sample_rule \<or> rd_target (fst ?x) \<in> set LLM_TARGETS" by blast
  moreover have "rd_target sample_rule \<in> set LLM_TARGETS" by code_simp
  ultimately show ?thesis by metis
qed

definition report_answer :: pyval where
  "report_answer = PDict [(''steps'', PList [PDict [(''step_id'', PStr ''s''), (''tool'', PStr ''report'')]])]"

theorem planner_raises_exactly_witness:
  "\<exists>e. fst (planner_plan (sample_env report_answer) default_sections 0 ''q'' sample_rule [] (init_planner 0 default_sections) []) = Inl e"
proof -
  let ?call = "call_planner (sample_env report_answer) (pn_timeout_ms (init_planner 0 default_sections)) 0
    (planner_of default_sections) ''q'' sample_rule [] []"
  let ?step = "\<lparr>ps_step_id = ''s'', ps_tool = ''report'', ps_args = [], ps_depends_on = [], ps_can_parallel = False, ps_description = []\<rparr>"
  have call: "fst ?call = Inr \<lparr>ep_plan_id = PStr ''plan_0'', ep_steps = [?step], ep_estimated_tokens = PInt 1000,
      ep_fallback_strategy = PStr ''sequential''\<rparr>" by code_simp
  have "0 \<le> rd_confidence sample_rule" "rd_confidence sample_rule \<le> 1" by (simp_all add: sample_rule_def rule_decision_def)
  moreover have "\<forall>plan. fst ?call = Inr plan \<longrightarrow> (\<forall>s \<in> set (ep_steps plan). ps_tool s \<in> set PLAN_TOOLS)"
    by (simp add: call PLAN_TOOLS_def)
  ultimately show ?thesis
    using planner_raises_exactly [of "sample_env report_answer" sample_rule "init_planner 0 default_sections" 0 default_sections
        "''q''" "[]" "[]"] by (simp add: call sample_constructs)
qed

text \<open>A model that repeats its prompt; the template files appear after the first use.\<close>

definition echo_env :: llm_env where
  "echo_env = (sample_env PNone)\<lparr>le_chat := \<lambda>_ _ _ _ p. Inr p, le_repair := \<lambda>s. Inr (PStr s)\<rparr>"

theorem model_gets_the_exact_prompt_witness:
  "fst (call_llm echo_env 500 empty_llm ''{x} {query}'' [''kb''] (run_ops apply_prompt_op
      (snd (load_prompt (\<lambda>_. Inr None) ''planner'' ''v1'' (snd (load_prompt (\<lambda>_. Inr None) ''intent_router'' ''v1'' []))))
      [LoadPrompt (\<lambda>_. Inr (Some ''{query}'')) ''intent_router'' ''v1'']))
   = Inr (PStr (intent_text ''{x} {query}'' (kb_metadata [''kb''])))"
proof -
  let ?files = "\<lambda>_. Inr None :: string option res"
  let ?ops = "[LoadPrompt (\<lambda>_. Inr (Some ''{query}'')) ''intent_router'' ''v1'']"
  let ?cache = "run_ops apply_prompt_op (snd (load_prompt ?files ''planner'' ''v1'' (snd (load_prompt ?files ''intent_router'' ''v1'' [])))) ?ops"
  have v: "entry (ls_prompt_version empty_llm) ''v1'' = ''v1''" "entry (pl_prompt_version empty_planner) ''v1'' = ''v1''"
    by code_simp+
  have mark: "\<not> starts_with ERROR_MARK (intent_text ''{x} {query}'' (kb_metadata [''kb'']))" by code_simp
  have "fst (call_llm echo_env 500 empty_llm ''{x} {query}'' [''kb''] ?cache) =
      ask_model echo_env (500 / 1000) (entry (ls_tenant_id empty_llm) []) (entry (ls_model_id empty_llm) ''qwen3.5-9b'')
        LLM_SYSTEM_PROMPT (Inr (intent_text ''{x} {query}'' (kb_metadata [''kb''])))"
    using model_gets_the_exact_prompt [of "\<lambda>_. Inr None" empty_llm empty_planner
        "[LoadPrompt (\<lambda>_. Inr (Some ''{query}'')) ''intent_router'' ''v1'']" ?cache echo_env 500 "''{x} {query}''" "[''kb'']"]
    by (simp only: v) simp
  also have "\<dots> = Inr (PStr (intent_text ''{x} {query}'' (kb_metadata [''kb''])))"
    using mark by (simp add: ask_model_def echo_env_def)
  finally show ?thesis .
qed

end
