(* ===== verification/Router_Process.thy ===== *)
theory Router_Process
  imports Llm_Router
begin

text \<open>
  The objects that the requests of one server process share in the router: the configuration cached by
  \<open>ConfigLoader\<close> (\<open>agent/langgraph/routers/config_loader.py\<close>), the singletons of the semantic router, the
  planner and the prompt manager, and the part of \<open>intent_router_node\<close> that writes the tenant of a request
  into the shared configuration. Configuration objects live in a store and are passed by reference. A
  schedule interleaves the steps of several requests at the points where the code awaits; the theorems
  say which tenant the gateway is asked for.
\<close>

section \<open>The process\<close>

text \<open>The configuration file: its time of modification and its contents, an error if it cannot be read.\<close>

type_synonym config_file = "(rat \<times> sections res) option"

record router_process =
  pr_configs :: "sections list"
  pr_loader :: "(rat \<times> nat) option"
  pr_prompts :: prompt_cache
  pr_llm :: "llm_router option"
  pr_planner :: "planner option"

definition init_process :: router_process where
  "init_process = \<lparr>pr_configs = [], pr_loader = None, pr_prompts = [], pr_llm = None, pr_planner = None\<rparr>"

definition new_config :: "sections \<Rightarrow> router_process \<Rightarrow> nat \<times> router_process" where
  "new_config c p = (length (pr_configs p), p\<lparr>pr_configs := pr_configs p @ [c]\<rparr>)"

definition read_config :: "rat \<Rightarrow> sections res \<Rightarrow> router_process \<Rightarrow> nat \<times> router_process" where
  "read_config mtime data p =
     (case data of
        Inl _ \<Rightarrow> new_config default_sections p
      | Inr c \<Rightarrow> (case new_config c p of (ref, p') \<Rightarrow> (ref, p'\<lparr>pr_loader := Some (mtime, ref)\<rparr>)))"

definition load_router_config :: "config_file \<Rightarrow> router_process \<Rightarrow> nat \<times> router_process" where
  "load_router_config file p =
     (case file of
        None \<Rightarrow> new_config default_sections p
      | Some (mtime, data) \<Rightarrow>
          (case pr_loader p of
             Some (m, ref) \<Rightarrow> if mtime = m then (ref, p) else read_config mtime data p
           | None \<Rightarrow> read_config mtime data p))"

definition reload_config :: "config_file \<Rightarrow> router_process \<Rightarrow> nat \<times> router_process" where
  "reload_config file p = load_router_config file (p\<lparr>pr_loader := map_option (\<lambda>(m, ref). (0, ref)) (pr_loader p)\<rparr>)"

text \<open>The start of the router node: the configuration is loaded and the tenant is written into it.\<close>

definition begin_request :: "config_file \<Rightarrow> string \<Rightarrow> router_process \<Rightarrow> nat \<times> router_process" where
  "begin_request file tenant p =
     (case load_router_config file p of
        (ref, p') \<Rightarrow> (ref, p'\<lparr>pr_configs := (pr_configs p')[ref := inject_tenant tenant (pr_configs p' ! ref)]\<rparr>))"

definition get_llm_router :: "nat \<Rightarrow> router_process \<Rightarrow> llm_router \<times> router_process" where
  "get_llm_router ref p =
     (case pr_llm p of
        Some r \<Rightarrow> (r, p)
      | None \<Rightarrow> (let r = init_llm_router ref (pr_configs p ! ref) in (r, p\<lparr>pr_llm := Some r\<rparr>)))"

definition get_planner :: "nat \<Rightarrow> router_process \<Rightarrow> planner \<times> router_process" where
  "get_planner ref p =
     (case pr_planner p of
        Some r \<Rightarrow> (r, p)
      | None \<Rightarrow> (let r = init_planner ref (pr_configs p ! ref) in (r, p\<lparr>pr_planner := Some r\<rparr>)))"

text \<open>The two layers as the node calls them: the singleton reads the configuration object it was built
  with.\<close>

definition llm_layer :: "llm_env \<Rightarrow> nat \<Rightarrow> llm_request \<Rightarrow> router_process \<Rightarrow> route_decision \<times> router_process" where
  "llm_layer env ref q p =
     (case get_llm_router ref p of
        (r, p') \<Rightarrow>
          (case llm_router_route env (pr_configs p' ! lr_config r) (lq_now q) (lq_later q) (lq_query q) (lq_rule q)
                  (lq_kb_ids q) r (pr_prompts p') of
             (d, r', cache) \<Rightarrow> (d, p'\<lparr>pr_llm := Some r', pr_prompts := cache\<rparr>)))"

definition planner_layer :: "llm_env \<Rightarrow> nat \<Rightarrow> int \<Rightarrow> string \<Rightarrow> route_decision \<Rightarrow> string list \<Rightarrow> router_process
    \<Rightarrow> route_decision res \<times> router_process" where
  "planner_layer env ref secs query d kb_ids p =
     (case get_planner ref p of
        (pl, p') \<Rightarrow>
          (case planner_plan env (pr_configs p' ! pn_config pl) secs query d kb_ids pl (pr_prompts p') of
             (r, cache) \<Rightarrow> (r, p'\<lparr>pr_prompts := cache\<rparr>)))"

text \<open>The tenant in the section that such a call hands to the gateway.\<close>

definition llm_tenant :: "nat \<Rightarrow> router_process \<Rightarrow> string" where
  "llm_tenant ref p =
     (case get_llm_router ref p of (r, p') \<Rightarrow> entry (ls_tenant_id (llm_of (pr_configs p' ! lr_config r))) [])"

definition planner_tenant :: "nat \<Rightarrow> router_process \<Rightarrow> string" where
  "planner_tenant ref p =
     (case get_planner ref p of (pl, p') \<Rightarrow> entry (pl_tenant_id (planner_of (pr_configs p' ! pn_config pl))) [])"

section \<open>Schedules\<close>

text \<open>A request starts with its tenant, and asks the semantic router and the planner later; the number is
  the position of the request among the started ones.\<close>

datatype request_step =
    Begin string
  | AskLlm nat llm_request
  | AskPlanner nat int string route_decision "string list"

record server =
  sv_process :: router_process
  sv_refs :: "nat list"
  sv_tenants :: "string list"
  sv_llm_calls :: "(nat \<times> string) list"
  sv_planner_calls :: "(nat \<times> string) list"

definition init_server :: server where
  "init_server = \<lparr>sv_process = init_process, sv_refs = [], sv_tenants = [], sv_llm_calls = [], sv_planner_calls = []\<rparr>"

fun server_step :: "llm_env \<Rightarrow> config_file \<Rightarrow> server \<Rightarrow> request_step \<Rightarrow> server" where
  "server_step env file s (Begin tenant) =
     (case begin_request file tenant (sv_process s) of
        (ref, p) \<Rightarrow> s\<lparr>sv_process := p, sv_refs := sv_refs s @ [ref], sv_tenants := sv_tenants s @ [tenant]\<rparr>)"
| "server_step env file s (AskLlm i q) =
     (if i < length (sv_refs s)
      then s\<lparr>sv_process := snd (llm_layer env (sv_refs s ! i) q (sv_process s)),
             sv_llm_calls := sv_llm_calls s @ [(i, llm_tenant (sv_refs s ! i) (sv_process s))]\<rparr>
      else s)"
| "server_step env file s (AskPlanner i secs query d kb_ids) =
     (if i < length (sv_refs s)
      then s\<lparr>sv_process := snd (planner_layer env (sv_refs s ! i) secs query d kb_ids (sv_process s)),
             sv_planner_calls := sv_planner_calls s @ [(i, planner_tenant (sv_refs s ! i) (sv_process s))]\<rparr>
      else s)"

section \<open>What a layer keeps\<close>

lemma route_keeps_config: "llm_router_route env cfg now later q rule kb r cache = (d, r', cache') \<Longrightarrow> lr_config r' = lr_config r"
  by (auto simp: llm_router_route_def Let_def split: prod.splits bool.splits sum.splits)

lemma llm_layer_process:
  "pr_configs (snd (llm_layer env ref q p)) = pr_configs p" "pr_loader (snd (llm_layer env ref q p)) = pr_loader p"
  "pr_planner (snd (llm_layer env ref q p)) = pr_planner p"
  by (auto simp: llm_layer_def get_llm_router_def Let_def split: prod.splits option.splits)

lemma llm_layer_router:
  "\<exists>r. pr_llm (snd (llm_layer env ref q p)) = Some r \<and> lr_config r = lr_config (fst (get_llm_router ref p))"
  by (auto simp: llm_layer_def split: prod.splits dest: route_keeps_config)

lemma planner_layer_process:
  "pr_configs (snd (planner_layer env ref secs query d kb p)) = pr_configs p"
  "pr_loader (snd (planner_layer env ref secs query d kb p)) = pr_loader p"
  "pr_llm (snd (planner_layer env ref secs query d kb p)) = pr_llm p"
  "pr_planner (snd (planner_layer env ref secs query d kb p)) = Some (fst (get_planner ref p))"
  by (auto simp: planner_layer_def get_planner_def Let_def split: prod.splits option.splits)

lemma router_config_cases:
  "lr_config (fst (get_llm_router ref p)) = (case pr_llm p of None \<Rightarrow> ref | Some r \<Rightarrow> lr_config r)"
  "pn_config (fst (get_planner ref p)) = (case pr_planner p of None \<Rightarrow> ref | Some r \<Rightarrow> pn_config r)"
  by (simp_all add: get_llm_router_def get_planner_def init_llm_router_def init_planner_def Let_def split: option.splits)

lemma tenant_cases:
  "llm_tenant ref p = entry (ls_tenant_id (llm_of (pr_configs p ! lr_config (fst (get_llm_router ref p))))) []"
  "planner_tenant ref p = entry (pl_tenant_id (planner_of (pr_configs p ! pn_config (fst (get_planner ref p))))) []"
  by (simp_all add: llm_tenant_def planner_tenant_def get_llm_router_def get_planner_def Let_def split: option.splits)

text \<open>The gateway is asked for this tenant only: another gateway that agrees on it gives the same result.\<close>

lemma layer_asks_for_tenant:
  assumes "\<forall>l m sys pr. chat l (llm_tenant ref p) m sys pr = le_chat env l (llm_tenant ref p) m sys pr"
  shows "llm_layer (env\<lparr>le_chat := chat\<rparr>) ref q p = llm_layer env ref q p"
proof -
  have ask: "ask_model (env\<lparr>le_chat := chat\<rparr>) l (llm_tenant ref p) m sys pr = ask_model env l (llm_tenant ref p) m sys pr" for l m sys pr
    using assms by (cases pr) (simp_all add: ask_model_def cong: if_cong)
  have parse: "parse_llm_result (env\<lparr>le_chat := chat\<rparr>) = parse_llm_result env"
    by (intro ext) (simp add: parse_llm_result_def split: pyval.split)
  obtain r p' where g: "get_llm_router ref p = (r, p')" by (cases "get_llm_router ref p")
  have cfg: "entry (ls_tenant_id (llm_of (pr_configs p' ! lr_config r))) [] = llm_tenant ref p"
    using g by (simp add: llm_tenant_def)
  have call: "call_llm (env\<lparr>le_chat := chat\<rparr>) t (llm_of (pr_configs p' ! lr_config r)) = call_llm env t (llm_of (pr_configs p' ! lr_config r))" for t
    by (intro ext) (simp add: call_llm_def cfg ask split: prod.split)
  show ?thesis
    unfolding llm_layer_def g llm_router_route_def prod.case by (simp only: call parse)
qed

section \<open>A stable configuration file\<close>

text \<open>Who asks, and the tenants that the calls of a schedule are made for if every call takes the tenant of
  the request that started last.\<close>

fun llm_caller :: "request_step \<Rightarrow> nat option" where
  "llm_caller (AskLlm i q) = Some i"
| "llm_caller _ = None"

fun planner_caller :: "request_step \<Rightarrow> nat option" where
  "planner_caller (AskPlanner i secs q d kb) = Some i"
| "planner_caller _ = None"

fun last_started :: "(request_step \<Rightarrow> nat option) \<Rightarrow> string \<Rightarrow> nat \<Rightarrow> request_step list \<Rightarrow> (nat \<times> string) list" where
  "last_started who t n [] = []"
| "last_started who t n (Begin u # ops) = last_started who (if u = [] then t else u) (Suc n) ops"
| "last_started who t n (x # ops) =
     (case who x of Some i \<Rightarrow> if i < n then [(i, t)] else [] | None \<Rightarrow> []) @ last_started who t n ops"

definition llm_entry :: "sections \<Rightarrow> string" where
  "llm_entry c = entry (ls_tenant_id (llm_of c)) []"

definition planner_entry :: "sections \<Rightarrow> string" where
  "planner_entry c = entry (pl_tenant_id (planner_of c)) []"

definition full_sections :: "sections \<Rightarrow> bool" where
  "full_sections c \<longleftrightarrow> sc_llm c \<noteq> None \<and> sc_planner c \<noteq> None"

lemma inject_entry:
  assumes "full_sections c"
  shows "llm_entry (inject_tenant t c) = (if t = [] then llm_entry c else t)"
    "planner_entry (inject_tenant t c) = (if t = [] then planner_entry c else t)"
    "full_sections (inject_tenant t c)"
  using assms by (auto simp: llm_entry_def planner_entry_def inject_tenant_def full_sections_def llm_of_def planner_of_def entry_def)

text \<open>The single configuration object of the process, once the first request has loaded it.\<close>

definition shares :: "rat \<Rightarrow> sections \<Rightarrow> server \<Rightarrow> bool" where
  "shares m c s \<longleftrightarrow>
     full_sections c \<and> set (sv_refs s) \<subseteq> {0}
     \<and> (case sv_refs s of
          [] \<Rightarrow> pr_configs (sv_process s) = [] \<and> pr_loader (sv_process s) = None
        | _ \<Rightarrow> pr_configs (sv_process s) = [c] \<and> pr_loader (sv_process s) = Some (m, 0))
     \<and> (\<forall>r. pr_llm (sv_process s) = Some r \<longrightarrow> lr_config r = 0)
     \<and> (\<forall>r. pr_planner (sv_process s) = Some r \<longrightarrow> pn_config r = 0)"

lemma shares_begin:
  assumes "shares m c s" "full_sections f" "sv_refs s = [] \<Longrightarrow> c = f"
  shows "shares m (inject_tenant t c) (server_step env (Some (m, Inr f)) s (Begin t))"
proof (cases "sv_refs s = []")
  case True
  with assms show ?thesis
    by (auto simp: shares_def begin_request_def load_router_config_def read_config_def new_config_def inject_entry)
next
  case False
  with assms(1) have "pr_configs (sv_process s) = [c]" "pr_loader (sv_process s) = Some (m, 0)"
    by (auto simp: shares_def split: list.splits)
  with assms False show ?thesis
    by (auto simp: shares_def begin_request_def load_router_config_def inject_entry split: list.splits)
qed

lemma shares_ask:
  assumes "shares m c s"
  shows "shares m c (server_step env file s (AskLlm i q))"
    "shares m c (server_step env file s (AskPlanner i secs query d kb))"
proof -
  have ref: "i < length (sv_refs s) \<Longrightarrow> sv_refs s ! i = 0"
    using assms nth_mem by (fastforce simp: shares_def)
  show "shares m c (server_step env file s (AskLlm i q))"
    using assms ref llm_layer_router [of env "sv_refs s ! i" q "sv_process s"]
    by (auto simp: shares_def llm_layer_process router_config_cases split: option.splits list.splits)
  show "shares m c (server_step env file s (AskPlanner i secs query d kb))"
    using assms ref by (auto simp: shares_def planner_layer_process router_config_cases split: option.splits list.splits)
qed

lemma shares_tenant:
  assumes "shares m c s" "i < length (sv_refs s)"
  shows "llm_tenant (sv_refs s ! i) (sv_process s) = llm_entry c" "planner_tenant (sv_refs s ! i) (sv_process s) = planner_entry c"
proof -
  have ref: "sv_refs s ! i = 0" using assms nth_mem by (fastforce simp: shares_def)
  have "pr_configs (sv_process s) = [c]" using assms by (auto simp: shares_def split: list.splits)
  with ref assms(1) show "llm_tenant (sv_refs s ! i) (sv_process s) = llm_entry c"
      "planner_tenant (sv_refs s ! i) (sv_process s) = planner_entry c"
    by (auto simp: tenant_cases router_config_cases llm_entry_def planner_entry_def shares_def split: option.splits)
qed

lemma shared_calls:
  assumes "shares m c s" "full_sections f" "sv_refs s = [] \<Longrightarrow> c = f"
  shows "sv_llm_calls (run_ops (server_step env (Some (m, Inr f))) s ops) =
      sv_llm_calls s @ last_started llm_caller (llm_entry c) (length (sv_refs s)) ops
    \<and> sv_planner_calls (run_ops (server_step env (Some (m, Inr f))) s ops) =
      sv_planner_calls s @ last_started planner_caller (planner_entry c) (length (sv_refs s)) ops"
  using assms
proof (induction ops arbitrary: c s)
  case Nil
  then show ?case by simp
next
  case (Cons x ops)
  show ?case
  proof (cases x)
    case (Begin t)
    let ?s = "server_step env (Some (m, Inr f)) s (Begin t)"
    have "shares m (inject_tenant t c) ?s" by (rule shares_begin [OF Cons.prems])
    moreover have "sv_refs ?s \<noteq> []" "length (sv_refs ?s) = Suc (length (sv_refs s))" "sv_llm_calls ?s = sv_llm_calls s"
      "sv_planner_calls ?s = sv_planner_calls s" by (simp_all split: prod.split)
    moreover have "full_sections c" using Cons.prems(1) by (simp add: shares_def)
    ultimately show ?thesis
      using Cons.IH [of "inject_tenant t c" ?s] Cons.prems(2) Begin by (simp add: inject_entry del: server_step.simps)
  next
    case (AskLlm i q)
    let ?s = "server_step env (Some (m, Inr f)) s (AskLlm i q)"
    have "shares m c ?s" by (rule shares_ask(1) [OF Cons.prems(1)])
    moreover have "sv_refs ?s = sv_refs s" "sv_planner_calls ?s = sv_planner_calls s"
      "sv_llm_calls ?s = sv_llm_calls s @ (if i < length (sv_refs s) then [(i, llm_entry c)] else [])"
      using shares_tenant(1) [OF Cons.prems(1)] by simp_all
    ultimately show ?thesis
      using Cons.IH [of c ?s] Cons.prems(2,3) AskLlm by (simp del: server_step.simps)
  next
    case (AskPlanner i secs query d kb)
    let ?s = "server_step env (Some (m, Inr f)) s (AskPlanner i secs query d kb)"
    have "shares m c ?s" by (rule shares_ask(2) [OF Cons.prems(1)])
    moreover have "sv_refs ?s = sv_refs s" "sv_llm_calls ?s = sv_llm_calls s"
      "sv_planner_calls ?s = sv_planner_calls s @ (if i < length (sv_refs s) then [(i, planner_entry c)] else [])"
      using shares_tenant(2) [OF Cons.prems(1)] by simp_all
    ultimately show ?thesis
      using Cons.IH [of c ?s] Cons.prems(2,3) AskPlanner by (simp del: server_step.simps)
  qed
qed

text \<open>C12: Which tenant a request of the router is made for, with a configuration file that does not change
  while the process runs. All requests share one configuration object, so every call of the semantic
  router and of the planner is made for the tenant of the request that started last with a tenant, which
  need not be the request that makes the call.\<close>

theorem calls_use_the_last_tenant:
  assumes "full_sections f"
  shows "sv_llm_calls (run_ops (server_step env (Some (m, Inr f))) init_server ops) = last_started llm_caller (llm_entry f) 0 ops
    \<and> sv_planner_calls (run_ops (server_step env (Some (m, Inr f))) init_server ops) = last_started planner_caller (planner_entry f) 0 ops"
proof -
  have "shares m f init_server" using assms by (simp add: shares_def init_server_def init_process_def)
  from shared_calls [OF this assms] show ?thesis by (simp add: init_server_def)
qed

theorem calls_use_the_last_tenant_witness:
  "sv_planner_calls (run_ops (server_step (sample_env report_answer) (Some (1, Inr default_sections))) init_server
     [Begin ''A'', AskLlm 0 (sample_request 1), Begin ''B'', AskPlanner 0 0 ''q'' sample_rule []]) = [(0, ''B'')]"
proof -
  have "full_sections default_sections" by (simp add: full_sections_def default_sections_def)
  from calls_use_the_last_tenant [OF this, of "sample_env report_answer" 1
      "[Begin ''A'', AskLlm 0 (sample_request 1), Begin ''B'', AskPlanner 0 0 ''q'' sample_rule []]"]
  show ?thesis by (simp del: run_ops.simps server_step.simps)
qed

section \<open>No configuration file\<close>

definition separate :: "server \<Rightarrow> bool" where
  "separate s \<longleftrightarrow>
     pr_configs (sv_process s) = map (\<lambda>t. inject_tenant t default_sections) (sv_tenants s)
     \<and> sv_refs s = [0..<length (sv_tenants s)] \<and> pr_loader (sv_process s) = None
     \<and> (case pr_llm (sv_process s) of
          None \<Rightarrow> sv_llm_calls s = []
        | Some r \<Rightarrow> lr_config r < length (sv_tenants s) \<and> sv_llm_calls s \<noteq> [] \<and> fst (hd (sv_llm_calls s)) = lr_config r
            \<and> map snd (sv_llm_calls s) = map (\<lambda>_. sv_tenants s ! lr_config r) (sv_llm_calls s))"

lemma default_full: "full_sections default_sections"
  by (simp add: full_sections_def default_sections_def)

lemma default_entry: "llm_entry (inject_tenant t default_sections) = t"
  using inject_entry(1) [OF default_full]
  by (simp add: llm_entry_def llm_of_def default_sections_def entry_def)

lemma separate_begin:
  assumes "separate s"
  shows "separate (server_step env None s (Begin t))"
  using assms
  by (auto simp: separate_def begin_request_def load_router_config_def new_config_def nth_append list_update_append split: option.splits)

lemma separate_tenant:
  assumes "separate s" "i < length (sv_tenants s)"
  shows "llm_tenant i (sv_process s) = sv_tenants s ! (case pr_llm (sv_process s) of None \<Rightarrow> i | Some r \<Rightarrow> lr_config r)"
  using assms default_entry
  by (auto simp: separate_def tenant_cases router_config_cases llm_entry_def split: option.splits)

lemma separate_ask_llm:
  assumes "separate s"
  shows "separate (server_step env None s (AskLlm i q))"
proof (cases "i < length (sv_refs s)")
  case True
  with assms have i: "i < length (sv_tenants s)" "sv_refs s ! i = i" by (auto simp: separate_def)
  obtain r where r: "pr_llm (snd (llm_layer env i q (sv_process s))) = Some r"
      "lr_config r = (case pr_llm (sv_process s) of None \<Rightarrow> i | Some r \<Rightarrow> lr_config r)"
    using llm_layer_router [of env i q "sv_process s"] by (auto simp: router_config_cases)
  show ?thesis
    using assms True i r separate_tenant [OF assms i(1)]
    by (auto simp: separate_def llm_layer_process split: option.splits)
qed (use assms in simp)

lemma separate_ask_planner:
  assumes "separate s"
  shows "separate (server_step env None s (AskPlanner i secs query d kb))"
  using assms by (auto simp: separate_def planner_layer_process split: option.splits)

interpretation separate_machine: step_machine "server_step env None" separate for env
proof
  fix s x
  assume "separate s"
  then show "separate (server_step env None s x)"
    by (cases x) (auto intro: separate_begin separate_ask_llm separate_ask_planner simp del: server_step.simps)
qed

definition run_without_file :: "llm_env \<Rightarrow> request_step list \<Rightarrow> server" where
  "run_without_file env ops = run_ops (server_step env None) init_server ops"

text \<open>Which tenant a request is made for without a configuration file. Every request then has a
  configuration object of its own, but the semantic router is built with that of the first request that
  reaches it and is kept: all calls of the model, of whatever request, are made for the tenant of that
  first request.\<close>

theorem first_tenant_pays:
  "map snd (sv_llm_calls (run_without_file env ops)) =
   map (\<lambda>_. sv_tenants (run_without_file env ops) ! fst (hd (sv_llm_calls (run_without_file env ops))))
     (sv_llm_calls (run_without_file env ops))"
proof -
  have "separate init_server" by (simp add: separate_def init_server_def init_process_def)
  then have "separate (run_without_file env ops)" unfolding run_without_file_def by (rule separate_machine.inv_run)
  then show ?thesis by (auto simp: separate_def split: option.splits)
qed

section \<open>The whole router\<close>

text \<open>The router node over all its layers, for a request whose configuration object is \<open>ref\<close>, with the
  process as it is when the semantic router (\<open>p\<close>) and the planner (\<open>p'\<close>) are asked.\<close>

definition full_router :: "unicode \<Rightarrow> router_config \<Rightarrow> llm_env \<Rightarrow> rat \<Rightarrow> rat \<Rightarrow> int \<Rightarrow> nat \<Rightarrow> router_process \<Rightarrow> router_process
    \<Rightarrow> router_env \<Rightarrow> router_env" where
  "full_router u cfg le now later secs ref p p' env =
     (layered u cfg env)
       \<lparr>rt_llm := \<lambda>tenant q rule kb_ids.
          Inr (fst (llm_layer le ref \<lparr>lq_now = now, lq_later = later, lq_query = q, lq_rule = rule, lq_kb_ids = kb_ids\<rparr> p)),
        rt_plan := \<lambda>tenant q d kb_ids. fst (planner_layer le ref secs q d kb_ids p')\<rparr>"

definition routes_validly :: "graph_state \<Rightarrow> bool" where
  "routes_validly s \<longleftrightarrow>
     (\<exists>d. g_route_decision s = Some d \<and> g_route_target s = Some (rd_target d) \<and> valid_decision d)"

lemma routed_valid: "valid_decision d \<Longrightarrow> routes_validly (routed d s)"
  by (simp add: routes_validly_def routed_def)

lemma routes_validly_fields [simp]:
  "routes_validly (s\<lparr>g_skill_resolution := a\<rparr>) = routes_validly s" "routes_validly (s\<lparr>g_skill_set := b\<rparr>) = routes_validly s"
  "routes_validly (s\<lparr>g_skill_evidence_requirements := c\<rparr>) = routes_validly s"
  "routes_validly (s\<lparr>g_execution_plan := e\<rparr>) = routes_validly s"
  by (simp_all add: routes_validly_def)

lemma apply_skill_plan_valid:
  assumes "routes_validly s" and "\<forall>ss t d'. rt_plan_with_skills env d ss t = Inr d' \<longrightarrow> valid_decision d'"
  shows "routes_validly (apply_skill_plan env d ss s)"
  using assms by (auto simp: apply_skill_plan_def intro!: routed_valid split: sum.splits pyval.splits)

lemma finalize_valid:
  assumes "valid_decision d" and "\<forall>ss t d'. rt_plan_with_skills env d ss t = Inr d' \<longrightarrow> valid_decision d'"
  shows "routes_validly (finalize_route env d s)"
  using assms by (auto simp: finalize_route_def Let_def intro!: routed_valid apply_skill_plan_valid split: option.splits)

lemma llm_layer_valid:
  assumes "constructs_valid le" and "valid_decision (lq_rule q)"
  shows "valid_decision (fst (llm_layer le ref q p))"
proof -
  obtain r p1 where g: "get_llm_router ref p = (r, p1)" by (cases "get_llm_router ref p")
  obtain d r' c where route: "llm_router_route le (pr_configs p1 ! lr_config r) (lq_now q) (lq_later q) (lq_query q) (lq_rule q)
      (lq_kb_ids q) r (pr_prompts p1) = (d, r', c)" by (metis prod_cases3)
  have "d = lq_rule q \<or> (\<exists>v e. parse_llm_result le v = Inr e \<and> d = label_decision r e)"
    using route by (auto simp: llm_router_route_def Let_def split: prod.splits bool.splits sum.splits)
  then have "valid_decision d" using assms parsed_decision by auto
  with g route show ?thesis by (simp add: llm_layer_def)
qed

lemma planner_layer_valid:
  assumes "constructs_valid le" "valid_decision d" "fst (planner_layer le ref secs q d kb p) = Inr d'"
  shows "valid_decision d'"
proof -
  have "valid_decision (flagged k d)" for k using assms(2) by (simp add: flagged_def valid_decision_def)
  with assms(1,3) show ?thesis
    by (fastforce simp: planner_layer_def planner_plan_def constructs_valid_def split: prod.splits sum.splits exn.splits)
qed

lemma annotate_valid: "valid_decision (annotate g d) = valid_decision d"
  by (simp add: annotate_def Let_def valid_decision_def)

lemma gate_decision_valid: "valid_decision (gate_decision g)"
  by (simp add: gate_decision_def valid_defs)

lemma llm_route_decides:
  fixes le u cfg now later secs ref p p' env
  defines "E \<equiv> full_router u cfg le now later secs ref p p' env"
  assumes "constructs_valid le"
    and skills: "\<And>d. valid_decision d \<Longrightarrow> \<forall>ss t d'. rt_plan_with_skills E d ss t = Inr d' \<longrightarrow> valid_decision d'"
    and "valid_decision rule"
  shows "case llm_route E tenant g rule s of
      Inr s' \<Rightarrow> routes_validly s'
    | Inl e \<Rightarrow> \<exists>d. fst (planner_layer le ref secs (g_user_question s) d (g_kb_ids s) p') = Inl e"
proof -
  define d where "d = annotate g (fst (llm_layer le ref \<lparr>lq_now = now, lq_later = later, lq_query = g_user_question s,
    lq_rule = rule, lq_kb_ids = g_kb_ids s\<rparr> p))"
  have d: "valid_decision d" unfolding d_def annotate_valid using assms(2,4) by (intro llm_layer_valid) simp_all
  have plan: "rt_plan E tenant (g_user_question s) d (g_kb_ids s) =
      fst (planner_layer le ref secs (g_user_question s) d (g_kb_ids s) p')" by (simp add: E_def full_router_def)
  have "case plan_route E tenant d s of Inr s' \<Rightarrow> routes_validly s'
    | Inl e \<Rightarrow> \<exists>d. fst (planner_layer le ref secs (g_user_question s) d (g_kb_ids s) p') = Inl e"
  proof (cases "fst (planner_layer le ref secs (g_user_question s) d (g_kb_ids s) p')")
    case (Inl e)
    with d skills show ?thesis by (auto simp: plan_route_def Let_def plan intro!: finalize_valid)
  next
    case (Inr x)
    then have "valid_decision x" using planner_layer_valid [OF assms(2) d] by blast
    with Inr d skills show ?thesis
      by (auto simp: plan_route_def Let_def plan intro!: finalize_valid split: option.split)
  qed
  moreover have "llm_route E tenant g rule s =
    (if truthy (dget (rd_metadata d) ''needs_clarification'') then Inr (routed d s)
     else if rd_complexity d \<noteq> ''complex'' then Inr (finalize_route E d s)
     else plan_route E tenant d s)"
    by (simp add: llm_route_def E_def full_router_def d_def Let_def)
  ultimately show ?thesis using d skills by (auto intro: routed_valid finalize_valid)
qed

lemma full_router_decides:
  assumes "constructs_valid le"
    and "\<And>d ss t d'. valid_decision d \<Longrightarrow> rt_plan_with_skills env d ss t = Inr d' \<Longrightarrow> valid_decision d'"
  shows "case intent_router_node (full_router u cfg le now later secs ref p p' env) s of
      Inr s' \<Rightarrow> routes_validly s'
    | Inl e \<Rightarrow> \<exists>d. fst (planner_layer le ref secs (g_user_question s) d (g_kb_ids s) p') = Inl e"
proof -
  let ?E = "full_router u cfg le now later secs ref p p' env"
  have skills: "valid_decision d \<Longrightarrow> \<forall>ss t d'. rt_plan_with_skills ?E d ss t = Inr d' \<longrightarrow> valid_decision d'" for d
    using assms(2) by (simp add: full_router_def layered_def)
  have rules: "valid_decision d" if "rt_pre_filter ?E q = Some d" for q d
    using that layer_decisions_valid by (simp add: full_router_def layered_def)
  have rule: "valid_decision (rt_rule ?E q)" for q
    using layer_decisions_valid by (simp add: full_router_def layered_def)
  have empty: "valid_decision empty_question_decision" by (simp add: empty_question_decision_def valid_defs)
  note llm = llm_route_decides [OF assms(1) skills]
  show ?thesis
    unfolding intent_router_node_def
    by (auto simp: Let_def intro!: routed_valid finalize_valid skills llm empty gate_decision_valid rule rules
        split: option.split)
qed

end
