(* ===== verification/Skill_Planner.thy ===== *)
theory Skill_Planner
  imports Router_Process
begin

text \<open>
  Planning with a resolved skill set (\<open>agent/langgraph/skills/planner_adapter.py\<close>, class
  \<open>SkillPlannerAdapter\<close>) and \<open>Planner.plan_with_skills\<close> (\<open>routers/planner.py\<close>): a database step for every
  query template with a known target, a retrieval step for every knowledge target whose queries can be
  rendered, a graph step if graph evidence is demanded, and a report step that depends on all of them. The
  records keep the fields of the skill models that the adapter reads. \<open>str()\<close> of a value that is no string
  and \<open>int()\<close> of a string are arguments.
\<close>

section \<open>Skills and context\<close>

record planned_report =
  kr_skill_id :: string
  kr_name :: string
  kr_required_context :: "string list"
  kr_required_evidence_types :: "string list"
  kr_default_format :: "string option"

record planned_data =
  kd_skill_id :: string
  kd_db_targets :: "pdict list"
  kd_query_templates :: "pdict list"
  kd_evidence_requirements :: "pdict list"
  kd_validation_rules :: "pdict list"

record planned_retrieval =
  kv_skill_id :: string
  kv_rag_targets :: "pdict list"
  kv_query_context_requirements :: pdict
  kv_evidence_requirements :: "pdict list"

record skill_set =
  kk_report :: planned_report
  kk_data :: "planned_data option"
  kk_retrieval :: "planned_retrieval option"

record skill_plan_context =
  kc_user_question :: string
  kc_tenant_id :: string
  kc_time_range :: pyval
  kc_report_date :: pyval
  kc_query_lang :: string
  kc_skill_set :: skill_set
  kc_agent_config :: pdict

record show_env =
  se_show :: "pyval \<Rightarrow> string"
  se_int_of_str :: "string \<Rightarrow> int res"

text \<open>\<open>{**a, **b}\<close>\<close>

definition dict_merge :: "pdict \<Rightarrow> pdict \<Rightarrow> pdict" where
  "dict_merge a b = foldl (\<lambda>d (k, v). dset d k v) a b"

definition template_context :: "skill_plan_context \<Rightarrow> pdict" where
  "template_context c =
     dict_merge
       [(''tenant_id'', PStr (kc_tenant_id c)), (''time_range'', kc_time_range c), (''report_date'', kc_report_date c),
        (''query_lang'', PStr (kc_query_lang c))]
       (case dget_or (kc_agent_config c) ''context'' (PDict []) of PDict extras \<Rightarrow> extras | _ \<Rightarrow> [])"

section \<open>Rendering\<close>

abbreviation no_brace :: "char \<Rightarrow> bool" where
  "no_brace c \<equiv> c \<noteq> CHR ''{'' \<and> c \<noteq> CHR ''}''"

text \<open>A variable \<open>{name}\<close> at the start of a text that begins with a brace: its name and the rest.\<close>

definition variable_at :: "string \<Rightarrow> (string \<times> string) option" where
  "variable_at cs =
     (let name = takeWhile no_brace cs; rest = dropWhile no_brace cs in
      if name \<noteq> [] \<and> next_is (CHR ''}'') rest then Some (name, tl rest) else None)"

lemma variable_at_shorter: "variable_at cs = Some (n, rest) \<Longrightarrow> length rest < Suc (length cs)"
proof -
  assume "variable_at cs = Some (n, rest)"
  then have "rest = tl (dropWhile no_brace cs)" by (auto simp: variable_at_def Let_def split: if_splits)
  moreover have "length (dropWhile no_brace cs) \<le> length cs" by (rule length_dropWhile_le)
  ultimately show ?thesis by simp
qed

text \<open>\<open>re.sub\<close> and \<open>re.findall\<close> with the pattern of a variable.\<close>

function render_text :: "(pyval \<Rightarrow> string) \<Rightarrow> pdict \<Rightarrow> string \<Rightarrow> string" where
  "render_text show ctx [] = []"
| "render_text show ctx (c # cs) =
     (case (if c = CHR ''{'' then variable_at cs else None) of
        Some (name, rest) \<Rightarrow>
          py_str show (dget_or ctx name (PStr (''{'' @ name @ ''}''))) @ render_text show ctx rest
      | None \<Rightarrow> c # render_text show ctx cs)"
  by pat_completeness auto
termination
  by (relation "measure (\<lambda>(f, d, s). length s)") (auto split: if_splits dest: variable_at_shorter)

function variables :: "string \<Rightarrow> string list" where
  "variables [] = []"
| "variables (c # cs) =
     (case (if c = CHR ''{'' then variable_at cs else None) of
        Some (name, rest) \<Rightarrow> name # variables rest
      | None \<Rightarrow> variables cs)"
  by pat_completeness auto
termination
  by (relation "measure length") (auto split: if_splits dest: variable_at_shorter)

declare render_text.simps(2) [simp del] variables.simps(2) [simp del]

fun render_value :: "(pyval \<Rightarrow> string) \<Rightarrow> pdict \<Rightarrow> pyval \<Rightarrow> pyval" where
  "render_value show ctx (PStr s) = PStr (render_text show ctx s)"
| "render_value show ctx (PList xs) = PList (map (render_value show ctx) xs)"
| "render_value show ctx (PDict d) = PDict (map (\<lambda>(k, v). (k, render_value show ctx v)) d)"
| "render_value show ctx v = v"

section \<open>Required context\<close>

fun strings_of :: "pyval list \<Rightarrow> string list" where
  "strings_of [] = []"
| "strings_of (PStr s # vs) = s # strings_of vs"
| "strings_of (v # vs) = strings_of vs"

definition data_required_context :: "planned_data \<Rightarrow> string list res" where
  "data_required_context d =
     rbind (all_res (\<lambda>rule. py_iter (dget_or rule ''required_context'' (PList []))) (kd_validation_rules d))
       (\<lambda>xss. Inr (concat (map strings_of xss)))"

definition missing_required_context :: "skill_plan_context \<Rightarrow> string list res" where
  "missing_required_context c =
     rbind (case kk_data (kc_skill_set c) of None \<Rightarrow> Inr [] | Some d \<Rightarrow> data_required_context d) (\<lambda>more.
       Inr (sort (remdups (filter (\<lambda>name. \<not> truthy (dget (template_context c) name))
                   (kr_required_context (kk_report (kc_skill_set c)) @ more)))))"

section \<open>Steps\<close>

text \<open>The fields of \<open>StepArgs\<close> and their defaults.\<close>

definition default_step_args :: pdict where
  "default_step_args =
     [(''query'', PStr []), (''query_simplified'', PStr []), (''kb_ids'', PList []), (''db_id'', PStr []),
      (''mcp_server_name'', PStr []), (''search_engine'', PStr []), (''function'', PStr []), (''function_params'', PDict []),
      (''rest_endpoint'', PStr []), (''rest_method'', PStr []), (''rest_payload'', PDict []), (''erp_domain'', PStr []),
      (''source_type'', PStr ''Meeting''), (''enable_pg'', PBool False), (''max_rows'', PInt 20),
      (''max_result_chars'', PInt 12000), (''enable_hybrid_retrieval'', PBool False), (''timeout_ms'', PInt 30000),
      (''extra'', PDict [])]"

definition step_skill_context :: "skill_set \<Rightarrow> pdict" where
  "step_skill_context k =
     [(''skill_id'', PStr (kr_skill_id (kk_report k))),
      (''data_skill_id'', case kk_data k of None \<Rightarrow> PNone | Some d \<Rightarrow> PStr (kd_skill_id d)),
      (''retrieval_skill_id'', case kk_retrieval k of None \<Rightarrow> PNone | Some v \<Rightarrow> PStr (kv_skill_id v))]"

text \<open>\<open>d[k]\<close>\<close>

definition dindex :: "pdict \<Rightarrow> string \<Rightarrow> pyval res" where
  "dindex d k = (case map_of d k of None \<Rightarrow> Inl KeyError | Some v \<Rightarrow> Inr v)"

text \<open>The targets by their identifier; of several with the same one the last is used.\<close>

definition db_target_table :: "planned_data \<Rightarrow> (string \<times> pdict) list" where
  "db_target_table d =
     foldl (\<lambda>m t. case dget t ''target_id'' of PStr i \<Rightarrow> dset m i t | _ \<Rightarrow> m) [] (kd_db_targets d)"

definition lookup_target :: "(string \<times> pdict) list \<Rightarrow> pyval \<Rightarrow> pdict option res" where
  "lookup_target m v =
     (if \<not> hashable v then Inl TypeError else Inr (case v of PStr i \<Rightarrow> map_of m i | _ \<Rightarrow> None))"

definition database_step :: "show_env \<Rightarrow> skill_plan_context \<Rightarrow> pdict \<Rightarrow> pdict \<Rightarrow> plan_step res" where
  "database_step env c target template =
     (let show = py_str (se_show env); ctx = template_context c;
          rendered_filters = render_value (se_show env) ctx (dget_or template ''filters'' (PDict [])) in
      rbind (dindex template ''template_id'') (\<lambda>tid.
      rbind (dindex target ''db_id'') (\<lambda>db_id.
      rbind (dindex template ''table_name'') (\<lambda>table_name.
        Inr \<lparr>ps_step_id = ''query_'' @ show tid, ps_tool = ''database'',
             ps_args = dict_merge default_step_args
               [(''query'', PStr (show (dget_or template ''purpose'' (PStr (kc_user_question c))))),
                (''db_id'', PStr (show db_id)),
                (''extra'', PDict (step_skill_context (kc_skill_set c) @
                   [(''query_template_id'', PStr (show tid)), (''table_name'', PStr (show table_name)),
                    (''target_id'', dget template ''target_id''), (''filters'', rendered_filters)]))],
             ps_depends_on = [], ps_can_parallel = True,
             ps_description = show (dget_or template ''purpose'' (PStr []))\<rparr>))))"

fun database_steps :: "show_env \<Rightarrow> skill_plan_context \<Rightarrow> (string \<times> pdict) list \<Rightarrow> pdict list \<Rightarrow> plan_step list res" where
  "database_steps env c targets [] = Inr []"
| "database_steps env c targets (template # ts) =
     rbind (lookup_target targets (dget template ''target_id'')) (\<lambda>found.
       case found of
         None \<Rightarrow> database_steps env c targets ts
       | Some target \<Rightarrow>
           rbind (database_step env c target template) (\<lambda>s.
             rbind (database_steps env c targets ts) (\<lambda>ss. Inr (s # ss))))"

definition build_database_steps :: "show_env \<Rightarrow> skill_plan_context \<Rightarrow> plan_step list res" where
  "build_database_steps env c =
     (case kk_data (kc_skill_set c) of
        None \<Rightarrow> Inr []
      | Some d \<Rightarrow> database_steps env c (db_target_table d) (kd_query_templates d))"

text \<open>The queries of a knowledge target whose variables are known; an element that is no dictionary has no
  \<open>get\<close>.\<close>

fun render_rag_queries :: "show_env \<Rightarrow> pdict \<Rightarrow> pyval list \<Rightarrow> bool \<Rightarrow> pyval list \<Rightarrow> string list res" where
  "render_rag_queries env ctx optional target_required [] = Inr []"
| "render_rag_queries env ctx optional target_required (PDict t # ts) =
     (let query = py_str (se_show env) (dget_or t ''query'' (PStr []));
          missing = filter (\<lambda>name. \<not> truthy (dget ctx name)) (variables query) in
      if missing \<noteq> [] \<and> (\<not> list_all (\<lambda>name. PStr name \<in> set optional) missing \<or> \<not> target_required)
      then render_rag_queries env ctx optional target_required ts
      else rbind (render_rag_queries env ctx optional target_required ts)
             (\<lambda>qs. Inr (render_text (se_show env) ctx query # qs)))"
| "render_rag_queries env ctx optional target_required (v # ts) = Inl AttributeError"

definition template_id_of :: "(pyval \<Rightarrow> string) \<Rightarrow> pyval \<Rightarrow> pyval res" where
  "template_id_of show t =
     (case t of PDict d \<Rightarrow> rbind (dindex d ''template_id'') (\<lambda>v. Inr (PStr (py_str show v))) | _ \<Rightarrow> Inl TypeError)"

definition rag_step :: "show_env \<Rightarrow> skill_plan_context \<Rightarrow> pdict \<Rightarrow> pyval list \<Rightarrow> pyval \<Rightarrow> string list \<Rightarrow> plan_step res" where
  "rag_step env c target templates tid queries =
     (let show = py_str (se_show env) in
      rbind (dindex target ''kb_id'') (\<lambda>kb_id.
      rbind (all_res (template_id_of (se_show env)) templates) (\<lambda>template_ids.
        Inr \<lparr>ps_step_id = ''retrieve_'' @ show tid, ps_tool = ''rag'',
             ps_args = dict_merge default_step_args
               [(''query'', PStr (join nl queries)), (''kb_ids'', PList [PStr (show kb_id)]),
                (''extra'', PDict (step_skill_context (kc_skill_set c) @
                   [(''rag_target_id'', PStr (show tid)), (''query_template_ids'', PList template_ids),
                    (''document_filters'', dget_or target ''document_filters'' (PDict [])),
                    (''metadata_filters'', render_value (se_show env) (template_context c)
                       (dget_or target ''metadata_filters'' (PDict [])))]))],
             ps_depends_on = [], ps_can_parallel = True,
             ps_description = show (dget_or target ''purpose'' (PStr []))\<rparr>)))"

fun rag_steps :: "show_env \<Rightarrow> skill_plan_context \<Rightarrow> pyval list \<Rightarrow> pdict list \<Rightarrow> plan_step list res" where
  "rag_steps env c optional [] = Inr []"
| "rag_steps env c optional (target # ts) =
     rbind (dindex target ''target_id'') (\<lambda>tid.
     rbind (py_iter (dget_or target ''query_templates'' (PList []))) (\<lambda>templates.
     rbind (render_rag_queries env (template_context c) optional
              (truthy (dget_or target ''required'' (PBool False))) templates) (\<lambda>queries.
       if queries = [] then rag_steps env c optional ts
       else
         rbind (rag_step env c target templates tid queries) (\<lambda>s.
           rbind (rag_steps env c optional ts) (\<lambda>ss. Inr (s # ss))))))"

definition build_rag_steps :: "show_env \<Rightarrow> skill_plan_context \<Rightarrow> plan_step list res" where
  "build_rag_steps env c =
     (case kk_retrieval (kc_skill_set c) of
        None \<Rightarrow> Inr []
      | Some v \<Rightarrow>
          rbind (py_iter (dget_or (kv_query_context_requirements v) ''optional_context'' (PList []))) (\<lambda>optional.
            if \<not> list_all hashable optional then Inl TypeError else rag_steps env c optional (kv_rag_targets v)))"

definition GRAPH_TYPES :: "string list" where
  "GRAPH_TYPES = [''graph'', ''graph_rows'', ''graph_result'']"

fun requires_graph :: "pdict list \<Rightarrow> bool res" where
  "requires_graph [] = Inr False"
| "requires_graph (req # reqs) =
     (case py_or (dget req ''evidence_type'') (PStr []) of
        PStr t \<Rightarrow> if lower t \<in> set GRAPH_TYPES then Inr True else requires_graph reqs
      | _ \<Rightarrow> Inl AttributeError)"

definition skill_requires_graph :: "skill_set \<Rightarrow> bool res" where
  "skill_requires_graph k =
     (if list_ex (\<lambda>t. lower t \<in> set GRAPH_TYPES) (kr_required_evidence_types (kk_report k)) then Inr True
      else
        rbind (case kk_data k of None \<Rightarrow> Inr False | Some d \<Rightarrow> requires_graph (kd_evidence_requirements d)) (\<lambda>b.
          if b then Inr True
          else (case kk_retrieval k of None \<Rightarrow> Inr False | Some v \<Rightarrow> requires_graph (kv_evidence_requirements v))))"

text \<open>\<open>int(v)\<close>: a float is truncated.\<close>

fun int_of_py :: "(string \<Rightarrow> int res) \<Rightarrow> pyval \<Rightarrow> int res" where
  "int_of_py of_str (PBool b) = Inr (if b then 1 else 0)"
| "int_of_py of_str (PInt i) = Inr i"
| "int_of_py of_str (PFloat r) = Inr (if r < 0 then - \<lfloor>- r\<rfloor> else \<lfloor>r\<rfloor>)"
| "int_of_py of_str (PStr s) = of_str s"
| "int_of_py of_str _ = Inl TypeError"

definition GRAPH_LABEL :: string where
  "GRAPH_LABEL = uni [0x56FE, 0x8C31, 0x95EE, 0x7B54, 0xFF1A]"

definition graph_step_of :: "show_env \<Rightarrow> skill_plan_context \<Rightarrow> pdict \<Rightarrow> plan_step res" where
  "graph_step_of env c graph_config =
     (let report = kk_report (kc_skill_set c) in
      rbind (int_of_py (se_int_of_str env) (dget_or graph_config ''max_rows'' (PInt 20))) (\<lambda>max_rows.
      rbind (int_of_py (se_int_of_str env) (dget_or graph_config ''max_result_chars'' (PInt 12000))) (\<lambda>max_result_chars.
      rbind (int_of_py (se_int_of_str env) (dget_or graph_config ''timeout_ms'' (PInt 30000))) (\<lambda>timeout_ms.
        Inr \<lparr>ps_step_id = ''graph_'' @ kr_skill_id report, ps_tool = ''graph'',
             ps_args = dict_merge default_step_args
               [(''query'', PStr (kc_user_question c)),
                (''source_type'', PStr (py_str (se_show env) (dget_or graph_config ''source_type'' (PStr ''Meeting'')))),
                (''enable_pg'', PBool (truthy (dget_or graph_config ''enable_pg'' (PBool False)))),
                (''max_rows'', PInt max_rows), (''max_result_chars'', PInt max_result_chars),
                (''enable_hybrid_retrieval'', PBool (truthy (dget_or graph_config ''enable_hybrid_retrieval'' (PBool False)))),
                (''timeout_ms'', PInt timeout_ms),
                (''extra'', PDict (step_skill_context (kc_skill_set c) @ [(''graph_source'', PStr ''skill_evidence_requirement'')]))],
             ps_depends_on = [], ps_can_parallel = True, ps_description = GRAPH_LABEL @ kr_name report\<rparr>))))"

definition build_graph_steps :: "show_env \<Rightarrow> skill_plan_context \<Rightarrow> plan_step list res" where
  "build_graph_steps env c =
     rbind (skill_requires_graph (kc_skill_set c)) (\<lambda>needed.
       if \<not> needed then Inr []
       else
         (case py_or (dget_or (kc_agent_config c) ''graph_config'' (PDict [])) (PDict []) of
            PDict graph_config \<Rightarrow> rbind (graph_step_of env c graph_config) (\<lambda>s. Inr [s])
          | _ \<Rightarrow> Inl AttributeError))"

definition REPORT_LABEL :: string where
  "REPORT_LABEL = uni [0x751F, 0x6210]"

definition build_report_step :: "skill_plan_context \<Rightarrow> plan_step list \<Rightarrow> plan_step" where
  "build_report_step c evidence_steps =
     (let report = kk_report (kc_skill_set c) in
      \<lparr>ps_step_id = ''generate_'' @ kr_skill_id report, ps_tool = ''report'',
       ps_args = dict_merge default_step_args
         [(''query'', PStr (REPORT_LABEL @ kr_name report)),
          (''extra'', PDict (step_skill_context (kc_skill_set c) @
             [(''format'', PStr (case kr_default_format report of Some (x # xs) \<Rightarrow> x # xs | _ \<Rightarrow> ''markdown''))]))],
       ps_depends_on = map ps_step_id evidence_steps, ps_can_parallel = False,
       ps_description = REPORT_LABEL @ kr_name report\<rparr>)"

section \<open>Plans\<close>

datatype skill_plan_result = MissingContext "string list" | Planned execution_plan

definition evidence_steps_of :: "show_env \<Rightarrow> skill_plan_context \<Rightarrow> plan_step list res" where
  "evidence_steps_of env c =
     rbind (build_database_steps env c) (\<lambda>db.
     rbind (build_rag_steps env c) (\<lambda>rag.
     rbind (build_graph_steps env c) (\<lambda>graph. Inr (db @ rag @ graph))))"

definition build_plan :: "show_env \<Rightarrow> skill_plan_context \<Rightarrow> skill_plan_result res" where
  "build_plan env c =
     rbind (missing_required_context c) (\<lambda>missing.
       if missing \<noteq> [] then Inr (MissingContext missing)
       else
         rbind (evidence_steps_of env c) (\<lambda>steps.
           Inr (Planned \<lparr>ep_plan_id = PStr (kr_skill_id (kk_report (kc_skill_set c)) @ ''_plan''),
                         ep_steps = steps @ [build_report_step c steps], ep_estimated_tokens = PInt 0,
                         ep_fallback_strategy = PStr ''skill_guided''\<rparr>)))"

text \<open>\<open>Planner.plan_with_skills\<close>\<close>

definition plan_with_skills :: "show_env \<Rightarrow> (execution_plan \<Rightarrow> pyval) \<Rightarrow> route_decision \<Rightarrow> skill_plan_context \<Rightarrow> route_decision res" where
  "plan_with_skills env dump d c =
     rbind (build_plan env c) (\<lambda>result.
       let metadata = [(''sub_intents'', dget_or (rd_metadata d) ''sub_intents'' (PList [])),
                       (''entities'', dget_or (rd_metadata d) ''entities'' (PDict [])),
                       (''skill_id'', PStr (kr_skill_id (kk_report (kc_skill_set c))))] in
       Inr (case result of
              MissingContext missing \<Rightarrow>
                \<lparr>rd_target = rd_target d, rd_confidence = rd_confidence d, rd_source = rd_source d,
                 rd_reason = Msg ''Skill plan unavailable'' [PStr ''MISSING_REQUIRED_CONTEXT''],
                 rd_complexity = rd_complexity d, rd_kb_ids = [],
                 rd_metadata = metadata @ [(''skill_plan_error'',
                   PDict [(''reason'', PStr ''MISSING_REQUIRED_CONTEXT''),
                          (''missing_context'', PList (map PStr missing))])]\<rparr>
            | Planned plan \<Rightarrow>
                \<lparr>rd_target = ''hybrid'', rd_confidence = rd_confidence d, rd_source = ''planner'',
                 rd_reason = Msg ''Skill planner generated execution plan'' [PInt (int (length (ep_steps plan)))],
                 rd_complexity = ''complex'', rd_kb_ids = plan_kb_ids plan,
                 rd_metadata = metadata @ [(''plan'', dump plan)]\<rparr>))"

text \<open>The call of the router node: it passes neither a time range nor a report date.\<close>

definition node_context :: "skill_set \<Rightarrow> graph_state \<Rightarrow> skill_plan_context" where
  "node_context k s =
     \<lparr>kc_user_question = g_user_question s, kc_tenant_id = g_tenant_id s, kc_time_range = PNone, kc_report_date = PNone,
      kc_query_lang = g_query_lang s, kc_skill_set = k, kc_agent_config = g_agent_config s\<rparr>"

section \<open>Every skill plan can be scheduled\<close>

definition evidence_step :: "plan_step \<Rightarrow> bool" where
  "evidence_step s \<longleftrightarrow> ps_depends_on s = [] \<and> ps_tool s \<in> set [''database'', ''rag'', ''graph'']"

lemma database_steps_evidence: "database_steps env c targets ts = Inr ss \<Longrightarrow> list_all evidence_step ss"
  by (induction env c targets ts arbitrary: ss rule: database_steps.induct)
    (auto simp: rbind_eq_Inr_iff database_step_def Let_def evidence_step_def split: option.splits)

lemma rag_steps_evidence: "rag_steps env c optional ts = Inr ss \<Longrightarrow> list_all evidence_step ss"
  by (induction env c optional ts arbitrary: ss rule: rag_steps.induct)
    (auto simp: rbind_eq_Inr_iff rag_step_def Let_def evidence_step_def split: if_splits)

lemma graph_steps_evidence: "build_graph_steps env c = Inr ss \<Longrightarrow> list_all evidence_step ss"
  by (auto simp: build_graph_steps_def graph_step_of_def rbind_eq_Inr_iff Let_def evidence_step_def split: if_splits pyval.splits)

lemma evidence_steps_evidence:
  assumes "evidence_steps_of env c = Inr ss"
  shows "list_all evidence_step ss"
proof -
  from assms obtain db rag gr where "build_database_steps env c = Inr db" "build_rag_steps env c = Inr rag"
      "build_graph_steps env c = Inr gr" "ss = db @ rag @ gr"
    by (auto simp: evidence_steps_of_def rbind_eq_Inr_iff)
  moreover from this have "list_all evidence_step db" "list_all evidence_step rag" "list_all evidence_step gr"
    by (auto simp: build_database_steps_def build_rag_steps_def rbind_eq_Inr_iff intro: graph_steps_evidence
        dest: database_steps_evidence rag_steps_evidence split: option.splits if_splits)
  ultimately show ?thesis by simp
qed

lemma layers_of_fan_in:
  assumes "list_all evidence_step ss" and "ps_depends_on rep = map ps_step_id ss"
  shows "topological_layers (ss @ [rep]) = Inr (if ss = [] then [[rep]] else [ss, [rep]])"
proof (cases "ss = []")
  case True
  with assms show ?thesis by (simp add: topological_layers_def layers_from_step ready_iff Let_def)
next
  case False
  have free: "\<forall>x \<in> set ss. ready {} x" using assms(1) by (auto simp: list_all_iff evidence_step_def ready_iff)
  have late: "\<not> ready {} rep" using False assms(2) by (simp add: ready_iff)
  have "filter (ready {}) (ss @ [rep]) = ss" "filter (\<lambda>x. \<not> ready {} x) (ss @ [rep]) = [rep]"
    using free late by (auto simp: filter_id_conv filter_empty_conv)
  moreover have "layers_from (ids ss) [rep] = Inr [[rep]]"
    using assms(2) by (simp add: layers_from_step ready_iff Let_def)
  ultimately show ?thesis using False by (simp add: topological_layers_def layers_from_step Let_def)
qed

lemma planned_steps:
  assumes "build_plan env c = Inr (Planned plan)"
  obtains ss where "evidence_steps_of env c = Inr ss" "ep_steps plan = ss @ [build_report_step c ss]"
    "missing_required_context c = Inr []"
  using assms by (auto simp: build_plan_def rbind_eq_Inr_iff split: if_splits)

text \<open>C14: Every plan made from a skill set is accepted by the scheduler. It consists of steps for the
  database, the knowledge bases and the graph, which run together in one layer, and of a single report
  step that runs alone after all of them, whatever identifiers the skill uses.\<close>

theorem skill_plan_is_schedulable:
  assumes "build_plan env c = Inr (Planned plan)"
  shows "\<exists>ss rep. ep_steps plan = ss @ [rep] \<and> ps_tool rep = ''report'' \<and> ps_tool ` set ss \<subseteq> {''database'', ''rag'', ''graph''}
    \<and> topological_layers (ep_steps plan) = Inr (if ss = [] then [[rep]] else [ss, [rep]])"
proof -
  obtain ss where ss: "evidence_steps_of env c = Inr ss" "ep_steps plan = ss @ [build_report_step c ss]"
    using assms by (rule planned_steps)
  have ev: "list_all evidence_step ss" by (rule evidence_steps_evidence [OF ss(1)])
  have rep: "ps_depends_on (build_report_step c ss) = map ps_step_id ss" "ps_tool (build_report_step c ss) = ''report''"
    by (simp_all add: build_report_step_def Let_def)
  have "ps_tool ` set ss \<subseteq> {''database'', ''rag'', ''graph''}"
    using ev by (auto simp: list_all_iff evidence_step_def)
  with ss(2) rep(2) layers_of_fan_in [OF ev rep(1)] show ?thesis by metis
qed

section \<open>Context and tenants\<close>

lemma map_of_dict_merge: "map_of (dict_merge a b) k = (case map_of (rev b) k of None \<Rightarrow> map_of a k | Some v \<Rightarrow> Some v)"
proof (induction b rule: rev_induct)
  case Nil
  then show ?case by (simp add: dict_merge_def)
next
  case (snoc x b)
  have set: "map_of (dset d k' v) k = (if k = k' then Some v else map_of d k)" for d :: pdict and k' v
    by (induction d) auto
  from snoc show ?case by (cases x) (simp add: dict_merge_def set)
qed

definition extra_context :: "skill_plan_context \<Rightarrow> pdict" where
  "extra_context c = (case dget_or (kc_agent_config c) ''context'' (PDict []) of PDict extras \<Rightarrow> extras | _ \<Rightarrow> [])"

lemma context_lookup:
  "map_of (template_context c) k = (case map_of (rev (extra_context c)) k of
     None \<Rightarrow> map_of [(''tenant_id'', PStr (kc_tenant_id c)), (''time_range'', kc_time_range c), (''report_date'', kc_report_date c),
       (''query_lang'', PStr (kc_query_lang c))] k
   | Some v \<Rightarrow> Some v)"
  unfolding template_context_def extra_context_def [symmetric] by (rule map_of_dict_merge)

lemma context_entry:
  assumes "map_of (rev (extra_context c)) k = None"
  shows "k = ''tenant_id'' \<Longrightarrow> dget (template_context c) k = PStr (kc_tenant_id c)"
    and "k = ''time_range'' \<Longrightarrow> dget (template_context c) k = kc_time_range c"
    and "k = ''report_date'' \<Longrightarrow> dget (template_context c) k = kc_report_date c"
  using assms by (simp_all add: dget_or_def context_lookup)

lemma missing_exact:
  assumes "missing_required_context c = Inr []" "name \<in> set (kr_required_context (kk_report (kc_skill_set c)))"
  shows "truthy (dget (template_context c) name)"
proof -
  from assms(1) obtain more where "sort (remdups (filter (\<lambda>name. \<not> truthy (dget (template_context c) name))
      (kr_required_context (kk_report (kc_skill_set c)) @ more))) = []"
    by (auto simp: missing_required_context_def rbind_eq_Inr_iff)
  then have "set (sort (remdups (filter (\<lambda>name. \<not> truthy (dget (template_context c) name))
      (kr_required_context (kk_report (kc_skill_set c)) @ more)))) = {}" by simp
  with assms(2) show ?thesis by (auto simp: filter_empty_conv)
qed

text \<open>Reports over a period are never planned by the router. The router node passes neither a time range
  nor a report date, so a skill that requires one of them gets no plan unless the configuration of the
  agent supplies it in its own context; six of the seven report skills that come with the program require
  one.\<close>

theorem dated_reports_are_not_planned:
  assumes "name = ''time_range'' \<or> name = ''report_date''" and "name \<in> set (kr_required_context (kk_report k))"
    and "map_of (rev (extra_context (node_context k s))) name = None"
  shows "\<not> (\<exists>plan. build_plan env (node_context k s) = Inr (Planned plan))"
proof
  assume "\<exists>plan. build_plan env (node_context k s) = Inr (Planned plan)"
  then obtain plan where "build_plan env (node_context k s) = Inr (Planned plan)" by blast
  then have "missing_required_context (node_context k s) = Inr []" by (rule planned_steps)
  then have "truthy (dget (template_context (node_context k s)) name)"
    by (rule missing_exact) (use assms(2) in \<open>simp add: node_context_def\<close>)
  with assms(1) context_entry(2,3) [OF assms(3)] show False by (auto simp: node_context_def)
qed

lemma render_tenant: "render_text show ctx ''{tenant_id}'' = py_str show (dget_or ctx ''tenant_id'' (PStr ''{tenant_id}''))"
proof -
  have "variable_at ''tenant_id}'' = Some (''tenant_id'', [])" by code_simp
  then show ?thesis by (simp add: render_text.simps(2))
qed

definition step_filter :: "plan_step \<Rightarrow> string \<Rightarrow> pyval" where
  "step_filter s k =
     (case dget (ps_args s) ''extra'' of
        PDict e \<Rightarrow> (case dget e ''filters'' of PDict f \<Rightarrow> dget f k | _ \<Rightarrow> PNone)
      | _ \<Rightarrow> PNone)"

lemma map_of_render: "map_of (map (\<lambda>(k, v). (k, render_value show ctx v)) d) k = map_option (render_value show ctx) (map_of d k)"
  by (induction d) auto

lemma database_step_filter:
  assumes "database_step env c target template = Inr s"
    and "dget_or template ''filters'' (PDict []) = PDict f" "map_of f k = Some v"
  shows "step_filter s k = render_value (se_show env) (template_context c) v"
  using assms
  by (auto simp: database_step_def Let_def rbind_eq_Inr_iff step_filter_def dget_or_def map_of_dict_merge map_of_render
      step_skill_context_def)

definition tenant_template :: "pdict \<Rightarrow> bool" where
  "tenant_template t \<longleftrightarrow>
     (case dget_or t ''filters'' (PDict []) of PDict f \<Rightarrow> map_of f ''tenant_id'' = Some (PStr ''{tenant_id}'') | _ \<Rightarrow> False)"

lemma database_steps_tenant:
  assumes "database_steps env c targets ts = Inr ss" "list_all tenant_template ts" "map_of (rev (extra_context c)) ''tenant_id'' = None"
  shows "\<forall>s \<in> set ss. step_filter s ''tenant_id'' = PStr (kc_tenant_id c)"
  using assms
proof (induction env c targets ts arbitrary: ss rule: database_steps.induct)
  case (2 env c targets t ts)
  have ctx: "map_of (template_context c) ''tenant_id'' = Some (PStr (kc_tenant_id c))"
    using "2.prems"(3) by (simp add: context_lookup)
  have one: "step_filter s ''tenant_id'' = PStr (kc_tenant_id c)" if "database_step env c target t = Inr s" for target s
  proof -
    from "2.prems"(2) obtain f where f: "dget_or t ''filters'' (PDict []) = PDict f" "map_of f ''tenant_id'' = Some (PStr ''{tenant_id}'')"
      by (auto simp: tenant_template_def split: pyval.splits)
    from database_step_filter [OF that f] show ?thesis by (simp add: render_tenant dget_or_def ctx)
  qed
  from "2.prems"(1) obtain found where look: "lookup_target targets (dget t ''target_id'') = Inr found"
      "(case found of None \<Rightarrow> database_steps env c targets ts
        | Some target \<Rightarrow> rbind (database_step env c target t) (\<lambda>s. rbind (database_steps env c targets ts) (\<lambda>ss. Inr (s # ss)))) = Inr ss"
    by (auto simp: rbind_eq_Inr_iff)
  show ?case
  proof (cases found)
    case None
    with "2.IH" look(2) "2.prems" show ?thesis by simp
  next
    case (Some target)
    with look(2) obtain s rest where "database_step env c target t = Inr s" "database_steps env c targets ts = Inr rest" "ss = s # rest"
      by (auto simp: rbind_eq_Inr_iff)
    with "2.IH" "2.prems" one show ?thesis by simp
  qed
qed simp

lemma rag_steps_tools: "rag_steps env c optional ts = Inr ss \<Longrightarrow> \<forall>s \<in> set ss. ps_tool s = ''rag''"
  by (induction env c optional ts arbitrary: ss rule: rag_steps.induct)
    (auto simp: rbind_eq_Inr_iff rag_step_def Let_def split: if_splits)

lemma rag_tools: "build_rag_steps env c = Inr ss \<Longrightarrow> \<forall>s \<in> set ss. ps_tool s \<noteq> ''database''"
  using rag_steps_tools by (fastforce simp: build_rag_steps_def rbind_eq_Inr_iff split: option.splits if_splits)

lemma graph_tools: "build_graph_steps env c = Inr ss \<Longrightarrow> \<forall>s \<in> set ss. ps_tool s \<noteq> ''database''"
  by (auto simp: build_graph_steps_def graph_step_of_def rbind_eq_Inr_iff Let_def split: if_splits pyval.splits)

text \<open>C13: The database queries of a skill plan are confined to the tenant of the run. If every query template
  of the skill filters by the tenant variable, each database step of the plan filters by the tenant of the
  run, provided that the configuration of the agent does not itself define a \<open>tenant_id\<close> in its context
  (which would replace it).\<close>

theorem skill_queries_filter_by_tenant:
  assumes "build_plan env c = Inr (Planned plan)" and "kk_data (kc_skill_set c) = Some d"
    and "list_all tenant_template (kd_query_templates d)" and "map_of (rev (extra_context c)) ''tenant_id'' = None"
  shows "\<forall>s \<in> set (ep_steps plan). ps_tool s = ''database'' \<longrightarrow> step_filter s ''tenant_id'' = PStr (kc_tenant_id c)"
proof -
  obtain ss where ss: "evidence_steps_of env c = Inr ss" "ep_steps plan = ss @ [build_report_step c ss]"
    using assms(1) by (rule planned_steps)
  from ss(1) obtain db rag gr where parts: "build_database_steps env c = Inr db" "build_rag_steps env c = Inr rag"
      "build_graph_steps env c = Inr gr" "ss = db @ rag @ gr"
    by (auto simp: evidence_steps_of_def rbind_eq_Inr_iff)
  have "\<forall>s \<in> set db. step_filter s ''tenant_id'' = PStr (kc_tenant_id c)"
    using parts(1) assms(2-4) by (intro database_steps_tenant) (auto simp: build_database_steps_def)
  moreover have "\<forall>s \<in> set rag. ps_tool s \<noteq> ''database''" using parts(2) by (rule rag_tools)
  moreover have "\<forall>s \<in> set gr. ps_tool s \<noteq> ''database''" using parts(3) by (rule graph_tools)
  ultimately show ?thesis using ss(2) parts(4) by (auto simp: build_report_step_def Let_def)
qed

section \<open>The router with skills\<close>

text \<open>The whole router, with the skill planner in place; \<open>parse\<close> reads a dumped skill set back.\<close>

definition skilled_router :: "(pyval \<Rightarrow> skill_set res) \<Rightarrow> show_env \<Rightarrow> unicode \<Rightarrow> router_config \<Rightarrow> llm_env \<Rightarrow> rat \<Rightarrow> rat \<Rightarrow> int \<Rightarrow> nat
    \<Rightarrow> router_process \<Rightarrow> router_process \<Rightarrow> router_env \<Rightarrow> router_env" where
  "skilled_router parse senv u cfg le now later secs ref p p' env =
     full_router u cfg le now later secs ref p p'
       (env\<lparr>rt_plan_with_skills := \<lambda>d ss s. rbind (parse ss) (\<lambda>k. plan_with_skills senv (le_dump le) d (node_context k s))\<rparr>)"

lemma hybrid_planner_valid:
  "''hybrid'' \<in> set ROUTE_TARGETS" "''planner'' \<in> set ROUTE_SOURCES" "''complex'' \<in> set ROUTE_COMPLEXITIES"
  by (simp_all add: ROUTE_TARGETS_def ROUTE_SOURCES_def ROUTE_COMPLEXITIES_def)

lemma plan_with_skills_valid:
  assumes "valid_decision d" "plan_with_skills senv dump d c = Inr d'"
  shows "valid_decision d'"
proof (cases "build_plan senv c")
  case (Inl e)
  with assms(2) show ?thesis by (simp add: plan_with_skills_def)
next
  case (Inr r)
  show ?thesis
  proof (cases r)
    case (MissingContext missing)
    with Inr assms(2) have "rd_target d' = rd_target d \<and> rd_confidence d' = rd_confidence d \<and> rd_source d' = rd_source d
        \<and> rd_complexity d' = rd_complexity d"
      unfolding plan_with_skills_def Let_def by (clarsimp)
    with assms(1) show ?thesis by (simp add: valid_decision_def)
  next
    case (Planned plan)
    with Inr assms(2) have "rd_target d' = ''hybrid'' \<and> rd_confidence d' = rd_confidence d \<and> rd_source d' = ''planner''
        \<and> rd_complexity d' = ''complex''"
      unfolding plan_with_skills_def Let_def by (clarsimp)
    with assms(1) hybrid_planner_valid show ?thesis by (simp add: valid_decision_def)
  qed
qed

text \<open>C11: The router always decides. With all its layers in place (pre-filter, complexity gate, rules,
  semantic router, planner and skill planner) the router node either leaves a state with a valid decision
  and its target, or passes on an exception of the planner; no other layer can fail and no answer of the
  model can produce an invalid target.\<close>

theorem router_always_decides:
  assumes "constructs_valid le"
  shows "case intent_router_node (skilled_router parse senv u cfg le now later secs ref p p' env) s of
      Inr s' \<Rightarrow> routes_validly s'
    | Inl e \<Rightarrow> \<exists>d. fst (planner_layer le ref secs (g_user_question s) d (g_kb_ids s) p') = Inl e"
  unfolding skilled_router_def
  by (rule full_router_decides [OF assms]) (auto simp: rbind_eq_Inr_iff intro: plan_with_skills_valid)

section \<open>Concrete plans\<close>

definition sample_process :: router_process where
  "sample_process = snd (begin_request None ''A'' init_process)"

definition sample_show :: show_env where
  "sample_show = \<lparr>se_show = \<lambda>_. ''?'', se_int_of_str = \<lambda>_. Inl ValueError\<rparr>"

definition sample_data :: planned_data where
  "sample_data =
     \<lparr>kd_skill_id = ''d'', kd_db_targets = [[(''target_id'', PStr ''t''), (''db_id'', PStr ''erp'')]],
      kd_query_templates = [[(''template_id'', PStr ''q''), (''target_id'', PStr ''t''), (''table_name'', PStr ''orders''),
        (''filters'', PDict [(''tenant_id'', PStr ''{tenant_id}'')])]],
      kd_evidence_requirements = [], kd_validation_rules = []\<rparr>"

definition sample_skill :: "string \<Rightarrow> skill_set" where
  "sample_skill need =
     \<lparr>kk_report = \<lparr>kr_skill_id = ''r'', kr_name = ''R'', kr_required_context = [need], kr_required_evidence_types = [],
                   kr_default_format = None\<rparr>,
      kk_data = Some sample_data, kk_retrieval = None\<rparr>"

definition sample_context :: "string \<Rightarrow> skill_plan_context" where
  "sample_context need = node_context (sample_skill need) (empty_state\<lparr>g_tenant_id := ''A''\<rparr>)"

lemma sample_plan: "\<exists>plan. build_plan sample_show (sample_context ''tenant_id'') = Inr (Planned plan) \<and> length (ep_steps plan) = 2"
proof -
  have "(case build_plan sample_show (sample_context ''tenant_id'') of Inr (Planned plan) \<Rightarrow> length (ep_steps plan) = 2 | _ \<Rightarrow> False)"
    by code_simp
  then show ?thesis by (auto split: sum.splits skill_plan_result.splits)
qed

theorem skill_plan_is_schedulable_witness:
  "\<exists>plan ss rep. build_plan sample_show (sample_context ''tenant_id'') = Inr (Planned plan)
     \<and> topological_layers (ep_steps plan) = Inr [ss, [rep]]"
proof -
  obtain plan where p: "build_plan sample_show (sample_context ''tenant_id'') = Inr (Planned plan)" "length (ep_steps plan) = 2"
    using sample_plan by blast
  from skill_plan_is_schedulable [OF p(1)] obtain ss rep where "ep_steps plan = ss @ [rep]"
      "topological_layers (ep_steps plan) = Inr (if ss = [] then [[rep]] else [ss, [rep]])" by blast
  moreover from this p(2) have "ss \<noteq> []" by auto
  ultimately show ?thesis using p(1) by auto
qed

theorem dated_reports_are_not_planned_witness:
  "\<not> (\<exists>plan. build_plan sample_show (sample_context ''time_range'') = Inr (Planned plan))"
  unfolding sample_context_def
  by (rule dated_reports_are_not_planned [where name = "''time_range''"])
    (simp_all add: sample_skill_def extra_context_def node_context_def empty_state_def dget_or_def)

theorem skill_queries_filter_by_tenant_witness:
  "\<exists>plan. build_plan sample_show (sample_context ''tenant_id'') = Inr (Planned plan)
     \<and> (\<forall>s \<in> set (ep_steps plan). ps_tool s = ''database'' \<longrightarrow> step_filter s ''tenant_id'' = PStr ''A'')"
proof -
  obtain plan where p: "build_plan sample_show (sample_context ''tenant_id'') = Inr (Planned plan)"
    using sample_plan by blast
  have "kk_data (kc_skill_set (sample_context ''tenant_id'')) = Some sample_data" "list_all tenant_template (kd_query_templates sample_data)"
    "map_of (rev (extra_context (sample_context ''tenant_id''))) ''tenant_id'' = None" "kc_tenant_id (sample_context ''tenant_id'') = ''A''"
    by (code_simp | simp add: sample_context_def node_context_def sample_skill_def)+
  with skill_queries_filter_by_tenant [OF p this(1)] p show ?thesis by auto
qed

theorem router_always_decides_witness:
  "case intent_router_node (skilled_router (\<lambda>_. Inr (sample_skill ''tenant_id'')) sample_show ascii_only default_config
      (sample_env (PDict [(''primary_intent'', PStr ''rag'')])) 0 0 0 0 sample_process sample_process quiet_router)
      (empty_state\<lparr>g_user_question := ''top''\<rparr>) of
      Inr s' \<Rightarrow> routes_validly s'
    | Inl e \<Rightarrow> \<exists>d. fst (planner_layer (sample_env (PDict [(''primary_intent'', PStr ''rag'')])) 0 0 ''top'' d [] sample_process) = Inl e"
proof -
  have kb: "g_kb_ids (empty_state\<lparr>g_user_question := ''top''\<rparr>) = []" "g_user_question (empty_state\<lparr>g_user_question := ''top''\<rparr>) = ''top''"
    by (simp_all add: empty_state_def)
  from router_always_decides [OF sample_constructs(1) [of "PDict [(''primary_intent'', PStr ''rag'')]"],
      where parse = "\<lambda>_. Inr (sample_skill ''tenant_id'')" and senv = sample_show and u = ascii_only and cfg = default_config
        and now = 0 and later = 0 and secs = 0 and ref = 0 and p = sample_process
        and p' = sample_process and env = quiet_router and s = "empty_state\<lparr>g_user_question := ''top''\<rparr>"]
  show ?thesis unfolding kb .
qed

end
