(* ===== verification/Skill_Resolver.thy ===== *)
theory Skill_Resolver
  imports Skill_Recall Skill_Planner
begin

text \<open>
  Resolution of a skill set for a question (\<open>agent/langgraph/skills/resolver.py\<close>, class \<open>SkillResolver\<close>, over
  the catalogue of \<open>catalog.py\<close> and \<open>registry.py\<close>): an explicit skill, a report type, the candidates found
  for the question, the default of the tenant, the generic skill, in this order; every report skill is
  checked against life cycle, tenant, permissions and the enabled tools, and linked skills that the user
  may not use are left out. The retrievers, the embedding and the model are arguments, and whether an
  event loop is running, in which case the reranker cannot be called.
\<close>

section \<open>The catalogue\<close>

record resolver_report = planned_report +
  rr_enabled :: bool
  rr_report_type :: string
  rr_intent_keywords :: "string list"
  rr_allowed_tenants :: "string list"
  rr_required_permissions :: "string list"

record resolver_data = planned_data +
  rd_enabled :: bool
  rd_required_permissions :: "string list"

record resolver_retrieval = planned_retrieval +
  rv_enabled :: bool
  rv_required_permissions :: "string list"

datatype any_skill = ReportSkill resolver_report | DataSkill resolver_data | RetrievalSkill resolver_retrieval

record catalog =
  ct_skills_by_id :: "(string \<times> any_skill) list"
  ct_report_type_index :: "(string \<times> resolver_report) list"
  ct_data_index :: "(string \<times> resolver_data) list"
  ct_retrieval_index :: "(string \<times> resolver_retrieval) list"
  ct_cards_by_key :: "((string \<times> string) \<times> skill_card) list"

definition report_by_id :: "catalog \<Rightarrow> string \<Rightarrow> resolver_report option" where
  "report_by_id cat i = (case map_of (ct_skills_by_id cat) i of Some (ReportSkill r) \<Rightarrow> Some r | _ \<Rightarrow> None)"

definition list_reports :: "catalog \<Rightarrow> resolver_report list" where
  "list_reports cat = concat (map (\<lambda>(i, s). case s of ReportSkill r \<Rightarrow> [r] | _ \<Rightarrow> []) (ct_skills_by_id cat))"

record resolve_context =
  rc_user_question :: string
  rc_tenant_id :: string
  rc_skill_id :: "string option"
  rc_report_type :: "string option"
  rc_route_decision :: pdict
  rc_agent_config :: pdict

datatype resolve_result =
    Unresolved string
  | Resolved resolver_report "resolver_data option" "resolver_retrieval option" string bool "message list"

section \<open>Checks\<close>

text \<open>\<open>PermissionIntersection\<close> on the raw list of the configuration: only hashable values form a set.\<close>

definition holds_permissions :: "pyval list \<Rightarrow> string list \<Rightarrow> bool res" where
  "holds_permissions perms required =
     (if \<not> list_all hashable perms then Inl TypeError else Inr (list_all (\<lambda>r. PStr r \<in> set perms) required))"

definition permission_ok :: "pdict \<Rightarrow> string list \<Rightarrow> bool res" where
  "permission_ok config required =
     (case dget config ''permissions'' of
        PNone \<Rightarrow> Inr True
      | PList perms \<Rightarrow> holds_permissions perms required
      | _ \<Rightarrow> Inr False)"

definition tenant_allowed :: "string list \<Rightarrow> string \<Rightarrow> bool" where
  "tenant_allowed allowed tenant \<longleftrightarrow> allowed = [] \<or> tenant \<in> set allowed"

definition tool_enabled :: "pdict \<Rightarrow> string \<Rightarrow> bool" where
  "tool_enabled config tool =
     (case dget_or config tool (PDict []) of PDict c \<Rightarrow> truthy (dget_or c ''enabled'' (PBool True)) | _ \<Rightarrow> True)"

text \<open>The resolver looks the linked skills up in the catalogue.\<close>

definition report_requires_graph :: "catalog \<Rightarrow> resolver_report \<Rightarrow> bool res" where
  "report_requires_graph cat r =
     skill_requires_graph
       \<lparr>kk_report = planned_report.truncate r,
        kk_data = map_option planned_data.truncate (map_of (ct_data_index cat) (kr_skill_id r)),
        kk_retrieval = map_option planned_retrieval.truncate (map_of (ct_retrieval_index cat) (kr_skill_id r))\<rparr>"

definition runtime_capability_ok :: "catalog \<Rightarrow> pdict \<Rightarrow> resolver_report \<Rightarrow> bool res" where
  "runtime_capability_ok cat config r =
     (if \<not> tool_enabled config ''db_tool''
         \<and> (map_of (ct_data_index cat) (kr_skill_id r) \<noteq> None \<or> ''db'' \<in> set (kr_required_evidence_types r)) then Inr False
      else if tool_enabled config ''graph_tool'' then Inr True
      else rbind (report_requires_graph cat r) (\<lambda>b. Inr (\<not> b)))"

text \<open>\<open>_is_lifecycle_selectable\<close> asks the life-cycle filter with the status \<open>active\<close>, whatever the status of
  the skill is.\<close>

definition lifecycle_selectable :: "bool \<Rightarrow> resolver_report \<Rightarrow> string \<Rightarrow> bool" where
  "lifecycle_selectable allow_approved r tenant \<longleftrightarrow> rr_enabled r \<and> is_selectable allow_approved ''active'' tenant []"

definition DENIED :: string where
  "DENIED = ''SKILL_PERMISSION_DENIED''"

definition prefilter_skill :: "bool \<Rightarrow> catalog \<Rightarrow> resolve_context \<Rightarrow> resolver_report \<Rightarrow> string option res" where
  "prefilter_skill allow_approved cat c r =
     (if \<not> lifecycle_selectable allow_approved r (rc_tenant_id c) then Inr (Some DENIED)
      else if \<not> tenant_allowed (rr_allowed_tenants r) (rc_tenant_id c) then Inr (Some DENIED)
      else
        rbind (permission_ok (rc_agent_config c) (rr_required_permissions r)) (\<lambda>ok.
          if \<not> ok then Inr (Some DENIED)
          else
            rbind (runtime_capability_ok cat (rc_agent_config c) r) (\<lambda>able.
              Inr (if able then None else Some DENIED))))"

section \<open>Resolving a report skill\<close>

definition linked_data :: "catalog \<Rightarrow> resolve_context \<Rightarrow> resolver_report \<Rightarrow> (resolver_data option \<times> message list) res" where
  "linked_data cat c r =
     (case map_of (ct_data_index cat) (kr_skill_id r) of
        None \<Rightarrow> Inr (None, [Msg ''No data skill linked'' [PStr (kr_skill_id r)]])
      | Some d \<Rightarrow>
          if \<not> rd_enabled d then Inr (None, [Msg ''Data skill disabled'' [PStr (kd_skill_id d)]])
          else
            rbind (permission_ok (rc_agent_config c) (rd_required_permissions d)) (\<lambda>ok.
              Inr (if ok then (Some d, []) else (None, [Msg ''Data skill permission denied'' [PStr (kd_skill_id d)]]))))"

definition linked_retrieval :: "catalog \<Rightarrow> resolve_context \<Rightarrow> resolver_report \<Rightarrow> (resolver_retrieval option \<times> message list) res" where
  "linked_retrieval cat c r =
     (case map_of (ct_retrieval_index cat) (kr_skill_id r) of
        None \<Rightarrow> Inr (None, [Msg ''No retrieval skill linked'' [PStr (kr_skill_id r)]])
      | Some d \<Rightarrow>
          if \<not> rv_enabled d then Inr (None, [Msg ''Retrieval skill disabled'' [PStr (kv_skill_id d)]])
          else
            rbind (permission_ok (rc_agent_config c) (rv_required_permissions d)) (\<lambda>ok.
              Inr (if ok then (Some d, []) else (None, [Msg ''Retrieval skill permission denied'' [PStr (kv_skill_id d)]]))))"

definition resolve_report_skill :: "bool \<Rightarrow> catalog \<Rightarrow> resolve_context \<Rightarrow> resolver_report \<Rightarrow> string \<Rightarrow> bool \<Rightarrow> resolve_result res" where
  "resolve_report_skill allow_approved cat c r source fallback_used =
     rbind (prefilter_skill allow_approved cat c r) (\<lambda>reason.
       case reason of
         Some why \<Rightarrow> Inr (Unresolved why)
       | None \<Rightarrow>
           rbind (linked_data cat c r) (\<lambda>(d, w1).
           rbind (linked_retrieval cat c r) (\<lambda>(v, w2).
             Inr (Resolved r d v source fallback_used (w1 @ w2)))))"

section \<open>Candidates\<close>

definition ranked_keyword_candidates :: "catalog \<Rightarrow> string \<Rightarrow> resolver_report list" where
  "ranked_keyword_candidates cat question =
     (let scored = map (\<lambda>r. (sum_list (map u_len (filter (\<lambda>kw. contains (lower kw) (lower question)) (rr_intent_keywords r))), r))
            (filter rr_enabled (list_reports cat)) in
      map snd (sort_desc (\<lambda>x. of_nat (fst x)) (filter (\<lambda>(n, r). n > 0) scored)))"

text \<open>\<open>rs_bm25\<close> is the search of the retriever, \<open>rs_embedding\<close> the embedding of the question and the search
  with it (\<open>None\<close> if one of them is missing or switched off), \<open>rs_rerank\<close> the reranker with its model.\<close>

record recall_env =
  rs_enabled :: bool
  rs_bm25 :: "(string \<Rightarrow> nat \<Rightarrow> scored_card list res) option"
  rs_bm25_top_k :: nat
  rs_embedding :: "(string \<Rightarrow> scored_card list res) option"
  rs_rrf_top_k :: nat
  rs_rerank :: "(string \<Rightarrow> scored_card list \<Rightarrow> rank_decision res) option"
  rs_reranker_max :: nat
  rs_loop_running :: bool

definition embedding_recall_and_fuse :: "recall_env \<Rightarrow> string \<Rightarrow> scored_card list \<Rightarrow> scored_card list" where
  "embedding_recall_and_fuse env question bm25 =
     (case rs_embedding env of
        None \<Rightarrow> bm25
      | Some f \<Rightarrow>
          (case f question of
             Inl _ \<Rightarrow> bm25
           | Inr found \<Rightarrow>
               if found = [] then bm25 else if bm25 = [] then found
               else reciprocal_rank_fusion bm25 found (rs_rrf_top_k env)))"

text \<open>The reranked cards with the score of the model, then the ones it left out.\<close>

definition reorder_by_rank :: "rank_decision \<Rightarrow> scored_card list \<Rightarrow> scored_card list" where
  "reorder_by_rank d truncated =
     (let by_id = foldl (\<lambda>m s. dset m (so_id s) s) [] truncated in
      concat (map (\<lambda>r. case map_of by_id (rk_skill_id r) of
                         None \<Rightarrow> []
                       | Some s \<Rightarrow> [\<lparr>so_card = so_card s, so_score = rk_score r, so_source = ''reranker''\<rparr>]) (rn_candidates d))
      @ filter (\<lambda>s. so_id s \<notin> rk_skill_id ` set (rn_candidates d)) truncated)"

definition rerank_recall_results :: "recall_env \<Rightarrow> string \<Rightarrow> scored_card list \<Rightarrow> scored_card list" where
  "rerank_recall_results env question results =
     (case rs_rerank env of
        None \<Rightarrow> results
      | Some f \<Rightarrow>
          if rs_loop_running env then results
          else
            (let truncated = take (rs_reranker_max env) results in
             case f question truncated of
               Inl _ \<Rightarrow> results
             | Inr d \<Rightarrow> if rn_degraded d then results else reorder_by_rank d truncated))"

definition cards_for_recall :: "catalog \<Rightarrow> resolver_report list \<Rightarrow> skill_card list" where
  "cards_for_recall cat reports =
     map snd (foldl (\<lambda>acc ((i, v), card). if i \<in> kr_skill_id ` set reports \<and> map_of acc i = None then acc @ [(i, card)] else acc)
       [] (ct_cards_by_key cat))"

text \<open>\<open>_scored_to_skills\<close>: the report skills of the cards, each once.\<close>

definition scored_to_skills :: "scored_card list \<Rightarrow> resolver_report list \<Rightarrow> resolver_report list" where
  "scored_to_skills results reports =
     (let by_id = foldl (\<lambda>m r. dset m (kr_skill_id r) r) [] reports in
      concat (map (\<lambda>i. case map_of by_id i of None \<Rightarrow> [] | Some r \<Rightarrow> [r]) (from_keys (map so_id results))))"

fun keep_passing :: "(resolver_report \<Rightarrow> string option res) \<Rightarrow> resolver_report list \<Rightarrow> resolver_report list res" where
  "keep_passing f [] = Inr []"
| "keep_passing f (r # rs) =
     rbind (f r) (\<lambda>why. rbind (keep_passing f rs) (\<lambda>ps. Inr (if why = None then r # ps else ps)))"

definition hybrid_recall_candidates :: "bool \<Rightarrow> recall_env \<Rightarrow> catalog \<Rightarrow> resolve_context \<Rightarrow> resolver_report list res" where
  "hybrid_recall_candidates allow_approved env cat c =
     (let question = rc_user_question c; keyword = ranked_keyword_candidates cat question in
      case dget_or (rc_agent_config c) ''skill_router'' (PDict []) of
        PDict router_config \<Rightarrow>
          if \<not> truthy (dget_or router_config ''enabled'' (PBool (rs_enabled env))) then Inr keyword
          else
            rbind (keep_passing (prefilter_skill allow_approved cat c) (list_reports cat)) (\<lambda>reports.
              if reports = [] then Inr []
              else
                (case rs_bm25 env of
                   None \<Rightarrow> Inr keyword
                 | Some bm25_search \<Rightarrow>
                     (let cards = cards_for_recall cat reports in
                      if cards = [] \<or> filter_by_domain cards (classify_domains_by_rule question) = [] then Inr keyword
                      else
                        (case bm25_search question (rs_bm25_top_k env) of
                           Inl _ \<Rightarrow> Inr keyword
                         | Inr bm25 \<Rightarrow>
                             (let recalled = embedding_recall_and_fuse env question bm25 in
                              if recalled = [] then Inr keyword
                              else Inr (scored_to_skills (rerank_recall_results env question recalled) reports))))))
      | _ \<Rightarrow> Inl AttributeError)"

section \<open>Resolution\<close>

text \<open>The first candidate that resolves.\<close>

fun first_resolved :: "(resolver_report \<Rightarrow> resolve_result res) \<Rightarrow> resolver_report list \<Rightarrow> resolve_result option res" where
  "first_resolved f [] = Inr None"
| "first_resolved f (r # rs) =
     rbind (f r) (\<lambda>res. case res of Unresolved _ \<Rightarrow> first_resolved f rs | _ \<Rightarrow> Inr (Some res))"

definition route_report_type :: "resolve_context \<Rightarrow> string option" where
  "route_report_type c =
     (case dget_or (rc_route_decision c) ''metadata'' (PDict []) of
        PDict m \<Rightarrow> (case dget m ''report_type'' of PStr t \<Rightarrow> Some t | _ \<Rightarrow> None)
      | _ \<Rightarrow> None)"

definition tenant_default_skill :: "resolve_context \<Rightarrow> string option" where
  "tenant_default_skill c =
     (let config_default = (case dget (rc_agent_config c) ''default_skill_id'' of PStr s \<Rightarrow> Some s | _ \<Rightarrow> None) in
      case dget_or (rc_agent_config c) ''tenant_defaults'' (PDict []) of
        PDict d \<Rightarrow> (case dget d (rc_tenant_id c) of PStr s \<Rightarrow> Some s | _ \<Rightarrow> config_default)
      | _ \<Rightarrow> config_default)"

definition nonempty :: "string option \<Rightarrow> string option" where
  "nonempty x = (case x of Some (c # cs) \<Rightarrow> Some (c # cs) | _ \<Rightarrow> None)"

definition resolve_default :: "bool \<Rightarrow> catalog \<Rightarrow> resolve_context \<Rightarrow> resolve_result res" where
  "resolve_default allow_approved cat c =
     (case nonempty (tenant_default_skill c) of
        Some i \<Rightarrow>
          (case report_by_id cat i of
             Some r \<Rightarrow> resolve_report_skill allow_approved cat c r ''tenant_default'' False
           | None \<Rightarrow>
               (case report_by_id cat ''generic_analysis'' of
                  Some r \<Rightarrow> resolve_report_skill allow_approved cat c r ''fallback'' True
                | None \<Rightarrow> Inr (Unresolved ''NO_SKILL_AVAILABLE'')))
      | None \<Rightarrow>
          (case report_by_id cat ''generic_analysis'' of
             Some r \<Rightarrow> resolve_report_skill allow_approved cat c r ''fallback'' True
           | None \<Rightarrow> Inr (Unresolved ''NO_SKILL_AVAILABLE'')))"

definition resolve_skill :: "bool \<Rightarrow> recall_env \<Rightarrow> catalog \<Rightarrow> resolve_context \<Rightarrow> resolve_result res" where
  "resolve_skill allow_approved env cat c =
     (case rc_skill_id c of
        Some sid \<Rightarrow>
          (case (if strip sid = [] then None else report_by_id cat (strip sid)) of
             None \<Rightarrow> Inr (Unresolved ''SKILL_NOT_FOUND'')
           | Some r \<Rightarrow> resolve_report_skill allow_approved cat c r ''skill_id'' False)
      | None \<Rightarrow>
          (let report_type = (case nonempty (rc_report_type c) of Some t \<Rightarrow> Some t | None \<Rightarrow> nonempty (route_report_type c)) in
           case (case report_type of None \<Rightarrow> None | Some t \<Rightarrow> map_of (ct_report_type_index cat) t) of
             Some r \<Rightarrow> resolve_report_skill allow_approved cat c r ''report_type'' False
           | None \<Rightarrow>
               rbind (hybrid_recall_candidates allow_approved env cat c) (\<lambda>candidates.
                 rbind (first_resolved (\<lambda>r. resolve_report_skill allow_approved cat c r ''keyword'' False) candidates) (\<lambda>found.
                   case found of Some res \<Rightarrow> Inr res | None \<Rightarrow> resolve_default allow_approved cat c))))"

section \<open>In the router node\<close>

text \<open>\<open>_resolve_skill\<close>: the context of a request, and the result as the node reads it; an exception leaves
  the question without a skill. \<open>re_dump\<close> and \<open>re_result\<close> are \<open>model_dump\<close> of a skill set and of a result,
  \<open>re_text\<close> is the text of a reason and \<open>re_requirements\<close> collects the evidence requirements of a skill set.\<close>

record resolver_env =
  re_allow_approved :: bool
  re_recall :: recall_env
  re_catalog :: catalog
  re_text :: "message \<Rightarrow> string"
  re_dump :: "resolver_report \<Rightarrow> resolver_data option \<Rightarrow> resolver_retrieval option \<Rightarrow> pyval"
  re_result :: "resolve_result \<Rightarrow> pdict"
  re_requirements :: "resolver_report \<Rightarrow> resolver_data option \<Rightarrow> resolver_retrieval option \<Rightarrow> pyval list res"

definition dump_decision :: "(message \<Rightarrow> string) \<Rightarrow> route_decision \<Rightarrow> pdict" where
  "dump_decision show_msg d =
     [(''target'', PStr (rd_target d)), (''confidence'', PFloat (rd_confidence d)), (''source'', PStr (rd_source d)),
      (''reason'', PStr (show_msg (rd_reason d))), (''complexity'', PStr (rd_complexity d)),
      (''kb_ids'', PList (map PStr (rd_kb_ids d))), (''metadata'', PDict (rd_metadata d))]"

definition request_context :: "resolver_env \<Rightarrow> route_decision \<Rightarrow> graph_state \<Rightarrow> resolve_context" where
  "request_context env d s =
     \<lparr>rc_user_question = g_user_question s, rc_tenant_id = g_tenant_id s, rc_skill_id = None, rc_report_type = None,
      rc_route_decision = dump_decision (re_text env) d, rc_agent_config = g_agent_config s\<rparr>"

definition node_resolve_skill :: "resolver_env \<Rightarrow> route_decision \<Rightarrow> graph_state \<Rightarrow> skill_result option" where
  "node_resolve_skill env d s =
     (case resolve_skill (re_allow_approved env) (re_recall env) (re_catalog env) (request_context env d s) of
        Inl _ \<Rightarrow> None
      | Inr res \<Rightarrow>
          Some (case res of
                  Unresolved why \<Rightarrow>
                    \<lparr>sr_dump = re_result env res, sr_resolved = False, sr_fallback_used = False, sr_skill_set = None,
                     sr_requirements = Inr []\<rparr>
                | Resolved r x v src fb ws \<Rightarrow>
                    \<lparr>sr_dump = re_result env res, sr_resolved = True, sr_fallback_used = fb, sr_skill_set = Some (re_dump env r x v),
                     sr_requirements = re_requirements env r x v\<rparr>))"

section \<open>A resolved skill may be used\<close>

definition skill_allowed :: "catalog \<Rightarrow> resolve_context \<Rightarrow> resolver_report \<Rightarrow> bool" where
  "skill_allowed cat c r \<longleftrightarrow>
     rr_enabled r \<and> tenant_allowed (rr_allowed_tenants r) (rc_tenant_id c)
     \<and> permission_ok (rc_agent_config c) (rr_required_permissions r) = Inr True
     \<and> runtime_capability_ok cat (rc_agent_config c) r = Inr True"

lemma lifecycle_only_enabled: "lifecycle_selectable allow r tenant = rr_enabled r"
  by (simp add: lifecycle_selectable_def is_selectable_def SELECTABLE_SKILL_STATUSES_def)

lemma prefilter_None: "prefilter_skill allow cat c r = Inr None \<Longrightarrow> skill_allowed cat c r"
  by (auto simp: prefilter_skill_def skill_allowed_def lifecycle_only_enabled rbind_eq_Inr_iff split: if_splits)

lemma linked_data_ok:
  "linked_data cat c r = Inr (Some d, w) \<Longrightarrow>
     map_of (ct_data_index cat) (kr_skill_id r) = Some d \<and> rd_enabled d
     \<and> permission_ok (rc_agent_config c) (rd_required_permissions d) = Inr True"
  by (auto simp: linked_data_def rbind_eq_Inr_iff split: option.splits if_splits)

lemma linked_retrieval_ok:
  "linked_retrieval cat c r = Inr (Some v, w) \<Longrightarrow>
     map_of (ct_retrieval_index cat) (kr_skill_id r) = Some v \<and> rv_enabled v
     \<and> permission_ok (rc_agent_config c) (rv_required_permissions v) = Inr True"
  by (auto simp: linked_retrieval_def rbind_eq_Inr_iff split: option.splits if_splits)

definition set_allowed :: "catalog \<Rightarrow> resolve_context \<Rightarrow> resolver_report \<Rightarrow> resolver_data option \<Rightarrow> resolver_retrieval option \<Rightarrow> bool" where
  "set_allowed cat c r d v \<longleftrightarrow>
     skill_allowed cat c r
     \<and> (\<forall>x. d = Some x \<longrightarrow> rd_enabled x \<and> permission_ok (rc_agent_config c) (rd_required_permissions x) = Inr True)
     \<and> (\<forall>x. v = Some x \<longrightarrow> rv_enabled x \<and> permission_ok (rc_agent_config c) (rv_required_permissions x) = Inr True)"

lemma resolve_report_allowed:
  assumes "resolve_report_skill allow cat c r0 src0 fb0 = Inr (Resolved r d v src fb ws)"
  shows "set_allowed cat c r d v \<and> r = r0 \<and> src = src0 \<and> fb = fb0"
proof -
  have pre: "prefilter_skill allow cat c r0 = Inr None"
    using assms by (cases "prefilter_skill allow cat c r0") (simp_all add: resolve_report_skill_def split: option.splits)
  then obtain d0 w1 where d0: "linked_data cat c r0 = Inr (d0, w1)"
    using assms by (cases "linked_data cat c r0") (auto simp: resolve_report_skill_def)
  with pre obtain v0 w2 where v0: "linked_retrieval cat c r0 = Inr (v0, w2)"
    using assms by (cases "linked_retrieval cat c r0") (auto simp: resolve_report_skill_def)
  with pre d0 assms have "linked_data cat c r0 = Inr (d, w1)" "linked_retrieval cat c r0 = Inr (v, w2)"
      "r = r0" "src = src0" "fb = fb0"
    by (simp_all add: resolve_report_skill_def)
  with prefilter_None [OF pre] linked_data_ok [of cat c r0 _ w1] linked_retrieval_ok [of cat c r0 _ w2]
  show ?thesis by (simp add: set_allowed_def)
qed

lemma first_resolved_from:
  "first_resolved f rs = Inr (Some x) \<Longrightarrow> \<exists>r \<in> set rs. f r = Inr x \<and> (\<forall>why. x \<noteq> Unresolved why)"
proof (induction rs)
  case (Cons r rs)
  then obtain res where res: "f r = Inr res" "(case res of Unresolved _ \<Rightarrow> first_resolved f rs | _ \<Rightarrow> Inr (Some res)) = Inr (Some x)"
    by (auto simp: rbind_eq_Inr_iff)
  then show ?case using Cons.IH by (cases res) auto
qed simp

lemma resolve_default_from:
  assumes "resolve_default allow cat c = Inr (Resolved r d v src fb ws)"
  shows "\<exists>r0 src0 fb0. resolve_report_skill allow cat c r0 src0 fb0 = Inr (Resolved r d v src fb ws)"
  using assms unfolding resolve_default_def by (simp split: option.splits) blast+

lemma resolve_from:
  assumes "resolve_skill allow env cat c = Inr (Resolved r d v src fb ws)"
  shows "\<exists>r0 src0 fb0. resolve_report_skill allow cat c r0 src0 fb0 = Inr (Resolved r d v src fb ws)"
proof (cases "rc_skill_id c")
  case (Some sid)
  with assms show ?thesis unfolding resolve_skill_def by (simp split: option.splits if_splits) blast+
next
  case None
  define rt where "rt = (case nonempty (rc_report_type c) of Some t \<Rightarrow> Some t | None \<Rightarrow> nonempty (route_report_type c))"
  show ?thesis
  proof (cases "case rt of None \<Rightarrow> None | Some t \<Rightarrow> map_of (ct_report_type_index cat) t")
    case (Some r0)
    with None assms have "resolve_report_skill allow cat c r0 ''report_type'' False = Inr (Resolved r d v src fb ws)"
      by (simp add: resolve_skill_def rt_def [symmetric])
    then show ?thesis by blast
  next
    case no_type: None
    with None assms obtain cands found where f:
        "first_resolved (\<lambda>r. resolve_report_skill allow cat c r ''keyword'' False) cands = Inr found"
        "(case found of Some res \<Rightarrow> Inr res | None \<Rightarrow> resolve_default allow cat c) = Inr (Resolved r d v src fb ws)"
      by (auto simp: resolve_skill_def rt_def [symmetric] rbind_eq_Inr_iff)
    show ?thesis
    proof (cases found)
      case None
      with f(2) show ?thesis by (intro resolve_default_from) simp
    next
      case (Some res)
      with first_resolved_from f show ?thesis by auto blast
    qed
  qed
qed

text \<open>C20: a skill set that the router node works with may be used. However a skill was found (by its type, by the
  retrievers and the model, by keywords, or as a default), the report skill is enabled, allowed for the
  tenant, within the permissions of the configuration and runnable with the enabled tools, and the linked
  data and retrieval skills are enabled and within the permissions too.\<close>

theorem resolved_skill_may_be_used:
  assumes "skill_hit (node_resolve_skill env d s) = Some ss"
  shows "\<exists>r x v. ss = re_dump env r x v \<and> set_allowed (re_catalog env) (request_context env d s) r x v"
proof -
  from assms obtain res where res: "resolve_skill (re_allow_approved env) (re_recall env) (re_catalog env) (request_context env d s) = Inr res"
    by (auto simp: node_resolve_skill_def skill_hit_def split: sum.splits)
  show ?thesis
  proof (cases res)
    case (Unresolved why)
    with res assms show ?thesis by (simp add: node_resolve_skill_def skill_hit_def)
  next
    case (Resolved r x v src fb ws)
    with res assms have "ss = re_dump env r x v" by (simp add: node_resolve_skill_def skill_hit_def split: if_splits)
    moreover from resolve_from res Resolved obtain r0 src0 fb0 where
        "resolve_report_skill (re_allow_approved env) (re_catalog env) (request_context env d s) r0 src0 fb0 = Inr (Resolved r x v src fb ws)"
      by blast
    ultimately show ?thesis using resolve_report_allowed by blast
  qed
qed

definition example_report :: resolver_report where
  "example_report =
     \<lparr>kr_skill_id = ''q1'', kr_name = ''quality'', kr_required_context = [], kr_required_evidence_types = [''db''],
      kr_default_format = None, rr_enabled = True, rr_report_type = ''8d'', rr_intent_keywords = [''defect''],
      rr_allowed_tenants = [''t1''], rr_required_permissions = [''read'']\<rparr>"

definition example_env :: resolver_env where
  "example_env =
     \<lparr>re_allow_approved = False,
      re_recall = \<lparr>rs_enabled = True, rs_bm25 = None, rs_bm25_top_k = 10, rs_embedding = None, rs_rrf_top_k = 10,
                   rs_rerank = None, rs_reranker_max = 10, rs_loop_running = True\<rparr>,
      re_catalog = \<lparr>ct_skills_by_id = [(''q1'', ReportSkill example_report)], ct_report_type_index = [(''8d'', example_report)],
                    ct_data_index = [], ct_retrieval_index = [], ct_cards_by_key = []\<rparr>,
      re_text = (\<lambda>_. []), re_dump = (\<lambda>r x v. PStr (kr_skill_id r)), re_result = (\<lambda>_. []),
      re_requirements = (\<lambda>r x v. Inr [])\<rparr>"

definition example_question :: "pyval list \<Rightarrow> graph_state" where
  "example_question perms = empty_state\<lparr>g_user_question := ''a defect'', g_tenant_id := ''t1'',
     g_agent_config := [(''permissions'', PList perms)]\<rparr>"

theorem resolved_skill_may_be_used_witness:
  "skill_hit (node_resolve_skill example_env empty_question_decision (example_question [PStr ''read''])) = Some (PStr ''q1'')
   \<and> skill_hit (node_resolve_skill example_env empty_question_decision (example_question [])) = None
   \<and> (\<exists>r x v. PStr ''q1'' = re_dump example_env r x v
        \<and> set_allowed (re_catalog example_env) (request_context example_env empty_question_decision (example_question [PStr ''read''])) r x v)"
proof -
  have hit: "skill_hit (node_resolve_skill example_env empty_question_decision (example_question [PStr ''read''])) = Some (PStr ''q1'')"
    by code_simp
  have miss: "skill_hit (node_resolve_skill example_env empty_question_decision (example_question [])) = None" by code_simp
  from hit miss resolved_skill_may_be_used [OF hit] show ?thesis by blast
qed

text \<open>In the running event loop of the server the reranker has no effect: it is called with a loop of its own,
  which cannot be run there, and the failure is taken for a failed ranking.\<close>

theorem reranker_has_no_effect:
  assumes "rs_loop_running env"
  shows "resolve_skill allow (env\<lparr>rs_rerank := f\<rparr>) cat c = resolve_skill allow env cat c"
proof -
  have same: "rerank_recall_results (env\<lparr>rs_rerank := f\<rparr>) = rerank_recall_results env"
    using assms by (intro ext) (simp add: rerank_recall_results_def split: option.splits)
  have fields: "rs_enabled (env\<lparr>rs_rerank := f\<rparr>) = rs_enabled env" "rs_bm25 (env\<lparr>rs_rerank := f\<rparr>) = rs_bm25 env"
    "rs_bm25_top_k (env\<lparr>rs_rerank := f\<rparr>) = rs_bm25_top_k env"
    "embedding_recall_and_fuse (env\<lparr>rs_rerank := f\<rparr>) = embedding_recall_and_fuse env"
    by (simp_all add: embedding_recall_and_fuse_def fun_eq_iff split: option.split sum.split)
  have hyb: "hybrid_recall_candidates allow (env\<lparr>rs_rerank := f\<rparr>) cat c = hybrid_recall_candidates allow env cat c"
    unfolding hybrid_recall_candidates_def by (simp only: same fields)
  show ?thesis unfolding resolve_skill_def by (simp only: hyb)
qed

end
