(* ===== verification/Skill_Router.thy ===== *)
theory Skill_Router
  imports Skill_Resolver
begin

text \<open>
  The two hard filters over cards and the router built on them: \<open>HardFilterChain\<close> and
  \<open>RuntimeCapabilityGate\<close> (\<open>agent/langgraph/skills/hard_filter.py\<close>), \<open>HardFilter\<close> (\<open>skills/filters.py\<close>) and
  \<open>SkillRouter\<close> (\<open>skills/router.py\<close>). The built-in \<open>hash\<close> is an argument, and so are the search of the BM25
  index and the reranker with its model.
\<close>

section \<open>The filter chain\<close>

definition ROUTE_CAPABILITY_MAP :: "(string \<times> string list) list" where
  "ROUTE_CAPABILITY_MAP =
     [(''chitchat'', []), (''database'', [''database'']), (''rag'', [''rag'']), (''hybrid'', [''database'', ''rag'']),
      (''report'', [''report'', ''database'', ''rag'']), (''web'', [''web''])]"

record hard_filter_context =
  hf_tenant_id :: string
  hf_permissions :: "string list"
  hf_route_target :: string
  hf_locale :: string
  hf_agent_config :: pdict

record card_governance =
  cg_canary_tenants :: "string list"
  cg_rollout_percentage :: rat

record card_snapshot =
  cs_cards_by_key :: "((string \<times> string) \<times> skill_card) list"
  cs_manifests_by_id :: "(string \<times> card_governance) list"

definition list_cards :: "card_snapshot \<Rightarrow> skill_card list" where
  "list_cards sn = map snd (cs_cards_by_key sn)"

definition get_card :: "card_snapshot \<Rightarrow> string \<Rightarrow> skill_card option" where
  "get_card sn i = map_option snd (find (\<lambda>((sid, v), card). sid = i) (cs_cards_by_key sn))"

text \<open>The result of a filter: the cards it keeps and how many it dropped for which reason. A reason with no
  card is left out.\<close>

type_synonym filtered = "skill_card list \<times> (string \<times> nat) list"

definition counts :: "(string \<times> nat) list \<Rightarrow> (string \<times> nat) list" where
  "counts rc = filter (\<lambda>(k, n). n \<noteq> 0) rc"

definition counted :: "string \<Rightarrow> skill_card list \<Rightarrow> skill_card list \<Rightarrow> filtered" where
  "counted reason cards kept = (kept, counts [(reason, length cards - length kept)])"

definition filter_lifecycle :: "skill_card list \<Rightarrow> filtered" where
  "filter_lifecycle cards = counted ''lifecycle'' cards (filter (\<lambda>c. sk_lifecycle_status c = ''active'') cards)"

text \<open>A tenant is outside of a card if the card names tenants without it and no override lets it in.\<close>

definition outside :: "string \<Rightarrow> skill_card \<Rightarrow> bool" where
  "outside tenant c \<longleftrightarrow>
     sk_allowed_tenants c \<noteq> [] \<and> tenant \<notin> set (sk_allowed_tenants c) \<and> map_of (sk_tenant_overrides c) tenant \<noteq> Some True"

definition tenant_blocked :: "string \<Rightarrow> skill_card \<Rightarrow> bool" where
  "tenant_blocked tenant c \<longleftrightarrow> map_of (sk_tenant_overrides c) tenant = Some False \<or> outside tenant c"

definition dep_blocked :: "card_snapshot \<Rightarrow> string \<Rightarrow> skill_card \<Rightarrow> bool" where
  "dep_blocked sn tenant c \<longleftrightarrow>
     list_ex (\<lambda>i. case get_card sn i of None \<Rightarrow> False | Some d \<Rightarrow> outside tenant d) (sk_required_dependency_ids c)"

definition filter_tenant :: "card_snapshot \<Rightarrow> hard_filter_context \<Rightarrow> skill_card list \<Rightarrow> filtered" where
  "filter_tenant sn ctx cards =
     (filter (\<lambda>c. \<not> tenant_blocked (hf_tenant_id ctx) c \<and> \<not> dep_blocked sn (hf_tenant_id ctx) c) cards,
      counts [(''tenant'', length (filter (tenant_blocked (hf_tenant_id ctx)) cards)),
              (''dependency_tenant'', length (filter (\<lambda>c. \<not> tenant_blocked (hf_tenant_id ctx) c \<and> dep_blocked sn (hf_tenant_id ctx) c) cards))])"

definition filter_permission :: "hard_filter_context \<Rightarrow> skill_card list \<Rightarrow> filtered" where
  "filter_permission ctx cards =
     (if hf_permissions ctx = [] then (cards, [])
      else counted ''permission'' cards (filter (\<lambda>c. set (sk_required_permissions c) \<subseteq> set (hf_permissions ctx)) cards))"

definition filter_route_capability :: "hard_filter_context \<Rightarrow> skill_card list \<Rightarrow> filtered" where
  "filter_route_capability ctx cards =
     (case map_of ROUTE_CAPABILITY_MAP (hf_route_target ctx) of
        None \<Rightarrow> (cards, [])
      | Some needed \<Rightarrow>
          if needed = [] then counted ''route_capability'' cards []
          else counted ''route_capability'' cards (filter (\<lambda>c. set (sk_capabilities c) \<inter> set needed \<noteq> {}) cards))"

definition filter_language :: "hard_filter_context \<Rightarrow> skill_card list \<Rightarrow> filtered" where
  "filter_language ctx cards =
     counted ''language'' cards (filter (\<lambda>c. sk_languages c = [] \<or> hf_locale ctx \<in> set (sk_languages c)) cards)"

definition filter_dependency_health :: "skill_card list \<Rightarrow> filtered" where
  "filter_dependency_health cards = counted ''dependency_health'' cards (filter sk_dependencies_healthy cards)"

text \<open>\<open>RuntimeCapabilityGate.filter\<close>; a section that is no dictionary counts as the default.\<close>

definition section_enabled :: "pdict \<Rightarrow> string \<Rightarrow> bool \<Rightarrow> bool" where
  "section_enabled config key otherwise =
     (case py_or (dget_or config key (PDict [])) (PDict []) of
        PDict c \<Rightarrow> truthy (dget_or c ''enabled'' (PBool otherwise))
      | _ \<Rightarrow> otherwise)"

definition needs_db :: "skill_card \<Rightarrow> bool" where
  "needs_db c \<longleftrightarrow> ''database'' \<in> set (sk_capabilities c) \<or> sk_skill_type c = ''data''"

definition gate_filter :: "pdict \<Rightarrow> skill_card list \<Rightarrow> filtered" where
  "gate_filter config candidates =
     (let no_db = (\<lambda>c. \<not> section_enabled config ''db_tool'' True \<and> needs_db c);
          no_react = (\<lambda>c. \<not> section_enabled config ''react'' False \<and> sk_execution_mode c = ''react_only'') in
      (filter (\<lambda>c. \<not> no_db c \<and> \<not> no_react c) candidates,
       counts [(''runtime_db_disabled'', length (filter no_db candidates)),
               (''runtime_react_disabled'', length (filter (\<lambda>c. \<not> no_db c \<and> no_react c) candidates))]))"

definition filter_runtime_capability :: "hard_filter_context \<Rightarrow> skill_card list \<Rightarrow> filtered" where
  "filter_runtime_capability ctx cards =
     (case gate_filter (hf_agent_config ctx) cards of (kept, rc) \<Rightarrow> (kept, counts rc))"

text \<open>Feature flags: the canary tenants of a skill, and its rollout by a bucket of \<open>hash\<close>.\<close>

definition canary_excluded :: "card_snapshot \<Rightarrow> string \<Rightarrow> skill_card \<Rightarrow> bool" where
  "canary_excluded sn tenant c =
     (case map_of (cs_manifests_by_id sn) (sk_skill_id c) of
        None \<Rightarrow> False
      | Some g \<Rightarrow> cg_canary_tenants g \<noteq> [] \<and> tenant \<notin> set (cg_canary_tenants g))"

definition rollout_excluded :: "(string \<Rightarrow> int) \<Rightarrow> card_snapshot \<Rightarrow> string \<Rightarrow> skill_card \<Rightarrow> bool" where
  "rollout_excluded hash sn tenant c =
     (case map_of (cs_manifests_by_id sn) (sk_skill_id c) of
        None \<Rightarrow> False
      | Some g \<Rightarrow>
          cg_rollout_percentage g < 100
          \<and> of_int (hash (sk_skill_id c @ '':'' @ tenant) mod 100) \<ge> cg_rollout_percentage g)"

definition filter_feature_flag :: "(string \<Rightarrow> int) \<Rightarrow> card_snapshot \<Rightarrow> hard_filter_context \<Rightarrow> skill_card list \<Rightarrow> filtered" where
  "filter_feature_flag hash sn ctx cards =
     (let canary = canary_excluded sn (hf_tenant_id ctx); rollout = rollout_excluded hash sn (hf_tenant_id ctx) in
      (filter (\<lambda>c. \<not> canary c \<and> \<not> rollout c) cards,
       counts [(''canary_excluded'', length (filter canary cards)),
               (''rollout_excluded'', length (filter (\<lambda>c. \<not> canary c \<and> rollout c) cards))]))"

text \<open>One filter of the chain: \<open>cards, rc = ...; reason_counts.update(rc)\<close>\<close>

definition stage :: "(skill_card list \<Rightarrow> filtered) \<Rightarrow> filtered \<Rightarrow> filtered" where
  "stage f = (\<lambda>(cards, acc). case f cards of (kept, rc) \<Rightarrow> (kept, foldl (\<lambda>m (k, n). dset m k n) acc rc))"

definition hard_filter_chain :: "(string \<Rightarrow> int) \<Rightarrow> card_snapshot \<Rightarrow> hard_filter_context \<Rightarrow> filtered" where
  "hard_filter_chain hash sn ctx =
     stage (filter_feature_flag hash sn ctx)
    (stage (filter_runtime_capability ctx)
    (stage filter_dependency_health
    (stage (filter_language ctx)
    (stage (filter_route_capability ctx)
    (stage (filter_permission ctx)
    (stage (filter_tenant sn ctx)
    (stage filter_lifecycle (list_cards sn, []))))))))"

section \<open>The contract of a filter\<close>

text \<open>A filter keeps the cards that satisfy a predicate and accounts for all the others, each under one of its
  own reasons.\<close>

locale card_filter =
  fixes f :: "skill_card list \<Rightarrow> filtered" and keep :: "skill_card \<Rightarrow> bool" and reasons :: "string set"
  assumes kept: "fst (f cards) = filter keep cards"
    and accounted: "sum_list (map snd (snd (f cards))) = length (filter (\<lambda>c. \<not> keep c) cards)"
    and own_reasons: "fst ` set (snd (f cards)) \<subseteq> reasons"
    and once: "distinct (map fst (snd (f cards)))"

lemma sum_dset: "k \<notin> fst ` set m \<Longrightarrow> sum_list (map snd (dset m k n)) = sum_list (map snd m) + (n :: nat)"
  by (induction m) auto

lemma update_fresh:
  assumes "fst ` set m \<inter> fst ` set rc = {}" "distinct (map fst rc)"
  shows "sum_list (map snd (foldl (\<lambda>m (k, n). dset m k (n :: nat)) m rc)) = sum_list (map snd m) + sum_list (map snd rc)
    \<and> fst ` set (foldl (\<lambda>m (k, n). dset m k n) m rc) = fst ` set m \<union> fst ` set rc"
  using assms
proof (induction rc arbitrary: m)
  case (Cons p rc)
  obtain k n where p: "p = (k, n)" by (cases p)
  with Cons.prems have "fst ` set (dset m k n) \<inter> fst ` set rc = {}" "distinct (map fst rc)" "k \<notin> fst ` set m"
    by (auto simp: dom_dset)
  with Cons.IH [of "dset m k n"] p show ?case by (auto simp: sum_dset dom_dset)
qed simp

text \<open>What a part of the chain has done so far.\<close>

definition chain_exact :: "skill_card list \<Rightarrow> (skill_card \<Rightarrow> bool) \<Rightarrow> string set \<Rightarrow> filtered \<Rightarrow> bool" where
  "chain_exact cards P R x \<longleftrightarrow>
     fst x = filter P cards \<and> sum_list (map snd (snd x)) = length (filter (\<lambda>c. \<not> P c) cards) \<and> fst ` set (snd x) \<subseteq> R"

context card_filter
begin

lemma stage_exact:
  assumes x: "chain_exact cards P R x" and fresh: "R \<inter> reasons = {}"
  shows "chain_exact cards (\<lambda>c. P c \<and> keep c) (R \<union> reasons) (stage f x)"
proof -
  obtain cs acc where xa: "x = (cs, acc)" by (cases x)
  obtain k rc where frc: "f cs = (k, rc)" by (cases "f cs")
  have cs: "cs = filter P cards" and R: "fst ` set acc \<subseteq> R" and acc: "sum_list (map snd acc) = length (filter (\<lambda>c. \<not> P c) cards)"
    using x xa by (simp_all add: chain_exact_def)
  have k: "k = filter keep cs" and rc: "sum_list (map snd rc) = length (filter (\<lambda>c. \<not> keep c) cs)"
      "fst ` set rc \<subseteq> reasons" "distinct (map fst rc)"
    using kept [of cs] accounted [of cs] own_reasons [of cs] once [of cs] frc by simp_all
  from R rc(2) fresh have disj: "fst ` set acc \<inter> fst ` set rc = {}" by blast
  have len: "length (filter (\<lambda>c. \<not> P c) cards) + length (filter (\<lambda>c. P c \<and> \<not> keep c) cards)
      = length (filter (\<lambda>c. \<not> (P c \<and> keep c)) cards)"
    by (induction cards) auto
  have "stage f x = (k, foldl (\<lambda>m (k, n). dset m k n) acc rc)" by (simp add: stage_def xa frc)
  moreover have "k = filter (\<lambda>c. P c \<and> keep c) cards" using k cs by (simp add: conj_commute)
  moreover have "sum_list (map snd rc) = length (filter (\<lambda>c. P c \<and> \<not> keep c) cards)" using rc(1) cs by (simp add: conj_commute)
  moreover have "fst ` set acc \<union> fst ` set rc \<subseteq> R \<union> reasons" using R rc(2) by blast
  ultimately show ?thesis using update_fresh [OF disj rc(3)] acc len unfolding chain_exact_def by simp
qed

end

lemma counts_facts:
  "sum_list (map snd (counts rc)) = sum_list (map snd rc)" "fst ` set (counts rc) \<subseteq> fst ` set rc"
  "distinct (map fst rc) \<Longrightarrow> distinct (map fst (counts rc))"
  by (induction rc) (auto simp: counts_def)

lemma length_dropped: "length cards - length (filter P cards) = length (filter (\<lambda>c. \<not> P c) cards)"
  using sum_length_filter_compl [of P cards] by simp

lemma counted_filter:
  "fst (counted r cards (filter P cards)) = filter P cards"
  "sum_list (map snd (snd (counted r cards (filter P cards)))) = length (filter (\<lambda>c. \<not> P c) cards)"
  "fst ` set (snd (counted r cards (filter P cards))) \<subseteq> {r}"
  "distinct (map fst (snd (counted r cards (filter P cards))))"
  using counts_facts [of "[(r, length cards - length (filter P cards))]"]
  by (auto simp: counted_def length_dropped)

lemma two_reasons:
  assumes "r \<noteq> s"
  shows "sum_list (map snd (counts [(r, length (filter A cards)), (s, length (filter (\<lambda>c. \<not> A c \<and> B c) cards))]))
      = length (filter (\<lambda>c. \<not> (\<not> A c \<and> \<not> B c)) cards)"
    "fst ` set (counts [(r, m), (s, n)]) \<subseteq> {r, s}" "distinct (map fst (counts [(r, m), (s, n)]))"
proof -
  have "length (filter A cards) + length (filter (\<lambda>c. \<not> A c \<and> B c) cards) = length (filter (\<lambda>c. \<not> (\<not> A c \<and> \<not> B c)) cards)"
    by (induction cards) auto
  then show "sum_list (map snd (counts [(r, length (filter A cards)), (s, length (filter (\<lambda>c. \<not> A c \<and> B c) cards))]))
      = length (filter (\<lambda>c. \<not> (\<not> A c \<and> \<not> B c)) cards)"
    unfolding counts_facts(1) by simp
qed (use assms in \<open>auto simp: counts_def\<close>)

interpretation lifecycle: card_filter filter_lifecycle "\<lambda>c. sk_lifecycle_status c = ''active''" "{''lifecycle''}"
  by unfold_locales (simp_all only: filter_lifecycle_def counted_filter)

interpretation tenant: card_filter "filter_tenant sn ctx"
    "\<lambda>c. \<not> tenant_blocked (hf_tenant_id ctx) c \<and> \<not> dep_blocked sn (hf_tenant_id ctx) c" "{''tenant'', ''dependency_tenant''}" for sn ctx
  by unfold_locales (simp_all only: filter_tenant_def fst_conv snd_conv, rule two_reasons, simp, rule two_reasons, simp, rule two_reasons, simp)

definition permitted_card :: "hard_filter_context \<Rightarrow> skill_card \<Rightarrow> bool" where
  "permitted_card ctx c \<longleftrightarrow> hf_permissions ctx = [] \<or> set (sk_required_permissions c) \<subseteq> set (hf_permissions ctx)"

text \<open>A filter that may be skipped.\<close>

lemma optional_filter:
  assumes "\<And>cards. f cards = (if skip then (cards, []) else counted r cards (filter keep cards))" "\<And>c. skip \<Longrightarrow> keep c"
  shows "card_filter f keep {r}"
proof (cases skip)
  case True
  with assms show ?thesis by (simp add: card_filter_def)
next
  case False
  show ?thesis by unfold_locales (simp_all only: assms(1) False if_False counted_filter)
qed

interpretation permission: card_filter "filter_permission ctx" "permitted_card ctx" "{''permission''}" for ctx
proof (rule optional_filter)
  show "filter_permission ctx cards =
      (if hf_permissions ctx = [] then (cards, []) else counted ''permission'' cards (filter (permitted_card ctx) cards))" for cards
    unfolding filter_permission_def permitted_card_def [abs_def] by (cases "hf_permissions ctx = []") simp_all
qed (simp add: permitted_card_def)

text \<open>A target that is not in the table demands nothing, and small talk admits no skill.\<close>

definition capable_card :: "hard_filter_context \<Rightarrow> skill_card \<Rightarrow> bool" where
  "capable_card ctx c =
     (case map_of ROUTE_CAPABILITY_MAP (hf_route_target ctx) of
        None \<Rightarrow> True
      | Some needed \<Rightarrow> set (sk_capabilities c) \<inter> set needed \<noteq> {})"

lemma filter_route_capability_eq:
  "filter_route_capability ctx cards =
     (if map_of ROUTE_CAPABILITY_MAP (hf_route_target ctx) = None then (cards, [])
      else counted ''route_capability'' cards (filter (capable_card ctx) cards))"
  by (auto simp: filter_route_capability_def capable_card_def [abs_def] split: option.splits)

interpretation capability: card_filter "filter_route_capability ctx" "capable_card ctx" "{''route_capability''}" for ctx
  by (rule optional_filter, rule filter_route_capability_eq) (simp add: capable_card_def)

interpretation language: card_filter "filter_language ctx" "\<lambda>c. sk_languages c = [] \<or> hf_locale ctx \<in> set (sk_languages c)" "{''language''}" for ctx
  by unfold_locales (simp_all only: filter_language_def counted_filter)

interpretation health: card_filter filter_dependency_health sk_dependencies_healthy "{''dependency_health''}"
  by unfold_locales (simp_all only: filter_dependency_health_def counted_filter)

definition runnable_card :: "pdict \<Rightarrow> skill_card \<Rightarrow> bool" where
  "runnable_card config c \<longleftrightarrow>
     \<not> (\<not> section_enabled config ''db_tool'' True \<and> needs_db c)
     \<and> \<not> (\<not> section_enabled config ''react'' False \<and> sk_execution_mode c = ''react_only'')"

lemma counts_counts: "counts (counts rc) = counts rc"
  by (simp add: counts_def)

interpretation runtime: card_filter "filter_runtime_capability ctx" "runnable_card (hf_agent_config ctx)"
    "{''runtime_db_disabled'', ''runtime_react_disabled''}" for ctx
  by unfold_locales (simp_all only: filter_runtime_capability_def gate_filter_def runnable_card_def [abs_def] Let_def prod.case
    counts_counts fst_conv snd_conv, rule two_reasons, simp, rule two_reasons, simp, rule two_reasons, simp)

interpretation flag: card_filter "filter_feature_flag hash sn ctx"
    "\<lambda>c. \<not> canary_excluded sn (hf_tenant_id ctx) c \<and> \<not> rollout_excluded hash sn (hf_tenant_id ctx) c"
    "{''canary_excluded'', ''rollout_excluded''}" for hash sn ctx
  by unfold_locales (simp_all only: filter_feature_flag_def Let_def fst_conv snd_conv, rule two_reasons, simp, rule two_reasons, simp, rule two_reasons, simp)

section \<open>The chain\<close>

definition admissible :: "(string \<Rightarrow> int) \<Rightarrow> card_snapshot \<Rightarrow> hard_filter_context \<Rightarrow> skill_card \<Rightarrow> bool" where
  "admissible hash sn ctx c \<longleftrightarrow>
     sk_lifecycle_status c = ''active''
     \<and> \<not> tenant_blocked (hf_tenant_id ctx) c \<and> \<not> dep_blocked sn (hf_tenant_id ctx) c
     \<and> permitted_card ctx c \<and> capable_card ctx c
     \<and> (sk_languages c = [] \<or> hf_locale ctx \<in> set (sk_languages c))
     \<and> sk_dependencies_healthy c \<and> runnable_card (hf_agent_config ctx) c
     \<and> \<not> canary_excluded sn (hf_tenant_id ctx) c \<and> \<not> rollout_excluded hash sn (hf_tenant_id ctx) c"

lemma chain_start: "chain_exact cards (\<lambda>c. True) {} (cards, [])"
  by (simp add: chain_exact_def)

lemma chain_weaken: "chain_exact cards P R x \<Longrightarrow> P = Q \<Longrightarrow> chain_exact cards Q UNIV x"
  by (simp add: chain_exact_def)

lemma chain_stages: "chain_exact (list_cards sn) (admissible hash sn ctx) UNIV (hard_filter_chain hash sn ctx)"
  unfolding hard_filter_chain_def
  by (rule chain_weaken, rule flag.stage_exact, rule runtime.stage_exact, rule health.stage_exact, rule language.stage_exact,
      rule capability.stage_exact, rule permission.stage_exact, rule tenant.stage_exact, rule lifecycle.stage_exact,
      rule chain_start) (simp_all add: admissible_def [abs_def] conj_assoc)

text \<open>C21: the filter chain is exact. It keeps the cards that pass all eight tests, in their order, and no others,
  and the counts it reports add up to the number of cards it has dropped, so every dropped card is
  reported under one reason.\<close>

theorem filter_chain_is_exact:
  "fst (hard_filter_chain hash sn ctx) = filter (admissible hash sn ctx) (list_cards sn)
   \<and> length (fst (hard_filter_chain hash sn ctx)) + sum_list (map snd (snd (hard_filter_chain hash sn ctx))) = length (list_cards sn)"
  using chain_stages [of sn hash ctx] sum_length_filter_compl [of "admissible hash sn ctx" "list_cards sn"]
  by (simp add: chain_exact_def)

section \<open>The filter of a single card\<close>

record filter_context =
  ft_tenant_id :: string
  ft_user_permissions :: "pyval list option"
  ft_agent_config :: pdict
  ft_route_target :: pyval
  ft_entities :: pyval

definition from_resolve_context :: "resolve_context \<Rightarrow> filter_context" where
  "from_resolve_context c =
     \<lparr>ft_tenant_id = rc_tenant_id c,
      ft_user_permissions = (case dget (rc_agent_config c) ''permissions'' of PList ps \<Rightarrow> Some ps | _ \<Rightarrow> None),
      ft_agent_config = rc_agent_config c,
      ft_route_target = dget_or (rc_route_decision c) ''target'' (PStr []),
      ft_entities = (case dget_or (rc_route_decision c) ''metadata'' (PDict []) of PDict m \<Rightarrow> dget m ''entities'' | _ \<Rightarrow> PNone)\<rparr>"

text \<open>For an approved card the life-cycle filter is asked with the status \<open>active\<close>.\<close>

definition card_selectable :: "bool \<Rightarrow> filter_context \<Rightarrow> skill_card \<Rightarrow> bool" where
  "card_selectable allow_approved ctx c =
     (if sk_lifecycle_status c = ''active'' then True
      else if sk_lifecycle_status c = ''approved'' then is_selectable allow_approved ''active'' (ft_tenant_id ctx) (sk_tenant_overrides c)
      else False)"

definition card_permission_ok :: "filter_context \<Rightarrow> skill_card \<Rightarrow> bool res" where
  "card_permission_ok ctx c =
     (case ft_user_permissions ctx of None \<Rightarrow> Inr True | Some ps \<Rightarrow> holds_permissions ps (sk_required_permissions c))"

definition latency_ok :: "filter_context \<Rightarrow> skill_card \<Rightarrow> bool" where
  "latency_ok ctx c \<longleftrightarrow> sk_latency_class c = ''interactive'' \<or> ft_route_target ctx = PStr ''report''"

text \<open>\<open>entities.get(entity_field)\<close>\<close>

definition entity_value :: "pyval \<Rightarrow> pyval \<Rightarrow> pyval res" where
  "entity_value entities field_name =
     (case py_or entities (PDict []) of
        PDict e \<Rightarrow>
          if \<not> hashable field_name then Inl TypeError
          else Inr (case field_name of PStr k \<Rightarrow> dget e k | _ \<Rightarrow> PNone)
      | _ \<Rightarrow> Inl AttributeError)"

fun excluded_by_rules :: "pyval \<Rightarrow> pyval list \<Rightarrow> bool res" where
  "excluded_by_rules entities [] = Inr False"
| "excluded_by_rules entities (PDict rl # rls) =
     (let entity_field = dget rl ''when_entity''; equals_value = dget rl ''equals'' in
      if truthy entity_field \<and> equals_value \<noteq> PNone
      then rbind (entity_value entities entity_field) (\<lambda>v.
             if py_eq v equals_value then Inr True else excluded_by_rules entities rls)
      else excluded_by_rules entities rls)"
| "excluded_by_rules entities (_ # rls) = excluded_by_rules entities rls"

text \<open>\<open>HardFilter._check\<close>: the reason why a card is excluded.\<close>

definition check_card :: "bool \<Rightarrow> filter_context \<Rightarrow> skill_card \<Rightarrow> string option res" where
  "check_card allow_approved ctx c =
     (if \<not> card_selectable allow_approved ctx c then Inr (Some ''LIFECYCLE_NOT_SELECTABLE'')
      else if \<not> tenant_allowed (sk_allowed_tenants c) (ft_tenant_id ctx) then Inr (Some ''TENANT_NOT_ALLOWED'')
      else
        rbind (card_permission_ok ctx c) (\<lambda>ok.
          if \<not> ok then Inr (Some ''PERMISSION_DENIED'')
          else if \<not> tool_enabled (ft_agent_config ctx) ''db_tool'' \<and> ''database'' \<in> set (sk_capabilities c) then Inr (Some ''CAPABILITY_DISABLED'')
          else if \<not> latency_ok ctx c then Inr (Some ''LATENCY_MISMATCH'')
          else
            rbind (excluded_by_rules (ft_entities ctx) (sk_exclusion_rules c)) (\<lambda>ex.
              Inr (if ex then Some ''EXCLUSION_RULE_MATCHED'' else None))))"

fun apply_filter :: "bool \<Rightarrow> filter_context \<Rightarrow> skill_card list \<Rightarrow> (skill_card list \<times> (skill_card \<times> string) list) res" where
  "apply_filter allow ctx [] = Inr ([], [])"
| "apply_filter allow ctx (c # cs) =
     rbind (check_card allow ctx c) (\<lambda>reason.
     rbind (apply_filter allow ctx cs) (\<lambda>(passed, excluded).
       Inr (case reason of None \<Rightarrow> (c # passed, excluded) | Some why \<Rightarrow> (passed, (c, why) # excluded))))"

section \<open>The router\<close>

record skill_router =
  ro_cards_by_key :: "((string \<times> string) \<times> skill_card) list"
  ro_bm25 :: "(string \<Rightarrow> nat \<Rightarrow> scored_card list res) option"
  ro_reranker :: "rerank_env option"
  ro_allow_approved :: bool
  ro_thresholds :: decision_thresholds
  ro_bm25_top_k :: nat
  ro_rrf_top_k :: nat

datatype skill_routing =
    NotRouted string message
  | AskUser message "string list"
  | Routed string string

definition cards_by_id :: "skill_router \<Rightarrow> (string \<times> skill_card) list" where
  "cards_by_id ro = foldl (\<lambda>m ((i, v), card). dset m i card) [] (ro_cards_by_key ro)"

definition strong_signal_match :: "skill_router \<Rightarrow> resolve_context \<Rightarrow> skill_card option" where
  "strong_signal_match ro c =
     (let by_type = (case (case nonempty (rc_report_type c) of Some t \<Rightarrow> Some t | None \<Rightarrow> nonempty (route_report_type c)) of
            None \<Rightarrow> None
          | Some t \<Rightarrow> find (\<lambda>card. sk_report_type card = Some t) (map snd (cards_by_id ro))) in
      case nonempty (rc_skill_id c) of
        None \<Rightarrow> by_type
      | Some i \<Rightarrow>
          (case map_of (cards_by_id ro) (strip i) of
             Some k \<Rightarrow> if sk_skill_type k = ''report'' then Some k else by_type
           | None \<Rightarrow> by_type))"

text \<open>The index is searched as a whole, whatever cards the filters have left; the embedding is not asked.\<close>

definition index_recall :: "skill_router \<Rightarrow> string \<Rightarrow> scored_card list" where
  "index_recall ro query =
     (case ro_bm25 ro of
        None \<Rightarrow> []
      | Some f \<Rightarrow> (case f query (ro_bm25_top_k ro) of Inl _ \<Rightarrow> [] | Inr found \<Rightarrow> take (ro_rrf_top_k ro) found))"

definition keyword_fallback :: "string \<Rightarrow> skill_card list \<Rightarrow> scored_card list" where
  "keyword_fallback query cards =
     take 20 (sort_desc so_score (filter (\<lambda>s. so_score s > 0)
       (map (\<lambda>c. \<lparr>so_card = c, so_score = of_nat (sum_list (map u_len (filter (\<lambda>kw. contains (lower kw) (lower query)) (sk_intents c)))),
                  so_source = ''keyword''\<rparr>) cards)))"

text \<open>Without a reranker or a model the recalled cards are taken as they are. A reranker cannot be run while a
  loop is running, neither by the loop of the thread nor by a new one.\<close>

definition rank_cards :: "skill_router \<Rightarrow> bool \<Rightarrow> (string \<Rightarrow> string res) option \<Rightarrow> string \<Rightarrow> scored_card list \<Rightarrow> rank_decision res" where
  "rank_cards ro loop_running llm query recalled =
     (case (ro_reranker ro, llm) of
        (Some env, Some call) \<Rightarrow>
          if loop_running then Inl (OtherError ''RuntimeError'') else rerank (env\<lparr>rx_llm_call := Some call\<rparr>) query recalled
      | _ \<Rightarrow>
          Inr \<lparr>rn_candidates = map (\<lambda>s. \<lparr>rk_skill_id = so_id s, rk_score = so_score s, rk_reason = Msg ''recall_only'' []\<rparr>) (take 5 recalled),
               rn_multi_intent = False, rn_missing_context = [], rn_ambiguity_reason = None, rn_degraded = True\<rparr>)"

definition build_decision_result :: "decision_result \<Rightarrow> skill_routing" where
  "build_decision_result d =
     (case d of
        Select i (Some k) \<Rightarrow> Routed ''semantic'' (sk_skill_id k)
      | Select i None \<Rightarrow> NotRouted ''FALLBACK'' (Msg ''select'' [])
      | Composition i (Some k) \<Rightarrow> Routed ''composition'' (sk_skill_id k)
      | Composition i None \<Rightarrow> NotRouted ''FALLBACK'' (Msg ''composition'' [])
      | Clarify cs why \<Rightarrow> AskUser why (map sk_skill_id cs)
      | NoSkill why \<Rightarrow> NotRouted ''NO_SKILL'' why)"

definition route_by_meaning :: "skill_router \<Rightarrow> bool \<Rightarrow> (string \<Rightarrow> string res) option \<Rightarrow> string \<Rightarrow> skill_card list \<Rightarrow> skill_routing res" where
  "route_by_meaning ro loop_running llm query passed =
     (let report_cards = filter (\<lambda>c. sk_skill_type c = ''report'') passed in
      if report_cards = [] then Inr (NotRouted ''NO_REPORT_SKILLS'' NoMsg)
      else
        (let domain_filtered = filter_by_domain report_cards (classify_domains_by_rule query);
             found = index_recall ro query;
             recalled = (if found = [] then keyword_fallback query domain_filtered else found) in
         if recalled = [] then Inr (NotRouted ''NO_RECALL_RESULTS'' NoMsg)
         else
           rbind (rank_cards ro loop_running llm query recalled) (\<lambda>ranking.
             Inr (build_decision_result
               (decide_skill (ro_thresholds ro) ranking (foldl (\<lambda>m s. dset m (so_id s) (so_card s)) [] recalled))))))"

definition skill_route :: "skill_router \<Rightarrow> bool \<Rightarrow> (string \<Rightarrow> string res) option \<Rightarrow> resolve_context \<Rightarrow> skill_routing res" where
  "skill_route ro loop_running llm c =
     (let query = strip (rc_user_question c); ctx = from_resolve_context c;
          semantic = rbind (apply_filter (ro_allow_approved ro) ctx (map snd (cards_by_id ro))) (\<lambda>(passed, excluded).
            if passed = [] then Inr (NotRouted ''NO_CANDIDATES_AFTER_FILTER'' NoMsg)
            else route_by_meaning ro loop_running llm query passed) in
      if query = [] then Inr (NotRouted ''EMPTY_QUERY'' NoMsg)
      else
        (case strong_signal_match ro c of
           None \<Rightarrow> semantic
         | Some k \<Rightarrow>
             rbind (check_card (ro_allow_approved ro) ctx k) (\<lambda>reason.
               if reason = None then Inr (Routed ''skill_id'' (sk_skill_id k)) else semantic)))"

section \<open>Who is routed\<close>

text \<open>An approved card can be selected by every tenant, whatever its overrides say.\<close>

theorem approved_is_selectable:
  "sk_lifecycle_status c = ''approved'' \<Longrightarrow> sk_tenant_overrides c = [(ft_tenant_id ctx, False)] \<Longrightarrow> card_selectable False ctx c"
  by (simp add: card_selectable_def is_selectable_def SELECTABLE_SKILL_STATUSES_def)

lemma apply_filter_passed:
  "apply_filter allow ctx cs = Inr (passed, excluded) \<Longrightarrow> k \<in> set passed \<Longrightarrow> k \<in> set cs \<and> check_card allow ctx k = Inr None"
proof (induction cs arbitrary: passed excluded)
  case (Cons c cs)
  from Cons.prems(1) obtain reason p e where r: "check_card allow ctx c = Inr reason" "apply_filter allow ctx cs = Inr (p, e)"
      "(case reason of None \<Rightarrow> (c # p, e) | Some why \<Rightarrow> (p, (c, why) # e)) = (passed, excluded)"
    by (auto simp: rbind_eq_Inr_iff)
  then show ?case using Cons.IH [OF r(2)] Cons.prems(2) by (cases reason) auto
qed simp

lemma recalled_by_id:
  "map_of (foldl (\<lambda>m s. dset m (so_id s) (so_card s)) m ss) i = Some k \<Longrightarrow> map_of m i \<noteq> Some k \<Longrightarrow> k \<in> so_card ` set ss"
proof (induction ss arbitrary: m)
  case (Cons s ss)
  show ?case
  proof (cases "map_of (dset m (so_id s) (so_card s)) i = Some k")
    case True
    with Cons.prems(2) show ?thesis by (auto split: if_splits)
  next
    case False
    with Cons show ?thesis by auto
  qed
qed simp

lemma set_sort_desc: "set (sort_desc f xs) = set xs"
  by (simp add: sort_desc_def)

lemma keyword_fallback_from: "so_card ` set (keyword_fallback query cards) \<subseteq> set cards"
  by (auto simp: keyword_fallback_def set_sort_desc dest!: in_set_takeD)

lemma decided_card:
  assumes "build_decision_result (decide_skill th rn cards) = Routed src i"
  shows "\<exists>j k. map_of cards j = Some k \<and> sk_skill_id k = i"
proof -
  consider (sel) j k where "decide_skill th rn cards = Select j (Some k)" "sk_skill_id k = i"
    | (comp) j k where "decide_skill th rn cards = Composition j (Some k)" "sk_skill_id k = i"
    using assms by (auto simp: build_decision_result_def split: decision_result.splits option.splits)
  then show ?thesis
    by cases (auto simp: decide_skill_def clarify_result_def Let_def split: list.splits if_splits)
qed

text \<open>What passes the filters is routed, and what the index brings back, which the filters have not seen.\<close>

lemma routed_by_meaning:
  assumes "route_by_meaning ro running llm query passed = Inr (Routed src i)"
  shows "\<exists>k. sk_skill_id k = i \<and> (k \<in> set passed \<or> k \<in> so_card ` set (index_recall ro query))"
proof -
  let ?reports = "filter (\<lambda>c. sk_skill_type c = ''report'') passed"
  let ?domain = "filter_by_domain ?reports (classify_domains_by_rule query)"
  define rs where "rs = (if index_recall ro query = [] then keyword_fallback query ?domain else index_recall ro query)"
  from assms obtain rn where "build_decision_result (decide_skill (ro_thresholds ro) rn (foldl (\<lambda>m s. dset m (so_id s) (so_card s)) [] rs)) = Routed src i"
    unfolding route_by_meaning_def Let_def rs_def [symmetric] by (auto simp: rbind_eq_Inr_iff split: if_splits)
  from decided_card [OF this] recalled_by_id obtain k where k: "sk_skill_id k = i" "k \<in> so_card ` set rs" by fastforce
  have "set ?domain \<subseteq> set passed" by (auto simp: filter_by_domain_def split: if_splits)
  with k keyword_fallback_from [of query ?domain] show ?thesis by (auto simp: rs_def split: if_splits)
qed

lemma map_of_snd: "map_of m i = Some k \<Longrightarrow> k \<in> snd ` set m"
  by (force dest: map_of_SomeD)

lemma find_in: "find P xs = Some k \<Longrightarrow> k \<in> set xs"
  by (auto simp: find_Some_iff)

lemma strong_match_known: "strong_signal_match ro c = Some k \<Longrightarrow> k \<in> snd ` set (cards_by_id ro)"
  by (auto simp: strong_signal_match_def Let_def dest!: map_of_snd find_in split: option.splits if_splits)

text \<open>Without an index the router keeps to the hard filter. If the index finds nothing, a routed skill is one of
  the router's cards and passes every test of the filter; with an index, only a card that the index itself
  returned can be routed without having passed.\<close>

theorem routed_skill_passed_the_filter:
  assumes "skill_route ro running llm c = Inr (Routed src i)"
  shows "\<exists>k. sk_skill_id k = i
    \<and> (k \<in> snd ` set (cards_by_id ro) \<and> check_card (ro_allow_approved ro) (from_resolve_context c) k = Inr None
       \<or> k \<in> so_card ` set (index_recall ro (strip (rc_user_question c))))"
proof -
  let ?ctx = "from_resolve_context c" and ?q = "strip (rc_user_question c)"
  let ?sem = "rbind (apply_filter (ro_allow_approved ro) ?ctx (map snd (cards_by_id ro))) (\<lambda>(passed, excluded).
            if passed = [] then Inr (NotRouted ''NO_CANDIDATES_AFTER_FILTER'' NoMsg) else route_by_meaning ro running llm ?q passed)"
  have sem: ?thesis if "?sem = Inr (Routed src i)"
  proof -
    from that obtain p e where f: "apply_filter (ro_allow_approved ro) ?ctx (map snd (cards_by_id ro)) = Inr (p, e)"
        "route_by_meaning ro running llm ?q p = Inr (Routed src i)"
      by (auto simp: rbind_eq_Inr_iff split: if_splits)
    from routed_by_meaning [OF f(2)] apply_filter_passed [OF f(1)] show ?thesis by auto
  qed
  show ?thesis
  proof (cases "strong_signal_match ro c")
    case None
    with assms sem show ?thesis by (simp add: skill_route_def Let_def split: if_splits)
  next
    case (Some k)
    then have "k \<in> snd ` set (cards_by_id ro)" by (rule strong_match_known)
    moreover from Some assms obtain reason where "check_card (ro_allow_approved ro) ?ctx k = Inr reason"
        "(if reason = None then Inr (Routed ''skill_id'' (sk_skill_id k)) else ?sem) = Inr (Routed src i)"
      by (auto simp: skill_route_def Let_def rbind_eq_Inr_iff split: if_splits)
    ultimately show ?thesis using sem by (cases "reason = None") auto
  qed
qed

definition example_router :: "string \<Rightarrow> skill_router" where
  "example_router status =
     (let k = (so_card example_card)\<lparr>sk_lifecycle_status := status, sk_latency_class := ''interactive'', sk_intents := [''defect'']\<rparr> in
      \<lparr>ro_cards_by_key = [((''q1'', ''1''), k), ((''q2'', ''1''), k\<lparr>sk_skill_id := ''q2'', sk_lifecycle_status := ''active'', sk_intents := []\<rparr>)],
       ro_bm25 = (if status = ''active'' then None else Some (\<lambda>q n. Inr [\<lparr>so_card = k, so_score = 3, so_source = ''bm25''\<rparr>])),
       ro_reranker = None, ro_allow_approved = False, ro_thresholds = default_thresholds, ro_bm25_top_k = 20, ro_rrf_top_k = 20\<rparr>)"

definition example_context :: resolve_context where
  "example_context = request_context example_env empty_question_decision (example_question [])"

theorem routed_skill_passed_the_filter_witness:
  "\<exists>k. sk_skill_id k = ''q1''
    \<and> check_card False (from_resolve_context example_context) k = Inr None"
proof -
  have "skill_route (example_router ''active'') True None example_context = Inr (Routed ''semantic'' ''q1'')" by code_simp
  from routed_skill_passed_the_filter [OF this] show ?thesis by (auto simp: example_router_def index_recall_def Let_def)
qed

text \<open>The index brings back a deprecated skill that the filter has excluded.\<close>

theorem retrieved_skill_skips_the_filter:
  "skill_route (example_router ''deprecated'') True None example_context = Inr (Routed ''semantic'' ''q1'')
   \<and> (\<forall>k. map_of (cards_by_id (example_router ''deprecated'')) ''q1'' = Some k \<longrightarrow>
        check_card False (from_resolve_context example_context) k = Inr (Some ''LIFECYCLE_NOT_SELECTABLE''))"
proof
  show "skill_route (example_router ''deprecated'') True None example_context = Inr (Routed ''semantic'' ''q1'')" by code_simp
  show "\<forall>k. map_of (cards_by_id (example_router ''deprecated'')) ''q1'' = Some k \<longrightarrow>
        check_card False (from_resolve_context example_context) k = Inr (Some ''LIFECYCLE_NOT_SELECTABLE'')"
    by (simp add: example_router_def cards_by_id_def Let_def check_card_def card_selectable_def)
qed

end
