(* ===== verification/Policy_Engine.thy ===== *)
theory Policy_Engine
  imports Claims Enforcement
begin

text \<open>
  The policy engine (\<open>agent/langgraph/policy/policy_engine.py\<close>): from the judged claims of an answer
  it decides whether the answer is passed, filtered, regenerated or rejected. The claims are those of
  \<open>Claims\<close>, the run mode that of \<open>Enforcement\<close>; of the evidence snapshot the engine reads the list
  of evidences. Reason texts are message templates; the joined lines of the regeneration
  instruction are kept as the list of their contents.
\<close>

section \<open>Data\<close>

record policy_decision =
  pd_schema_version :: string
  pd_action :: string
  pd_reason :: message
  pd_faithfulness_score :: rat
  pd_failed_claims :: "evidence_claim list"
  pd_forbidden_claim_texts :: "string list"
  pd_allowed_evidence_ids :: "string list"
  pd_regenerate_instruction :: message
  pd_verifier_status :: string

text \<open>The defaults of the dataclass.\<close>

definition new_decision :: "string \<Rightarrow> message \<Rightarrow> rat \<Rightarrow> string \<Rightarrow> policy_decision" where
  "new_decision action reason score status =
     \<lparr>pd_schema_version = ''1.0'', pd_action = action, pd_reason = reason,
      pd_faithfulness_score = score, pd_failed_claims = [], pd_forbidden_claim_texts = [],
      pd_allowed_evidence_ids = [], pd_regenerate_instruction = NoMsg, pd_verifier_status = status\<rparr>"

record policy_engine =
  pe_max_regenerates :: int
  pe_verifier_error_reject_ratio :: rat
  pe_pass_threshold :: rat
  pe_filter_threshold :: rat

definition DEFAULT_MAX_REGENERATES :: int where
  "DEFAULT_MAX_REGENERATES = 2"

text \<open>\<open>max_regenerates or DEFAULT_MAX_REGENERATES\<close> takes the default for 0 as well.\<close>

definition init_engine :: "int option \<Rightarrow> rat option \<Rightarrow> rat option \<Rightarrow> rat option \<Rightarrow> policy_engine" where
  "init_engine max_regenerates error_ratio pass_threshold filter_threshold =
     \<lparr>pe_max_regenerates =
        (case max_regenerates of
           None \<Rightarrow> DEFAULT_MAX_REGENERATES
         | Some n \<Rightarrow> if n = 0 then DEFAULT_MAX_REGENERATES else n),
      pe_verifier_error_reject_ratio = (case error_ratio of None \<Rightarrow> 3/10 | Some r \<Rightarrow> r),
      pe_pass_threshold = (case pass_threshold of None \<Rightarrow> 85/100 | Some r \<Rightarrow> r),
      pe_filter_threshold = (case filter_threshold of None \<Rightarrow> 6/10 | Some r \<Rightarrow> r)\<rparr>"

section \<open>Scores and summaries\<close>

definition claim_weight :: "evidence_claim \<Rightarrow> rat" where
  "claim_weight c = (if is_required c then 3 else if cl_risk_level c = ''high'' then 2 else 1)"

record weighted_score =
  ws_overall :: rat
  ws_supported_count :: int
  ws_contradicted_count :: int
  ws_insufficient_count :: int

text \<open>The loop over the claims: total weight, supported weight and the three counts.\<close>

definition score_step :: "rat \<times> rat \<times> int \<times> int \<times> int \<Rightarrow> evidence_claim \<Rightarrow> rat \<times> rat \<times> int \<times> int \<times> int" where
  "score_step acc c =
     (case acc of (tw, supported, n_sup, n_con, n_ins) \<Rightarrow>
       (let w = claim_weight c in
        if cl_final_status c = ''supported'' then (tw + w, supported + w, n_sup + 1, n_con, n_ins)
        else if cl_final_status c = ''contradicted'' then (tw + w, supported, n_sup, n_con + 1, n_ins)
        else if cl_final_status c = ''insufficient'' then (tw + w, supported, n_sup, n_con, n_ins + 1)
        else (tw + w, supported, n_sup, n_con, n_ins)))"

definition compute_weighted_score :: "evidence_claim list \<Rightarrow> weighted_score" where
  "compute_weighted_score claims =
     (case foldl score_step (0, 0, 0, 0, 0) claims of (tw, supported, n_sup, n_con, n_ins) \<Rightarrow>
       \<lparr>ws_overall = (if tw > 0 then supported / tw else 0), ws_supported_count = n_sup,
        ws_contradicted_count = n_con, ws_insufficient_count = n_ins\<rparr>)"

definition claims_verifier_status :: "evidence_claim list \<Rightarrow> string" where
  "claims_verifier_status claims =
     (if claims = [] then ''unknown''
      else
        (let statuses = cl_verifier_status ` set claims
         in if statuses = {''ok''} then ''ok''
            else if ''error'' \<in> statuses then ''error''
            else if ''timeout'' \<in> statuses then ''timeout''
            else if ''budget_exhausted'' \<in> statuses then ''budget_exhausted''
            else if card statuses > 1 then ''mixed''
            else cl_verifier_status (hd claims)))"

text \<open>Identifiers in order of appearance, each once and none empty; then only those of the snapshot.
  Identifiers of the snapshot are compared with Python's equality.\<close>

definition collect_ids :: "evidence_claim list \<Rightarrow> string list" where
  "collect_ids claims =
     foldl (\<lambda>seen eid. if eid \<noteq> [] \<and> eid \<notin> set seen then seen @ [eid] else seen) []
       (concat (map cl_verified_support_ids claims))"

definition snapshot_ids :: "pdict list \<Rightarrow> pyval list" where
  "snapshot_ids evidences = filter truthy (map (\<lambda>ev. dget ev ''evidence_id'') evidences)"

definition collect_allowed_evidence_ids :: "evidence_claim list \<Rightarrow> pdict list option \<Rightarrow> string list" where
  "collect_allowed_evidence_ids claims snapshot =
     (let allowed = collect_ids claims
      in case snapshot of
           None \<Rightarrow> allowed
         | Some evidences \<Rightarrow> filter (\<lambda>eid. py_in (PStr eid) (snapshot_ids evidences)) allowed)"

definition instruction_line :: "evidence_claim \<Rightarrow> pyval" where
  "instruction_line c =
     PList [PStr (if cl_final_status c = ''contradicted'' then ''contradicts the sources''
                  else if cl_final_status c = ''insufficient'' then ''not covered by the sources''
                  else if cl_final_status c = ''verifier_error'' then ''verification failed''
                  else ''not verified''),
            PStr (cl_text c)]"

definition build_regenerate_instruction :: "evidence_claim list \<Rightarrow> string list \<Rightarrow> message" where
  "build_regenerate_instruction failed allowed =
     Msg ''regenerate the answer with this feedback''
       (map instruction_line failed @ (if allowed \<noteq> [] then [strs allowed] else []))"

section \<open>The decision\<close>

definition failed_claims :: "evidence_claim list \<Rightarrow> evidence_claim list" where
  "failed_claims claims = filter (\<lambda>c. cl_final_status c \<noteq> ''supported'') claims"

definition required_with :: "string \<Rightarrow> evidence_claim list \<Rightarrow> evidence_claim list" where
  "required_with st claims = filter (\<lambda>c. is_required c \<and> cl_final_status c = st) claims"

definition error_ratio :: "evidence_claim list \<Rightarrow> rat" where
  "error_ratio claims =
     of_nat (length (filter (\<lambda>c. cl_final_status c = ''verifier_error'') claims)) / of_nat (length claims)"

definition decide ::
    "policy_engine \<Rightarrow> evidence_claim list \<Rightarrow> run_mode \<Rightarrow> int \<Rightarrow> pdict list option \<Rightarrow> policy_decision" where
  "decide pe claims mode regenerate_count snapshot =
     (if claims = [] then new_decision ''pass'' (Msg ''no claim to verify'' []) 1 ''unknown''
      else
        (let score = ws_overall (compute_weighted_score claims);
             status = claims_verifier_status claims;
             failed = failed_claims claims;
             forbidden = map cl_text failed;
             contradicted = required_with ''contradicted'' claims;
             insufficient = required_with ''insufficient'' claims
         in
         if contradicted \<noteq> [] then
           (new_decision ''reject'' (Msg ''required claims contradicted'' [strs (map cl_claim_id contradicted)])
              score status)\<lparr>pd_failed_claims := failed, pd_forbidden_claim_texts := forbidden\<rparr>
         else if mode = Factual \<and> insufficient \<noteq> [] then
           (new_decision ''reject'' (Msg ''required claims insufficient'' [strs (map cl_claim_id insufficient)])
              score status)\<lparr>pd_failed_claims := failed, pd_forbidden_claim_texts := forbidden\<rparr>
         else if error_ratio claims \<ge> pe_verifier_error_reject_ratio pe then
           (new_decision ''reject'' (Msg ''too many verifier errors'' [PFloat (error_ratio claims)])
              score ''error'')\<lparr>pd_failed_claims := failed\<rparr>
         else if score \<ge> pe_pass_threshold pe then
           new_decision ''pass'' (Msg ''faithful'' [PFloat score]) score status
         else
           (let allowed = collect_allowed_evidence_ids claims snapshot;
                base = \<lambda>action reason.
                  (new_decision action (Msg reason [PFloat score, PInt regenerate_count]) score status)
                    \<lparr>pd_failed_claims := failed, pd_forbidden_claim_texts := forbidden,
                     pd_allowed_evidence_ids := allowed\<rparr>
            in if score \<ge> pe_filter_threshold pe then base ''filter'' ''partly verified''
               else if regenerate_count \<ge> pe_max_regenerates pe then base ''exhausted'' ''no attempts left''
               else (base ''regenerate'' ''not faithful enough'')
                      \<lparr>pd_regenerate_instruction := build_regenerate_instruction failed allowed\<rparr>)))"

section \<open>Dictionaries\<close>

text \<open>\<open>round(x, 4)\<close>: to the nearest multiple of a ten-thousandth, halves to the even one.\<close>

definition round4 :: "rat \<Rightarrow> rat" where
  "round4 x = of_int (round_even (x * 10000)) / 10000"

text \<open>The text of a message is the argument \<open>txt\<close>.\<close>

definition decision_to_dict :: "(message \<Rightarrow> string) \<Rightarrow> policy_decision \<Rightarrow> pdict" where
  "decision_to_dict txt d =
     [(''schema_version'', PStr (pd_schema_version d)), (''action'', PStr (pd_action d)),
      (''reason'', PStr (txt (pd_reason d))),
      (''faithfulness_score'', PFloat (round4 (pd_faithfulness_score d))),
      (''failed_claims'', PList (map (\<lambda>c. PDict (claim_to_dict c)) (pd_failed_claims d))),
      (''forbidden_claim_texts'', strs (pd_forbidden_claim_texts d)),
      (''allowed_evidence_ids'', strs (pd_allowed_evidence_ids d)),
      (''regenerate_instruction'', PStr (txt (pd_regenerate_instruction d))),
      (''verifier_status'', PStr (pd_verifier_status d))]"

fun as_float :: "pyval \<Rightarrow> rat res" where
  "as_float (PFloat r) = Inr r"
| "as_float _ = Inl TypeError"

fun as_claim :: "pyval \<Rightarrow> evidence_claim res" where
  "as_claim (PDict d) = claim_from_dict d"
| "as_claim _ = Inl TypeError"

definition decision_from_dict :: "pdict \<Rightarrow> policy_decision res" where
  "decision_from_dict d =
     rbind (as_list as_claim (dget_or d ''failed_claims'' (PList []))) (\<lambda>failed.
     rbind (as_str (dget_or d ''schema_version'' (PStr ''1.0''))) (\<lambda>schema_version.
     rbind (as_str (dget_or d ''action'' (PStr ''pass''))) (\<lambda>action.
     rbind (as_str (dget_or d ''reason'' (PStr []))) (\<lambda>reason.
     rbind (as_float (dget_or d ''faithfulness_score'' (PFloat 0))) (\<lambda>score.
     rbind (as_list as_str (dget_or d ''forbidden_claim_texts'' (PList []))) (\<lambda>forbidden.
     rbind (as_list as_str (dget_or d ''allowed_evidence_ids'' (PList []))) (\<lambda>allowed.
     rbind (as_str (dget_or d ''regenerate_instruction'' (PStr []))) (\<lambda>instruction.
     rbind (as_str (dget_or d ''verifier_status'' (PStr ''ok''))) (\<lambda>status.
       Inr \<lparr>pd_schema_version = schema_version, pd_action = action, pd_reason = Msg reason [],
            pd_faithfulness_score = score, pd_failed_claims = failed,
            pd_forbidden_claim_texts = forbidden, pd_allowed_evidence_ids = allowed,
            pd_regenerate_instruction = Msg instruction [], pd_verifier_status = status\<rparr>)))))))))"

section \<open>Properties\<close>

definition weight_of :: "evidence_claim list \<Rightarrow> rat" where
  "weight_of claims = sum_list (map claim_weight claims)"

definition supported_claims :: "evidence_claim list \<Rightarrow> evidence_claim list" where
  "supported_claims claims = filter (\<lambda>c. cl_final_status c = ''supported'') claims"

lemma claim_weight_pos: "0 < claim_weight c"
  by (simp add: claim_weight_def)

lemma weight_of_simps [simp]:
  "weight_of [] = 0" "weight_of (c # cs) = claim_weight c + weight_of cs"
  by (simp_all add: weight_of_def)

lemma weight_of_nonneg: "0 \<le> weight_of cs"
  by (induction cs) (use claim_weight_pos in \<open>auto intro: add_nonneg_nonneg less_imp_le\<close>)

lemma weight_of_pos: "cs \<noteq> [] \<Longrightarrow> 0 < weight_of cs"
  by (cases cs) (auto intro: add_pos_nonneg claim_weight_pos weight_of_nonneg)

lemma weight_of_filter_le: "weight_of (filter P cs) \<le> weight_of cs"
  by (induction cs) (auto simp: claim_weight_pos less_imp_le add_increasing)

lemma weight_of_filter_eq: "weight_of (filter P cs) = weight_of cs \<longleftrightarrow> (\<forall>c \<in> set cs. P c)"
proof (induction cs)
  case (Cons c cs)
  have "weight_of (filter P cs) < claim_weight c + weight_of cs"
    using weight_of_filter_le [of P cs] claim_weight_pos [of c] by linarith
  with Cons show ?case by auto
qed simp

lemma score_step_fold:
  "\<exists>a b c. foldl score_step (tw, sw, i, j, k) cs
     = (tw + weight_of cs, sw + weight_of (supported_claims cs), a, b, c)"
proof (induction cs arbitrary: tw sw i j k)
  case (Cons c cs)
  let ?w = "if cl_final_status c = ''supported'' then claim_weight c else 0"
  have "\<exists>i' j' k'. score_step (tw, sw, i, j, k) c = (tw + claim_weight c, sw + ?w, i', j', k')"
    by (simp add: score_step_def Let_def split: if_split)
  then obtain i' j' k' where s: "score_step (tw, sw, i, j, k) c = (tw + claim_weight c, sw + ?w, i', j', k')"
    by blast
  show ?case
    using Cons.IH [of "tw + claim_weight c" "sw + ?w" i' j' k']
    by (simp add: s supported_claims_def add.assoc split: if_splits)
qed (simp add: supported_claims_def)

lemma score_eq:
  "ws_overall (compute_weighted_score cs)
     = (if cs = [] then 0 else weight_of (supported_claims cs) / weight_of cs)"
proof -
  obtain a b c where f: "foldl score_step (0, 0, 0, 0, 0) cs
      = (weight_of cs, weight_of (supported_claims cs), a, b, c)"
    using score_step_fold [of 0 0 0 0 0 cs] by auto
  show ?thesis
    using weight_of_pos [of cs] by (cases "cs = []") (simp_all add: compute_weighted_score_def f)
qed

text \<open>The faithfulness score is a proportion: it lies between 0 and 1, is the supported share of the
  weight, is 1 exactly if every claim is supported, and 0 exactly if none is.\<close>

theorem score_is_a_proportion:
  assumes "cs \<noteq> []"
  shows "0 \<le> ws_overall (compute_weighted_score cs) \<and> ws_overall (compute_weighted_score cs) \<le> 1
    \<and> (ws_overall (compute_weighted_score cs) = 1 \<longleftrightarrow> (\<forall>c \<in> set cs. cl_final_status c = ''supported''))
    \<and> (ws_overall (compute_weighted_score cs) = 0 \<longleftrightarrow> (\<forall>c \<in> set cs. cl_final_status c \<noteq> ''supported''))"
proof -
  let ?s = "weight_of (supported_claims cs)"
  have pos: "0 < weight_of cs" using assms by (rule weight_of_pos)
  have le: "?s \<le> weight_of cs" and nn: "0 \<le> ?s"
    unfolding supported_claims_def by (rule weight_of_filter_le, rule weight_of_nonneg)
  have one: "?s = weight_of cs \<longleftrightarrow> (\<forall>c \<in> set cs. cl_final_status c = ''supported'')"
    unfolding supported_claims_def by (rule weight_of_filter_eq)
  have "?s = 0 \<longleftrightarrow> supported_claims cs = []"
    using weight_of_pos [of "supported_claims cs"] by (cases "supported_claims cs") auto
  then have zero: "?s = 0 \<longleftrightarrow> (\<forall>c \<in> set cs. cl_final_status c \<noteq> ''supported'')"
    by (simp add: supported_claims_def filter_empty_conv)
  show ?thesis
    unfolding score_eq using assms pos le nn one [symmetric] zero by (auto simp: field_simps)
qed

text \<open>The veto of a required claim. If any required claim of an answer is contradicted, the answer is
  rejected, whatever the other claims are and however many of them are supported, in every mode, for
  every setting of the thresholds and after any number of attempts; all claims that are not
  supported are reported.\<close>

theorem contradiction_is_a_veto:
  assumes "c \<in> set claims" and "is_required c" and "cl_final_status c = ''contradicted''"
  shows "pd_action (decide pe claims mode n snapshot) = ''reject''
    \<and> pd_failed_claims (decide pe claims mode n snapshot) = failed_claims claims"
proof -
  have "required_with ''contradicted'' claims \<noteq> []"
    using assms by (auto simp: required_with_def filter_empty_conv)
  with assms(1) show ?thesis by (auto simp: decide_def Let_def new_decision_def)
qed

definition demo_claim :: "string \<Rightarrow> bool \<Rightarrow> string \<Rightarrow> evidence_claim" where
  "demo_claim i required status =
     (new_claim i ''t'')\<lparr>cl_server_is_required := required, cl_final_status := status,
        cl_verifier_status := ''ok'', cl_verified_support_ids := [''e1'', ''e9'']\<rparr>"

theorem score_is_a_proportion_witness:
  "ws_overall (compute_weighted_score [demo_claim ''c1'' True ''supported'']) = 1"
  using score_is_a_proportion [of "[demo_claim ''c1'' True ''supported'']"] by (simp add: demo_claim_def)

theorem contradiction_is_a_veto_witness:
  "pd_action (decide (init_engine None None None None)
     (demo_claim ''c1'' True ''contradicted'' # replicate 100 (demo_claim ''c2'' False ''supported'')) Report 0 None)
   = ''reject''"
  by (rule conjunct1 [OF contradiction_is_a_veto [of "demo_claim ''c1'' True ''contradicted''"]])
    (simp_all add: demo_claim_def is_required_def new_claim_def)

text \<open>C10: an answer with claims is passed only if it earned it: no required claim is contradicted, none is
  insufficient when facts are asked for, the share of verifier errors is below its limit, and the
  supported weight reaches the threshold. An answer is sent back only while attempts are left, and
  only if its supported weight is below the lower threshold.\<close>

theorem policy_decision_sound:
  assumes "claims \<noteq> []"
  shows "(pd_action (decide pe claims mode n snapshot) = ''pass'' \<longrightarrow>
            (\<forall>c \<in> set claims. is_required c \<longrightarrow> cl_final_status c \<noteq> ''contradicted''
               \<and> (mode = Factual \<longrightarrow> cl_final_status c \<noteq> ''insufficient''))
            \<and> error_ratio claims < pe_verifier_error_reject_ratio pe
            \<and> weight_of (supported_claims claims) \<ge> pe_pass_threshold pe * weight_of claims)
    \<and> (pd_action (decide pe claims mode n snapshot) = ''regenerate'' \<longrightarrow>
         n < pe_max_regenerates pe
         \<and> weight_of (supported_claims claims) < pe_filter_threshold pe * weight_of claims)"
proof -
  have none: "required_with st claims = [] \<longleftrightarrow> (\<forall>c \<in> set claims. is_required c \<longrightarrow> cl_final_status c \<noteq> st)" for st
    by (auto simp: required_with_def filter_empty_conv)
  have share: "t \<le> ws_overall (compute_weighted_score claims)
      \<longleftrightarrow> t * weight_of claims \<le> weight_of (supported_claims claims)" for t
    using weight_of_pos [OF assms] assms by (simp add: score_eq pos_le_divide_eq)
  show ?thesis
    using assms
    by (auto simp: decide_def Let_def new_decision_def none share not_le split: if_splits)
qed

theorem policy_decision_sound_witness:
  "pd_action (decide (init_engine None None None None) [demo_claim ''c1'' True ''supported''] Factual 0 None) = ''pass''
   \<and> weight_of (supported_claims [demo_claim ''c1'' True ''supported'']) \<ge> 85/100 * weight_of [demo_claim ''c1'' True ''supported'']"
proof -
  have p: "pd_action (decide (init_engine None None None None) [demo_claim ''c1'' True ''supported''] Factual 0 None) = ''pass''"
    by code_simp
  from policy_decision_sound [of "[demo_claim ''c1'' True ''supported'']" "init_engine None None None None" Factual 0 None] p
  show ?thesis by (simp add: init_engine_def)
qed

section \<open>Evidence offered for the next attempt\<close>

lemma collect_fold:
  assumes "distinct seen" and "[] \<notin> set seen"
  shows "distinct (foldl (\<lambda>seen eid. if eid \<noteq> [] \<and> eid \<notin> set seen then seen @ [eid] else seen) seen ids)
    \<and> set (foldl (\<lambda>seen eid. if eid \<noteq> [] \<and> eid \<notin> set seen then seen @ [eid] else seen) seen ids)
        = set seen \<union> (set ids - {[]})"
  using assms by (induction ids arbitrary: seen) auto

lemma collect_ids_exact:
  "distinct (collect_ids claims)"
  "set (collect_ids claims) = (\<Union>c \<in> set claims. set (cl_verified_support_ids c)) - {[]}"
  using collect_fold [of "[]" "concat (map cl_verified_support_ids claims)"]
  by (auto simp: collect_ids_def)

lemma allowed_of_decision:
  "pd_action (decide pe claims mode n snapshot) = ''regenerate'' \<Longrightarrow>
   pd_allowed_evidence_ids (decide pe claims mode n snapshot) = collect_allowed_evidence_ids claims snapshot
   \<and> pd_forbidden_claim_texts (decide pe claims mode n snapshot) = map cl_text (failed_claims claims)"
  by (auto simp: decide_def Let_def new_decision_def split: if_splits)

text \<open>What a regeneration is told. The evidence it may use is exactly the non-empty identifiers that
  some claim verified and that the current snapshot contains, each once; the texts it must not
  repeat are exactly those of the claims that are not supported.\<close>

theorem regeneration_feedback_exact:
  assumes "pd_action (decide pe claims mode n (Some evidences)) = ''regenerate''"
  shows "set (pd_allowed_evidence_ids (decide pe claims mode n (Some evidences)))
       = {eid. eid \<noteq> [] \<and> (\<exists>c \<in> set claims. eid \<in> set (cl_verified_support_ids c))
            \<and> (\<exists>ev \<in> set evidences. dget ev ''evidence_id'' = PStr eid)}
    \<and> distinct (pd_allowed_evidence_ids (decide pe claims mode n (Some evidences)))
    \<and> set (pd_forbidden_claim_texts (decide pe claims mode n (Some evidences)))
       = cl_text ` {c \<in> set claims. cl_final_status c \<noteq> ''supported''}"
proof -
  have mem: "py_in (PStr eid) (snapshot_ids evidences)
      \<longleftrightarrow> eid \<noteq> [] \<and> (\<exists>ev \<in> set evidences. dget ev ''evidence_id'' = PStr eid)" for eid
    by (auto simp: py_in_def snapshot_ids_def list_ex_iff image_iff eq_commute)
  show ?thesis
    using collect_ids_exact [of claims]
    by (auto simp: allowed_of_decision [OF assms] collect_allowed_evidence_ids_def mem failed_claims_def)
qed

theorem regeneration_feedback_exact_witness:
  "set (pd_allowed_evidence_ids (decide (init_engine None None None None) [demo_claim ''c1'' False ''pending'']
     Factual 0 (Some [[(''evidence_id'', PStr ''e1'')]]))) = {''e1''}"
proof -
  have "pd_action (decide (init_engine None None None None) [demo_claim ''c1'' False ''pending'']
     Factual 0 (Some [[(''evidence_id'', PStr ''e1'')]])) = ''regenerate''" by code_simp
  from regeneration_feedback_exact [OF this] show ?thesis
    by (auto simp: demo_claim_def)
qed

section \<open>Writing and reading decisions\<close>

lemma as_claims_map: "all_res as_claim (map (\<lambda>c. PDict (claim_to_dict c)) cs) = Inr cs"
  by (rule all_res_map) (simp add: claim_from_to_dict)

lemma as_strs_map: "all_res as_str (map PStr xs) = Inr xs"
  by (rule all_res_map) simp

text \<open>A decision survives the way through its dictionary form up to the rounding of its score to
  four places: every failed claim comes back whole, and all lists and statuses are unchanged.\<close>

theorem decision_round_trip:
  "decision_from_dict (decision_to_dict txt d)
     = Inr (d\<lparr>pd_faithfulness_score := round4 (pd_faithfulness_score d),
              pd_reason := Msg (txt (pd_reason d)) [],
              pd_regenerate_instruction := Msg (txt (pd_regenerate_instruction d)) []\<rparr>)"
  by (simp add: decision_from_dict_def decision_to_dict_def as_claims_map as_strs_map)

end
