(* ===== verification/Dep_Graph.thy ===== *)
theory Dep_Graph
  imports Prelude
begin

text \<open>
  The skill dependency graph (\<open>agent/langgraph/skills/dependency_graph.py\<close>, class
  \<open>SkillDependencyGraph\<close>): two adjacency dictionaries kept together, Kahn's topological sort and
  three-colour cycle detection. \<open>represents g E\<close> is the abstraction: the graph \<open>g\<close> stores the list of
  edges \<open>E\<close> in the order they were added.
\<close>

section \<open>State\<close>

record skill_dependency =
  dp_skill_id :: string
  dp_linked_skill_id :: string
  dp_version_constraint :: string
  dp_required :: bool
  dp_role :: string
  dp_selection_mode :: string

record dep_graph =
  dg_adj :: "(string \<times> skill_dependency list) list"
  dg_radj :: "(string \<times> skill_dependency list) list"
  dg_nodes :: "string list"

text \<open>The set of nodes is a list without duplicates; \<open>sorted\<close> fixes the order wherever it is used.\<close>

definition empty_graph :: dep_graph where
  "empty_graph = \<lparr>dg_adj = [], dg_radj = [], dg_nodes = []\<rparr>"

definition setdefault :: "('k \<times> 'v) list \<Rightarrow> 'k \<Rightarrow> 'v \<Rightarrow> ('k \<times> 'v) list" where
  "setdefault d k v = (case map_of d k of None \<Rightarrow> dset d k v | Some _ \<Rightarrow> d)"

definition add_node :: "string \<Rightarrow> dep_graph \<Rightarrow> dep_graph" where
  "add_node n g =
     \<lparr>dg_adj = setdefault (dg_adj g) n [], dg_radj = setdefault (dg_radj g) n [],
      dg_nodes = (if n \<in> set (dg_nodes g) then dg_nodes g else dg_nodes g @ [n])\<rparr>"

definition add_edge :: "skill_dependency \<Rightarrow> dep_graph \<Rightarrow> dep_graph" where
  "add_edge d g =
     (let g1 = add_node (dp_linked_skill_id d) (add_node (dp_skill_id d) g)
      in g1\<lparr>dg_adj := dset (dg_adj g1) (dp_skill_id d) (dget_or (dg_adj g1) (dp_skill_id d) [] @ [d]),
            dg_radj := dset (dg_radj g1) (dp_linked_skill_id d)
                         (dget_or (dg_radj g1) (dp_linked_skill_id d) [] @ [d])\<rparr>)"

definition get_dependencies :: "dep_graph \<Rightarrow> string \<Rightarrow> bool \<Rightarrow> string list" where
  "get_dependencies g n required_only =
     (let deps = dget_or (dg_adj g) n []
      in if required_only then map dp_linked_skill_id (filter dp_required deps)
         else map dp_linked_skill_id deps)"

definition get_dependents :: "dep_graph \<Rightarrow> string \<Rightarrow> string list" where
  "get_dependents g n = map dp_skill_id (dget_or (dg_radj g) n [])"

definition get_edges :: "dep_graph \<Rightarrow> string \<Rightarrow> skill_dependency list" where
  "get_edges g n = dget_or (dg_adj g) n []"

section \<open>Kahn's algorithm\<close>

type_synonym degrees = "(string \<times> int) list"

text \<open>The inner loop: the dependents of an emitted node lose one open dependency each.\<close>

fun notify :: "skill_dependency list \<Rightarrow> degrees \<Rightarrow> string list \<Rightarrow> (degrees \<times> string list) res" where
  "notify [] deg q = Inr (deg, q)"
| "notify (d # ds) deg q =
     (case map_of deg (dp_skill_id d) of
        None \<Rightarrow> Inl KeyError
      | Some k \<Rightarrow>
          notify ds (dset deg (dp_skill_id d) (k - 1)) (if k - 1 = 0 then q @ [dp_skill_id d] else q))"

definition open_nodes :: "degrees \<Rightarrow> nat" where
  "open_nodes deg = length (filter (\<lambda>p. snd p > 0) deg)"

lemma open_nodes_dset:
  "map_of deg n = Some k \<Longrightarrow>
     open_nodes (dset deg n (k - 1)) + (if k - 1 = 0 then 1 else 0) = open_nodes deg"
  by (induction deg) (auto simp: open_nodes_def split: if_splits)

lemma notify_measure:
  "notify ds deg q = Inr (deg', q') \<Longrightarrow> length q' + open_nodes deg' = length q + open_nodes deg"
proof (induction ds deg q rule: notify.induct)
  case (2 d ds deg q)
  then obtain k where k: "map_of deg (dp_skill_id d) = Some k" by (auto split: option.splits)
  with "2.IH" [OF k] "2.prems" open_nodes_dset [OF k] show ?case by (simp split: if_splits)
qed simp

function kahn ::
    "(string \<times> skill_dependency list) list \<Rightarrow> degrees \<Rightarrow> string list \<Rightarrow> string list \<Rightarrow> string list res" where
  "kahn radj deg [] order = Inr order"
| "kahn radj deg (n # q) order =
     (case notify (dget_or radj n []) deg q of
        Inl e \<Rightarrow> Inl e
      | Inr (deg', q') \<Rightarrow> kahn radj deg' q' (order @ [n]))"
  by pat_completeness auto
termination
  by (relation "measure (\<lambda>(radj, deg, q, order). length q + open_nodes deg)")
     (auto dest: notify_measure [symmetric])

definition in_degrees :: "dep_graph \<Rightarrow> degrees" where
  "in_degrees g = map (\<lambda>n. (n, int (length (dget_or (dg_adj g) n [])))) (dg_nodes g)"

definition topological_sort :: "dep_graph \<Rightarrow> string list res" where
  "topological_sort g =
     (let deg = in_degrees g
      in kahn (dg_radj g) deg (sort (filter (\<lambda>n. map_of deg n = Some 0) (dg_nodes g))) [])"

section \<open>Cycle detection\<close>

datatype colour = White | Gray | Black

datatype dfs_result = Found "string list" | Done "string \<Rightarrow> colour" | OutOfFuel

text \<open>The loop over the edges of \<open>node\<close> inside \<open>dfs\<close>, with \<open>path\<close> ending in \<open>node\<close>. The fuel bounds the
  depth of the recursion; one unit per node of the graph is enough (below).\<close>

fun dfs_edges ::
    "nat \<Rightarrow> (string \<Rightarrow> skill_dependency list) \<Rightarrow> string \<Rightarrow> string list \<Rightarrow> skill_dependency list
     \<Rightarrow> (string \<Rightarrow> colour) \<Rightarrow> dfs_result" where
  "dfs_edges fuel adj node path [] color = Done (color(node := Black))"
| "dfs_edges fuel adj node path (d # ds) color =
     (let t = dp_linked_skill_id d in
      case color t of
        Gray \<Rightarrow> Found (dropWhile (\<lambda>n. n \<noteq> t) path @ [t])
      | Black \<Rightarrow> dfs_edges fuel adj node path ds color
      | White \<Rightarrow>
          (case fuel of
             0 \<Rightarrow> OutOfFuel
           | Suc f \<Rightarrow>
               (case dfs_edges f adj t (path @ [t]) (adj t) (color(t := Gray)) of
                  Done color' \<Rightarrow> dfs_edges fuel adj node path ds color'
                | r \<Rightarrow> r)))"

fun dfs_roots ::
    "nat \<Rightarrow> (string \<Rightarrow> skill_dependency list) \<Rightarrow> string list \<Rightarrow> (string \<Rightarrow> colour) \<Rightarrow> dfs_result" where
  "dfs_roots fuel adj [] color = Done color"
| "dfs_roots fuel adj (n # ns) color =
     (if color n = White then
        (case dfs_edges fuel adj n [n] (adj n) (color(n := Gray)) of
           Done color' \<Rightarrow> dfs_roots fuel adj ns color'
         | r \<Rightarrow> r)
      else dfs_roots fuel adj ns color)"

definition run_dfs :: "dep_graph \<Rightarrow> dfs_result" where
  "run_dfs g =
     dfs_roots (length (dg_nodes g)) (\<lambda>n. dget_or (dg_adj g) n []) (sort (dg_nodes g)) (\<lambda>_. White)"

definition detect_cycle :: "dep_graph \<Rightarrow> string list option" where
  "detect_cycle g = (case run_dfs g of Found c \<Rightarrow> Some c | _ \<Rightarrow> None)"

section \<open>The graph as a list of edges\<close>

definition represents :: "dep_graph \<Rightarrow> skill_dependency list \<Rightarrow> bool" where
  "represents g E \<longleftrightarrow>
     distinct (dg_nodes g)
     \<and> (\<forall>n. dget_or (dg_adj g) n [] = filter (\<lambda>d. dp_skill_id d = n) E)
     \<and> (\<forall>n. dget_or (dg_radj g) n [] = filter (\<lambda>d. dp_linked_skill_id d = n) E)
     \<and> (\<forall>d \<in> set E. dp_skill_id d \<in> set (dg_nodes g) \<and> dp_linked_skill_id d \<in> set (dg_nodes g))"

lemma dget_or_setdefault [simp]: "dget_or (setdefault d k []) n [] = dget_or d n []"
  by (simp add: setdefault_def dget_or_def split: option.split)

lemma represents_empty: "represents empty_graph []"
  by (simp add: represents_def empty_graph_def)

lemma represents_add_node: "represents g E \<Longrightarrow> represents (add_node n g) E"
  by (auto simp: represents_def add_node_def)

lemma dg_nodes_add_node: "set (dg_nodes (add_node n g)) = insert n (set (dg_nodes g))"
  by (auto simp: add_node_def)

lemma represents_add_edge:
  assumes "represents g E"
  shows "represents (add_edge d g) (E @ [d])"
proof -
  let ?g1 = "add_node (dp_linked_skill_id d) (add_node (dp_skill_id d) g)"
  have g1: "represents ?g1 E" using assms by (intro represents_add_node)
  have "dp_skill_id d \<in> set (dg_nodes ?g1)" "dp_linked_skill_id d \<in> set (dg_nodes ?g1)"
    by (simp_all add: dg_nodes_add_node)
  with g1 show ?thesis by (auto simp: represents_def add_edge_def Let_def)
qed

text \<open>The dependency relation: \<open>(n, m)\<close> when \<open>n\<close> depends on \<open>m\<close>.\<close>

definition depends :: "skill_dependency list \<Rightarrow> (string \<times> string) set" where
  "depends E = (\<lambda>d. (dp_skill_id d, dp_linked_skill_id d)) ` set E"

section \<open>Correctness of the topological sort\<close>

abbreviation edges_of :: "skill_dependency list \<Rightarrow> string \<Rightarrow> nat" where
  "edges_of ds m \<equiv> length (filter (\<lambda>d. dp_skill_id d = m) ds)"

text \<open>The degrees count \<open>a m\<close> open dependencies of \<open>m\<close>, and the nodes seen are those with none.\<close>

definition counted :: "string set \<Rightarrow> (string \<Rightarrow> nat) \<Rightarrow> degrees \<Rightarrow> string list \<Rightarrow> bool" where
  "counted N a deg seen \<longleftrightarrow>
     (\<forall>m \<in> N. map_of deg m = Some (int (a m)) \<and> (m \<in> set seen \<longleftrightarrow> a m = 0))
     \<and> distinct seen \<and> set seen \<subseteq> N"

lemma notify_correct:
  assumes "counted N (\<lambda>m. a m + edges_of ds m) deg (base @ q)" and "\<forall>d \<in> set ds. dp_skill_id d \<in> N"
  shows "\<exists>deg' q'. notify ds deg q = Inr (deg', q') \<and> counted N a deg' (base @ q')"
  using assms
proof (induction ds deg q rule: notify.induct)
  case (1 deg q)
  then show ?case by simp
next
  case (2 d ds deg q)
  let ?m = "dp_skill_id d" and ?k = "int (a (dp_skill_id d) + edges_of (d # ds) (dp_skill_id d))"
  have m: "?m \<in> N" using "2.prems"(2) by simp
  have k: "map_of deg ?m = Some ?k" and new: "?m \<notin> set (base @ q)"
    using "2.prems"(1) m by (auto simp: counted_def)
  have k1: "?k - 1 = int (a ?m + edges_of ds ?m)" by simp
  have k0: "?k - 1 = 0 \<longleftrightarrow> a ?m + edges_of ds ?m = 0" unfolding k1 by linarith
  have "counted N (\<lambda>m. a m + edges_of ds m) (dset deg ?m (?k - 1))
      (base @ (if ?k - 1 = 0 then q @ [?m] else q))"
    unfolding counted_def
  proof (intro conjI ballI)
    show "distinct (base @ (if ?k - 1 = 0 then q @ [?m] else q))"
      using "2.prems"(1) new by (auto simp: counted_def)
    show "set (base @ (if ?k - 1 = 0 then q @ [?m] else q)) \<subseteq> N"
      using "2.prems"(1) m by (auto simp: counted_def)
    fix x assume x: "x \<in> N"
    show "map_of (dset deg ?m (?k - 1)) x = Some (int (a x + edges_of ds x))"
      using "2.prems"(1) x k1 by (auto simp: counted_def)
    show "(x \<in> set (base @ (if ?k - 1 = 0 then q @ [?m] else q))) = (a x + edges_of ds x = 0)"
      unfolding k0 using "2.prems"(1) x new by (cases "x = ?m") (auto simp: counted_def)
  qed
  with "2.IH" [OF k] "2.prems"(2) k show ?case by simp
qed

definition deps_first :: "skill_dependency list \<Rightarrow> string list \<Rightarrow> bool" where
  "deps_first E xs \<longleftrightarrow>
     (\<forall>i < length xs. \<forall>d \<in> set E. dp_skill_id d = xs ! i \<longrightarrow> dp_linked_skill_id d \<in> set (take i xs))"

lemma deps_first_snoc:
  "deps_first E (xs @ [n]) \<longleftrightarrow>
     deps_first E xs \<and> (\<forall>d \<in> set E. dp_skill_id d = n \<longrightarrow> dp_linked_skill_id d \<in> set xs)"
  by (auto simp: deps_first_def nth_append less_Suc_eq)

definition open_deps :: "skill_dependency list \<Rightarrow> string set \<Rightarrow> string \<Rightarrow> nat" where
  "open_deps E S n = length (filter (\<lambda>d. dp_skill_id d = n \<and> dp_linked_skill_id d \<notin> S) E)"

lemma open_deps_insert:
  assumes "n \<notin> S"
  shows "open_deps E S m =
    open_deps E (insert n S) m + edges_of (filter (\<lambda>d. dp_linked_skill_id d = n) E) m"
  by (induction E) (use assms in \<open>auto simp: open_deps_def\<close>)

lemma open_deps_0: "open_deps E S n = 0 \<longleftrightarrow> (\<forall>d \<in> set E. dp_skill_id d = n \<longrightarrow> dp_linked_skill_id d \<in> S)"
  by (auto simp: open_deps_def filter_empty_conv)

lemma kahn_correct:
  assumes "\<forall>n. dget_or radj n [] = filter (\<lambda>d. dp_linked_skill_id d = n) E"
    and "\<forall>d \<in> set E. dp_skill_id d \<in> N"
    and "counted N (open_deps E (set order)) deg (order @ q)" and "deps_first E order"
  shows "\<exists>res. kahn radj deg q order = Inr res \<and> deps_first E res \<and> distinct res \<and> set res \<subseteq> N
    \<and> (\<forall>n \<in> N. n \<in> set res \<longleftrightarrow> open_deps E (set res) n = 0)"
  using assms
proof (induction radj deg q order rule: kahn.induct)
  case (1 radj deg order)
  then show ?case by (auto simp: counted_def)
next
  case (2 radj deg n q order)
  let ?ds = "filter (\<lambda>d. dp_linked_skill_id d = n) E"
  have n: "n \<notin> set order" "n \<in> N" "open_deps E (set order) n = 0"
    using "2.prems"(3) by (auto simp: counted_def)
  have c: "counted N (\<lambda>m. open_deps E (set (order @ [n])) m + edges_of ?ds m) deg ((order @ [n]) @ q)"
    using "2.prems"(3) open_deps_insert [OF n(1), of E] by (simp add: counted_def)
  have "\<forall>d \<in> set ?ds. dp_skill_id d \<in> N" using "2.prems"(2) by simp
  from notify_correct [OF c this] obtain deg' q' where r: "notify ?ds deg q = Inr (deg', q')"
    "counted N (open_deps E (set (order @ [n]))) deg' ((order @ [n]) @ q')"
    by blast
  have "deps_first E (order @ [n])"
    using "2.prems"(4) n(3) by (simp add: deps_first_snoc open_deps_0)
  with "2.IH" [of "(deg', q')" deg' q'] r "2.prems"(1,2) show ?case by simp
qed

lemma in_degrees_lookup:
  "map_of (in_degrees g) n =
     (if n \<in> set (dg_nodes g) then Some (int (length (dget_or (dg_adj g) n []))) else None)"
  unfolding in_degrees_def by (induction "dg_nodes g") (auto simp: map_of_map_restrict)

lemma topological_sort_correct:
  assumes "represents g E"
  shows "\<exists>res. topological_sort g = Inr res \<and> deps_first E res \<and> distinct res
    \<and> set res \<subseteq> set (dg_nodes g)
    \<and> (\<forall>n \<in> set (dg_nodes g). n \<in> set res \<longleftrightarrow> (\<forall>m. (n, m) \<in> depends E \<longrightarrow> m \<in> set res))"
proof -
  let ?N = "set (dg_nodes g)" and ?q = "sort (filter (\<lambda>n. map_of (in_degrees g) n = Some 0) (dg_nodes g))"
  have deg: "map_of (in_degrees g) n = Some (int (open_deps E {} n))" if "n \<in> ?N" for n
    using that assms by (simp add: in_degrees_lookup represents_def open_deps_def)
  have "counted ?N (open_deps E (set [])) (in_degrees g) ([] @ ?q)"
    using assms deg by (auto simp: counted_def represents_def)
  moreover have "deps_first E []" by (simp add: deps_first_def)
  ultimately obtain res where "topological_sort g = Inr res" "deps_first E res" "distinct res"
    "set res \<subseteq> ?N" "\<forall>n \<in> ?N. n \<in> set res \<longleftrightarrow> open_deps E (set res) n = 0"
    using kahn_correct [of "dg_radj g" E ?N "[]" "in_degrees g" ?q] assms
    unfolding topological_sort_def represents_def Let_def by auto
  moreover have "open_deps E (set res) n = 0 \<longleftrightarrow> (\<forall>m. (n, m) \<in> depends E \<longrightarrow> m \<in> set res)" for n
    by (auto simp: open_deps_0 depends_def)
  ultimately show ?thesis by auto
qed

lemma finite_depends [simp]: "finite (depends E)"
  by (simp add: depends_def)

text \<open>A node is grounded when every chain of dependencies from it ends.\<close>

abbreviation grounded :: "skill_dependency list \<Rightarrow> string set" where
  "grounded E \<equiv> Wellfounded.acc ((depends E)\<inverse>)"

lemma groundedI: "(\<And>m. (n, m) \<in> depends E \<Longrightarrow> m \<in> grounded E) \<Longrightarrow> n \<in> grounded E"
  by (rule acc.intros) simp

lemma acyclic_iff_grounded: "acyclic (depends E) \<longleftrightarrow> (\<forall>d \<in> set E. dp_skill_id d \<in> grounded E)"
proof
  assume "acyclic (depends E)"
  then have "wf ((depends E)\<inverse>)" by (simp add: finite_acyclic_wf_converse)
  then show "\<forall>d \<in> set E. dp_skill_id d \<in> grounded E" by (simp add: wf_iff_acc)
next
  assume "\<forall>d \<in> set E. dp_skill_id d \<in> grounded E"
  then have "n \<in> grounded E" for n
  proof (cases "\<exists>d \<in> set E. dp_skill_id d = n")
    case False
    then have "(n, m) \<notin> depends E" for m by (auto simp: depends_def)
    then show ?thesis by (blast intro: groundedI)
  qed auto
  then have "wf ((depends E)\<inverse>)" by (simp add: wf_iff_acc)
  then show "acyclic (depends E)" using wf_acyclic acyclic_converse by blast
qed

lemma deps_first_grounded:
  assumes "deps_first E xs" and "i < length xs"
  shows "xs ! i \<in> grounded E"
  using assms(2)
proof (induction i rule: less_induct)
  case (less i)
  show ?case
  proof (rule groundedI)
    fix m assume "(xs ! i, m) \<in> depends E"
    with assms(1) less.prems have "m \<in> set (take i xs)" by (auto simp: deps_first_def depends_def)
    then obtain j where "j < i" "m = xs ! j" by (auto simp: in_set_conv_nth)
    with less show "m \<in> grounded E" by simp
  qed
qed

lemma sorted_all_iff_acyclic:
  assumes "represents g E" and "topological_sort g = Inr res"
  shows "set res = set (dg_nodes g) \<longleftrightarrow> acyclic (depends E)"
proof -
  have res: "deps_first E res" "set res \<subseteq> set (dg_nodes g)"
    "\<And>n. n \<in> set (dg_nodes g) \<Longrightarrow> (\<And>m. (n, m) \<in> depends E \<Longrightarrow> m \<in> set res) \<Longrightarrow> n \<in> set res"
    using topological_sort_correct [OF assms(1)] assms(2) by auto
  have nodes: "dp_skill_id d \<in> set (dg_nodes g)" "dp_linked_skill_id d \<in> set (dg_nodes g)" if "d \<in> set E" for d
    using assms(1) that by (auto simp: represents_def)
  show ?thesis
  proof
    assume all: "set res = set (dg_nodes g)"
    have "dp_skill_id d \<in> grounded E" if "d \<in> set E" for d
      using nodes(1) [OF that] deps_first_grounded [OF res(1)] all by (metis in_set_conv_nth)
    then show "acyclic (depends E)" by (simp add: acyclic_iff_grounded)
  next
    assume "acyclic (depends E)"
    then have wf: "wf ((depends E)\<inverse>)" by (simp add: finite_acyclic_wf_converse)
    have "n \<in> set (dg_nodes g) \<longrightarrow> n \<in> set res" for n
      using wf
    proof (induction n rule: wf_induct_rule)
      case (less n)
      show ?case
      proof
        assume "n \<in> set (dg_nodes g)"
        then show "n \<in> set res"
        proof (rule res(3))
          fix m assume m: "(n, m) \<in> depends E"
          then have "m \<in> set (dg_nodes g)" using nodes(2) by (auto simp: depends_def)
          with less m show "m \<in> set res" by simp
        qed
      qed
    qed
    with res(2) show "set res = set (dg_nodes g)" by auto
  qed
qed

section \<open>Correctness of the cycle detection\<close>

definition is_cycle :: "skill_dependency list \<Rightarrow> string list \<Rightarrow> bool" where
  "is_cycle E c \<longleftrightarrow> 2 \<le> length c \<and> hd c = last c \<and> successively (\<lambda>a b. (a, b) \<in> depends E) c"

definition dfs_inv :: "skill_dependency list \<Rightarrow> (string \<Rightarrow> colour) \<Rightarrow> string list \<Rightarrow> bool" where
  "dfs_inv E color path \<longleftrightarrow>
     (\<forall>n. color n = Gray \<longleftrightarrow> n \<in> set path) \<and> distinct path
     \<and> successively (\<lambda>a b. (a, b) \<in> depends E) path
     \<and> (\<forall>n. color n = Black \<longrightarrow> n \<in> grounded E)"

lemma back_edge_cycle:
  assumes "successively (\<lambda>a b. (a, b) \<in> depends E) (p @ [node])" and "t \<in> set (p @ [node])"
    and "(node, t) \<in> depends E"
  shows "is_cycle E (dropWhile (\<lambda>n. n \<noteq> t) (p @ [node]) @ [t])"
proof -
  let ?path = "p @ [node]" and ?c = "dropWhile (\<lambda>n. n \<noteq> t) (p @ [node])"
  have ne: "?c \<noteq> []" and hd: "hd ?c = t"
    using assms(2) hd_dropWhile [of "\<lambda>n. n \<noteq> t" ?path] by (auto simp: dropWhile_eq_Nil_conv)
  have split: "?path = takeWhile (\<lambda>n. n \<noteq> t) ?path @ ?c" by simp
  then have last: "last ?c = node" using ne by (metis last_appendR last_snoc)
  have "successively (\<lambda>a b. (a, b) \<in> depends E) ?c"
    using assms(1) split by (metis successively_append_iff)
  then have "successively (\<lambda>a b. (a, b) \<in> depends E) (?c @ [t])"
    using ne last assms(3) by (simp add: successively_append_iff)
  moreover have "2 \<le> length (?c @ [t])" using ne by (cases ?c) auto
  ultimately show ?thesis using hd ne by (auto simp: is_cycle_def hd_append)
qed

lemma dfs_inv_push:
  assumes "dfs_inv E color (p @ [node])" and "color t = White" and "(node, t) \<in> depends E"
  shows "dfs_inv E (color(t := Gray)) ((p @ [node]) @ [t])"
proof -
  have "t \<notin> set (p @ [node])" using assms(1,2) by (metis colour.distinct(1) dfs_inv_def)
  with assms show ?thesis by (auto simp: dfs_inv_def successively_append_iff)
qed

lemma dfs_inv_pop:
  assumes "dfs_inv E color (p @ [node])" and "\<And>m. (node, m) \<in> depends E \<Longrightarrow> color m = Black"
  shows "dfs_inv E (color(node := Black)) p"
proof -
  have i: "\<And>n. color n = Gray \<longleftrightarrow> n \<in> set (p @ [node])" "distinct (p @ [node])"
    "successively (\<lambda>a b. (a, b) \<in> depends E) (p @ [node])" "\<And>n. color n = Black \<Longrightarrow> n \<in> grounded E"
    using assms(1) unfolding dfs_inv_def by blast+
  have "node \<in> grounded E" by (rule groundedI) (rule i(4) [OF assms(2)])
  then have "\<forall>n. (color(node := Black)) n = Black \<longrightarrow> n \<in> grounded E" using i(4) by simp
  moreover have "\<forall>n. (color(node := Black)) n = Gray \<longleftrightarrow> n \<in> set p" using i(1,2) by simp
  moreover have "successively (\<lambda>a b. (a, b) \<in> depends E) p" using i(3) by (simp add: successively_append_iff)
  ultimately show ?thesis using i(2) unfolding dfs_inv_def by simp
qed

definition whites :: "string set \<Rightarrow> (string \<Rightarrow> colour) \<Rightarrow> string set" where
  "whites N color = {n \<in> N. color n = White}"

text \<open>The outcome of a search that started with \<open>color\<close>, where \<open>path\<close> remains below it.\<close>

definition dfs_post ::
    "skill_dependency list \<Rightarrow> (string \<Rightarrow> colour) \<Rightarrow> string list \<Rightarrow> string list \<Rightarrow> dfs_result \<Rightarrow> bool" where
  "dfs_post E color path ns r \<longleftrightarrow>
     (case r of
        Found c \<Rightarrow> is_cycle E c
      | OutOfFuel \<Rightarrow> False
      | Done color' \<Rightarrow>
          dfs_inv E color' path \<and> (\<forall>n \<in> set ns. color' n = Black)
          \<and> (\<forall>n. color n = Black \<longrightarrow> color' n = Black) \<and> (\<forall>n. color' n = White \<longrightarrow> color n = White))"

lemma dfs_post_trans:
  assumes "dfs_post E color1 path ns r" and "\<And>n. color n = Black \<Longrightarrow> color1 n = Black"
    and "\<And>n. color1 n = White \<Longrightarrow> color n = White"
  shows "dfs_post E color path ns r"
proof (cases r)
  case (Done color')
  show ?thesis using assms unfolding dfs_post_def Done dfs_result.case by blast
qed (use assms(1) in \<open>simp_all add: dfs_post_def\<close>)

lemma dfs_edges_correct:
  assumes "dfs_inv E color path" and "path = p @ [node]"
    and "\<forall>n. adj n = filter (\<lambda>d. dp_skill_id d = n) E" and "adj node = pre @ ds"
    and "\<forall>d \<in> set pre. color (dp_linked_skill_id d) = Black"
    and "\<forall>d \<in> set E. dp_linked_skill_id d \<in> N" and "finite N" and "card (whites N color) \<le> fuel"
  shows "dfs_post E color p [node] (dfs_edges fuel adj node path ds color)"
  using assms
proof (induction fuel adj node path ds color arbitrary: p pre rule: dfs_edges.induct)
  case (1 fuel adj node path color)
  have "color m = Black" if "(node, m) \<in> depends E" for m
    using 1 that by (auto simp: depends_def)
  with dfs_inv_pop 1 show ?case by (fastforce simp: dfs_post_def)
next
  case (2 fuel adj node path d ds color)
  let ?t = "dp_linked_skill_id d"
  have "d \<in> set (adj node)" using "2.prems"(4) by simp
  then have edge: "(node, ?t) \<in> depends E" and tN: "?t \<in> N"
    using "2.prems"(3,6) by (auto simp: depends_def)
  show ?case
  proof (cases "color ?t")
    case Gray
    with "2.prems"(1,2) edge have "is_cycle E (dropWhile (\<lambda>n. n \<noteq> ?t) path @ [?t])"
      by (auto simp: dfs_inv_def intro!: back_edge_cycle)
    with Gray show ?thesis by (simp add: dfs_post_def Let_def)
  next
    case Black
    then have "dfs_post E color p [node] (dfs_edges fuel adj node path ds color)"
      using "2.prems" by (intro "2.IH"(3) [of _ p "pre @ [d]"]) auto
    with Black show ?thesis by (simp add: Let_def)
  next
    case White
    have w: "whites N (color(?t := Gray)) = whites N color - {?t}" "?t \<in> whites N color"
      using White tN by (auto simp: whites_def)
    moreover have fin: "finite (whites N color)" using "2.prems"(7) by (simp add: whites_def)
    ultimately have "0 < card (whites N color)" by (auto simp: card_gt_0_iff)
    then obtain f where f: "fuel = Suc f" using "2.prems"(8) by (cases fuel) auto
    have cf: "card (whites N (color(?t := Gray))) \<le> f"
      using w fin f "2.prems"(8) by simp
    let ?r = "dfs_edges f adj ?t (path @ [?t]) (adj ?t) (color(?t := Gray))"
    have push: "dfs_inv E (color(?t := Gray)) (path @ [?t])"
      using dfs_inv_push "2.prems"(1,2) White edge by simp
    have r: "dfs_post E (color(?t := Gray)) path [?t] ?r"
      by (rule "2.IH"(1) [OF refl White f push refl "2.prems"(3) _ _ "2.prems"(6,7) cf, of "[]"]) simp_all
    show ?thesis
    proof (cases ?r)
      case (Done color')
      with r have c': "dfs_inv E color' path" "color' ?t = Black"
        "\<And>n. color n = Black \<Longrightarrow> color' n = Black" "\<And>n. color' n = White \<Longrightarrow> color n = White"
        by (auto simp: dfs_post_def split: if_splits)
      have "card (whites N color') \<le> card (whites N color)"
        using c'(4) fin by (intro card_mono) (auto simp: whites_def)
      then have "dfs_post E color' p [node] (dfs_edges fuel adj node path ds color')"
        using "2.prems" c' f Done White by (intro "2.IH"(2) [of _ f color' p "pre @ [d]"]) auto
      then have "dfs_post E color p [node] (dfs_edges fuel adj node path ds color')"
        using c'(3,4) by (rule dfs_post_trans)
      with Done White f show ?thesis by (simp add: Let_def)
    qed (use r White f in \<open>simp_all add: dfs_post_def Let_def\<close>)
  qed
qed

lemma dfs_roots_correct:
  assumes "dfs_inv E color []" and "\<forall>n. adj n = filter (\<lambda>d. dp_skill_id d = n) E"
    and "\<forall>d \<in> set E. dp_linked_skill_id d \<in> N" and "finite N" and "card (whites N color) \<le> fuel"
  shows "dfs_post E color [] ns (dfs_roots fuel adj ns color)"
  using assms
proof (induction fuel adj ns color rule: dfs_roots.induct)
  case (1 fuel adj color)
  then show ?case by (simp add: dfs_post_def)
next
  case (2 fuel adj n ns color)
  have nogray: "color m \<noteq> Gray" for m using "2.prems"(1) by (simp add: dfs_inv_def)
  show ?case
  proof (cases "color n = White")
    case False
    with nogray [of n] have black: "color n = Black" by (cases "color n") auto
    have "dfs_post E color [] ns (dfs_roots fuel adj ns color)" using "2.IH"(2) False "2.prems" by blast
    with black False show ?thesis by (simp add: dfs_post_def split: dfs_result.splits)
  next
    case True
    let ?r = "dfs_edges fuel adj n [n] (adj n) (color(n := Gray))"
    have "finite (whites N color)" using "2.prems"(4) by (simp add: whites_def)
    then have "card (whites N (color(n := Gray))) \<le> card (whites N color)"
      by (rule card_mono) (auto simp: whites_def)
    moreover have "dfs_inv E (color(n := Gray)) [n]"
      using "2.prems"(1) by (auto simp: dfs_inv_def)
    ultimately have r: "dfs_post E (color(n := Gray)) [] [n] ?r"
      using "2.prems" dfs_edges_correct [of E "color(n := Gray)" "[n]" "[]" n adj "[]" "adj n" N fuel]
      by auto
    show ?thesis
    proof (cases ?r)
      case (Done color')
      with r have c': "dfs_inv E color' []" "color' n = Black"
        "\<And>m. color m = Black \<Longrightarrow> color' m = Black" "\<And>m. color' m = White \<Longrightarrow> color m = White"
        using True by (auto simp: dfs_post_def split: if_splits)
      have "card (whites N color') \<le> card (whites N color)"
        using c'(4) \<open>finite (whites N color)\<close> by (intro card_mono) (auto simp: whites_def)
      then have post: "dfs_post E color' [] ns (dfs_roots fuel adj ns color')"
        using "2.IH"(1) [OF True Done c'(1) "2.prems"(2,3,4)] "2.prems"(5) by (meson le_trans)
      with c'(2) have "dfs_post E color' [] (n # ns) (dfs_roots fuel adj ns color')"
        by (simp add: dfs_post_def split: dfs_result.splits)
      then have "dfs_post E color [] (n # ns) (dfs_roots fuel adj ns color')"
        using c'(3,4) by (rule dfs_post_trans)
      with Done True show ?thesis by simp
    qed (use r True in \<open>simp_all add: dfs_post_def\<close>)
  qed
qed

lemma run_dfs_correct:
  assumes "represents g E"
  shows "dfs_post E (\<lambda>_. White) [] (sort (dg_nodes g)) (run_dfs g)"
proof -
  have "card (whites (set (dg_nodes g)) (\<lambda>_. White)) \<le> length (dg_nodes g)"
    using card_length by (simp add: whites_def)
  moreover have "dfs_inv E (\<lambda>_. White) []" by (simp add: dfs_inv_def)
  ultimately show ?thesis
    unfolding run_dfs_def using assms by (intro dfs_roots_correct) (auto simp: represents_def)
qed

lemma cycle_not_acyclic:
  assumes "is_cycle E c"
  shows "\<not> acyclic (depends E)"
proof -
  have step: "successively (\<lambda>a b. (a, b) \<in> depends E) (x # xs) \<Longrightarrow> xs \<noteq> [] \<Longrightarrow>
      (x, last xs) \<in> (depends E)\<^sup>+" for x xs
  proof (induction xs arbitrary: x)
    case (Cons y ys)
    then show ?case by (cases "ys = []") (auto intro: trancl_into_trancl2)
  qed simp
  from assms obtain x xs where "c = x # xs" "xs \<noteq> []" "x = last xs"
    "successively (\<lambda>a b. (a, b) \<in> depends E) (x # xs)"
    unfolding is_cycle_def by (cases c) (auto simp: numeral_2_eq_2 Suc_le_eq split: if_splits)
  with step [of x xs] show ?thesis by (auto simp: acyclic_def)
qed

lemma detect_cycle_correct:
  assumes "represents g E"
  shows "case detect_cycle g of None \<Rightarrow> acyclic (depends E) | Some c \<Rightarrow> is_cycle E c"
proof (cases "run_dfs g")
  case (Found c)
  with run_dfs_correct [OF assms] show ?thesis by (simp add: detect_cycle_def dfs_post_def)
next
  case (Done color')
  with run_dfs_correct [OF assms] have c: "dfs_inv E color' []" "\<forall>n \<in> set (dg_nodes g). color' n = Black"
    by (simp_all add: dfs_post_def)
  have "acyclic (depends E)"
    unfolding acyclic_iff_grounded
  proof
    fix d assume "d \<in> set E"
    then have "dp_skill_id d \<in> set (dg_nodes g)" using assms by (simp add: represents_def)
    with c show "dp_skill_id d \<in> grounded E" by (simp add: dfs_inv_def)
  qed
  with Done show ?thesis by (simp add: detect_cycle_def)
next
  case OutOfFuel
  with run_dfs_correct [OF assms] show ?thesis by (simp add: dfs_post_def)
qed

section \<open>Graphs as they are built\<close>

datatype graph_op = AddNode string | AddEdge skill_dependency

fun apply_graph_op :: "graph_op \<Rightarrow> dep_graph \<Rightarrow> dep_graph" where
  "apply_graph_op (AddNode n) g = add_node n g"
| "apply_graph_op (AddEdge d) g = add_edge d g"

definition build_graph :: "graph_op list \<Rightarrow> dep_graph" where
  "build_graph xs = fold apply_graph_op xs empty_graph"

primrec edges_added :: "graph_op list \<Rightarrow> skill_dependency list" where
  "edges_added [] = []"
| "edges_added (x # xs) = (case x of AddNode _ \<Rightarrow> [] | AddEdge d \<Rightarrow> [d]) @ edges_added xs"

lemma represents_fold:
  "represents g E \<Longrightarrow> represents (fold apply_graph_op xs g) (E @ edges_added xs)"
proof (induction xs arbitrary: g E)
  case (Cons x xs)
  show ?case
  proof (cases x)
    case (AddNode n)
    with Cons.IH [OF represents_add_node [OF Cons.prems, of n]] show ?thesis by simp
  next
    case (AddEdge d)
    with Cons.IH [OF represents_add_edge [OF Cons.prems, of d]] show ?thesis by simp
  qed
qed simp

lemma represents_build: "represents (build_graph xs) (edges_added xs)"
  using represents_fold [OF represents_empty] by (simp add: build_graph_def)

text \<open>The two adjacency dictionaries stay inverse to each other: in every graph built by
  \<open>add_node\<close> and \<open>add_edge\<close>, \<open>get_dependencies\<close> lists the targets of the edges added for a node
  and \<open>get_dependents\<close> their sources, in the order of insertion, so that \<open>m\<close> is a dependency of
  \<open>n\<close> exactly when \<open>n\<close> is a dependent of \<open>m\<close>.\<close>

theorem adjacency_refines_edges:
  "get_dependencies (build_graph xs) n False
     = map dp_linked_skill_id (filter (\<lambda>d. dp_skill_id d = n) (edges_added xs))
   \<and> get_dependents (build_graph xs) n
     = map dp_skill_id (filter (\<lambda>d. dp_linked_skill_id d = n) (edges_added xs))
   \<and> (m \<in> set (get_dependencies (build_graph xs) n False) \<longleftrightarrow> n \<in> set (get_dependents (build_graph xs) m))"
proof -
  have "get_dependencies (build_graph xs) k False
        = map dp_linked_skill_id (filter (\<lambda>d. dp_skill_id d = k) (edges_added xs))"
    "get_dependents (build_graph xs) k
        = map dp_skill_id (filter (\<lambda>d. dp_linked_skill_id d = k) (edges_added xs))" for k
    using represents_build [of xs] by (simp_all add: get_dependencies_def get_dependents_def represents_def)
  then show ?thesis by auto
qed

text \<open>C30: the topological sort of every graph that can be built returns (no \<open>KeyError\<close>, no endless
  loop) a list of its nodes without repetition in which everything a skill depends on comes before
  it; and it lists all nodes exactly when the dependencies have no cycle.\<close>

theorem topological_sort_is_correct:
  "\<exists>res. topological_sort (build_graph xs) = Inr res \<and> distinct res
     \<and> set res \<subseteq> set (dg_nodes (build_graph xs))
     \<and> deps_first (edges_added xs) res
     \<and> (set res = set (dg_nodes (build_graph xs)) \<longleftrightarrow> acyclic (depends (edges_added xs)))"
  using topological_sort_correct [OF represents_build [of xs]] sorted_all_iff_acyclic [OF represents_build [of xs]]
  by blast

text \<open>Cycle detection is exact: it reports no cycle exactly when the dependencies are acyclic, and
  what it reports is a cycle of the graph: a path of at least one edge, each a dependency that was
  added, that ends where it begins.\<close>

theorem detect_cycle_is_exact:
  "(detect_cycle (build_graph xs) = None \<longleftrightarrow> acyclic (depends (edges_added xs)))
   \<and> (case detect_cycle (build_graph xs) of None \<Rightarrow> True | Some c \<Rightarrow> is_cycle (edges_added xs) c)"
  using detect_cycle_correct [OF represents_build [of xs]] cycle_not_acyclic
  by (auto split: option.splits)

text \<open>The two algorithms agree: the topological sort leaves out nodes exactly when the cycle
  detection finds a cycle.\<close>

theorem sort_and_detection_agree:
  "(\<exists>res. topological_sort (build_graph xs) = Inr res \<and> set res = set (dg_nodes (build_graph xs)))
   \<longleftrightarrow> detect_cycle (build_graph xs) = None"
proof -
  obtain res where res: "topological_sort (build_graph xs) = Inr res"
    using topological_sort_correct [OF represents_build [of xs]] by blast
  have "detect_cycle (build_graph xs) = None \<longleftrightarrow> acyclic (depends (edges_added xs))"
    using detect_cycle_correct [OF represents_build [of xs]] cycle_not_acyclic
    by (auto split: option.splits)
  with sorted_all_iff_acyclic [OF represents_build [of xs] res] res show ?thesis by auto
qed

end
