(* ===== verification/Verdict_Matrix.thy ===== *)
theory Verdict_Matrix
  imports Claims Interfaces
begin

text \<open>
  The verdict matrix (\<open>agent/langgraph/evidence/verdict_matrix.py\<close>): an ordered list of typed rules
  turns a verified claim into its final status; the first rule that matches decides. The rules carry
  enumeration values, so the type checks of \<open>validate_rules\<close> hold by construction; a list, tuple or
  set of \<open>statuses\<close> is a \<open>PList\<close>, and \<open>str()\<close> of its members is \<open>show_py\<close> for non-strings.
\<close>

section \<open>Rules\<close>

datatype verdict_result = VerifierError | Contradicted | Insufficient | Supported

fun verdict_value :: "verdict_result \<Rightarrow> string" where
  "verdict_value VerifierError = ''verifier_error''"
| "verdict_value Contradicted = ''contradicted''"
| "verdict_value Insufficient = ''insufficient''"
| "verdict_value Supported = ''supported''"

datatype rule_condition = VerifierStatusIn | AnyLayerContradicted | RuleAndNliSupported
  | AllLayersSupported | NoVerifiedSupport | DefaultCondition

record verdict_rule =
  vr_condition :: rule_condition
  vr_verdict :: verdict_result
  vr_params :: pdict

definition DEFAULT_ERROR_STATUSES :: "string list" where
  "DEFAULT_ERROR_STATUSES = [''timeout'', ''error'', ''mixed'', ''budget_exhausted'']"

definition default_rules :: "verdict_rule list" where
  "default_rules =
     [\<lparr>vr_condition = VerifierStatusIn, vr_verdict = VerifierError,
       vr_params = [(''statuses'', strs DEFAULT_ERROR_STATUSES)]\<rparr>,
      \<lparr>vr_condition = AnyLayerContradicted, vr_verdict = Contradicted, vr_params = []\<rparr>,
      \<lparr>vr_condition = NoVerifiedSupport, vr_verdict = Insufficient, vr_params = []\<rparr>,
      \<lparr>vr_condition = AllLayersSupported, vr_verdict = Supported, vr_params = []\<rparr>,
      \<lparr>vr_condition = DefaultCondition, vr_verdict = Insufficient, vr_params = []\<rparr>]"

section \<open>Validation\<close>

fun nonempty_list :: "pyval \<Rightarrow> bool" where
  "nonempty_list (PList xs) = (xs \<noteq> [])"
| "nonempty_list _ = False"

definition default_indices :: "verdict_rule list \<Rightarrow> nat list" where
  "default_indices rules = filter (\<lambda>i. vr_condition (rules ! i) = DefaultCondition) [0..<length rules]"

definition default_errors :: "verdict_rule list \<Rightarrow> message list" where
  "default_errors rules =
     (let di = default_indices rules in
      if di = [] then [Msg ''no DEFAULT rule'' []]
      else if length di > 1 then [Msg ''several DEFAULT rules'' [PInt (int (length di))]]
      else if hd di \<noteq> length rules - 1 then [Msg ''the DEFAULT rule must be last'' []]
      else [])"

definition status_errors :: "verdict_rule list \<Rightarrow> message list" where
  "status_errors rules =
     map (\<lambda>i. Msg ''VERIFIER_STATUS_IN without statuses'' [PInt (int i)])
       (filter (\<lambda>i. vr_condition (rules ! i) = VerifierStatusIn
                    \<and> \<not> nonempty_list (dget (vr_params (rules ! i)) ''statuses'')) [0..<length rules])"

definition validate_rules :: "verdict_rule list \<Rightarrow> message list" where
  "validate_rules rules =
     (if rules = [] then [Msg ''the rule list is empty'' []]
      else default_errors rules @ status_errors rules)"

text \<open>\<open>VerdictMatrix.__init__\<close>: the rules of the matrix, or the \<open>ValueError\<close>.\<close>

definition init_matrix :: "verdict_rule list option \<Rightarrow> verdict_rule list res" where
  "init_matrix rules =
     (let rs = (case rules of None \<Rightarrow> default_rules | Some r \<Rightarrow> r)
      in if validate_rules rs \<noteq> [] then Inl ValueError else Inr rs)"

section \<open>Matching\<close>

definition is_contradiction :: "string \<Rightarrow> bool" where
  "is_contradiction v \<longleftrightarrow> lower v \<in> {''contradicted'', ''contradiction''}"

definition is_rule_llm_support :: "string \<Rightarrow> bool" where
  "is_rule_llm_support v \<longleftrightarrow> lower v = ''supported''"

definition is_nli_support :: "string \<Rightarrow> bool" where
  "is_nli_support v \<longleftrightarrow> lower v = ''entailment''"

definition any_layer_contradicted :: "evidence_claim \<Rightarrow> bool" where
  "any_layer_contradicted c =
     list_ex (\<lambda>v. is_contradiction (pv_rule_result v) \<or> is_contradiction (pv_nli_result v)
                  \<or> is_contradiction (pv_llm_result v)) (cl_pair_verdicts c)"

text \<open>\<open>_aggregate_layers\<close>: the flags of the rule, the NLI and the LLM layer.\<close>

definition layer_step :: "bool \<times> bool \<times> bool \<Rightarrow> pair_verdict \<Rightarrow> bool \<times> bool \<times> bool" where
  "layer_step f v =
     (case f of (r, n, l) \<Rightarrow>
        (if is_rule_llm_support (pv_rule_result v) then True else r,
         if is_nli_support (pv_nli_result v) then True else n,
         if is_rule_llm_support (pv_llm_result v) then True else l))"

definition aggregate_layers :: "evidence_claim \<Rightarrow> bool \<times> bool \<times> bool" where
  "aggregate_layers c = foldl layer_step (False, False, False) (cl_pair_verdicts c)"

definition all_layers_supported :: "evidence_claim \<Rightarrow> bool" where
  "all_layers_supported c = (case aggregate_layers c of (r, n, l) \<Rightarrow> r \<and> n \<and> l)"

fun list_items :: "pyval \<Rightarrow> pyval list" where
  "list_items (PList xs) = xs"
| "list_items _ = []"

definition match_rule :: "(pyval \<Rightarrow> string) \<Rightarrow> evidence_claim \<Rightarrow> verdict_rule \<Rightarrow> bool" where
  "match_rule show_py c rule =
     (case vr_condition rule of
        DefaultCondition \<Rightarrow> True
      | VerifierStatusIn \<Rightarrow>
          cl_verifier_status c \<in>
            set (map (py_str show_py) (list_items (dget_or (vr_params rule) ''statuses'' (PList []))))
      | AnyLayerContradicted \<Rightarrow> any_layer_contradicted c
      | NoVerifiedSupport \<Rightarrow> \<not> has_verified_support c
      | AllLayersSupported \<Rightarrow> all_layers_supported c
      | RuleAndNliSupported \<Rightarrow> (case aggregate_layers c of (r, n, l) \<Rightarrow> r \<and> n))"

definition judge :: "(pyval \<Rightarrow> string) \<Rightarrow> verdict_rule list \<Rightarrow> evidence_claim \<Rightarrow> string" where
  "judge show_py rules c =
     (case first_match (match_rule show_py c) rules of
        Some r \<Rightarrow> verdict_value (vr_verdict r)
      | None \<Rightarrow> verdict_value Insufficient)"

section \<open>A validated matrix always decides\<close>

interpretation matrix: ordered_rules "match_rule show_py" "\<lambda>r. vr_condition r = DefaultCondition" for show_py
  by unfold_locales (simp add: match_rule_def)

lemma default_errors_Nil:
  assumes "default_errors rules = []"
  shows "rules \<noteq> [] \<and> vr_condition (last rules) = DefaultCondition
    \<and> (\<forall>r \<in> set (butlast rules). vr_condition r \<noteq> DefaultCondition)"
proof -
  let ?di = "default_indices rules"
  have di: "?di \<noteq> []" "length ?di \<le> 1" "hd ?di = length rules - 1"
    using assms by (auto simp: default_errors_def Let_def split: if_splits)
  then have one: "?di = [length rules - 1]" by (cases ?di) auto
  then have "length rules - 1 \<in> set ?di" by simp
  then have last: "rules \<noteq> []" "vr_condition (rules ! (length rules - 1)) = DefaultCondition"
    by (auto simp: default_indices_def)
  have "vr_condition (butlast rules ! i) \<noteq> DefaultCondition" if "i < length (butlast rules)" for i
  proof
    assume "vr_condition (butlast rules ! i) = DefaultCondition"
    with that have "i \<in> set ?di" by (auto simp: default_indices_def nth_butlast)
    with one that show False by simp
  qed
  with last show ?thesis by (auto simp: last_conv_nth in_set_conv_nth)
qed

lemma init_matrix_Inr:
  assumes "init_matrix rs = Inr rules"
  shows "default_errors rules = []" and "status_errors rules = []"
  using assms by (auto simp: init_matrix_def validate_rules_def Let_def split: if_splits)

text \<open>A matrix that passes validation decides every claim by one of its rules: the first that
  matches. Its last rule is the only catch-all, so the fall-back after the loop of \<open>judge\<close> is never
  reached and no rule is cut off by an earlier catch-all.\<close>

theorem validated_matrix_decides:
  assumes "init_matrix rs = Inr rules"
  shows "\<exists>pre r post. rules = pre @ r # post \<and> match_rule show_py c r
    \<and> (\<forall>q \<in> set pre. \<not> match_rule show_py c q \<and> vr_condition q \<noteq> DefaultCondition)
    \<and> judge show_py rules c = verdict_value (vr_verdict r)"
proof -
  have d: "rules \<noteq> []" "vr_condition (last rules) = DefaultCondition"
    using default_errors_Nil [OF init_matrix_Inr(1) [OF assms]] by auto
  then obtain r where r: "first_match (match_rule show_py c) rules = Some r"
    by (metis last_in_set matrix.decided)
  then obtain pre post where s: "rules = pre @ r # post" "match_rule show_py c r"
    "\<forall>q \<in> set pre. \<not> match_rule show_py c q"
    by (auto simp: first_match_Some_iff)
  have "vr_condition q \<noteq> DefaultCondition" if "q \<in> set pre" for q
    using s(3) that matrix.catch_all_matches by blast
  with r s show ?thesis by (auto simp: judge_def)
qed

lemma default_matrix: "init_matrix None = Inr default_rules"
  by code_simp

theorem validated_matrix_decides_witness:
  "\<exists>pre r post. default_rules = pre @ r # post \<and> match_rule (\<lambda>_. []) (new_claim ''c'' ''t'') r
     \<and> judge (\<lambda>_. []) default_rules (new_claim ''c'' ''t'') = verdict_value (vr_verdict r)"
  using validated_matrix_decides [OF default_matrix, of "\<lambda>_. []" "new_claim ''c'' ''t''"] by blast

section \<open>The default rules\<close>

lemma foldl_layer_step:
  "foldl layer_step (r, n, l) vs =
     (r \<or> (\<exists>v \<in> set vs. is_rule_llm_support (pv_rule_result v)),
      n \<or> (\<exists>v \<in> set vs. is_nli_support (pv_nli_result v)),
      l \<or> (\<exists>v \<in> set vs. is_rule_llm_support (pv_llm_result v)))"
  by (induction vs arbitrary: r n l) (auto simp: layer_step_def)

lemma all_layers_supported_iff:
  "all_layers_supported c \<longleftrightarrow>
     (\<exists>v \<in> set (cl_pair_verdicts c). is_rule_llm_support (pv_rule_result v))
     \<and> (\<exists>v \<in> set (cl_pair_verdicts c). is_nli_support (pv_nli_result v))
     \<and> (\<exists>v \<in> set (cl_pair_verdicts c). is_rule_llm_support (pv_llm_result v))"
  by (simp add: all_layers_supported_def aggregate_layers_def foldl_layer_step)

lemma judge_default:
  "judge show_py default_rules c =
     (if cl_verifier_status c \<in> set DEFAULT_ERROR_STATUSES then ''verifier_error''
      else if any_layer_contradicted c then ''contradicted''
      else if has_verified_support c \<and> all_layers_supported c then ''supported''
      else ''insufficient'')"
  by (simp add: judge_def default_rules_def match_rule_def comp_def)

text \<open>C39: what it takes to be judged \<open>supported\<close> by the default matrix. For a claim that collected the
  verdicts \<open>vs\<close> and then pooled its verifier state: every verdict came from a verifier that worked,
  no layer of any verdict reported a contradiction, some verdict has the status \<open>supported\<close>, and
  each of the three layers supports the claim in some verdict. In particular a verifier failure
  can never yield \<open>supported\<close>.\<close>

theorem supported_is_earned:
  assumes "judge show_py default_rules
    (snd (aggregate_verifier_status (fold add_pair_verdict vs (new_claim i t)))) = ''supported''"
  shows "(\<forall>v \<in> set vs. pv_verifier_status v = ''ok'')
    \<and> (\<forall>v \<in> set vs. \<forall>x \<in> {pv_rule_result v, pv_nli_result v, pv_llm_result v}. \<not> is_contradiction x)
    \<and> (\<exists>v \<in> set vs. pv_pair_status v = ''supported'')
    \<and> (\<exists>v \<in> set vs. is_rule_llm_support (pv_rule_result v))
    \<and> (\<exists>v \<in> set vs. is_nli_support (pv_nli_result v))
    \<and> (\<exists>v \<in> set vs. is_rule_llm_support (pv_llm_result v))"
proof -
  define c0 where "c0 = fold add_pair_verdict vs (new_claim i t)"
  define c where "c = snd (aggregate_verifier_status c0)"
  have inv: "claim_inv c0" unfolding c0_def by (rule claim_inv_fold [OF claim_inv_new])
  have vs: "cl_pair_verdicts c0 = vs" unfolding c0_def by (simp add: fold_add_verdicts new_claim_def)
  have c: "cl_pair_verdicts c = vs" "cl_verified_support_ids c = cl_verified_support_ids c0"
    "cl_verifier_status c = pooled_status vs"
    by (simp_all add: c_def aggregate_verifier_status_def Let_def vs)
  have "judge show_py default_rules c = ''supported''" using assms by (simp add: c_def c0_def)
  then have j: "pooled_status vs \<notin> set DEFAULT_ERROR_STATUSES" "\<not> any_layer_contradicted c"
    "has_verified_support c" "all_layers_supported c"
    unfolding judge_default c(3) by (simp_all split: if_splits)
  have "ids_with ''supported'' c0 \<noteq> {}"
    using j(3) inv c(2) by (auto simp: has_verified_support_def claim_inv_def simp flip: set_empty)
  then have "\<exists>v \<in> set vs. pv_pair_status v = ''supported''" by (auto simp: ids_with_def vs)
  moreover from this have "vs \<noteq> []" by auto
  moreover from this j(1) have "\<forall>v \<in> set vs. pv_verifier_status v = ''ok''"
    by (auto simp: pooled_status_def DEFAULT_ERROR_STATUSES_def image_set_singleton Let_def split: if_splits)
  moreover have "\<forall>v \<in> set vs. \<forall>x \<in> {pv_rule_result v, pv_nli_result v, pv_llm_result v}. \<not> is_contradiction x"
    using j(2) c(1) by (auto simp: any_layer_contradicted_def list_ex_iff)
  ultimately show ?thesis using j(4) c(1) by (simp add: all_layers_supported_iff)
qed

theorem supported_is_earned_witness:
  "\<exists>v \<in> set [demo_verdict ''ok'']. is_nli_support (pv_nli_result v)"
proof -
  have "judge (\<lambda>_. []) default_rules (snd (aggregate_verifier_status
      (fold add_pair_verdict [demo_verdict ''ok''] (new_claim ''c'' ''t'')))) = ''supported''"
    by code_simp
  from supported_is_earned [OF this] show ?thesis by blast
qed

text \<open>The default matrix does not consult the contradicting identifiers of a claim: with one verdict
  that supports it in every layer, any number of further verdicts with the status \<open>contradicted\<close> but
  no layer result leaves it \<open>supported\<close>, although the claim then has contradicting evidence.\<close>

theorem contradicting_ids_are_not_consulted:
  "let bad = (demo_verdict ''ok'')\<lparr>pv_evidence_id := e, pv_pair_status := ''contradicted'',
                pv_rule_result := ''unknown'', pv_nli_result := ''unknown'', pv_llm_result := ''unknown''\<rparr>;
       c = snd (aggregate_verifier_status
             (fold add_pair_verdict (demo_verdict ''ok'' # replicate (Suc n) bad) (new_claim i t)))
   in has_contradiction c \<and> judge show_py default_rules c = ''supported''"
proof -
  define bad where "bad = (demo_verdict ''ok'')\<lparr>pv_evidence_id := e, pv_pair_status := ''contradicted'',
    pv_rule_result := ''unknown'', pv_nli_result := ''unknown'', pv_llm_result := ''unknown''\<rparr>"
  let ?vs = "demo_verdict ''ok'' # replicate (Suc n) bad"
  define c0 where "c0 = fold add_pair_verdict ?vs (new_claim i t)"
  define c where "c = snd (aggregate_verifier_status c0)"
  have inv: "claim_inv c0" unfolding c0_def by (rule claim_inv_fold [OF claim_inv_new])
  have vs: "cl_pair_verdicts c0 = ?vs" unfolding c0_def by (simp only: fold_add_verdicts) (simp add: new_claim_def)
  have c: "cl_pair_verdicts c = ?vs" "cl_verified_support_ids c = cl_verified_support_ids c0"
    "cl_contradicting_ids c = cl_contradicting_ids c0" "cl_verifier_status c = pooled_status ?vs"
    by (simp_all add: c_def aggregate_verifier_status_def Let_def vs)
  have "pv_verifier_status ` set ?vs = {''ok''}"
    unfolding image_set_singleton by (simp add: bad_def demo_verdict_def)
  then have ok: "pooled_status ?vs = ''ok''" by (simp only: pooled_status_def Let_def list.distinct if_False if_True refl)
  have u: "\<not> is_contradiction ''unknown''" "\<not> is_contradiction ''supported''" "\<not> is_contradiction ''entailment''"
    "is_rule_llm_support ''supported''" "is_nli_support ''entailment''"
    by code_simp+
  have "pv_evidence_id bad \<in> ids_with ''contradicted'' c0"
    by (rule ids_withI) (simp_all only: vs, simp_all add: bad_def)
  moreover have "pv_evidence_id (demo_verdict ''ok'') \<in> ids_with ''supported'' c0"
    by (rule ids_withI) (simp_all only: vs, simp_all add: demo_verdict_def)
  ultimately have e: "pv_evidence_id bad \<in> set (cl_contradicting_ids c)"
    "pv_evidence_id (demo_verdict ''ok'') \<in> set (cl_verified_support_ids c)"
    using inv c(2,3) by (simp_all add: claim_inv_def)
  then have "has_contradiction c" "has_verified_support c"
    by (auto simp: has_contradiction_def has_verified_support_def)
  moreover have "\<not> any_layer_contradicted c" "all_layers_supported c"
    using c(1) u by (auto simp: any_layer_contradicted_def all_layers_supported_iff list_ex_iff bad_def demo_verdict_def)
  moreover have "cl_verifier_status c \<notin> set DEFAULT_ERROR_STATUSES"
    using c(4) ok by (simp add: DEFAULT_ERROR_STATUSES_def)
  ultimately have "has_contradiction c \<and> judge show_py default_rules c = ''supported''"
    by (simp add: judge_default)
  then show ?thesis unfolding c_def c0_def bad_def by (simp add: Let_def)
qed

end
