(* ===== verification/Human_Review.thy ===== *)
theory Human_Review
  imports Interfaces
begin

text \<open>
  Human review of reports (\<open>agent/langgraph/tools/report/human_review.py\<close>): when a report must be
  reviewed, the initial review record, and how a reviewer's action changes the publish status. Reports
  and review results are dictionaries; comparing a confidence that is no number raises.
\<close>

section \<open>When a report needs a review\<close>

definition HIGH_SENSITIVITY_SKILL_TYPES :: "string list" where
  "HIGH_SENSITIVITY_SKILL_TYPES =
     [''financial_report'', ''cost_analysis'', ''quality_analysis'', ''ehs_report'', ''hr_report'',
      ''compliance_report'']"

definition DEFAULT_LOW_CONFIDENCE_THRESHOLD :: rat where
  "DEFAULT_LOW_CONFIDENCE_THRESHOLD = 7 / 10"

definition DEFAULT_LOW_CONFIDENCE_RATIO_THRESHOLD :: rat where
  "DEFAULT_LOW_CONFIDENCE_RATIO_THRESHOLD = 3 / 10"

text \<open>The test of one claim: flagged, or \<open>(confidence or 1.0) < threshold\<close>.\<close>

fun low_confidence :: "rat \<Rightarrow> pyval \<Rightarrow> bool res" where
  "low_confidence thr (PDict c) =
     (if truthy (dget_or c ''needs_human_review'' (PBool False)) then Inr True
      else rbind (number_or_raise (py_or (dget_or c ''confidence'' (PFloat 1)) (PFloat 1)))
             (\<lambda>r. Inr (r < thr)))"
| "low_confidence thr _ = Inl AttributeError"

fun count_low :: "rat \<Rightarrow> pyval list \<Rightarrow> nat res" where
  "count_low thr [] = Inr 0"
| "count_low thr (c # cs) =
     rbind (low_confidence thr c) (\<lambda>b. rbind (count_low thr cs) (\<lambda>n. Inr (if b then Suc n else n)))"

definition should_require_human_review ::
    "pdict \<Rightarrow> pdict option \<Rightarrow> string \<Rightarrow> rat \<Rightarrow> rat \<Rightarrow> (bool \<times> message) res" where
  "should_require_human_review artifact publish_policy skill_type thr ratio_thr =
     (if (case publish_policy of None \<Rightarrow> False
            | Some p \<Rightarrow> p \<noteq> [] \<and> truthy (dget_or p ''require_human_review'' (PBool False))) then
        Inr (True, Msg ''publish_policy.require_human_review=true'' [])
      else if skill_type \<in> set HIGH_SENSITIVITY_SKILL_TYPES then
        Inr (True, Msg ''high-sensitivity skill type'' [PStr skill_type])
      else
        (let claims = py_or (dget_or artifact ''claims'' (PList [])) (PList []) in
         if \<not> truthy claims then Inr (False, Msg ''no claims, skipped'' [])
         else
           rbind (py_iter claims) (\<lambda>cs.
           rbind (count_low thr cs) (\<lambda>low.
             let ratio = of_nat low / of_nat (length cs)
             in Inr (if ratio > ratio_thr
                     then (True, Msg ''ratio of low-confidence claims'' [PFloat ratio, PFloat ratio_thr])
                     else (False, NoMsg))))))"

section \<open>Publish status\<close>

definition transition_publish_status :: "pyval \<Rightarrow> pdict \<Rightarrow> pyval \<times> message" where
  "transition_publish_status current review =
     (if review = [] then (current, NoMsg)
      else
        (let action = dget_or review ''action'' (PStr []);
             approved = truthy (dget_or review ''approved'' (PBool False));
             publish_allowed = truthy (dget_or review ''publish_allowed'' (PBool False))
         in if action = PStr ''approve'' \<and> approved then
              (if publish_allowed then (PStr ''published'', Msg ''approved and publishing allowed'' [])
               else (PStr ''approved'', Msg ''approved, waiting to be published'' []))
            else if action = PStr ''reject'' then (PStr ''rejected'', Msg ''rejected'' [])
            else if action = PStr ''request_regenerate'' then (PStr ''draft'', Msg ''regeneration requested'' [])
            else if action = PStr ''edit'' \<or> action = PStr ''comment'' then
              (current, Msg ''user action'' [action])
            else (current, NoMsg)))"

definition build_initial_human_review_result :: "bool \<Rightarrow> message \<Rightarrow> string \<Rightarrow> (message \<Rightarrow> string) \<Rightarrow> pdict" where
  "build_initial_human_review_result requires reason skill_type render =
     [(''action'', PStr ''comment''), (''reviewer_id'', PStr []), (''reviewed_at'', PStr []),
      (''comments'',
         if requires then
           PList [PDict [(''reviewer_id'', PStr ''system''), (''comment'', PStr (render reason)),
                         (''skill_type'', PStr skill_type)]]
         else PList []),
      (''edited_sections'', PList []), (''approved'', PBool (\<not> requires)),
      (''publish_allowed'', PBool (\<not> requires))]"

record review_config =
  hc_low_confidence_threshold :: "rat option"
  hc_low_confidence_ratio_threshold :: "rat option"

text \<open>\<open>HumanReviewNode.evaluate\<close>; \<open>render\<close> is the text of the system comment for a reason.\<close>

definition evaluate_review ::
    "review_config \<Rightarrow> (message \<Rightarrow> string) \<Rightarrow> pdict \<Rightarrow> pdict option \<Rightarrow> string \<Rightarrow> (string \<times> message \<times> pdict) res" where
  "evaluate_review cfg render artifact publish_policy skill_type =
     rbind (should_require_human_review artifact publish_policy skill_type
              (case hc_low_confidence_threshold cfg of None \<Rightarrow> DEFAULT_LOW_CONFIDENCE_THRESHOLD | Some t \<Rightarrow> t)
              (case hc_low_confidence_ratio_threshold cfg of
                 None \<Rightarrow> DEFAULT_LOW_CONFIDENCE_RATIO_THRESHOLD | Some t \<Rightarrow> t))
       (\<lambda>(requires, reason).
          let rr = build_initial_human_review_result requires reason skill_type render
          in Inr (if requires then (''pending_review'', reason, rr)
                  else (''approved'', reason,
                        dset (dset rr ''approved'' (PBool True)) ''publish_allowed'' (PBool True))))"

text \<open>\<open>HumanReviewNode.apply_review\<close>: the artifact with the new status (the status is also returned).
  The reason is written only if there is one; \<open>render\<close> gives its text.\<close>

definition apply_review :: "(message \<Rightarrow> string) \<Rightarrow> pdict \<Rightarrow> pdict \<Rightarrow> pyval \<times> pdict" where
  "apply_review render artifact review =
     (let current = dget_or artifact ''publish_status'' (PStr ''draft'');
          (new_status, reason) = transition_publish_status current review;
          a1 = dset artifact ''publish_status'' new_status;
          a2 = dset a1 ''human_review_result'' (PDict review);
          a3 = (if reason \<noteq> NoMsg then dset a2 ''publish_status_reason'' (PStr (render reason)) else a2)
      in (new_status, a3))"

section \<open>Properties\<close>

abbreviation status_of :: "pdict \<Rightarrow> pyval" where
  "status_of a \<equiv> dget_or a ''publish_status'' (PStr ''draft'')"

definition allows_publishing :: "pdict \<Rightarrow> bool" where
  "allows_publishing r \<longleftrightarrow>
     dget_or r ''action'' (PStr []) = PStr ''approve''
     \<and> truthy (dget_or r ''approved'' (PBool False)) \<and> truthy (dget_or r ''publish_allowed'' (PBool False))"

lemma status_apply_review:
  "status_of (snd (apply_review render a r)) = fst (transition_publish_status (status_of a) r)"
  by (simp add: apply_review_def Let_def case_prod_beta)

lemma published_step:
  "fst (transition_publish_status s r) = PStr ''published'' \<Longrightarrow> s = PStr ''published'' \<or> allows_publishing r"
  by (auto simp: transition_publish_status_def allows_publishing_def Let_def split: if_splits)

text \<open>C38: a report is published only by an explicit decision: if it is published after any sequence of
  reviews, then it was published before or one of the reviews is an \<open>approve\<close> that is marked as
  approved and as allowed to publish. Comments, edits, rejections and incomplete records never do it.\<close>

theorem publishing_needs_approval:
  assumes "status_of (run_ops (\<lambda>a r. snd (apply_review render a r)) a rs) = PStr ''published''"
  shows "status_of a = PStr ''published'' \<or> (\<exists>r \<in> set rs. allows_publishing r)"
  using assms
proof (induction rs arbitrary: a)
  case (Cons r rs)
  then have "status_of (snd (apply_review render a r)) = PStr ''published'' \<or> (\<exists>r \<in> set rs. allows_publishing r)"
    by simp
  with published_step show ?case by (auto simp: status_apply_review)
qed simp

definition demo_approval_review :: pdict where
  "demo_approval_review =
     [(''action'', PStr ''approve''), (''approved'', PBool True), (''publish_allowed'', PBool True)]"

theorem publishing_needs_approval_witness:
  "\<exists>r \<in> set [[(''action'', PStr ''comment'')], demo_approval_review]. allows_publishing r"
proof -
  have "status_of (run_ops (\<lambda>a r. snd (apply_review (\<lambda>_. []) a r)) []
      [[(''action'', PStr ''comment'')], demo_approval_review]) = PStr ''published''"
    by code_simp
  from publishing_needs_approval [OF this] show ?thesis by simp
qed

text \<open>The decision of a reviewer overrides whatever status the report has: an approval to publish, a
  rejection and a request to regenerate lead to the same status from every status. So, against the
  documented state machine, a rejected report can be published directly and a draft needs no review
  before it.\<close>

theorem decisions_ignore_current_status:
  "fst (transition_publish_status s demo_approval_review) = PStr ''published''
   \<and> fst (transition_publish_status s [(''action'', PStr ''reject'')]) = PStr ''rejected''
   \<and> fst (transition_publish_status s [(''action'', PStr ''request_regenerate'')]) = PStr ''draft''"
  by (simp add: transition_publish_status_def demo_approval_review_def Let_def)

text \<open>A report of a high-sensitivity skill is never released automatically: whatever its claims, its
  policy and the configured thresholds, evaluation returns \<open>pending_review\<close> with a review record that
  is neither approved nor allowed to publish.\<close>

theorem high_sensitivity_needs_review:
  assumes "skill_type \<in> set HIGH_SENSITIVITY_SKILL_TYPES"
  shows "\<exists>reason rr. evaluate_review cfg render artifact publish_policy skill_type = Inr (''pending_review'', reason, rr)
    \<and> dget rr ''approved'' = PBool False \<and> dget rr ''publish_allowed'' = PBool False"
  using assms
  by (auto simp: evaluate_review_def should_require_human_review_def build_initial_human_review_result_def
      Let_def)

theorem high_sensitivity_needs_review_witness:
  "\<exists>reason rr. evaluate_review \<lparr>hc_low_confidence_threshold = None, hc_low_confidence_ratio_threshold = None\<rparr>
     (\<lambda>_. []) [] None ''hr_report'' = Inr (''pending_review'', reason, rr)
     \<and> dget rr ''approved'' = PBool False \<and> dget rr ''publish_allowed'' = PBool False"
  by (rule high_sensitivity_needs_review) (simp add: HIGH_SENSITIVITY_SKILL_TYPES_def)

text \<open>A claim with a numeric confidence and whether it counts as low.\<close>

definition scored :: "rat \<Rightarrow> pyval" where
  "scored r = PDict [(''confidence'', PFloat r)]"

lemma count_low_scored:
  "count_low thr (map scored rs) =
     Inr (length (filter (\<lambda>r. (if r = 0 then 1 else r) < thr) rs))"
  by (induction rs) (auto simp: scored_def py_or_def)

text \<open>For reports that no policy and no skill type sends to review, the outcome is decided by the
  share of claims below the confidence threshold, strictly above the ratio; but a confidence of
  exactly 0 is read as 1, so the least certain claims of all never count as uncertain.\<close>

theorem review_by_confidence:
  assumes "rs \<noteq> []" and "skill_type \<notin> set HIGH_SENSITIVITY_SKILL_TYPES"
  shows "map_sum id fst (should_require_human_review [(''claims'', PList (map scored rs))] None skill_type thr ratio_thr)
    = Inr (of_nat (length (filter (\<lambda>r. r \<noteq> 0 \<and> r < thr \<or> r = 0 \<and> 1 < thr) rs)) / of_nat (length rs) > ratio_thr)"
proof -
  have "(\<lambda>r. (if r = 0 then 1 else r) < thr) = (\<lambda>r::rat. r \<noteq> 0 \<and> r < thr \<or> r = 0 \<and> 1 < thr)" by auto
  with assms show ?thesis
    by (simp add: should_require_human_review_def count_low_scored Let_def)
qed

theorem review_by_confidence_witness:
  "map_sum id fst (should_require_human_review [(''claims'', PList (map scored [0, 0, 0]))] None ''weekly'' (7 / 10) (3 / 10))
   = Inr False"
  by (subst review_by_confidence) (simp_all add: HIGH_SENSITIVITY_SKILL_TYPES_def)

end
