(* ===== verification/Skill_Versions.thy ===== *)
theory Skill_Versions
  imports Json "HOL-Library.Product_Lexorder"
begin

text \<open>
  Version constraints of skills (the functions in front of the class in
  \<open>agent/langgraph/skills/dependency_graph.py\<close>): reading a version, the caret and tilde notations,
  and the choice of the highest version that satisfies a constraint. The optional package
  \<open>packaging\<close> is the argument \<open>pk\<close>: \<open>None\<close> when it is not installed, which selects the fall-back
  resolution. Digits are those of ASCII.
\<close>

type_synonym semver = "int \<times> int \<times> int"

section \<open>Reading versions\<close>

text \<open>\<open>s.split(c)\<close>\<close>

fun split_on :: "char \<Rightarrow> string \<Rightarrow> string list" where
  "split_on c [] = [[]]"
| "split_on c (x # xs) =
     (if x = c then [] # split_on c xs
      else (case split_on c xs of [] \<Rightarrow> [[x]] | p # ps \<Rightarrow> (x # p) # ps))"

definition leading_number :: "string \<Rightarrow> int" where
  "leading_number part =
     (let dig = takeWhile is_digit part in if dig = [] then 0 else digits_val dig)"

definition parse_semver :: "string \<Rightarrow> semver" where
  "parse_semver version =
     (case map leading_number (take 3 (split_on CHR ''.'' (strip version))) of
        [a, b, c] \<Rightarrow> (a, b, c)
      | [a, b] \<Rightarrow> (a, b, 0)
      | [a] \<Rightarrow> (a, 0, 0)
      | _ \<Rightarrow> (0, 0, 0))"

definition show_semver :: "semver \<Rightarrow> string" where
  "show_semver v =
     (case v of (a, b, c) \<Rightarrow> int_str a @ ''.'' @ int_str b @ ''.'' @ int_str c)"

definition caret_upper :: "semver \<Rightarrow> semver" where
  "caret_upper v =
     (case v of (major, minor, patch) \<Rightarrow>
        if major > 0 then (major + 1, 0, 0)
        else if minor > 0 then (major, minor + 1, 0)
        else (major, minor, patch + 1))"

definition caret_to_pep440 :: "string \<Rightarrow> string" where
  "caret_to_pep440 ver =
     (let v = parse_semver ver in ''>='' @ show_semver v @ '',<'' @ show_semver (caret_upper v))"

definition tilde_upper :: "nat \<Rightarrow> semver \<Rightarrow> semver" where
  "tilde_upper n v =
     (case v of (major, minor, patch) \<Rightarrow> if n \<ge> 2 then (major, minor + 1, 0) else (major + 1, 0, 0))"

definition tilde_to_pep440 :: "string \<Rightarrow> string" where
  "tilde_to_pep440 ver =
     (let parts = split_on CHR ''.'' (strip ver); v = parse_semver ver
      in ''>='' @ show_semver v @ '',<'' @ show_semver (tilde_upper (length parts) v))"

definition normalize_constraint :: "string \<Rightarrow> string" where
  "normalize_constraint constraint =
     (let c = strip constraint
      in if starts_with ''^'' c then caret_to_pep440 (tl c)
         else if starts_with ''~'' c then tilde_to_pep440 (tl c)
         else c)"

section \<open>Choosing a version\<close>

fun cmp :: "semver \<Rightarrow> string \<Rightarrow> semver \<Rightarrow> bool" where
  "cmp a op b =
     (if op = ''>='' then b \<le> a
      else if op = ''<='' then a \<le> b
      else if op = ''>'' then b < a
      else if op = ''<'' then a < b
      else if op = ''=='' then a = b
      else if op = ''!='' then a \<noteq> b
      else False)"

definition OPERATORS :: "string list" where
  "OPERATORS = [''>='', ''<='', ''=='', ''!='', ''>'', ''<'']"

definition parse_spec :: "string \<Rightarrow> (string \<times> semver) list" where
  "parse_spec s =
     (case find (\<lambda>op. starts_with op s) OPERATORS of
        None \<Rightarrow> []
      | Some op \<Rightarrow> [(op, parse_semver (drop (length op) s))])"

definition parse_specs :: "string \<Rightarrow> (string \<times> semver) list" where
  "parse_specs c = concat (map parse_spec (filter (\<lambda>s. s \<noteq> []) (map strip (split_on CHR '','' c))))"

text \<open>\<open>max(xs, key=f)\<close>: the first element with the greatest key.\<close>

fun max_key :: "('a \<Rightarrow> 'b::linorder) \<Rightarrow> 'a list \<Rightarrow> 'a option" where
  "max_key f [] = None"
| "max_key f (x # xs) =
     (case max_key f xs of None \<Rightarrow> Some x | Some y \<Rightarrow> if f x < f y then Some y else Some x)"

definition fallback_resolve :: "string list \<Rightarrow> string \<Rightarrow> string option" where
  "fallback_resolve available constraint =
     (let specs = parse_specs constraint
      in max_key parse_semver
           (filter (\<lambda>v. list_all (\<lambda>(op, ver). cmp (parse_semver v) op ver) specs) available))"

record packaging =
  pk_valid :: "string \<Rightarrow> bool"
  pk_le :: "string \<Rightarrow> string \<Rightarrow> bool"
  pk_spec_ok :: "string \<Rightarrow> bool"
  pk_contains :: "string \<Rightarrow> string \<Rightarrow> bool"

text \<open>The last element of the list sorted (stably) by version.\<close>

definition max_version :: "packaging option \<Rightarrow> string list \<Rightarrow> string option" where
  "max_version pk versions =
     (case pk of
        Some p \<Rightarrow>
          (case filter (pk_valid p) versions of
             [] \<Rightarrow> None
           | v # vs \<Rightarrow> Some (foldl (\<lambda>best w. if pk_le p best w then w else best) v vs))
      | None \<Rightarrow> max_key parse_semver versions)"

definition safe_contains :: "packaging \<Rightarrow> string \<Rightarrow> string \<Rightarrow> bool" where
  "safe_contains p spec v = (pk_valid p v \<and> pk_contains p spec v)"

definition resolve_version_constraint ::
    "packaging option \<Rightarrow> string list \<Rightarrow> string \<Rightarrow> string option" where
  "resolve_version_constraint pk available constraint =
     (if available = [] then None
      else
        (let c = strip (if constraint = [] then ''*'' else constraint) in
         if c = [] \<or> c = ''*'' then max_version pk available
         else
           (let pep440 = normalize_constraint c in
            case pk of
              Some p \<Rightarrow>
                if pk_spec_ok p pep440 then
                  (let candidates = filter (safe_contains p pep440) available
                   in if candidates = [] then None else max_version pk candidates)
                else None
            | None \<Rightarrow> fallback_resolve available pep440)))"

section \<open>Properties\<close>

lemma max_key_spec:
  "case max_key f xs of None \<Rightarrow> xs = [] | Some m \<Rightarrow> m \<in> set xs \<and> (\<forall>x \<in> set xs. f x \<le> f m)"
  by (induction xs) (force split: option.splits if_splits)+

text \<open>Texts made of the characters that the printed constraints use are left alone by \<open>strip\<close>.\<close>

definition plain_chars :: string where
  "plain_chars = ''0123456789.<>=''"

lemma ws_points_plain:
  "\<forall>w \<in> set ws_points. w \<noteq> [] \<and> hd w \<notin> set plain_chars \<and> last w \<notin> set plain_chars"
  by code_simp

lemma strip_front_plain:
  assumes "\<forall>w \<in> set ws. w \<noteq> [] \<and> hd w \<notin> set plain_chars" and "set s \<subseteq> set plain_chars"
  shows "strip_front ws s = s"
proof -
  have "\<not> starts_with w s" if "w \<in> set ws" for w
    using assms that by (cases w; cases s) auto
  then have "ws_front ws s = 0 \<or> s = []"
    by (simp add: ws_front_def filter_empty_conv [THEN iffD2])
  then show ?thesis by (subst strip_front.simps) (simp add: Let_def)
qed

lemma strip_plain: "set s \<subseteq> set plain_chars \<Longrightarrow> strip s = s"
proof -
  assume s: "set s \<subseteq> set plain_chars"
  have "lstrip s = s"
    unfolding lstrip_def using ws_points_plain s by (intro strip_front_plain) auto
  moreover have "strip_front (map rev ws_points) (rev s) = rev s"
    using ws_points_plain s by (intro strip_front_plain) (auto simp: hd_rev)
  ultimately show ?thesis by (simp add: strip_def)
qed

lemma nat_digits_chars: "nat_digits n \<noteq> [] \<and> set (nat_digits n) \<subseteq> set digit_chars"
proof (induction n rule: nat_digits.induct)
  case (1 n)
  have "digit_chars ! k \<in> set digit_chars" if "k < 10" for k
    using that by (intro nth_mem) (simp add: digit_chars_def)
  with 1 show ?case by (auto simp: nat_digits.simps [of n])
qed

lemma digit_val_nth: "k < 10 \<Longrightarrow> digit_val (digit_chars ! k) = int k"
proof -
  have "\<forall>k \<in> set [0..<10]. digit_val (digit_chars ! k) = int k" by code_simp
  then show "k < 10 \<Longrightarrow> digit_val (digit_chars ! k) = int k" by simp
qed

lemma digits_val_nat: "digits_val (nat_digits n) = int n"
proof (induction n rule: nat_digits.induct)
  case (1 n)
  show ?case
  proof (cases "n < 10")
    case True
    then show ?thesis by (simp add: nat_digits.simps [of n] digits_val_def digit_val_nth)
  next
    case False
    have "digits_val (nat_digits n) = 10 * digits_val (nat_digits (n div 10)) + digit_val (digit_chars ! (n mod 10))"
      using False by (simp add: nat_digits.simps [of n] digits_val_def)
    also have "\<dots> = 10 * int (n div 10) + int (n mod 10)" using 1 [OF False] by (simp add: digit_val_nth)
    also have "\<dots> = int n" by presburger
    finally show ?thesis .
  qed
qed

lemma leading_number_int_str:
  assumes "0 \<le> i" shows "leading_number (int_str i) = i"
proof -
  have tw: "takeWhile is_digit (nat_digits n) = nat_digits n" for n
    using nat_digits_chars [of n] by (auto simp: is_digit_def takeWhile_eq_all_conv)
  have "leading_number (nat_digits n) = int n" for n
    unfolding leading_number_def Let_def tw using nat_digits_chars [of n] by (simp add: digits_val_nat)
  with assms show ?thesis by (simp add: int_str_def)
qed

lemma split_on_append: "c \<notin> set p \<Longrightarrow> split_on c (p @ c # q) = p # split_on c q"
  by (induction p) auto

lemma split_on_none: "c \<notin> set p \<Longrightarrow> split_on c p = [p]"
  by (induction p) auto

definition nonneg :: "semver \<Rightarrow> bool" where
  "nonneg v \<longleftrightarrow> (case v of (a, b, c) \<Rightarrow> 0 \<le> a \<and> 0 \<le> b \<and> 0 \<le> c)"

lemma int_str_chars: "0 \<le> i \<Longrightarrow> set (int_str i) \<subseteq> set digit_chars"
  using nat_digits_chars [of "nat i"] by (simp add: int_str_def)

lemma digit_plain: "set digit_chars \<subseteq> set plain_chars" "CHR ''.'' \<notin> set digit_chars" "CHR '','' \<notin> set plain_chars"
  "CHR ''.'' \<in> set plain_chars" "CHR ''<'' \<in> set plain_chars" "CHR ''>'' \<in> set plain_chars" "CHR ''='' \<in> set plain_chars"
  by code_simp+

lemma show_semver_plain: "nonneg v \<Longrightarrow> set (show_semver v) \<subseteq> set plain_chars"
  using int_str_chars digit_plain(1,4) by (fastforce simp: nonneg_def show_semver_def split: prod.splits)

lemma show_semver_head:
  assumes "nonneg v"
  shows "\<exists>c cs. show_semver v = c # cs \<and> c \<in> set digit_chars"
proof -
  obtain a b c where v: "v = (a, b, c)" by (cases v) auto
  then have "int_str a \<noteq> []" "set (int_str a) \<subseteq> set digit_chars"
    using assms nat_digits_chars by (auto simp: nonneg_def int_str_def)
  with v show ?thesis by (cases "int_str a") (auto simp: show_semver_def)
qed

text \<open>Printing and reading a version are inverse: a version with three non-negative parts, printed
  the way the caret and tilde translations do, is read back as itself.\<close>

theorem parse_show_semver:
  assumes "nonneg v"
  shows "parse_semver (show_semver v) = v"
proof -
  obtain a b c where v: "v = (a, b, c)" "0 \<le> a" "0 \<le> b" "0 \<le> c"
    using assms by (cases v) (auto simp: nonneg_def)
  then have dot: "CHR ''.'' \<notin> set (int_str a)" "CHR ''.'' \<notin> set (int_str b)" "CHR ''.'' \<notin> set (int_str c)"
    using int_str_chars digit_plain(2) by blast+
  have "split_on CHR ''.'' (show_semver v) = [int_str a, int_str b, int_str c]"
    using v(1) dot by (simp add: show_semver_def split_on_append split_on_none)
  with v strip_plain [OF show_semver_plain [OF assms]] show ?thesis
    by (simp add: parse_semver_def leading_number_int_str)
qed

theorem parse_show_semver_witness: "parse_semver (show_semver (1, 4, 20)) = (1, 4, 20)"
  by (rule parse_show_semver) (simp add: nonneg_def)

lemma foldl_digits_nonneg: "0 \<le> n \<Longrightarrow> set ds \<subseteq> set digit_chars \<Longrightarrow> 0 \<le> foldl (\<lambda>n c. 10 * n + digit_val c) n ds"
proof (induction ds arbitrary: n)
  case (Cons c ds)
  have "\<forall>c \<in> set digit_chars. 0 \<le> digit_val c" by code_simp
  with Cons show ?case by simp
qed simp

lemma leading_number_nonneg: "0 \<le> leading_number p"
proof -
  have "set (takeWhile is_digit p) \<subseteq> set digit_chars"
    using set_takeWhileD by (force simp: is_digit_def)
  then show ?thesis by (simp add: leading_number_def digits_val_def foldl_digits_nonneg Let_def)
qed

lemma parse_semver_nonneg: "nonneg (parse_semver s)"
  by (auto simp: parse_semver_def nonneg_def split: list.splits dest!: map_eq_Cons_D intro!: leading_number_nonneg)

lemma upper_nonneg: "nonneg v \<Longrightarrow> nonneg (caret_upper v)" "nonneg v \<Longrightarrow> nonneg (tilde_upper n v)"
  by (auto simp: nonneg_def caret_upper_def tilde_upper_def split: prod.splits)

lemma parse_spec_show:
  assumes "nonneg v"
  shows "parse_spec (''>='' @ show_semver v) = [(''>='', v)]" and "parse_spec (''<'' @ show_semver v) = [(''<'', v)]"
proof -
  obtain c cs where c: "show_semver v = c # cs" "c \<in> set digit_chars" using show_semver_head [OF assms] by blast
  then have "c \<noteq> CHR ''=''" by (auto simp: digit_chars_def)
  with c parse_show_semver [OF assms]
  show "parse_spec (''>='' @ show_semver v) = [(''>='', v)]" "parse_spec (''<'' @ show_semver v) = [(''<'', v)]"
    by (simp_all add: parse_spec_def OPERATORS_def)
qed

lemma parse_specs_range:
  assumes "nonneg lo" and "nonneg hi"
  shows "parse_specs (''>='' @ show_semver lo @ '',<'' @ show_semver hi) = [(''>='', lo), (''<'', hi)]"
proof -
  have plain: "set (''>='' @ show_semver lo) \<subseteq> set plain_chars" "set (''<'' @ show_semver hi) \<subseteq> set plain_chars"
    using show_semver_plain assms digit_plain by auto
  have "split_on CHR '','' ((''>='' @ show_semver lo) @ CHR '','' # (''<'' @ show_semver hi))
      = [''>='' @ show_semver lo, ''<'' @ show_semver hi]"
    by (simp only: split_on_append [OF contra_subsetD [OF plain(1) digit_plain(3)]]
        split_on_none [OF contra_subsetD [OF plain(2) digit_plain(3)]])
  then have "parse_specs (''>='' @ show_semver lo @ '',<'' @ show_semver hi)
      = concat (map parse_spec (filter (\<lambda>s. s \<noteq> []) (map strip [''>='' @ show_semver lo, ''<'' @ show_semver hi])))"
    by (simp only: parse_specs_def append_assoc append_Cons append_Nil)
  also have "\<dots> = concat (map parse_spec [''>='' @ show_semver lo, ''<'' @ show_semver hi])"
    using strip_plain [OF plain(1)] strip_plain [OF plain(2)] by simp
  also have "\<dots> = [(''>='', lo), (''<'', hi)]"
    unfolding list.map concat.simps parse_spec_show(1) [OF assms(1)] parse_spec_show(2) [OF assms(2)] by simp
  finally show ?thesis .
qed

lemma fallback_range:
  assumes "nonneg lo" and "nonneg hi"
  shows "case fallback_resolve available (''>='' @ show_semver lo @ '',<'' @ show_semver hi) of
      None \<Rightarrow> \<forall>v \<in> set available. \<not> (lo \<le> parse_semver v \<and> parse_semver v < hi)
    | Some m \<Rightarrow> m \<in> set available \<and> lo \<le> parse_semver m \<and> parse_semver m < hi
        \<and> (\<forall>v \<in> set available. lo \<le> parse_semver v \<and> parse_semver v < hi \<longrightarrow> parse_semver v \<le> parse_semver m)"
proof -
  let ?ok = "\<lambda>v. lo \<le> parse_semver v \<and> parse_semver v < hi"
  have "fallback_resolve available (''>='' @ show_semver lo @ '',<'' @ show_semver hi)
      = max_key parse_semver (filter ?ok available)"
    unfolding fallback_resolve_def Let_def parse_specs_range [OF assms] by simp
  with max_key_spec [where f = parse_semver and xs = "filter ?ok available"] show ?thesis
    by (auto simp: filter_empty_conv split: option.splits)
qed

text \<open>The caret notation means what its documentation says. Without \<open>packaging\<close>, resolving
  \<open>^ver\<close> yields an available version from the given one up to the next breaking one (the next major
  version, for \<open>0.x\<close> the next minor, for \<open>0.0.x\<close> the next patch), no available version in that range
  is higher, and there is no result only if the range is empty.\<close>

theorem caret_resolves_to_highest_compatible:
  "case fallback_resolve available (caret_to_pep440 ver) of
     None \<Rightarrow> \<forall>v \<in> set available. \<not> (parse_semver ver \<le> parse_semver v \<and> parse_semver v < caret_upper (parse_semver ver))
   | Some m \<Rightarrow> m \<in> set available \<and> parse_semver ver \<le> parse_semver m \<and> parse_semver m < caret_upper (parse_semver ver)
       \<and> (\<forall>v \<in> set available. parse_semver ver \<le> parse_semver v \<and> parse_semver v < caret_upper (parse_semver ver)
            \<longrightarrow> parse_semver v \<le> parse_semver m)"
  unfolding caret_to_pep440_def Let_def
  by (rule fallback_range [OF parse_semver_nonneg upper_nonneg(1) [OF parse_semver_nonneg]])

theorem caret_resolves_to_highest_compatible_witness:
  "fallback_resolve [''1.3.0'', ''1.4.2'', ''2.0.0''] (caret_to_pep440 ''1.4'') = Some ''1.4.2''"
proof -
  have p: "parse_semver ''1.3.0'' = (1, 3, 0)" "parse_semver ''1.4.2'' = (1, 4, 2)"
    "parse_semver ''2.0.0'' = (2, 0, 0)" "parse_semver ''1.4'' = (1, 4, 0)"
    by code_simp+
  show ?thesis
    using caret_resolves_to_highest_compatible [of "[''1.3.0'', ''1.4.2'', ''2.0.0'']" "''1.4''"]
    by (auto simp: p caret_upper_def split: option.splits)
qed

end
