(* ===== verification/Spec2Isabelle.thy ===== *)
theory Spec2Isabelle
  imports Agent_Runs Skill_Router Policy_Engine Approval Dep_Graph Dag_Scheduler Verdict_Matrix Human_Review Skill_Versions
begin

text \<open>
  Verification of the agent core of the repository: the LangGraph agent under \<open>src/agent/langgraph\<close>. A
  question runs through a graph of nodes that share one state (\<open>graph.py\<close>, \<open>state.py\<close>, \<open>runner.py\<close>): it is
  routed to tools, their results become evidence, a gate decides about retries, a prompt is assembled,
  a language model answers, and the answer is checked, rendered and put out. A complex question may
  enter the ReAct subgraph, which calls tools in a loop under a budget, or a plan of steps, which is
  executed in layers. Reports, skills and their approval are separate components beside the graph.

  \<^bold>\<open>Conventions.\<close>
  Python values without a fixed type are the datatype \<open>pyval\<close>, dictionaries are association lists in
  insertion order (\<open>pdict\<close>), and everything that may raise returns \<open>'a res\<close>, with \<open>Inl\<close> for an exception
  (\<open>Prelude\<close>). Texts are their UTF-8 bytes, with lengths, slices and searches by code points (\<open>u_len\<close>,
  \<open>u_take\<close>, \<open>u_chars\<close>); fixed Chinese texts are written as code points (\<open>uni\<close>). \<open>float\<close> is \<open>rat\<close>: rounding
  of binary fractions is outside of the model. Log messages and reasons are templates with values
  (\<open>message\<close>). Code outside of the sources is an argument: language models, tools, verifier services,
  the tokenizer, pydantic, the packaging library, SHA-256, clocks and the tables of Unicode. Metrics,
  timings, logs and caches are left out.

  \<^bold>\<open>The main graph.\<close>
  \<^item> \<open>Agent_State\<close>: the record \<open>graph_state\<close> of the keys that some node reads or writes, the initial state
    (\<open>runner.py\<close>) and the entry node (\<open>nodes/user_question.py\<close>).
  \<^item> \<open>Regex\<close>, \<open>Pre_Filter\<close>, \<open>Rule_Router\<close>, \<open>Prompt_Manager\<close>, \<open>Llm_Router\<close>, \<open>Router_Process\<close>, \<open>Skill_Planner\<close>,
    \<open>Intent_Router\<close>, \<open>Router_Layers\<close>: the router (\<open>routers/\<close>, \<open>skills/planner_adapter.py\<close>,
    \<open>nodes/intent_router.py\<close>). \<open>Regex\<close> has the regular expressions as a backtracking matcher with its
    declarative meaning; the patterns of the pre-filter and of the rules are terms of it. \<open>Llm_Router\<close> has
    the semantic router with its circuit breaker and the planner, \<open>Router_Process\<close> the objects that the
    requests of a process share (configuration and singletons) and the schedules of several requests,
    \<open>Skill_Planner\<close> the plans made from skills. \<open>Intent_Router\<close> is the node over arbitrary layers;
    \<open>layered\<close>, \<open>full_router\<close> and \<open>skilled_router\<close> put the layers in place.
  \<^item> \<open>Skill_Governance\<close>, \<open>Skill_Recall\<close>, \<open>Skill_Resolver\<close>, \<open>Skill_Router\<close>: the choice of a skill for a question
    (\<open>skills/\<close>). \<open>Skill_Governance\<close> has the life cycle, the permissions and the canary split
    (\<open>governance.py\<close>, \<open>canary_splitter.py\<close>), \<open>Skill_Recall\<close> domains, rank fusion, the reranker and the decision
    over its ranking (\<open>router.py\<close>, \<open>reranker.py\<close>, \<open>decision_policy.py\<close>), \<open>Skill_Resolver\<close> the resolver that the
    router node calls (\<open>resolver.py\<close>, \<open>catalog.py\<close>), and \<open>Skill_Router\<close> the filter chain, the filter of a single
    card and the router over them (\<open>hard_filter.py\<close>, \<open>filters.py\<close>, \<open>router.py\<close>).
  \<^item> \<open>Tool_Nodes\<close>, \<open>Result_Aggregator\<close>, \<open>Dag_Scheduler\<close>: the tool nodes, the plan executor with its layers
    and its dispatcher, and the aggregation of results (\<open>nodes/*_tool_node.py\<close>, \<open>nodes/plan_executor.py\<close>,
    \<open>executor/\<close>).
  \<^item> \<open>Redaction\<close>, \<open>Evidence_Models\<close>, \<open>Evidence_Fusion\<close>, \<open>Token_Budget\<close>, \<open>Fusion_Node\<close>: from tool results to
    evidence (\<open>evidence/models.py\<close>, \<open>provenance.py\<close>, \<open>fusion.py\<close>, \<open>snapshot.py\<close>, \<open>token_budget.py\<close> and
    \<open>nodes/evidence_fusion.py\<close>): normalisation with redaction and provenance, replacement, quotas,
    deduplication, compression and the assembly of the context under the token budget.
  \<^item> \<open>Quality_Check\<close>: the gate and its retries (\<open>nodes/quality_check.py\<close>).
  \<^item> \<open>Prompt_Assembly\<close>: the prompts (\<open>nodes/prompt_assembly.py\<close>).
  \<^item> \<open>Enforcement\<close>, \<open>Hallucination\<close>, \<open>Answer_Ast\<close>, \<open>Answer_Nodes\<close>: configuration and modes (\<open>config.py\<close>), the
    check of the answer, the answer tree with its renderer and the stream filter
    (\<open>evidence/answer_ast.py\<close>, \<open>nodes/answer_renderer.py\<close>), and the remaining nodes.
  \<^item> \<open>Agent_Graph\<close>, \<open>Agent_Runs\<close>: nodes and edges, the step relation \<open>graph_step\<close> of the compiled graph, its
    invariant, and the theorems about runs. LangGraph keeps the declared keys only (\<open>commit\<close>); its
    recursion limit is not modelled, so a run that ends only there has no last step here.

  \<^bold>\<open>The ReAct subgraph\<close> (\<open>react/\<close>): \<open>React_Models\<close>, \<open>React_Budget\<close>, \<open>React_Policy\<close> with \<open>Skill_Policy\<close>,
  \<open>React_Step\<close> with \<open>Json\<close>, \<open>React_Executor\<close>, \<open>React_Guard\<close>, \<open>React_Loop\<close> (one pass and the loop, which ends by
  the count of model calls without fuel), \<open>React_Run\<close> (theorems about runs), \<open>React_Node\<close>.

  \<^bold>\<open>Beside the graph.\<close>
  \<open>Claims\<close>, \<open>Verdict_Matrix\<close> and \<open>Policy_Engine\<close>: claims, verdicts and the decision over them
  (\<open>evidence/claim.py\<close>, \<open>evidence/verdict_matrix.py\<close>, \<open>policy/policy_engine.py\<close>). \<open>Human_Review\<close>: publication
  of reports (\<open>tools/report/human_review.py\<close>). \<open>Approval\<close>, \<open>Dep_Graph\<close>, \<open>Skill_Versions\<close>: the approval chain
  of skills, their dependency graph and their version constraints (\<open>skills/\<close>).

  \<^bold>\<open>Interfaces.\<close>
  \<open>Interfaces\<close> has the locales: counters that a guard bounds (\<open>guarded_counter\<close>, \<open>spending_counter\<close>), operations
  that keep an invariant (\<open>step_machine\<close>) or follow a table of transitions (\<open>status_machine\<close>), step relations
  with an inductive invariant (\<open>inductive_invariant\<close>) and rule lists with a first match (\<open>ordered_rules\<close>);
  \<open>Skill_Router\<close> has the contract of a filter over cards (\<open>card_filter\<close>). Each is interpreted on the definitions of the components.

  \<^bold>\<open>What is shown.\<close>
  Termination: runs of the graph end unless they ask the user again or fall back to the web, and the
  ReAct loop ends within its budget. Invariants: counters, approval chains, evidence of a run stays with
  its tenant. Safety: only actions that passed the guard are executed (with the text that
  is sent pinned down where it is not the text that was checked), only supported claims are
  rendered, redaction leaves no telephone or identity number, enforced verification fails closed,
  publication and approval need their approvers, a resolved skill is enabled and permitted for the tenant,
  the reranker never introduces a skill, a skill is active only after review and approval. Exactness: topological order, cycle detection, layers,
  fusion of evidence and of ranks, the filter chain with its counts, quotas, version ranges, the signals of the complexity gate, the circuit breaker, the tenant that
  a model call is made for. The router with all its layers always leaves a valid decision or an exception
  of the planner, and skill plans are always schedulable. The prompts of the router are the
  built-in texts with their values in place, and the ReAct node raises exactly on malformed settings. Round
  trips of claims and decisions. Bounds of the context and of the scores. Several theorems state what the code does where that
  differs from its documentation; they are named in the findings.

  No definition has fuel but the depth-first search of \<open>Dep_Graph\<close>, whose fuel is the number of its nodes;
  that this is enough is part of its correctness.

  \<^bold>\<open>Not modelled.\<close>
  The sections of the router configuration are typed: settings of a wrong type, and patterns other than the
  built-in ones, are outside of the model. The SQL agent, citation binding and pair verification, report generation and export drive language models
  and services step by step; their results enter as arguments. The search indexes of skills and the
  construction of the catalogue rest on tokenisers and files. The
  retrieval engine, document parsing, the API server and the connectors of the surrounding system are
  mostly calls of services, numerical libraries and databases.
\<close>

end
